(* ===== verification/Prelude.thy ===== *)
theory Prelude
  imports Main "HOL-Library.Word" "HOL-Library.AList"
begin

text \<open>
  The prelude of the development: the machine types of the Go code, its error values and
  the two combinators that stand for ``if err != nil \{ return err \}'', Go maps as
  association lists, the fixed-width big-endian encodings (\<open>big.Int.FillBytes\<close>,
  \<open>big.Int.SetBytes\<close>, the array types \<open>common.Hash\<close> and \<open>common.Address\<close>), and the small
  helpers of \<^verbatim>\<open>src/pkg/utils/utils.go\<close> and \<^verbatim>\<open>src/pkg/utils/crypto.go\<close> that every component
  calls.
\<close>

section \<open>Machine types\<close>

type_synonym byte = "8 word"
type_synonym bytes = "byte list"
type_synonym uint8 = "8 word"
type_synonym uint16 = "16 word"
type_synonym uint32 = "32 word"
type_synonym uint64 = "64 word"

text \<open>\<open>common.Hash\<close> is \<open>[32]byte\<close> and \<open>common.Address\<close> is \<open>[20]byte\<close>; both are read big-endian.\<close>

type_synonym hash = "256 word"
type_synonym address = "160 word"

abbreviation MaxHash :: hash where "MaxHash \<equiv> - 1"

section \<open>Errors\<close>

text \<open>
  A Go \<open>error\<close> value: \<open>errors.New\<close>, \<open>fmt.Errorf\<close> with its numeric arguments, an error
  wrapped with a prefix, or a run-time panic (which \<open>serveQueueIteration\<close> recovers and
  turns into an error result).
\<close>

datatype go_error =
    Err string
  | Errf string "int list"
  | Wrapped string go_error
  | Panic string

type_synonym 'a res = "go_error + 'a"

named_theorems res_simps \<open>inversion rules for the error combinators\<close>

text \<open>\<open>rbind m f\<close> is ``x, err := m; if err != nil \{ return err \}; f x''.\<close>

definition rbind :: "'a res \<Rightarrow> ('a \<Rightarrow> 'b res) \<Rightarrow> 'b res" where
  "rbind m f = (case m of Inl e \<Rightarrow> Inl e | Inr x \<Rightarrow> f x)"

text \<open>\<open>ensure b e\<close> is ``if !b \{ return e \}''.\<close>

definition ensure :: "bool \<Rightarrow> go_error \<Rightarrow> unit res" where
  "ensure b e = (if b then Inr () else Inl e)"

text \<open>\<open>rwrap p m\<close> is ``fmt.Errorf("p: \%w", err)'' around a failing call.\<close>

definition rwrap :: "string \<Rightarrow> 'a res \<Rightarrow> 'a res" where
  "rwrap p m = (case m of Inl e \<Rightarrow> Inl (Wrapped p e) | Inr x \<Rightarrow> Inr x)"

text \<open>\<open>rerr e m\<close> replaces whatever error \<open>m\<close> gives by \<open>e\<close>.\<close>

definition rerr :: "go_error \<Rightarrow> 'a res \<Rightarrow> 'a res" where
  "rerr e m = (case m of Inl _ \<Rightarrow> Inl e | Inr x \<Rightarrow> Inr x)"

text \<open>A loop that fills a slice and returns at the first error.\<close>

fun rmap :: "('a \<Rightarrow> 'b res) \<Rightarrow> 'a list \<Rightarrow> 'b list res" where
  "rmap f [] = Inr []"
| "rmap f (x # xs) = rbind (f x) (\<lambda>y. rbind (rmap f xs) (\<lambda>ys. Inr (y # ys)))"

text \<open>
  A step of a handler that owns a state \<open>s\<close>: an error returns with the state as it is at
  that point, so a change made before the error stays.
\<close>

definition stry :: "'s \<Rightarrow> 'a res \<Rightarrow> ('a \<Rightarrow> 'b res \<times> 's) \<Rightarrow> 'b res \<times> 's" where
  "stry s m k = (case m of Inl e \<Rightarrow> (Inl e, s) | Inr x \<Rightarrow> k x)"

text \<open>A call that may itself change the state, followed by the rest of the handler.\<close>

definition sbind :: "'a res \<times> 's \<Rightarrow> ('s \<Rightarrow> 'a \<Rightarrow> 'b res \<times> 's) \<Rightarrow> 'b res \<times> 's" where
  "sbind c k = stry (snd c) (fst c) (k (snd c))"

lemma rbind_Inl [simp]: "rbind (Inl e) f = Inl e"
  by (simp add: rbind_def)

lemma rbind_Inr [simp]: "rbind (Inr x) f = f x"
  by (simp add: rbind_def)

lemma rbind_eq_Inr [res_simps]: "rbind m f = Inr y \<longleftrightarrow> (\<exists>x. m = Inr x \<and> f x = Inr y)"
  by (cases m) auto

lemma ensure_True [simp]: "ensure True e = Inr ()"
  by (simp add: ensure_def)

lemma ensure_False [simp]: "ensure False e = Inl e"
  by (simp add: ensure_def)

lemma ensure_eq_Inr [res_simps]: "ensure b e = Inr u \<longleftrightarrow> b"
  by (simp add: ensure_def)

lemma ensure_eq_Inl [res_simps]: "ensure b e = Inl e' \<longleftrightarrow> \<not> b \<and> e' = e"
  by (auto simp: ensure_def)

lemma rwrap_simps [simp]: "rwrap p (Inr x) = Inr x" "rwrap p (Inl e) = Inl (Wrapped p e)"
  by (simp_all add: rwrap_def)

lemma rwrap_eq_Inr [res_simps]: "rwrap p m = Inr x \<longleftrightarrow> m = Inr x"
  by (cases m) simp_all

lemma rerr_simps [simp]: "rerr e (Inr x) = Inr x" "rerr e (Inl e') = Inl e"
  by (simp_all add: rerr_def)

lemma rerr_eq_Inr [res_simps]: "rerr e m = Inr x \<longleftrightarrow> m = Inr x"
  by (cases m) simp_all

lemma stry_Inl [simp]: "stry s (Inl e) k = (Inl e, s)"
  by (simp add: stry_def)

lemma stry_Inr [simp]: "stry s (Inr x) k = k x"
  by (simp add: stry_def)

lemma stry_eq_Inr [res_simps]:
  "stry s m k = (Inr y, s') \<longleftrightarrow> (\<exists>x. m = Inr x \<and> k x = (Inr y, s'))"
  by (cases m) auto

lemma fst_stry_eq_Inr [res_simps]:
  "fst (stry s m k) = Inr y \<longleftrightarrow> (\<exists>x. m = Inr x \<and> fst (k x) = Inr y)"
  by (cases m) auto

lemma snd_stry: "snd (stry s m k) = (case m of Inl e \<Rightarrow> s | Inr x \<Rightarrow> snd (k x))"
  by (cases m) auto

text \<open>Inversion of a run of a handler: it stops here with an error, or goes on.\<close>

lemma stry_eq: "stry s m k = (r, s') \<longleftrightarrow> (\<exists>e. m = Inl e \<and> r = Inl e \<and> s' = s) \<or> (\<exists>x. m = Inr x \<and> k x = (r, s'))"
  by (cases m) auto

lemma sbind_eq:
  "sbind c k = (r, s') \<longleftrightarrow> (\<exists>e. c = (Inl e, s') \<and> r = Inl e) \<or> (\<exists>x s1. c = (Inr x, s1) \<and> k s1 x = (r, s'))"
  by (cases c) (auto simp: sbind_def stry_eq)

lemma rmap_eq_Inr: "rmap f xs = Inr ys \<longleftrightarrow> list_all2 (\<lambda>x y. f x = Inr y) xs ys"
proof (induction xs arbitrary: ys)
  case Nil
  then show ?case by auto
next
  case (Cons x xs)
  then show ?case by (auto simp: rbind_eq_Inr list_all2_Cons1)
qed

lemma rmap_length: "rmap f xs = Inr ys \<Longrightarrow> length ys = length xs"
  by (auto simp: rmap_eq_Inr list_all2_lengthD)

lemma rmap_nth: "rmap f xs = Inr ys \<Longrightarrow> i < length xs \<Longrightarrow> f (xs ! i) = Inr (ys ! i)"
  by (auto simp: rmap_eq_Inr list_all2_conv_all_nth)

lemma rmap_total: "(\<And>x. x \<in> set xs \<Longrightarrow> f x = Inr (g x)) \<Longrightarrow> rmap f xs = Inr (map g xs)"
  by (induction xs) auto

lemma rmap_append_Inr:
  "rmap f (xs @ ys) = rbind (rmap f xs) (\<lambda>as. rbind (rmap f ys) (\<lambda>bs. Inr (as @ bs)))"
proof (induction xs)
  case Nil
  show ?case by (cases "rmap f ys") auto
next
  case (Cons x xs)
  then show ?case
    by (cases "f x"; cases "rmap f xs"; cases "rmap f ys") auto
qed

section \<open>Fixed-width big-endian encodings\<close>

text \<open>\<open>big.Int.FillBytes\<close> on a buffer of \<open>n\<close> bytes, for a value that fits.\<close>

fun fill_bytes :: "nat \<Rightarrow> nat \<Rightarrow> bytes" where
  "fill_bytes 0 v = []"
| "fill_bytes (Suc n) v = fill_bytes n (v div 256) @ [word_of_nat v]"

text \<open>\<open>big.Int.SetBytes\<close>: the value of a big-endian byte slice.\<close>

definition nat_of_bytes :: "bytes \<Rightarrow> nat" where
  "nat_of_bytes bs = foldl (\<lambda>acc b. acc * 256 + unat b) 0 bs"

lemma nat_of_bytes_Nil [simp]: "nat_of_bytes [] = 0"
  by (simp add: nat_of_bytes_def)

lemma nat_of_bytes_snoc [simp]: "nat_of_bytes (bs @ [b]) = nat_of_bytes bs * 256 + unat b"
  by (simp add: nat_of_bytes_def)

lemma length_fill_bytes [simp]: "length (fill_bytes n v) = n"
  by (induction n arbitrary: v) auto

lemma unat_of_nat_byte: "unat (word_of_nat v :: byte) = v mod 256"
  by (simp add: unat_of_nat)

lemma nat_of_fill_bytes: "nat_of_bytes (fill_bytes n v) = v mod 256 ^ n"
proof (induction n arbitrary: v)
  case 0
  then show ?case by simp
next
  case (Suc n)
  have "nat_of_bytes (fill_bytes (Suc n) v) = (v div 256) mod 256 ^ n * 256 + v mod 256"
    by (simp add: Suc.IH unat_of_nat_byte)
  also have "\<dots> = v mod 256 ^ Suc n"
    using mod_mult2_eq [of v 256 "256 ^ n"] by simp
  finally show ?case .
qed

lemma nat_of_fill_bytes_small: "v < 256 ^ n \<Longrightarrow> nat_of_bytes (fill_bytes n v) = v"
  by (simp add: nat_of_fill_bytes)

lemma unat_byte_less: "unat (b :: byte) < 256"
  using unsigned_less [of b] by simp

lemma nat_of_bytes_bound: "nat_of_bytes bs < 256 ^ length bs"
proof (induction bs rule: rev_induct)
  case Nil
  then show ?case by simp
next
  case (snoc b bs)
  have "nat_of_bytes bs * 256 + unat b < (nat_of_bytes bs + 1) * 256"
    using unat_byte_less [of b] by simp
  also have "\<dots> \<le> 256 ^ length bs * 256"
    using snoc.IH by (intro mult_right_mono) auto
  finally show ?case by simp
qed

lemma fill_nat_of_bytes: "fill_bytes (length bs) (nat_of_bytes bs) = bs"
proof (induction bs rule: rev_induct)
  case Nil
  then show ?case by simp
next
  case (snoc b bs)
  have d: "(nat_of_bytes bs * 256 + unat b) div 256 = nat_of_bytes bs"
    using unat_byte_less [of b] by simp
  have m: "(word_of_nat (nat_of_bytes bs * 256 + unat b) :: byte) = b"
    by (rule word_unat_eq_iff [THEN iffD2])
       (use unat_byte_less [of b] in \<open>simp only: unat_of_nat_byte, simp\<close>)
  show ?case using d m snoc.IH by simp
qed

lemma nat_of_bytes_zeros [simp]: "nat_of_bytes (replicate n 0 @ bs) = nat_of_bytes bs"
proof (induction bs rule: rev_induct)
  case Nil
  have "nat_of_bytes (replicate n 0) = 0"
    by (induction n) (simp_all add: replicate_append_same [symmetric])
  then show ?case by simp
next
  case (snoc b bs)
  then show ?case by (simp add: append_assoc [symmetric] del: append_assoc)
qed

lemma fill_bytes_inj: "fill_bytes n v = fill_bytes n w \<Longrightarrow> v < 256 ^ n \<Longrightarrow> w < 256 ^ n \<Longrightarrow> v = w"
  by (metis nat_of_fill_bytes_small)

text \<open>The bytes of the array types, and \<open>common.BytesToHash\<close> (which crops from the left).\<close>

definition hash_bytes :: "hash \<Rightarrow> bytes" where
  "hash_bytes h = fill_bytes 32 (unat h)"

definition address_bytes :: "address \<Rightarrow> bytes" where
  "address_bytes a = fill_bytes 20 (unat a)"

definition BytesToHash :: "bytes \<Rightarrow> hash" where
  "BytesToHash bs = word_of_nat (nat_of_bytes bs)"

lemma length_hash_bytes [simp]: "length (hash_bytes h) = 32"
  by (simp add: hash_bytes_def)

lemma hash_unat_bound: "unat (h :: hash) < 256 ^ 32"
  using unsigned_less [of h] by simp

lemma hash_bytes_inject [simp]: "hash_bytes h = hash_bytes g \<longleftrightarrow> h = g"
  using fill_bytes_inj [OF _ hash_unat_bound hash_unat_bound, of h g]
  by (auto simp: hash_bytes_def word_unat_eq_iff)

lemma BytesToHash_hash_bytes [simp]: "BytesToHash (hash_bytes h) = h"
  by (simp add: BytesToHash_def hash_bytes_def nat_of_fill_bytes_small [OF hash_unat_bound])

lemma hash_bytes_BytesToHash: "length bs = 32 \<Longrightarrow> hash_bytes (BytesToHash bs) = bs"
proof -
  assume len: "length bs = 32"
  then have "nat_of_bytes bs < 2 ^ 256"
    using nat_of_bytes_bound [of bs] by simp
  then have "unat (word_of_nat (nat_of_bytes bs) :: hash) = nat_of_bytes bs"
    by (simp add: unat_of_nat)
  then show ?thesis
    using len fill_nat_of_bytes [of bs] by (simp add: hash_bytes_def BytesToHash_def)
qed

end
