(* ===== verification/External.thy ===== *)
theory External
  imports Prelude
begin

text \<open>
  The code outside the repository that the components call. Go-ethereum's curve and hash
  functions and filippo.io/bigmod are parameters of the model: fields of the records below,
  passed to every definition that uses them. What the code relies on is stated as
  the predicates \<open>bigmod_spec\<close>, \<open>ecies_spec\<close>, \<open>ecdsa_spec\<close> and \<open>toecdsa_spec\<close>, which theorems take as
  hypotheses and which the concrete instances at the end of the theory show to be
  satisfiable.
\<close>

section \<open>Curve keys\<close>

text \<open>
  \<open>crypto/ecdsa\<close> key values of the standard library. \<open>Curve\<close> distinguishes what
  \<open>ECDSAPubKeyToECIES\<close> tests: the two secp256k1 values of go-ethereum and any other curve.
\<close>

datatype curve = Secp256k1_S256 | Crypto_S256 | OtherCurve

record ecdsa_pub =
  pk_Curve :: curve
  pk_X :: nat
  pk_Y :: nat

record ecdsa_priv =
  sk_Pub :: ecdsa_pub
  sk_D :: nat

text \<open>The order of the secp256k1 group.\<close>

definition secp256k1_N :: nat where
  "secp256k1_N = 0xFFFFFFFFFFFFFFFFFFFFFFFFFFFFFFFEBAAEDCE6AF48A03BBFD25E8CD0364141"

section \<open>go-ethereum: crypto, accounts, ecies, common\<close>

record geth =
  Keccak256Hash :: "bytes \<Rightarrow> hash"
  TextHash :: "bytes \<Rightarrow> bytes"
  crypto_Sign :: "bytes \<Rightarrow> ecdsa_priv \<Rightarrow> bytes res"
  SigToPub :: "bytes \<Rightarrow> bytes \<Rightarrow> ecdsa_pub option res"
  PubkeyToAddress :: "ecdsa_pub \<Rightarrow> address"
  ValidateSignatureValues :: "byte \<Rightarrow> nat \<Rightarrow> nat \<Rightarrow> bool \<Rightarrow> bool"
  IsOnCurve :: "int \<Rightarrow> int \<Rightarrow> bool"
  ToECDSA :: "bytes \<Rightarrow> ecdsa_priv res"
  ScalarBaseMult :: "bytes \<Rightarrow> nat \<times> nat"
  ecies_Encrypt :: "nat \<Rightarrow> ecdsa_pub \<Rightarrow> bytes \<Rightarrow> bytes res"
  ecies_Decrypt :: "ecdsa_priv \<Rightarrow> bytes \<Rightarrow> bytes res"
  IsHexAddress :: "string \<Rightarrow> bool"
  HexToAddress :: "string \<Rightarrow> address"

definition Keccak256 :: "'a geth_scheme \<Rightarrow> bytes \<Rightarrow> bytes" where
  "Keccak256 G b = hash_bytes (Keccak256Hash G b)"

text \<open>
  ECIES: a message encrypted for a public key is recovered by the private key that has it
  (the first argument of \<open>ecies_Encrypt\<close> is the randomness read from \<open>rand.Reader\<close>). Here and below a private key is
  taken to be one whose public part belongs to it: the node gets its keys from \<open>crypto.GenerateKey\<close> and \<open>crypto.ToECDSA\<close> only.
\<close>

definition ecies_spec :: "'a geth_scheme \<Rightarrow> bool" where
  "ecies_spec G \<longleftrightarrow> (\<forall>r sk msg c. ecies_Encrypt G r (sk_Pub sk) msg = Inr c
      \<longrightarrow> ecies_Decrypt G sk c = Inr msg)"

text \<open>
  ECDSA with public-key recovery: a signature made by \<open>crypto.Sign\<close> has 65 bytes, is
  canonical (low S), and recovers a key with the signer's address, which depends on the
  coordinates of a key only.
\<close>

definition ecdsa_spec :: "'a geth_scheme \<Rightarrow> bool" where
  "ecdsa_spec G \<longleftrightarrow> (\<forall>h sk sig. crypto_Sign G h sk = Inr sig \<longrightarrow>
      length sig = 65
      \<and> ValidateSignatureValues G (sig ! 64) (nat_of_bytes (take 32 sig))
           (nat_of_bytes (take 32 (drop 32 sig))) True
      \<and> (\<exists>pk. SigToPub G h sig = Inr (Some pk)
            \<and> PubkeyToAddress G pk = PubkeyToAddress G (sk_Pub sk)))
   \<and> (\<forall>p c. PubkeyToAddress G (p\<lparr>pk_Curve := c\<rparr>) = PubkeyToAddress G p)"

text \<open>
  \<open>crypto.ToECDSA\<close> accepts 32-byte scalars between 1 and \<open>N - 1\<close> and derives the public key,
  a point of the curve, by multiplying the generator.
\<close>

definition toecdsa_spec :: "'a geth_scheme \<Rightarrow> bool" where
  "toecdsa_spec G \<longleftrightarrow> (\<forall>b k. ToECDSA G b = Inr k \<longrightarrow>
      length b = 32 \<and> nat_of_bytes b < secp256k1_N \<and> sk_D k = nat_of_bytes b
      \<and> sk_Pub k = \<lparr>pk_Curve = Crypto_S256, pk_X = fst (ScalarBaseMult G b), pk_Y = snd (ScalarBaseMult G b)\<rparr>
      \<and> pk_X (sk_Pub k) < 2 ^ 256 \<and> pk_Y (sk_Pub k) < 2 ^ 256
      \<and> IsOnCurve G (int (pk_X (sk_Pub k))) (int (pk_Y (sk_Pub k))))"

section \<open>filippo.io/bigmod\<close>

text \<open>
  Natural numbers modulo a fixed modulus. A \<open>bigmod.Nat\<close> is its value and a
  \<open>bigmod.Modulus\<close> its value; \<open>NewNat\<close>, \<open>ExpandFor\<close> and \<open>SetUint(1)\<close> only build 0 and 1.
\<close>

record bigmod =
  bm_NewModulus :: "bytes \<Rightarrow> nat res"
  bm_SetBytes :: "bytes \<Rightarrow> nat \<Rightarrow> nat res"
  bm_Bytes :: "nat \<Rightarrow> nat \<Rightarrow> bytes"
  bm_Add :: "nat \<Rightarrow> nat \<Rightarrow> nat \<Rightarrow> nat"
  bm_Sub :: "nat \<Rightarrow> nat \<Rightarrow> nat \<Rightarrow> nat"
  bm_Mul :: "nat \<Rightarrow> nat \<Rightarrow> nat \<Rightarrow> nat"
  bm_InverseVarTime :: "nat \<Rightarrow> nat \<Rightarrow> nat option"

text \<open>\<open>big.Int.BitLen\<close> and the byte width of a value.\<close>

fun BitLen :: "nat \<Rightarrow> nat" where
  "BitLen n = (if n = 0 then 0 else Suc (BitLen (n div 2)))"

declare BitLen.simps [simp del]

definition byte_size :: "nat \<Rightarrow> nat" where
  "byte_size n = (BitLen n + 7) div 8"

text \<open>
  The documented behaviour: arithmetic on reduced operands is arithmetic modulo \<open>m\<close>,
  \<open>SetBytes\<close> accepts exactly the values below \<open>m\<close>, \<open>Bytes\<close> is big-endian at the width of
  \<open>m\<close>, and \<open>InverseVarTime\<close> succeeds exactly on the units.
\<close>

definition bigmod_spec :: "'a bigmod_scheme \<Rightarrow> bool" where
  "bigmod_spec B \<longleftrightarrow>
     (\<forall>b. odd (nat_of_bytes b) \<longrightarrow> 1 < nat_of_bytes b \<longrightarrow> bm_NewModulus B b = Inr (nat_of_bytes b))
   \<and> (\<forall>b m. 1 < m \<longrightarrow> nat_of_bytes b < m \<longrightarrow> bm_SetBytes B b m = Inr (nat_of_bytes b))
   \<and> (\<forall>b m. 1 < m \<longrightarrow> \<not> nat_of_bytes b < m \<longrightarrow> (\<exists>e. bm_SetBytes B b m = Inl e))
   \<and> (\<forall>x m. 1 < m \<longrightarrow> x < m \<longrightarrow> bm_Bytes B x m = fill_bytes (byte_size m) x)
   \<and> (\<forall>x y m. 1 < m \<longrightarrow> x < m \<longrightarrow> y < m \<longrightarrow> bm_Add B x y m = (x + y) mod m)
   \<and> (\<forall>x y m. 1 < m \<longrightarrow> x < m \<longrightarrow> y < m \<longrightarrow> bm_Sub B x y m = (x + (m - y)) mod m)
   \<and> (\<forall>x y m. 1 < m \<longrightarrow> x < m \<longrightarrow> y < m \<longrightarrow> bm_Mul B x y m = (x * y) mod m)
   \<and> (\<forall>a m. 1 < m \<longrightarrow> a < m \<longrightarrow> coprime a m \<longrightarrow>
        (\<exists>x. bm_InverseVarTime B a m = Some x \<and> x < m \<and> (a * x) mod m = 1))
   \<and> (\<forall>a m. 1 < m \<longrightarrow> a < m \<longrightarrow> \<not> coprime a m \<longrightarrow> bm_InverseVarTime B a m = None)"

lemma bm_NewModulus_ok:
  "bigmod_spec B \<Longrightarrow> odd (nat_of_bytes b) \<Longrightarrow> 1 < nat_of_bytes b \<Longrightarrow>
     bm_NewModulus B b = Inr (nat_of_bytes b)"
  by (simp add: bigmod_spec_def)

lemma bm_SetBytes_ok:
  "bigmod_spec B \<Longrightarrow> 1 < m \<Longrightarrow> nat_of_bytes b < m \<Longrightarrow> bm_SetBytes B b m = Inr (nat_of_bytes b)"
  by (simp add: bigmod_spec_def)

lemma bm_SetBytes_err:
  "bigmod_spec B \<Longrightarrow> 1 < m \<Longrightarrow> \<not> nat_of_bytes b < m \<Longrightarrow> \<exists>e. bm_SetBytes B b m = Inl e"
  by (simp add: bigmod_spec_def)

lemma bm_Bytes_eq: "bigmod_spec B \<Longrightarrow> 1 < m \<Longrightarrow> x < m \<Longrightarrow> bm_Bytes B x m = fill_bytes (byte_size m) x"
  by (simp add: bigmod_spec_def)

lemma bm_Add_eq: "bigmod_spec B \<Longrightarrow> 1 < m \<Longrightarrow> x < m \<Longrightarrow> y < m \<Longrightarrow> bm_Add B x y m = (x + y) mod m"
  by (simp add: bigmod_spec_def)

lemma bm_Sub_eq: "bigmod_spec B \<Longrightarrow> 1 < m \<Longrightarrow> x < m \<Longrightarrow> y < m \<Longrightarrow> bm_Sub B x y m = (x + (m - y)) mod m"
  by (simp add: bigmod_spec_def)

lemma bm_Mul_eq: "bigmod_spec B \<Longrightarrow> 1 < m \<Longrightarrow> x < m \<Longrightarrow> y < m \<Longrightarrow> bm_Mul B x y m = (x * y) mod m"
  by (simp add: bigmod_spec_def)

lemma bm_Inverse_ok:
  "bigmod_spec B \<Longrightarrow> 1 < m \<Longrightarrow> a < m \<Longrightarrow> coprime a m \<Longrightarrow>
     \<exists>x. bm_InverseVarTime B a m = Some x \<and> x < m \<and> (a * x) mod m = 1"
  by (simp add: bigmod_spec_def)

lemma bm_Inverse_none:
  "bigmod_spec B \<Longrightarrow> 1 < m \<Longrightarrow> a < m \<Longrightarrow> \<not> coprime a m \<Longrightarrow> bm_InverseVarTime B a m = None"
  by (simp add: bigmod_spec_def)

text \<open>A reference instance, with the inverse by the extended Euclidean algorithm.\<close>

fun egcd :: "nat \<Rightarrow> nat \<Rightarrow> nat \<times> int \<times> int" where
  "egcd a b = (if b = 0 then (a, 1, 0)
     else (case egcd b (a mod b) of (g, u, v) \<Rightarrow> (g, v, u - int (a div b) * v)))"

declare egcd.simps [simp del]

lemma egcd_correct: "egcd a b = (g, u, v) \<Longrightarrow> g = gcd a b \<and> u * int a + v * int b = int g"
proof (induction a b arbitrary: g u v rule: egcd.induct)
  case (1 a b)
  show ?case
  proof (cases "b = 0")
    case True
    with "1.prems" show ?thesis by (simp add: egcd.simps)
  next
    case False
    obtain g' u' v' where r: "egcd b (a mod b) = (g', u', v')"
      by (cases "egcd b (a mod b)")
    from "1.IH" [OF False r] have IH: "g' = gcd b (a mod b)" "u' * int b + v' * int (a mod b) = int g'"
      by auto
    have "egcd a b = (g', v', u' - int (a div b) * v')"
      using False r by (simp add: egcd.simps [of a b])
    then have res: "g = g'" "u = v'" "v = u' - int (a div b) * v'"
      using "1.prems" by simp_all
    have "int a = int (a div b) * int b + int (a mod b)"
      by (simp flip: of_nat_mult of_nat_add)
    then have "u * int a + v * int b
        = v' * (int (a div b) * int b + int (a mod b)) + (u' - int (a div b) * v') * int b"
      using res by simp
    also have "\<dots> = int g"
      using IH(2) res by (simp add: algebra_simps)
    finally have "u * int a + v * int b = int g" .
    moreover have "g = gcd a b"
      using IH(1) res by (simp add: gcd_red_nat [symmetric] gcd.commute)
    ultimately show ?thesis by simp
  qed
qed

definition inverse_ref :: "nat \<Rightarrow> nat \<Rightarrow> nat option" where
  "inverse_ref a m = (case egcd a m of (g, u, v) \<Rightarrow>
     if g = 1 then Some (nat (u mod int m)) else None)"

lemma inverse_ref_None:
  assumes "\<not> coprime a m"
  shows "inverse_ref a m = None"
proof -
  obtain g u v where e: "egcd a m = (g, u, v)" by (cases "egcd a m")
  have "g \<noteq> 1" using egcd_correct [OF e] assms by (simp add: coprime_iff_gcd_eq_1)
  then show ?thesis using e by (simp add: inverse_ref_def)
qed

lemma inverse_ref_Some:
  assumes "1 < m" and "coprime a m"
  shows "\<exists>x. inverse_ref a m = Some x \<and> x < m \<and> (a * x) mod m = 1"
proof -
  obtain g u v where e: "egcd a m = (g, u, v)" by (cases "egcd a m")
  from egcd_correct [OF e] assms have g: "g = 1" and id: "u * int a + v * int m = 1"
    by (auto simp: coprime_iff_gcd_eq_1)
  let ?x = "nat (u mod int m)"
  have x: "int ?x = u mod int m" using assms by simp
  have "(int a * (u mod int m)) mod int m = (u * int a + v * int m) mod int m"
    by (simp add: mod_mult_right_eq mult.commute)
  also have "\<dots> = 1" using id assms by simp
  finally have "int ((a * ?x) mod m) = 1"
    using x by (simp add: of_nat_mod)
  moreover have "?x < m" using assms by (simp add: nat_less_iff)
  ultimately show ?thesis using e g by (simp add: inverse_ref_def)
qed

definition bigmod_ref :: bigmod where
  "bigmod_ref = \<lparr>
     bm_NewModulus = (\<lambda>b. let m = nat_of_bytes b in
        if m \<le> 1 then Inl (Err ''modulus must be above one'') else Inr m),
     bm_SetBytes = (\<lambda>b m. if nat_of_bytes b < m then Inr (nat_of_bytes b)
        else Inl (Err ''input overflows the modulus'')),
     bm_Bytes = (\<lambda>x m. fill_bytes (byte_size m) x),
     bm_Add = (\<lambda>x y m. (x + y) mod m),
     bm_Sub = (\<lambda>x y m. (x + (m - y)) mod m),
     bm_Mul = (\<lambda>x y m. (x * y) mod m),
     bm_InverseVarTime = inverse_ref \<rparr>"

lemma bigmod_ref_spec: "bigmod_spec bigmod_ref"
  unfolding bigmod_spec_def
  using inverse_ref_Some by (simp add: bigmod_ref_def inverse_ref_None Let_def)

end
