(* ===== verification/Utils.thy ===== *)
theory Utils
  imports External
begin

text \<open>
  The helper packages: \<^verbatim>\<open>src/pkg/utils/utils.go\<close>, \<^verbatim>\<open>src/pkg/utils/crypto.go\<close> and the public-key
  conversions of \<^verbatim>\<open>src/pkg/types/common.go\<close>. The lemmas say what the loops compute, that
  the key conversions round-trip, and that a signature made by \<open>Sign\<close> is accepted by
  \<open>VerifySignature\<close>.
\<close>

section \<open>Slices and names\<close>

definition Sum :: "'a::len word list \<Rightarrow> 'a word" where
  "Sum numbers = foldl (\<lambda>total num. total + num) 0 numbers"

definition SumUint64 :: "'a::len word list \<Rightarrow> uint64" where
  "SumUint64 numbers = foldl (\<lambda>total num. total + ucast num) 0 numbers"

definition ConstantSlice :: "'a \<Rightarrow> nat \<Rightarrow> 'a list" where
  "ConstantSlice val n = map (\<lambda>_. val) [0..<n]"

text \<open>The bytes of a Go string literal, and \<open>ToHash\<close>: \<open>bytes32(s)\<close>, cut at 32 and zero-padded.\<close>

definition string_bytes :: "string \<Rightarrow> bytes" where
  "string_bytes s = map of_char s"

definition ToHash :: "string \<Rightarrow> hash" where
  "ToHash s = (let b = take 32 (string_bytes s) in BytesToHash (b @ replicate (32 - length b) 0))"

fun has_duplicate :: "'a list \<Rightarrow> 'a list \<Rightarrow> bool" where
  "has_duplicate seen [] = False"
| "has_duplicate seen (a # addrs) = (if a \<in> set seen then True else has_duplicate (a # seen) addrs)"

definition HasDuplicateAddresses :: "address list \<Rightarrow> bool" where
  "HasDuplicateAddresses addrs = has_duplicate [] addrs"

lemma has_duplicate_iff: "has_duplicate seen xs \<longleftrightarrow> \<not> (distinct xs \<and> set seen \<inter> set xs = {})"
  by (induction xs arbitrary: seen) auto

lemma HasDuplicateAddresses_iff [simp]: "HasDuplicateAddresses addrs \<longleftrightarrow> \<not> distinct addrs"
  by (simp add: HasDuplicateAddresses_def has_duplicate_iff)

lemma ConstantSlice_replicate [simp]: "ConstantSlice v n = replicate n v"
  by (simp add: ConstantSlice_def map_replicate_const)

lemma foldl_word_add: "foldl (\<lambda>total num. total + f num) (a :: 'b::len word) xs = a + sum_list (map f xs)"
  by (induction xs arbitrary: a) (auto simp: add.assoc)

lemma SumUint64_sum_list: "SumUint64 xs = sum_list (map ucast xs)"
  by (simp add: SumUint64_def foldl_word_add)

text \<open>The widened sum does not wrap as long as the true total fits in 64 bits.\<close>

lemma unat_SumUint64:
  fixes xs :: "uint16 list"
  assumes "sum_list (map unat xs) < 2 ^ 64"
  shows "unat (SumUint64 xs) = sum_list (map unat xs)"
proof -
  have "sum_list (map ucast xs) = (of_nat (sum_list (map unat xs)) :: uint64)"
    by (induction xs) simp_all
  then have "SumUint64 xs = of_nat (sum_list (map unat xs))"
    by (simp only: SumUint64_sum_list)
  then show ?thesis using assms by (simp add: unat_of_nat)
qed

section \<open>Public keys\<close>

text \<open>\<open>types.PublicKey\<close>: the two 32-byte coordinates.\<close>

record PublicKey =
  px :: hash
  py :: hash

text \<open>\<open>big.Int.Bytes\<close>: the minimal big-endian encoding.\<close>

fun big_Bytes :: "nat \<Rightarrow> bytes" where
  "big_Bytes v = (if v = 0 then [] else big_Bytes (v div 256) @ [word_of_nat v])"

declare big_Bytes.simps [simp del]

text \<open>The left-padding both conversions share: ``if len(x) < 32 \{ x = append(make(32-len(x)), x...) \}''.\<close>

definition pad32 :: "bytes \<Rightarrow> bytes" where
  "pad32 b = (if length b < 32 then replicate (32 - length b) 0 @ b else b)"

definition ParsePubKey :: "'a geth_scheme \<Rightarrow> PublicKey \<Rightarrow> ecdsa_pub res" where
  "ParsePubKey G key =
     (let x = nat_of_bytes (hash_bytes (px key)); y = nat_of_bytes (hash_bytes (py key)) in
      if \<not> IsOnCurve G (int x) (int y) then Inl (Err ''invalid public key bytes'')
      else Inr \<lparr>pk_Curve = Secp256k1_S256, pk_X = x, pk_Y = y\<rparr>)"

definition ParsePubKeyBytes :: "'a geth_scheme \<Rightarrow> bytes \<Rightarrow> ecdsa_pub res" where
  "ParsePubKeyBytes G key =
     (if length key \<noteq> 64 then Inl (Err ''invalid public key should be 64 bytes long'')
      else let x = nat_of_bytes (take 32 key); y = nat_of_bytes (drop 32 key) in
      if \<not> IsOnCurve G (int x) (int y) then Inl (Err ''coordinates not on curve'')
      else Inr \<lparr>pk_Curve = Secp256k1_S256, pk_X = x, pk_Y = y\<rparr>)"

definition PubKeyToStruct :: "ecdsa_pub \<Rightarrow> PublicKey" where
  "PubKeyToStruct key =
     (let xBytes = pad32 (big_Bytes (pk_X key)); yBytes = pad32 (big_Bytes (pk_Y key)) in
      \<lparr>px = BytesToHash (take 32 xBytes), py = BytesToHash (take 32 yBytes)\<rparr>)"

definition PubKeyToBytes :: "ecdsa_pub \<Rightarrow> bytes" where
  "PubKeyToBytes key =
     (let xBytes = pad32 (big_Bytes (pk_X key)); yBytes = pad32 (big_Bytes (pk_Y key)) in
      xBytes @ yBytes)"

text \<open>A key whose coordinates fit in 32 bytes, as every point of secp256k1 does.\<close>

definition pub_fits :: "ecdsa_pub \<Rightarrow> bool" where
  "pub_fits k \<longleftrightarrow> pk_X k < 2 ^ 256 \<and> pk_Y k < 2 ^ 256"

lemma pad_big_Bytes: "v < 256 ^ n \<Longrightarrow>
    length (big_Bytes v) \<le> n \<and> replicate (n - length (big_Bytes v)) 0 @ big_Bytes v = fill_bytes n v"
proof (induction n arbitrary: v)
  case 0
  then show ?case by (simp add: big_Bytes.simps)
next
  case (Suc n)
  show ?case
  proof (cases "v = 0")
    case True
    have "fill_bytes m 0 = replicate m 0" for m
      by (induction m) (simp_all add: replicate_append_same)
    with True show ?thesis by (simp add: big_Bytes.simps del: fill_bytes.simps)
  next
    case False
    have "v div 256 < 256 ^ n"
      using Suc.prems by (simp add: less_mult_imp_div_less mult.commute)
    from Suc.IH [OF this] False show ?thesis
      by (simp add: big_Bytes.simps [of v])
  qed
qed

lemma pad32_big_Bytes: "v < 2 ^ 256 \<Longrightarrow> pad32 (big_Bytes v) = fill_bytes 32 v"
  using pad_big_Bytes [of v 32] by (auto simp: pad32_def split: if_splits)

lemma PubKeyToBytes_fill:
  "pub_fits k \<Longrightarrow> PubKeyToBytes k = fill_bytes 32 (pk_X k) @ fill_bytes 32 (pk_Y k)"
  by (simp add: PubKeyToBytes_def pub_fits_def pad32_big_Bytes Let_def)

lemma nat_of_fill_32: "v < 2 ^ 256 \<Longrightarrow> nat_of_bytes (fill_bytes 32 v) = v"
  by (rule nat_of_fill_bytes_small) simp

lemma ParsePubKeyBytes_roundtrip:
  assumes "pub_fits k" and "IsOnCurve G (int (pk_X k)) (int (pk_Y k))"
  shows "ParsePubKeyBytes G (PubKeyToBytes k) = Inr (k\<lparr>pk_Curve := Secp256k1_S256\<rparr>)"
  using assms
  by (simp add: ParsePubKeyBytes_def PubKeyToBytes_fill Let_def nat_of_fill_32 pub_fits_def)

lemma ParsePubKey_roundtrip:
  assumes "pub_fits k" and "IsOnCurve G (int (pk_X k)) (int (pk_Y k))"
  shows "ParsePubKey G (PubKeyToStruct k) = Inr (k\<lparr>pk_Curve := Secp256k1_S256\<rparr>)"
  using assms
  by (simp add: ParsePubKey_def PubKeyToStruct_def pub_fits_def pad32_big_Bytes Let_def
      hash_bytes_BytesToHash nat_of_fill_32)

text \<open>Parsing accepts points on the curve only and gives back the same coordinates.\<close>

lemma ParsePubKey_sound:
  assumes "ParsePubKey G key = Inr k"
  shows "IsOnCurve G (int (pk_X k)) (int (pk_Y k))" and "pub_fits k" and "pk_Curve k = Secp256k1_S256"
    and "PubKeyToStruct k = key"
proof -
  have bound: "nat_of_bytes (hash_bytes h) < 2 ^ 256" for h
    using nat_of_bytes_bound [of "hash_bytes h"] by simp
  have fill: "fill_bytes 32 (nat_of_bytes (hash_bytes h)) = hash_bytes h" for h
    using fill_nat_of_bytes [of "hash_bytes h"] by simp
  show "IsOnCurve G (int (pk_X k)) (int (pk_Y k))" and "pub_fits k" and "pk_Curve k = Secp256k1_S256"
    using assms bound by (auto simp: ParsePubKey_def Let_def pub_fits_def split: if_splits)
  show "PubKeyToStruct k = key"
    using assms bound
    by (auto simp: ParsePubKey_def PubKeyToStruct_def Let_def pad32_big_Bytes fill split: if_splits)
qed

definition ParsePubKeys :: "'a geth_scheme \<Rightarrow> PublicKey list \<Rightarrow> ecdsa_pub list res" where
  "ParsePubKeys G pubKeys = rmap (ParsePubKey G) pubKeys"

definition PubKeysToAddresses :: "'a geth_scheme \<Rightarrow> PublicKey list \<Rightarrow> address list res" where
  "PubKeysToAddresses G pubKeys =
     rmap (\<lambda>pubKey. rbind (ParsePubKey G pubKey) (\<lambda>parsed. Inr (PubkeyToAddress G parsed))) pubKeys"

section \<open>Signatures\<close>

definition Sign :: "'a geth_scheme \<Rightarrow> bytes \<Rightarrow> ecdsa_priv \<Rightarrow> bytes res" where
  "Sign G msgHash privKey =
     (if length msgHash \<noteq> 32 then Inl (Err ''invalid message hash length'')
      else crypto_Sign G (TextHash G msgHash) privKey)"

definition CheckCanonicalSignature :: "'a geth_scheme \<Rightarrow> bytes \<Rightarrow> unit res" where
  "CheckCanonicalSignature G signature =
     (if length signature \<noteq> 65
      then Inl (Errf ''signature must be 65 bytes, got %d'' [int (length signature)])
      else let r = nat_of_bytes (take 32 signature);
               s = nat_of_bytes (take 32 (drop 32 signature));
               v = signature ! 64 in
      if \<not> ValidateSignatureValues G v r s True
      then Inl (Err ''non-canonical signature (high-S or zero scalar)'')
      else Inr ())"

definition SignatureToSignersAddress :: "'a geth_scheme \<Rightarrow> bytes \<Rightarrow> bytes \<Rightarrow> address res" where
  "SignatureToSignersAddress G h signature =
     rbind (CheckCanonicalSignature G signature) (\<lambda>_.
     rbind (SigToPub G (TextHash G h) signature) (\<lambda>pubKey.
     case pubKey of
       None \<Rightarrow> Inl (Err ''failed to recover public key from signature'')
     | Some pk \<Rightarrow> Inr (PubkeyToAddress G pk)))"

text \<open>The voter list is \<open>None\<close> for a nil slice, which skips the membership test.\<close>

definition CheckSignature ::
  "'a geth_scheme \<Rightarrow> bytes \<Rightarrow> bytes \<Rightarrow> address list option \<Rightarrow> address res" where
  "CheckSignature G h signature voters =
     rbind (SignatureToSignersAddress G h signature) (\<lambda>addr.
     if (case voters of None \<Rightarrow> False | Some vs \<Rightarrow> addr \<notin> set vs)
     then Inl (Err ''not a voter'') else Inr addr)"

definition VerifySignature :: "'a geth_scheme \<Rightarrow> bytes \<Rightarrow> bytes \<Rightarrow> address \<Rightarrow> unit res" where
  "VerifySignature G h signature signerAddress =
     rbind (SignatureToSignersAddress G h signature) (\<lambda>addr.
     if addr \<noteq> signerAddress then Inl (Err ''signature check fail'') else Inr ())"

lemma SignatureToSignersAddress_Sign:
  assumes "ecdsa_spec G" and "Sign G h sk = Inr sig"
  shows "SignatureToSignersAddress G h sig = Inr (PubkeyToAddress G (sk_Pub sk))"
  using assms
  by (fastforce simp: ecdsa_spec_def Sign_def SignatureToSignersAddress_def CheckCanonicalSignature_def
      Let_def split: if_splits)

lemma VerifySignature_Sign:
  assumes "ecdsa_spec G" and "Sign G h sk = Inr sig"
  shows "VerifySignature G h sig (PubkeyToAddress G (sk_Pub sk)) = Inr ()"
  using SignatureToSignersAddress_Sign [OF assms] by (simp add: VerifySignature_def)

lemma VerifySignature_iff:
  "VerifySignature G h sig a = Inr () \<longleftrightarrow> SignatureToSignersAddress G h sig = Inr a"
  by (cases "SignatureToSignersAddress G h sig") (auto simp: VerifySignature_def)

lemma CheckSignature_Some:
  "CheckSignature G h sig (Some vs) = Inr a \<longleftrightarrow> SignatureToSignersAddress G h sig = Inr a \<and> a \<in> set vs"
  by (cases "SignatureToSignersAddress G h sig") (auto simp: CheckSignature_def)

section \<open>Encryption\<close>

definition ECDSAPubKeyToECIES :: "ecdsa_pub \<Rightarrow> ecdsa_pub res" where
  "ECDSAPubKeyToECIES pubKey =
     (if pk_Curve pubKey \<noteq> Secp256k1_S256 \<and> pk_Curve pubKey \<noteq> Crypto_S256
      then Inl (Err ''curve not S256'') else Inr pubKey)"

definition ECDSAPrivKeyToECIES :: "ecdsa_priv \<Rightarrow> ecdsa_priv res" where
  "ECDSAPrivKeyToECIES privKey =
     rbind (ECDSAPubKeyToECIES (sk_Pub privKey)) (\<lambda>pubKey. Inr (privKey\<lparr>sk_Pub := pubKey\<rparr>))"

definition Encrypt :: "'a geth_scheme \<Rightarrow> nat \<Rightarrow> bytes \<Rightarrow> ecdsa_pub \<Rightarrow> bytes res" where
  "Encrypt G rnd plaintext publicKey =
     rbind (ECDSAPubKeyToECIES publicKey) (\<lambda>pk. ecies_Encrypt G rnd pk plaintext)"

definition Decrypt :: "'a geth_scheme \<Rightarrow> bytes \<Rightarrow> ecdsa_priv \<Rightarrow> bytes res" where
  "Decrypt G ciphertext privateKey =
     rbind (ECDSAPrivKeyToECIES privateKey) (\<lambda>pk. ecies_Decrypt G pk ciphertext)"

lemma Decrypt_Encrypt:
  assumes "ecies_spec G" and "Encrypt G r msg (sk_Pub sk) = Inr c"
  shows "Decrypt G c sk = Inr msg"
  using assms
  by (auto simp: Encrypt_def Decrypt_def ECDSAPrivKeyToECIES_def ECDSAPubKeyToECIES_def ecies_spec_def
      split: if_splits)

end
