(* ===== verification/Vrf.thy ===== *)
theory Vrf
  imports Utils
begin

text \<open>
  The verifiable random function \<^verbatim>\<open>src/pkg/wallets/vrf/vrf.go\<close>: points and proofs with
  their format checks, the hash functions into scalars and curve points, proof generation
  with its bounded retry loop, and verification. The curve arithmetic of go-ethereum, the
  constant-time scalars of decred and the ABI packer are parameters (\<open>secp\<close>); the group
  laws that completeness relies on are \<open>curve_spec\<close> and \<open>scalar_spec\<close>; the theory
  \<open>Props_Vrf\<close> gives an instance (the curve \<open>y\<^sup>2 = x\<^sup>3 + 7\<close> over the field of 43
  elements) that has them.
\<close>

section \<open>Data\<close>

text \<open>Coordinates and scalars are \<open>*big.Int\<close>: absent when nil, and of either sign.\<close>

record Point =
  pt_X :: "int option"
  pt_Y :: "int option"

record Proof =
  pf_Gamma :: "Point option"
  pf_C :: "int option"
  pf_S :: "int option"
  pf_U :: "Point option"
  pf_CGamma :: "Point option"
  pf_V :: "Point option"
  pf_ZInv :: "int option"

text \<open>
  The library functions: \<open>secp256k1.S256()\<close> with its parameters and operations
  (\<open>ScalarMult\<close> gives \<open>None\<close> for nil coordinates), a decred \<open>ModNScalar\<close> as its value, the
  ABI packing of twelve \<open>uint256\<close>, and the JSON form of a proof.
\<close>

record secp = geth +
  S256_N :: nat
  S256_P :: nat
  S256_B :: nat
  S256_Gx :: nat
  S256_Gy :: nat
  S256_ScalarMult :: "int \<Rightarrow> int \<Rightarrow> bytes \<Rightarrow> (int \<times> int) option"
  S256_Add :: "int \<Rightarrow> int \<Rightarrow> int \<Rightarrow> int \<Rightarrow> int \<times> int"
  mns_SetBytes :: "bytes \<Rightarrow> nat \<times> bool"
  mns_Mul2 :: "nat \<Rightarrow> nat \<Rightarrow> nat"
  mns_Negate :: "nat \<Rightarrow> nat"
  mns_Add :: "nat \<Rightarrow> nat \<Rightarrow> nat"
  mns_Bytes :: "nat \<Rightarrow> bytes"
  NonceRFC6979 :: "bytes \<Rightarrow> bytes \<Rightarrow> uint32 \<Rightarrow> nat"
  abi_pack_uint256s :: "int list \<Rightarrow> bytes res"
  json_Proof :: "Proof \<Rightarrow> bytes res"
  unjson_Proof :: "bytes \<Rightarrow> Proof res"

definition mkPoint :: "int \<times> int \<Rightarrow> Point" where
  "mkPoint p = \<lparr>pt_X = Some (fst p), pt_Y = Some (snd p)\<rparr>"

definition basePoint :: "'a secp_scheme \<Rightarrow> Point" where
  "basePoint G = mkPoint (int (S256_Gx G), int (S256_Gy G))"

definition nonceIterationLimit :: nat where "nonceIterationLimit = 8"

section \<open>Validation\<close>

definition validateScalar :: "'a secp_scheme \<Rightarrow> int option \<Rightarrow> int res" where
  "validateScalar G k = (case k of
     None \<Rightarrow> Inl (Err ''scalar is nil'')
   | Some v \<Rightarrow> if v \<ge> int (S256_N G) \<or> v \<le> 0 then Inl (Err ''scalar is not in range [0, N)'') else Inr v)"

definition ValidatePoint :: "'a secp_scheme \<Rightarrow> Point option \<Rightarrow> (int \<times> int) res" where
  "ValidatePoint G p = (case p of
     None \<Rightarrow> Inl (Err ''point is nil'')
   | Some q \<Rightarrow> (case (pt_X q, pt_Y q) of
       (Some x, Some y) \<Rightarrow> if IsOnCurve G x y then Inr (x, y) else Inl (Err ''point not on curve'')
     | _ \<Rightarrow> Inl (Err ''point coordinates are nil'')))"

text \<open>The format check returns the validated fields \<open>(gamma, c, s, u, cGamma, v, zInv)\<close>.\<close>

definition validateProofFormat ::
  "'a secp_scheme \<Rightarrow> Proof \<Rightarrow>
     ((int \<times> int) \<times> int \<times> int \<times> (int \<times> int) \<times> (int \<times> int) \<times> (int \<times> int) \<times> int) res" where
  "validateProofFormat G p =
     rbind (ValidatePoint G (pf_Gamma p)) (\<lambda>gamma.
     rbind (validateScalar G (pf_C p)) (\<lambda>c.
     rbind (validateScalar G (pf_S p)) (\<lambda>s.
     rbind (ValidatePoint G (pf_U p)) (\<lambda>u.
     rbind (ValidatePoint G (pf_CGamma p)) (\<lambda>cGamma.
     rbind (ValidatePoint G (pf_V p)) (\<lambda>v.
     case pf_ZInv p of
       None \<Rightarrow> Inl (Err ''ZInv is nil'')
     | Some z \<Rightarrow>
         if z = 0 \<or> z \<ge> int (S256_P G) then Inl (Err ''ZInv is not in range [1, P)'')
         else Inr (gamma, c, s, u, cGamma, v, z)))))))"

definition validatePublicKey :: "'a secp_scheme \<Rightarrow> ecdsa_pub \<Rightarrow> unit res" where
  "validatePublicKey G pk =
     ensure (IsOnCurve G (int (pk_X pk)) (int (pk_Y pk))) (Err ''point not on curve'')"

section \<open>Scalar multiplication and addition\<close>

definition toScalar :: "'a secp_scheme \<Rightarrow> int option \<Rightarrow> nat res" where
  "toScalar G k = (case k of
     None \<Rightarrow> Inl (Err ''scalar is nil'')
   | Some v \<Rightarrow>
       if v < 0 \<or> BitLen (nat v) > 256 then Inl (Err ''scalar is not in range [0, N)'')
       else (case mns_SetBytes G (fill_bytes 32 (nat v)) of (s, overflow) \<Rightarrow>
         if overflow \<or> s = 0 then Inl (Err ''scalar is not in range [0, N)'') else Inr s))"

definition scalarMult :: "'a secp_scheme \<Rightarrow> Point \<Rightarrow> nat \<Rightarrow> Point res" where
  "scalarMult G p k =
     rbind (ValidatePoint G (Some p)) (\<lambda>(px, py).
     if k = 0 then Inl (Err ''scalar is not in range [0, N)'')
     else (case S256_ScalarMult G px py (mns_Bytes G k) of
       None \<Rightarrow> Inl (Err ''scalar multiplication failed'')
     | Some q \<Rightarrow> Inr (mkPoint q)))"

definition scalarBaseMult :: "'a secp_scheme \<Rightarrow> nat \<Rightarrow> Point res" where
  "scalarBaseMult G k = scalarMult G (basePoint G) k"

definition ScalarMult :: "'a secp_scheme \<Rightarrow> Point \<Rightarrow> int option \<Rightarrow> Point res" where
  "ScalarMult G p k = rbind (toScalar G k) (\<lambda>s. scalarMult G p s)"

definition vrf_ScalarBaseMult :: "'a secp_scheme \<Rightarrow> int option \<Rightarrow> Point res" where
  "vrf_ScalarBaseMult G k = rbind (toScalar G k) (\<lambda>s. scalarBaseMult G s)"

definition Add :: "'a secp_scheme \<Rightarrow> Point \<Rightarrow> Point \<Rightarrow> Point res" where
  "Add G p1 p2 =
     rbind (ValidatePoint G (Some p1)) (\<lambda>(x1, y1).
     rbind (ValidatePoint G (Some p2)) (\<lambda>(x2, y2).
     Inr (mkPoint (S256_Add G x1 y1 x2 y2))))"

section \<open>Hashing\<close>

text \<open>\<open>FillBytes\<close> writes the absolute value and panics when it needs more than 32 bytes.\<close>

definition encodePointCoordinates :: "int \<Rightarrow> int \<Rightarrow> bytes res" where
  "encodePointCoordinates x y =
     (if nat \<bar>x\<bar> \<ge> 256 ^ 32 \<or> nat \<bar>y\<bar> \<ge> 256 ^ 32
      then Inl (Panic ''math/big: buffer too small to fit value'')
      else Inr (fill_bytes 32 (nat \<bar>x\<bar>) @ fill_bytes 32 (nat \<bar>y\<bar>)))"

definition HashToZn :: "'a secp_scheme \<Rightarrow> bytes \<Rightarrow> int" where
  "HashToZn G msg = int (nat_of_bytes (Keccak256 G msg) mod S256_N G)"

text \<open>
  \<open>big.Int.Exp\<close> by repeated squaring, and \<open>big.Int.ModSqrt\<close> for a prime \<open>p\<close> with
  \<open>p mod 4 = 3\<close> (as that of secp256k1 is), where the root is the power \<open>(p + 1) / 4\<close>.
\<close>

fun modpow :: "nat \<Rightarrow> nat \<Rightarrow> nat \<Rightarrow> nat" where
  "modpow b e m = (if e = 0 then 1 mod m
     else let h = modpow (b * b mod m) (e div 2) m in if odd e then (b * h) mod m else h)"

declare modpow.simps [simp del]

definition ModSqrt :: "nat \<Rightarrow> nat \<Rightarrow> nat option" where
  "ModSqrt x p = (let y = modpow (x mod p) ((p + 1) div 4) p in
     if (y * y) mod p = x mod p then Some y else None)"

text \<open>The loop \<open>for range 256\<close> of \<open>HashToCurve\<close> over the current digest.\<close>

fun hash_to_curve_loop :: "'a secp_scheme \<Rightarrow> nat \<Rightarrow> bytes \<Rightarrow> Point option" where
  "hash_to_curve_loop G 0 buf = None"
| "hash_to_curve_loop G (Suc n) buf =
     (let x = nat_of_bytes buf mod S256_P G;
          x3 = (modpow x 3 (S256_P G) + S256_B G) mod S256_P G in
      case ModSqrt x3 (S256_P G) of
        Some y \<Rightarrow> Some (mkPoint (int x, int y))
      | None \<Rightarrow> hash_to_curve_loop G n (Keccak256 G buf))"

definition HashToCurve :: "'a secp_scheme \<Rightarrow> ecdsa_pub \<Rightarrow> bytes \<Rightarrow> Point option res" where
  "HashToCurve G pk msg =
     rbind (encodePointCoordinates (int (pk_X pk)) (int (pk_Y pk))) (\<lambda>coords.
     Inr (hash_to_curve_loop G 256 (Keccak256 G (coords @ msg))))"

definition point_coords :: "Point \<Rightarrow> int \<times> int" where
  "point_coords p = (the (pt_X p), the (pt_Y p))"

definition nonceRFC6979 :: "'a secp_scheme \<Rightarrow> nat \<Rightarrow> Point \<Rightarrow> nat \<Rightarrow> nat res" where
  "nonceRFC6979 G secret h iteration =
     rbind (encodePointCoordinates (fst (point_coords h)) (snd (point_coords h))) (\<lambda>coords.
     Inr (NonceRFC6979 G (mns_Bytes G secret) (Keccak256 G coords) (word_of_nat iteration)))"

definition scalarSubProduct :: "'a secp_scheme \<Rightarrow> nat \<Rightarrow> nat \<Rightarrow> int \<Rightarrow> int" where
  "scalarSubProduct G a b c =
     (let cs = fst (mns_SetBytes G (fill_bytes 32 (nat c)));
          r = mns_Add G (mns_Negate G (mns_Mul2 G b cs)) a in
      int (nat_of_bytes (mns_Bytes G r)))"

definition challenge_input ::
  "'a secp_scheme \<Rightarrow> Point \<Rightarrow> ecdsa_pub \<Rightarrow> Point \<Rightarrow> Point \<Rightarrow> Point \<Rightarrow> int list" where
  "challenge_input G h pk gamma u v =
     [int (S256_Gx G), int (S256_Gy G)]
     @ concat (map (\<lambda>p. [fst p, snd p])
         [point_coords h, (int (pk_X pk), int (pk_Y pk)), point_coords gamma, point_coords u, point_coords v])"

section \<open>Proof generation and verification\<close>

text \<open>\<open>big.Int.ModInverse\<close> by the extended Euclidean algorithm; not reached on a zero value.\<close>

definition ModInverse :: "int \<Rightarrow> nat \<Rightarrow> int option" where
  "ModInverse a p = map_option int (inverse_ref (nat (a mod int p)) p)"

text \<open>The retry loop over the nonce iterations still to try.\<close>

fun vrf_loop :: "'a secp_scheme \<Rightarrow> ecdsa_priv \<Rightarrow> nat \<Rightarrow> Point \<Rightarrow> Point \<Rightarrow> nat list \<Rightarrow> Proof res" where
  "vrf_loop G key secret h gamma [] = Inl (Err ''proof generation failed: nonce iteration limit reached'')"
| "vrf_loop G key secret h gamma (i # is) =
     rbind (nonceRFC6979 G secret h i) (\<lambda>k.
      rbind (scalarBaseMult G k) (\<lambda>u.
      rbind (scalarMult G h k) (\<lambda>v.
      rbind (abi_pack_uint256s G (challenge_input G h (sk_Pub key) gamma u v)) (\<lambda>toHash.
      let c = HashToZn G toHash;
          s = scalarSubProduct G k secret c in
      rbind (ScalarMult G gamma (Some c)) (\<lambda>cGamma.
      let denom = (fst (point_coords cGamma) - fst (point_coords v)) mod int (S256_P G) in
      if denom = 0 then vrf_loop G key secret h gamma is
      else Inr \<lparr>pf_Gamma = Some gamma, pf_C = Some c, pf_S = Some s, pf_U = Some u,
        pf_CGamma = Some cGamma, pf_V = Some v, pf_ZInv = ModInverse denom (S256_P G)\<rparr>)))))"

definition VerifiableRandomness :: "'a secp_scheme \<Rightarrow> ecdsa_priv \<Rightarrow> bytes \<Rightarrow> Proof res" where
  "VerifiableRandomness G key nonce =
     rbind (validatePublicKey G (sk_Pub key)) (\<lambda>_.
     rbind (HashToCurve G (sk_Pub key) nonce) (\<lambda>hc.
     case hc of
       None \<Rightarrow> Inl (Err ''failed to hash to curve'')
     | Some h \<Rightarrow>
         rbind (toScalar G (Some (int (sk_D key)))) (\<lambda>secret.
         rbind (scalarMult G h secret) (\<lambda>gamma.
         vrf_loop G key secret h gamma [0..<nonceIterationLimit]))))"

definition VerifyRandomness :: "'a secp_scheme \<Rightarrow> Proof \<Rightarrow> ecdsa_pub \<Rightarrow> bytes \<Rightarrow> unit res" where
  "VerifyRandomness G proof pk nonce =
     rbind (validatePublicKey G pk) (\<lambda>_.
     rbind (validateProofFormat G proof) (\<lambda>(gamma, c, s, u, cGamma, v, zInv).
     rbind (HashToCurve G pk nonce) (\<lambda>hc.
     case hc of
       None \<Rightarrow> Inl (Err ''failed to hash to curve'')
     | Some h \<Rightarrow>
         let denom = (fst cGamma - fst v) mod int (S256_P G) in
         rbind (ensure ((zInv * denom) mod int (S256_P G) = 1)
           (Err ''proof verification failed: invalid ZInv'')) (\<lambda>_.
         rbind (ScalarMult G (mkPoint (int (pk_X pk), int (pk_Y pk))) (Some c)) (\<lambda>pkToC.
         rbind (vrf_ScalarBaseMult G (Some s)) (\<lambda>gToS.
         rbind (Add G pkToC gToS) (\<lambda>expectedU.
         rbind (ensure (point_coords expectedU = u)
           (Err ''proof verification failed: invalid U witness'')) (\<lambda>_.
         rbind (ScalarMult G (mkPoint gamma) (Some c)) (\<lambda>expectedCGamma.
         rbind (ensure (point_coords expectedCGamma = cGamma)
           (Err ''proof verification failed: invalid CGamma witness'')) (\<lambda>_.
         rbind (ScalarMult G h (Some s)) (\<lambda>hToS.
         rbind (Add G expectedCGamma hToS) (\<lambda>expectedV.
         rbind (ensure (point_coords expectedV = v)
           (Err ''proof verification failed: invalid V witness'')) (\<lambda>_.
         rbind (abi_pack_uint256s G (challenge_input G h pk (mkPoint gamma) (mkPoint u) (mkPoint v))) (\<lambda>toHash.
         ensure (HashToZn G toHash = c)
           (Err ''proof verification failed: challenge hash mismatch'')))))))))))))))"

definition RandomnessFromProof :: "'a secp_scheme \<Rightarrow> Proof \<Rightarrow> hash res" where
  "RandomnessFromProof G proof =
     rbind (ValidatePoint G (pf_Gamma proof)) (\<lambda>(x, y).
     rbind (encodePointCoordinates x y) (\<lambda>coords.
     Inr (BytesToHash (Keccak256 G coords))))"

section \<open>What the libraries provide\<close>

definition smul :: "'a secp_scheme \<Rightarrow> nat \<Rightarrow> int \<times> int \<Rightarrow> (int \<times> int) option" where
  "smul G k p = S256_ScalarMult G (fst p) (snd p) (fill_bytes 32 k)"

definition on_curve :: "'a secp_scheme \<Rightarrow> int \<times> int \<Rightarrow> bool" where
  "on_curve G p = IsOnCurve G (fst p) (snd p)"

definition g_point :: "'a secp_scheme \<Rightarrow> int \<times> int" where
  "g_point G = (int (S256_Gx G), int (S256_Gy G))"

definition pk_point :: "ecdsa_pub \<Rightarrow> int \<times> int" where
  "pk_point pk = (int (pk_X pk), int (pk_Y pk))"

text \<open>Scalars are integers modulo the group order \<open>N\<close>, which is prime; nonces are non-zero.\<close>

definition scalar_spec :: "'a secp_scheme \<Rightarrow> bool" where
  "scalar_spec G \<longleftrightarrow>
     1 < S256_N G \<and> S256_N G \<le> 2 ^ 256
   \<and> (\<forall>a\<in>{0<..<S256_N G}. \<forall>b\<in>{0<..<S256_N G}. 0 < (a * b) mod S256_N G)
   \<and> (\<forall>v < 2 ^ 256. mns_SetBytes G (fill_bytes 32 v) = (v mod S256_N G, S256_N G \<le> v))
   \<and> (\<forall>a < S256_N G. mns_Bytes G a = fill_bytes 32 a)
   \<and> (\<forall>a < S256_N G. mns_Negate G a = (S256_N G - a) mod S256_N G)
   \<and> (\<forall>a < S256_N G. \<forall>b < S256_N G. mns_Mul2 G a b = (a * b) mod S256_N G)
   \<and> (\<forall>a < S256_N G. \<forall>b < S256_N G. mns_Add G a b = (a + b) mod S256_N G)
   \<and> (\<forall>x d i. NonceRFC6979 G x d i \<in> {0<..<S256_N G})"

text \<open>
  The curve is a group of order \<open>N\<close> over the field of the prime \<open>P\<close>, whose affine points are
  the solutions of the curve equation.
\<close>

definition curve_spec :: "'a secp_scheme \<Rightarrow> bool" where
  "curve_spec G \<longleftrightarrow>
     1 < S256_P G \<and> S256_P G \<le> 2 ^ 256
   \<and> (\<forall>a\<in>{0<..<S256_P G}. coprime a (S256_P G))
   \<and> on_curve G (g_point G)
   \<and> (\<forall>x y. x < S256_P G \<longrightarrow> y < S256_P G \<longrightarrow>
        (y * y) mod S256_P G = (x ^ 3 + S256_B G) mod S256_P G \<longrightarrow> on_curve G (int x, int y))
   \<and> (\<forall>p k. on_curve G p \<longrightarrow> k \<in> {0<..<S256_N G} \<longrightarrow> (\<exists>q. smul G k p = Some q \<and> on_curve G q))
   \<and> (\<forall>p a b q. on_curve G p \<longrightarrow> a \<in> {0<..<S256_N G} \<longrightarrow> b \<in> {0<..<S256_N G} \<longrightarrow>
        smul G b p = Some q \<longrightarrow> smul G a q = smul G ((a * b) mod S256_N G) p)
   \<and> (\<forall>p a b q r. on_curve G p \<longrightarrow> a \<in> {0<..<S256_N G} \<longrightarrow> b \<in> {0<..<S256_N G} \<longrightarrow>
        (a + b) mod S256_N G \<noteq> 0 \<longrightarrow> smul G a p = Some q \<longrightarrow> smul G b p = Some r \<longrightarrow>
        smul G ((a + b) mod S256_N G) p = Some (S256_Add G (fst q) (snd q) (fst r) (snd r)))"

section \<open>Lemmas\<close>

lemma BitLen_le: "BitLen n \<le> k \<longleftrightarrow> n < 2 ^ k"
proof (induction k arbitrary: n)
  case 0
  then show ?case by (simp add: BitLen.simps [of n])
next
  case (Suc k)
  have "BitLen n \<le> Suc k \<longleftrightarrow> n = 0 \<or> BitLen (n div 2) \<le> k"
    by (simp add: BitLen.simps [of n])
  also have "\<dots> \<longleftrightarrow> n = 0 \<or> n div 2 < 2 ^ k"
    by (simp add: Suc.IH)
  also have "\<dots> \<longleftrightarrow> n < 2 ^ Suc k"
    by auto
  finally show ?case .
qed

lemma modpow_correct: "1 < m \<Longrightarrow> modpow b e m = b ^ e mod m"
proof (induction b e m rule: modpow.induct)
  case (1 b e m)
  show ?case
  proof (cases "e = 0")
    case True
    then show ?thesis by (simp add: modpow.simps)
  next
    case False
    have IH: "modpow (b * b mod m) (e div 2) m = (b * b) ^ (e div 2) mod m"
      using "1.IH" [OF False \<open>1 < m\<close>] by (simp add: power_mod)
    have sq: "(b * b) ^ (e div 2) = b ^ (2 * (e div 2))"
      by (simp add: power_mult power2_eq_square)
    show ?thesis
    proof (cases "odd e")
      case True
      then have "b ^ e = b * b ^ (2 * (e div 2))"
        by (metis odd_two_times_div_two_succ power_Suc Suc_eq_plus1)
      with False True IH sq show ?thesis
        by (simp add: modpow.simps [of b e m] Let_def mod_mult_right_eq)
    next
      case False2: False
      have "modpow b e m = b ^ (2 * (e div 2)) mod m"
        using False False2 IH sq by (simp only: modpow.simps [of b e m] Let_def if_False)
      with False2 show ?thesis by simp
    qed
  qed
qed

lemma mkPoint_simps [simp]: "point_coords (mkPoint p) = p" "pt_X (mkPoint p) = Some (fst p)"
    "pt_Y (mkPoint p) = Some (snd p)" "mkPoint p = mkPoint q \<longleftrightarrow> p = q"
  by (auto simp: mkPoint_def point_coords_def prod_eq_iff)

lemma ValidatePoint_mkPoint [simp]:
  "ValidatePoint G (Some (mkPoint p)) = (if on_curve G p then Inr p else Inl (Err ''point not on curve''))"
  by (simp add: ValidatePoint_def on_curve_def)

lemma toScalar_eq:
  assumes "scalar_spec G"
  shows "toScalar G (Some (int v)) = Inr s \<longleftrightarrow> 0 < v \<and> v < S256_N G \<and> s = v"
proof (cases "v < 2 ^ 256")
  case True
  moreover have "\<not> BitLen v > 256" using True by (simp add: BitLen_le not_less)
  moreover have "mns_SetBytes G (fill_bytes 32 v) = (v mod S256_N G, S256_N G \<le> v)"
    using assms True by (simp add: scalar_spec_def)
  ultimately show ?thesis by (auto simp: toScalar_def)
next
  case False
  then have "\<not> BitLen v \<le> 256" by (simp only: BitLen_le simp_thms)
  moreover have "\<not> v < S256_N G" using False assms by (simp add: scalar_spec_def)
  ultimately show ?thesis by (simp add: toScalar_def)
qed

lemma scalarMult_eq:
  assumes "scalar_spec G" and "on_curve G p" and "k \<in> {0<..<S256_N G}" and "smul G k p = Some q"
  shows "scalarMult G (mkPoint p) k = Inr (mkPoint q)"
  using assms by (simp add: scalarMult_def scalar_spec_def smul_def split_def)

lemma scalarMult_Inr:
  assumes "scalar_spec G" and "k < S256_N G" and "scalarMult G p k = Inr r"
  shows "\<exists>x q. p = mkPoint x \<and> on_curve G x \<and> 0 < k \<and> smul G k x = Some q \<and> r = mkPoint q"
proof -
  from assms(3) obtain x where x: "ValidatePoint G (Some p) = Inr x"
    by (auto simp: scalarMult_def rbind_eq_Inr)
  then have p: "p = mkPoint x" "on_curve G x"
    by (auto simp: ValidatePoint_def on_curve_def mkPoint_def split: option.splits if_splits)
  with assms show ?thesis
    by (auto simp: scalarMult_def scalar_spec_def smul_def split_def split: if_splits option.splits)
qed

lemma HashToCurve_on_curve:
  assumes "curve_spec G" and "HashToCurve G pk msg = Inr (Some h)"
  shows "\<exists>x. h = mkPoint x \<and> on_curve G x"
proof -
  have P: "1 < S256_P G" using assms(1) by (simp add: curve_spec_def)
  have eqn: "on_curve G (int x, int y)" if "x < S256_P G" "y < S256_P G"
      "(y * y) mod S256_P G = (x ^ 3 + S256_B G) mod S256_P G" for x y
    using assms(1) that by (simp add: curve_spec_def)
  have "hash_to_curve_loop G n buf = Some h \<Longrightarrow> \<exists>x. h = mkPoint x \<and> on_curve G x" for n buf
  proof (induction n arbitrary: buf)
    case (Suc n)
    let ?x = "nat_of_bytes buf mod S256_P G"
    let ?x3 = "(modpow ?x 3 (S256_P G) + S256_B G) mod S256_P G"
    have x3: "?x3 = (?x ^ 3 + S256_B G) mod S256_P G"
      using modpow_correct [OF P] by (metis mod_add_left_eq mod_mod_trivial)
    show ?case
    proof (cases "ModSqrt ?x3 (S256_P G)")
      case None
      with Suc show ?thesis by (simp add: Let_def)
    next
      case (Some y)
      then have "y < S256_P G" "(y * y) mod S256_P G = ?x3"
        using P modpow_correct [OF P] by (auto simp: ModSqrt_def Let_def split: if_splits)
      then have "on_curve G (int ?x, int y)" using eqn P x3 by simp
      with Some Suc.prems show ?thesis by (auto simp: Let_def)
    qed
  qed simp
  with assms(2) show ?thesis by (auto simp: HashToCurve_def rbind_eq_Inr)
qed

lemma vrf_loop_Inr:
  assumes "scalar_spec G" and "vrf_loop G key secret h gamma is = Inr proof"
  shows "\<exists>k u v th cg. k \<in> {0<..<S256_N G} \<and> scalarBaseMult G k = Inr u \<and> scalarMult G h k = Inr v
     \<and> abi_pack_uint256s G (challenge_input G h (sk_Pub key) gamma u v) = Inr th
     \<and> ScalarMult G gamma (Some (HashToZn G th)) = Inr cg
     \<and> (fst (point_coords cg) - fst (point_coords v)) mod int (S256_P G) \<noteq> 0
     \<and> proof = \<lparr>pf_Gamma = Some gamma, pf_C = Some (HashToZn G th),
          pf_S = Some (scalarSubProduct G k secret (HashToZn G th)), pf_U = Some u, pf_CGamma = Some cg,
          pf_V = Some v, pf_ZInv = ModInverse ((fst (point_coords cg) - fst (point_coords v)) mod int (S256_P G)) (S256_P G)\<rparr>"
  using assms(2)
proof (induction "is")
  case Nil
  then show ?case by simp
next
  case (Cons i "is")
  from Cons.prems obtain k u v th cg where
      k: "nonceRFC6979 G secret h i = Inr k" and
      r: "scalarBaseMult G k = Inr u" "scalarMult G h k = Inr v"
        "abi_pack_uint256s G (challenge_input G h (sk_Pub key) gamma u v) = Inr th"
        "ScalarMult G gamma (Some (HashToZn G th)) = Inr cg"
    by (auto simp: rbind_eq_Inr Let_def)
  let ?d = "(fst (point_coords cg) - fst (point_coords v)) mod int (S256_P G)"
  have k_range: "k \<in> {0<..<S256_N G}"
    using k assms(1) by (auto simp: nonceRFC6979_def rbind_eq_Inr scalar_spec_def)
  show ?case
  proof (cases "?d = 0")
    case True
    with Cons k r show ?thesis by (simp add: Let_def)
  next
    case False
    with Cons.prems k r k_range show ?thesis by (auto simp: Let_def)
  qed
qed

text \<open>The response scalar is \<open>k - sk c\<close> modulo the group order.\<close>

lemma scalarSubProduct_sum:
  assumes "scalar_spec G" and "k < S256_N G" and "b < S256_N G" and "c < S256_N G"
  shows "\<exists>s. scalarSubProduct G k b (int c) = int s \<and> s < S256_N G
           \<and> ((c * b) mod S256_N G + s) mod S256_N G = k"
proof -
  let ?N = "S256_N G" and ?t = "(c * b) mod S256_N G"
  define s where "s = ((?N - ?t) mod ?N + k) mod ?N"
  have N: "1 < ?N" "?N \<le> 2 ^ 256" and t: "?t < ?N" using assms(1) by (auto simp: scalar_spec_def)
  have "c < 2 ^ 256" using assms(4) N by linarith
  then have "mns_SetBytes G (fill_bytes 32 c) = (c mod ?N, ?N \<le> c)"
    using assms(1) unfolding scalar_spec_def by blast
  moreover have "mns_Mul2 G b c = ?t"
    using assms by (simp add: scalar_spec_def mult.commute)
  moreover have "mns_Negate G ?t = (?N - ?t) mod ?N" "mns_Add G ((?N - ?t) mod ?N) k = s"
    using assms t N by (simp_all add: scalar_spec_def s_def)
  moreover have sN: "s < ?N" using N by (simp add: s_def)
  moreover have "mns_Bytes G s = fill_bytes 32 s"
    using assms(1) sN by (simp add: scalar_spec_def)
  moreover have "s < 2 ^ 256" using sN N by linarith
  ultimately have "scalarSubProduct G k b (int c) = int s"
    using assms(4) by (simp add: scalarSubProduct_def Let_def nat_of_fill_32)
  moreover have "(?t + s) mod ?N = k"
  proof -
    have "(?t + s) mod ?N = (?t + (?N - ?t) + k) mod ?N"
      unfolding s_def by (simp add: mod_simps add.assoc)
    also have "\<dots> = k" using t assms(2) by simp
    finally show ?thesis .
  qed
  ultimately show ?thesis using sN by blast
qed

lemma curve_closed:
  "curve_spec G \<Longrightarrow> on_curve G p \<Longrightarrow> k \<in> {0<..<S256_N G} \<Longrightarrow> \<exists>q. smul G k p = Some q \<and> on_curve G q"
  unfolding curve_spec_def by blast

lemma curve_assoc:
  "curve_spec G \<Longrightarrow> on_curve G p \<Longrightarrow> a \<in> {0<..<S256_N G} \<Longrightarrow> b \<in> {0<..<S256_N G} \<Longrightarrow>
     smul G b p = Some q \<Longrightarrow> smul G a q = smul G ((a * b) mod S256_N G) p"
  unfolding curve_spec_def by blast

lemma curve_distrib:
  "curve_spec G \<Longrightarrow> on_curve G p \<Longrightarrow> a \<in> {0<..<S256_N G} \<Longrightarrow> b \<in> {0<..<S256_N G} \<Longrightarrow>
     (a + b) mod S256_N G \<noteq> 0 \<Longrightarrow> smul G a p = Some q \<Longrightarrow> smul G b p = Some r \<Longrightarrow>
     smul G ((a + b) mod S256_N G) p = Some (S256_Add G (fst q) (snd q) (fst r) (snd r))"
  unfolding curve_spec_def by blast

text \<open>Both witness equations are this one: \<open>c (b p) + s p = k p\<close>.\<close>

lemma witness_equation:
  assumes spec: "scalar_spec G" "curve_spec G" and p: "on_curve G p"
    and range: "b \<in> {0<..<S256_N G}" "c \<in> {0<..<S256_N G}" "s \<in> {0<..<S256_N G}" "k \<in> {0<..<S256_N G}"
    and sum: "((c * b) mod S256_N G + s) mod S256_N G = k"
    and q: "smul G b p = Some q" and r: "smul G c q = Some r" and t: "smul G s p = Some t"
    and kp: "smul G k p = Some kp"
  shows "S256_Add G (fst r) (snd r) (fst t) (snd t) = kp"
proof -
  let ?a = "(c * b) mod S256_N G"
  have a: "?a \<in> {0<..<S256_N G}"
    using spec(1) range by (auto simp: scalar_spec_def)
  have "smul G ?a p = Some r"
    using curve_assoc [OF spec(2) p range(2,1) q] r by simp
  then have "smul G ((?a + s) mod S256_N G) p = Some (S256_Add G (fst r) (snd r) (fst t) (snd t))"
    using curve_distrib [OF spec(2) p a range(3) _ _ t] range(4) sum by simp
  with sum kp show ?thesis by simp
qed

lemma ModInverse_ok:
  assumes "curve_spec G" and "d mod int (S256_P G) \<noteq> 0"
  shows "\<exists>z. ModInverse (d mod int (S256_P G)) (S256_P G) = Some z \<and> 0 < z \<and> z < int (S256_P G)
           \<and> (z * (d mod int (S256_P G))) mod int (S256_P G) = 1"
proof -
  let ?P = "S256_P G" and ?a = "nat (d mod int (S256_P G))"
  have P: "1 < ?P" using assms(1) by (simp add: curve_spec_def)
  have a: "int ?a = d mod int ?P" using P by simp
  have "0 \<le> d mod int ?P" "d mod int ?P < int ?P" using P by simp_all
  then have "?a \<in> {0<..<?P}"
    using assms(2) unfolding greaterThanLessThan_iff by linarith
  then have "coprime ?a ?P" using assms(1) by (simp add: curve_spec_def)
  from inverse_ref_Some [OF P this] obtain x where
    x: "inverse_ref ?a ?P = Some x" "x < ?P" "(?a * x) mod ?P = 1" by blast
  have "x \<noteq> 0"
  proof
    assume "x = 0"
    with x(3) show False by simp
  qed
  moreover have "(int x * (d mod int ?P)) mod int ?P = 1"
    using x(3) a by (metis mult.commute of_nat_1 of_nat_mod of_nat_mult)
  ultimately show ?thesis using x P by (simp add: ModInverse_def)
qed

lemma Add_mkPoint:
  "on_curve G p \<Longrightarrow> on_curve G q \<Longrightarrow>
     Add G (mkPoint p) (mkPoint q) = Inr (mkPoint (S256_Add G (fst p) (snd p) (fst q) (snd q)))"
  by (simp add: Add_def split_def)

lemma VerifiableRandomness_Inr:
  assumes "scalar_spec G" and "VerifiableRandomness G key nonce = Inr proof"
  shows "\<exists>h gamma. validatePublicKey G (sk_Pub key) = Inr () \<and> HashToCurve G (sk_Pub key) nonce = Inr (Some h)
     \<and> sk_D key \<in> {0<..<S256_N G} \<and> scalarMult G h (sk_D key) = Inr gamma
     \<and> vrf_loop G key (sk_D key) h gamma [0..<nonceIterationLimit] = Inr proof"
  using assms(2)
  by (auto simp: VerifiableRandomness_def rbind_eq_Inr toScalar_eq [OF assms(1)] split: option.splits)

lemma ScalarMult_mkPoint:
  assumes "scalar_spec G" and "on_curve G x" and "j \<in> {0<..<S256_N G}" and "smul G j x = Some y"
  shows "ScalarMult G (mkPoint x) (Some (int j)) = Inr (mkPoint y)"
  using assms(3) scalarMult_eq [OF assms] toScalar_eq [OF assms(1), of j j] by (simp add: ScalarMult_def)

lemma ScalarBaseMult_mkPoint:
  assumes "scalar_spec G" and "on_curve G (g_point G)" and "j \<in> {0<..<S256_N G}" and "smul G j (g_point G) = Some y"
  shows "vrf_ScalarBaseMult G (Some (int j)) = Inr (mkPoint y)"
  using ScalarMult_mkPoint [OF assms]
  by (simp add: vrf_ScalarBaseMult_def ScalarMult_def scalarBaseMult_def basePoint_def g_point_def)

text \<open>What the verifier accepts, on points and scalars.\<close>

lemma VerifyRandomness_accepts:
  assumes spec: "scalar_spec G"
    and on: "on_curve G (pk_point pk)" "on_curve G (g_point G)" "on_curve G hp" "on_curve G gp" "on_curve G up" "on_curve G vp"
      "on_curve G cgp" "on_curve G pc" "on_curve G gs" "on_curve G hs"
    and cs: "c \<in> {0<..<S256_N G}" "s \<in> {0<..<S256_N G}"
    and pk: "validatePublicKey G pk = Inr ()" and hc: "HashToCurve G pk nonce = Inr (Some (mkPoint hp))"
    and mult: "smul G c (pk_point pk) = Some pc" "smul G s (g_point G) = Some gs" "smul G c gp = Some cgp" "smul G s hp = Some hs"
    and U: "S256_Add G (fst pc) (snd pc) (fst gs) (snd gs) = up" and V: "S256_Add G (fst cgp) (snd cgp) (fst hs) (snd hs) = vp"
    and z: "0 < z" "z < int (S256_P G)" "(z * ((fst cgp - fst vp) mod int (S256_P G))) mod int (S256_P G) = 1"
    and th: "abi_pack_uint256s G (challenge_input G (mkPoint hp) pk (mkPoint gp) (mkPoint up) (mkPoint vp)) = Inr th" "HashToZn G th = int c"
  shows "VerifyRandomness G \<lparr>pf_Gamma = Some (mkPoint gp), pf_C = Some (int c), pf_S = Some (int s), pf_U = Some (mkPoint up),
    pf_CGamma = Some (mkPoint cgp), pf_V = Some (mkPoint vp), pf_ZInv = Some z\<rparr> pk nonce = Inr ()"
proof -
  let ?proof = "\<lparr>pf_Gamma = Some (mkPoint gp), pf_C = Some (int c), pf_S = Some (int s), pf_U = Some (mkPoint up),
    pf_CGamma = Some (mkPoint cgp), pf_V = Some (mkPoint vp), pf_ZInv = Some z\<rparr>"
  have "validateProofFormat G ?proof = Inr (gp, int c, int s, up, cgp, vp, z)"
    using z on cs by (simp add: validateProofFormat_def validateScalar_def)
  then show ?thesis
    using pk hc z(3) U V th on ScalarMult_mkPoint [OF spec on(1) cs(1) mult(1)] ScalarBaseMult_mkPoint [OF spec on(2) cs(2) mult(2)]
      ScalarMult_mkPoint [OF spec on(4) cs(1) mult(3)] ScalarMult_mkPoint [OF spec on(3) cs(2) mult(4)]
    by (simp add: VerifyRandomness_def Add_mkPoint pk_point_def)
qed

text \<open>The parts of a proof that the prover hands out.\<close>

lemma VerifiableRandomness_parts:
  assumes "scalar_spec G" "curve_spec G" and "VerifiableRandomness G key nonce = Inr proof"
  obtains hp gp k up vp th c cgp where
    "validatePublicKey G (sk_Pub key) = Inr ()" "HashToCurve G (sk_Pub key) nonce = Inr (Some (mkPoint hp))" "on_curve G hp"
    "sk_D key \<in> {0<..<S256_N G}" "smul G (sk_D key) hp = Some gp" "k \<in> {0<..<S256_N G}" "smul G k (g_point G) = Some up" "smul G k hp = Some vp"
    "abi_pack_uint256s G (challenge_input G (mkPoint hp) (sk_Pub key) (mkPoint gp) (mkPoint up) (mkPoint vp)) = Inr th"
    "HashToZn G th = int c" "c \<in> {0<..<S256_N G}" "on_curve G gp" "smul G c gp = Some cgp" "(fst cgp - fst vp) mod int (S256_P G) \<noteq> 0"
    "proof = \<lparr>pf_Gamma = Some (mkPoint gp), pf_C = Some (int c), pf_S = Some (scalarSubProduct G k (sk_D key) (int c)), pf_U = Some (mkPoint up),
      pf_CGamma = Some (mkPoint cgp), pf_V = Some (mkPoint vp), pf_ZInv = ModInverse ((fst cgp - fst vp) mod int (S256_P G)) (S256_P G)\<rparr>"
proof -
  note spec = assms(1,2)
  let ?N = "S256_N G" and ?P = "S256_P G" and ?pk = "sk_Pub key" and ?b = "sk_D key"
  from VerifiableRandomness_Inr [OF spec(1) assms(3)] obtain h gamma where
    pk: "validatePublicKey G ?pk = Inr ()" and hc: "HashToCurve G ?pk nonce = Inr (Some h)" and
    b: "?b \<in> {0<..<?N}" and gam: "scalarMult G h ?b = Inr gamma" and
    loop: "vrf_loop G key ?b h gamma [0..<nonceIterationLimit] = Inr proof" by blast
  from HashToCurve_on_curve [OF spec(2) hc] obtain hp where h: "h = mkPoint hp" "on_curve G hp" by blast
  from scalarMult_Inr [OF spec(1) _ gam] b obtain gp where
    g: "smul G ?b hp = Some gp" "gamma = mkPoint gp" by (auto simp: h(1))
  from vrf_loop_Inr [OF spec(1) loop] obtain k u v th cg where
    k: "k \<in> {0<..<?N}" and ku: "scalarBaseMult G k = Inr u" and kv: "scalarMult G h k = Inr v" and
    th: "abi_pack_uint256s G (challenge_input G h ?pk gamma u v) = Inr th" and
    cg: "ScalarMult G gamma (Some (HashToZn G th)) = Inr cg" and
    d: "(fst (point_coords cg) - fst (point_coords v)) mod int ?P \<noteq> 0" and
    pf: "proof = \<lparr>pf_Gamma = Some gamma, pf_C = Some (HashToZn G th),
      pf_S = Some (scalarSubProduct G k ?b (HashToZn G th)), pf_U = Some u, pf_CGamma = Some cg,
      pf_V = Some v, pf_ZInv = ModInverse ((fst (point_coords cg) - fst (point_coords v)) mod int ?P) ?P\<rparr>"
    by blast
  obtain c where c: "HashToZn G th = int c" by (simp add: HashToZn_def)
  have cN: "c \<in> {0<..<?N}" and cgm: "scalarMult G gamma c = Inr cg"
    using cg by (auto simp: ScalarMult_def c rbind_eq_Inr toScalar_eq [OF spec(1)])
  from scalarMult_Inr [OF spec(1) _ cgm] cN g(2) obtain cgp where
    cgp: "smul G c gp = Some cgp" "cg = mkPoint cgp" and gon: "on_curve G gp" by auto
  from scalarMult_Inr [OF spec(1) _ kv] k obtain vp where vp: "smul G k hp = Some vp" "v = mkPoint vp" by (auto simp: h(1))
  from scalarMult_Inr [OF spec(1) _ ku [unfolded scalarBaseMult_def basePoint_def]] k obtain up where
    up: "smul G k (g_point G) = Some up" "u = mkPoint up" by (auto simp: g_point_def)
  show thesis
    using that [of hp gp k up vp th c cgp] pk hc h b g k up vp th c cN gon cgp d pf by simp
qed

text \<open>
  Completeness: a proof that the prover hands out passes the verifier for the key pair's
  public key, unless its response scalar is zero (which the prover does not test).
\<close>

lemma VerifyRandomness_complete:
  assumes spec: "scalar_spec G" "curve_spec G"
    and key: "smul G (sk_D key) (g_point G) = Some (pk_point (sk_Pub key))"
    and prove: "VerifiableRandomness G key nonce = Inr proof"
    and s0: "pf_S proof \<noteq> Some 0"
  shows "VerifyRandomness G proof (sk_Pub key) nonce = Inr ()"
proof -
  let ?N = "S256_N G" and ?pk = "sk_Pub key" and ?b = "sk_D key"
  from VerifiableRandomness_parts [OF spec prove] obtain hp gp k up vp th c cgp where
    pk: "validatePublicKey G ?pk = Inr ()" and h: "HashToCurve G ?pk nonce = Inr (Some (mkPoint hp))" "on_curve G hp" and
    b: "?b \<in> {0<..<?N}" and g: "smul G ?b hp = Some gp" and k: "k \<in> {0<..<?N}" and up: "smul G k (g_point G) = Some up" and
    vp: "smul G k hp = Some vp" and
    th: "abi_pack_uint256s G (challenge_input G (mkPoint hp) ?pk (mkPoint gp) (mkPoint up) (mkPoint vp)) = Inr th" and
    c: "HashToZn G th = int c" "c \<in> {0<..<?N}" and gon: "on_curve G gp" and cgp: "smul G c gp = Some cgp" and
    d: "(fst cgp - fst vp) mod int (S256_P G) \<noteq> 0" and
    pf: "proof = \<lparr>pf_Gamma = Some (mkPoint gp), pf_C = Some (int c), pf_S = Some (scalarSubProduct G k ?b (int c)), pf_U = Some (mkPoint up),
      pf_CGamma = Some (mkPoint cgp), pf_V = Some (mkPoint vp), pf_ZInv = ModInverse ((fst cgp - fst vp) mod int (S256_P G)) (S256_P G)\<rparr>"
    by blast
  obtain s where s: "scalarSubProduct G k ?b (int c) = int s" "s < ?N" "((c * ?b) mod ?N + s) mod ?N = k"
    using scalarSubProduct_sum [OF spec(1), of k ?b c] k b c(2) by auto
  have sN: "s \<in> {0<..<?N}" using s s0 pf by (cases "s = 0") auto
  have gen: "on_curve G (g_point G)" using spec(2) by (simp add: curve_spec_def)
  have closed: "on_curve G x \<Longrightarrow> j \<in> {0<..<?N} \<Longrightarrow> smul G j x = Some y \<Longrightarrow> on_curve G y" for x j y
    using curve_closed [OF spec(2)] by fastforce
  have pkon: "on_curve G (pk_point ?pk)" using closed [OF gen b key] .
  obtain pc where pc: "smul G c (pk_point ?pk) = Some pc" "on_curve G pc" using curve_closed [OF spec(2) pkon c(2)] by blast
  obtain gs where gs: "smul G s (g_point G) = Some gs" "on_curve G gs" using curve_closed [OF spec(2) gen sN] by blast
  obtain hs where hs: "smul G s hp = Some hs" "on_curve G hs" using curve_closed [OF spec(2) h(2) sN] by blast
  have U: "S256_Add G (fst pc) (snd pc) (fst gs) (snd gs) = up"
    by (rule witness_equation [OF spec gen b c(2) sN k s(3) key pc(1) gs(1) up])
  have V: "S256_Add G (fst cgp) (snd cgp) (fst hs) (snd hs) = vp"
    by (rule witness_equation [OF spec h(2) b c(2) sN k s(3) g cgp hs(1) vp])
  obtain z where z: "ModInverse ((fst cgp - fst vp) mod int (S256_P G)) (S256_P G) = Some z" "0 < z" "z < int (S256_P G)"
      "(z * ((fst cgp - fst vp) mod int (S256_P G))) mod int (S256_P G) = 1"
    using ModInverse_ok [OF spec(2), of "fst cgp - fst vp"] d by auto
  show ?thesis
    unfolding pf z(1) s(1)
    by (rule VerifyRandomness_accepts [OF spec(1) pkon gen h(2) gon closed [OF gen k up] closed [OF h(2) k vp] closed [OF gon c(2) cgp]
          pc(2) gs(2) hs(2) c(2) sN pk h(1) pc(1) gs(1) cgp hs(1) U V z(2-4) th c(1)])
qed

text \<open>
  The format check bounds \<open>ZInv\<close> by \<open>P\<close> from above only, so an accepted proof stays accepted
  when \<open>P\<close> is subtracted from its \<open>ZInv\<close>: the accepted value is not unique.
\<close>

lemma VerifyRandomness_ZInv_negative:
  assumes "VerifyRandomness G proof pk nonce = Inr ()" and "pf_ZInv proof = Some z" and "S256_P G > 0"
  shows "VerifyRandomness G (proof\<lparr>pf_ZInv := Some (z - int (S256_P G))\<rparr>) pk nonce = Inr ()"
proof -
  from assms(1) obtain g c s u cg v z' where
    f: "validateProofFormat G proof = Inr (g, c, s, u, cg, v, z')"
    by (auto simp: VerifyRandomness_def rbind_eq_Inr)
  then have z': "z' = z" "z \<noteq> 0" "z < int (S256_P G)"
    using assms(2) by (auto simp: validateProofFormat_def rbind_eq_Inr split: if_splits)
  have "validateProofFormat G (proof\<lparr>pf_ZInv := Some (z - int (S256_P G))\<rparr>)
      = Inr (g, c, s, u, cg, v, z - int (S256_P G))"
    using f z' assms(2,3) by (auto simp: validateProofFormat_def rbind_eq_Inr)
  moreover have "((z - int (S256_P G)) * d) mod int (S256_P G) = (z * d) mod int (S256_P G)" for d
    by (simp add: left_diff_distrib mod_diff_eq [symmetric])
  ultimately show ?thesis
    using assms(1) f z' by (simp add: VerifyRandomness_def)
qed

end
