(* ===== verification/Flare_Common.thy ===== *)
theory Flare_Common
  imports Vrf
begin

text \<open>
  The data types of the go-flare-common library that the node exchanges with the outside
  world, as records with the fields the node reads, and the library functions the node
  calls, as the fields of the parameter record \<open>flare\<close>: the ABI codecs, the operation
  identifiers, the domain-separated signing payload, the instruction hashes and the
  signing-policy codec. Nothing here models code of the repository.
\<close>

section \<open>Operation identifiers (package op)\<close>

text \<open>The constants of \<open>op.Type\<close> and \<open>op.Command\<close> that the node names, and any other value.\<close>

datatype op_type = OP_Get | OP_Policy | OP_Governance | OP_Wallet | OP_Reg | OP_FDC2 | OP_XRP
  | OP_OtherType string

datatype op_command = OP_InitializePolicy | OP_UpdatePolicy | OP_SetMachinePathList | OP_KeyInfo
  | OP_KeyProof | OP_TEEInfo | OP_TEEBackup | OP_KeyGenerate | OP_KeyDelete
  | OP_KeyDataProviderRestore | OP_KeyDataProviderRestoreTest | OP_KeyDirectBackup
  | OP_KeyDirectRestore | OP_VRF | OP_TEEAttestation | OP_Prove | OP_Pay | OP_Reissue
  | OP_OtherCommand string

section \<open>Domain separation tags (package signing)\<close>

datatype signing_tag = TEEKeyExistence | TEEKeyDirectBackup | TEEVoteHash | TEEActionResult
  | TEEMachinePathList | TEEMachineRegister | PMWKeySplit | PMWWalletBackup | TEEWalletBackup | FDC2Tag

section \<open>Instructions (package instruction)\<close>

text \<open>\<open>instruction.DataFixed\<close>; \<open>instruction.Data\<close> adds the signer's variable message.\<close>

record DataFixed =
  df_InstructionID :: hash
  df_TeeID :: address
  df_RewardEpochID :: uint32
  df_OPType :: hash
  df_OPCommand :: hash
  df_Cosigners :: "address list"
  df_CosignersThreshold :: uint64
  df_OriginalMessage :: bytes
  df_AdditionalFixedMessage :: bytes
  df_Timestamp :: uint64

section \<open>Wallet messages (package structs/wallet)\<close>

record KeyConfigConstants =
  cc_AdminsPublicKeys :: "PublicKey list"
  cc_AdminsThreshold :: uint64
  cc_Cosigners :: "address list"
  cc_CosignersThreshold :: uint64

record KeyGenerateMsg =
  kg_TeeId :: address
  kg_WalletId :: hash
  kg_KeyId :: uint64
  kg_KeyType :: hash
  kg_SigningAlgo :: hash
  kg_ConfigConstants :: KeyConfigConstants

text \<open>A \<open>*big.Int\<close> of a decoded message is \<open>None\<close> when nil.\<close>

record KeyDeleteMsg =
  kd_TeeId :: address
  kd_WalletId :: hash
  kd_KeyId :: uint64
  kd_Nonce :: "nat option"

record BackupIdMsg =
  bi_TeeId :: address
  bi_WalletId :: hash
  bi_KeyId :: uint64
  bi_KeyType :: hash
  bi_SigningAlgo :: hash
  bi_PublicKey :: bytes
  bi_RewardEpochId :: uint32
  bi_RandomNonce :: hash

record KeyDataProviderRestoreMsg =
  kr_TeePublicKey :: PublicKey
  kr_BackupId :: BackupIdMsg
  kr_Nonce :: "nat option"

record KeyDirectBackupMsg =
  db_SourceTeeId :: address
  db_WalletId :: hash
  db_KeyId :: uint64
  db_DestinationTeePublicKey :: PublicKey
  db_MachinePathListNonce :: "nat option"

record KeyDirectRestoreMsg =
  dr_BackupId :: BackupIdMsg
  dr_SourceTeeId :: address
  dr_MachinePathListNonce :: "nat option"
  dr_DestinationNonce :: "nat option"

record KeyExistence =
  ke_TeeId :: address
  ke_WalletId :: hash
  ke_KeyId :: uint64
  ke_KeyType :: hash
  ke_SigningAlgo :: hash
  ke_PublicKey :: bytes
  ke_Nonce :: nat
  ke_Restored :: bool
  ke_ConfigConstants :: KeyConfigConstants
  ke_SettingsVersion :: hash
  ke_Settings :: bytes

record MachinePath =
  mp_SourceTeeIds :: "address list"
  mp_DestinationTeeIds :: "address list"

section \<open>Attestation requests (package structs/fdc2)\<close>

record Fdc2Request =
  fr_AttestationType :: hash
  fr_SourceId :: hash
  fr_ThresholdBIPS :: uint16
  fr_ProofOwner :: address
  fr_RequestBody :: bytes

section \<open>Signing policies (package policy)\<close>

text \<open>
  A voter set is seen through its methods: the voter list (\<open>None\<close> for a nil slice), the
  weight at an index, the index of an address (-1 if it is no voter) and the total weight.
\<close>

record voter_set =
  vs_Voters :: "address list option"
  vs_VoterWeight :: "nat \<Rightarrow> uint16"
  vs_VoterIndex :: "address \<Rightarrow> int"
  vs_TotalWeight :: uint16

record SigningPolicy =
  sp_RewardEpochID :: uint32
  sp_Threshold :: uint16
  sp_Voters :: voter_set

definition voters :: "SigningPolicy \<Rightarrow> address list" where
  "voters p = (case vs_Voters (sp_Voters p) of None \<Rightarrow> [] | Some vs \<Rightarrow> vs)"

section \<open>Safe approvals (package safe)\<close>

record SafeApproval =
  sa_To :: address
  sa_Operation :: uint8
  sa_Data :: bytes
  sa_Rest :: bytes

section \<open>The library functions\<close>

record flare = secp +
  HashToOPType :: "hash \<Rightarrow> op_type"
  HashToOPCommand :: "hash \<Rightarrow> op_command"
  OPType_Hash :: "op_type \<Rightarrow> hash"
  OPCommand_Hash :: "op_command \<Rightarrow> hash"
  IsValidPair :: "hash \<Rightarrow> hash \<Rightarrow> bool"
  payload_Hash :: "signing_tag \<Rightarrow> uint64 \<Rightarrow> hash \<Rightarrow> hash res"
  data_HashForSigning :: "DataFixed \<Rightarrow> bytes \<Rightarrow> uint64 \<Rightarrow> hash res"
  data_HashFixed :: "DataFixed \<Rightarrow> hash res"
  data_InitialVoteHash :: "DataFixed \<Rightarrow> hash res"
  NextVoteHash :: "hash \<Rightarrow> uint64 \<Rightarrow> bytes \<Rightarrow> bytes \<Rightarrow> uint64 \<Rightarrow> hash res"
  abi_KeyGenerate :: "bytes \<Rightarrow> KeyGenerateMsg res"
  abi_KeyDelete :: "bytes \<Rightarrow> KeyDeleteMsg res"
  abi_KeyDataProviderRestore :: "bytes \<Rightarrow> KeyDataProviderRestoreMsg res"
  abi_KeyDirectBackup :: "bytes \<Rightarrow> KeyDirectBackupMsg res"
  abi_KeyDirectRestore :: "bytes \<Rightarrow> KeyDirectRestoreMsg res"
  abi_encode_BackupId :: "BackupIdMsg \<Rightarrow> bytes res"
  abi_encode_KeyExistence :: "KeyExistence \<Rightarrow> bytes res"
  abi_decode_KeyExistence :: "bytes \<Rightarrow> KeyExistence res"
  abi_pack_KeyExistence :: "KeyExistence \<Rightarrow> bytes res"
  abi_pack_Governance :: "address list \<Rightarrow> nat \<Rightarrow> bytes res"
  abi_pack_GovernanceSafe :: "address \<Rightarrow> address \<Rightarrow> address list \<Rightarrow> uint64 \<Rightarrow> bytes res"
  abi_pack_MachinePathList :: "nat \<Rightarrow> nat \<Rightarrow> MachinePath list \<Rightarrow> bytes res"
  abi_pack_ApproveMachinePathList :: "nat \<Rightarrow> nat \<Rightarrow> hash \<Rightarrow> bytes res"
  abi_Fdc2Request :: "bytes \<Rightarrow> Fdc2Request res"
  FromRawBytes :: "bytes \<Rightarrow> SigningPolicy res"
  policy_ChainBoundHash :: "SigningPolicy \<Rightarrow> uint64 \<Rightarrow> hash"
  ChainBoundHash :: "uint64 \<Rightarrow> bytes \<Rightarrow> hash"
  Safe_Verify :: "SafeApproval \<Rightarrow> uint64 \<Rightarrow> address \<Rightarrow> address list \<Rightarrow> uint64 \<Rightarrow> unit res"

end
