(* ===== verification/Wallets.thy ===== *)
theory Wallets
  imports Flare_Common
begin

text \<open>
  The public wallet package: the wallet and its status, the request checks, signing, the
  identifiers of keys and backups and the key-existence proof
  (\<^verbatim>\<open>src/pkg/wallets/wallets.go\<close>, \<^verbatim>\<open>src/pkg/wallets/keys.go\<close>, \<^verbatim>\<open>src/pkg/wallets/signing.go\<close> and
  the limits of \<^verbatim>\<open>src/internal/settings/settings.go\<close>).
\<close>

section \<open>Constants\<close>

definition MaxAdminsPerWalletKey :: nat where "MaxAdminsPerWalletKey = 50"
definition MaxCosignersPerWalletKey :: nat where "MaxCosignersPerWalletKey = 50"
definition MaxWallets :: nat where "MaxWallets = 200000"
definition MaxPermanentWalletsStatus :: nat where "MaxPermanentWalletsStatus = 1000000"

definition EVMSignAlgo :: hash where "EVMSignAlgo = ToHash ''keccak256-secp256k1-ecdsa''"
definition VRFAlgo :: hash where "VRFAlgo = ToHash ''keccak256-secp256k1-vrf''"
definition XRPSignAlgo :: hash where "XRPSignAlgo = ToHash ''sha512half-secp256k1-ecdsa''"

definition Algos :: "hash list" where "Algos = [EVMSignAlgo, XRPSignAlgo, VRFAlgo]"

section \<open>Data\<close>

record WalletStatus =
  st_Nonce :: uint64
  st_PausingNonce :: hash
  st_StatusCode :: uint8

text \<open>
  \<open>Wallet\<close>: \<open>wallet_data\<close> holds the fields that never change after creation; a wallet that a
  caller owns (\<open>Wallet\<close>) has its own status, a stored one a reference to a shared status
  (see the theory of the storage).
\<close>

record wallet_data =
  WalletID :: hash
  KeyID :: uint64
  PrivateKey :: bytes
  KeyType :: hash
  SigningAlgo :: hash
  Restored :: bool
  AdminPublicKeys :: "ecdsa_pub list"
  AdminsThreshold :: uint64
  Cosigners :: "address list"
  CosignersThreshold :: uint64
  SettingsVersion :: hash
  Settings :: bytes

record Wallet = wallet_data +
  Status :: WalletStatus

record KeyIDPair =
  kp_WalletID :: hash
  kp_KeyID :: uint64

record WalletBackupID =
  wb_TeeID :: address
  wb_WalletID :: hash
  wb_KeyID :: uint64
  wb_PublicKey :: bytes
  wb_KeyType :: hash
  wb_SigningAlgo :: hash
  wb_RewardEpochID :: uint32
  wb_RandomNonce :: hash

record SignedKeyExistenceProof =
  sk_KeyExistence :: bytes
  sk_Signature :: bytes

text \<open>
  \<open>KeyDataProviderRestoreResultStatus\<close>; a log entry is the error whose text it holds.
\<close>

record KeyDataProviderRestoreResultStatus =
  ErrorPositions :: "nat list"
  ErrorLogs :: "go_error list"

text \<open>
  The JSON form of the values of this package (\<open>json.Marshal\<close> and \<open>json.Unmarshal\<close>, seen
  through the bytes they give) and XRPL's half SHA-512.
\<close>

record wallets_env = flare +
  json_SignedProof :: "SignedKeyExistenceProof \<Rightarrow> bytes res"
  unjson_SignedProof :: "bytes \<Rightarrow> SignedKeyExistenceProof res"
  json_KeyIDPair :: "KeyIDPair \<Rightarrow> bytes res"
  json_RestoreStatus :: "KeyDataProviderRestoreResultStatus \<Rightarrow> bytes res"
  Sha512Half :: "bytes \<Rightarrow> bytes"

definition idPair :: "'a wallet_data_scheme \<Rightarrow> KeyIDPair" where
  "idPair w = \<lparr>kp_WalletID = WalletID w, kp_KeyID = KeyID w\<rparr>"

section \<open>Decoding and checking requests\<close>

definition ParseKeyGenerate :: "'a flare_scheme \<Rightarrow> DataFixed \<Rightarrow> KeyGenerateMsg res" where
  "ParseKeyGenerate F d = abi_KeyGenerate F (df_OriginalMessage d)"

definition ValidateWalletMemberCounts :: "nat \<Rightarrow> nat \<Rightarrow> unit res" where
  "ValidateWalletMemberCounts adminCount cosignerCount =
     rbind (ensure (adminCount \<le> MaxAdminsPerWalletKey)
       (Errf ''wallet key cannot have more than %d admins'' [int MaxAdminsPerWalletKey])) (\<lambda>_.
     ensure (cosignerCount \<le> MaxCosignersPerWalletKey)
       (Errf ''wallet key cannot have more than %d cosigners'' [int MaxCosignersPerWalletKey]))"

definition CheckKeyGenerate :: "KeyGenerateMsg \<Rightarrow> address \<Rightarrow> unit res" where
  "CheckKeyGenerate req teeID =
     (let c = kg_ConfigConstants req in
      rbind (ensure (kg_TeeId req = teeID) (Err ''requested teeID does not match required'')) (\<lambda>_.
      rbind (ValidateWalletMemberCounts (length (cc_AdminsPublicKeys c)) (length (cc_Cosigners c))) (\<lambda>_.
      rbind (ensure (length (cc_AdminsPublicKeys c) \<noteq> 0) (Err ''no admin public keys'')) (\<lambda>_.
      rbind (ensure (cc_AdminsThreshold c \<noteq> 0) (Err ''admins threshold cannot be zero'')) (\<lambda>_.
      rbind (ensure (\<not> cc_AdminsThreshold c > word_of_nat (length (cc_AdminsPublicKeys c)))
        (Err ''admins threshold cannot be greater than the number of admins'')) (\<lambda>_.
      rbind (ensure (\<not> has_duplicate [] (cc_AdminsPublicKeys c))
        (Err ''admin public key list contains duplicate keys'')) (\<lambda>_.
      rbind (ensure (\<not> cc_CosignersThreshold c > word_of_nat (length (cc_Cosigners c)))
        (Err ''cosigners threshold cannot be greater than the number of cosigners'')) (\<lambda>_.
      rbind (ensure (\<not> HasDuplicateAddresses (cc_Cosigners c))
        (Err ''cosigner list contains duplicate addresses'')) (\<lambda>_.
      ensure (kg_SigningAlgo req \<in> set Algos) (Err ''signing algorithm not supported''))))))))))"

definition nonceCheck :: "nat option \<Rightarrow> nat res" where
  "nonceCheck nonce = (case nonce of
     None \<Rightarrow> Inl (Err ''nonce not given'')
   | Some n \<Rightarrow> if BitLen n > 256 then Inl (Err ''nonce too big'') else Inr n)"

definition ParseKeyDelete :: "'a flare_scheme \<Rightarrow> DataFixed \<Rightarrow> KeyDeleteMsg res" where
  "ParseKeyDelete F d =
     rbind (abi_KeyDelete F (df_OriginalMessage d)) (\<lambda>unpacked.
     rbind (nonceCheck (kd_Nonce unpacked)) (\<lambda>_. Inr unpacked))"

definition ParseKeyDataProviderRestore :: "'a flare_scheme \<Rightarrow> DataFixed \<Rightarrow> KeyDataProviderRestoreMsg res" where
  "ParseKeyDataProviderRestore F d =
     rbind (abi_KeyDataProviderRestore F (df_OriginalMessage d)) (\<lambda>unpacked.
     rbind (nonceCheck (kr_Nonce unpacked)) (\<lambda>_. Inr unpacked))"

definition ParseKeyDirectBackup :: "'a flare_scheme \<Rightarrow> DataFixed \<Rightarrow> KeyDirectBackupMsg res" where
  "ParseKeyDirectBackup F d =
     rbind (abi_KeyDirectBackup F (df_OriginalMessage d)) (\<lambda>unpacked.
     rbind (nonceCheck (db_MachinePathListNonce unpacked)) (\<lambda>_. Inr unpacked))"

definition ParseKeyDirectRestore :: "'a flare_scheme \<Rightarrow> DataFixed \<Rightarrow> KeyDirectRestoreMsg res" where
  "ParseKeyDirectRestore F d =
     rbind (abi_KeyDirectRestore F (df_OriginalMessage d)) (\<lambda>unpacked.
     rbind (nonceCheck (dr_DestinationNonce unpacked)) (\<lambda>_.
     rbind (nonceCheck (dr_MachinePathListNonce unpacked)) (\<lambda>_. Inr unpacked)))"

text \<open>\<open>big.Int.IsUint64\<close> and \<open>big.Int.Uint64\<close> on a nonce; nil is not reached after \<open>nonceCheck\<close>.\<close>

definition IsUint64 :: "nat option \<Rightarrow> bool" where
  "IsUint64 n = (case n of None \<Rightarrow> True | Some v \<Rightarrow> v < 2 ^ 64)"

definition Uint64 :: "nat option \<Rightarrow> uint64" where
  "Uint64 n = (case n of None \<Rightarrow> 0 | Some v \<Rightarrow> word_of_nat v)"

section \<open>Keys and signing\<close>

definition ToECDSAUnsafe :: "'a geth_scheme \<Rightarrow> bytes \<Rightarrow> ecdsa_priv" where
  "ToECDSAUnsafe G sk =
     (let (x, y) = ScalarBaseMult G sk in
      \<lparr>sk_Pub = \<lparr>pk_Curve = Crypto_S256, pk_X = x, pk_Y = y\<rparr>, sk_D = nat_of_bytes sk\<rparr>)"

text \<open>\<open>crypto.GenerateKey()\<close> draws a key or fails; its outcome is the argument \<open>drawn\<close>.\<close>

definition GenerateKey :: "ecdsa_priv res \<Rightarrow> hash \<Rightarrow> bytes res" where
  "GenerateKey drawn signingAlgo =
     (if signingAlgo = XRPSignAlgo \<or> signingAlgo = EVMSignAlgo \<or> signingAlgo = VRFAlgo
      then rbind drawn (\<lambda>sk. Inr (hash_bytes (word_of_nat (sk_D sk))))
      else Inl (Err ''unsupported signing algorithm''))"

definition GenerateNewKey :: "'a geth_scheme \<Rightarrow> ecdsa_priv res \<Rightarrow> KeyGenerateMsg \<Rightarrow> Wallet res" where
  "GenerateNewKey G drawn kg =
     rbind (GenerateKey drawn (kg_SigningAlgo kg)) (\<lambda>sk.
     rbind (ParsePubKeys G (cc_AdminsPublicKeys (kg_ConfigConstants kg))) (\<lambda>adminsPubKeys.
     Inr \<lparr>WalletID = kg_WalletId kg, KeyID = kg_KeyId kg, PrivateKey = sk, KeyType = kg_KeyType kg,
       SigningAlgo = kg_SigningAlgo kg, Restored = False, AdminPublicKeys = adminsPubKeys,
       AdminsThreshold = cc_AdminsThreshold (kg_ConfigConstants kg),
       Cosigners = cc_Cosigners (kg_ConfigConstants kg),
       CosignersThreshold = cc_CosignersThreshold (kg_ConfigConstants kg),
       SettingsVersion = 0, Settings = [],
       Status = \<lparr>st_Nonce = 0, st_PausingNonce = 0, st_StatusCode = 0\<rparr>\<rparr>))"

definition PubKey :: "'a geth_scheme \<Rightarrow> 'b wallet_data_scheme \<Rightarrow> bytes res" where
  "PubKey G w =
     (if SigningAlgo w = XRPSignAlgo \<or> SigningAlgo w = EVMSignAlgo \<or> SigningAlgo w = VRFAlgo
      then rbind (rwrap ''secret is not a valid secp256k1 scalar'' (ToECDSA G (PrivateKey w))) (\<lambda>prv.
        Inr (PubKeyToBytes (sk_Pub prv)))
      else Inl (Err ''unsupported signing algorithm''))"

definition KeyExistenceProof :: "'a geth_scheme \<Rightarrow> Wallet \<Rightarrow> address \<Rightarrow> KeyExistence res" where
  "KeyExistenceProof G w teeID =
     rbind (PubKey G w) (\<lambda>walletPubKey.
     Inr \<lparr>ke_TeeId = teeID, ke_WalletId = WalletID w, ke_KeyId = KeyID w, ke_KeyType = KeyType w,
       ke_SigningAlgo = SigningAlgo w, ke_PublicKey = walletPubKey, ke_Nonce = unat (st_Nonce (Status w)),
       ke_Restored = Restored w,
       ke_ConfigConstants = \<lparr>cc_AdminsPublicKeys = map PubKeyToStruct (AdminPublicKeys w),
         cc_AdminsThreshold = AdminsThreshold w, cc_Cosigners = Cosigners w,
         cc_CosignersThreshold = CosignersThreshold w\<rparr>,
       ke_SettingsVersion = SettingsVersion w, ke_Settings = Settings w\<rparr>)"

definition signSHA512HalfSecp256k1ECDSA :: "'a wallets_env_scheme \<Rightarrow> ecdsa_priv \<Rightarrow> bytes \<Rightarrow> bytes res" where
  "signSHA512HalfSecp256k1ECDSA W privateKey msg = crypto_Sign W (Sha512Half W msg) privateKey"

definition signKeccak256Secp256k1ECDSA :: "'a geth_scheme \<Rightarrow> ecdsa_priv \<Rightarrow> bytes \<Rightarrow> bytes res" where
  "signKeccak256Secp256k1ECDSA G privateKey msg = crypto_Sign G (Keccak256 G msg) privateKey"

definition signVRF :: "'a secp_scheme \<Rightarrow> ecdsa_priv \<Rightarrow> bytes \<Rightarrow> bytes res" where
  "signVRF G privateKey msg =
     rbind (VerifiableRandomness G privateKey msg) (\<lambda>signature. json_Proof G signature)"

definition Wallet_Sign :: "'a wallets_env_scheme \<Rightarrow> 'b wallet_data_scheme \<Rightarrow> bytes \<Rightarrow> bytes res" where
  "Wallet_Sign W w msg =
     (if SigningAlgo w = XRPSignAlgo then signSHA512HalfSecp256k1ECDSA W (ToECDSAUnsafe W (PrivateKey w)) msg
      else if SigningAlgo w = EVMSignAlgo then signKeccak256Secp256k1ECDSA W (ToECDSAUnsafe W (PrivateKey w)) msg
      else if SigningAlgo w = VRFAlgo then signVRF W (ToECDSAUnsafe W (PrivateKey w)) msg
      else Inl (Err ''unsupported signing algorithm''))"

text \<open>The part that the two ECDSA verifiers share, given the digest of the message.\<close>

definition verify_digest :: "'a geth_scheme \<Rightarrow> bytes \<Rightarrow> bytes \<Rightarrow> ecdsa_pub \<Rightarrow> unit res" where
  "verify_digest G msgHash signature pk =
     rbind (CheckCanonicalSignature G signature) (\<lambda>_.
     rbind (SigToPub G msgHash signature) (\<lambda>recovered.
     case recovered of
       None \<Rightarrow> Inl (Err ''signature verification failed: could not recover public key'')
     | Some r \<Rightarrow> ensure (PubkeyToAddress G r = PubkeyToAddress G pk)
         (Err ''signature verification failed: signer mismatch'')))"

definition verifySHA512HalfSecp256k1ECDSA :: "'a wallets_env_scheme \<Rightarrow> bytes \<Rightarrow> bytes \<Rightarrow> bytes \<Rightarrow> unit res" where
  "verifySHA512HalfSecp256k1ECDSA W msg signature publicKey =
     rbind (ParsePubKeyBytes W publicKey) (\<lambda>pk. verify_digest W (Sha512Half W msg) signature pk)"

definition verifyKeccak256Secp256k1ECDSA :: "'a geth_scheme \<Rightarrow> bytes \<Rightarrow> bytes \<Rightarrow> bytes \<Rightarrow> unit res" where
  "verifyKeccak256Secp256k1ECDSA G msg signature publicKey =
     rbind (ParsePubKeyBytes G publicKey) (\<lambda>pk. verify_digest G (Keccak256 G msg) signature pk)"

definition verifyVRF :: "'a secp_scheme \<Rightarrow> bytes \<Rightarrow> bytes \<Rightarrow> bytes \<Rightarrow> unit res" where
  "verifyVRF G msg signature publicKey =
     rbind (ParsePubKeyBytes G publicKey) (\<lambda>pk.
     rbind (unjson_Proof G signature) (\<lambda>proof. VerifyRandomness G proof pk msg))"

definition wallets_VerifySignature :: "'a wallets_env_scheme \<Rightarrow> bytes \<Rightarrow> bytes \<Rightarrow> bytes \<Rightarrow> hash \<Rightarrow> unit res" where
  "wallets_VerifySignature W msg signature publicKey signingAlgo =
     (if signingAlgo = XRPSignAlgo then verifySHA512HalfSecp256k1ECDSA W msg signature publicKey
      else if signingAlgo = EVMSignAlgo then verifyKeccak256Secp256k1ECDSA W msg signature publicKey
      else if signingAlgo = VRFAlgo then verifyVRF W msg signature publicKey
      else Inl (Err ''unsupported signing algorithm''))"

definition Wallet_Decrypt :: "'a geth_scheme \<Rightarrow> 'b wallet_data_scheme \<Rightarrow> bytes \<Rightarrow> bytes res" where
  "Wallet_Decrypt G w cipher =
     (if SigningAlgo w = XRPSignAlgo \<or> SigningAlgo w = EVMSignAlgo
      then Decrypt G cipher (ToECDSAUnsafe G (PrivateKey w))
      else Inl (Err ''wallet does not support decryption''))"

section \<open>Backup identifiers\<close>

definition encodeABI :: "'a flare_scheme \<Rightarrow> WalletBackupID \<Rightarrow> bytes res" where
  "encodeABI F wid = abi_encode_BackupId F
     \<lparr>bi_TeeId = wb_TeeID wid, bi_WalletId = wb_WalletID wid, bi_KeyId = wb_KeyID wid,
      bi_KeyType = wb_KeyType wid, bi_SigningAlgo = wb_SigningAlgo wid, bi_PublicKey = wb_PublicKey wid,
      bi_RewardEpochId = wb_RewardEpochID wid, bi_RandomNonce = wb_RandomNonce wid\<rparr>"

definition WalletBackupID_Equal :: "'a flare_scheme \<Rightarrow> WalletBackupID \<Rightarrow> WalletBackupID \<Rightarrow> unit res" where
  "WalletBackupID_Equal F wid w =
     rbind (encodeABI F wid) (\<lambda>widEncoded.
     rbind (encodeABI F w) (\<lambda>wEncoded.
     ensure (widEncoded = wEncoded) (Err ''wallet ids do not match'')))"

definition WalletBackupID_Hash :: "'a flare_scheme \<Rightarrow> WalletBackupID \<Rightarrow> hash res" where
  "WalletBackupID_Hash F wid = rbind (encodeABI F wid) (\<lambda>b. Inr (Keccak256Hash F b))"

section \<open>Key existence proofs\<close>

definition KeyExistenceDataHash :: "'a flare_scheme \<Rightarrow> KeyExistence \<Rightarrow> hash res" where
  "KeyExistenceDataHash F proof = rbind (abi_pack_KeyExistence F proof) (\<lambda>enc. Inr (Keccak256Hash F enc))"

definition ExtractKeyExistence :: "'a wallets_env_scheme \<Rightarrow> bytes \<Rightarrow> address \<Rightarrow> uint64 \<Rightarrow> KeyExistence res" where
  "ExtractKeyExistence W b teeID chainID =
     rbind (unjson_SignedProof W b) (\<lambda>wskep.
     rbind (abi_decode_KeyExistence W (sk_KeyExistence wskep)) (\<lambda>keyExistence.
     rbind (KeyExistenceDataHash W keyExistence) (\<lambda>dataHash.
     rbind (payload_Hash W TEEKeyExistence chainID dataHash) (\<lambda>h.
     rbind (VerifySignature W (hash_bytes h) (sk_Signature wskep) teeID) (\<lambda>_.
     Inr keyExistence)))))"

definition NewKeyDataProviderRestoreResultStatus :: KeyDataProviderRestoreResultStatus where
  "NewKeyDataProviderRestoreResultStatus = \<lparr>ErrorPositions = [], ErrorLogs = []\<rparr>"

definition AddError :: "KeyDataProviderRestoreResultStatus \<Rightarrow> nat \<Rightarrow> go_error \<Rightarrow> KeyDataProviderRestoreResultStatus" where
  "AddError s i err = s\<lparr>ErrorPositions := ErrorPositions s @ [i], ErrorLogs := ErrorLogs s @ [err]\<rparr>"

section \<open>Lemmas\<close>

lemma ToECDSA_Inr:
  assumes "toecdsa_spec G" and "ToECDSA G b = Inr k"
  shows "k = ToECDSAUnsafe G b" and "pub_fits (sk_Pub k)" and "length b = 32" and "nat_of_bytes b < secp256k1_N"
    and "IsOnCurve G (int (pk_X (sk_Pub k))) (int (pk_Y (sk_Pub k)))"
proof -
  have k: "length b = 32" "nat_of_bytes b < secp256k1_N" "sk_D k = nat_of_bytes b"
      "sk_Pub k = \<lparr>pk_Curve = Crypto_S256, pk_X = fst (ScalarBaseMult G b), pk_Y = snd (ScalarBaseMult G b)\<rparr>"
      "pk_X (sk_Pub k) < 2 ^ 256" "pk_Y (sk_Pub k) < 2 ^ 256"
      "IsOnCurve G (int (pk_X (sk_Pub k))) (int (pk_Y (sk_Pub k)))"
    using assms unfolding toecdsa_spec_def by blast+
  show "k = ToECDSAUnsafe G b"
    using k by (cases k) (simp add: ToECDSAUnsafe_def split_def Let_def)
  show "pub_fits (sk_Pub k)" "length b = 32" "nat_of_bytes b < secp256k1_N"
    "IsOnCurve G (int (pk_X (sk_Pub k))) (int (pk_Y (sk_Pub k)))"
    using k by (simp_all add: pub_fits_def)
qed

lemma verify_digest_Sign:
  assumes "ecdsa_spec G" and "crypto_Sign G h sk = Inr sig" and "PubkeyToAddress G pk = PubkeyToAddress G (sk_Pub sk)"
  shows "verify_digest G h sig pk = Inr ()"
proof -
  from assms(1,2) obtain r where "length sig = 65"
      "ValidateSignatureValues G (sig ! 64) (nat_of_bytes (take 32 sig)) (nat_of_bytes (take 32 (drop 32 sig))) True"
      "SigToPub G h sig = Inr (Some r)" "PubkeyToAddress G r = PubkeyToAddress G (sk_Pub sk)"
    unfolding ecdsa_spec_def by blast
  then show ?thesis using assms(3) by (simp add: verify_digest_def CheckCanonicalSignature_def Let_def)
qed

text \<open>The public key of a wallet parses to the key it signs with, up to the curve value.\<close>

lemma PubKey_parses:
  assumes "toecdsa_spec G" and "PubKey G w = Inr pub"
  shows "ParsePubKeyBytes G pub = Inr ((sk_Pub (ToECDSAUnsafe G (PrivateKey w)))\<lparr>pk_Curve := Secp256k1_S256\<rparr>)"
    and "length (PrivateKey w) = 32" and "nat_of_bytes (PrivateKey w) < secp256k1_N" and "length pub = 64"
proof -
  from assms(2) obtain k where k: "ToECDSA G (PrivateKey w) = Inr k" and pub: "pub = PubKeyToBytes (sk_Pub k)"
    by (auto simp: PubKey_def res_simps split: if_splits)
  note f = ToECDSA_Inr [OF assms(1) k]
  show "ParsePubKeyBytes G pub = Inr ((sk_Pub (ToECDSAUnsafe G (PrivateKey w)))\<lparr>pk_Curve := Secp256k1_S256\<rparr>)"
    using ParsePubKeyBytes_roundtrip [OF f(2,5)] pub f(1) by simp
  show "length (PrivateKey w) = 32" "nat_of_bytes (PrivateKey w) < secp256k1_N" by (rule f(3), rule f(4))
  show "length pub = 64" using f(2) pub by (simp add: PubKeyToBytes_fill)
qed

text \<open>A wallet's ECDSA signature verifies under its own public key.\<close>

lemma Wallet_Sign_verifies:
  assumes "ecdsa_spec W" and "toecdsa_spec W" and "PubKey W w = Inr pub"
    and "SigningAlgo w = XRPSignAlgo \<or> SigningAlgo w = EVMSignAlgo" and "Wallet_Sign W w msg = Inr sig"
  shows "wallets_VerifySignature W msg sig pub (SigningAlgo w) = Inr ()"
proof -
  let ?sk = "ToECDSAUnsafe W (PrivateKey w)"
  have addr: "PubkeyToAddress W ((sk_Pub ?sk)\<lparr>pk_Curve := Secp256k1_S256\<rparr>) = PubkeyToAddress W (sk_Pub ?sk)"
    using assms(1) by (simp add: ecdsa_spec_def)
  have "verify_digest W h sig ((sk_Pub ?sk)\<lparr>pk_Curve := Secp256k1_S256\<rparr>) = Inr ()" if "crypto_Sign W h ?sk = Inr sig" for h
    using verify_digest_Sign [OF assms(1) that addr] .
  then show ?thesis
    using assms(4,5) PubKey_parses(1) [OF assms(2,3)]
    by (auto simp: wallets_VerifySignature_def Wallet_Sign_def signSHA512HalfSecp256k1ECDSA_def
        signKeccak256Secp256k1ECDSA_def verifySHA512HalfSecp256k1ECDSA_def verifyKeccak256Secp256k1ECDSA_def split: if_splits)
qed

lemma WalletBackupID_Equal_refl: "encodeABI F i = Inr e \<Longrightarrow> WalletBackupID_Equal F i i = Inr ()"
  by (simp add: WalletBackupID_Equal_def)

lemma ValidateWalletMemberCounts_Inr:
  "ValidateWalletMemberCounts a c = Inr () \<longleftrightarrow> a \<le> MaxAdminsPerWalletKey \<and> c \<le> MaxCosignersPerWalletKey"
  by (auto simp: ValidateWalletMemberCounts_def res_simps)

end
