(* ===== verification/Field.thy ===== *)
theory Field
  imports Wallets
begin

text \<open>
  The prime fields that secrets are shared over (\<^verbatim>\<open>src/pkg/wallets/backup/field.go\<close>): the
  construction of a field and the choice of one for a key, and the conversions between
  byte strings and field elements. Modular arithmetic is that of bigmod (\<open>bigmod_spec\<close>).
\<close>

unbundle bit_operations_syntax

section \<open>Definitions\<close>

record Field =
  fld_ID :: hash
  fld_Modulus :: nat
  fld_modulusInt :: nat
  fld_Size :: nat
  fld_SecretSize :: nat

definition FieldSecp256k1OrderID :: hash where
  "FieldSecp256k1OrderID = ToHash ''secp256k1-group-order''"

definition FieldPrimeAbove256ID :: hash where
  "FieldPrimeAbove256ID = ToHash ''prime-above-2^256''"

text \<open>The prime above \<open>2\<^sup>2\<^sup>5\<^sup>6\<close>.\<close>

definition primeAbove256 :: nat where
  "primeAbove256 = 2 ^ 256 + 297"

text \<open>
  \<open>mustPrimeField\<close> with its panics; \<open>prime\<close> is the outcome of the randomised
  \<open>big.Int.ProbablyPrime(64)\<close>.
\<close>

definition mustPrimeField :: "'a bigmod_scheme \<Rightarrow> (nat \<Rightarrow> bool) \<Rightarrow> hash \<Rightarrow> nat \<Rightarrow> nat \<Rightarrow> Field res" where
  "mustPrimeField B prime fid modulus secretSize =
     rbind (ensure (odd modulus) (Panic ''backup: field modulus is even'')) (\<lambda>_.
     rbind (ensure (prime modulus) (Panic ''backup: field modulus is not prime'')) (\<lambda>_.
     let size = (BitLen modulus + 7) div 8 in
     rbind (ensure (\<not> (secretSize < 1 \<or> secretSize > size))
       (Panic ''backup: secrets do not fit the field'')) (\<lambda>_.
     rbind (rerr (Panic ''backup: invalid field modulus'') (bm_NewModulus B (fill_bytes size modulus))) (\<lambda>m.
     Inr \<lparr>fld_ID = fid, fld_Modulus = m, fld_modulusInt = modulus, fld_Size = size,
       fld_SecretSize = secretSize\<rparr>))))"

text \<open>The package's \<open>init\<close>: the two fields, or a panic.\<close>

definition init_fields :: "'a bigmod_scheme \<Rightarrow> (nat \<Rightarrow> bool) \<Rightarrow> (Field \<times> Field) res" where
  "init_fields B prime =
     rbind (mustPrimeField B prime FieldSecp256k1OrderID secp256k1_N 32) (\<lambda>f1.
     rbind (mustPrimeField B prime FieldPrimeAbove256ID primeAbove256 32) (\<lambda>f2.
     Inr (f1, f2)))"

text \<open>What \<open>init\<close> leaves in the package variables (lemma \<open>init_fields_ok\<close>).\<close>

definition fieldSecp256k1Order :: Field where
  "fieldSecp256k1Order = \<lparr>fld_ID = FieldSecp256k1OrderID, fld_Modulus = secp256k1_N,
     fld_modulusInt = secp256k1_N, fld_Size = 32, fld_SecretSize = 32\<rparr>"

definition fieldPrimeAbove256 :: Field where
  "fieldPrimeAbove256 = \<lparr>fld_ID = FieldPrimeAbove256ID, fld_Modulus = primeAbove256,
     fld_modulusInt = primeAbove256, fld_Size = 33, fld_SecretSize = 32\<rparr>"

definition fieldsByID :: "(hash \<times> Field) list" where
  "fieldsByID = [(FieldSecp256k1OrderID, fieldSecp256k1Order), (FieldPrimeAbove256ID, fieldPrimeAbove256)]"

definition FieldFor :: "hash \<Rightarrow> hash \<Rightarrow> Field res" where
  "FieldFor keyType signingAlgo =
     (if signingAlgo = EVMSignAlgo \<or> signingAlgo = XRPSignAlgo \<or> signingAlgo = VRFAlgo
      then Inr fieldSecp256k1Order
      else Inl (Err ''no secret sharing field defined for key type with signing algorithm''))"

definition FieldForID :: "hash \<Rightarrow> Field res" where
  "FieldForID fid = (case map_of fieldsByID fid of
     None \<Rightarrow> Inl (Err ''unknown secret sharing field'') | Some f \<Rightarrow> Inr f)"

definition Element :: "'a bigmod_scheme \<Rightarrow> Field \<Rightarrow> bytes \<Rightarrow> nat res" where
  "Element B f b =
     (if length b > fld_Size f
      then Inl (Errf ''value of %d bytes exceeds the %d-byte field'' [int (length b), int (fld_Size f)])
      else let padded = replicate (fld_Size f - length b) 0 @ b in
        rerr (Err ''value is not smaller than the field modulus'') (bm_SetBytes B padded (fld_Modulus f)))"

text \<open>The eight bytes of a \<open>uint64\<close>, most significant first: \<open>buf[7-i] = byte(v >> (8*i))\<close>.\<close>

definition uint64_buf :: "uint64 \<Rightarrow> bytes" where
  "uint64_buf v = map (\<lambda>j. ucast (drop_bit (8 * (7 - j)) v)) [0..<8]"

definition ElementFromUint64 :: "'a bigmod_scheme \<Rightarrow> Field \<Rightarrow> uint64 \<Rightarrow> nat res" where
  "ElementFromUint64 B f v =
     (let buf = uint64_buf v in
      if fld_Size f < length buf then Inl (Panic ''slice bounds out of range'')
      else let padded = replicate (fld_Size f - length buf) 0 @ buf in
        rerr (Panic ''backup: field modulus smaller than 2^64'') (bm_SetBytes B padded (fld_Modulus f)))"

definition fld_Bytes :: "'a bigmod_scheme \<Rightarrow> Field \<Rightarrow> nat \<Rightarrow> bytes" where
  "fld_Bytes B f n = bm_Bytes B n (fld_Modulus f)"

definition SecretBytes :: "'a bigmod_scheme \<Rightarrow> Field \<Rightarrow> nat \<Rightarrow> bytes res" where
  "SecretBytes B f n =
     (let b = fld_Bytes B f n;
          lead = length b - fld_SecretSize f;
          high = foldl (\<lambda>high x. high OR x) 0 (take lead b) in
      if high \<noteq> 0 then Inl (Err ''reconstructed value is wider than the field's secrets'')
      else Inr (drop lead b))"

text \<open>
  \<open>rand.Int(rand.Reader, max)\<close> gives a value below \<open>max\<close> or an error: \<open>draw\<close> is what the
  reader supplies, reduced to the range.
\<close>

definition Random :: "'a bigmod_scheme \<Rightarrow> Field \<Rightarrow> nat res \<Rightarrow> nat res" where
  "Random B f draw =
     rbind draw (\<lambda>r. let v = r mod fld_modulusInt f in
     bm_SetBytes B (fill_bytes (fld_Size f) v) (fld_Modulus f))"

section \<open>Well-formed fields\<close>

text \<open>What \<open>mustPrimeField\<close> establishes, and that the modulus exceeds every \<open>uint64\<close>.\<close>

definition field_ok :: "Field \<Rightarrow> bool" where
  "field_ok f \<longleftrightarrow> 2 ^ 64 \<le> fld_Modulus f \<and> fld_modulusInt f = fld_Modulus f
     \<and> fld_Size f = byte_size (fld_Modulus f) \<and> 1 \<le> fld_SecretSize f \<and> fld_SecretSize f \<le> fld_Size f"

lemma BitLen_bound: "n < 2 ^ BitLen n"
  using BitLen_le [of n "BitLen n"] by simp

lemma byte_size_bound: "n < 256 ^ byte_size n"
proof -
  have "n < 2 ^ BitLen n" by (rule BitLen_bound)
  also have "\<dots> \<le> 2 ^ (8 * byte_size n)"
    by (intro power_increasing) (auto simp: byte_size_def)
  finally show ?thesis by (simp add: power_mult)
qed

lemma byte_size_least: "n < 256 ^ k \<Longrightarrow> byte_size n \<le> k"
proof -
  assume "n < 256 ^ k"
  then have "BitLen n \<le> 8 * k" by (simp add: BitLen_le power_mult)
  then show ?thesis by (simp add: byte_size_def)
qed

lemma field_ok_bounds:
  assumes "field_ok f"
  shows "1 < fld_Modulus f" and "fld_Modulus f < 256 ^ fld_Size f" and "8 \<le> fld_Size f"
proof -
  show 1: "1 < fld_Modulus f" and "fld_Modulus f < 256 ^ fld_Size f"
    using assms byte_size_bound [of "fld_Modulus f"] by (auto simp: field_ok_def)
  then have "256 ^ 8 < (256 :: nat) ^ fld_Size f"
    using assms by (auto simp: field_ok_def)
  then show "8 \<le> fld_Size f"
    using power_less_imp_less_exp [of "256 :: nat" 8 "fld_Size f"] by simp
qed

lemma Element_ok:
  assumes "bigmod_spec B" and "field_ok f" and "length b \<le> fld_Size f" and "nat_of_bytes b < fld_Modulus f"
  shows "Element B f b = Inr (nat_of_bytes b)"
  using assms field_ok_bounds(1) [OF assms(2)]
  by (simp add: Element_def Let_def bm_SetBytes_ok)

lemma Element_Inr:
  assumes "bigmod_spec B" and "field_ok f" and "Element B f b = Inr v"
  shows "v = nat_of_bytes b" and "v < fld_Modulus f" and "length b \<le> fld_Size f"
proof -
  let ?p = "replicate (fld_Size f - length b) 0 @ b"
  have len: "length b \<le> fld_Size f" and set: "bm_SetBytes B ?p (fld_Modulus f) = Inr v"
    using assms(3) by (auto simp: Element_def Let_def rerr_eq_Inr split: if_splits)
  have "nat_of_bytes b < fld_Modulus f"
    using set bm_SetBytes_err [OF assms(1) field_ok_bounds(1) [OF assms(2)], of ?p] by fastforce
  with set bm_SetBytes_ok [OF assms(1) field_ok_bounds(1) [OF assms(2)], of ?p]
  show "v = nat_of_bytes b" and "v < fld_Modulus f" by auto
  show "length b \<le> fld_Size f" by (rule len)
qed

lemma Element_rejects:
  assumes "bigmod_spec B" and "field_ok f" and "length b \<le> fld_Size f" and "\<not> nat_of_bytes b < fld_Modulus f"
  shows "Element B f b = Inl (Err ''value is not smaller than the field modulus'')"
proof -
  have "\<exists>e. bm_SetBytes B (replicate (fld_Size f - length b) 0 @ b) (fld_Modulus f) = Inl e"
    using assms field_ok_bounds(1) [OF assms(2)] by (intro bm_SetBytes_err) auto
  with assms(3) show ?thesis by (auto simp: Element_def Let_def)
qed

section \<open>Conversions\<close>

lemma byte_of_drop: "(ucast (drop_bit n (v :: uint64)) :: byte) = word_of_nat (unat v div 2 ^ n)"
  using unsigned_less [of v, where 'a = nat]
  by (intro word_unat_eq_iff [THEN iffD2])
     (simp add: unsigned_ucast_eq unat_of_nat unsigned_drop_bit_eq take_bit_eq_mod [where 'a = nat]
       drop_bit_eq_div [where 'a = nat])

lemma fill_bytes_numeral:
  "fill_bytes (numeral k) v = fill_bytes (pred_numeral k) (v div 256) @ [word_of_nat v]"
  by (simp only: numeral_eq_Suc [of k] fill_bytes.simps)

lemma uint64_buf_fill: "uint64_buf v = fill_bytes 8 (unat v)"
proof -
  have "[0..<8] = [0, 1, 2, 3, 4, 5, 6, 7 :: nat]" by (simp add: upt_rec)
  then show ?thesis
    by (simp add: uint64_buf_def byte_of_drop fill_bytes_numeral div_mult2_eq [symmetric])
qed

lemma unat_uint64_bound: "unat (v :: uint64) < 2 ^ 64"
  using unsigned_less [of v] by simp

lemma ElementFromUint64_ok:
  assumes "bigmod_spec B" and "field_ok f"
  shows "ElementFromUint64 B f v = Inr (unat v)"
proof -
  have "nat_of_bytes (uint64_buf v) = unat v"
    using unat_uint64_bound [of v] by (simp add: uint64_buf_fill nat_of_fill_bytes_small)
  moreover have "unat v < fld_Modulus f"
    using unat_uint64_bound [of v] assms(2) by (simp add: field_ok_def)
  ultimately show ?thesis
    using assms field_ok_bounds [OF assms(2)]
    by (simp add: ElementFromUint64_def Let_def uint64_buf_fill bm_SetBytes_ok)
qed

lemma fld_Bytes_ok:
  assumes "bigmod_spec B" and "field_ok f" and "n < fld_Modulus f"
  shows "fld_Bytes B f n = fill_bytes (fld_Size f) n"
  using assms field_ok_bounds(1) [OF assms(2)] by (simp add: fld_Bytes_def bm_Bytes_eq field_ok_def)

lemma Element_fill:
  assumes "bigmod_spec B" and "field_ok f" and "n < fld_Modulus f"
  shows "Element B f (fill_bytes (fld_Size f) n) = Inr n"
  using assms field_ok_bounds(2) [OF assms(2)] Element_ok [OF assms(1,2), of "fill_bytes (fld_Size f) n"]
  by (simp add: nat_of_fill_bytes_small)

lemma Random_ok:
  assumes "bigmod_spec B" and "field_ok f"
  shows "Random B f (Inr r) = Inr (r mod fld_Modulus f)"
proof -
  let ?v = "r mod fld_Modulus f"
  have v: "?v < fld_Modulus f" using field_ok_bounds(1) [OF assms(2)] by simp
  then have "?v < 256 ^ fld_Size f" using field_ok_bounds(2) [OF assms(2)] by linarith
  with v show ?thesis
    using assms field_ok_bounds(1) [OF assms(2)]
    by (simp add: Random_def Let_def field_ok_def bm_SetBytes_ok nat_of_fill_bytes_small)
qed

lemma foldl_or_zero: "foldl (\<lambda>h x. h OR x) (a :: byte) xs = 0 \<longleftrightarrow> a = 0 \<and> (\<forall>x \<in> set xs. x = 0)"
  by (induction xs arbitrary: a) (auto simp: or_eq_0_iff)

lemma fill_bytes_append: "fill_bytes (m + n) v = fill_bytes m (v div 256 ^ n) @ fill_bytes n v"
  by (induction n arbitrary: v) (auto simp: div_mult2_eq)

lemma fill_bytes_zero_iff: "v < 256 ^ n \<Longrightarrow> (\<forall>x \<in> set (fill_bytes n v). x = 0) \<longleftrightarrow> v = 0"
proof (induction n arbitrary: v)
  case 0
  then show ?case by simp
next
  case (Suc n)
  have "(word_of_nat v :: byte) = 0 \<longleftrightarrow> v mod 256 = 0"
    by (simp add: word_unat_eq_iff unat_of_nat_byte)
  moreover have "v div 256 < 256 ^ n" using Suc.prems by (simp add: less_mult_imp_div_less mult.commute)
  ultimately show ?case using Suc.IH by auto
qed

text \<open>A reconstructed value comes back at the secret width exactly when it fits.\<close>

lemma SecretBytes_eq:
  assumes "bigmod_spec B" and "field_ok f" and "n < fld_Modulus f"
  shows "SecretBytes B f n = (if n < 256 ^ fld_SecretSize f then Inr (fill_bytes (fld_SecretSize f) n)
           else Inl (Err ''reconstructed value is wider than the field's secrets''))"
proof -
  let ?k = "fld_SecretSize f"
  obtain h where h: "n div 256 ^ ?k = h" by blast
  define l where "l = fld_Size f - ?k"
  have size: "fld_Size f = l + ?k" using assms(2) by (simp add: field_ok_def l_def)
  have b: "fld_Bytes B f n = fill_bytes l h @ fill_bytes ?k n"
    using fld_Bytes_ok [OF assms] by (simp add: size fill_bytes_append h)
  have "n < 256 ^ (l + ?k)" using assms(3) field_ok_bounds(2) [OF assms(2)] by (simp add: size)
  then have "h < 256 ^ l" by (simp add: power_add less_mult_imp_div_less h [symmetric])
  then have "(\<forall>x \<in> set (fill_bytes l h). x = 0) \<longleftrightarrow> n < 256 ^ ?k"
    by (simp add: fill_bytes_zero_iff h [symmetric] div_eq_0_iff)
  then show ?thesis by (auto simp: SecretBytes_def b Let_def foldl_or_zero)
qed

section \<open>The two fields\<close>

lemma field_ok_secp: "field_ok fieldSecp256k1Order"
proof -
  have "byte_size secp256k1_N \<le> 32" by (rule byte_size_least) (simp add: secp256k1_N_def)
  moreover have "\<not> byte_size secp256k1_N \<le> 31"
    using byte_size_bound [of secp256k1_N] power_increasing [of "byte_size secp256k1_N" 31 "256 :: nat"]
    by (auto simp: secp256k1_N_def)
  ultimately show ?thesis by (simp add: field_ok_def fieldSecp256k1Order_def secp256k1_N_def)
qed

lemma field_ok_above256: "field_ok fieldPrimeAbove256"
proof -
  have "byte_size primeAbove256 \<le> 33" by (rule byte_size_least) (simp add: primeAbove256_def)
  moreover have "\<not> byte_size primeAbove256 \<le> 32"
    using byte_size_bound [of primeAbove256] power_increasing [of "byte_size primeAbove256" 32 "256 :: nat"]
    by (auto simp: primeAbove256_def)
  ultimately show ?thesis by (simp add: field_ok_def fieldPrimeAbove256_def primeAbove256_def)
qed

lemma byte_size_secp: "byte_size secp256k1_N = 32"
  using field_ok_secp by (simp add: field_ok_def fieldSecp256k1Order_def)

lemma byte_size_above256: "byte_size primeAbove256 = 33"
  using field_ok_above256 by (simp add: field_ok_def fieldPrimeAbove256_def)

lemma mustPrimeField_ok:
  assumes "bigmod_spec B" and "odd m" and "1 < m" and "prime m" and "1 \<le> k" and "k \<le> byte_size m"
  shows "mustPrimeField B prime i m k = Inr \<lparr>fld_ID = i, fld_Modulus = m, fld_modulusInt = m,
           fld_Size = byte_size m, fld_SecretSize = k\<rparr>"
proof -
  have "nat_of_bytes (fill_bytes (byte_size m) m) = m"
    by (rule nat_of_fill_bytes_small) (rule byte_size_bound)
  then have "bm_NewModulus B (fill_bytes (byte_size m) m) = Inr m"
    using bm_NewModulus_ok [OF assms(1), of "fill_bytes (byte_size m) m"] assms by simp
  then show ?thesis using assms by (simp add: mustPrimeField_def byte_size_def)
qed

text \<open>The package initialisation succeeds and leaves the two constants above.\<close>

lemma init_fields_ok:
  assumes "bigmod_spec B" and "prime secp256k1_N" and "prime primeAbove256"
  shows "init_fields B prime = Inr (fieldSecp256k1Order, fieldPrimeAbove256)"
proof -
  have "mustPrimeField B prime FieldSecp256k1OrderID secp256k1_N 32 = Inr fieldSecp256k1Order"
    using assms mustPrimeField_ok [OF assms(1), of secp256k1_N prime 32 FieldSecp256k1OrderID]
    by (simp add: byte_size_secp fieldSecp256k1Order_def) (simp add: secp256k1_N_def)
  moreover have "mustPrimeField B prime FieldPrimeAbove256ID primeAbove256 32 = Inr fieldPrimeAbove256"
    using assms mustPrimeField_ok [OF assms(1), of primeAbove256 prime 32 FieldPrimeAbove256ID]
    by (simp add: byte_size_above256 fieldPrimeAbove256_def) (simp add: primeAbove256_def)
  ultimately show ?thesis by (simp add: init_fields_def)
qed

text \<open>A restore resolves the field that the backup of the key was written with.\<close>

lemma FieldFor_FieldForID: "FieldFor kt algo = Inr f \<Longrightarrow> FieldForID (fld_ID f) = Inr f"
  by (auto simp: FieldFor_def FieldForID_def fieldsByID_def fieldSecp256k1Order_def split: if_splits)

lemma FieldFor_ok: "FieldFor kt algo = Inr f \<Longrightarrow> f = fieldSecp256k1Order"
  by (auto simp: FieldFor_def split: if_splits)

end
