(* ===== verification/Lagrange.thy ===== *)
theory Lagrange
  imports Complex_Main
begin

text \<open>
  Lagrange interpolation at zero, the mathematics behind \<open>CombineShamirShares\<close>. The identity
  is proved over a field by divided differences (no polynomial library is needed) and
  then carried to the integers modulo \<open>m\<close> for any points whose differences are invertible
  modulo \<open>m\<close>: the modulus need not be known to be prime.
\<close>

section \<open>Divided differences over a field\<close>

definition ddiff :: "'a::field set \<Rightarrow> ('a \<Rightarrow> 'a) \<Rightarrow> 'a" where
  "ddiff S g = (\<Sum>i\<in>S. g i / (\<Prod>j\<in>S - {i}. j - i))"

lemma ddiff_add: "ddiff S (\<lambda>t. f t + g t) = ddiff S f + ddiff S g"
  by (simp add: ddiff_def add_divide_distrib sum.distrib)

lemma ddiff_scale: "ddiff S (\<lambda>t. c * g t) = c * ddiff S g"
  by (simp add: ddiff_def sum_distrib_left)

lemma ddiff_sum: "finite I \<Longrightarrow> ddiff S (\<lambda>t. \<Sum>e\<in>I. f e t) = (\<Sum>e\<in>I. ddiff S (f e))"
  by (simp add: ddiff_def sum_divide_distrib sum.swap [of _ I S])

text \<open>Multiplying by a linear factor that vanishes at a point removes the point.\<close>

lemma ddiff_factor:
  assumes "finite S" and a: "a \<in> S"
  shows "ddiff S (\<lambda>t. (t - a) * g t) = - ddiff (S - {a}) g"
proof -
  have term_eq: "(i - a) * g i / (\<Prod>j\<in>S - {i}. j - i) = - (g i / (\<Prod>j\<in>S - {a} - {i}. j - i))"
    if i: "i \<in> S - {a}" for i
  proof -
    have "S - {i} = insert a (S - {a} - {i})"
      using a i by auto
    moreover have "a \<notin> S - {a} - {i}" and "finite (S - {a} - {i})"
      using assms by auto
    ultimately have "(\<Prod>j\<in>S - {i}. j - i) = (a - i) * (\<Prod>j\<in>S - {a} - {i}. j - i)"
      by simp
    moreover have "a - i \<noteq> 0" and "(i - a) * g i = (a - i) * - g i"
      using i by (auto simp: algebra_simps)
    ultimately show ?thesis
      by (simp only: mult_divide_mult_cancel_left) simp
  qed
  have "ddiff S (\<lambda>t. (t - a) * g t) = (\<Sum>i\<in>S - {a}. (i - a) * g i / (\<Prod>j\<in>S - {i}. j - i))"
    using assms by (simp add: ddiff_def sum.remove [of S a])
  also have "\<dots> = (\<Sum>i\<in>S - {a}. - (g i / (\<Prod>j\<in>S - {a} - {i}. j - i)))"
    using term_eq by (rule sum.cong [OF refl])
  finally show ?thesis
    by (simp add: ddiff_def sum_negf)
qed

lemma ddiff_one:
  assumes "finite S" and "2 \<le> card S"
  shows "ddiff S (\<lambda>_. 1) = 0"
  using assms
proof (induction "card S" arbitrary: S rule: less_induct)
  case less
  from less.prems obtain a where a: "a \<in> S"
    by (metis card_0_eq card.empty ex_in_conv not_numeral_le_zero)
  from less.prems a have "S - {a} \<noteq> {}"
    by (metis Diff_eq_empty_iff One_nat_def card.empty card_Suc_eq card_mono finite.emptyI
        finite_insert numeral_2_eq_2 empty_iff not_less_eq_eq)
  then obtain b where b: "b \<in> S" and ab: "b \<noteq> a"
    by auto
  have "(b - a) * ddiff S (\<lambda>_. 1) = ddiff S (\<lambda>t. (t - a) * 1 + (-1) * ((t - b) * 1))"
    by (simp add: ddiff_scale [symmetric] algebra_simps)
  also have "\<dots> = ddiff (S - {b}) (\<lambda>_. 1) - ddiff (S - {a}) (\<lambda>_. 1)"
    using ddiff_factor [OF \<open>finite S\<close> a, of "\<lambda>_. 1"] ddiff_factor [OF \<open>finite S\<close> b, of "\<lambda>_. 1"]
    by (simp only: ddiff_add ddiff_scale) simp
  also have "\<dots> = 0"
  proof (cases "card S = 2")
    case True
    then have "S = {a, b}"
      using a b ab \<open>finite S\<close>
      by (metis card_2_iff doubleton_eq_iff insert_iff singletonD)
    then have "S - {b} = {a}" and "S - {a} = {b}"
      using ab by auto
    then show ?thesis by (simp add: ddiff_def)
  next
    case False
    have "card (S - {a}) = card S - 1" and "card (S - {b}) = card S - 1"
      using a b \<open>finite S\<close> by simp_all
    then show ?thesis
      using less.hyps [of "S - {a}"] less.hyps [of "S - {b}"] less.prems False by simp
  qed
  finally show ?case using ab by simp
qed

lemma ddiff_power:
  assumes "finite S" and "d + 1 < card S"
  shows "ddiff S (\<lambda>t. t ^ d) = 0"
  using assms
proof (induction d arbitrary: S)
  case 0
  then show ?case using ddiff_one [of S] by simp
next
  case (Suc d)
  then obtain a where a: "a \<in> S"
    by (metis card.empty ex_in_conv not_less_zero)
  have "ddiff S (\<lambda>t. t ^ Suc d) = ddiff S (\<lambda>t. (t - a) * t ^ d + a * t ^ d)"
    by (simp add: algebra_simps)
  also have "\<dots> = - ddiff (S - {a}) (\<lambda>t. t ^ d) + a * ddiff S (\<lambda>t. t ^ d)"
    using ddiff_factor [OF \<open>finite S\<close> a] by (simp add: ddiff_add ddiff_scale)
  also have "\<dots> = 0"
    using Suc a by simp
  finally show ?case .
qed

section \<open>Interpolation at zero\<close>

definition horner :: "'a::comm_ring_1 list \<Rightarrow> 'a \<Rightarrow> 'a" where
  "horner cs t = foldr (\<lambda>c acc. acc * t + c) cs 0"

lemma horner_Nil [simp]: "horner [] t = 0"
  by (simp add: horner_def)

lemma horner_Cons [simp]: "horner (c # cs) t = horner cs t * t + c"
  by (simp add: horner_def)

lemma horner_sum: "horner cs t = (\<Sum>e<length cs. cs ! e * t ^ e)"
proof (induction cs)
  case Nil
  then show ?case by simp
next
  case (Cons c cs)
  have "(\<Sum>e<length (c # cs). (c # cs) ! e * t ^ e) = c + (\<Sum>e<length cs. cs ! e * t ^ Suc e)"
    by (simp add: sum.lessThan_Suc_shift del: sum.lessThan_Suc)
  also have "\<dots> = c + (\<Sum>e<length cs. cs ! e * t ^ e) * t"
    by (simp add: sum_distrib_left mult_ac)
  finally show ?case
    using Cons by (simp add: add.commute)
qed

lemma ddiff_horner:
  assumes "finite S" and "length cs < card S"
  shows "ddiff S (horner cs) = 0"
proof -
  have "ddiff S (horner cs) = (\<Sum>e<length cs. cs ! e * ddiff S (\<lambda>t. t ^ e))"
    by (simp add: horner_sum [abs_def] ddiff_sum ddiff_scale)
  also have "\<dots> = 0"
    using assms by (intro sum.neutral) (auto intro: ddiff_power)
  finally show ?thesis .
qed

text \<open>The interpolation formula at zero: the points together with zero are one too many.\<close>

lemma lagrange_zero_field:
  fixes S :: "'a::field set"
  assumes fin: "finite S" and nz: "0 \<notin> S" and len: "length cs \<le> card S"
  shows "(\<Sum>i\<in>S. horner cs i * (\<Prod>j\<in>S - {i}. j) / (\<Prod>j\<in>S - {i}. j - i)) = horner cs 0"
proof -
  let ?P = "\<Prod>j\<in>S. j"
  have P: "?P \<noteq> 0"
    using fin nz by (auto simp: prod_zero_iff)
  have "length cs < card (insert 0 S)"
    using fin nz len by simp
  then have "0 = ddiff (insert 0 S) (horner cs)"
    using fin by (simp add: ddiff_horner)
  also have "\<dots> = horner cs 0 / (\<Prod>j\<in>insert 0 S - {0}. j - 0)
      + (\<Sum>i\<in>S. horner cs i / (\<Prod>j\<in>insert 0 S - {i}. j - i))"
    unfolding ddiff_def using fin nz by simp
  also have "(\<Prod>j\<in>insert 0 S - {0}. j - 0) = ?P"
    using nz by simp
  also have "(\<Sum>i\<in>S. horner cs i / (\<Prod>j\<in>insert 0 S - {i}. j - i))
      = (\<Sum>i\<in>S. - (horner cs i * (\<Prod>j\<in>S - {i}. j) / (\<Prod>j\<in>S - {i}. j - i)) / ?P)"
  proof (rule sum.cong [OF refl])
    fix i assume i: "i \<in> S"
    have "insert 0 S - {i} = insert 0 (S - {i})" using nz i by auto
    then have "(\<Prod>j\<in>insert 0 S - {i}. j - i) = - i * (\<Prod>j\<in>S - {i}. j - i)"
      using fin nz by simp
    moreover have "?P = i * (\<Prod>j\<in>S - {i}. j)"
      using fin i by (simp add: prod.remove)
    moreover have "(\<Prod>j\<in>S - {i}. j - i) \<noteq> 0" and "i \<noteq> 0" and "(\<Prod>j\<in>S - {i}. j) \<noteq> 0"
      using fin nz i by (auto simp: prod_zero_iff)
    ultimately show "horner cs i / (\<Prod>j\<in>insert 0 S - {i}. j - i)
        = - (horner cs i * (\<Prod>j\<in>S - {i}. j) / (\<Prod>j\<in>S - {i}. j - i)) / ?P"
      by (simp add: field_simps)
  qed
  also have "\<dots> = - (\<Sum>i\<in>S. horner cs i * (\<Prod>j\<in>S - {i}. j) / (\<Prod>j\<in>S - {i}. j - i)) / ?P"
    by (simp add: sum_divide_distrib sum_negf)
  finally show ?thesis
    using P by (simp add: field_simps)
qed

section \<open>Interpolation modulo m\<close>

text \<open>
  \<open>V i\<close> is an inverse of the \<open>i\<close>-th denominator modulo \<open>m\<close>. The proof clears the
  denominators of the field identity and multiplies by the product of the inverses.
\<close>

lemma lagrange_zero_cleared:
  fixes S :: "int set"
  assumes fin: "finite S" and nz: "0 \<notin> S" and len: "length cs \<le> card S"
  defines "W \<equiv> \<lambda>i. \<Prod>j\<in>S - {i}. j - i"
  shows "(\<Sum>i\<in>S. horner cs i * (\<Prod>j\<in>S - {i}. j) * (\<Prod>k\<in>S - {i}. W k))
      = horner cs 0 * (\<Prod>k\<in>S. W k)"
proof -
  let ?r = "of_int :: int \<Rightarrow> rat"
  let ?T = "?r ` S"
  have inj: "inj_on ?r A" for A
    by (simp add: inj_on_def)
  have T: "finite ?T" "0 \<notin> ?T" "length (map ?r cs) \<le> card ?T"
    using fin nz len by (auto simp: card_image [OF inj])
  have hr: "horner (map ?r cs) (?r t) = ?r (horner cs t)" for t
    by (induction cs) auto
  have Tdiff: "?T - {?r i} = ?r ` (S - {i})" if "i \<in> S" for i
    by auto
  have W: "W i \<noteq> 0" if "i \<in> S" for i
    using fin by (auto simp: W_def prod_zero_iff)
  have numer: "(\<Prod>j\<in>?T - {?r i}. j) = ?r (\<Prod>j\<in>S - {i}. j)" if "i \<in> S" for i
    by (simp add: Tdiff [OF that] prod.reindex [OF inj])
  have denom: "(\<Prod>j\<in>?T - {?r i}. j - ?r i) = ?r (W i)" if "i \<in> S" for i
    by (simp add: Tdiff [OF that] prod.reindex [OF inj] W_def)
  have "?r (horner cs 0) = horner (map ?r cs) 0"
    using hr [of 0] by simp
  also have "\<dots> = (\<Sum>i\<in>?T. horner (map ?r cs) i * (\<Prod>j\<in>?T - {i}. j) / (\<Prod>j\<in>?T - {i}. j - i))"
    by (rule lagrange_zero_field [OF T, symmetric])
  also have "\<dots> = (\<Sum>i\<in>S. ?r (horner cs i * (\<Prod>j\<in>S - {i}. j)) / ?r (W i))"
    by (simp add: sum.reindex [OF inj] hr numer denom)
  finally have eq: "?r (horner cs 0) = (\<Sum>i\<in>S. ?r (horner cs i * (\<Prod>j\<in>S - {i}. j)) / ?r (W i))" .
  have "?r (horner cs 0 * (\<Prod>k\<in>S. W k))
      = (\<Sum>i\<in>S. ?r (horner cs i * (\<Prod>j\<in>S - {i}. j)) / ?r (W i) * ?r (\<Prod>k\<in>S. W k))"
    by (simp add: eq sum_distrib_right)
  also have "\<dots> = (\<Sum>i\<in>S. ?r (horner cs i * (\<Prod>j\<in>S - {i}. j) * (\<Prod>k\<in>S - {i}. W k)))"
    using fin W by (intro sum.cong refl) (simp add: prod.remove)
  finally show ?thesis
    by (simp only: of_int_sum [symmetric] of_int_eq_iff)
qed

lemma dvd_prod_minus_one:
  fixes f :: "'b \<Rightarrow> int"
  assumes "finite A" and "\<And>k. k \<in> A \<Longrightarrow> m dvd f k - 1"
  shows "m dvd (\<Prod>k\<in>A. f k) - 1"
  using assms
proof (induction A rule: finite_induct)
  case empty
  then show ?case by simp
next
  case (insert x A)
  have "(\<Prod>k\<in>insert x A. f k) - 1 = f x * ((\<Prod>k\<in>A. f k) - 1) + (f x - 1)"
    using insert by (simp add: algebra_simps)
  moreover have "m dvd f x * ((\<Prod>k\<in>A. f k) - 1) + (f x - 1)"
    using insert by (intro dvd_add dvd_mult) auto
  ultimately show ?case by (simp only:)
qed

theorem lagrange_zero_mod:
  fixes S :: "int set" and V :: "int \<Rightarrow> int"
  assumes fin: "finite S" and nz: "0 \<notin> S" and len: "length cs \<le> card S"
    and inv: "\<And>i. i \<in> S \<Longrightarrow> m dvd V i * (\<Prod>j\<in>S - {i}. j - i) - 1"
  shows "m dvd (\<Sum>i\<in>S. horner cs i * (\<Prod>j\<in>S - {i}. j) * V i) - horner cs 0"
proof -
  define W where "W \<equiv> \<lambda>i. \<Prod>j\<in>S - {i}. j - i"
  define A where "A \<equiv> \<lambda>i. horner cs i * (\<Prod>j\<in>S - {i}. j)"
  let ?V = "\<Prod>k\<in>S. V k"
  have unit: "m dvd (\<Prod>k\<in>B. V k * W k) - 1" if "B \<subseteq> S" for B
    using that inv fin unfolding W_def by (intro dvd_prod_minus_one) (auto dest: finite_subset)
  have key: "(\<Sum>i\<in>S. A i * (\<Prod>k\<in>S - {i}. W k)) = horner cs 0 * (\<Prod>k\<in>S. W k)"
    using lagrange_zero_cleared [OF fin nz len] by (simp add: A_def W_def)
  have one: "m dvd A i * (\<Prod>k\<in>S - {i}. W k) * ?V - A i * V i" if i: "i \<in> S" for i
  proof -
    have "A i * (\<Prod>k\<in>S - {i}. W k) * ?V - A i * V i
        = A i * V i * ((\<Prod>k\<in>S - {i}. V k * W k) - 1)"
      using fin i by (simp add: prod.remove [of S i] prod.distrib algebra_simps)
    then show ?thesis using unit [of "S - {i}"] by (simp add: dvd_mult)
  qed
  have "m dvd (\<Sum>i\<in>S. A i * (\<Prod>k\<in>S - {i}. W k) * ?V - A i * V i)"
    by (rule dvd_sum) (rule one)
  also have "(\<Sum>i\<in>S. A i * (\<Prod>k\<in>S - {i}. W k) * ?V - A i * V i)
      = horner cs 0 * (\<Prod>k\<in>S. V k * W k) - (\<Sum>i\<in>S. A i * V i)"
    by (simp only: sum_subtractf sum_distrib_right [symmetric] key prod.distrib) (simp add: mult_ac)
  finally have 1: "m dvd horner cs 0 * (\<Prod>k\<in>S. V k * W k) - (\<Sum>i\<in>S. A i * V i)" .
  have 2: "m dvd horner cs 0 * ((\<Prod>k\<in>S. V k * W k) - 1)"
    using unit [of S] by (simp add: dvd_mult)
  have "(\<Sum>i\<in>S. A i * V i) - horner cs 0
      = horner cs 0 * ((\<Prod>k\<in>S. V k * W k) - 1)
        - (horner cs 0 * (\<Prod>k\<in>S. V k * W k) - (\<Sum>i\<in>S. A i * V i))"
    by (simp add: algebra_simps)
  then have "m dvd (\<Sum>i\<in>S. A i * V i) - horner cs 0"
    using dvd_diff [OF 2 1] by (simp only:)
  then show ?thesis by (simp add: A_def)
qed

end
