(* ===== verification/Shamir.thy ===== *)
theory Shamir
  imports Field Lagrange
begin

text \<open>
  Secret sharing: Shamir shares over a field (\<^verbatim>\<open>src/internal/wallets/backup/shamir.go\<close>) and
  the additive split of a secret (\<^verbatim>\<open>src/internal/wallets/backup/split_key.go\<close>). The loops are
  written as the code has them; the lemmas connect them to polynomials over the integers
  and to Lagrange interpolation, and give the two round trips.
\<close>

section \<open>Definitions\<close>

record ShamirShare =
  sh_X :: uint64
  sh_Y :: bytes

text \<open>Horner's method over the coefficients from the highest down.\<close>

definition evalPolynomial :: "'a bigmod_scheme \<Rightarrow> Field \<Rightarrow> nat list \<Rightarrow> uint64 \<Rightarrow> nat res" where
  "evalPolynomial B f polynomial x =
     rbind (ElementFromUint64 B f x) (\<lambda>xElem.
     Inr (foldl (\<lambda>result coefficient.
            bm_Add B (bm_Mul B result xElem (fld_Modulus f)) coefficient (fld_Modulus f))
          0 (rev polynomial)))"

text \<open>\<open>draws i\<close> is what the random source supplies for coefficient \<open>i\<close>.\<close>

definition SplitToShamirShares ::
  "'a bigmod_scheme \<Rightarrow> (nat \<Rightarrow> nat res) \<Rightarrow> Field \<Rightarrow> bytes \<Rightarrow> uint64 \<Rightarrow> uint64 \<Rightarrow> ShamirShare list res" where
  "SplitToShamirShares B draws f val numShares threshold =
     rbind (ensure (\<not> threshold > numShares) (Err ''num shares smaller than threshold'')) (\<lambda>_.
     rbind (ensure (threshold \<noteq> 0) (Err ''threshold should be positive'')) (\<lambda>_.
     rbind (rwrap ''secret does not fit the sharing field'' (Element B f val)) (\<lambda>secret.
     rbind (rmap (\<lambda>i. Random B f (draws i)) [1..<unat threshold]) (\<lambda>coeffs.
     let polynomial = secret # coeffs in
     rmap (\<lambda>i. let x = word_of_nat i + 1 in
         rbind (evalPolynomial B f polynomial x) (\<lambda>y. Inr \<lparr>sh_X = x, sh_Y = fld_Bytes B f y\<rparr>))
       [0..<unat numShares]))))"

text \<open>
  The inner loop of the interpolation over \<open>(j, share, x_j)\<close>, with the numerator and the
  denominator of the basis polynomial of share \<open>i\<close>.
\<close>

fun basis_loop ::
  "'a bigmod_scheme \<Rightarrow> Field \<Rightarrow> nat \<Rightarrow> ShamirShare \<Rightarrow> nat \<Rightarrow> (nat \<times> ShamirShare \<times> nat) list \<Rightarrow> nat \<Rightarrow> nat
     \<Rightarrow> (nat \<times> nat) res" where
  "basis_loop B f i share xi [] numerator denominator = Inr (numerator, denominator)"
| "basis_loop B f i share xi ((j, shareJ, xj) # rest) numerator denominator =
     (if i = j then basis_loop B f i share xi rest numerator denominator
      else if sh_X shareJ = sh_X share then Inl (Err ''double share error'')
      else rbind (ElementFromUint64 B f (sh_X shareJ)) (\<lambda>d.
        let difference = bm_Sub B d xi (fld_Modulus f) in
        basis_loop B f i share xi rest (bm_Mul B numerator xj (fld_Modulus f))
          (bm_Mul B denominator difference (fld_Modulus f))))"

text \<open>The outer loop, accumulating the interpolated value at zero.\<close>

fun combine_loop ::
  "'a bigmod_scheme \<Rightarrow> Field \<Rightarrow> (nat \<times> ShamirShare \<times> nat) list \<Rightarrow> (nat \<times> ShamirShare \<times> nat) list \<Rightarrow> nat
     \<Rightarrow> nat res" where
  "combine_loop B f all [] result = Inr result"
| "combine_loop B f all ((i, share, xi) # rest) result =
     rbind (rwrap ''share'' (Element B f (sh_Y share))) (\<lambda>y.
     rbind (basis_loop B f i share xi all 1 1) (\<lambda>(numerator, denominator).
     case bm_InverseVarTime B denominator (fld_Modulus f) of
       None \<Rightarrow> Inl (Err ''double share error'')
     | Some inv_d \<Rightarrow>
         combine_loop B f all rest
           (bm_Add B result
              (bm_Mul B (bm_Mul B y numerator (fld_Modulus f)) inv_d (fld_Modulus f))
              (fld_Modulus f))))"

definition CombineShamirShares :: "'a bigmod_scheme \<Rightarrow> Field \<Rightarrow> ShamirShare list \<Rightarrow> bytes res" where
  "CombineShamirShares B f shamirShares =
     rbind (rmap (\<lambda>share. ElementFromUint64 B f (sh_X share)) shamirShares) (\<lambda>xs.
     let all = zip [0..<length shamirShares] (zip shamirShares xs) in
     rbind (combine_loop B f all all 0) (\<lambda>result.
     Inr (fld_Bytes B f result)))"

definition SplitSecret :: "'a bigmod_scheme \<Rightarrow> (nat \<Rightarrow> nat res) \<Rightarrow> Field \<Rightarrow> bytes \<Rightarrow> nat \<Rightarrow> bytes list res" where
  "SplitSecret B draws f secret n =
     rbind (ensure (\<not> n < 2) (Err ''number of splits too low'')) (\<lambda>_.
     rbind (ensure (length secret = fld_SecretSize f)
       (Errf ''secret is %d bytes, but the field shares %d-byte secrets''
         [int (length secret), int (fld_SecretSize f)])) (\<lambda>_.
     rbind (rwrap ''secret does not fit the sharing field'' (Element B f secret)) (\<lambda>secretElem.
     rbind (rmap (\<lambda>i. Random B f (draws i)) [0..<n - 1]) (\<lambda>parts.
     let sum = foldl (\<lambda>s part. bm_Add B s part (fld_Modulus f)) 0 parts;
         last = bm_Sub B (bm_Add B 0 secretElem (fld_Modulus f)) sum (fld_Modulus f) in
     Inr (map (fld_Bytes B f) parts @ [fld_Bytes B f last])))))"

text \<open>The accumulating loop of \<open>JoinSecret\<close>.\<close>

fun join_loop :: "'a bigmod_scheme \<Rightarrow> Field \<Rightarrow> bytes list \<Rightarrow> nat \<Rightarrow> nat res" where
  "join_loop B f [] acc = Inr acc"
| "join_loop B f (part # parts) acc =
     rbind (rwrap ''part'' (Element B f part)) (\<lambda>elem.
     join_loop B f parts (bm_Add B acc elem (fld_Modulus f)))"

definition JoinSecret :: "'a bigmod_scheme \<Rightarrow> Field \<Rightarrow> bytes list \<Rightarrow> bytes res" where
  "JoinSecret B f parts =
     (if length parts = 0 then Inl (Err ''no parts'')
      else rbind (join_loop B f parts 0) (\<lambda>sum. SecretBytes B f sum))"

section \<open>Polynomials\<close>

text \<open>The polynomial with the given coefficients, lowest first, and shares that lie on it.\<close>

definition npoly :: "nat list \<Rightarrow> nat \<Rightarrow> nat" where
  "npoly cs x = foldr (\<lambda>c acc. acc * x + c) cs 0"

definition on_poly :: "Field \<Rightarrow> nat list \<Rightarrow> ShamirShare \<Rightarrow> bool" where
  "on_poly f cs s \<longleftrightarrow> sh_Y s = fill_bytes (fld_Size f) (npoly cs (unat (sh_X s)) mod fld_Modulus f)"

lemma npoly_simps [simp]: "npoly [] x = 0" "npoly (c # cs) x = npoly cs x * x + c"
  by (simp_all add: npoly_def)

lemma npoly_zero: "npoly (c # cs) 0 = c"
  by simp

lemma int_npoly: "int (npoly cs x) = horner (map int cs) (int x)"
  by (induction cs) simp_all

lemma evalPolynomial_ok:
  assumes "bigmod_spec B" and "field_ok f" and "\<forall>c \<in> set cs. c < fld_Modulus f"
  shows "evalPolynomial B f cs x = Inr (npoly cs (unat x) mod fld_Modulus f)"
proof -
  let ?m = "fld_Modulus f"
  have m: "1 < ?m" by (rule field_ok_bounds(1) [OF assms(2)])
  have x: "unat x < ?m" using unat_uint64_bound [of x] assms(2) by (simp add: field_ok_def)
  have "foldr (\<lambda>c r. bm_Add B (bm_Mul B r (unat x) ?m) c ?m) cs 0 = npoly cs (unat x) mod ?m"
    using assms(3)
  proof (induction cs)
    case Nil
    then show ?case by simp
  next
    case (Cons c cs)
    have "bm_Mul B (npoly cs (unat x) mod ?m) (unat x) ?m = npoly cs (unat x) * unat x mod ?m"
      using m x by (simp add: bm_Mul_eq [OF assms(1)] mod_mult_left_eq)
    moreover have "bm_Add B (k mod ?m) c ?m = (k + c) mod ?m" for k
      using m Cons.prems by (simp add: bm_Add_eq [OF assms(1)] mod_add_left_eq)
    ultimately show ?case using Cons by simp
  qed
  then show ?thesis
    by (simp add: evalPolynomial_def ElementFromUint64_ok [OF assms(1,2)] foldl_conv_foldr)
qed

section \<open>Splitting\<close>

lemma unat_word_of_nat_64: "n < 2 ^ 64 \<Longrightarrow> unat (word_of_nat n :: uint64) = n"
  by (simp add: unat_of_nat)

lemma rmap_Random:
  assumes "bigmod_spec B" and "field_ok f" and "rmap (\<lambda>i. Random B f (draws i)) is = Inr cs"
  shows "length cs = length is" and "\<forall>c \<in> set cs. c < fld_Modulus f"
proof -
  show "length cs = length is" by (rule rmap_length [OF assms(3)])
  have "c < fld_Modulus f" if "Random B f d = Inr c" for c d
    using that Random_ok [OF assms(1,2)] field_ok_bounds(1) [OF assms(2)] by (cases d) (auto simp: Random_def)
  then show "\<forall>c \<in> set cs. c < fld_Modulus f"
    using assms(3) by (fastforce simp: rmap_eq_Inr list_all2_conv_all_nth in_set_conv_nth)
qed

text \<open>
  Splitting gives \<open>numShares\<close> shares with the indices \<open>1, 2, \<dots>\<close>, all on one polynomial of
  \<open>threshold\<close> coefficients whose constant term is the secret.
\<close>

lemma SplitToShamirShares_Inr:
  assumes spec: "bigmod_spec B" "field_ok f" and split: "SplitToShamirShares B draws f val n k = Inr shares"
  shows "\<exists>cs. length cs = unat k \<and> cs \<noteq> [] \<and> hd cs = nat_of_bytes val \<and> (\<forall>c \<in> set cs. c < fld_Modulus f)
     \<and> shares = map (\<lambda>i. \<lparr>sh_X = word_of_nat (Suc i),
          sh_Y = fill_bytes (fld_Size f) (npoly cs (Suc i) mod fld_Modulus f)\<rparr>) [0..<unat n]"
proof -
  from split obtain v cs where k: "k \<noteq> 0" and v: "Element B f val = Inr v" and
    cs: "rmap (\<lambda>i. Random B f (draws i)) [1..<unat k] = Inr cs" and
    sh: "rmap (\<lambda>i. rbind (evalPolynomial B f (v # cs) (word_of_nat i + 1))
      (\<lambda>y. Inr \<lparr>sh_X = word_of_nat i + 1, sh_Y = fld_Bytes B f y\<rparr>)) [0..<unat n] = Inr shares"
    by (auto simp: SplitToShamirShares_def res_simps Let_def)
  have coeffs: "\<forall>c \<in> set (v # cs). c < fld_Modulus f"
    using rmap_Random(2) [OF spec cs] Element_Inr(2) [OF spec v] by simp
  have m: "1 < fld_Modulus f" by (rule field_ok_bounds(1) [OF spec(2)])
  let ?F = "\<lambda>i. rbind (evalPolynomial B f (v # cs) (word_of_nat i + 1))
      (\<lambda>y. Inr \<lparr>sh_X = word_of_nat i + 1, sh_Y = fld_Bytes B f y\<rparr>)"
  let ?g = "\<lambda>i. \<lparr>sh_X = word_of_nat (Suc i),
      sh_Y = fill_bytes (fld_Size f) (npoly (v # cs) (Suc i) mod fld_Modulus f)\<rparr>"
  have "?F i = Inr (?g i)" if "i \<in> set [0..<unat n]" for i
  proof -
    have "Suc i < 2 ^ 64" using that unat_uint64_bound [of n] by simp
    then have x: "unat (word_of_nat (Suc i) :: uint64) = Suc i" by (rule unat_word_of_nat_64)
    have w: "(word_of_nat i + 1 :: uint64) = word_of_nat (Suc i)" by simp
    show ?thesis
      unfolding w evalPolynomial_ok [OF spec coeffs] x rbind_Inr using m fld_Bytes_ok [OF spec] by simp
  qed
  then have "rmap ?F [0..<unat n] = Inr (map ?g [0..<unat n])" by (rule rmap_total)
  then have "shares = map ?g [0..<unat n]" using sh by (simp only: sum.inject)
  moreover have "length (v # cs) = unat k"
    using rmap_Random(1) [OF spec cs] k by (simp add: unat_eq_zero Suc_diff_Suc unat_gt_0)
  moreover have "v = nat_of_bytes val" by (rule Element_Inr(1) [OF spec v])
  ultimately show ?thesis using coeffs by (intro exI [of _ "v # cs"]) simp
qed

section \<open>Combining\<close>

text \<open>The points of a share list, and that differences of its indices are units.\<close>

definition points :: "ShamirShare list \<Rightarrow> nat list" where
  "points shares = map (\<lambda>s. unat (sh_X s)) shares"

definition unit_diffs :: "nat \<Rightarrow> nat list \<Rightarrow> bool" where
  "unit_diffs m xs \<longleftrightarrow> (\<forall>x \<in> set xs. \<forall>y \<in> set xs. x < y \<longrightarrow> coprime (y - x) m)"

lemma length_points: "length (points shares) = length shares"
  by (simp add: points_def)

text \<open>The triples the loops run over: an index, its share and the share's point.\<close>

definition triples :: "ShamirShare list \<Rightarrow> (nat \<times> ShamirShare \<times> nat) list" where
  "triples shares = zip [0..<length shares] (zip shares (points shares))"

lemma triples_points: "map (\<lambda>(i, s, x). x) (triples shares) = points shares"
proof -
  have "map (\<lambda>(i, s, x). x) (triples shares) = map snd (map snd (triples shares))"
    by (simp add: split_def)
  also have "\<dots> = points shares" by (simp only: triples_def map_snd_zip length_zip length_map points_def length_upt diff_zero min.idem)
  finally show ?thesis .
qed

lemma triples_mem:
  assumes "(i, s, x) \<in> set (triples shares)"
  shows "s \<in> set shares" and "x = unat (sh_X s)"
  using assms by (auto simp: triples_def points_def set_zip)

lemma triples_nth: "i < length shares \<Longrightarrow> (i, shares ! i, points shares ! i) \<in> set (triples shares)"
  by (auto simp: triples_def set_zip points_def intro!: exI [of _ i])

lemma triples_index:
  assumes "distinct (points shares)" and "(i, s, x) \<in> set (triples shares)" and "(j, t, y) \<in> set (triples shares)"
  shows "i = j \<longleftrightarrow> x = y"
proof -
  have "x = points shares ! i" "y = points shares ! j" "i < length (points shares)" "j < length (points shares)"
    using assms(2,3) by (auto simp: triples_def points_def set_zip)
  then show ?thesis using assms(1) by (simp add: nth_eq_iff_index_eq)
qed

text \<open>One factor of the numerator and of the denominator.\<close>

lemma basis_factor:
  assumes "bigmod_spec B" and "1 < m" and "y < m" "x < m" and "nm < m" "dn < m"
  shows "bm_Mul B nm y m < m" "int (bm_Mul B nm y m) = (int nm * int y) mod int m"
    and "bm_Mul B dn (bm_Sub B y x m) m < m" "int (bm_Mul B dn (bm_Sub B y x m) m) = (int dn * (int y - int x)) mod int m"
proof -
  have sub: "bm_Sub B y x m = (y + (m - x)) mod m" using assms by (simp add: bm_Sub_eq)
  have "int (y + (m - x)) = (int y - int x) + int m" using assms(4) by simp
  then have df: "bm_Sub B y x m < m" "int (bm_Sub B y x m) = (int y - int x) mod int m"
    unfolding sub of_nat_mod using assms(2) by (simp_all only: mod_add_self2) simp
  show "bm_Mul B nm y m < m" "int (bm_Mul B nm y m) = (int nm * int y) mod int m"
    using assms by (simp_all add: bm_Mul_eq of_nat_mod)
  show "bm_Mul B dn (bm_Sub B y x m) m < m" "int (bm_Mul B dn (bm_Sub B y x m) m) = (int dn * (int y - int x)) mod int m"
    using assms df by (simp_all add: bm_Mul_eq of_nat_mod mod_mult_right_eq)
qed

text \<open>Numerator and denominator of one basis polynomial.\<close>

lemma basis_loop_ok:
  assumes spec: "bigmod_spec B" "field_ok f"
    and ts: "\<And>j s y. (j, s, y) \<in> set ts \<Longrightarrow> y = unat (sh_X s) \<and> (i = j \<longleftrightarrow> xi = y)"
    and xi: "xi = unat (sh_X share)"
    and nd: "nm < fld_Modulus f" "dn < fld_Modulus f"
  shows "\<exists>nm' dn'. basis_loop B f i share xi ts nm dn = Inr (nm', dn') \<and> nm' < fld_Modulus f \<and> dn' < fld_Modulus f
     \<and> int nm' = (int nm * prod_list (map int (filter (\<lambda>y. y \<noteq> xi) (map (\<lambda>(j, s, y). y) ts)))) mod int (fld_Modulus f)
     \<and> int dn' = (int dn * prod_list (map (\<lambda>y. int y - int xi) (filter (\<lambda>y. y \<noteq> xi) (map (\<lambda>(j, s, y). y) ts))))
           mod int (fld_Modulus f)"
  using ts nd
proof (induction ts arbitrary: nm dn)
  case Nil
  then show ?case by simp
next
  case (Cons t ts)
  obtain j s y where t: "t = (j, s, y)" by (cases t)
  let ?m = "fld_Modulus f"
  have m: "1 < ?m" by (rule field_ok_bounds(1) [OF spec(2)])
  have y: "y = unat (sh_X s)" "i = j \<longleftrightarrow> xi = y" using Cons.prems(1) [of j s y] t by auto
  have bound: "unat (sh_X z) < ?m" for z :: ShamirShare
    using unat_uint64_bound [of "sh_X z"] spec(2) by (simp add: field_ok_def)
  show ?case
  proof (cases "i = j")
    case True
    then have "basis_loop B f i share xi (t # ts) nm dn = basis_loop B f i share xi ts nm dn"
      and "filter (\<lambda>y. y \<noteq> xi) (map (\<lambda>(j, s, y). y) (t # ts)) = filter (\<lambda>y. y \<noteq> xi) (map (\<lambda>(j, s, y). y) ts)"
      using y(2) by (simp_all add: t)
    then show ?thesis using Cons.IH [OF Cons.prems(1)] Cons.prems(2,3) by (simp only: list.set_intros)
  next
    case False
    then have ne: "sh_X s \<noteq> sh_X share" using y xi by auto
    have yx: "y < ?m" "xi < ?m" using bound y(1) xi by auto
    let ?nm = "bm_Mul B nm y ?m" and ?df = "bm_Sub B y xi ?m"
    let ?dn = "bm_Mul B dn ?df ?m"
    note nm = basis_factor(1,2) [OF spec(1) m yx Cons.prems(2,3)] and dn = basis_factor(3,4) [OF spec(1) m yx Cons.prems(2,3)]
    have step: "basis_loop B f i share xi (t # ts) nm dn = basis_loop B f i share xi ts ?nm ?dn"
      using False ne by (simp add: t y(1) ElementFromUint64_ok [OF spec])
    have "y \<noteq> xi" using False y by auto
    moreover obtain nm' dn' where IH: "basis_loop B f i share xi ts ?nm ?dn = Inr (nm', dn')" "nm' < ?m" "dn' < ?m"
      "int nm' = (int ?nm * prod_list (map int (filter (\<lambda>y. y \<noteq> xi) (map (\<lambda>(j, s, y). y) ts)))) mod int ?m"
      "int dn' = (int ?dn * prod_list (map (\<lambda>y. int y - int xi) (filter (\<lambda>y. y \<noteq> xi) (map (\<lambda>(j, s, y). y) ts)))) mod int ?m"
      using Cons.IH [OF _ nm(1) dn(1)] Cons.prems(1) by fastforce
    ultimately show ?thesis
      unfolding step using nm(2) dn(2) by (simp add: t mod_mult_left_eq mult.assoc)
  qed
qed

text \<open>Products over a duplicate-free list without one element, as products over a set.\<close>

lemma prod_list_filter_ne:
  fixes g :: "nat \<Rightarrow> int"
  assumes "distinct xs"
  shows "prod_list (map g (filter (\<lambda>y. y \<noteq> x) xs)) = (\<Prod>y\<in>set xs - {x}. g y)"
proof -
  have "distinct (filter (\<lambda>y. y \<noteq> x) xs)" "set (filter (\<lambda>y. y \<noteq> x) xs) = set xs - {x}"
    using assms by auto
  then show ?thesis by (metis prod.distinct_set_conv_list)
qed

text \<open>The denominator of the basis polynomial at \<open>x\<close>, reduced, and its inverse.\<close>

definition denom_at :: "nat \<Rightarrow> nat list \<Rightarrow> nat \<Rightarrow> nat" where
  "denom_at m xs x = nat ((\<Prod>y\<in>set xs - {x}. int y - int x) mod int m)"

definition inv_at :: "'a bigmod_scheme \<Rightarrow> nat \<Rightarrow> nat list \<Rightarrow> nat \<Rightarrow> int" where
  "inv_at B m xs x = int (the (bm_InverseVarTime B (denom_at m xs x) m))"

lemma coprime_diff_int:
  assumes "unit_diffs m xs" and "x \<in> set xs" and "y \<in> set xs" and "x \<noteq> y"
  shows "coprime (int y - int x) (int m)"
proof (cases "x < y")
  case True
  then have "coprime (y - x) m" using assms by (simp add: unit_diffs_def)
  then have "coprime (int (y - x)) (int m)" by (simp only: coprime_int_iff)
  with True show ?thesis by (simp add: of_nat_diff)
next
  case False
  then have "coprime (x - y) m" using assms by (simp add: unit_diffs_def)
  then have "coprime (int (x - y)) (int m)" by (simp only: coprime_int_iff)
  then have "coprime (- (int y - int x)) (int m)" using False by (simp add: of_nat_diff)
  then show ?thesis by (simp only: coprime_minus_left_iff)
qed

lemma inv_at_correct:
  assumes "bigmod_spec B" and "1 < m" and "unit_diffs m xs" and "x \<in> set xs"
  shows "\<exists>v. bm_InverseVarTime B (denom_at m xs x) m = Some v \<and> v < m"
    and "int m dvd inv_at B m xs x * (\<Prod>y\<in>set xs - {x}. int y - int x) - 1"
proof -
  let ?D = "\<Prod>y\<in>set xs - {x}. int y - int x"
  have d: "int (denom_at m xs x) = ?D mod int m" using assms(2) by (simp add: denom_at_def)
  have "coprime ?D (int m)"
    using assms(3,4) by (intro prod_coprime_left) (auto intro: coprime_diff_int)
  then have "coprime (int (denom_at m xs x)) (int m)"
    using d assms(2) by simp
  then have cop: "coprime (denom_at m xs x) m" by simp
  have "denom_at m xs x < m" using d assms(2) by (metis nat_int nat_less_iff of_nat_0_le_iff of_nat_less_iff pos_mod_bound of_nat_0_less_iff zero_less_one order.strict_trans)
  from bm_Inverse_ok [OF assms(1,2) this cop] obtain v where
    v: "bm_InverseVarTime B (denom_at m xs x) m = Some v" "v < m" "(denom_at m xs x * v) mod m = 1" by blast
  then show "\<exists>v. bm_InverseVarTime B (denom_at m xs x) m = Some v \<and> v < m" by blast
  have "(?D * int v) mod int m = int ((denom_at m xs x * v) mod m)"
    using d by (simp add: of_nat_mod mod_mult_left_eq)
  then have "(int v * ?D) mod int m = 1 mod int m" using v(3) assms(2) by (simp add: mult.commute)
  then show "int m dvd inv_at B m xs x * ?D - 1"
    using v(1) by (simp add: inv_at_def mod_eq_dvd_iff)
qed

lemma points_of_rmap:
  assumes "bigmod_spec B" and "field_ok f"
  shows "rmap (\<lambda>share. ElementFromUint64 B f (sh_X share)) shares = Inr (points shares)"
  unfolding points_def by (rule rmap_total) (simp add: ElementFromUint64_ok [OF assms])

text \<open>One term of the interpolation, and what the outer loop adds up.\<close>

definition term_at :: "'a bigmod_scheme \<Rightarrow> nat \<Rightarrow> nat list \<Rightarrow> nat list \<Rightarrow> nat \<Rightarrow> int" where
  "term_at B m cs xs x = int (npoly cs x) * (\<Prod>y\<in>set xs - {x}. int y) * inv_at B m xs x"

lemma mod_mult_middle: "(a * (b mod m) * c) mod m = (a * b * c) mod (m :: int)"
  by (metis mod_mult_left_eq mod_mult_right_eq)

lemma combine_step:
  assumes spec: "bigmod_spec B" "field_ok f"
    and dist: "distinct (points shares)" and units: "unit_diffs (fld_Modulus f) (points shares)"
    and t: "(i, s, x) \<in> set (triples shares)" and poly: "on_poly f cs s" and r: "r < fld_Modulus f"
  shows "\<exists>r'. combine_loop B f (triples shares) ((i, s, x) # ts) r = combine_loop B f (triples shares) ts r'
     \<and> r' < fld_Modulus f
     \<and> int r' = (int r + term_at B (fld_Modulus f) cs (points shares) x) mod int (fld_Modulus f)"
proof -
  let ?m = "fld_Modulus f" and ?xs = "points shares"
  have m: "1 < ?m" by (rule field_ok_bounds(1) [OF spec(2)])
  have x: "x = unat (sh_X s)" by (rule triples_mem(2) [OF t])
  have xmem: "x \<in> set ?xs" using triples_mem [OF t] by (auto simp: points_def)
  let ?y = "npoly cs x mod ?m"
  have y: "Element B f (sh_Y s) = Inr ?y"
    using poly m by (simp add: on_poly_def x Element_fill [OF spec])
  have ts: "z = unat (sh_X u) \<and> (i = j \<longleftrightarrow> x = z)" if "(j, u, z) \<in> set (triples shares)" for j u z
    using triples_index [OF dist t that] triples_mem [OF that] by simp
  obtain nm dn where b: "basis_loop B f i s x (triples shares) 1 1 = Inr (nm, dn)" "nm < ?m" "dn < ?m"
      "int nm = (\<Prod>z\<in>set ?xs - {x}. int z) mod int ?m"
      "int dn = (\<Prod>z\<in>set ?xs - {x}. int z - int x) mod int ?m"
    using basis_loop_ok [OF spec ts x, of "triples shares" 1 1] m
    by (auto simp: triples_points prod_list_filter_ne [OF dist])
  then have dn: "dn = denom_at ?m ?xs x" by (simp add: denom_at_def flip: b(5))
  obtain v where v: "bm_InverseVarTime B dn ?m = Some v" "v < ?m"
    using inv_at_correct(1) [OF spec(1) m units xmem] dn by blast
  let ?t = "bm_Mul B (bm_Mul B ?y nm ?m) v ?m"
  have t1: "bm_Mul B ?y nm ?m = (?y * nm) mod ?m" "(?y * nm) mod ?m < ?m"
    using m b by (simp_all add: bm_Mul_eq [OF spec(1)])
  then have t2: "?t = (npoly cs x * nm * v) mod ?m" "?t < ?m"
    using m v by (simp_all add: bm_Mul_eq [OF spec(1)] mod_mult_left_eq)
  have "int ?t = (int (npoly cs x) * int nm * int v) mod int ?m"
    by (simp add: t2(1) of_nat_mod)
  also have "\<dots> = term_at B ?m cs ?xs x mod int ?m"
    using v dn unfolding term_at_def inv_at_def b(4) by (simp add: mod_mult_middle)
  finally have tm: "int ?t = term_at B ?m cs ?xs x mod int ?m" .
  have "bm_Add B r ?t ?m = (r + ?t) mod ?m"
    using m r t2 by (simp add: bm_Add_eq [OF spec(1)])
  moreover have "int ((r + ?t) mod ?m) = (int r + term_at B ?m cs ?xs x) mod int ?m"
    by (simp add: of_nat_mod tm mod_add_right_eq)
  moreover have "combine_loop B f (triples shares) ((i, s, x) # ts) r
      = combine_loop B f (triples shares) ts (bm_Add B r ?t ?m)"
    using y b(1) v by simp
  ultimately show ?thesis using m by (intro exI [of _ "(r + ?t) mod ?m"]) simp
qed

lemma combine_loop_ok:
  assumes spec: "bigmod_spec B" "field_ok f"
    and dist: "distinct (points shares)" and units: "unit_diffs (fld_Modulus f) (points shares)"
    and poly: "\<forall>s \<in> set shares. on_poly f cs s"
    and ts: "set ts \<subseteq> set (triples shares)" and r: "r < fld_Modulus f"
  shows "\<exists>r'. combine_loop B f (triples shares) ts r = Inr r' \<and> r' < fld_Modulus f
     \<and> int r' = (int r + (\<Sum>x\<leftarrow>map (\<lambda>(i, s, x). x) ts. term_at B (fld_Modulus f) cs (points shares) x)) mod int (fld_Modulus f)"
  using ts r
proof (induction ts arbitrary: r)
  case Nil
  then show ?case by simp
next
  case (Cons t ts)
  obtain i s x where t: "t = (i, s, x)" by (cases t)
  have mem: "(i, s, x) \<in> set (triples shares)" using Cons.prems t by simp
  obtain r1 where r1: "combine_loop B f (triples shares) (t # ts) r = combine_loop B f (triples shares) ts r1"
      "r1 < fld_Modulus f" "int r1 = (int r + term_at B (fld_Modulus f) cs (points shares) x) mod int (fld_Modulus f)"
    using combine_step [OF spec dist units mem _ Cons.prems(2)] poly triples_mem(1) [OF mem] t by blast
  obtain r2 where "combine_loop B f (triples shares) ts r1 = Inr r2" "r2 < fld_Modulus f"
      "int r2 = (int r1 + (\<Sum>x\<leftarrow>map (\<lambda>(i, s, x). x) ts. term_at B (fld_Modulus f) cs (points shares) x)) mod int (fld_Modulus f)"
    using Cons.IH [OF _ r1(2)] Cons.prems by auto
  then show ?case unfolding r1(1) using r1(3) by (simp add: t mod_add_left_eq add.assoc)
qed

text \<open>
  Interpolation: shares with pairwise distinct indices (whose differences are units) that
  lie on a polynomial with at most as many coefficients as there are shares combine to
  its constant term.
\<close>

lemma CombineShamirShares_poly:
  assumes spec: "bigmod_spec B" "field_ok f"
    and dist: "distinct (points shares)" and nz: "0 \<notin> set (points shares)"
    and units: "unit_diffs (fld_Modulus f) (points shares)"
    and poly: "\<forall>s \<in> set shares. on_poly f cs s"
    and cs: "cs \<noteq> []" "hd cs < fld_Modulus f" "length cs \<le> length shares"
  shows "CombineShamirShares B f shares = Inr (fill_bytes (fld_Size f) (hd cs))"
proof -
  let ?m = "fld_Modulus f" and ?xs = "points shares"
  have m: "1 < ?m" by (rule field_ok_bounds(1) [OF spec(2)])
  let ?S = "int ` set ?xs"
  have inj: "inj_on int (set ?xs)" by simp
  obtain r where r: "combine_loop B f (triples shares) (triples shares) 0 = Inr r" "r < ?m"
      "int r = (\<Sum>x\<leftarrow>?xs. term_at B ?m cs ?xs x) mod int ?m"
    using combine_loop_ok [OF spec dist units poly, of "triples shares" 0] m by (auto simp: triples_points)
  have "(\<Sum>x\<leftarrow>?xs. term_at B ?m cs ?xs x) = (\<Sum>x\<in>set ?xs. term_at B ?m cs ?xs x)"
    using dist by (simp add: sum.distinct_set_conv_list)
  also have "\<dots> = (\<Sum>i\<in>?S. horner (map int cs) i * (\<Prod>j\<in>?S - {i}. j) * inv_at B ?m ?xs (nat i))"
    unfolding sum.reindex [OF inj] comp_def
  proof (rule sum.cong [OF refl])
    fix x assume "x \<in> set ?xs"
    have "?S - {int x} = int ` (set ?xs - {x})" by auto
    then have "(\<Prod>j\<in>?S - {int x}. j) = (\<Prod>y\<in>set ?xs - {x}. int y)" by (simp add: prod.reindex)
    then show "term_at B ?m cs ?xs x
        = horner (map int cs) (int x) * (\<Prod>j\<in>?S - {int x}. j) * inv_at B ?m ?xs (nat (int x))"
      by (simp add: term_at_def int_npoly)
  qed
  finally have sum: "(\<Sum>x\<leftarrow>?xs. term_at B ?m cs ?xs x)
      = (\<Sum>i\<in>?S. horner (map int cs) i * (\<Prod>j\<in>?S - {i}. j) * inv_at B ?m ?xs (nat i))" .
  have "int ?m dvd (\<Sum>i\<in>?S. horner (map int cs) i * (\<Prod>j\<in>?S - {i}. j) * inv_at B ?m ?xs (nat i)) - horner (map int cs) 0"
  proof (rule lagrange_zero_mod)
    show "length (map int cs) \<le> card ?S"
      using cs(3) distinct_card [OF dist] by (simp add: card_image length_points)
  next
    fix i assume "i \<in> ?S"
    then obtain x where x: "i = int x" "x \<in> set ?xs" by blast
    have "?S - {int x} = int ` (set ?xs - {x})" by auto
    then have "(\<Prod>j\<in>?S - {i}. j - i) = (\<Prod>y\<in>set ?xs - {x}. int y - int x)" by (simp add: x(1) prod.reindex)
    then show "int ?m dvd inv_at B ?m ?xs (nat i) * (\<Prod>j\<in>?S - {i}. j - i) - 1"
      using inv_at_correct(2) [OF spec(1) m units x(2)] by (simp only: x(1) nat_int)
  qed (use nz in auto)
  then have "(\<Sum>x\<leftarrow>?xs. term_at B ?m cs ?xs x) mod int ?m = int (hd cs) mod int ?m"
    using cs(1) unfolding sum by (cases cs) (simp_all add: mod_eq_dvd_iff)
  then have "r = hd cs" using r(3) cs(2) by (simp add: zmod_int flip: of_nat_mod)
  then show ?thesis
    using r(1,2)
    by (simp add: CombineShamirShares_def Let_def fld_Bytes_ok [OF spec] points_of_rmap [OF spec] flip: triples_def)
qed

text \<open>Two shares with the same index are refused before anything is interpolated.\<close>

lemma basis_loop_double:
  assumes spec: "bigmod_spec B" "field_ok f" and dup: "(j, t, y) \<in> set ts" "j \<noteq> i" "sh_X t = sh_X s"
  shows "basis_loop B f i s xi ts nm dn = Inl (Err ''double share error'')"
  using dup
proof (induction ts arbitrary: nm dn)
  case (Cons u ts)
  obtain k v z where u: "u = (k, v, z)" by (cases u)
  show ?case
  proof (cases "k = i \<or> sh_X v = sh_X s")
    case True
    with Cons u show ?thesis by auto
  next
    case False
    with Cons u show ?thesis by (auto simp: ElementFromUint64_ok [OF spec])
  qed
qed simp

lemma combine_loop_double:
  assumes spec: "bigmod_spec B" "field_ok f"
    and a: "(i, s, x) \<in> set ts" and b: "(j, t, y) \<in> set all" and ne: "i \<noteq> j" and eq: "sh_X s = sh_X t"
  shows "combine_loop B f all ts r \<noteq> Inr r'"
  using a
proof (induction ts arbitrary: r)
  case (Cons u ts)
  obtain k v z where u: "u = (k, v, z)" by (cases u)
  show ?case
  proof (cases "u = (i, s, x)")
    case True
    have "basis_loop B f i s x all 1 1 = Inl (Err ''double share error'')"
      using basis_loop_double [OF spec b] ne eq by simp
    then show ?thesis by (simp add: True res_simps)
  next
    case False
    then have "combine_loop B f all ts q \<noteq> Inr r'" for q using Cons by auto
    then show ?thesis by (auto simp: u res_simps split: option.splits)
  qed
qed simp

section \<open>Round trips\<close>

text \<open>The shares that splitting hands out, with the facts that combining needs.\<close>

lemma split_shares:
  assumes spec: "bigmod_spec B" "field_ok f" and split: "SplitToShamirShares B draws f val n k = Inr shares"
    and units: "\<And>d. 0 < d \<Longrightarrow> d < unat n \<Longrightarrow> coprime d (fld_Modulus f)"
    and sub: "set sub \<subseteq> set shares" "distinct sub"
  shows "distinct (points sub)" and "0 \<notin> set (points sub)" and "unit_diffs (fld_Modulus f) (points sub)"
    and "\<exists>cs. cs \<noteq> [] \<and> hd cs = nat_of_bytes val \<and> hd cs < fld_Modulus f \<and> length cs = unat k
           \<and> (\<forall>s \<in> set sub. on_poly f cs s)"
proof -
  from SplitToShamirShares_Inr [OF spec split] obtain cs where
    cs: "length cs = unat k" "cs \<noteq> []" "hd cs = nat_of_bytes val" "\<forall>c \<in> set cs. c < fld_Modulus f" and
    shares: "shares = map (\<lambda>i. \<lparr>sh_X = word_of_nat (Suc i),
      sh_Y = fill_bytes (fld_Size f) (npoly cs (Suc i) mod fld_Modulus f)\<rparr>) [0..<unat n]" by blast
  have pt: "\<exists>i < unat n. unat (sh_X s) = Suc i \<and> s = \<lparr>sh_X = word_of_nat (Suc i),
      sh_Y = fill_bytes (fld_Size f) (npoly cs (Suc i) mod fld_Modulus f)\<rparr>" if "s \<in> set sub" for s
  proof -
    from that sub(1) shares obtain i where i: "i < unat n" and s: "s = \<lparr>sh_X = word_of_nat (Suc i),
      sh_Y = fill_bytes (fld_Size f) (npoly cs (Suc i) mod fld_Modulus f)\<rparr>" by auto
    have "Suc i < 2 ^ 64" using i unat_uint64_bound [of n] by simp
    then have "unat (word_of_nat (Suc i) :: uint64) = Suc i" by (rule unat_word_of_nat_64)
    then show ?thesis using i unfolding s by (intro exI [of _ i]) simp
  qed
  have inj: "inj_on (\<lambda>s. unat (sh_X s)) (set sub)"
    using pt by (intro inj_onI) (metis nat.inject)
  show "distinct (points sub)" using sub(2) inj by (simp add: points_def distinct_map)
  show "0 \<notin> set (points sub)" using pt by (fastforce simp: points_def)
  show "unit_diffs (fld_Modulus f) (points sub)"
    unfolding unit_diffs_def
  proof (intro ballI impI)
    fix x y assume xy: "x \<in> set (points sub)" "y \<in> set (points sub)" "x < y"
    have "z \<le> unat n \<and> 0 < z" if "z \<in> set (points sub)" for z
      using that pt by (fastforce simp: points_def)
    then have "y \<le> unat n" "0 < x" using xy by auto
    then show "coprime (y - x) (fld_Modulus f)" using xy(3) by (intro units) auto
  qed
  have "on_poly f cs s" if "s \<in> set sub" for s
  proof -
    from pt [OF that] obtain i where i: "unat (sh_X s) = Suc i"
      "sh_Y s = fill_bytes (fld_Size f) (npoly cs (Suc i) mod fld_Modulus f)" by (metis ShamirShare.select_convs(2))
    then show ?thesis unfolding on_poly_def by (simp only:)
  qed
  then show "\<exists>cs. cs \<noteq> [] \<and> hd cs = nat_of_bytes val \<and> hd cs < fld_Modulus f \<and> length cs = unat k
           \<and> (\<forall>s \<in> set sub. on_poly f cs s)"
    using cs hd_in_set [OF cs(2)] by (intro exI [of _ cs]) auto
qed

text \<open>Any threshold many distinct shares give the secret back, at the width of the field.\<close>

lemma Combine_Split:
  assumes spec: "bigmod_spec B" "field_ok f" and split: "SplitToShamirShares B draws f val n k = Inr shares"
    and units: "\<And>d. 0 < d \<Longrightarrow> d < unat n \<Longrightarrow> coprime d (fld_Modulus f)"
    and sub: "set sub \<subseteq> set shares" "distinct sub" and enough: "unat k \<le> length sub"
  shows "CombineShamirShares B f sub = Inr (fill_bytes (fld_Size f) (nat_of_bytes val))"
proof -
  note facts = split_shares [OF spec split units sub]
  from facts(4) obtain cs where cs: "cs \<noteq> []" "hd cs = nat_of_bytes val" "hd cs < fld_Modulus f"
    "length cs = unat k" "\<forall>s \<in> set sub. on_poly f cs s" by blast
  from CombineShamirShares_poly [OF spec facts(1-3) cs(5,1,3)] cs(2,4) enough show ?thesis by simp
qed

lemma join_loop_ok:
  assumes spec: "bigmod_spec B" "field_ok f" and "a < fld_Modulus f" and "\<forall>v \<in> set vs. v < fld_Modulus f"
  shows "join_loop B f (map (fill_bytes (fld_Size f)) vs) a = Inr ((a + sum_list vs) mod fld_Modulus f)"
  using assms(3,4)
proof (induction vs arbitrary: a)
  case Nil
  then show ?case by simp
next
  case (Cons v vs)
  have m: "1 < fld_Modulus f" by (rule field_ok_bounds(1) [OF spec(2)])
  have "bm_Add B a v (fld_Modulus f) = (a + v) mod fld_Modulus f"
    using Cons.prems m by (simp add: bm_Add_eq [OF spec(1)])
  then show ?case
    using Cons.IH [of "(a + v) mod fld_Modulus f"] Cons.prems m
    by (simp add: Element_fill [OF spec] mod_add_left_eq add.assoc)
qed

lemma foldl_bm_Add:
  assumes "bigmod_spec B" and "1 < m" and "a < m" and "\<forall>v \<in> set vs. v < m"
  shows "foldl (\<lambda>s part. bm_Add B s part m) a vs = (a + sum_list vs) mod m"
  using assms(3,4)
proof (induction vs arbitrary: a)
  case Nil
  then show ?case by simp
next
  case (Cons v vs)
  have "bm_Add B a v m = (a + v) mod m" using Cons.prems assms(1,2) by (simp add: bm_Add_eq)
  then show ?case using Cons.IH [of "(a + v) mod m"] Cons.prems assms(2) by (simp add: mod_add_left_eq add.assoc)
qed

text \<open>The parts of a split secret are reduced field elements that sum to it.\<close>

lemma SplitSecret_Inr:
  assumes spec: "bigmod_spec B" "field_ok f" and split: "SplitSecret B draws f secret n = Inr parts"
  shows "\<exists>vs. parts = map (fill_bytes (fld_Size f)) vs \<and> length vs = n \<and> 2 \<le> n \<and> (\<forall>v \<in> set vs. v < fld_Modulus f)
     \<and> sum_list vs mod fld_Modulus f = nat_of_bytes secret \<and> length secret = fld_SecretSize f"
proof -
  let ?m = "fld_Modulus f"
  have m: "1 < ?m" by (rule field_ok_bounds(1) [OF spec(2)])
  from split obtain e rs where n: "2 \<le> n" and len: "length secret = fld_SecretSize f" and
    e: "Element B f secret = Inr e" and rs: "rmap (\<lambda>i. Random B f (draws i)) [0..<n - 1] = Inr rs" and
    parts: "parts = map (fld_Bytes B f) rs
      @ [fld_Bytes B f (bm_Sub B (bm_Add B 0 e ?m) (foldl (\<lambda>s part. bm_Add B s part ?m) 0 rs) ?m)]"
    by (auto simp: SplitSecret_def res_simps Let_def)
  have rsm: "\<forall>v \<in> set rs. v < ?m" "length rs = n - 1" using rmap_Random [OF spec rs] by auto
  have em: "e = nat_of_bytes secret" "e < ?m" using Element_Inr [OF spec e] by auto
  define s where "s = sum_list rs mod ?m"
  define l where "l = (e + (?m - s)) mod ?m"
  have sm: "s < ?m" using m by (simp add: s_def)
  have "bm_Add B 0 e ?m = e" using em m by (simp add: bm_Add_eq [OF spec(1)])
  moreover have "foldl (\<lambda>s part. bm_Add B s part ?m) 0 rs = s"
    using foldl_bm_Add [OF spec(1) m, of 0 rs] rsm m by (simp add: s_def)
  moreover have "bm_Sub B e s ?m = l" using em sm m by (simp add: bm_Sub_eq [OF spec(1)] l_def)
  ultimately have p: "parts = map (fill_bytes (fld_Size f)) (rs @ [l])"
    using parts rsm m by (simp add: fld_Bytes_ok [OF spec] l_def)
  have "(sum_list rs + l) mod ?m = (s + (e + (?m - s))) mod ?m"
    unfolding s_def l_def by (simp add: mod_add_left_eq mod_add_right_eq)
  also have "\<dots> = e" using sm em by simp
  finally have "sum_list (rs @ [l]) mod ?m = nat_of_bytes secret" using em by simp
  then show ?thesis using p rsm n len m by (intro exI [of _ "rs @ [l]"]) (auto simp: l_def)
qed

lemma JoinSecret_SplitSecret:
  assumes spec: "bigmod_spec B" "field_ok f" and split: "SplitSecret B draws f secret n = Inr parts"
  shows "JoinSecret B f parts = Inr secret"
proof -
  from SplitSecret_Inr [OF spec split] obtain vs where vs: "parts = map (fill_bytes (fld_Size f)) vs"
    "length vs = n" "2 \<le> n" "\<forall>v \<in> set vs. v < fld_Modulus f"
    "sum_list vs mod fld_Modulus f = nat_of_bytes secret" "length secret = fld_SecretSize f" by blast
  have m: "1 < fld_Modulus f" by (rule field_ok_bounds(1) [OF spec(2)])
  have "join_loop B f parts 0 = Inr (nat_of_bytes secret)"
    using join_loop_ok [OF spec, of 0 vs] m vs by simp
  moreover have "nat_of_bytes secret < fld_Modulus f" using vs(5) m by (metis mod_less_divisor order.strict_trans zero_less_one)
  moreover have "nat_of_bytes secret < 256 ^ fld_SecretSize f" using nat_of_bytes_bound [of secret] vs(6) by simp
  moreover have "fill_bytes (fld_SecretSize f) (nat_of_bytes secret) = secret"
    using fill_nat_of_bytes [of secret] vs(6) by simp
  ultimately show ?thesis using vs by (auto simp: JoinSecret_def SecretBytes_eq [OF spec])
qed

end
