(* ===== verification/Secp_Units.thy ===== *)
theory Secp_Units
  imports Field
begin

text \<open>
  No number from 1 to 1000 has a common factor with the order of secp256k1. This is what
  Lagrange interpolation over that modulus needs of it when at most 1000 shares are dealt.
  The proof runs through the numbers in order: a composite one is a product of two smaller
  ones, and a prime one leaves a remainder, computed digit by digit.
\<close>

text \<open>The remainder of a big-endian digit list (base 256).\<close>

fun digits_mod :: "int \<Rightarrow> int \<Rightarrow> int list \<Rightarrow> int" where
  "digits_mod p a [] = a"
| "digits_mod p a (b # bs) = digits_mod p ((a * 256 + b) mod p) bs"

definition digits_value :: "int list \<Rightarrow> int" where
  "digits_value bs = foldl (\<lambda>a b. a * 256 + b) 0 bs"

lemma digits_mod_correct: "digits_mod p (a mod p) bs = foldl (\<lambda>a b. a * 256 + b) a bs mod p"
proof (induction bs arbitrary: a)
  case (Cons b bs)
  have "(a mod p * 256 + b) mod p = (a * 256 + b) mod p"
    by (metis mod_add_left_eq mod_mult_left_eq)
  then show ?case using Cons.IH [of "a * 256 + b"] by simp
qed simp

definition secp_digits :: "int list" where
  "secp_digits = [255, 255, 255, 255, 255, 255, 255, 255, 255, 255, 255, 255, 255, 255, 255, 254, 186, 174, 220, 230, 175, 72, 160, 59, 191, 210, 94, 140, 208, 54, 65, 65]"

lemma secp_digits_value: "digits_value secp_digits = int secp256k1_N"
  by (simp add: digits_value_def secp_digits_def secp256k1_N_def)

text \<open>The least prime factors of the numbers from 2 to 1000.\<close>

definition least_factors :: "int list" where
  "least_factors = [
    2, 3, 2, 5, 2, 7, 2, 3, 2, 11, 2, 13, 2, 3, 2, 17, 2, 19, 2, 3, 2, 23, 2, 5, 2, 3, 2, 29, 2,
    31, 2, 3, 2, 5, 2, 37, 2, 3, 2, 41, 2, 43, 2, 3, 2, 47, 2, 7, 2, 3, 2, 53, 2, 5, 2, 3, 2, 59,
    2, 61, 2, 3, 2, 5, 2, 67, 2, 3, 2, 71, 2, 73, 2, 3, 2, 7, 2, 79, 2, 3, 2, 83, 2, 5, 2, 3, 2,
    89, 2, 7, 2, 3, 2, 5, 2, 97, 2, 3, 2, 101, 2, 103, 2, 3, 2, 107, 2, 109, 2, 3, 2, 113, 2, 5,
    2, 3, 2, 7, 2, 11, 2, 3, 2, 5, 2, 127, 2, 3, 2, 131, 2, 7, 2, 3, 2, 137, 2, 139, 2, 3, 2, 11,
    2, 5, 2, 3, 2, 149, 2, 151, 2, 3, 2, 5, 2, 157, 2, 3, 2, 7, 2, 163, 2, 3, 2, 167, 2, 13, 2,
    3, 2, 173, 2, 5, 2, 3, 2, 179, 2, 181, 2, 3, 2, 5, 2, 11, 2, 3, 2, 191, 2, 193, 2, 3, 2, 197,
    2, 199, 2, 3, 2, 7, 2, 5, 2, 3, 2, 11, 2, 211, 2, 3, 2, 5, 2, 7, 2, 3, 2, 13, 2, 223, 2, 3,
    2, 227, 2, 229, 2, 3, 2, 233, 2, 5, 2, 3, 2, 239, 2, 241, 2, 3, 2, 5, 2, 13, 2, 3, 2, 251, 2,
    11, 2, 3, 2, 257, 2, 7, 2, 3, 2, 263, 2, 5, 2, 3, 2, 269, 2, 271, 2, 3, 2, 5, 2, 277, 2, 3,
    2, 281, 2, 283, 2, 3, 2, 7, 2, 17, 2, 3, 2, 293, 2, 5, 2, 3, 2, 13, 2, 7, 2, 3, 2, 5, 2, 307,
    2, 3, 2, 311, 2, 313, 2, 3, 2, 317, 2, 11, 2, 3, 2, 17, 2, 5, 2, 3, 2, 7, 2, 331, 2, 3, 2, 5,
    2, 337, 2, 3, 2, 11, 2, 7, 2, 3, 2, 347, 2, 349, 2, 3, 2, 353, 2, 5, 2, 3, 2, 359, 2, 19, 2,
    3, 2, 5, 2, 367, 2, 3, 2, 7, 2, 373, 2, 3, 2, 13, 2, 379, 2, 3, 2, 383, 2, 5, 2, 3, 2, 389,
    2, 17, 2, 3, 2, 5, 2, 397, 2, 3, 2, 401, 2, 13, 2, 3, 2, 11, 2, 409, 2, 3, 2, 7, 2, 5, 2, 3,
    2, 419, 2, 421, 2, 3, 2, 5, 2, 7, 2, 3, 2, 431, 2, 433, 2, 3, 2, 19, 2, 439, 2, 3, 2, 443, 2,
    5, 2, 3, 2, 449, 2, 11, 2, 3, 2, 5, 2, 457, 2, 3, 2, 461, 2, 463, 2, 3, 2, 467, 2, 7, 2, 3,
    2, 11, 2, 5, 2, 3, 2, 479, 2, 13, 2, 3, 2, 5, 2, 487, 2, 3, 2, 491, 2, 17, 2, 3, 2, 7, 2,
    499, 2, 3, 2, 503, 2, 5, 2, 3, 2, 509, 2, 7, 2, 3, 2, 5, 2, 11, 2, 3, 2, 521, 2, 523, 2, 3,
    2, 17, 2, 23, 2, 3, 2, 13, 2, 5, 2, 3, 2, 7, 2, 541, 2, 3, 2, 5, 2, 547, 2, 3, 2, 19, 2, 7,
    2, 3, 2, 557, 2, 13, 2, 3, 2, 563, 2, 5, 2, 3, 2, 569, 2, 571, 2, 3, 2, 5, 2, 577, 2, 3, 2,
    7, 2, 11, 2, 3, 2, 587, 2, 19, 2, 3, 2, 593, 2, 5, 2, 3, 2, 599, 2, 601, 2, 3, 2, 5, 2, 607,
    2, 3, 2, 13, 2, 613, 2, 3, 2, 617, 2, 619, 2, 3, 2, 7, 2, 5, 2, 3, 2, 17, 2, 631, 2, 3, 2, 5,
    2, 7, 2, 3, 2, 641, 2, 643, 2, 3, 2, 647, 2, 11, 2, 3, 2, 653, 2, 5, 2, 3, 2, 659, 2, 661, 2,
    3, 2, 5, 2, 23, 2, 3, 2, 11, 2, 673, 2, 3, 2, 677, 2, 7, 2, 3, 2, 683, 2, 5, 2, 3, 2, 13, 2,
    691, 2, 3, 2, 5, 2, 17, 2, 3, 2, 701, 2, 19, 2, 3, 2, 7, 2, 709, 2, 3, 2, 23, 2, 5, 2, 3, 2,
    719, 2, 7, 2, 3, 2, 5, 2, 727, 2, 3, 2, 17, 2, 733, 2, 3, 2, 11, 2, 739, 2, 3, 2, 743, 2, 5,
    2, 3, 2, 7, 2, 751, 2, 3, 2, 5, 2, 757, 2, 3, 2, 761, 2, 7, 2, 3, 2, 13, 2, 769, 2, 3, 2,
    773, 2, 5, 2, 3, 2, 19, 2, 11, 2, 3, 2, 5, 2, 787, 2, 3, 2, 7, 2, 13, 2, 3, 2, 797, 2, 17, 2,
    3, 2, 11, 2, 5, 2, 3, 2, 809, 2, 811, 2, 3, 2, 5, 2, 19, 2, 3, 2, 821, 2, 823, 2, 3, 2, 827,
    2, 829, 2, 3, 2, 7, 2, 5, 2, 3, 2, 839, 2, 29, 2, 3, 2, 5, 2, 7, 2, 3, 2, 23, 2, 853, 2, 3,
    2, 857, 2, 859, 2, 3, 2, 863, 2, 5, 2, 3, 2, 11, 2, 13, 2, 3, 2, 5, 2, 877, 2, 3, 2, 881, 2,
    883, 2, 3, 2, 887, 2, 7, 2, 3, 2, 19, 2, 5, 2, 3, 2, 29, 2, 17, 2, 3, 2, 5, 2, 907, 2, 3, 2,
    911, 2, 11, 2, 3, 2, 7, 2, 919, 2, 3, 2, 13, 2, 5, 2, 3, 2, 929, 2, 7, 2, 3, 2, 5, 2, 937, 2,
    3, 2, 941, 2, 23, 2, 3, 2, 947, 2, 13, 2, 3, 2, 953, 2, 5, 2, 3, 2, 7, 2, 31, 2, 3, 2, 5, 2,
    967, 2, 3, 2, 971, 2, 7, 2, 3, 2, 977, 2, 11, 2, 3, 2, 983, 2, 5, 2, 3, 2, 23, 2, 991, 2, 3,
    2, 5, 2, 997, 2, 3, 2]"

text \<open>Number \<open>g\<close> with its factor \<open>p\<close>: a proper divisor, or else a non-zero remainder.\<close>

fun check_units :: "int \<Rightarrow> int list \<Rightarrow> bool" where
  "check_units g [] = True"
| "check_units g (p # ps) =
     ((if p = g then digits_mod g 0 secp_digits \<noteq> 0 else 1 < p \<and> p < g \<and> g mod p = 0) \<and> check_units (g + 1) ps)"

lemma check_units_1000: "check_units 2 least_factors"
  by code_simp

lemma least_factors_length: "length least_factors = 999"
  by (simp add: least_factors_def)

lemma check_units_nth:
  assumes "check_units g ps" and "i < length ps"
  shows "if ps ! i = g + int i then int secp256k1_N mod (g + int i) \<noteq> 0
         else 1 < ps ! i \<and> ps ! i < g + int i \<and> (g + int i) mod (ps ! i) = 0"
  using assms
proof (induction ps arbitrary: g i)
  case (Cons p ps)
  have rem: "digits_mod g 0 secp_digits = int secp256k1_N mod g"
    using digits_mod_correct [of g 0 secp_digits] secp_digits_value by (simp add: digits_value_def)
  show ?case
  proof (cases i)
    case 0
    with Cons.prems rem show ?thesis by (auto split: if_splits)
  next
    case (Suc j)
    then have "check_units (g + 1) ps" "j < length ps" using Cons.prems by simp_all
    note Cons.IH [OF this]
    moreover have "g + 1 + int j = g + int i" "(p # ps) ! i = ps ! j" using Suc by simp_all
    ultimately show ?thesis by (simp only:)
  qed
qed simp

lemma secp256k1_N_units:
  assumes "0 < d" and "d \<le> 1000"
  shows "coprime d secp256k1_N"
  using assms
proof (induction d rule: less_induct)
  case (less d)
  show ?case
  proof (cases "d = 1")
    case False
    define i where "i = d - 2"
    have i: "d = i + 2" "i < 999" using False less.prems by (auto simp: i_def)
    define p where "p = least_factors ! i"
    have chk: "if p = int d then int secp256k1_N mod int d \<noteq> 0 else 1 < p \<and> p < int d \<and> int d mod p = 0"
    proof -
      have d: "2 + int i = int d" and len: "i < length least_factors" using i by (simp_all add: least_factors_length)
      show ?thesis using check_units_nth [OF check_units_1000 len] unfolding d p_def .
    qed
    show ?thesis
    proof (cases "p = int d")
      case True
      with chk have nd: "\<not> d dvd secp256k1_N" by (metis dvd_imp_mod_0 int_dvd_int_iff)
      show ?thesis
      proof (rule ccontr)
        assume "\<not> coprime d secp256k1_N"
        then have e: "gcd d secp256k1_N \<noteq> 1" by (simp add: coprime_iff_gcd_eq_1)
        have "gcd d secp256k1_N \<noteq> d" using nd by (metis gcd_dvd2)
        then have "gcd d secp256k1_N < d" using less.prems gcd_le1_nat [of d secp256k1_N] by linarith
        moreover have "0 < gcd d secp256k1_N" using less.prems by simp
        ultimately have "coprime (gcd d secp256k1_N) secp256k1_N" using less by simp
        then have "is_unit (gcd d secp256k1_N)" by (rule coprime_common_divisor) simp_all
        then show False using e by simp
      qed
    next
      case False
      define q where "q = nat p"
      have "p = int q" using chk False by (simp add: q_def)
      with chk False have q: "1 < q" "q < d" "int q dvd int d" by (simp_all add: mod_eq_0_iff_dvd)
      then have "q dvd d" by (simp only: int_dvd_int_iff)
      then obtain k where k: "d = q * k" by blast
      then have "0 < k" "k < d" using less.prems q by auto
      then have "coprime q secp256k1_N" "coprime k secp256k1_N" using less q by auto
      then show ?thesis by (simp add: k)
    qed
  qed simp
qed

end
