(* ===== verification/Props_Sharing.thy ===== *)
theory Props_Sharing
  imports Shamir Secp_Units
begin

text \<open>
  Properties of the secret sharing scheme that backups rest on.
\<close>

lemma secp_modulus: "fld_Modulus fieldSecp256k1Order = secp256k1_N" "fld_Size fieldSecp256k1Order = 32"
    "fld_SecretSize fieldSecp256k1Order = 32"
  by (simp_all add: fieldSecp256k1Order_def)

text \<open>
  C11: Shamir round trip. When a 32-byte secret is split over the secp256k1 field into at
  most 1000 shares, any list of at least \<open>threshold\<close> distinct ones of these shares combines
  to exactly the secret's bytes.
\<close>

theorem shamir_roundtrip:
  assumes "bigmod_spec B"
    and "SplitToShamirShares B draws fieldSecp256k1Order val numShares threshold = Inr shares"
    and "length val = 32" and "unat numShares \<le> 1000"
    and "set chosen \<subseteq> set shares" and "distinct chosen" and "unat threshold \<le> length chosen"
  shows "CombineShamirShares B fieldSecp256k1Order chosen = Inr val"
proof -
  have "CombineShamirShares B fieldSecp256k1Order chosen = Inr (fill_bytes 32 (nat_of_bytes val))"
    using Combine_Split [OF assms(1) field_ok_secp assms(2) _ assms(5-7)] assms(4)
      secp256k1_N_units by (simp add: secp_modulus)
  then show ?thesis using fill_nat_of_bytes [of val] assms(3) by simp
qed

text \<open>The example that the witnesses use: secret 5, random coefficients and parts 7.\<close>

definition secret5 :: bytes where "secret5 = fill_bytes 32 5"
definition draw7 :: "nat \<Rightarrow> nat res" where "draw7 i = Inr 7"

lemma length_secret5 [simp]: "length secret5 = 32"
  by (simp add: secret5_def)

lemma nat_of_secret5 [simp]: "nat_of_bytes secret5 = 5"
  by (simp add: secret5_def nat_of_fill_32)

lemma Element_secret5: "Element bigmod_ref fieldSecp256k1Order secret5 = Inr 5"
  using Element_ok [OF bigmod_ref_spec field_ok_secp, of secret5]
  by (simp add: secp_modulus secp256k1_N_def)

lemma Random_draw7: "Random bigmod_ref fieldSecp256k1Order (draw7 i) = Inr 7"
  by (simp add: Random_ok [OF bigmod_ref_spec field_ok_secp] secp_modulus secp256k1_N_def draw7_def)

lemma split_example: "SplitToShamirShares bigmod_ref draw7 fieldSecp256k1Order secret5 3 2
    = Inr [\<lparr>sh_X = 1, sh_Y = fill_bytes 32 12\<rparr>, \<lparr>sh_X = 2, sh_Y = fill_bytes 32 19\<rparr>,
           \<lparr>sh_X = 3, sh_Y = fill_bytes 32 26\<rparr>]"
  by (simp add: SplitToShamirShares_def Element_secret5 Random_draw7
      evalPolynomial_ok [OF bigmod_ref_spec field_ok_secp] secp_modulus secp256k1_N_def
      fld_Bytes_ok [OF bigmod_ref_spec field_ok_secp] upt_rec)

theorem shamir_roundtrip_witness:
  "CombineShamirShares bigmod_ref fieldSecp256k1Order
     [\<lparr>sh_X = 3, sh_Y = fill_bytes 32 26\<rparr>, \<lparr>sh_X = 1, sh_Y = fill_bytes 32 12\<rparr>] = Inr secret5"
  by (rule shamir_roundtrip [OF bigmod_ref_spec split_example]) simp_all

text \<open>
  Additive round trip. Whatever the random draws are, joining the parts of a split
  secret gives the secret back byte for byte, in both of the fields that backups name.
\<close>

theorem split_join_secret:
  assumes "bigmod_spec B" and "f = fieldSecp256k1Order \<or> f = fieldPrimeAbove256"
    and "SplitSecret B draws f secret n = Inr parts"
  shows "length parts = n \<and> JoinSecret B f parts = Inr secret"
proof -
  have ok: "field_ok f" using assms(2) field_ok_secp field_ok_above256 by auto
  show ?thesis
    using JoinSecret_SplitSecret [OF assms(1) ok assms(3)] SplitSecret_Inr [OF assms(1) ok assms(3)] by auto
qed

lemma split_secret_example: "SplitSecret bigmod_ref draw7 fieldSecp256k1Order secret5 2
    = Inr [fill_bytes 32 7, fill_bytes 32 (secp256k1_N - 2)]"
  by (simp add: SplitSecret_def Element_secret5 Random_draw7 secp_modulus upt_rec secp256k1_N_def
      bm_Add_eq [OF bigmod_ref_spec] bm_Sub_eq [OF bigmod_ref_spec]
      fld_Bytes_ok [OF bigmod_ref_spec field_ok_secp])

theorem split_join_secret_witness:
  "JoinSecret bigmod_ref fieldSecp256k1Order [fill_bytes 32 7, fill_bytes 32 (secp256k1_N - 2)] = Inr secret5"
  using split_join_secret [OF bigmod_ref_spec _ split_secret_example] by simp

text \<open>
  A repeated index is refused. Combining shares of which two carry the same index is
  an error, whatever the other shares are.
\<close>

theorem combine_rejects_duplicates:
  assumes "bigmod_spec B" and "i < j" and "j < length shares" and "sh_X (shares ! i) = sh_X (shares ! j)"
  shows "\<exists>e. CombineShamirShares B fieldSecp256k1Order shares = Inl e"
proof -
  have "combine_loop B fieldSecp256k1Order (triples shares) (triples shares) 0 \<noteq> Inr r" for r
    using assms(2,3)
    by (intro combine_loop_double [OF assms(1) field_ok_secp triples_nth triples_nth _ assms(4)]) auto
  then show ?thesis
    by (cases "CombineShamirShares B fieldSecp256k1Order shares")
       (auto simp: CombineShamirShares_def rbind_eq_Inr Let_def points_of_rmap [OF assms(1) field_ok_secp] simp flip: triples_def)
qed

theorem combine_rejects_duplicates_witness:
  "\<exists>e. CombineShamirShares bigmod_ref fieldSecp256k1Order
     [\<lparr>sh_X = 2, sh_Y = fill_bytes 32 19\<rparr>, \<lparr>sh_X = 2, sh_Y = fill_bytes 32 26\<rparr>] = Inl e"
  by (rule combine_rejects_duplicates [OF bigmod_ref_spec, of 0 1]) simp_all

end
