(* ===== verification/Backup.thy ===== *)
theory Backup
  imports Shamir
begin

text \<open>
  Backups of wallet keys: the data and its checks (\<^verbatim>\<open>src/pkg/wallets/backup/backup.go\<close>), the
  dealing of a key to admins and data providers and its recovery
  (\<^verbatim>\<open>src/internal/wallets/backup/backup.go\<close>), and the direct backup payload
  (\<^verbatim>\<open>src/pkg/wallets/backup/direct_backup.go\<close>).
\<close>

section \<open>Data\<close>

record WalletBackupMetaData =
  md_ID :: WalletBackupID
  md_FieldID :: hash
  md_AdminsPublicKeys :: "PublicKey list"
  md_AdminsThreshold :: uint64
  md_ProvidersThreshold :: uint64
  md_Cosigners :: "address list"
  md_CosignersThreshold :: uint64

record EncryptedShares =
  es_Splits :: "bytes list"
  es_OwnersPublicKeys :: "PublicKey list"
  es_Threshold :: uint64
  es_Weights :: "uint16 list"

record WalletBackup =
  bk_MetaData :: WalletBackupMetaData
  bk_AdminEncryptedParts :: "EncryptedShares option"
  bk_ProviderEncryptedParts :: "EncryptedShares option"
  bk_Signature :: bytes
  bk_TEESignature :: bytes

record PartialWalletBackupID =
  pw_ID :: WalletBackupID
  pw_IsAdmin :: bool

record KeySplitData =
  ks_Shares :: "ShamirShare list"
  ks_PartialID :: PartialWalletBackupID
  ks_OwnerPublicKey :: PublicKey

record KeySplit =
  ks_Data :: KeySplitData
  ks_Signature :: bytes

record KeyDirectBackupPayload =
  dp_BackupID :: WalletBackupID
  dp_EncryptedPrivateKey :: bytes
  dp_AdminPublicKeys :: "PublicKey list"
  dp_AdminsThreshold :: uint64
  dp_Cosigners :: "address list"
  dp_CosignersThreshold :: uint64
  dp_SettingsVersion :: hash
  dp_Settings :: bytes
  dp_Status :: WalletStatus

record SignedKeyDirectBackup =
  sd_Payload :: bytes
  sd_TEESignature :: bytes

text \<open>The JSON forms of these values.\<close>

record backup_env = wallets_env +
  json_KeySplitData :: "KeySplitData \<Rightarrow> bytes res"
  json_KeySplit :: "KeySplit \<Rightarrow> bytes res"
  unjson_KeySplit :: "bytes \<Rightarrow> KeySplit res"
  unjson_KeySplits :: "bytes \<Rightarrow> KeySplit list res"
  json_WalletBackupForHashing ::
    "WalletBackupMetaData \<Rightarrow> EncryptedShares option \<Rightarrow> EncryptedShares option \<Rightarrow> bytes res"
  unjson_MetaData :: "bytes \<Rightarrow> WalletBackupMetaData res"
  json_DirectPayload :: "KeyDirectBackupPayload \<Rightarrow> bytes res"
  unjson_DirectPayload :: "bytes \<Rightarrow> KeyDirectBackupPayload res"
  json_SignedDirect :: "SignedKeyDirectBackup \<Rightarrow> bytes res"
  unjson_SignedDirect :: "bytes \<Rightarrow> SignedKeyDirectBackup res"

text \<open>What one backup draws: the nonce, the coefficients and the encryption randomness.\<close>

record backup_rnd =
  br_Nonce :: "hash res"
  br_Split :: "nat \<Rightarrow> nat res"
  br_Admin :: "nat \<Rightarrow> nat res"
  br_Provider :: "nat \<Rightarrow> nat res"
  br_EncAdmin :: "nat \<Rightarrow> nat"
  br_EncProvider :: "nat \<Rightarrow> nat"

section \<open>Key splits\<close>

definition PartialWalletBackupID_Equal ::
  "'a flare_scheme \<Rightarrow> PartialWalletBackupID \<Rightarrow> PartialWalletBackupID \<Rightarrow> bool" where
  "PartialWalletBackupID_Equal F p w \<longleftrightarrow>
     WalletBackupID_Equal F (pw_ID p) (pw_ID w) = Inr () \<and> pw_IsAdmin p = pw_IsAdmin w"

definition KeySplitData_HashForSigning :: "'a backup_env_scheme \<Rightarrow> KeySplitData \<Rightarrow> hash res" where
  "KeySplitData_HashForSigning E ksd = rbind (json_KeySplitData E ksd) (\<lambda>b. Inr (Keccak256Hash E b))"

definition KeySplitData_SignHash :: "'a backup_env_scheme \<Rightarrow> KeySplitData \<Rightarrow> uint64 \<Rightarrow> hash res" where
  "KeySplitData_SignHash E ksd chainID =
     rbind (KeySplitData_HashForSigning E ksd) (\<lambda>h. payload_Hash E PMWKeySplit chainID h)"

definition KeySplitData_Sign ::
  "'a backup_env_scheme \<Rightarrow> KeySplitData \<Rightarrow> 'b wallet_data_scheme \<Rightarrow> uint64 \<Rightarrow> bytes res" where
  "KeySplitData_Sign E ksd signer chainID =
     rbind (KeySplitData_SignHash E ksd chainID) (\<lambda>h. Wallet_Sign E signer (hash_bytes h))"

definition KeySplit_VerifySignature :: "'a backup_env_scheme \<Rightarrow> KeySplit \<Rightarrow> uint64 \<Rightarrow> unit res" where
  "KeySplit_VerifySignature E ks chainID =
     rbind (KeySplitData_SignHash E (ks_Data ks) chainID) (\<lambda>h.
     wallets_VerifySignature E (hash_bytes h) (ks_Signature ks)
       (wb_PublicKey (pw_ID (ks_PartialID (ks_Data ks)))) (wb_SigningAlgo (pw_ID (ks_PartialID (ks_Data ks)))))"

definition DecryptSplit :: "'a backup_env_scheme \<Rightarrow> bytes \<Rightarrow> ecdsa_priv \<Rightarrow> uint64 \<Rightarrow> KeySplit res" where
  "DecryptSplit E encryptedShare privKeyECDSA chainID =
     rbind (Decrypt E encryptedShare privKeyECDSA) (\<lambda>shareBytes.
     rbind (unjson_KeySplit E shareBytes) (\<lambda>keySplit.
     rbind (KeySplit_VerifySignature E keySplit chainID) (\<lambda>_.
     if ks_OwnerPublicKey (ks_Data keySplit) \<noteq> PubKeyToStruct (sk_Pub privKeyECDSA)
     then Inl (Err ''public key defined in the split does not match given public key'')
     else Inr keySplit)))"

section \<open>Checks of a backup\<close>

definition EncryptedShares_Check :: "EncryptedShares \<Rightarrow> unit res" where
  "EncryptedShares_Check e =
     rbind (ensure (length (es_Splits e) = length (es_OwnersPublicKeys e))
       (Err ''the number of splits does not match the number of public keys'')) (\<lambda>_.
     rbind (ensure (length (es_Splits e) = length (es_Weights e))
       (Err ''the number of splits does not match the number of weights'')) (\<lambda>_.
     ensure (\<not> SumUint64 (es_Weights e) < es_Threshold e) (Err ''threshold too high'')))"

definition WalletBackup_HashForSigning :: "'a backup_env_scheme \<Rightarrow> WalletBackup \<Rightarrow> hash res" where
  "WalletBackup_HashForSigning E wb =
     rbind (json_WalletBackupForHashing E (bk_MetaData wb) (bk_AdminEncryptedParts wb)
       (bk_ProviderEncryptedParts wb)) (\<lambda>b. Inr (Keccak256Hash E b))"

definition OwnerSignHash :: "'a backup_env_scheme \<Rightarrow> WalletBackup \<Rightarrow> uint64 \<Rightarrow> hash res" where
  "OwnerSignHash E wb chainID =
     rbind (WalletBackup_HashForSigning E wb) (\<lambda>h. payload_Hash E PMWWalletBackup chainID h)"

definition TEESignHash :: "'a backup_env_scheme \<Rightarrow> WalletBackup \<Rightarrow> uint64 \<Rightarrow> hash res" where
  "TEESignHash E wb chainID =
     rbind (WalletBackup_HashForSigning E wb) (\<lambda>h. payload_Hash E TEEWalletBackup chainID h)"

definition WalletBackup_Check :: "'a backup_env_scheme \<Rightarrow> WalletBackup \<Rightarrow> uint64 \<Rightarrow> unit res" where
  "WalletBackup_Check E wb chainID =
     (let md = bk_MetaData wb in
      case bk_AdminEncryptedParts wb of
        None \<Rightarrow> Inl (Err ''admin encrypted parts not present not matching given data'')
      | Some admins \<Rightarrow>
      (case bk_ProviderEncryptedParts wb of
        None \<Rightarrow> Inl (Err ''provider encrypted parts not present not matching given data'')
      | Some providers \<Rightarrow>
        rbind (rwrap ''admin parts check'' (EncryptedShares_Check admins)) (\<lambda>_.
        rbind (rwrap ''provider parts check'' (EncryptedShares_Check providers)) (\<lambda>_.
        rbind (ensure (md_AdminsThreshold md = es_Threshold admins)
          (Err ''admin threshold not matching given data'')) (\<lambda>_.
        rbind (ensure (md_ProvidersThreshold md = es_Threshold providers)
          (Err ''providers threshold not matching given data'')) (\<lambda>_.
        rbind (ensure (length (md_AdminsPublicKeys md) = length (es_OwnersPublicKeys admins))
          (Err ''length of admin public keys not matching given data'')) (\<lambda>_.
        rbind (ensure (list_all2 (=) (md_AdminsPublicKeys md) (es_OwnersPublicKeys admins))
          (Err ''admin public keys not matching'')) (\<lambda>_.
        rbind (OwnerSignHash E wb chainID) (\<lambda>ownerSignHash.
        rbind (rwrap ''wallet signature invalid'' (wallets_VerifySignature E (hash_bytes ownerSignHash)
          (bk_Signature wb) (wb_PublicKey (md_ID md)) (wb_SigningAlgo (md_ID md)))) (\<lambda>_.
        rbind (TEESignHash E wb chainID) (\<lambda>teeSignHash.
        rwrap ''TEE signature invalid'' (VerifySignature E (hash_bytes teeSignHash) (bk_TEESignature wb)
          (wb_TeeID (md_ID md))))))))))))))"

section \<open>Dealing\<close>

definition NormalizationConstant :: uint16 where "NormalizationConstant = 1000"
definition DataProvidersThreshold :: uint64 where "DataProvidersThreshold = 666"

text \<open>The two loops of \<open>weightsNormalization\<close>, in \<open>uint16\<close> arithmetic.\<close>

fun weights_sum :: "uint16 list \<Rightarrow> uint16 \<Rightarrow> uint16 res" where
  "weights_sum [] acc = Inr acc"
| "weights_sum (weight # ws) acc =
     (if weight = 0 then weights_sum ws acc
      else if acc \<ge> - weight then Inl (Err ''overflow of weights'')
      else weights_sum ws (acc + weight))"

fun weights_scale :: "uint16 list \<Rightarrow> uint16 \<Rightarrow> uint16 \<Rightarrow> uint16 list" where
  "weights_scale [] rest tot = []"
| "weights_scale (weight # ws) rest tot =
     (if rest = 0 then replicate (length (weight # ws)) 0
      else let normalizedWeight = (ucast ((ucast weight * ucast tot) div (ucast rest) :: uint64) :: uint16) in
        normalizedWeight # weights_scale ws (rest - weight) (tot - normalizedWeight))"

definition weightsNormalization :: "uint16 list \<Rightarrow> uint16 \<Rightarrow> uint16 list res" where
  "weightsNormalization weights tot =
     rbind (weights_sum weights 0) (\<lambda>s.
     if s = 0 then Inl (Err ''total weight is zero'') else Inr (weights_scale weights s tot))"

text \<open>
  The loop of \<open>SplitAndEncrypt\<close> over owners \<open>(i, key, weight)\<close>: the slice of the shares from
  the running counter, signed, marshalled and encrypted for the owner.
\<close>

fun split_loop ::
  "'a backup_env_scheme \<Rightarrow> (nat \<Rightarrow> nat) \<Rightarrow> ShamirShare list \<Rightarrow> PartialWalletBackupID \<Rightarrow> 'b wallet_data_scheme \<Rightarrow>
     uint64 \<Rightarrow> (nat \<times> ecdsa_pub \<times> uint16) list \<Rightarrow> nat \<Rightarrow> bytes list res" where
  "split_loop E enc shares pid signer chainID [] counter = Inr []"
| "split_loop E enc shares pid signer chainID ((i, key, w) # rest) counter =
     (if counter + unat w > length shares then Inl (Panic ''slice bounds out of range'')
      else let keySplitData = \<lparr>ks_Shares = take (unat w) (drop counter shares), ks_PartialID = pid,
                  ks_OwnerPublicKey = PubKeyToStruct key\<rparr> in
        rbind (KeySplitData_Sign E keySplitData signer chainID) (\<lambda>sig.
        rbind (json_KeySplit E \<lparr>ks_Data = keySplitData, ks_Signature = sig\<rparr>) (\<lambda>plaintext.
        rbind (Encrypt E (enc i) plaintext key) (\<lambda>cipher.
        rbind (split_loop E enc shares pid signer chainID rest (counter + unat w)) (\<lambda>ciphers.
        Inr (cipher # ciphers))))))"

definition SplitAndEncrypt ::
  "'a backup_env_scheme \<Rightarrow> 'c bigmod_scheme \<Rightarrow> (nat \<Rightarrow> nat res) \<Rightarrow> (nat \<Rightarrow> nat) \<Rightarrow> Field \<Rightarrow> bytes \<Rightarrow> ecdsa_pub list \<Rightarrow>
     uint64 \<Rightarrow> uint16 list \<Rightarrow> WalletBackupID \<Rightarrow> 'b wallet_data_scheme \<Rightarrow> bool \<Rightarrow> uint64 \<Rightarrow> EncryptedShares res" where
  "SplitAndEncrypt E B draws enc field secret encryptionPubKeys threshold weights backupID signer isAdmin chainID =
     rbind (ensure (length encryptionPubKeys = length weights)
       (Err ''number of encryption keys and weights do not match'')) (\<lambda>_.
     let numSplits = length encryptionPubKeys; numShares = SumUint64 weights in
     rbind (SplitToShamirShares B draws field secret numShares threshold) (\<lambda>shamirShares.
     let pid = \<lparr>pw_ID = backupID, pw_IsAdmin = isAdmin\<rparr> in
     rbind (split_loop E enc shamirShares pid signer chainID
         (zip [0..<numSplits] (zip encryptionPubKeys weights)) 0) (\<lambda>splits.
     Inr \<lparr>es_Splits = splits, es_OwnersPublicKeys = map PubKeyToStruct encryptionPubKeys,
       es_Threshold = threshold, es_Weights = weights\<rparr>)))"

definition BackupWallet ::
  "'a backup_env_scheme \<Rightarrow> 'c bigmod_scheme \<Rightarrow> backup_rnd \<Rightarrow> 'b wallet_data_scheme \<Rightarrow> ecdsa_pub list \<Rightarrow> uint16 list \<Rightarrow>
     uint32 \<Rightarrow> address \<Rightarrow> uint64 \<Rightarrow> uint16 \<Rightarrow> uint64 \<Rightarrow> WalletBackup res" where
  "BackupWallet E B rnd wallet providerPubKeys signingPolicyWeights rewardEpochID teeID chainID
     normalizationParam dataProviderThreshold =
     rbind (ensure (SigningAlgo wallet = XRPSignAlgo \<or> SigningAlgo wallet = EVMSignAlgo \<or> SigningAlgo wallet = VRFAlgo)
       (Err ''unsupported signing algorithm'')) (\<lambda>_.
     rbind (FieldFor (KeyType wallet) (SigningAlgo wallet)) (\<lambda>field.
     let adminPubKeys = map PubKeyToStruct (AdminPublicKeys wallet) in
     rbind (weightsNormalization signingPolicyWeights normalizationParam) (\<lambda>normalizedWeights.
     rbind (br_Nonce rnd) (\<lambda>randomNonce.
     rbind (PubKey E wallet) (\<lambda>walletPubKey.
     let wid = \<lparr>wb_TeeID = teeID, wb_WalletID = WalletID wallet, wb_KeyID = KeyID wallet,
           wb_PublicKey = walletPubKey, wb_KeyType = KeyType wallet, wb_SigningAlgo = SigningAlgo wallet,
           wb_RewardEpochID = rewardEpochID, wb_RandomNonce = randomNonce\<rparr>;
         metaData = \<lparr>md_ID = wid, md_FieldID = fld_ID field, md_AdminsPublicKeys = adminPubKeys,
           md_AdminsThreshold = AdminsThreshold wallet, md_ProvidersThreshold = dataProviderThreshold,
           md_Cosigners = Cosigners wallet, md_CosignersThreshold = CosignersThreshold wallet\<rparr> in
     rbind (SplitSecret B (br_Split rnd) field (PrivateKey wallet) 2) (\<lambda>splitKey.
     let weightsOne = ConstantSlice 1 (length (AdminPublicKeys wallet)) in
     rbind (SplitAndEncrypt E B (br_Admin rnd) (br_EncAdmin rnd) field (splitKey ! 0) (AdminPublicKeys wallet)
       (AdminsThreshold wallet) weightsOne wid wallet True chainID) (\<lambda>adminEncryptedParts.
     rbind (SplitAndEncrypt E B (br_Provider rnd) (br_EncProvider rnd) field (splitKey ! 1) providerPubKeys
       dataProviderThreshold normalizedWeights wid wallet False chainID) (\<lambda>providerEncryptedParts.
     let walletBackup = \<lparr>bk_MetaData = metaData, bk_AdminEncryptedParts = Some adminEncryptedParts,
           bk_ProviderEncryptedParts = Some providerEncryptedParts, bk_Signature = [], bk_TEESignature = []\<rparr> in
     rbind (OwnerSignHash E walletBackup chainID) (\<lambda>ownerSignHash.
     rbind (Wallet_Sign E wallet (hash_bytes ownerSignHash)) (\<lambda>signature.
     Inr (walletBackup\<lparr>bk_Signature := signature\<rparr>)))))))))))"

section \<open>Recovery\<close>

definition CheckKeyShares :: "'a flare_scheme \<Rightarrow> KeySplit list \<Rightarrow> WalletBackupMetaData \<Rightarrow> unit res" where
  "CheckKeyShares F splits md = (case splits of
     [] \<Rightarrow> Inl (Err ''shares should not be empty'')
   | first # _ \<Rightarrow>
       let partialBackupID = ks_PartialID (ks_Data first) in
       rbind (rmap (\<lambda>split.
           rbind (ensure (PartialWalletBackupID_Equal F (ks_PartialID (ks_Data split)) partialBackupID)
             (Err ''one of key split's ids does not match expected id'')) (\<lambda>_.
           ensure (pw_IsAdmin (ks_PartialID (ks_Data split)) \<longrightarrow>
               ks_OwnerPublicKey (ks_Data split) \<in> set (md_AdminsPublicKeys md))
             (Err ''one of admins public keys is not in the backup metadata''))) splits) (\<lambda>_.
       WalletBackupID_Equal F (pw_ID partialBackupID) (md_ID md)))"

definition JoinKeyShares :: "'a bigmod_scheme \<Rightarrow> Field \<Rightarrow> KeySplit list \<Rightarrow> uint64 \<Rightarrow> bytes res" where
  "JoinKeyShares B field splits threshold =
     rbind (ensure (threshold \<noteq> 0) (Err ''threshold should be positive'')) (\<lambda>_.
     let shares = concat (map (\<lambda>split. ks_Shares (ks_Data split)) splits) in
     rbind (ensure (\<not> word_of_nat (length shares) < threshold) (Err ''threshold of shares is not reached'')) (\<lambda>_.
     CombineShamirShares B field (take (unat threshold) shares)))"

definition RecoverWallet ::
  "'a flare_scheme \<Rightarrow> 'c bigmod_scheme \<Rightarrow> KeySplit list \<Rightarrow> WalletBackupMetaData \<Rightarrow> Wallet res" where
  "RecoverWallet F B keyShares md =
     (let adminKeyShares = filter (\<lambda>k. pw_IsAdmin (ks_PartialID (ks_Data k))) keyShares;
          providerKeyShares = filter (\<lambda>k. \<not> pw_IsAdmin (ks_PartialID (ks_Data k))) keyShares in
      rbind (FieldForID (md_FieldID md)) (\<lambda>field.
      rbind (CheckKeyShares F adminKeyShares md) (\<lambda>_.
      rbind (JoinKeyShares B field adminKeyShares (md_AdminsThreshold md)) (\<lambda>adminKey.
      rbind (CheckKeyShares F providerKeyShares md) (\<lambda>_.
      rbind (JoinKeyShares B field providerKeyShares (md_ProvidersThreshold md)) (\<lambda>providerKey.
      rbind (JoinSecret B field [adminKey, providerKey]) (\<lambda>secret.
      rbind (rmap (ParsePubKey F) (md_AdminsPublicKeys md)) (\<lambda>adminsPubKeys.
      let recovered = \<lparr>WalletID = wb_WalletID (md_ID md), KeyID = wb_KeyID (md_ID md), PrivateKey = secret,
            KeyType = wb_KeyType (md_ID md), SigningAlgo = wb_SigningAlgo (md_ID md), Restored = True,
            AdminPublicKeys = adminsPubKeys, AdminsThreshold = md_AdminsThreshold md,
            Cosigners = md_Cosigners md, CosignersThreshold = md_CosignersThreshold md,
            SettingsVersion = 0, Settings = [],
            Status = \<lparr>st_Nonce = 0, st_PausingNonce = 0, st_StatusCode = 0\<rparr>\<rparr> in
      rbind (PubKey F recovered) (\<lambda>recoveredPubKey.
      rbind (ensure (recoveredPubKey = wb_PublicKey (md_ID md))
        (Err ''private key reconstruction error: final result does not match address'')) (\<lambda>_.
      Inr recovered))))))))))"

section \<open>Direct backup\<close>

text \<open>\<open>NewKeyDirectBackupPayload\<close>; the nil tests do not apply to a value.\<close>

definition NewKeyDirectBackupPayload ::
  "'a geth_scheme \<Rightarrow> Wallet \<Rightarrow> address \<Rightarrow> bytes \<Rightarrow> uint32 \<Rightarrow> hash \<Rightarrow> KeyDirectBackupPayload res" where
  "NewKeyDirectBackupPayload G w sourceTeeID encryptedPrivateKey rewardEpochID randomNonce =
     rbind (ensure (SigningAlgo w \<in> set Algos) (Err ''unsupported signing algorithm'')) (\<lambda>_.
     let priv = ToECDSAUnsafe G (PrivateKey w) in
     Inr \<lparr>dp_BackupID = \<lparr>wb_TeeID = sourceTeeID, wb_WalletID = WalletID w, wb_KeyID = KeyID w,
         wb_PublicKey = PubKeyToBytes (sk_Pub priv), wb_KeyType = KeyType w, wb_SigningAlgo = SigningAlgo w,
         wb_RewardEpochID = rewardEpochID, wb_RandomNonce = randomNonce\<rparr>,
       dp_EncryptedPrivateKey = encryptedPrivateKey,
       dp_AdminPublicKeys = map PubKeyToStruct (AdminPublicKeys w), dp_AdminsThreshold = AdminsThreshold w,
       dp_Cosigners = Cosigners w, dp_CosignersThreshold = CosignersThreshold w,
       dp_SettingsVersion = SettingsVersion w, dp_Settings = Settings w, dp_Status = Status w\<rparr>)"

definition WalletFromKeyDirectBackupPayload ::
  "'a geth_scheme \<Rightarrow> KeyDirectBackupPayload \<Rightarrow> bytes \<Rightarrow> Wallet res" where
  "WalletFromKeyDirectBackupPayload G p privateKey =
     rbind (ensure (length privateKey \<noteq> 0) (Err ''private key is empty'')) (\<lambda>_.
     rbind (rwrap ''invalid decrypted private key'' (ToECDSA G privateKey)) (\<lambda>priv.
     rbind (ensure (PubKeyToBytes (sk_Pub priv) = wb_PublicKey (dp_BackupID p))
       (Err ''decrypted private key does not match BackupID.PublicKey'')) (\<lambda>_.
     rbind (rmap (ParsePubKey G) (dp_AdminPublicKeys p)) (\<lambda>adminPubKeys.
     Inr \<lparr>WalletID = wb_WalletID (dp_BackupID p), KeyID = wb_KeyID (dp_BackupID p), PrivateKey = privateKey,
       KeyType = wb_KeyType (dp_BackupID p), SigningAlgo = wb_SigningAlgo (dp_BackupID p), Restored = True,
       AdminPublicKeys = adminPubKeys, AdminsThreshold = dp_AdminsThreshold p, Cosigners = dp_Cosigners p,
       CosignersThreshold = dp_CosignersThreshold p, SettingsVersion = 0, Settings = [],
       Status = \<lparr>st_Nonce = 0, st_PausingNonce = 0, st_StatusCode = 0\<rparr>\<rparr>))))"

section \<open>Normalised weights\<close>

lemma unat_uint16_bound: "unat (w :: uint16) < 65536"
  using unsigned_less [of w] by simp

text \<open>The guard refuses exactly the sums that leave 16 bits.\<close>

lemma overflow_guard:
  fixes a w :: uint16
  assumes "w \<noteq> 0"
  shows "a \<ge> - w \<longleftrightarrow> unat a + unat w \<ge> 65536"
proof -
  have "(unat w + unat (- w)) mod 65536 = 0" using unat_word_ariths(1) [of w "- w"] by simp
  then obtain k where k: "unat w + unat (- w) = 65536 * k" by (auto simp: mod_eq_0_iff_dvd elim: dvdE)
  have "0 < unat w" using assms by (simp add: unat_gt_0)
  then have "0 < k" using k by (cases k) auto
  moreover have "k < 2" using k unat_uint16_bound [of w] unat_uint16_bound [of "- w"] by linarith
  ultimately have "unat w + unat (- w) = 65536" using k by (simp add: less_2_cases_iff)
  then show ?thesis unfolding word_le_nat_alt by linarith
qed

lemma weights_sum_eq:
  "weights_sum ws acc = (if unat acc + sum_list (map unat ws) < 65536
     then Inr (word_of_nat (unat acc + sum_list (map unat ws))) else Inl (Err ''overflow of weights''))"
proof (induction ws arbitrary: acc)
  case Nil
  then show ?case using unat_uint16_bound [of acc] by simp
next
  case (Cons w ws)
  show ?case
  proof (cases "w = 0 \<or> acc \<ge> - w")
    case True
    then show ?thesis using Cons.IH overflow_guard [of w acc] by auto
  next
    case False
    then have "unat acc + unat w < 65536" using overflow_guard [of w acc] by auto
    then have "unat (acc + w) = unat acc + unat w" by (simp add: unat_word_ariths)
    then show ?thesis using False Cons.IH by (simp add: add.assoc)
  qed
qed

lemma unat_ucast_16_64 [simp]: "unat (ucast (w :: uint16) :: uint64) = unat w"
  using unat_uint16_bound [of w] by (simp add: unsigned_ucast_eq take_bit_eq_mod)

text \<open>One scaled weight, as an exact quotient: nothing wraps at 64 or at 16 bits.\<close>

lemma scaled_weight:
  fixes w tot rest :: uint16
  assumes "rest \<noteq> 0" and "unat w \<le> unat rest"
  shows "unat (ucast ((ucast w * ucast tot) div (ucast rest) :: uint64) :: uint16) = unat w * unat tot div unat rest"
    and "unat w * unat tot div unat rest \<le> unat tot"
proof -
  have "unat w * unat tot < 65536 * 65536"
    using unat_uint16_bound [of w] unat_uint16_bound [of tot] by (intro mult_strict_mono') auto
  then have prod: "unat (ucast w * ucast tot :: uint64) = unat w * unat tot"
    by (simp add: unat_word_ariths)
  have quot: "unat ((ucast w * ucast tot) div (ucast rest) :: uint64) = unat w * unat tot div unat rest"
    by (simp add: unat_div prod)
  have "0 < unat rest" using assms(1) by (simp add: unat_gt_0)
  then have "unat w * unat tot div unat rest \<le> unat rest * unat tot div unat rest"
    using assms(2) by (intro div_le_mono mult_le_mono1)
  then show le: "unat w * unat tot div unat rest \<le> unat tot" using \<open>0 < unat rest\<close> by simp
  then have "unat w * unat tot div unat rest < 65536" using unat_uint16_bound [of tot] by linarith
  then show "unat (ucast ((ucast w * ucast tot) div (ucast rest) :: uint64) :: uint16) = unat w * unat tot div unat rest"
    by (simp add: unsigned_ucast_eq quot take_bit_eq_mod)
qed

lemma weights_scale_length: "length (weights_scale ws rest tot) = length ws"
  by (induction ws rest tot rule: weights_scale.induct) (auto simp: Let_def)

text \<open>The scaled weights add up to the requested total exactly.\<close>

lemma weights_scale_sum:
  assumes "unat rest = sum_list (map unat ws)" and "rest \<noteq> 0"
  shows "sum_list (map unat (weights_scale ws rest tot)) = unat tot"
  using assms
proof (induction ws arbitrary: rest tot)
  case Nil
  then show ?case by (simp add: unat_eq_zero)
next
  case (Cons w ws)
  define nw where "nw = (ucast ((ucast w * ucast tot) div (ucast rest) :: uint64) :: uint16)"
  have le: "unat w \<le> unat rest" using Cons.prems by simp
  note nw = scaled_weight [OF Cons.prems(2) le, of tot, folded nw_def]
  have sub: "unat (rest - w) = sum_list (map unat ws)" "unat (tot - nw) = unat tot - unat nw"
    using Cons.prems nw le by (simp_all add: unat_sub word_le_nat_alt)
  have step: "weights_scale (w # ws) rest tot = nw # weights_scale ws (rest - w) (tot - nw)"
    using Cons.prems(2) by (simp add: Let_def nw_def)
  show ?case
  proof (cases "rest - w = 0")
    case True
    then have "unat w = unat rest" by simp
    then have full: "unat nw = unat tot" using nw Cons.prems(2) by (simp add: unat_gt_0)
    have "sum_list (map unat (weights_scale ws 0 t)) = 0" for t
      by (cases ws) (auto simp: sum_list_replicate map_replicate)
    then show ?thesis unfolding step True using full by simp
  next
    case False
    then have "sum_list (map unat (weights_scale ws (rest - w) (tot - nw))) = unat tot - unat nw"
      using Cons.IH [OF sub(1)] sub(2) by simp
    then show ?thesis unfolding step using nw by simp
  qed
qed

lemma weightsNormalization_Inr:
  assumes "weightsNormalization ws tot = Inr nws"
  shows "length nws = length ws" and "sum_list (map unat nws) = unat tot"
    and "sum_list (map unat ws) < 65536" and "0 < sum_list (map unat ws)"
proof -
  from assms obtain s where s: "weights_sum ws 0 = Inr s" "s \<noteq> 0" "nws = weights_scale ws s tot"
    by (auto simp: weightsNormalization_def res_simps split: if_splits)
  then have b: "sum_list (map unat ws) < 65536" and "s = word_of_nat (sum_list (map unat ws))"
    by (auto simp: weights_sum_eq split: if_splits)
  then have us: "unat s = sum_list (map unat ws)" by (simp add: unat_of_nat)
  show "length nws = length ws" using s weights_scale_length by simp
  show "sum_list (map unat nws) = unat tot" using weights_scale_sum [OF us s(2)] s(3) by simp
  show "sum_list (map unat ws) < 65536" by (rule b)
  show "0 < sum_list (map unat ws)" using us s(2) by (metis unat_gt_0)
qed

end
