(* ===== verification/Policy_Storage.thy ===== *)
theory Policy_Storage
  imports Flare_Common
begin

text \<open>
  The signing-policy storage \<^verbatim>\<open>src/internal/policy/policy.go\<close>: the initial policy, the active
  one, the public keys of its voters and every policy by reward epoch. A policy is never
  modified once stored, so the pointers of the Go maps are the values they point to. The
  locale \<open>policy_store\<close> is the interface on which the policy instructions rely.
\<close>

section \<open>Definitions\<close>

record PolicyStorage =
  ps_initialPolicyID :: uint32
  ps_initialPolicyHash :: hash
  ps_active :: "SigningPolicy option"
  ps_activePublicKeys :: "(address \<times> ecdsa_pub) list"
  ps_signingPolicies :: "(uint32 \<times> SigningPolicy) list"

definition policy_InitializeStorage :: PolicyStorage where
  "policy_InitializeStorage = \<lparr>ps_initialPolicyID = 0, ps_initialPolicyHash = 0, ps_active = None,
     ps_activePublicKeys = [], ps_signingPolicies = []\<rparr>"

definition SetActiveSigningPolicy :: "PolicyStorage \<Rightarrow> SigningPolicy \<Rightarrow> unit res \<times> PolicyStorage" where
  "SetActiveSigningPolicy s p =
     (if ps_initialPolicyHash s = 0 then (Inl (Err ''signing policy not initialized yet''), s)
      else (Inr (), s\<lparr>ps_active := Some p,
        ps_signingPolicies := AList.update (sp_RewardEpochID p) p (ps_signingPolicies s)\<rparr>))"

definition SetActiveSigningPolicyPublicKeys ::
  "PolicyStorage \<Rightarrow> (address \<times> ecdsa_pub) list \<Rightarrow> unit res \<times> PolicyStorage" where
  "SetActiveSigningPolicyPublicKeys s addressesToPublicKeys =
     (if ps_initialPolicyHash s = 0 then (Inl (Err ''signing policy not initialized yet''), s)
      else (Inr (), s\<lparr>ps_activePublicKeys := addressesToPublicKeys\<rparr>))"

definition SetInitialPolicy ::
  "'a flare_scheme \<Rightarrow> PolicyStorage \<Rightarrow> uint64 \<Rightarrow> SigningPolicy \<Rightarrow> (address \<times> ecdsa_pub) list \<Rightarrow> unit res \<times> PolicyStorage" where
  "SetInitialPolicy F s chainID p addressesToPublicKeys =
     (if ps_active s \<noteq> None then (Inl (Err ''signing policy already initialized''), s)
      else let s1 = s\<lparr>ps_initialPolicyID := sp_RewardEpochID p,
                      ps_initialPolicyHash := policy_ChainBoundHash F p chainID\<rparr>;
               (r, s2) = SetActiveSigningPolicy s1 p in
           stry s2 r (\<lambda>_. SetActiveSigningPolicyPublicKeys s2 addressesToPublicKeys))"

definition InitialPolicyIDAndHash :: "PolicyStorage \<Rightarrow> uint32 \<times> hash" where
  "InitialPolicyIDAndHash s = (ps_initialPolicyID s, ps_initialPolicyHash s)"

definition ActiveSigningPolicy :: "PolicyStorage \<Rightarrow> SigningPolicy res" where
  "ActiveSigningPolicy s = (case ps_active s of
     None \<Rightarrow> Inl (Err ''signing policy not initialized'') | Some p \<Rightarrow> Inr p)"

definition policy_Info :: "'a flare_scheme \<Rightarrow> PolicyStorage \<Rightarrow> uint64 \<Rightarrow> uint32 \<times> hash \<times> uint32 \<times> hash" where
  "policy_Info F s chainID =
     (let (initialID, initialHash) = InitialPolicyIDAndHash s in
      case ActiveSigningPolicy s of
        Inl _ \<Rightarrow> (initialID, initialHash, initialID, initialHash)
      | Inr p \<Rightarrow> (initialID, initialHash, sp_RewardEpochID p, policy_ChainBoundHash F p chainID))"

definition SigningPolicyOf :: "PolicyStorage \<Rightarrow> uint32 \<Rightarrow> SigningPolicy res" where
  "SigningPolicyOf s epochID = (case map_of (ps_signingPolicies s) epochID of
     None \<Rightarrow> Inl (Err ''policy of the given reward epoch not in the storage'') | Some p \<Rightarrow> Inr p)"

definition toSigningPolicyPublicKeysSlice ::
  "SigningPolicy option \<Rightarrow> (address \<times> ecdsa_pub) list \<Rightarrow> ecdsa_pub list res" where
  "toSigningPolicyPublicKeysSlice policy pubKeysMap = (case policy of
     None \<Rightarrow> Inl (Panic ''nil pointer dereference'')
   | Some p \<Rightarrow> rmap (\<lambda>addr. case map_of pubKeysMap addr of
        None \<Rightarrow> Inl (Err ''address not in policy public key map, internal error'')
      | Some k \<Rightarrow> Inr k) (voters p))"

definition ActiveSigningPolicyPublicKeys :: "PolicyStorage \<Rightarrow> ecdsa_pub list res" where
  "ActiveSigningPolicyPublicKeys s = toSigningPolicyPublicKeysSlice (ps_active s) (ps_activePublicKeys s)"

fun weight_loop :: "address list \<Rightarrow> (nat \<Rightarrow> uint16) \<Rightarrow> nat \<Rightarrow> address list \<Rightarrow> uint16 \<Rightarrow> uint16" where
  "weight_loop signers w i [] currentWeight = currentWeight"
| "weight_loop signers w i (voter # vs) currentWeight =
     weight_loop signers w (Suc i) vs (if voter \<in> set signers then currentWeight + w i else currentWeight)"

definition WeightOfSigners :: "address list \<Rightarrow> SigningPolicy \<Rightarrow> uint16" where
  "WeightOfSigners signers p = weight_loop signers (vs_VoterWeight (sp_Voters p)) 0 (voters p) 0"

definition DestroyState :: "PolicyStorage \<Rightarrow> PolicyStorage" where
  "DestroyState s = s\<lparr>ps_active := None, ps_signingPolicies := [], ps_activePublicKeys := [],
     ps_initialPolicyID := 0, ps_initialPolicyHash := 0\<rparr>"

section \<open>The weight of a set of signers\<close>

definition voter_weight :: "SigningPolicy \<Rightarrow> nat \<Rightarrow> nat" where
  "voter_weight p i = unat (vs_VoterWeight (sp_Voters p) i)"

text \<open>
  What a decoded policy provides: the total weight is the sum of the weights of its
  voters, which fits in 16 bits, the voters are different and \<open>VoterIndex\<close> finds them.
\<close>

definition policy_ok :: "SigningPolicy \<Rightarrow> bool" where
  "policy_ok p \<longleftrightarrow> distinct (voters p)
     \<and> (\<Sum>i<length (voters p). voter_weight p i) = unat (vs_TotalWeight (sp_Voters p))
     \<and> (\<forall>a. vs_VoterIndex (sp_Voters p) a = -1 \<longleftrightarrow> a \<notin> set (voters p))"

lemma weight_loop_acc: "weight_loop signers w i vs c = c + weight_loop signers w i vs 0"
proof (induction vs arbitrary: i c)
  case (Cons v vs)
  show ?case
    using Cons.IH [of "Suc i" "if v \<in> set signers then c + w i else c"]
      Cons.IH [of "Suc i" "if v \<in> set signers then 0 + w i else 0"]
    by (auto simp: add.assoc)
qed simp

lemma weight_loop_of_nat:
  "weight_loop signers w i vs 0
     = of_nat (\<Sum>j<length vs. if vs ! j \<in> set signers then unat (w (i + j)) else 0)"
proof (induction vs arbitrary: i)
  case (Cons v vs)
  have "(\<Sum>j<length (v # vs). if (v # vs) ! j \<in> set signers then unat (w (i + j)) else 0)
      = (if v \<in> set signers then unat (w i) else 0)
        + (\<Sum>j<length vs. if vs ! j \<in> set signers then unat (w (Suc i + j)) else 0)"
    by (simp only: length_Cons sum.lessThan_Suc_shift) (simp cong: if_cong)
  then show ?case
    using weight_loop_acc [of signers w "Suc i" vs "w i"] Cons.IH [of "Suc i"] by (auto simp del: of_nat_sum)
qed simp

lemma signer_sum_le:
  "(\<Sum>i<n. if P i then f i else 0) \<le> (\<Sum>i<n. (f i :: nat))"
  by (rule sum_mono) auto

text \<open>Every voter counts at most once, whatever the order and multiplicity of the signers.\<close>

lemma unat_WeightOfSigners:
  assumes "policy_ok p"
  shows "unat (WeightOfSigners signers p)
    = (\<Sum>i<length (voters p). if voters p ! i \<in> set signers then voter_weight p i else 0)"
proof -
  let ?S = "\<Sum>i<length (voters p). if voters p ! i \<in> set signers then voter_weight p i else 0"
  have "?S \<le> unat (vs_TotalWeight (sp_Voters p))"
    using assms signer_sum_le [of "\<lambda>i. voters p ! i \<in> set signers" "voter_weight p" "length (voters p)"]
    by (simp add: policy_ok_def)
  then have "?S < 2 ^ 16"
    using unsigned_less [of "vs_TotalWeight (sp_Voters p)", where 'a = nat] by simp
  then show ?thesis
    by (simp add: WeightOfSigners_def weight_loop_of_nat voter_weight_def unat_of_nat del: of_nat_sum cong: if_cong)
qed

section \<open>The interface\<close>

text \<open>
  The content of the storage: the epoch of the initial policy, the active policy, the
  policies by epoch and the keys of the active policy's voters.
\<close>

definition policiesOf :: "PolicyStorage \<Rightarrow> uint32 \<Rightarrow> SigningPolicy option" where
  "policiesOf s = map_of (ps_signingPolicies s)"

text \<open>The keys cover the voters of the policy.\<close>

definition keys_cover :: "(address \<times> ecdsa_pub) list \<Rightarrow> SigningPolicy \<Rightarrow> bool" where
  "keys_cover ks p \<longleftrightarrow> (\<forall>a \<in> set (voters p). map_of ks a \<noteq> None)"

text \<open>
  Well-formed storage: either nothing is set, or the policies stored are those of the
  consecutive epochs from the initial one up to the active one, each under its own epoch,
  and the public keys of the active voters are there.
\<close>

definition epochs_from :: "uint32 \<Rightarrow> nat \<Rightarrow> uint32 set" where
  "epochs_from e n = (\<lambda>i. e + of_nat i) ` {..n}"

definition policy_inv :: "PolicyStorage \<Rightarrow> bool" where
  "policy_inv s \<longleftrightarrow> (case ps_active s of
     None \<Rightarrow> ps_signingPolicies s = [] \<and> ps_activePublicKeys s = [] \<and> ps_initialPolicyID s = 0 \<and> ps_initialPolicyHash s = 0
   | Some p \<Rightarrow> ps_initialPolicyHash s \<noteq> 0
       \<and> map_of (ps_signingPolicies s) (sp_RewardEpochID p) = Some p
       \<and> (\<forall>e q. map_of (ps_signingPolicies s) e = Some q \<longrightarrow> sp_RewardEpochID q = e)
       \<and> keys_cover (ps_activePublicKeys s) p
       \<and> (\<exists>n. sp_RewardEpochID p = ps_initialPolicyID s + of_nat n
            \<and> dom (map_of (ps_signingPolicies s)) = epochs_from (ps_initialPolicyID s) n))"

locale policy_store =
  fixes inv :: "'s \<Rightarrow> bool"
    and active :: "'s \<Rightarrow> SigningPolicy res"
    and policies :: "'s \<Rightarrow> uint32 \<Rightarrow> SigningPolicy option"
    and keys :: "'s \<Rightarrow> ecdsa_pub list res"
    and advance :: "'s \<Rightarrow> SigningPolicy \<Rightarrow> (address \<times> ecdsa_pub) list \<Rightarrow> 's"
  assumes active_stored: "inv s \<Longrightarrow> active s = Inr p \<Longrightarrow> policies s (sp_RewardEpochID p) = Some p"
    and own_epoch: "inv s \<Longrightarrow> policies s e = Some q \<Longrightarrow> sp_RewardEpochID q = e"
    and advance_inv: "inv s \<Longrightarrow> active s = Inr p \<Longrightarrow> sp_RewardEpochID q = sp_RewardEpochID p + 1
          \<Longrightarrow> keys_cover ks q \<Longrightarrow> inv (advance s q ks)"
    and advance_active: "inv s \<Longrightarrow> active s = Inr p \<Longrightarrow> active (advance s q ks) = Inr q"
    and advance_policies: "inv s \<Longrightarrow> active s = Inr p \<Longrightarrow>
          policies (advance s q ks) = (policies s)(sp_RewardEpochID q \<mapsto> q)"
    and keys_total: "inv s \<Longrightarrow> active s = Inr p \<Longrightarrow> \<exists>ks. keys s = Inr ks \<and> length ks = length (voters p)"
begin

text \<open>After an update the previous active policy is still stored, so its epoch is still served.\<close>

lemma previous_still_stored:
  assumes "inv s" and "active s = Inr p" and "sp_RewardEpochID q = sp_RewardEpochID p + 1"
  shows "policies (advance s q ks) (sp_RewardEpochID p) = Some p"
  using active_stored [OF assms(1,2)] advance_policies [OF assms(1,2), of q ks] assms(3) by auto

text \<open>Stored policies never change as long as the epoch counter does not wrap around to them.\<close>

lemma policies_kept:
  assumes "inv s" and "active s = Inr p" and "policies s e = Some r" and "e \<noteq> sp_RewardEpochID q"
  shows "policies (advance s q ks) e = Some r"
  using advance_policies [OF assms(1,2), of q ks] assms(3,4) by auto

lemma keys_after_update:
  assumes "inv s" and "active s = Inr p" and "sp_RewardEpochID q = sp_RewardEpochID p + 1" and "keys_cover ks q"
  shows "\<exists>xs. keys (advance s q ks) = Inr xs \<and> length xs = length (voters q)"
  using keys_total [OF advance_inv [OF assms(1-4)] advance_active [OF assms(1,2)]] .

end

section \<open>The storage provides the interface\<close>

definition advance_policy :: "PolicyStorage \<Rightarrow> SigningPolicy \<Rightarrow> (address \<times> ecdsa_pub) list \<Rightarrow> PolicyStorage" where
  "advance_policy s p ks = snd (SetActiveSigningPolicyPublicKeys (snd (SetActiveSigningPolicy s p)) ks)"

lemma advance_policy_eq:
  "ps_initialPolicyHash s \<noteq> 0 \<Longrightarrow> advance_policy s p ks = s\<lparr>ps_active := Some p,
     ps_signingPolicies := AList.update (sp_RewardEpochID p) p (ps_signingPolicies s), ps_activePublicKeys := ks\<rparr>"
  by (simp add: advance_policy_def SetActiveSigningPolicy_def SetActiveSigningPolicyPublicKeys_def)

lemma ActiveSigningPolicy_Inr [res_simps]: "ActiveSigningPolicy s = Inr p \<longleftrightarrow> ps_active s = Some p"
  by (simp add: ActiveSigningPolicy_def split: option.split)

lemma SigningPolicyOf_Inr [res_simps]: "SigningPolicyOf s e = Inr p \<longleftrightarrow> policiesOf s e = Some p"
  by (simp add: SigningPolicyOf_def policiesOf_def split: option.split)

lemma epochs_from_Suc: "epochs_from e (Suc n) = insert (e + of_nat (Suc n)) (epochs_from e n)"
  by (simp only: epochs_from_def atMost_Suc image_insert)

lemma policy_invD:
  assumes "policy_inv s" and "ps_active s = Some p"
  shows "ps_initialPolicyHash s \<noteq> 0" "policiesOf s (sp_RewardEpochID p) = Some p"
    "policiesOf s e = Some q \<Longrightarrow> sp_RewardEpochID q = e" "keys_cover (ps_activePublicKeys s) p"
  using assms by (auto simp: policy_inv_def policiesOf_def)

lemma advance_policy_inv:
  assumes "policy_inv s" and "ps_active s = Some p" and "sp_RewardEpochID q = sp_RewardEpochID p + 1"
    and "keys_cover ks q"
  shows "policy_inv (advance_policy s q ks)"
proof -
  obtain n where n: "sp_RewardEpochID p = ps_initialPolicyID s + of_nat n"
      "dom (map_of (ps_signingPolicies s)) = epochs_from (ps_initialPolicyID s) n"
    using assms(1,2) by (auto simp: policy_inv_def)
  then have "\<exists>m. sp_RewardEpochID q = ps_initialPolicyID s + of_nat m
      \<and> dom (map_of (AList.update (sp_RewardEpochID q) q (ps_signingPolicies s)))
        = epochs_from (ps_initialPolicyID s) m"
    using assms(3) by (intro exI [of _ "Suc n"]) (simp add: update_conv' epochs_from_Suc ac_simps)
  then show ?thesis
    unfolding policy_inv_def advance_policy_eq [OF policy_invD(1) [OF assms(1,2)]]
    using assms(4) policy_invD(1,3) [OF assms(1,2)]
    by (auto simp: policiesOf_def update_conv' split: if_splits)
qed

lemma toSigningPolicyPublicKeysSlice_total:
  assumes "keys_cover ks p"
  shows "toSigningPolicyPublicKeysSlice (Some p) ks = Inr (map (\<lambda>a. the (map_of ks a)) (voters p))"
  unfolding toSigningPolicyPublicKeysSlice_def
  using assms by (auto simp: keys_cover_def intro!: rmap_total split: option.split)

interpretation ps: policy_store policy_inv ActiveSigningPolicy policiesOf ActiveSigningPolicyPublicKeys advance_policy
proof (unfold_locales, goal_cases)
  case (1 s p)
  then show ?case using policy_invD(2) by (simp add: res_simps)
next
  case (2 s e q)
  then show ?case
    using policy_invD(3) [of s _ e q] by (cases "ps_active s") (auto simp: policy_inv_def policiesOf_def)
next
  case (3 s p q ks)
  then show ?case using advance_policy_inv by (simp add: res_simps)
next
  case (4 s p q ks)
  then show ?case using policy_invD(1) by (simp add: res_simps advance_policy_eq)
next
  case (5 s p q ks)
  then show ?case using policy_invD(1) by (simp add: res_simps advance_policy_eq policiesOf_def update_conv')
next
  case (6 s p)
  then show ?case
    using policy_invD(4) [of s p] toSigningPolicyPublicKeysSlice_total [of "ps_activePublicKeys s" p]
    by (simp add: res_simps ActiveSigningPolicyPublicKeys_def)
qed

lemma policy_InitializeStorage_inv: "policy_inv policy_InitializeStorage"
  by (simp add: policy_inv_def policy_InitializeStorage_def)

lemma DestroyState_eq: "DestroyState s = policy_InitializeStorage"
  by (simp add: DestroyState_def policy_InitializeStorage_def)

lemma SetInitialPolicy_ok:
  assumes "policy_inv s" and "ps_active s = None" and "policy_ChainBoundHash F p chainID \<noteq> 0" and "keys_cover ks p"
  shows "fst (SetInitialPolicy F s chainID p ks) = Inr () \<and> policy_inv (snd (SetInitialPolicy F s chainID p ks))
    \<and> ps_active (snd (SetInitialPolicy F s chainID p ks)) = Some p"
proof -
  let ?s = "snd (SetInitialPolicy F s chainID p ks)"
  have "fst (SetInitialPolicy F s chainID p ks) = Inr ()" and
    s: "?s = \<lparr>ps_initialPolicyID = sp_RewardEpochID p, ps_initialPolicyHash = policy_ChainBoundHash F p chainID,
      ps_active = Some p, ps_activePublicKeys = ks, ps_signingPolicies = [(sp_RewardEpochID p, p)]\<rparr>"
    using assms(1-3)
    by (auto simp: SetInitialPolicy_def SetActiveSigningPolicy_def SetActiveSigningPolicyPublicKeys_def
        policy_inv_def Let_def)
  moreover have "policy_inv ?s"
    unfolding s using assms(3,4) by (auto simp: policy_inv_def epochs_from_def intro!: exI [of _ 0])
  ultimately show ?thesis by simp
qed

lemma SetInitialPolicy_fails:
  "policy_ChainBoundHash F p chainID = 0 \<Longrightarrow> \<exists>e. fst (SetInitialPolicy F s chainID p ks) = Inl e"
  by (simp add: SetInitialPolicy_def SetActiveSigningPolicy_def Let_def)

end
