(* ===== verification/Go_Strings.thy ===== *)
theory Go_Strings
  imports Prelude
begin

text \<open>
  The functions of Go's standard library that read configuration strings:
  \<open>strings.TrimSpace\<close>, \<open>strings.Split\<close>, \<open>strings.CutPrefix\<close>, \<open>strings.HasPrefix\<close>,
  \<open>hex.DecodeString\<close>, \<open>strconv.ParseUint\<close>, \<open>strconv.Atoi\<close> and the decimal printing of \<open>fmt\<close>.
  A Go string is its list of bytes.
\<close>

section \<open>Prefixes, trimming, splitting\<close>

fun strip_prefix :: "string \<Rightarrow> string \<Rightarrow> string option" where
  "strip_prefix [] s = Some s"
| "strip_prefix (c # p) [] = None"
| "strip_prefix (c # p) (d # s) = (if c = d then strip_prefix p s else None)"

definition CutPrefix :: "string \<Rightarrow> string \<Rightarrow> string" where
  "CutPrefix s p = (case strip_prefix p s of None \<Rightarrow> s | Some r \<Rightarrow> r)"

text \<open>The UTF-8 encodings of the runes that \<open>unicode.IsSpace\<close> accepts.\<close>

definition spaces :: "string list" where
  "spaces = map (map char_of)
     ([[9], [10], [11], [12], [13], [32], [194, 133], [194, 160], [225, 154, 128], [226, 128, 168], [226, 128, 169],
       [226, 128, 175], [226, 129, 159], [227, 128, 128 :: nat]]
      @ map (\<lambda>i. [226, 128, 128 + i]) [0, 1, 2, 3, 4, 5, 6, 7, 8, 9, 10])"

fun first_prefix :: "string list \<Rightarrow> string \<Rightarrow> string option" where
  "first_prefix [] s = None"
| "first_prefix (p # ps) s = (case strip_prefix p s of Some r \<Rightarrow> Some r | None \<Rightarrow> first_prefix ps s)"

text \<open>At most one space is cut per byte of the string, so its length is enough fuel.\<close>

fun trim_left :: "string list \<Rightarrow> nat \<Rightarrow> string \<Rightarrow> string" where
  "trim_left ps 0 s = s"
| "trim_left ps (Suc n) s = (case first_prefix ps s of None \<Rightarrow> s | Some r \<Rightarrow> trim_left ps n r)"

definition TrimSpace :: "string \<Rightarrow> string" where
  "TrimSpace s = (let l = trim_left spaces (length s) s in
     rev (trim_left (map rev spaces) (length l) (rev l)))"

fun Split :: "char \<Rightarrow> string \<Rightarrow> string list" where
  "Split sep [] = [[]]"
| "Split sep (c # s) = (if c = sep then [] # Split sep s
     else case Split sep s of [] \<Rightarrow> [[c]] | p # ps \<Rightarrow> (c # p) # ps)"

section \<open>Numbers\<close>

fun show_nat :: "nat \<Rightarrow> string" where
  "show_nat n = (if n < 10 then [char_of (48 + n)] else show_nat (n div 10) @ [char_of (48 + n mod 10)])"

declare show_nat.simps [simp del]

definition show_int :: "int \<Rightarrow> string" where
  "show_int i = (if i < 0 then CHR ''-'' # show_nat (nat (- i)) else show_nat (nat i))"

definition digit_of :: "char \<Rightarrow> nat option" where
  "digit_of c = (let n = of_char c in
     if 48 \<le> n \<and> n \<le> 57 then Some (n - 48)
     else if 97 \<le> n \<and> n \<le> 122 then Some (n - 97 + 10)
     else if 65 \<le> n \<and> n \<le> 90 then Some (n - 65 + 10) else None)"

text \<open>\<open>hex.DecodeString\<close>.\<close>

definition fromHexChar :: "char \<Rightarrow> nat option" where
  "fromHexChar c = (case digit_of c of None \<Rightarrow> None | Some d \<Rightarrow> if d < 16 then Some d else None)"

definition InvalidByteError :: go_error where "InvalidByteError = Err ''encoding/hex: invalid byte''"

fun hex_DecodeString :: "string \<Rightarrow> bytes res" where
  "hex_DecodeString [] = Inr []"
| "hex_DecodeString [a] = (case fromHexChar a of None \<Rightarrow> Inl InvalidByteError
     | Some _ \<Rightarrow> Inl (Err ''encoding/hex: odd length hex string''))"
| "hex_DecodeString (a # b # s) = (case (fromHexChar a, fromHexChar b) of
     (Some x, Some y) \<Rightarrow> rbind (hex_DecodeString s) (\<lambda>r. Inr (word_of_nat (16 * x + y) # r))
   | _ \<Rightarrow> Inl InvalidByteError)"

text \<open>
  \<open>strconv.ParseUint(s, base, 64)\<close> for base 0 (prefixes and underscores) and base 10. The
  result is read off unbounded numbers; a value above the maximum is the range error at the
  digit where it appears.
\<close>

definition syntaxError :: go_error where "syntaxError = Err ''invalid syntax''"
definition rangeError :: go_error where "rangeError = Err ''value out of range''"

fun parse_digits :: "bool \<Rightarrow> nat \<Rightarrow> nat \<Rightarrow> bool \<Rightarrow> string \<Rightarrow> (nat \<times> bool) res" where
  "parse_digits base0 base n underscores [] = Inr (n, underscores)"
| "parse_digits base0 base n underscores (c # s) =
     (if base0 \<and> c = CHR ''_'' then parse_digits base0 base n True s
      else case digit_of c of
        None \<Rightarrow> Inl syntaxError
      | Some d \<Rightarrow> if d \<ge> base then Inl syntaxError
          else if n * base + d \<ge> 2 ^ 64 then Inl rangeError
          else parse_digits base0 base (n * base + d) underscores s)"

definition is_lower :: "char \<Rightarrow> char \<Rightarrow> char \<Rightarrow> bool" where
  "is_lower lo up c \<longleftrightarrow> c = lo \<or> c = up"

definition base_prefix :: "string \<Rightarrow> (nat \<times> string) option" where
  "base_prefix s = (case s of
     c0 # c1 # r \<Rightarrow> if c0 \<noteq> CHR ''0'' then None
       else if is_lower CHR ''b'' CHR ''B'' c1 then Some (2, r)
       else if is_lower CHR ''o'' CHR ''O'' c1 then Some (8, r)
       else if is_lower CHR ''x'' CHR ''X'' c1 then Some (16, r) else None
   | _ \<Rightarrow> None)"

text \<open>\<open>underscoreOK\<close>: the last character seen is a digit, an underscore, something else, or none.\<close>

datatype saw = SawStart | SawDigit | SawUnderscore | SawOther

fun underscore_loop :: "bool \<Rightarrow> saw \<Rightarrow> string \<Rightarrow> bool" where
  "underscore_loop hex saw [] = (saw \<noteq> SawUnderscore)"
| "underscore_loop hex saw (c # s) =
     (let digit = (case digit_of c of None \<Rightarrow> False | Some d \<Rightarrow> d < 10 \<or> hex \<and> d < 16) in
      if digit then underscore_loop hex SawDigit s
      else if c = CHR ''_'' then (if saw \<noteq> SawDigit then False else underscore_loop hex SawUnderscore s)
      else if saw = SawUnderscore then False
      else underscore_loop hex SawOther s)"

definition underscoreOK :: "string \<Rightarrow> bool" where
  "underscoreOK s0 =
     (let s = (case s0 of c # r \<Rightarrow> if c = CHR ''-'' \<or> c = CHR ''+'' then r else s0 | [] \<Rightarrow> s0) in
      case base_prefix s of
        Some (b, r) \<Rightarrow> underscore_loop (b = 16) SawDigit r
      | None \<Rightarrow> underscore_loop False SawStart s)"

definition ParseUint10 :: "string \<Rightarrow> uint64 res" where
  "ParseUint10 s = (if s = [] then Inl syntaxError
     else rbind (parse_digits False 10 0 False s) (\<lambda>(n, _). Inr (word_of_nat n)))"

definition ParseUint0 :: "string \<Rightarrow> uint64 res" where
  "ParseUint0 s =
     (if s = [] then Inl syntaxError
      else let (base, r) = (case base_prefix s of
          Some (b, r) \<Rightarrow> if r = [] then (8, tl s) else (b, r)
        | None \<Rightarrow> if hd s = CHR ''0'' then (8, tl s) else (10, s)) in
      rbind (parse_digits True base 0 False r) (\<lambda>(n, underscores).
      if underscores \<and> \<not> underscoreOK s then Inl syntaxError else Inr (word_of_nat n)))"

text \<open>\<open>strconv.Atoi\<close> on a 64-bit platform: an optional sign and decimal digits.\<close>

definition Atoi :: "string \<Rightarrow> int res" where
  "Atoi s0 =
     (let neg = (s0 \<noteq> [] \<and> hd s0 = CHR ''-'');
          s = (if s0 \<noteq> [] \<and> (hd s0 = CHR ''-'' \<or> hd s0 = CHR ''+'') then tl s0 else s0) in
      if s = [] then Inl syntaxError
      else rbind (parse_digits False 10 0 False s) (\<lambda>(n, _).
        if neg \<and> n > 2 ^ 63 \<or> \<not> neg \<and> n \<ge> 2 ^ 63 then Inl rangeError
        else Inr (if neg then - int n else int n)))"

section \<open>Facts\<close>

lemma parse_digits_bound:
  "parse_digits b0 base n u s = Inr (m, u') \<Longrightarrow> n < 2 ^ 64 \<Longrightarrow> m < 2 ^ 64"
proof (induction b0 base n u s rule: parse_digits.induct)
  case (2 b0 base n u c s)
  then show ?case by (auto split: if_splits option.splits simp del: power_numeral simp: not_le)
qed auto

lemma digit_of_digit: "d < 10 \<Longrightarrow> digit_of (char_of (48 + d :: nat)) = Some d"
  by (simp add: digit_of_def Let_def)

lemma parse_digits_snoc:
  "parse_digits False base n u s = Inr (m, u) \<Longrightarrow> digit_of c = Some d \<Longrightarrow> d < base \<Longrightarrow> m * base + d < 2 ^ 64 \<Longrightarrow>
     parse_digits False base n u (s @ [c]) = Inr (m * base + d, u)"
  by (induction False base n u s rule: parse_digits.induct) (auto split: if_splits option.splits)

text \<open>What \<open>fmt\<close> prints, \<open>ParseUint\<close> reads back.\<close>

lemma parse_digits_show_nat:
  "n < 2 ^ 64 \<Longrightarrow> parse_digits False 10 0 False (show_nat n) = Inr (n, False)"
proof (induction n rule: show_nat.induct)
  case (1 n)
  show ?case
  proof (cases "n < 10")
    case True
    then have "show_nat n = [char_of (48 + n)]" by (simp add: show_nat.simps)
    then show ?thesis using True "1.prems" by (simp add: digit_of_digit)
  next
    case False
    then have eq: "show_nat n = show_nat (n div 10) @ [char_of (48 + n mod 10)]" by (simp add: show_nat.simps)
    have "parse_digits False 10 0 False (show_nat (n div 10)) = Inr (n div 10, False)"
      using "1.IH" [OF False] "1.prems" by simp
    from parse_digits_snoc [OF this digit_of_digit, of "n mod 10"] "1.prems" show ?thesis
      by (simp add: eq)
  qed
qed

lemma show_nat_not_Nil [simp]: "show_nat n \<noteq> []"
  by (subst show_nat.simps) simp

lemma ParseUint10_show_nat: "n < 2 ^ 64 \<Longrightarrow> ParseUint10 (show_nat n) = Inr (word_of_nat n)"
  by (simp add: ParseUint10_def parse_digits_show_nat)

end
