(* ===== verification/Processor_Utils.thy ===== *)
theory Processor_Utils
  imports Backup Policy_Storage Go_Strings
begin

text \<open>
  Actions and their results (\<^verbatim>\<open>src/pkg/types/actions.go\<close>, \<^verbatim>\<open>direct.go\<close>, \<^verbatim>\<open>common.go\<close>,
  \<^verbatim>\<open>policy.go\<close>, \<^verbatim>\<open>machinepath.go\<close>), the checks every processor shares
  (\<^verbatim>\<open>src/pkg/processorutils/processutils.go\<close>), the signature thresholds
  (\<^verbatim>\<open>src/pkg/processorutils/thresholds.go\<close>) and the size limits
  (\<^verbatim>\<open>src/pkg/constraints/constraints.go\<close>).
\<close>

section \<open>Actions\<close>

definition Instruction :: string where "Instruction = ''instruction''"
definition Direct :: string where "Direct = ''direct''"

definition Threshold :: string where "Threshold = ''threshold''"
definition End :: string where "End = ''end''"
definition Submit :: string where "Submit = ''submit''"

lemma tags_distinct [simp]: "Threshold \<noteq> End" "End \<noteq> Threshold" "Submit \<noteq> Threshold" "Submit \<noteq> End"
  by (simp_all add: Threshold_def End_def Submit_def)

record ActionData =
  ad_ID :: hash
  ad_Type :: string
  ad_SubmissionTag :: string
  ad_Message :: bytes

record Action =
  ac_Data :: ActionData
  ac_AdditionalVariableMessages :: "bytes list"
  ac_Timestamps :: "uint64 list"
  ac_AdditionalActionData :: bytes
  ac_Signatures :: "bytes list"

text \<open>The log of a result is the error whose text it holds, or nothing.\<close>

record ActionResult =
  ar_ID :: hash
  ar_SubmissionTag :: string
  ar_Status :: uint8
  ar_Log :: "go_error option"
  ar_OPType :: hash
  ar_OPCommand :: hash
  ar_AdditionalResultStatus :: bytes
  ar_Version :: string
  ar_Data :: bytes

record ActionResponse =
  rp_Result :: ActionResult
  rp_Signature :: bytes
  rp_ProxySignature :: bytes

record VoteSequence =
  vq_VoteHash :: hash
  vq_InstructionID :: hash
  vq_InstructionHash :: hash
  vq_RewardEpochID :: uint32
  vq_TeeID :: address
  vq_Signatures :: "bytes list"
  vq_AdditionalVariableMessageHashes :: "hash list"
  vq_Timestamps :: "uint64 list"

record RewardingData =
  rd_VoteSequence :: VoteSequence
  rd_AdditionalData :: bytes
  rd_Version :: string
  rd_Signature :: bytes

record OpID =
  id_OPType :: hash
  id_OPCommand :: hash

record DirectInstruction =
  di_OPType :: hash
  di_OPCommand :: hash
  di_Message :: bytes

record InitializePolicyRequest =
  ip_InitialPolicyBytes :: bytes
  ip_PublicKeys :: "PublicKey list"

record MultiSignedPolicy =
  ms_PolicyBytes :: bytes
  ms_Signatures :: "bytes list"

record UpdatePolicyRequest =
  up_NewPolicy :: MultiSignedPolicy
  up_PublicKeys :: "PublicKey list"

record SetMachinePathListRequest =
  sm_Paths :: "MachinePath list"
  sm_Nonce :: uint64
  sm_Signatures :: "bytes list"
  sm_SafeApproval :: "SafeApproval option"

text \<open>The JSON forms of the messages.\<close>

record processor_env = backup_env +
  unjson_OpID :: "bytes \<Rightarrow> OpID res"
  unjson_DataFixed :: "bytes \<Rightarrow> DataFixed res"
  unjson_DirectInstruction :: "bytes \<Rightarrow> DirectInstruction res"
  json_RewardingData :: "RewardingData \<Rightarrow> bytes res"
  unjson_InitializePolicyRequest :: "bytes \<Rightarrow> InitializePolicyRequest res"
  unjson_UpdatePolicyRequest :: "bytes \<Rightarrow> UpdatePolicyRequest res"
  unjson_SetMachinePathListRequest :: "bytes \<Rightarrow> SetMachinePathListRequest res"

definition result_preimage :: "'a geth_scheme \<Rightarrow> ActionResult \<Rightarrow> bytes" where
  "result_preimage G ar = Keccak256 G (ar_Data ar) @ hash_bytes (ar_ID ar)
     @ Keccak256 G (string_bytes (ar_SubmissionTag ar)) @ [ar_Status ar]"

definition ActionResult_Hash :: "'a geth_scheme \<Rightarrow> ActionResult \<Rightarrow> bytes" where
  "ActionResult_Hash G ar = Keccak256 G (result_preimage G ar)"

definition GetOpID :: "'a processor_env_scheme \<Rightarrow> Action \<Rightarrow> OpID res" where
  "GetOpID P a = unjson_OpID P (ad_Message (ac_Data a))"

section \<open>Shared checks\<close>

definition EncodingVersion :: string where "EncodingVersion = ''1.0.0''"

definition MaxInstructionSize :: nat where "MaxInstructionSize = 100 * 1024"
definition MaxActionSize :: nat where "MaxActionSize = 10 * 1024 * 1024"
definition MaxVariableMessageSize :: nat where "MaxVariableMessageSize = 1024 * 1024"
definition MaxVariableMessages :: nat where "MaxVariableMessages = 200"

text \<open>\<open>Parse[T]\<close> at its two instances.\<close>

definition Parse_sized :: "nat \<Rightarrow> (bytes \<Rightarrow> 'b res) \<Rightarrow> bytes \<Rightarrow> 'b res" where
  "Parse_sized maxBodySize unmarshal message =
     rbind (ensure (\<not> length message > maxBodySize) (Err ''request too large'')) (\<lambda>_.
     rwrap ''invalid JSON, '' (unmarshal message))"

definition Parse_DataFixed :: "'a processor_env_scheme \<Rightarrow> bytes \<Rightarrow> DataFixed res" where
  "Parse_DataFixed P message = Parse_sized MaxInstructionSize (unjson_DataFixed P) message"

definition Parse_DirectInstruction :: "'a processor_env_scheme \<Rightarrow> bytes \<Rightarrow> DirectInstruction res" where
  "Parse_DirectInstruction P message = Parse_sized MaxActionSize (unjson_DirectInstruction P) message"

definition flareOPPrefix :: string where "flareOPPrefix = ''F_''"

definition CheckForwardable :: "hash \<Rightarrow> unit res" where
  "CheckForwardable opType =
     ensure (\<not> take (length flareOPPrefix) (hash_bytes opType) = string_bytes flareOPPrefix)
       (Err ''reserved op type not supported in extension mode'')"

definition CheckDirectTag :: "string \<Rightarrow> unit res" where
  "CheckDirectTag tag = ensure (\<not> (tag = Threshold \<or> tag = End)) (Err ''submission tag not allowed for direct actions'')"

definition opOf :: "'a processor_env_scheme \<Rightarrow> Action \<Rightarrow> OpID" where
  "opOf P a = (case GetOpID P a of Inl _ \<Rightarrow> \<lparr>id_OPType = 0, id_OPCommand = 0\<rparr> | Inr i \<Rightarrow> i)"

definition Invalid :: "'a processor_env_scheme \<Rightarrow> Action \<Rightarrow> go_error \<Rightarrow> ActionResult" where
  "Invalid P a err =
     (let i = opOf P a in
      \<lparr>ar_ID = ad_ID (ac_Data a), ar_SubmissionTag = ad_SubmissionTag (ac_Data a), ar_Status = 0, ar_Log = Some err,
       ar_OPType = id_OPType i, ar_OPCommand = id_OPCommand i, ar_AdditionalResultStatus = [],
       ar_Version = EncodingVersion, ar_Data = []\<rparr>)"

definition DeadlineExceeded :: "'a processor_env_scheme \<Rightarrow> Action \<Rightarrow> go_error \<Rightarrow> ActionResult" where
  "DeadlineExceeded P a err =
     (let i = opOf P a in
      \<lparr>ar_ID = ad_ID (ac_Data a), ar_SubmissionTag = ad_SubmissionTag (ac_Data a), ar_Status = 3, ar_Log = Some err,
       ar_OPType = id_OPType i, ar_OPCommand = id_OPCommand i, ar_AdditionalResultStatus = [],
       ar_Version = EncodingVersion, ar_Data = []\<rparr>)"

text \<open>The second component is the action as \<open>CheckAndAdapt\<close> leaves it.\<close>

definition CheckAndAdapt :: "Action \<Rightarrow> unit res \<times> Action" where
  "CheckAndAdapt a =
     (if length (ac_Signatures a) > MaxVariableMessages \<or> length (ac_Timestamps a) > MaxVariableMessages
         \<or> length (ac_AdditionalVariableMessages a) > MaxVariableMessages
      then (Inl (Errf ''per-signer entry count exceeds limit of %d (signatures=%d, timestamps=%d, messages=%d)''
              [int MaxVariableMessages, int (length (ac_Signatures a)), int (length (ac_Timestamps a)),
               int (length (ac_AdditionalVariableMessages a))]), a)
      else let a' = (if length (ac_AdditionalVariableMessages a) = 0
                     then a\<lparr>ac_AdditionalVariableMessages := replicate (length (ac_Signatures a)) []\<rparr> else a) in
      if length (ac_Timestamps a') \<noteq> length (ac_AdditionalVariableMessages a')
         \<or> length (ac_Timestamps a') \<noteq> length (ac_Signatures a')
      then (Inl (Err ''unaligned providers' data''), a')
      else let totalVariableSize = foldl (\<lambda>n msg. n + length msg) 0 (ac_AdditionalVariableMessages a') in
      if totalVariableSize > MaxVariableMessageSize
      then (Inl (Errf ''total variable messages size %d exceeds limit of %d bytes''
              [int totalVariableSize, int MaxVariableMessageSize]), a')
      else (Inr (), a'))"

definition CheckMatchingCosigners :: "address list \<Rightarrow> address list \<Rightarrow> uint64 \<Rightarrow> uint64 \<Rightarrow> unit res" where
  "CheckMatchingCosigners expectedCosigners cosigners expectedThreshold threshold =
     rbind (ensure (\<forall>cosigner \<in> set expectedCosigners. cosigner \<in> set cosigners)
       (Err ''provided cosigners do not match saved cosigners'')) (\<lambda>_.
     rbind (ensure (length expectedCosigners = length cosigners)
       (Err ''the number of provided cosigners does not match the number of saved cosigners'')) (\<lambda>_.
     ensure (expectedThreshold = threshold)
       (Errf ''the threshold of provided cosigners does not match the threshold of saved cosigners, %d != %d''
         [uint expectedThreshold, uint threshold])))"

section \<open>Thresholds\<close>

definition maxBIPS :: uint16 where "maxBIPS = 10000"
definition fdcMinimumThresholdBIPS :: uint16 where "fdcMinimumThresholdBIPS = 4000"

fun count_cosigners :: "address list \<Rightarrow> address list \<Rightarrow> uint64 \<Rightarrow> uint64" where
  "count_cosigners signers [] n = n"
| "count_cosigners signers (c # cs) n = count_cosigners signers cs (if c \<in> set signers then n + 1 else n)"

definition checkCosigners :: "address list \<Rightarrow> address list \<Rightarrow> uint64 \<Rightarrow> unit res" where
  "checkCosigners signers allCosigners threshold =
     ensure (\<not> count_cosigners signers allCosigners 0 < threshold) (Err ''cosigners threshold not reached'')"

definition policyThreshold :: "SigningPolicy \<Rightarrow> uint16 res" where
  "policyThreshold sPolicy =
     (if sp_Threshold sPolicy = 0 then Inl (Err ''signing policy threshold is zero'') else Inr (sp_Threshold sPolicy))"

definition computeThreshold :: "uint16 \<Rightarrow> uint16 \<Rightarrow> uint16" where
  "computeThreshold totalWeight bips = ucast ((ucast totalWeight :: uint64) * ucast bips div 10000)"

definition DecodeRequest :: "'a flare_scheme \<Rightarrow> bytes \<Rightarrow> Fdc2Request res" where
  "DecodeRequest F b = abi_Fdc2Request F b"

definition dataProvidersThreshold :: "'a flare_scheme \<Rightarrow> DataFixed \<Rightarrow> SigningPolicy \<Rightarrow> uint16 res" where
  "dataProvidersThreshold F d sPolicy =
     (if HashToOPType F (df_OPType d) = OP_FDC2 \<and> HashToOPCommand F (df_OPCommand d) = OP_Prove
      then rbind (DecodeRequest F (df_OriginalMessage d)) (\<lambda>request.
        let bips = fr_ThresholdBIPS request in
        if bips = 0 then policyThreshold sPolicy
        else if bips < fdcMinimumThresholdBIPS then Inl (Err ''data providers threshold too low'')
        else if bips < maxBIPS div 2 \<and> df_CosignersThreshold d * 2 \<le> word_of_nat (length (df_Cosigners d))
        then Inl (Err ''one threshold should be above 50%'')
        else if bips \<ge> maxBIPS then Inl (Err ''data providers threshold too high'')
        else Inr (computeThreshold (vs_TotalWeight (sp_Voters sPolicy)) bips))
      else policyThreshold sPolicy)"

definition CheckThresholds :: "'a flare_scheme \<Rightarrow> DataFixed \<Rightarrow> address list \<Rightarrow> SigningPolicy \<Rightarrow> unit res" where
  "CheckThresholds F d signers sPolicy =
     rbind (ensure (\<not> HasDuplicateAddresses (df_Cosigners d)) (Err ''cosigner list contains duplicate addresses'')) (\<lambda>_.
     rbind (checkCosigners signers (df_Cosigners d) (df_CosignersThreshold d)) (\<lambda>_.
     rbind (dataProvidersThreshold F d sPolicy) (\<lambda>dpThreshold.
     rbind (ensure (\<not> WeightOfSigners signers sPolicy \<le> dpThreshold) (Err ''data providers threshold not reached'')) (\<lambda>_.
     ensure (\<forall>signer \<in> set signers. signer \<in> set (df_Cosigners d) \<or> vs_VoterIndex (sp_Voters sPolicy) signer \<noteq> -1)
       (Err ''signed by an entity that is neither data provider nor cosigner'')))))"

section \<open>Size limits\<close>

record sizeConstraint =
  sz_originalMessage :: nat
  sz_additionalFixedMessage :: nat
  sz_additionalVariableMessage :: nat

definition defaultConstraint :: sizeConstraint where
  "defaultConstraint = \<lparr>sz_originalMessage = 50 * 1024, sz_additionalFixedMessage = 100 * 1024, sz_additionalVariableMessage = 50 * 1024\<rparr>"

definition noAdditional :: sizeConstraint where
  "noAdditional = \<lparr>sz_originalMessage = 50 * 1024, sz_additionalFixedMessage = 0, sz_additionalVariableMessage = 0\<rparr>"

definition restore :: sizeConstraint where
  "restore = \<lparr>sz_originalMessage = 50 * 1024, sz_additionalFixedMessage = 100 * 1024, sz_additionalVariableMessage = 1024 * 1024\<rparr>"

definition constraints :: "'a flare_scheme \<Rightarrow> hash \<Rightarrow> sizeConstraint res" where
  "constraints F opCommand =
     (let oc = HashToOPCommand F opCommand in
      if oc \<in> {OP_InitializePolicy, OP_UpdatePolicy, OP_KeyInfo, OP_KeyProof, OP_TEEInfo, OP_TEEBackup}
      then Inl (Err ''non instruction opCommand'')
      else if oc \<in> {OP_KeyDataProviderRestore, OP_KeyDataProviderRestoreTest} then Inr restore
      else if oc \<in> {OP_Pay, OP_Reissue, OP_TEEAttestation, OP_KeyGenerate, OP_KeyDelete} then Inr noAdditional
      else Inr defaultConstraint)"

definition CheckSize :: "'a flare_scheme \<Rightarrow> DataFixed \<Rightarrow> unit res" where
  "CheckSize F d =
     rbind (constraints F (df_OPCommand d)) (\<lambda>c.
     rbind (ensure (\<not> length (df_OriginalMessage d) > sz_originalMessage c) (Err ''original message too big'')) (\<lambda>_.
     ensure (\<not> length (df_AdditionalFixedMessage d) > sz_additionalFixedMessage c)
       (Err ''additional fixed message message too big'')))"

definition CheckSizeVariableMessages :: "'a flare_scheme \<Rightarrow> hash \<Rightarrow> bytes list \<Rightarrow> unit res" where
  "CheckSizeVariableMessages F opCommand variableMessages =
     rbind (constraints F opCommand) (\<lambda>c.
     ensure (\<forall>m \<in> set variableMessages. \<not> length m > sz_additionalVariableMessage c)
       (Err ''additional variable message message too big''))"

section \<open>Facts about actions and results\<close>

lemma Invalid_fields [simp]:
  "ar_ID (Invalid P a e) = ad_ID (ac_Data a)" "ar_SubmissionTag (Invalid P a e) = ad_SubmissionTag (ac_Data a)"
  "ar_Status (Invalid P a e) = 0" "ar_Data (Invalid P a e) = []" "ar_Log (Invalid P a e) = Some e"
  by (simp_all add: Invalid_def Let_def)

text \<open>The signed preimage has a fixed layout, so it determines the data hash, the id, the tag hash and the status.\<close>

lemma result_preimage_inj:
  assumes "result_preimage G a = result_preimage G b"
  shows "Keccak256Hash G (ar_Data a) = Keccak256Hash G (ar_Data b)" "ar_ID a = ar_ID b"
    "Keccak256Hash G (string_bytes (ar_SubmissionTag a)) = Keccak256Hash G (string_bytes (ar_SubmissionTag b))"
    "ar_Status a = ar_Status b"
  using assms by (auto simp: result_preimage_def Keccak256_def)

lemma CheckAndAdapt_Inr:
  assumes "CheckAndAdapt a = (Inr (), a')"
  shows "length (ac_Signatures a') = length (ac_Timestamps a')"
    and "length (ac_AdditionalVariableMessages a') = length (ac_Timestamps a')"
    and "length (ac_Timestamps a') \<le> MaxVariableMessages"
    and "sum_list (map length (ac_AdditionalVariableMessages a')) \<le> MaxVariableMessageSize"
    and "ac_Data a' = ac_Data a" "ac_Signatures a' = ac_Signatures a" "ac_Timestamps a' = ac_Timestamps a"
proof -
  have len: "foldl (\<lambda>n msg. n + length msg) m xs = m + sum_list (map length xs)" for m and xs :: "bytes list"
    by (induction xs arbitrary: m) auto
  show "length (ac_Signatures a') = length (ac_Timestamps a')"
    and "length (ac_AdditionalVariableMessages a') = length (ac_Timestamps a')"
    and "length (ac_Timestamps a') \<le> MaxVariableMessages"
    and "ac_Data a' = ac_Data a" "ac_Signatures a' = ac_Signatures a" "ac_Timestamps a' = ac_Timestamps a"
    using assms by (auto simp: CheckAndAdapt_def Let_def split: if_splits)
  show "sum_list (map length (ac_AdditionalVariableMessages a')) \<le> MaxVariableMessageSize"
    using assms by (auto simp: CheckAndAdapt_def Let_def len split: if_splits)
qed

lemma CheckAndAdapt_Data: "ac_Data (snd (CheckAndAdapt a)) = ac_Data a"
  by (simp add: CheckAndAdapt_def Let_def)

section \<open>Facts about cosigners and thresholds\<close>

lemma CheckMatchingCosigners_Inr:
  assumes "CheckMatchingCosigners expected given t u = Inr ()" and "distinct expected"
  shows "set given = set expected" and "distinct given" and "t = u"
proof -
  have sub: "set expected \<subseteq> set given" and len: "length expected = length given" and "t = u"
    using assms(1) by (auto simp: CheckMatchingCosigners_def res_simps)
  have "card (set given) \<le> card (set expected)"
    using len distinct_card [OF assms(2)] card_length [of given] by simp
  then show "set given = set expected" using sub card_seteq [OF finite_set sub] by auto
  then show "distinct given"
    using len distinct_card [OF assms(2)] by (simp add: card_distinct)
  show "t = u" by fact
qed

lemma count_cosigners_eq:
  "count_cosigners signers cs n = n + of_nat (length (filter (\<lambda>c. c \<in> set signers) cs))"
  by (induction cs arbitrary: n) (auto simp: add.assoc)

lemma checkCosigners_Inr:
  assumes "checkCosigners signers cs t = Inr ()" and "distinct cs"
  shows "unat t \<le> card (set cs \<inter> set signers)"
proof -
  let ?k = "length (filter (\<lambda>c. c \<in> set signers) cs)"
  have "unat t \<le> unat (of_nat ?k :: uint64)"
    using assms(1) by (simp add: checkCosigners_def res_simps count_cosigners_eq word_less_nat_alt)
  also have "\<dots> \<le> ?k" by (simp add: unat_of_nat)
  also have "?k = card (set cs \<inter> set signers)"
    using distinct_length_filter [OF assms(2), of "\<lambda>c. c \<in> set signers"]
    by (simp add: Int_def conj_commute)
  finally show ?thesis .
qed

text \<open>The override threshold neither overflows nor exceeds the total weight.\<close>

lemma unat_computeThreshold:
  assumes "unat bips \<le> 10000"
  shows "unat (computeThreshold w bips) = unat w * unat bips div 10000"
proof -
  have b: "unat w * unat bips \<le> 65535 * 10000"
    using assms unsigned_less [of w, where 'a = nat] by (intro mult_le_mono) auto
  have u: "unat (ucast v :: uint64) = unat v" for v :: uint16
    using unsigned_less [of v, where 'a = nat] by (simp add: unsigned_ucast_eq take_bit_eq_mod)
  have m: "unat ((ucast w :: uint64) * ucast bips) = unat w * unat bips"
    using b by (simp add: unat_word_ariths u)
  have d: "unat ((ucast w :: uint64) * ucast bips div 10000) = unat w * unat bips div 10000"
    by (simp add: unat_div m)
  moreover have "unat w * unat bips div 10000 < 65536"
    using b by (simp add: less_mult_imp_div_less)
  ultimately show ?thesis
    unfolding computeThreshold_def by (simp add: unsigned_ucast_eq take_bit_eq_mod)
qed

lemma computeThreshold_strict:
  assumes "unat bips \<le> 10000"
  shows "computeThreshold w bips < x \<longleftrightarrow> unat w * unat bips < unat x * 10000"
proof -
  have "computeThreshold w bips < x \<longleftrightarrow> unat w * unat bips div 10000 < unat x"
    by (simp add: word_less_nat_alt unat_computeThreshold [OF assms])
  also have "\<dots> \<longleftrightarrow> unat w * unat bips < unat x * 10000"
    by (simp add: div_less_iff_less_mult)
  finally show ?thesis .
qed

text \<open>What acceptance by \<open>CheckThresholds\<close> means.\<close>

lemma CheckThresholds_Inr:
  assumes "CheckThresholds F d signers p = Inr ()"
  obtains t where "distinct (df_Cosigners d)"
    "unat (df_CosignersThreshold d) \<le> card (set (df_Cosigners d) \<inter> set signers)"
    "dataProvidersThreshold F d p = Inr t" "t < WeightOfSigners signers p"
    "\<forall>a \<in> set signers. a \<in> set (df_Cosigners d) \<or> vs_VoterIndex (sp_Voters p) a \<noteq> -1"
  using assms checkCosigners_Inr by (auto simp: CheckThresholds_def res_simps)

end
