(* ===== verification/Node.thy ===== *)
theory Node
  imports Flare_Common Go_Strings
begin

text \<open>
  The node's identity and configuration: \<^verbatim>\<open>src/internal/node/node.go\<close>,
  \<^verbatim>\<open>src/internal/node/state.go\<close>, the state fetch of \<^verbatim>\<open>src/internal/extension/extension.go\<close> and
  the governance and machine-path hashes of \<^verbatim>\<open>src/pkg/types/tee.go\<close> and
  \<^verbatim>\<open>src/pkg/types/machinepath.go\<close>. Each method runs under the node's lock, so a method is
  one step on the record \<open>Node\<close>. The environment is the argument \<open>getenv\<close>.
\<close>

section \<open>Hashes that the contracts know\<close>

definition GovernanceHash :: "'a flare_scheme \<Rightarrow> address list \<Rightarrow> uint64 \<Rightarrow> hash res" where
  "GovernanceHash F signers threshold =
     rbind (abi_pack_Governance F signers (unat threshold)) (\<lambda>enc. Inr (Keccak256Hash F enc))"

definition GovernanceHashSafe ::
  "'a flare_scheme \<Rightarrow> address \<Rightarrow> address \<Rightarrow> address list \<Rightarrow> uint64 \<Rightarrow> hash res" where
  "GovernanceHashSafe F teeManager safe owners threshold =
     rbind (abi_pack_GovernanceSafe F teeManager safe owners threshold) (\<lambda>enc. Inr (Keccak256Hash F enc))"

definition ApproveMachinePathListCalldata :: "'a flare_scheme \<Rightarrow> hash \<Rightarrow> uint64 \<Rightarrow> hash \<Rightarrow> bytes res" where
  "ApproveMachinePathListCalldata F extensionID nonce messageHash =
     abi_pack_ApproveMachinePathList F (nat_of_bytes (hash_bytes extensionID)) (unat nonce) messageHash"

definition MachinePathListDataHash :: "'a flare_scheme \<Rightarrow> hash \<Rightarrow> uint64 \<Rightarrow> MachinePath list \<Rightarrow> hash res" where
  "MachinePathListDataHash F extensionID nonce paths =
     rbind (abi_pack_MachinePathList F (nat_of_bytes (hash_bytes extensionID)) (unat nonce) paths) (\<lambda>enc.
     Inr (Keccak256Hash F enc))"

section \<open>The attested state\<close>

record TeeState =
  ts_SystemState :: bytes
  ts_SystemStateVersion :: hash
  ts_State :: bytes
  ts_StateVersion :: hash

definition StateUnavailableVersion :: hash where "StateUnavailableVersion = MaxHash"

definition MaxFetchResponseSize :: nat where "MaxFetchResponseSize = 10 * 1024 * 1024"

text \<open>
  \<open>extension.FetchState\<close>: \<open>get\<close> is the outcome of the HTTP request for a URL (a transport
  error, or the status code and the body), \<open>unjson\<close> decodes a state.
\<close>

definition FetchState ::
  "(string \<Rightarrow> (int \<times> bytes) res) \<Rightarrow> (bytes \<Rightarrow> TeeState res) \<Rightarrow> string \<Rightarrow> TeeState res" where
  "FetchState get unjson url =
     rbind (get url) (\<lambda>(status, response).
     let body = take MaxFetchResponseSize response in
     rbind (ensure (status = 200) (Errf ''unexpected status code: %d'' [status])) (\<lambda>_.
     rbind (unjson body) (\<lambda>state.
     Inr \<lparr>ts_SystemState = [], ts_SystemStateVersion = 0, ts_State = ts_State state, ts_StateVersion = ts_StateVersion state\<rparr>)))"

datatype State = ZeroState | ExtensionState string

definition NewExtensionState :: "int \<Rightarrow> State" where
  "NewExtensionState port = ExtensionState (''http://localhost:'' @ show_int port @ ''/state'')"

fun State_State :: "(string \<Rightarrow> (int \<times> bytes) res) \<Rightarrow> (bytes \<Rightarrow> TeeState res) \<Rightarrow> State \<Rightarrow> TeeState res" where
  "State_State get unjson ZeroState =
     Inr \<lparr>ts_SystemState = [], ts_SystemStateVersion = 0, ts_State = [], ts_StateVersion = 0\<rparr>"
| "State_State get unjson (ExtensionState url) =
     (case FetchState get unjson url of
        Inl _ \<Rightarrow> Inr \<lparr>ts_SystemState = [], ts_SystemStateVersion = 0, ts_State = [],
                     ts_StateVersion = StateUnavailableVersion\<rparr>
      | Inr state \<Rightarrow> Inr state)"

section \<open>The node\<close>

record extensionID =
  ext_set :: bool
  ext_value :: hash

record governance =
  gov_set :: bool
  gov_signers :: "address list"
  gov_threshold :: uint64
  gov_hash :: hash
  gov_safe :: address
  gov_teeManager :: address

record Node =
  n_teeID :: address
  n_privateKey :: ecdsa_priv
  n_state :: State
  n_initialOwner :: address
  n_extensionID :: extensionID
  n_chainID :: uint64
  n_governance :: governance
  n_machinePaths :: "MachinePath list"
  n_machinePathNonce :: uint64

text \<open>\<open>types.Governance\<close>, the part of the governance that \<open>Info\<close> reports.\<close>

record Governance_report =
  gr_Signers :: "address list"
  gr_Threshold :: uint64
  gr_Hash :: hash
  gr_Safe :: address
  gr_TeeManager :: address

record Info =
  in_TeeID :: address
  in_PublicKey :: PublicKey
  in_State :: State
  in_InitialOwner :: address
  in_ExtensionID :: hash
  in_ChainID :: uint64
  in_Governance :: Governance_report
  in_MachinePathListNonce :: uint64
  in_MachinePathListHash :: hash

definition DefaultExtensionID :: hash where "DefaultExtensionID = MaxHash"
definition DefaultGovernanceHash :: hash where "DefaultGovernanceHash = MaxHash"

definition machine_path_hash :: "'a flare_scheme \<Rightarrow> hash \<Rightarrow> uint64 \<Rightarrow> uint64 \<Rightarrow> MachinePath list \<Rightarrow> hash res" where
  "machine_path_hash F extensionID chainID nonce paths =
     rbind (MachinePathListDataHash F extensionID nonce paths) (\<lambda>dataHash.
     payload_Hash F TEEMachinePathList chainID dataHash)"

definition Node_Info :: "'a flare_scheme \<Rightarrow> Node \<Rightarrow> Info" where
  "Node_Info F n =
     (let pathListHash = (if n_machinePathNonce n \<noteq> 0
        then (case machine_path_hash F (ext_value (n_extensionID n)) (n_chainID n) (n_machinePathNonce n) (n_machinePaths n) of
                Inl _ \<Rightarrow> 0 | Inr h \<Rightarrow> h)
        else 0) in
      \<lparr>in_TeeID = n_teeID n, in_PublicKey = PubKeyToStruct (sk_Pub (n_privateKey n)), in_State = n_state n,
       in_InitialOwner = n_initialOwner n, in_ExtensionID = ext_value (n_extensionID n), in_ChainID = n_chainID n,
       in_Governance = \<lparr>gr_Signers = gov_signers (n_governance n), gr_Threshold = gov_threshold (n_governance n),
         gr_Hash = gov_hash (n_governance n), gr_Safe = gov_safe (n_governance n), gr_TeeManager = gov_teeManager (n_governance n)\<rparr>,
       in_MachinePathListNonce = n_machinePathNonce n,
       in_MachinePathListHash = pathListHash\<rparr>)"

definition Node_Sign :: "'a geth_scheme \<Rightarrow> Node \<Rightarrow> bytes \<Rightarrow> bytes res" where
  "Node_Sign G n msgHash = Sign G msgHash (n_privateKey n)"

definition Node_Decrypt :: "'a geth_scheme \<Rightarrow> Node \<Rightarrow> bytes \<Rightarrow> bytes res" where
  "Node_Decrypt G n cipher = Decrypt G cipher (n_privateKey n)"

definition SetOwner :: "Node \<Rightarrow> address \<Rightarrow> unit res \<times> Node" where
  "SetOwner n owner =
     (if n_initialOwner n \<noteq> 0 then (Inl (Err ''initial owner already set''), n)
      else if owner = 0 then (Inl (Err ''initial owner cannot be zero address''), n)
      else (Inr (), n\<lparr>n_initialOwner := owner\<rparr>))"

definition SetChainID :: "Node \<Rightarrow> uint64 \<Rightarrow> unit res \<times> Node" where
  "SetChainID n chainID =
     (if n_chainID n \<noteq> 0 then (Inl (Err ''chainID already set''), n)
      else if chainID = 0 then (Inl (Err ''0 is invalid chainID''), n)
      else (Inr (), n\<lparr>n_chainID := chainID\<rparr>))"

definition Node_ChainID :: "Node \<Rightarrow> uint64 res" where
  "Node_ChainID n = (if n_chainID n = 0 then Inl (Err ''chainID not set'') else Inr (n_chainID n))"

definition SetExtensionID :: "Node \<Rightarrow> hash \<Rightarrow> unit res \<times> Node" where
  "SetExtensionID n i =
     (if ext_set (n_extensionID n) then (Inl (Err ''extension ID already set''), n)
      else (Inr (), n\<lparr>n_extensionID := \<lparr>ext_set = True, ext_value = i\<rparr>\<rparr>))"

text \<open>The index of the first zero signer, if any.\<close>

fun zero_signer :: "nat \<Rightarrow> address list \<Rightarrow> nat option" where
  "zero_signer i [] = None"
| "zero_signer i (s # ss) = (if s = 0 then Some i else zero_signer (Suc i) ss)"

definition setGovernanceLocked ::
  "'a flare_scheme \<Rightarrow> Node \<Rightarrow> address list \<Rightarrow> uint64 \<Rightarrow> address \<Rightarrow> address \<Rightarrow> unit res \<times> Node" where
  "setGovernanceLocked F n signers threshold safe teeManager =
     stry n (ensure (\<not> gov_set (n_governance n)) (Err ''governance already set'')) (\<lambda>_.
     stry n (ensure (threshold \<noteq> 0) (Err ''governance threshold must be at least 1'')) (\<lambda>_.
     stry n (ensure (\<not> (word_of_nat (length signers) :: uint64) < threshold)
       (Errf ''governance threshold %d exceeds signer count %d'' [uint threshold, int (length signers)])) (\<lambda>_.
     stry n (case zero_signer 0 signers of None \<Rightarrow> Inr ()
         | Some i \<Rightarrow> Inl (Errf ''governance signer at index %d is the zero address'' [int i])) (\<lambda>_.
     stry n (ensure ((safe = 0) = (teeManager = 0))
       (Err ''governance safe and tee manager addresses must be set together'')) (\<lambda>_.
     stry n (rwrap ''compute governance hash'' (if safe \<noteq> 0 then GovernanceHashSafe F teeManager safe signers threshold
         else GovernanceHash F signers threshold)) (\<lambda>h.
     (Inr (), n\<lparr>n_governance := \<lparr>gov_set = True, gov_signers = signers, gov_threshold = threshold, gov_hash = h,
        gov_safe = safe, gov_teeManager = teeManager\<rparr>\<rparr>)))))))"

definition SetGovernance ::
  "'a flare_scheme \<Rightarrow> Node \<Rightarrow> address list \<Rightarrow> uint64 \<Rightarrow> address \<Rightarrow> address \<Rightarrow> unit res \<times> Node" where
  "SetGovernance F n signers threshold safe teeManager = setGovernanceLocked F n signers threshold safe teeManager"

definition Governance :: "Node \<Rightarrow> address list \<times> uint64 \<times> bool" where
  "Governance n = (gov_signers (n_governance n), gov_threshold (n_governance n), gov_set (n_governance n))"

definition GovernanceSafe :: "Node \<Rightarrow> address \<times> address" where
  "GovernanceSafe n = (gov_safe (n_governance n), gov_teeManager (n_governance n))"

definition SetMachinePathList :: "Node \<Rightarrow> MachinePath list \<Rightarrow> uint64 \<Rightarrow> unit res \<times> Node" where
  "SetMachinePathList n paths nonce =
     (if nonce \<le> n_machinePathNonce n
      then (Inl (Errf ''machine-path-list nonce %d not higher than current %d'' [uint nonce, uint (n_machinePathNonce n)]), n)
      else (Inr (), n\<lparr>n_machinePaths := paths, n_machinePathNonce := nonce\<rparr>))"

definition MachinePaths :: "Node \<Rightarrow> MachinePath list \<times> uint64" where
  "MachinePaths n = (n_machinePaths n, n_machinePathNonce n)"

section \<open>Configuration from the environment\<close>

text \<open>\<open>bytesFromEnv\<close>: \<open>None\<close> when the variable is not set.\<close>

definition bytesFromEnv :: "(string \<Rightarrow> string option) \<Rightarrow> string \<Rightarrow> bytes res option" where
  "bytesFromEnv getenv varName = (case getenv varName of
     None \<Rightarrow> None
   | Some v \<Rightarrow> Some (rwrap ''invalid hex in environment variable'' (hex_DecodeString (CutPrefix (CutPrefix v ''0x'') ''0X''))))"

definition initialOwnerFromEnv :: "(string \<Rightarrow> string option) \<Rightarrow> Node \<Rightarrow> unit res \<times> Node" where
  "initialOwnerFromEnv getenv n = (case bytesFromEnv getenv ''INITIAL_OWNER'' of
     None \<Rightarrow> (Inr (), n)
   | Some r \<Rightarrow> stry n (rwrap ''invalid owner address'' r) (\<lambda>ownerB.
       stry n (ensure (length ownerB = 20) (Errf ''invalid owner address: wrong length %d'' [int (length ownerB)])) (\<lambda>_.
       (Inr (), n\<lparr>n_initialOwner := word_of_nat (nat_of_bytes ownerB)\<rparr>))))"

definition chainIDFromEnv :: "(string \<Rightarrow> string option) \<Rightarrow> Node \<Rightarrow> unit res \<times> Node" where
  "chainIDFromEnv getenv n =
     stry n (ensure (n_chainID n = 0) (Err ''chainID already set'')) (\<lambda>_.
     case getenv ''CHAIN_ID'' of
       None \<Rightarrow> (Inr (), n)
     | Some valueStr \<Rightarrow> stry n (rwrap ''parsing CHAIN_ID'' (ParseUint0 (TrimSpace valueStr))) (\<lambda>v.
         stry n (ensure (v \<noteq> 0) (Err ''0 is invalid chainID'')) (\<lambda>_.
         (Inr (), n\<lparr>n_chainID := v\<rparr>))))"

definition extensionIDFromEnv :: "(string \<Rightarrow> string option) \<Rightarrow> Node \<Rightarrow> unit res \<times> Node" where
  "extensionIDFromEnv getenv n =
     stry n (ensure (\<not> ext_set (n_extensionID n)) (Err ''extension ID already set'')) (\<lambda>_.
     case bytesFromEnv getenv ''EXTENSION_ID'' of
       None \<Rightarrow> (Inr (), n)
     | Some r \<Rightarrow> stry n (rwrap ''invalid extension ID'' r) (\<lambda>extIDB.
         stry n (ensure (length extIDB = 32) (Errf ''invalid extension ID: wrong length %d'' [int (length extIDB)])) (\<lambda>_.
         (Inr (), n\<lparr>n_extensionID := \<lparr>ext_set = True, ext_value = BytesToHash extIDB\<rparr>\<rparr>))))"

definition parseAddress :: "'a geth_scheme \<Rightarrow> string \<Rightarrow> address res" where
  "parseAddress G s0 =
     (let s = TrimSpace s0 in
      rbind (ensure (IsHexAddress G s) (Err ''not a valid address'')) (\<lambda>_.
      rbind (ensure (HexToAddress G s \<noteq> 0) (Err ''address is the zero address'')) (\<lambda>_.
      Inr (HexToAddress G s))))"

fun parse_signers :: "'a geth_scheme \<Rightarrow> nat \<Rightarrow> string list \<Rightarrow> address list res" where
  "parse_signers G i [] = Inr []"
| "parse_signers G i (p0 # ps) =
     (let p = TrimSpace p0 in
      rbind (ensure (p \<noteq> []) (Errf ''empty signer at index %d'' [int i])) (\<lambda>_.
      rbind (ensure (IsHexAddress G p) (Errf ''signer at index %d is not a valid address'' [int i])) (\<lambda>_.
      rbind (parse_signers G (Suc i) ps) (\<lambda>out. Inr (HexToAddress G p # out)))))"

definition parseSignersList :: "'a geth_scheme \<Rightarrow> string \<Rightarrow> address list res" where
  "parseSignersList G s = parse_signers G 0 (Split CHR '','' s)"

text \<open>The two optional addresses of a Safe-backed governance; both are zero when neither is set.\<close>

definition safe_from_env :: "'a geth_scheme \<Rightarrow> (string \<Rightarrow> string option) \<Rightarrow> (address \<times> address) res" where
  "safe_from_env G getenv = (case (getenv ''GOVERNANCE_SAFE'', getenv ''GOVERNANCE_TEE_MANAGER'') of
     (None, None) \<Rightarrow> Inr (0, 0)
   | (Some safeStr, Some teeManagerStr) \<Rightarrow>
       rbind (rwrap ''invalid GOVERNANCE_SAFE'' (parseAddress G safeStr)) (\<lambda>safe.
       rbind (rwrap ''invalid GOVERNANCE_TEE_MANAGER'' (parseAddress G teeManagerStr)) (\<lambda>teeManager.
       Inr (safe, teeManager)))
   | _ \<Rightarrow> Inl (Err ''governance: both GOVERNANCE_SAFE and GOVERNANCE_TEE_MANAGER must be set together''))"

definition governanceFromEnv :: "'a flare_scheme \<Rightarrow> (string \<Rightarrow> string option) \<Rightarrow> Node \<Rightarrow> unit res \<times> Node" where
  "governanceFromEnv F getenv n =
     stry n (ensure (\<not> gov_set (n_governance n)) (Err ''governance already set'')) (\<lambda>_.
     case (getenv ''GOVERNANCE_SIGNERS'', getenv ''GOVERNANCE_THRESHOLD'') of
       (None, None) \<Rightarrow> (Inr (), n)
     | (Some signersStr, Some thresholdStr) \<Rightarrow>
         stry n (rwrap ''invalid GOVERNANCE_SIGNERS'' (parseSignersList F signersStr)) (\<lambda>signers.
         stry n (rwrap ''invalid GOVERNANCE_THRESHOLD'' (ParseUint10 (TrimSpace thresholdStr))) (\<lambda>threshold.
         stry n (safe_from_env F getenv) (\<lambda>(safe, teeManager).
         setGovernanceLocked F n signers threshold safe teeManager)))
     | _ \<Rightarrow> (Inl (Err ''governance: both GOVERNANCE_SIGNERS and GOVERNANCE_THRESHOLD must be set together''), n))"

text \<open>\<open>crypto.GenerateKey\<close> draws the key; its outcome is the argument \<open>drawn\<close>.\<close>

definition fresh_node :: "'a geth_scheme \<Rightarrow> ecdsa_priv \<Rightarrow> State \<Rightarrow> Node" where
  "fresh_node G privKey state = \<lparr>n_teeID = PubkeyToAddress G (sk_Pub privKey), n_privateKey = privKey, n_state = state,
     n_initialOwner = 0, n_extensionID = \<lparr>ext_set = False, ext_value = DefaultExtensionID\<rparr>, n_chainID = 0,
     n_governance = \<lparr>gov_set = False, gov_signers = [], gov_threshold = 0, gov_hash = DefaultGovernanceHash,
       gov_safe = 0, gov_teeManager = 0\<rparr>,
     n_machinePaths = [], n_machinePathNonce = 0\<rparr>"

definition Initialize ::
  "'a flare_scheme \<Rightarrow> (string \<Rightarrow> string option) \<Rightarrow> ecdsa_priv res \<Rightarrow> State \<Rightarrow> Node res" where
  "Initialize F getenv drawn state =
     rbind drawn (\<lambda>privKey.
     let n0 = fresh_node F privKey state;
         (r1, n1) = initialOwnerFromEnv getenv n0 in
     rbind r1 (\<lambda>_. let (r2, n2) = extensionIDFromEnv getenv n1 in
     rbind r2 (\<lambda>_. let (r3, n3) = chainIDFromEnv getenv n2 in
     rbind r3 (\<lambda>_. let (r4, n4) = governanceFromEnv F getenv n3 in
     rbind r4 (\<lambda>_. Inr n4)))))"

section \<open>Well-formed nodes\<close>

text \<open>
  The configuration invariant: the identity is the address of the key; a configured
  governance has a reachable threshold over non-zero signers, is Safe-backed with both
  addresses or with neither, and carries the hash of its flavour; an unconfigured one is
  empty.
\<close>

definition governance_ok :: "'a flare_scheme \<Rightarrow> governance \<Rightarrow> bool" where
  "governance_ok F g \<longleftrightarrow>
     (if gov_set g then 1 \<le> unat (gov_threshold g) \<and> unat (gov_threshold g) \<le> length (gov_signers g)
        \<and> 0 \<notin> set (gov_signers g) \<and> (gov_safe g = 0) = (gov_teeManager g = 0)
        \<and> Inr (gov_hash g) = (if gov_safe g \<noteq> 0
             then GovernanceHashSafe F (gov_teeManager g) (gov_safe g) (gov_signers g) (gov_threshold g)
             else GovernanceHash F (gov_signers g) (gov_threshold g))
      else gov_signers g = [] \<and> gov_threshold g = 0 \<and> gov_hash g = DefaultGovernanceHash
        \<and> gov_safe g = 0 \<and> gov_teeManager g = 0)"

definition node_inv :: "'a flare_scheme \<Rightarrow> Node \<Rightarrow> bool" where
  "node_inv F n \<longleftrightarrow> n_teeID n = PubkeyToAddress F (sk_Pub (n_privateKey n))
     \<and> governance_ok F (n_governance n)
     \<and> (ext_set (n_extensionID n) \<or> ext_value (n_extensionID n) = DefaultExtensionID)
     \<and> (n_machinePathNonce n = 0 \<longrightarrow> n_machinePaths n = [])"

lemma zero_signer_None: "zero_signer i ss = None \<longleftrightarrow> 0 \<notin> set ss"
  by (induction ss arbitrary: i) auto

lemma of_nat_not_less: "\<not> (word_of_nat k :: uint64) < t \<Longrightarrow> unat t \<le> k"
proof -
  assume "\<not> (word_of_nat k :: uint64) < t"
  then have "unat t \<le> unat (word_of_nat k :: uint64)" by (simp add: word_less_nat_alt)
  also have "\<dots> \<le> k" by (simp add: unat_of_nat)
  finally show ?thesis .
qed

lemma setGovernanceLocked_cases:
  obtains (error) e where "setGovernanceLocked F n signers t safe mgr = (Inl e, n)"
  | (ok) g where "setGovernanceLocked F n signers t safe mgr = (Inr (), n\<lparr>n_governance := g\<rparr>)"
      "\<not> gov_set (n_governance n)" "gov_set g" "gov_signers g = signers" "gov_threshold g = t" "governance_ok F g"
proof (cases "setGovernanceLocked F n signers t safe mgr")
  case (Pair r n')
  show ?thesis
  proof (cases r)
    case (Inl e)
    then have "n' = n" using Pair by (auto simp: setGovernanceLocked_def stry_def split: sum.splits)
    then show ?thesis using Pair Inl error by simp
  next
    case (Inr u)
    then obtain h where h: "\<not> gov_set (n_governance n)" "t \<noteq> 0" "unat t \<le> length signers" "0 \<notin> set signers"
        "(safe = 0) = (mgr = 0)"
        "(if safe \<noteq> 0 then GovernanceHashSafe F mgr safe signers t else GovernanceHash F signers t) = Inr h"
        "n' = n\<lparr>n_governance := \<lparr>gov_set = True, gov_signers = signers, gov_threshold = t, gov_hash = h,
          gov_safe = safe, gov_teeManager = mgr\<rparr>\<rparr>"
      using Pair
      by (auto simp: setGovernanceLocked_def res_simps zero_signer_None of_nat_not_less split: option.splits)
    have "1 \<le> unat t" using h(2) by (simp add: Suc_le_eq unat_gt_0)
    then show ?thesis
      using Pair Inr h ok [of "\<lparr>gov_set = True, gov_signers = signers, gov_threshold = t, gov_hash = h,
        gov_safe = safe, gov_teeManager = mgr\<rparr>"]
      by (auto simp: governance_ok_def split: if_splits)
  qed
qed

section \<open>The configuration is written once\<close>

text \<open>One step of a running node: a call of one of its setters, whatever its outcome.\<close>

inductive node_step :: "'a flare_scheme \<Rightarrow> Node \<Rightarrow> Node \<Rightarrow> bool" for F where
  step_owner: "node_step F n (snd (SetOwner n owner))"
| step_chain: "node_step F n (snd (SetChainID n c))"
| step_extension: "node_step F n (snd (SetExtensionID n x))"
| step_governance: "node_step F n (snd (SetGovernance F n signers t safe mgr))"
| step_paths: "node_step F n (snd (SetMachinePathList n paths nonce))"

inductive_cases node_stepE: "node_step F n n'"

text \<open>A cell of the state that, once set, no step changes.\<close>

locale one_shot =
  fixes step :: "'s \<Rightarrow> 's \<Rightarrow> bool"
    and is_set :: "'s \<Rightarrow> bool"
    and cell :: "'s \<Rightarrow> 'v"
  assumes step_keeps: "step s s' \<Longrightarrow> is_set s \<Longrightarrow> is_set s' \<and> cell s' = cell s"
begin

lemma reachable_keeps: "step\<^sup>*\<^sup>* s s' \<Longrightarrow> is_set s \<Longrightarrow> is_set s' \<and> cell s' = cell s"
  by (induction rule: rtranclp_induct) (auto dest: step_keeps)

end

lemma node_step_cases:
  assumes "node_step F n n'"
  obtains (same) "n' = n"
  | (owner) a where "n' = n\<lparr>n_initialOwner := a\<rparr>" "n_initialOwner n = 0" "a \<noteq> 0"
  | (chain) c where "n' = n\<lparr>n_chainID := c\<rparr>" "n_chainID n = 0" "c \<noteq> 0"
  | (extension) x where "n' = n\<lparr>n_extensionID := \<lparr>ext_set = True, ext_value = x\<rparr>\<rparr>" "\<not> ext_set (n_extensionID n)"
  | (governance) g where "n' = n\<lparr>n_governance := g\<rparr>" "\<not> gov_set (n_governance n)" "gov_set g" "governance_ok F g"
  | (paths) ps k where "n' = n\<lparr>n_machinePaths := ps, n_machinePathNonce := k\<rparr>" "n_machinePathNonce n < k"
  using assms
proof (cases rule: node_step.cases)
  case (step_owner a)
  then show ?thesis using same owner by (auto simp: SetOwner_def split: if_splits)
next
  case (step_chain c)
  then show ?thesis using same chain by (auto simp: SetChainID_def split: if_splits)
next
  case (step_extension x)
  then show ?thesis using same extension by (auto simp: SetExtensionID_def split: if_splits)
next
  case (step_governance signers t safe mgr)
  then show ?thesis
    using same governance by (cases rule: setGovernanceLocked_cases [of F n signers t safe mgr]) (auto simp: SetGovernance_def)
next
  case (step_paths ps k)
  then show ?thesis using same paths by (auto simp: SetMachinePathList_def split: if_splits)
qed

interpretation owner: one_shot "node_step F" "\<lambda>n. n_initialOwner n \<noteq> 0" n_initialOwner for F
  by unfold_locales (auto elim: node_step_cases)

interpretation chain: one_shot "node_step F" "\<lambda>n. n_chainID n \<noteq> 0" n_chainID for F
  by unfold_locales (auto elim: node_step_cases)

interpretation extension: one_shot "node_step F" "\<lambda>n. ext_set (n_extensionID n)" n_extensionID for F
  by unfold_locales (auto elim: node_step_cases)

interpretation gov: one_shot "node_step F" "\<lambda>n. gov_set (n_governance n)" n_governance for F
  by unfold_locales (auto elim: node_step_cases)

interpretation identity: one_shot "node_step F" "\<lambda>n. True" "\<lambda>n. (n_teeID n, n_privateKey n, n_state n)" for F
  by unfold_locales (auto elim: node_step_cases)

lemma node_step_inv:
  assumes "node_step F n n'" and "node_inv F n"
  shows "node_inv F n'"
  using assms(1)
proof (cases rule: node_step_cases)
  case (paths ps k)
  then have "k \<noteq> 0" by auto
  with paths assms(2) show ?thesis by (simp add: node_inv_def)
qed (use assms(2) in \<open>auto simp: node_inv_def\<close>)

text \<open>The nonce of the machine-path list never decreases, and grows whenever the list changes.\<close>

lemma node_step_nonce:
  assumes "node_step F n n'"
  shows "n_machinePathNonce n \<le> n_machinePathNonce n'
    \<and> (n_machinePaths n' \<noteq> n_machinePaths n \<longrightarrow> n_machinePathNonce n < n_machinePathNonce n')"
  using assms by (cases rule: node_step_cases) auto

text \<open>
  A counter that replay protection rests on: a partial level per key that, in the states of an
  invariant, no step forgets or lowers.
\<close>

locale ratchet =
  fixes step :: "'s \<Rightarrow> 's \<Rightarrow> bool"
    and inv :: "'s \<Rightarrow> bool"
    and level :: "'s \<Rightarrow> 'k \<Rightarrow> uint64 option"
  assumes step_inv: "step s s' \<Longrightarrow> inv s \<Longrightarrow> inv s'"
    and step_level: "step s s' \<Longrightarrow> inv s \<Longrightarrow> level s k = Some n \<Longrightarrow> \<exists>m \<ge> n. level s' k = Some m"
begin

lemma reachable_inv: "step\<^sup>*\<^sup>* s s' \<Longrightarrow> inv s \<Longrightarrow> inv s'"
  by (induction rule: rtranclp_induct) (auto dest: step_inv)

lemma reachable_level:
  assumes "step\<^sup>*\<^sup>* s s'" and "inv s" and "level s k = Some n"
  shows "\<exists>m \<ge> n. level s' k = Some m"
  using assms
proof (induction rule: rtranclp_induct)
  case (step y z)
  then obtain m where "n \<le> m" "level y k = Some m" by auto
  moreover have "inv y" using reachable_inv step by blast
  ultimately obtain m' where "m \<le> m'" "level z k = Some m'" using step_level step.hyps(2) by blast
  then show ?case using \<open>n \<le> m\<close> by (meson order_trans)
qed auto

text \<open>A value at or below the level of a state is refused forever by a strict comparison.\<close>

lemma reachable_refused:
  assumes "step\<^sup>*\<^sup>* s s'" and "inv s" and "level s k = Some n" and "x \<le> n"
  shows "\<not> (\<exists>m. level s' k = Some m \<and> m < x)"
  using reachable_level [OF assms(1-3)] assms(4) by fastforce

end

interpretation paths: ratchet "node_step F" "node_inv F" "\<lambda>n (_ :: unit). Some (n_machinePathNonce n)" for F
proof (unfold_locales, goal_cases)
  case (1 n n')
  then show ?case by (rule node_step_inv)
next
  case (2 n n' k m)
  then show ?case using node_step_nonce by auto
qed

section \<open>Initialisation\<close>

lemma fresh_node_inv: "node_inv F (fresh_node F k st)"
  by (simp add: node_inv_def fresh_node_def governance_ok_def)

lemma initialOwnerFromEnv_frame:
  "initialOwnerFromEnv getenv n = (r, n') \<Longrightarrow> \<exists>a. n' = n\<lparr>n_initialOwner := a\<rparr>"
  by (auto simp: initialOwnerFromEnv_def stry_def split: option.splits sum.splits)
    (rule exI [of _ "n_initialOwner n"], simp)+

lemma chainIDFromEnv_frame: "chainIDFromEnv getenv n = (r, n') \<Longrightarrow> \<exists>c. n' = n\<lparr>n_chainID := c\<rparr>"
  by (auto simp: chainIDFromEnv_def stry_def split: option.splits sum.splits)
    (rule exI [of _ "n_chainID n"], simp)+

lemma extensionIDFromEnv_frame:
  "extensionIDFromEnv getenv n = (r, n') \<Longrightarrow> n' = n \<or> (\<exists>x. n' = n\<lparr>n_extensionID := \<lparr>ext_set = True, ext_value = x\<rparr>\<rparr>)"
  by (auto simp: extensionIDFromEnv_def stry_def split: option.splits sum.splits)

lemma governanceFromEnv_frame:
  assumes "governanceFromEnv F getenv n = (r, n')"
  shows "n' = n \<or> (\<exists>g. n' = n\<lparr>n_governance := g\<rparr> \<and> gov_set g \<and> governance_ok F g)"
proof -
  have "snd (setGovernanceLocked F n signers t safe mgr) = n
      \<or> (\<exists>g. snd (setGovernanceLocked F n signers t safe mgr) = n\<lparr>n_governance := g\<rparr> \<and> gov_set g \<and> governance_ok F g)"
    for signers t safe mgr
    by (cases rule: setGovernanceLocked_cases [of F n signers t safe mgr]) auto
  moreover have "n' = n \<or> (\<exists>signers t safe mgr. n' = snd (setGovernanceLocked F n signers t safe mgr))"
    using assms unfolding governanceFromEnv_def stry_def
    by (auto split: option.splits sum.splits prod.splits) (metis snd_conv)+
  ultimately show ?thesis by metis
qed

text \<open>A node that starts is well-formed, and no list of machine paths is set yet.\<close>

lemma Initialize_inv:
  assumes "Initialize F getenv drawn st = Inr n"
  shows "node_inv F n \<and> n_machinePathNonce n = 0 \<and> n_state n = st"
proof -
  obtain k where n: "n = snd (governanceFromEnv F getenv (snd (chainIDFromEnv getenv
      (snd (extensionIDFromEnv getenv (snd (initialOwnerFromEnv getenv (fresh_node F k st))))))))"
    using assms by (auto simp: Initialize_def res_simps Let_def case_prod_beta)
  define n1 where "n1 = snd (initialOwnerFromEnv getenv (fresh_node F k st))"
  define n2 where "n2 = snd (extensionIDFromEnv getenv n1)"
  define n3 where "n3 = snd (chainIDFromEnv getenv n2)"
  note frames = initialOwnerFromEnv_frame [OF surjective_pairing, of getenv "fresh_node F k st", folded n1_def]
    extensionIDFromEnv_frame [OF surjective_pairing, of getenv n1, folded n2_def]
    chainIDFromEnv_frame [OF surjective_pairing, of getenv n2, folded n3_def]
    governanceFromEnv_frame [OF surjective_pairing, of F getenv n3, folded n [folded n1_def n2_def n3_def, folded n2_def n3_def, folded n3_def]]
  show ?thesis
    using frames fresh_node_inv [of F k st]
    by (auto simp: node_inv_def fresh_node_def)
qed

end
