(* ===== verification/Instructions.thy ===== *)
theory Instructions
  imports Processor_Utils Node
begin

text \<open>
  The instruction pipeline: \<^verbatim>\<open>src/internal/processors/instructions/instructions.go\<close>, \<^verbatim>\<open>utils.go\<close>
  and \<^verbatim>\<open>default.go\<close> beside it, and \<open>PostActionToExtension\<close> of
  \<^verbatim>\<open>src/internal/extension/extension.go\<close>. An instruction is executed only after \<open>preprocess\<close>
  has bound it to this node, to a recent signing policy and to a sufficient set of
  distinct signers.
\<close>

section \<open>Definitions\<close>

definition checkInstructionData :: "'a flare_scheme \<Rightarrow> DataFixed \<Rightarrow> unit res" where
  "checkInstructionData F d = ensure (IsValidPair F (df_OPType d) (df_OPCommand d)) (Err ''invalid OPType, OPCommand pair'')"

fun increasing :: "uint64 list \<Rightarrow> bool" where
  "increasing (a # b # ts) = (if a > b then False else increasing (b # ts))"
| "increasing _ = True"

fun vote_hash_loop ::
  "'a flare_scheme \<Rightarrow> hash \<Rightarrow> nat \<Rightarrow> bytes list \<Rightarrow> bytes list \<Rightarrow> uint64 list \<Rightarrow> hash res" where
  "vote_hash_loop F h i (sig # sigs) (m # ms) (t # ts) =
     rbind (NextVoteHash F h (word_of_nat i) sig m t) (\<lambda>h'. vote_hash_loop F h' (Suc i) sigs ms ts)"
| "vote_hash_loop F h i _ _ _ = Inr h"

definition voteHash ::
  "'a flare_scheme \<Rightarrow> DataFixed \<Rightarrow> bytes list \<Rightarrow> bytes list \<Rightarrow> address list \<Rightarrow> uint64 list \<Rightarrow> hash res" where
  "voteHash F d signatures variableMessages signers timestamps =
     rbind (ensure (length signatures = length timestamps) (Err ''number of signatures and timestamps do not match'')) (\<lambda>_.
     rbind (ensure (length signers = length timestamps) (Err ''number of signers and timestamps do not match'')) (\<lambda>_.
     rbind (ensure (length variableMessages = length timestamps)
       (Err ''number of variableMessages and timestamps do not match'')) (\<lambda>_.
     rbind (ensure (increasing timestamps) (Err ''timestamps are not increasing'')) (\<lambda>_.
     rbind (data_InitialVoteHash F d) (\<lambda>h.
     vote_hash_loop F h 0 signatures variableMessages timestamps)))))"

definition checkPolicyValidity :: "uint32 \<Rightarrow> uint32 \<Rightarrow> unit res" where
  "checkPolicyValidity policyID activePolicyID =
     ensure (\<not> (activePolicyID > 0 \<and> policyID < activePolicyID - 1)) (Err ''signing policy too old'')"

definition validateInstructionData ::
  "'a flare_scheme \<Rightarrow> DataFixed \<Rightarrow> bytes list \<Rightarrow> address \<Rightarrow> hash \<Rightarrow> unit res" where
  "validateInstructionData F d additionalVariableMessages expectedTeeID actionID =
     rbind (ensure (df_TeeID d = expectedTeeID) (Err ''unexpected tee ID'')) (\<lambda>_.
     rbind (ensure (df_InstructionID d = actionID) (Err ''action ID and instruction ID do not match'')) (\<lambda>_.
     rbind (checkInstructionData F d) (\<lambda>_.
     rbind (CheckSize F d) (\<lambda>_.
     CheckSizeVariableMessages F (df_OPCommand d) additionalVariableMessages))))"

text \<open>The loop of \<open>signaturesToSigners\<close>; \<open>seen\<close> is the key set of \<open>signersCheck\<close>.\<close>

fun signers_loop ::
  "'a flare_scheme \<Rightarrow> DataFixed \<Rightarrow> uint64 \<Rightarrow> address list \<Rightarrow> bytes list \<Rightarrow> bytes list \<Rightarrow> address list res" where
  "signers_loop F d chainID seen (m # ms) (signature # sigs) =
     rbind (data_HashForSigning F d m chainID) (\<lambda>h.
     rbind (SignatureToSignersAddress F (hash_bytes h) signature) (\<lambda>signer.
     if signer \<in> set seen then Inl (Err ''double signing'')
     else rbind (signers_loop F d chainID (signer # seen) ms sigs) (\<lambda>signers. Inr (signer # signers))))"
| "signers_loop F d chainID seen _ _ = Inr []"

definition signaturesToSigners ::
  "'a flare_scheme \<Rightarrow> DataFixed \<Rightarrow> uint64 \<Rightarrow> bytes list \<Rightarrow> bytes list \<Rightarrow> address list res" where
  "signaturesToSigners F d chainID variableMessages signatures =
     rbind (ensure (length variableMessages = length signatures)
       (Err ''the number of variable messages does not match the number of signatures'')) (\<lambda>_.
     signers_loop F d chainID [] variableMessages signatures)"

definition preprocess ::
  "'a flare_scheme \<Rightarrow> Action \<Rightarrow> DataFixed \<Rightarrow> PolicyStorage \<Rightarrow> address \<Rightarrow> uint64 \<Rightarrow> (address list \<times> SigningPolicy) res" where
  "preprocess F a d pStorage teeID chainID =
     rbind (SigningPolicyOf pStorage (df_RewardEpochID d)) (\<lambda>signingPolicy.
     rbind (ActiveSigningPolicy pStorage) (\<lambda>activePolicy.
     rbind (checkPolicyValidity (sp_RewardEpochID signingPolicy) (sp_RewardEpochID activePolicy)) (\<lambda>_.
     rbind (validateInstructionData F d (ac_AdditionalVariableMessages a) teeID (ad_ID (ac_Data a))) (\<lambda>_.
     rbind (signaturesToSigners F d chainID (ac_AdditionalVariableMessages a) (ac_Signatures a)) (\<lambda>signers.
     rbind (CheckThresholds F d signers signingPolicy) (\<lambda>_.
     Inr (signers, signingPolicy)))))))"

definition rewardingData ::
  "'a processor_env_scheme \<Rightarrow> DataFixed \<Rightarrow> bytes list \<Rightarrow> bytes list \<Rightarrow> address list \<Rightarrow> uint64 list \<Rightarrow> bytes \<Rightarrow> Node \<Rightarrow> bytes res" where
  "rewardingData P d signatures variableMessages signers timestamps status n =
     rbind (data_HashFixed P d) (\<lambda>iHash.
     rbind (voteHash P d signatures variableMessages signers timestamps) (\<lambda>vh.
     rbind (Node_ChainID n) (\<lambda>chainID.
     rbind (payload_Hash P TEEVoteHash chainID vh) (\<lambda>voteSignHash.
     rbind (rerr (Err ''could not sign vote hash'') (Node_Sign P n (hash_bytes voteSignHash))) (\<lambda>signature.
     json_RewardingData P
       \<lparr>rd_VoteSequence = \<lparr>vq_VoteHash = vh, vq_InstructionID = df_InstructionID d, vq_InstructionHash = iHash,
          vq_RewardEpochID = df_RewardEpochID d, vq_TeeID = df_TeeID d, vq_Signatures = signatures,
          vq_AdditionalVariableMessageHashes = map (Keccak256Hash P) variableMessages, vq_Timestamps = timestamps\<rparr>,
        rd_AdditionalData = status, rd_Version = EncodingVersion, rd_Signature = signature\<rparr>)))))"

text \<open>
  A \<open>ProcessorFunction\<close> works on a state \<open>'s\<close> (the wallet storage, for the wallet
  instructions) and gives the message and the additional status.
\<close>

type_synonym 's handler =
  "string \<Rightarrow> DataFixed \<Rightarrow> bytes list \<Rightarrow> address list \<Rightarrow> SigningPolicy \<Rightarrow> 's \<Rightarrow> (bytes \<times> bytes) res \<times> 's"

definition finish_instruction ::
  "'a processor_env_scheme \<Rightarrow> Node \<Rightarrow> bool \<Rightarrow> Action \<Rightarrow> DataFixed \<Rightarrow> address list \<Rightarrow> bytes \<Rightarrow> bytes \<Rightarrow> ActionResult" where
  "finish_instruction P n immediateResult a d signers pMessage additionalStatus =
     (let tag = ad_SubmissionTag (ac_Data a);
          result = (\<lambda>status message. \<lparr>ar_ID = ad_ID (ac_Data a), ar_SubmissionTag = tag, ar_Status = status, ar_Log = None,
            ar_OPType = df_OPType d, ar_OPCommand = df_OPCommand d, ar_AdditionalResultStatus = additionalStatus,
            ar_Version = EncodingVersion, ar_Data = message\<rparr>) in
      if tag = Threshold then result (if immediateResult then 1 else 2) pMessage
      else if tag = End then
        (case rewardingData P d (ac_Signatures a) (ac_AdditionalVariableMessages a) signers (ac_Timestamps a) additionalStatus n of
           Inl e \<Rightarrow> Invalid P a e
         | Inr msg \<Rightarrow> result 1 msg)
      else Invalid P a (Err ''invalid submissionTag''))"

definition Process ::
  "'a processor_env_scheme \<Rightarrow> 's handler \<Rightarrow> Node \<Rightarrow> PolicyStorage \<Rightarrow> bool \<Rightarrow> Action \<Rightarrow> 's \<Rightarrow> ActionResult \<times> 's" where
  "Process P f n pStorage immediateResult a s =
     (case rbind (Parse_DataFixed P (ad_Message (ac_Data a))) (\<lambda>d.
           rbind (Node_ChainID n) (\<lambda>chainID.
           rbind (preprocess P a d pStorage (n_teeID n) chainID) (\<lambda>(signers, signingPolicy). Inr (d, signers, signingPolicy)))) of
        Inl e \<Rightarrow> (Invalid P a e, s)
      | Inr (d, signers, signingPolicy) \<Rightarrow>
          (case f (ad_SubmissionTag (ac_Data a)) d (ac_AdditionalVariableMessages a) signers signingPolicy s of
             (Inl e, s') \<Rightarrow> (Invalid P a e, s')
           | (Inr (pMessage, additionalStatus), s') \<Rightarrow>
               (finish_instruction P n immediateResult a d signers pMessage additionalStatus, s')))"

section \<open>Forwarding to an extension\<close>

text \<open>The HTTP client and the two JSON forms it needs; a time-out is told apart from other errors.\<close>

datatype post_error = PostDeadline go_error | PostError go_error

record extension_env =
  ex_json_Action :: "Action \<Rightarrow> bytes res"
  ex_Post :: "string \<Rightarrow> bytes \<Rightarrow> post_error + (int \<times> bytes)"
  ex_unjson_ActionResult :: "bytes \<Rightarrow> ActionResult res"

text \<open>
  The requests that have left the node for the extension, oldest first: the address and the body. They are
  threaded through like a state, so that it can be said what was sent and that nothing was.
\<close>

type_synonym extension_posts = "(string \<times> bytes) list"

definition PostActionToExtension ::
  "extension_env \<Rightarrow> string \<Rightarrow> Action \<Rightarrow> extension_posts \<Rightarrow> (post_error + ActionResult) \<times> extension_posts" where
  "PostActionToExtension X url a sent =
     (case ex_json_Action X a of
        Inl e \<Rightarrow> (Inl (PostError e), sent)
      | Inr requestBody \<Rightarrow>
          (case ex_Post X url requestBody of
             Inl e \<Rightarrow> Inl e
           | Inr (status, body) \<Rightarrow>
               if status \<noteq> 200 then Inl (PostError (Errf ''unexpected status code: %d'' [status]))
               else (case ex_unjson_ActionResult X body of Inl e \<Rightarrow> Inl (PostError e) | Inr r \<Rightarrow> Inr r),
           sent @ [(url, requestBody)]))"

definition extension_url :: "int \<Rightarrow> string" where
  "extension_url port = ''http://localhost:'' @ show_int port @ ''/action''"

text \<open>The call and the error branch that the two default processors share.\<close>

definition forward ::
  "'a processor_env_scheme \<Rightarrow> extension_env \<Rightarrow> int \<Rightarrow> Action \<Rightarrow> extension_posts \<Rightarrow> ActionResult \<times> extension_posts" where
  "forward P X port a sent =
     (case PostActionToExtension X (extension_url port) a sent of
        (Inl (PostDeadline e), sent') \<Rightarrow> (DeadlineExceeded P a e, sent')
      | (Inl (PostError e), sent') \<Rightarrow> (Invalid P a (Wrapped ''extension error'' e), sent')
      | (Inr r, sent') \<Rightarrow> (r, sent'))"

definition instruction_Default_Process ::
  "'a processor_env_scheme \<Rightarrow> extension_env \<Rightarrow> int \<Rightarrow> Node \<Rightarrow> PolicyStorage \<Rightarrow> Action \<Rightarrow> extension_posts
   \<Rightarrow> ActionResult \<times> extension_posts" where
  "instruction_Default_Process P X port n pStorage a sent =
     (case rbind (Parse_DataFixed P (ad_Message (ac_Data a))) (\<lambda>d.
           rbind (CheckForwardable (df_OPType d)) (\<lambda>_.
           rbind (Node_ChainID n) (\<lambda>chainID.
           rbind (preprocess P a d pStorage (n_teeID n) chainID) (\<lambda>(signers, _). Inr (d, signers))))) of
        Inl e \<Rightarrow> (Invalid P a e, sent)
      | Inr (d, signers) \<Rightarrow>
          (let tag = ad_SubmissionTag (ac_Data a) in
           if tag = Threshold then forward P X port a sent
           else if tag = End then
             (case rewardingData P d (ac_Signatures a) (ac_AdditionalVariableMessages a) signers (ac_Timestamps a) [] n of
                Inl e \<Rightarrow> (Invalid P a e, sent)
              | Inr msg \<Rightarrow> (\<lparr>ar_ID = ad_ID (ac_Data a), ar_SubmissionTag = tag, ar_Status = 1, ar_Log = None,
                  ar_OPType = df_OPType d, ar_OPCommand = df_OPCommand d, ar_AdditionalResultStatus = [],
                  ar_Version = EncodingVersion, ar_Data = msg\<rparr>, sent))
           else (Invalid P a (Err ''invalid submissionTag''), sent)))"

text \<open>One call sends at most one request, to the extension's address, with the action in it.\<close>

lemma forward_posts:
  "snd (forward P X port a sent) = sent @ (case ex_json_Action X a of Inl _ \<Rightarrow> [] | Inr body \<Rightarrow> [(extension_url port, body)])"
  by (simp add: forward_def PostActionToExtension_def split: sum.split post_error.split prod.split)

section \<open>Signers\<close>

lemma signers_loop_Inr:
  assumes "signers_loop F d chainID seen ms sigs = Inr signers" and "length ms = length sigs"
  shows "distinct signers \<and> set signers \<inter> set seen = {} \<and> length signers = length sigs
    \<and> (\<forall>i < length sigs. \<exists>h. data_HashForSigning F d (ms ! i) chainID = Inr h
         \<and> SignatureToSignersAddress F (hash_bytes h) (sigs ! i) = Inr (signers ! i))"
  using assms
proof (induction F d chainID seen ms sigs arbitrary: signers rule: signers_loop.induct)
  case (1 F d chainID seen m ms signature sigs)
  from "1.prems"(1) obtain h signer rest where h: "data_HashForSigning F d m chainID = Inr h"
      "SignatureToSignersAddress F (hash_bytes h) signature = Inr signer" "signer \<notin> set seen"
      "signers_loop F d chainID (signer # seen) ms sigs = Inr rest" "signers = signer # rest"
    by (auto simp: res_simps split: if_splits)
  with "1.IH" [OF h(3,4)] "1.prems"(2) show ?case
    by (auto simp: less_Suc_eq_0_disj)
qed auto

lemma signaturesToSigners_Inr:
  assumes "signaturesToSigners F d chainID ms sigs = Inr signers"
  shows "distinct signers" and "length signers = length sigs" and "length ms = length sigs"
    and "i < length sigs \<Longrightarrow> \<exists>h. data_HashForSigning F d (ms ! i) chainID = Inr h
         \<and> SignatureToSignersAddress F (hash_bytes h) (sigs ! i) = Inr (signers ! i)"
  using assms signers_loop_Inr [of F d chainID "[]" ms sigs signers]
  by (auto simp: signaturesToSigners_def res_simps)

section \<open>What a preprocessed instruction satisfies\<close>

lemma checkPolicyValidity_Inr:
  assumes "checkPolicyValidity e active = Inr ()" and "e \<le> active"
  shows "e = active \<or> e + 1 = active"
proof -
  have "unat e \<le> unat active" using assms(2) by (simp add: word_le_nat_alt)
  moreover have "active = 0 \<or> unat active - 1 \<le> unat e"
    using assms(1) unat_minus_one [of active]
    by (cases "active = 0") (auto simp: checkPolicyValidity_def res_simps word_less_nat_alt not_less word_gt_0)
  ultimately consider "unat e = unat active" | "unat active = unat e + 1" "active \<noteq> 0"
    using unat_gt_0 [of active] by fastforce
  then show ?thesis
  proof cases
    case 2
    then have "active = of_nat (unat e + 1)" by (metis of_nat_unat ucast_id)
    then show ?thesis by (simp add: add.commute)
  qed (simp add: word_unat_eq_iff)
qed

lemma preprocess_Inr:
  assumes "preprocess F a d ps teeID chainID = Inr (signers, p)"
  shows "policiesOf ps (df_RewardEpochID d) = Some p"
    and "\<exists>q. ps_active ps = Some q \<and> checkPolicyValidity (sp_RewardEpochID p) (sp_RewardEpochID q) = Inr ()"
    and "df_TeeID d = teeID" and "df_InstructionID d = ad_ID (ac_Data a)"
    and "IsValidPair F (df_OPType d) (df_OPCommand d)"
    and "signaturesToSigners F d chainID (ac_AdditionalVariableMessages a) (ac_Signatures a) = Inr signers"
    and "CheckThresholds F d signers p = Inr ()"
  using assms by (auto simp: preprocess_def validateInstructionData_def checkInstructionData_def res_simps)

text \<open>\<open>Process\<close> runs its handler only on a preprocessed instruction, and leaves the state alone otherwise.\<close>

lemma Process_cases:
  obtains (rejected) e where "Process P f n ps imm a s = (Invalid P a e, s)"
  | (run) d chainID signers p where "Parse_DataFixed P (ad_Message (ac_Data a)) = Inr d" "Node_ChainID n = Inr chainID"
      "preprocess P a d ps (n_teeID n) chainID = Inr (signers, p)"
      "Process P f n ps imm a s =
        (case f (ad_SubmissionTag (ac_Data a)) d (ac_AdditionalVariableMessages a) signers p s of
             (Inl e, s') \<Rightarrow> (Invalid P a e, s')
           | (Inr (pMessage, additionalStatus), s') \<Rightarrow>
               (finish_instruction P n imm a d signers pMessage additionalStatus, s'))"
proof (cases "rbind (Parse_DataFixed P (ad_Message (ac_Data a))) (\<lambda>d.
           rbind (Node_ChainID n) (\<lambda>chainID.
           rbind (preprocess P a d ps (n_teeID n) chainID) (\<lambda>(signers, signingPolicy). Inr (d, signers, signingPolicy))))")
  case (Inl e)
  then show ?thesis using rejected by (simp add: Process_def)
next
  case (Inr r)
  then obtain d chainID signers p where "Parse_DataFixed P (ad_Message (ac_Data a)) = Inr d" "Node_ChainID n = Inr chainID"
      "preprocess P a d ps (n_teeID n) chainID = Inr (signers, p)"
    by (auto simp: res_simps)
  then show ?thesis using run by (simp add: Process_def)
qed

lemma finish_instruction_fields [simp]:
  "ar_ID (finish_instruction P n imm a d signers m st) = ad_ID (ac_Data a)"
  "ar_SubmissionTag (finish_instruction P n imm a d signers m st) = ad_SubmissionTag (ac_Data a)"
  by (simp_all add: finish_instruction_def Let_def split: sum.split)

lemma Process_id_tag:
  "ar_ID (fst (Process P f n ps imm a s)) = ad_ID (ac_Data a)
   \<and> ar_SubmissionTag (fst (Process P f n ps imm a s)) = ad_SubmissionTag (ac_Data a)"
  by (cases rule: Process_cases [of P f n ps imm a s]) (auto split: prod.splits sum.splits)

end
