(* ===== verification/Wallet_Storage.thy ===== *)
theory Wallet_Storage
  imports Wallets
begin

text \<open>
  The wallet storage \<^verbatim>\<open>src/internal/wallets/storage.go\<close>. The two Go maps are association
  lists; a stored wallet and the permanent record of its key share one status through a
  pointer, which is an index into the heap of status cells. The interface that the
  instruction handlers rely on is the locale \<open>wallet_store\<close>, whose laws speak of the abstract
  content (the wallet data and the status of each key); its interpretation at the end
  shows that the storage refines them.
\<close>

section \<open>Definitions\<close>

record stored_wallet = wallet_data +
  StatusRef :: nat

record Storage =
  sto_wallets :: "(KeyIDPair \<times> stored_wallet) list"
  sto_permanent :: "(KeyIDPair \<times> nat) list"
  sto_heap :: "WalletStatus list"

text \<open>\<open>Wallet.Copy\<close> of a stored wallet (the status is read through the pointer) and of a caller's.\<close>

definition Copy_stored :: "WalletStatus list \<Rightarrow> stored_wallet \<Rightarrow> Wallet" where
  "Copy_stored heap w = \<lparr>WalletID = WalletID w, KeyID = KeyID w, PrivateKey = PrivateKey w, KeyType = KeyType w,
     SigningAlgo = SigningAlgo w, Restored = Restored w, AdminPublicKeys = AdminPublicKeys w,
     AdminsThreshold = AdminsThreshold w, Cosigners = Cosigners w, CosignersThreshold = CosignersThreshold w,
     SettingsVersion = SettingsVersion w, Settings = Settings w,
     Status = \<lparr>st_Nonce = st_Nonce (heap ! StatusRef w), st_PausingNonce = st_PausingNonce (heap ! StatusRef w),
       st_StatusCode = st_StatusCode (heap ! StatusRef w)\<rparr>\<rparr>"

definition Copy_at :: "Wallet \<Rightarrow> nat \<Rightarrow> stored_wallet" where
  "Copy_at w ref = \<lparr>WalletID = WalletID w, KeyID = KeyID w, PrivateKey = PrivateKey w, KeyType = KeyType w,
     SigningAlgo = SigningAlgo w, Restored = Restored w, AdminPublicKeys = AdminPublicKeys w,
     AdminsThreshold = AdminsThreshold w, Cosigners = Cosigners w, CosignersThreshold = CosignersThreshold w,
     SettingsVersion = SettingsVersion w, Settings = Settings w, StatusRef = ref\<rparr>"

definition InitializeStorage :: Storage where
  "InitializeStorage = \<lparr>sto_wallets = [], sto_permanent = [], sto_heap = []\<rparr>"

text \<open>
  \<open>Store\<close>. The status cell that \<open>Copy\<close> allocates enters the heap only in the branch that
  keeps a pointer to it.
\<close>

definition Store :: "Storage \<Rightarrow> Wallet \<Rightarrow> unit res \<times> Storage" where
  "Store s wallet =
     stry s (ValidateWalletMemberCounts (length (AdminPublicKeys wallet)) (length (Cosigners wallet))) (\<lambda>_.
     let k = idPair wallet in
     stry s (ensure (map_of (sto_wallets s) k = None)
       (Err ''wallet with given walletID and keyID already exists'')) (\<lambda>_.
     stry s (ensure (\<not> length (sto_wallets s) \<ge> MaxWallets)
       (Errf ''maximum number of wallets (%d) reached'' [int MaxWallets])) (\<lambda>_.
     case map_of (sto_permanent s) k of
       Some walletStatus \<Rightarrow>
         (Inr (), s\<lparr>sto_wallets := AList.update k (Copy_at wallet walletStatus) (sto_wallets s)\<rparr>)
     | None \<Rightarrow>
         stry s (ensure (\<not> length (sto_permanent s) \<ge> MaxPermanentWalletsStatus)
           (Errf ''maximum number of permanent wallet records (%d) reached'' [int MaxPermanentWalletsStatus])) (\<lambda>_.
         let ref = length (sto_heap s) in
         (Inr (), s\<lparr>sto_heap := sto_heap s @ [Status wallet],
            sto_permanent := AList.update k ref (sto_permanent s),
            sto_wallets := AList.update k (Copy_at wallet ref) (sto_wallets s)\<rparr>)))))"

definition Remove :: "Storage \<Rightarrow> KeyIDPair \<Rightarrow> bool \<times> Storage" where
  "Remove s k = (map_of (sto_wallets s) k \<noteq> None, s\<lparr>sto_wallets := AList.delete k (sto_wallets s)\<rparr>)"

definition ErrWalletNonExistent :: go_error where "ErrWalletNonExistent = Err ''wallet non-existent''"

definition Get :: "Storage \<Rightarrow> KeyIDPair \<Rightarrow> Wallet res" where
  "Get s k = (case map_of (sto_wallets s) k of
     None \<Rightarrow> Inl ErrWalletNonExistent | Some w \<Rightarrow> Inr (Copy_stored (sto_heap s) w))"

text \<open>Go visits a map in an unspecified order; the list below is one such order.\<close>

definition GetWallets :: "Storage \<Rightarrow> Wallet list" where
  "GetWallets s = map (\<lambda>(k, w). Copy_stored (sto_heap s) w) (sto_wallets s)"

definition WalletExists :: "Storage \<Rightarrow> KeyIDPair \<Rightarrow> bool" where
  "WalletExists s k \<longleftrightarrow> map_of (sto_wallets s) k \<noteq> None"

definition WalletExistsPermanent :: "Storage \<Rightarrow> KeyIDPair \<Rightarrow> bool" where
  "WalletExistsPermanent s k \<longleftrightarrow> map_of (sto_permanent s) k \<noteq> None"

definition CheckNonce :: "Storage \<Rightarrow> KeyIDPair \<Rightarrow> uint64 \<Rightarrow> unit res" where
  "CheckNonce s k nonce = (case map_of (sto_permanent s) k of
     None \<Rightarrow> Inl (Err ''no permanent record of the wallet'')
   | Some ref \<Rightarrow> ensure (\<not> nonce \<le> st_Nonce (sto_heap s ! ref)) (Err ''nonce too small''))"

definition Nonce :: "Storage \<Rightarrow> KeyIDPair \<Rightarrow> uint64 res" where
  "Nonce s k = (case map_of (sto_permanent s) k of
     None \<Rightarrow> Inl (Err ''no wallet nonce'') | Some ref \<Rightarrow> Inr (st_Nonce (sto_heap s ! ref)))"

definition UpdateNonce :: "Storage \<Rightarrow> KeyIDPair \<Rightarrow> uint64 \<Rightarrow> Storage" where
  "UpdateNonce s k nonce = (case map_of (sto_permanent s) k of
     None \<Rightarrow> s
   | Some ref \<Rightarrow> s\<lparr>sto_heap := (sto_heap s)[ref := (sto_heap s ! ref)\<lparr>st_Nonce := nonce\<rparr>]\<rparr>)"

section \<open>The abstract content\<close>

text \<open>The data of a wallet without its status, and the wallet that data and a status make.\<close>

definition data_of :: "'a wallet_data_scheme \<Rightarrow> wallet_data" where
  "data_of w = wallet_data.truncate w"

definition with_status :: "wallet_data \<Rightarrow> WalletStatus \<Rightarrow> Wallet" where
  "with_status d st = wallet_data.extend d \<lparr>Status = st\<rparr>"

definition walletsOf :: "Storage \<Rightarrow> KeyIDPair \<Rightarrow> wallet_data option" where
  "walletsOf s k = map_option data_of (map_of (sto_wallets s) k)"

definition statusOf :: "Storage \<Rightarrow> KeyIDPair \<Rightarrow> WalletStatus option" where
  "statusOf s k = map_option (\<lambda>ref. sto_heap s ! ref) (map_of (sto_permanent s) k)"

text \<open>
  Well-formed storage: proper maps, every wallet filed under its own identifiers, its
  status pointer equal to the permanent record's pointer, no dangling pointer, no two keys
  sharing a cell, and the size limits.
\<close>

definition storage_inv :: "Storage \<Rightarrow> bool" where
  "storage_inv s \<longleftrightarrow>
     distinct (map fst (sto_wallets s)) \<and> distinct (map fst (sto_permanent s))
   \<and> (\<forall>k w. map_of (sto_wallets s) k = Some w \<longrightarrow> idPair w = k \<and> map_of (sto_permanent s) k = Some (StatusRef w)
        \<and> length (AdminPublicKeys w) \<le> MaxAdminsPerWalletKey \<and> length (Cosigners w) \<le> MaxCosignersPerWalletKey)
   \<and> (\<forall>k r. map_of (sto_permanent s) k = Some r \<longrightarrow> r < length (sto_heap s))
   \<and> (\<forall>k k' r. map_of (sto_permanent s) k = Some r \<longrightarrow> map_of (sto_permanent s) k' = Some r \<longrightarrow> k = k')
   \<and> length (sto_wallets s) \<le> MaxWallets \<and> length (sto_permanent s) \<le> MaxPermanentWalletsStatus"

section \<open>The interface\<close>

locale wallet_store =
  fixes inv :: "'s \<Rightarrow> bool"
    and wallets :: "'s \<Rightarrow> KeyIDPair \<Rightarrow> wallet_data option"
    and status :: "'s \<Rightarrow> KeyIDPair \<Rightarrow> WalletStatus option"
    and store :: "'s \<Rightarrow> Wallet \<Rightarrow> unit res \<times> 's"
    and remove :: "'s \<Rightarrow> KeyIDPair \<Rightarrow> bool \<times> 's"
    and get :: "'s \<Rightarrow> KeyIDPair \<Rightarrow> Wallet res"
    and check_nonce :: "'s \<Rightarrow> KeyIDPair \<Rightarrow> uint64 \<Rightarrow> unit res"
    and update_nonce :: "'s \<Rightarrow> KeyIDPair \<Rightarrow> uint64 \<Rightarrow> 's"
  assumes store_inv: "inv s \<Longrightarrow> store s w = (Inr (), s') \<Longrightarrow> inv s'"
    and store_wallets: "inv s \<Longrightarrow> store s w = (Inr (), s') \<Longrightarrow> wallets s' = (wallets s)(idPair w \<mapsto> data_of w)"
    and store_fresh: "store s w = (Inr (), s') \<Longrightarrow> wallets s (idPair w) = None"
    and store_status: "inv s \<Longrightarrow> store s w = (Inr (), s') \<Longrightarrow>
          status s' = (if status s (idPair w) = None then (status s)(idPair w \<mapsto> Status w) else status s)"
    and store_error: "store s w = (Inl e, s') \<Longrightarrow> s' = s"
    and remove_inv: "inv s \<Longrightarrow> inv (snd (remove s k))"
    and remove_wallets: "wallets (snd (remove s k)) = (wallets s)(k := None)"
    and remove_status: "status (snd (remove s k)) = status s"
    and update_inv: "inv s \<Longrightarrow> inv (update_nonce s k n)"
    and update_wallets: "wallets (update_nonce s k n) = wallets s"
    and update_status: "inv s \<Longrightarrow>
          status (update_nonce s k n) = (status s)(k := map_option (\<lambda>st. st\<lparr>st_Nonce := n\<rparr>) (status s k))"
    and get_eq: "inv s \<Longrightarrow> get s k = (case wallets s k of None \<Rightarrow> Inl ErrWalletNonExistent
          | Some d \<Rightarrow> Inr (with_status d (the (status s k))))"
    and stored_has_status: "inv s \<Longrightarrow> wallets s k \<noteq> None \<Longrightarrow> status s k \<noteq> None"
    and check_nonce_ok: "check_nonce s k n = Inr () \<longleftrightarrow> (\<exists>st. status s k = Some st \<and> st_Nonce st < n)"
begin

text \<open>A stored wallet is read back; with a permanent record its status is the recorded one.\<close>

lemma get_store:
  assumes "inv s" and "store s w = (Inr (), s')"
  shows "get s' (idPair w) = Inr (with_status (data_of w)
           (case status s (idPair w) of None \<Rightarrow> Status w | Some st \<Rightarrow> st))"
  using get_eq [OF store_inv [OF assms], of "idPair w"] store_wallets [OF assms] store_status [OF assms]
  by (auto split: option.splits)

text \<open>Other keys are not affected.\<close>

lemma get_store_other:
  assumes "inv s" and "store s w = (Inr (), s')" and "k \<noteq> idPair w"
  shows "get s' k = get s k"
  using get_eq [OF store_inv [OF assms(1,2)], of k] get_eq [OF assms(1), of k] store_wallets [OF assms(1,2)]
    store_status [OF assms(1,2)] assms(3)
  by (auto split: option.splits if_splits)

text \<open>The status of a key is shared: a nonce update is seen by whoever reads the wallet.\<close>

lemma get_update_nonce:
  assumes "inv s" and "get s k = Inr w"
  shows "get (update_nonce s k n) k = Inr (w\<lparr>Status := (Status w)\<lparr>st_Nonce := n\<rparr>\<rparr>)"
proof -
  from assms obtain d where d: "wallets s k = Some d" "w = with_status d (the (status s k))"
    by (auto simp: get_eq split: option.splits)
  then obtain st where "status s k = Some st" using stored_has_status [OF assms(1), of k] by auto
  then show ?thesis
    using d update_status [OF assms(1)]
    by (auto simp: get_eq [OF update_inv [OF assms(1)]] update_wallets with_status_def wallet_data.defs)
qed

text \<open>Deleting: the wallet is gone, the record stays, and no nonce up to the used one passes again.\<close>

definition delete_key :: "'s \<Rightarrow> KeyIDPair \<Rightarrow> uint64 \<Rightarrow> 's" where
  "delete_key s k n = update_nonce (snd (remove s k)) k n"

lemma delete_key_get: "inv s \<Longrightarrow> get (delete_key s k n) k = Inl ErrWalletNonExistent"
  by (simp add: delete_key_def get_eq update_inv remove_inv update_wallets remove_wallets)

lemma delete_key_replay:
  assumes "inv s" and "check_nonce s k n = Inr ()"
  shows "check_nonce (delete_key s k n) k m = Inr () \<longleftrightarrow> n < m"
  using assms(2) update_status [OF remove_inv [OF assms(1)], of k k n]
  by (auto simp: check_nonce_ok delete_key_def remove_status)

lemma delete_key_permanent: "inv s \<Longrightarrow> status (delete_key s k n) k = None \<longleftrightarrow> status s k = None"
  by (auto simp: delete_key_def update_status remove_inv remove_status)

text \<open>Restoring: after the store and the nonce update the key has exactly that nonce.\<close>

lemma restore_key_nonce:
  assumes "inv s" and "store s w = (Inr (), s')"
  shows "\<exists>st. status (update_nonce s' (idPair w) n) (idPair w) = Some st \<and> st_Nonce st = n"
  using update_status [OF store_inv [OF assms]] store_status [OF assms] by auto

end

section \<open>The storage provides the interface\<close>

lemma data_of_Copy_at [simp]: "data_of (Copy_at w r) = data_of w"
  by (simp add: data_of_def Copy_at_def wallet_data.defs)

lemma Copy_at_fields [simp]:
  "idPair (Copy_at w r) = idPair w" "StatusRef (Copy_at w r) = r"
  "AdminPublicKeys (Copy_at w r) = AdminPublicKeys w" "Cosigners (Copy_at w r) = Cosigners w"
  by (simp_all add: Copy_at_def idPair_def)

lemma Copy_stored_with_status: "Copy_stored heap w = with_status (data_of w) (heap ! StatusRef w)"
  by (simp add: Copy_stored_def with_status_def data_of_def wallet_data.defs)

lemma storage_invD:
  assumes "storage_inv s"
  shows storage_inv_distinct: "distinct (map fst (sto_wallets s))" "distinct (map fst (sto_permanent s))"
    and storage_inv_wallet: "map_of (sto_wallets s) k = Some w \<Longrightarrow> idPair w = k \<and> map_of (sto_permanent s) k = Some (StatusRef w)
        \<and> length (AdminPublicKeys w) \<le> MaxAdminsPerWalletKey \<and> length (Cosigners w) \<le> MaxCosignersPerWalletKey"
    and storage_inv_ref: "map_of (sto_permanent s) k = Some r \<Longrightarrow> r < length (sto_heap s)"
    and storage_inv_inj: "map_of (sto_permanent s) k = Some r \<Longrightarrow> map_of (sto_permanent s) k' = Some r \<Longrightarrow> k = k'"
  using assms unfolding storage_inv_def by blast+

lemma length_update_fresh: "map_of xs k = None \<Longrightarrow> length (AList.update k v xs) = Suc (length xs)"
  by (induction xs) auto

lemma length_AList_delete: "length (AList.delete k xs) \<le> length xs"
  by (simp add: AList.delete_eq)

text \<open>The two ways in which \<open>Store\<close> succeeds.\<close>

lemma Store_cases:
  assumes "Store s w = (Inr (), s')"
  obtains (known) r where "map_of (sto_wallets s) (idPair w) = None" "length (sto_wallets s) < MaxWallets"
      "length (AdminPublicKeys w) \<le> MaxAdminsPerWalletKey" "length (Cosigners w) \<le> MaxCosignersPerWalletKey"
      "map_of (sto_permanent s) (idPair w) = Some r"
      "s' = s\<lparr>sto_wallets := AList.update (idPair w) (Copy_at w r) (sto_wallets s)\<rparr>"
  | (new) "map_of (sto_wallets s) (idPair w) = None" "length (sto_wallets s) < MaxWallets"
      "length (AdminPublicKeys w) \<le> MaxAdminsPerWalletKey" "length (Cosigners w) \<le> MaxCosignersPerWalletKey"
      "map_of (sto_permanent s) (idPair w) = None" "length (sto_permanent s) < MaxPermanentWalletsStatus"
      "s' = s\<lparr>sto_heap := sto_heap s @ [Status w],
            sto_permanent := AList.update (idPair w) (length (sto_heap s)) (sto_permanent s),
            sto_wallets := AList.update (idPair w) (Copy_at w (length (sto_heap s))) (sto_wallets s)\<rparr>"
  using assms
  by (auto simp: Store_def Let_def stry_def ensure_def ValidateWalletMemberCounts_Inr split: sum.splits option.splits if_splits)

lemma Store_error: "Store s w = (Inl e, s') \<Longrightarrow> s' = s"
  by (auto simp: Store_def Let_def stry_def split: sum.splits option.splits)

lemma Store_inv:
  assumes "storage_inv s" and "Store s w = (Inr (), s')"
  shows "storage_inv s'"
  using assms(2)
proof (cases rule: Store_cases)
  case (known r)
  then show ?thesis
    using assms(1) by (auto simp: storage_inv_def update_conv' length_update_fresh distinct_update)
next
  case new
  then show ?thesis
    using assms(1) storage_invD(4) [OF assms(1)] storage_invD(3) [OF assms(1)]
    by (fastforce simp: storage_inv_def update_conv' length_update_fresh distinct_update less_Suc_eq split: if_splits)
qed

lemma Store_content:
  assumes "storage_inv s" and "Store s w = (Inr (), s')"
  shows "walletsOf s' = (walletsOf s)(idPair w \<mapsto> data_of w)"
    and "statusOf s' = (if statusOf s (idPair w) = None then (statusOf s)(idPair w \<mapsto> Status w) else statusOf s)"
    and "walletsOf s (idPair w) = None"
proof -
  show "walletsOf s' = (walletsOf s)(idPair w \<mapsto> data_of w)"
    using assms(2) by (cases rule: Store_cases) (auto simp: walletsOf_def update_conv' fun_eq_iff)
  show "statusOf s' = (if statusOf s (idPair w) = None then (statusOf s)(idPair w \<mapsto> Status w) else statusOf s)"
    using assms(2)
    by (cases rule: Store_cases)
      (auto simp: statusOf_def update_conv' fun_eq_iff nth_append map_option_case split: option.splits
        dest: storage_invD(4) [OF assms(1)])
  show "walletsOf s (idPair w) = None"
    using assms(2) by (cases rule: Store_cases) (auto simp: walletsOf_def)
qed

lemma Remove_content:
  "walletsOf (snd (Remove s k)) = (walletsOf s)(k := None)" "statusOf (snd (Remove s k)) = statusOf s"
  by (auto simp: Remove_def walletsOf_def statusOf_def delete_conv' fun_eq_iff)

lemma Remove_inv: "storage_inv s \<Longrightarrow> storage_inv (snd (Remove s k))"
  using length_AList_delete [of k "sto_wallets s"]
  by (auto simp: storage_inv_def Remove_def delete_conv' distinct_delete split: if_splits)

lemma UpdateNonce_fields [simp]:
  "sto_wallets (UpdateNonce s k n) = sto_wallets s" "sto_permanent (UpdateNonce s k n) = sto_permanent s"
  "length (sto_heap (UpdateNonce s k n)) = length (sto_heap s)"
  by (simp_all add: UpdateNonce_def split: option.split)

lemma UpdateNonce_inv: "storage_inv s \<Longrightarrow> storage_inv (UpdateNonce s k n)"
  by (simp add: storage_inv_def)

lemma UpdateNonce_status:
  assumes "storage_inv s"
  shows "statusOf (UpdateNonce s k n) = (statusOf s)(k := map_option (\<lambda>st. st\<lparr>st_Nonce := n\<rparr>) (statusOf s k))"
proof
  fix k'
  show "statusOf (UpdateNonce s k n) k' = ((statusOf s)(k := map_option (\<lambda>st. st\<lparr>st_Nonce := n\<rparr>) (statusOf s k))) k'"
  proof (cases "map_of (sto_permanent s) k")
    case (Some r)
    then have "r < length (sto_heap s)" by (rule storage_invD(4) [OF assms])
    moreover have "map_of (sto_permanent s) k' = Some r' \<Longrightarrow> k' \<noteq> k \<Longrightarrow> r' \<noteq> r" for r'
      using storage_invD(5) [OF assms, of k r k'] Some by blast
    ultimately show ?thesis
      using Some by (cases "map_of (sto_permanent s) k'") (auto simp: statusOf_def UpdateNonce_def)
  qed (auto simp: statusOf_def UpdateNonce_def)
qed

lemma Get_content:
  assumes "storage_inv s"
  shows "Get s k = (case walletsOf s k of None \<Rightarrow> Inl ErrWalletNonExistent
          | Some d \<Rightarrow> Inr (with_status d (the (statusOf s k))))"
  using storage_invD(3) [OF assms, of k]
  by (auto simp: Get_def walletsOf_def statusOf_def Copy_stored_with_status split: option.split)

interpretation ws: wallet_store storage_inv walletsOf statusOf Store Remove Get CheckNonce UpdateNonce
proof (unfold_locales, goal_cases)
  case (1 s w s') then show ?case by (rule Store_inv)
next
  case (2 s w s') then show ?case by (rule Store_content(1))
next
  case (3 s w s')
  then show ?case by (cases rule: Store_cases) (auto simp: walletsOf_def)
next
  case (4 s w s') then show ?case by (rule Store_content(2))
next
  case (5 s w e s') then show ?case by (rule Store_error)
next
  case (6 s k) then show ?case by (rule Remove_inv)
next
  case (7 s k) show ?case by (rule Remove_content)
next
  case (8 s k) show ?case by (rule Remove_content)
next
  case (9 s k n) then show ?case by (rule UpdateNonce_inv)
next
  case (10 s k n) show ?case by (simp add: walletsOf_def fun_eq_iff)
next
  case (11 s k n) then show ?case by (rule UpdateNonce_status)
next
  case (12 s k) then show ?case by (rule Get_content)
next
  case (13 s k) then show ?case using storage_invD(3) [of s k] by (auto simp: walletsOf_def statusOf_def)
next
  case (14 s k n)
  show ?case by (auto simp: CheckNonce_def statusOf_def ensure_def not_le split: option.splits if_splits)
qed

lemma InitializeStorage_inv: "storage_inv InitializeStorage"
  by (simp add: storage_inv_def InitializeStorage_def)

end
