(* ===== verification/Backup_Recover.thy ===== *)
theory Backup_Recover
  imports Backup Secp_Units
begin

text \<open>
  From a backup back to the wallet: what \<open>SplitAndEncrypt\<close> hands to each owner, that an owner
  can decrypt it, that enough of the splits join to the dealt part, and from these that
  \<open>RecoverWallet\<close> rebuilds the wallet that \<open>BackupWallet\<close> was given.
\<close>

section \<open>Slices of the share list\<close>

fun slices :: "nat list \<Rightarrow> 'a list \<Rightarrow> 'a list list" where
  "slices [] xs = []"
| "slices (w # ws) xs = take w xs # slices ws (drop w xs)"

lemma length_slices [simp]: "length (slices ws xs) = length ws"
  by (induction ws arbitrary: xs) auto

lemma concat_slices: "concat (slices ws xs) = take (sum_list ws) xs"
  by (induction ws arbitrary: xs) (auto simp: take_add)

lemma slices_nth_length:
  "sum_list ws \<le> length xs \<Longrightarrow> i < length ws \<Longrightarrow> length (slices ws xs ! i) = ws ! i"
proof (induction ws arbitrary: xs i)
  case (Cons w ws)
  then show ?case by (cases i) auto
qed simp

text \<open>Picking different pieces of a duplicate-free concatenation gives no duplicates.\<close>

lemma distinct_concat_pick:
  assumes "distinct (concat xss)" and "distinct is" and "\<forall>i \<in> set is. i < length xss"
  shows "distinct (concat (map ((!) xss) is))" and "set (concat (map ((!) xss) is)) \<subseteq> set (concat xss)"
proof -
  have disj: "set (xss ! i) \<inter> set (xss ! j) = {}" if "i < j" "j < length xss" for i j
    using assms(1) that
  proof (induction xss arbitrary: i j)
    case (Cons ys xss)
    show ?case
    proof (cases i)
      case 0
      then obtain k where "j = Suc k" using Cons.prems by (cases j) auto
      with 0 Cons.prems show ?thesis by (auto simp: dest: nth_mem)
    next
      case (Suc i')
      then obtain k where "j = Suc k" using Cons.prems by (cases j) auto
      with Suc Cons show ?thesis by auto
    qed
  qed simp
  have one: "distinct (xss ! i)" if "i < length xss" for i
    using assms(1) that by (induction xss arbitrary: i) (auto simp: nth_Cons' split: if_splits)
  show "set (concat (map ((!) xss) is)) \<subseteq> set (concat xss)"
    using assms(3) by (fastforce intro: nth_mem)
  show "distinct (concat (map ((!) xss) is))"
    using assms(2,3)
  proof (induction "is")
    case (Cons i "is")
    have "set (xss ! i) \<inter> set (concat (map ((!) xss) is)) = {}"
    proof -
      have "set (xss ! i) \<inter> set (xss ! j) = {}" if "j \<in> set is" for j
        using disj [of i j] disj [of j i] Cons.prems that by (metis distinct.simps(2) inf_commute linorder_neqE_nat list.set_intros)
      then show ?thesis by auto
    qed
    with Cons one show ?case by simp
  qed simp
qed

section \<open>What each owner gets\<close>

definition split_for ::
  "'a backup_env_scheme \<Rightarrow> (nat \<Rightarrow> nat) \<Rightarrow> PartialWalletBackupID \<Rightarrow> 'b wallet_data_scheme \<Rightarrow> uint64 \<Rightarrow>
     nat \<times> ecdsa_pub \<times> uint16 \<Rightarrow> KeySplit \<Rightarrow> bytes \<Rightarrow> bool" where
  "split_for E enc pid signer chainID item k cipher \<longleftrightarrow>
     (case item of (i, key, w) \<Rightarrow>
       ks_PartialID (ks_Data k) = pid \<and> ks_OwnerPublicKey (ks_Data k) = PubKeyToStruct key
       \<and> KeySplitData_Sign E (ks_Data k) signer chainID = Inr (ks_Signature k)
       \<and> (\<exists>pt. json_KeySplit E k = Inr pt \<and> Encrypt E (enc i) pt key = Inr cipher))"

lemma split_loop_Inr:
  assumes "split_loop E enc shares pid signer chainID items counter = Inr ciphers"
  shows "\<exists>ks. length ks = length items \<and> length ciphers = length items
     \<and> map (\<lambda>k. ks_Shares (ks_Data k)) ks = slices (map (\<lambda>(i, key, w). unat w) items) (drop counter shares)
     \<and> (\<forall>t < length items. split_for E enc pid signer chainID (items ! t) (ks ! t) (ciphers ! t))"
  using assms
proof (induction items arbitrary: counter ciphers)
  case Nil
  then show ?case by simp
next
  case (Cons item items)
  obtain i key w where item: "item = (i, key, w)" by (cases item)
  let ?d = "\<lparr>ks_Shares = take (unat w) (drop counter shares), ks_PartialID = pid, ks_OwnerPublicKey = PubKeyToStruct key\<rparr>"
  from Cons.prems item obtain sig pt cipher cs where
    r: "KeySplitData_Sign E ?d signer chainID = Inr sig" "json_KeySplit E \<lparr>ks_Data = ?d, ks_Signature = sig\<rparr> = Inr pt"
      "Encrypt E (enc i) pt key = Inr cipher"
      "split_loop E enc shares pid signer chainID items (counter + unat w) = Inr cs" "ciphers = cipher # cs"
    by (auto simp: res_simps Let_def split: if_splits)
  from Cons.IH [OF r(4)] obtain ks where ks: "length ks = length items" "length cs = length items"
    "map (\<lambda>k. ks_Shares (ks_Data k)) ks = slices (map (\<lambda>(i, key, w). unat w) items) (drop (counter + unat w) shares)"
    "\<forall>t < length items. split_for E enc pid signer chainID (items ! t) (ks ! t) (cs ! t)" by blast
  have "split_for E enc pid signer chainID item \<lparr>ks_Data = ?d, ks_Signature = sig\<rparr> cipher"
    using r by (auto simp: split_for_def item)
  then show ?case
    using ks r(5) item
    by (intro exI [of _ "\<lparr>ks_Data = ?d, ks_Signature = sig\<rparr> # ks"])
       (auto simp: nth_Cons' add.commute drop_drop split: nat.splits)
qed

lemma SplitAndEncrypt_Inr:
  assumes "SplitAndEncrypt E B draws enc f secret keys k weights wid signer adm chainID = Inr es"
  shows "\<exists>shares ks. SplitToShamirShares B draws f secret (SumUint64 weights) k = Inr shares
     \<and> length ks = length keys \<and> length weights = length keys \<and> length (es_Splits es) = length keys
     \<and> es_Weights es = weights \<and> es_Threshold es = k
     \<and> map (\<lambda>s. ks_Shares (ks_Data s)) ks = slices (map unat weights) shares
     \<and> (\<forall>t < length keys. split_for E enc \<lparr>pw_ID = wid, pw_IsAdmin = adm\<rparr> signer chainID
           (t, keys ! t, weights ! t) (ks ! t) (es_Splits es ! t))"
proof -
  from assms obtain shares splits where len: "length keys = length weights" and
    sh: "SplitToShamirShares B draws f secret (SumUint64 weights) k = Inr shares" and
    loop: "split_loop E enc shares \<lparr>pw_ID = wid, pw_IsAdmin = adm\<rparr> signer chainID
      (zip [0..<length keys] (zip keys weights)) 0 = Inr splits" and
    es: "es = \<lparr>es_Splits = splits, es_OwnersPublicKeys = map PubKeyToStruct keys, es_Threshold = k, es_Weights = weights\<rparr>"
    by (auto simp: SplitAndEncrypt_def res_simps Let_def)
  let ?items = "zip [0..<length keys] (zip keys weights)"
  have "map (\<lambda>(i, key, w). unat w) ?items = map unat (map snd (map snd ?items))" by (simp add: split_def)
  also have "\<dots> = map unat weights" using len by (simp only: map_snd_zip length_zip length_upt diff_zero min.idem)
  finally have w: "map (\<lambda>(i, key, w). unat w) ?items = map unat weights" .
  from split_loop_Inr [OF loop] obtain ks where "length ks = length ?items" "length splits = length ?items"
    "map (\<lambda>k. ks_Shares (ks_Data k)) ks = slices (map unat weights) shares"
    "\<forall>t < length ?items. split_for E enc \<lparr>pw_ID = wid, pw_IsAdmin = adm\<rparr> signer chainID (?items ! t) (ks ! t) (splits ! t)"
    unfolding w drop_0 by blast
  then show ?thesis using sh len es by (intro exI [of _ shares] exI [of _ ks]) auto
qed

text \<open>The law of the JSON codec that the recovery relies on.\<close>

definition keysplit_codec :: "'a backup_env_scheme \<Rightarrow> bool" where
  "keysplit_codec E \<longleftrightarrow> (\<forall>k b. json_KeySplit E k = Inr b \<longrightarrow> unjson_KeySplit E b = Inr k)"

text \<open>The owner of a split decrypts it to what was dealt.\<close>

lemma DecryptSplit_ok:
  assumes "ecies_spec E" and "ecdsa_spec E" and "toecdsa_spec E" and "keysplit_codec E"
    and "split_for E enc pid signer chainID (i, key, w) k cipher"
    and "PubKey E signer = Inr (wb_PublicKey (pw_ID pid))" and "wb_SigningAlgo (pw_ID pid) = SigningAlgo signer"
    and "SigningAlgo signer = XRPSignAlgo \<or> SigningAlgo signer = EVMSignAlgo"
    and "sk_Pub sk = key"
  shows "DecryptSplit E cipher sk chainID = Inr k"
proof -
  from assms(5) obtain pt where k: "ks_PartialID (ks_Data k) = pid" "ks_OwnerPublicKey (ks_Data k) = PubKeyToStruct key"
    "KeySplitData_Sign E (ks_Data k) signer chainID = Inr (ks_Signature k)"
    "json_KeySplit E k = Inr pt" "Encrypt E (enc i) pt key = Inr cipher" by (auto simp: split_for_def)
  have dec: "Decrypt E cipher sk = Inr pt" using Decrypt_Encrypt [OF assms(1)] k(5) assms(9) by blast
  have js: "unjson_KeySplit E pt = Inr k" using assms(4) k(4) by (simp add: keysplit_codec_def)
  from k(3) obtain h where h: "KeySplitData_SignHash E (ks_Data k) chainID = Inr h"
    "Wallet_Sign E signer (hash_bytes h) = Inr (ks_Signature k)"
    by (auto simp: KeySplitData_Sign_def res_simps)
  have "KeySplit_VerifySignature E k chainID = Inr ()"
    using Wallet_Sign_verifies [OF assms(2,3,6,8) h(2)] h(1) k(1) assms(7) by (simp add: KeySplit_VerifySignature_def)
  then show ?thesis using dec js k(2) assms(9) by (simp add: DecryptSplit_def)
qed

section \<open>Joining\<close>

text \<open>Splits of different owners with enough weight join to the dealt secret.\<close>

lemma JoinKeyShares_ok:
  assumes spec: "bigmod_spec B" "field_ok f"
    and split: "SplitToShamirShares B draws f secret n k = Inr shares"
    and units: "\<And>d. 0 < d \<Longrightarrow> d < unat n \<Longrightarrow> coprime d (fld_Modulus f)"
    and ws: "sum_list ws = unat n"
    and splits: "map (\<lambda>s. ks_Shares (ks_Data s)) splits = map ((!) (slices ws shares)) is"
    and idx: "distinct is" "\<forall>i \<in> set is. i < length ws"
    and enough: "unat k \<le> (\<Sum>i\<leftarrow>is. ws ! i)"
  shows "JoinKeyShares B f splits k = Inr (fill_bytes (fld_Size f) (nat_of_bytes secret))"
proof -
  let ?c = "concat (map ((!) (slices ws shares)) is)"
  have k0: "k \<noteq> 0" using split by (auto simp: SplitToShamirShares_def res_simps)
  from SplitToShamirShares_Inr [OF spec split] obtain cs where
    shares: "shares = map (\<lambda>i. \<lparr>sh_X = word_of_nat (Suc i),
      sh_Y = fill_bytes (fld_Size f) (npoly cs (Suc i) mod fld_Modulus f)\<rparr>) [0..<unat n]" by blast
  have len: "length shares = unat n" by (simp add: shares)
  have dist: "distinct shares"
  proof -
    have "inj_on (\<lambda>i. (word_of_nat (Suc i) :: uint64)) {0..<unat n}"
    proof (rule inj_onI)
      fix i j assume ij: "i \<in> {0..<unat n}" "j \<in> {0..<unat n}" "(word_of_nat (Suc i) :: uint64) = word_of_nat (Suc j)"
      have "Suc i < 2 ^ 64" "Suc j < 2 ^ 64" using ij unat_uint64_bound [of n] by auto
      then show "i = j" using ij(3) unat_word_of_nat_64 by (metis Suc_inject)
    qed
    then show ?thesis unfolding shares distinct_map by (auto simp: inj_on_def)
  qed
  have all: "concat (slices ws shares) = shares" using ws len by (simp add: concat_slices)
  have pick: "distinct ?c" "set ?c \<subseteq> set shares"
    using distinct_concat_pick [of "slices ws shares" "is"] dist idx by (simp_all add: all)
  have clen: "length ?c = (\<Sum>i\<leftarrow>is. ws ! i)"
    unfolding length_concat map_map comp_def using idx(2) ws len
    by (intro arg_cong [where f = sum_list] map_cong) (auto simp: slices_nth_length)
  have "length ?c \<le> unat n" using card_mono [OF _ pick(2)] distinct_card [OF pick(1)] distinct_card [OF dist] len by simp
  then have "length ?c < 2 ^ 64" using unat_uint64_bound [of n] by linarith
  then have "unat (word_of_nat (length ?c) :: uint64) = length ?c" by (rule unat_word_of_nat_64)
  then have thr: "\<not> word_of_nat (length ?c) < k" using enough clen by (simp add: word_less_nat_alt)
  have "CombineShamirShares B f (take (unat k) ?c) = Inr (fill_bytes (fld_Size f) (nat_of_bytes secret))"
    using pick enough clen set_take_subset [of "unat k" ?c]
    by (intro Combine_Split [OF spec split units]) auto
  then show ?thesis using k0 thr by (simp add: JoinKeyShares_def splits Let_def)
qed

text \<open>The consistency checks pass on splits that carry the identifier of the metadata.\<close>

lemma CheckKeyShares_ok:
  assumes "splits \<noteq> []" and "\<forall>s \<in> set splits. ks_PartialID (ks_Data s) = \<lparr>pw_ID = md_ID md, pw_IsAdmin = adm\<rparr>"
    and "adm \<longrightarrow> (\<forall>s \<in> set splits. ks_OwnerPublicKey (ks_Data s) \<in> set (md_AdminsPublicKeys md))"
    and "encodeABI F (md_ID md) = Inr e"
  shows "CheckKeyShares F splits md = Inr ()"
proof -
  obtain s ss where splits: "splits = s # ss" using assms(1) by (cases splits) auto
  have refl: "WalletBackupID_Equal F (md_ID md) (md_ID md) = Inr ()"
    by (rule WalletBackupID_Equal_refl [OF assms(4)])
  have first: "ks_PartialID (ks_Data s) = \<lparr>pw_ID = md_ID md, pw_IsAdmin = adm\<rparr>" using assms(2) splits by simp
  have "rmap (\<lambda>split. rbind (ensure (PartialWalletBackupID_Equal F (ks_PartialID (ks_Data split)) (ks_PartialID (ks_Data s)))
             (Err ''one of key split's ids does not match expected id'')) (\<lambda>_.
           ensure (pw_IsAdmin (ks_PartialID (ks_Data split)) \<longrightarrow>
               ks_OwnerPublicKey (ks_Data split) \<in> set (md_AdminsPublicKeys md))
             (Err ''one of admins public keys is not in the backup metadata''))) splits = Inr (map (\<lambda>_. ()) splits)"
    using assms(2,3) refl by (intro rmap_total) (auto simp: first PartialWalletBackupID_Equal_def)
  then show ?thesis using refl first by (simp add: CheckKeyShares_def splits Let_def)
qed

section \<open>The whole way\<close>

text \<open>
  The wallet that a restore of \<open>w\<close> should give: the same key and configuration, marked as
  restored, with parsed admin keys and cleared settings and status.
\<close>

definition restored_copy :: "'b wallet_data_scheme \<Rightarrow> Wallet" where
  "restored_copy w = \<lparr>WalletID = WalletID w, KeyID = KeyID w, PrivateKey = PrivateKey w, KeyType = KeyType w,
     SigningAlgo = SigningAlgo w, Restored = True,
     AdminPublicKeys = map (\<lambda>k. k\<lparr>pk_Curve := Secp256k1_S256\<rparr>) (AdminPublicKeys w),
     AdminsThreshold = AdminsThreshold w, Cosigners = Cosigners w, CosignersThreshold = CosignersThreshold w,
     SettingsVersion = 0, Settings = [],
     Status = \<lparr>st_Nonce = 0, st_PausingNonce = 0, st_StatusCode = 0\<rparr>\<rparr>"

definition valid_keys :: "'a geth_scheme \<Rightarrow> ecdsa_pub list \<Rightarrow> bool" where
  "valid_keys G ks \<longleftrightarrow> (\<forall>k \<in> set ks. pub_fits k \<and> IsOnCurve G (int (pk_X k)) (int (pk_Y k)))"

lemma parse_valid_keys:
  "valid_keys G ks \<Longrightarrow> rmap (ParsePubKey G) (map PubKeyToStruct ks) = Inr (map (\<lambda>k. k\<lparr>pk_Curve := Secp256k1_S256\<rparr>) ks)"
  by (induction ks) (auto simp: valid_keys_def ParsePubKey_roundtrip)

text \<open>The pieces of a successful backup.\<close>

lemma BackupWallet_Inr:
  assumes "BackupWallet E B rnd w keys weights epoch tee chainID total_shares thr = Inr bk"
  shows "\<exists>nws nonce pub parts adm prov. weightsNormalization weights total_shares = Inr nws \<and> PubKey E w = Inr pub
     \<and> SplitSecret B (br_Split rnd) fieldSecp256k1Order (PrivateKey w) 2 = Inr parts
     \<and> md_ID (bk_MetaData bk) = \<lparr>wb_TeeID = tee, wb_WalletID = WalletID w, wb_KeyID = KeyID w, wb_PublicKey = pub,
          wb_KeyType = KeyType w, wb_SigningAlgo = SigningAlgo w, wb_RewardEpochID = epoch, wb_RandomNonce = nonce\<rparr>
     \<and> SplitAndEncrypt E B (br_Admin rnd) (br_EncAdmin rnd) fieldSecp256k1Order (parts ! 0) (AdminPublicKeys w)
          (AdminsThreshold w) (ConstantSlice 1 (length (AdminPublicKeys w))) (md_ID (bk_MetaData bk)) w True chainID = Inr adm
     \<and> SplitAndEncrypt E B (br_Provider rnd) (br_EncProvider rnd) fieldSecp256k1Order (parts ! 1) keys thr nws
          (md_ID (bk_MetaData bk)) w False chainID = Inr prov
     \<and> bk_AdminEncryptedParts bk = Some adm \<and> bk_ProviderEncryptedParts bk = Some prov
     \<and> bk_MetaData bk = \<lparr>md_ID = md_ID (bk_MetaData bk), md_FieldID = FieldSecp256k1OrderID,
          md_AdminsPublicKeys = map PubKeyToStruct (AdminPublicKeys w), md_AdminsThreshold = AdminsThreshold w,
          md_ProvidersThreshold = thr, md_Cosigners = Cosigners w, md_CosignersThreshold = CosignersThreshold w\<rparr>"
  using assms
  by (auto simp: BackupWallet_def res_simps Let_def FieldFor_def fieldSecp256k1Order_def split: if_splits)

text \<open>
  The two halves of a recovery: joined parts that sum to the secret, and passed checks,
  rebuild the wallet.
\<close>

lemma RecoverWallet_ok:
  assumes spec: "bigmod_spec B"
    and md: "md = \<lparr>md_ID = wid, md_FieldID = FieldSecp256k1OrderID,
      md_AdminsPublicKeys = map PubKeyToStruct (AdminPublicKeys w), md_AdminsThreshold = AdminsThreshold w,
      md_ProvidersThreshold = thr, md_Cosigners = Cosigners w, md_CosignersThreshold = CosignersThreshold w\<rparr>"
    and wid: "wb_WalletID wid = WalletID w" "wb_KeyID wid = KeyID w" "wb_KeyType wid = KeyType w"
      "wb_SigningAlgo wid = SigningAlgo w" "PubKey F w = Inr (wb_PublicKey wid)"
    and keys: "valid_keys F (AdminPublicKeys w)"
    and parts: "SplitSecret B draws fieldSecp256k1Order (PrivateKey w) 2 = Inr parts"
    and adm: "CheckKeyShares F (filter (\<lambda>k. pw_IsAdmin (ks_PartialID (ks_Data k))) splits) md = Inr ()"
      "JoinKeyShares B fieldSecp256k1Order (filter (\<lambda>k. pw_IsAdmin (ks_PartialID (ks_Data k))) splits) (AdminsThreshold w) = Inr (parts ! 0)"
    and prov: "CheckKeyShares F (filter (\<lambda>k. \<not> pw_IsAdmin (ks_PartialID (ks_Data k))) splits) md = Inr ()"
      "JoinKeyShares B fieldSecp256k1Order (filter (\<lambda>k. \<not> pw_IsAdmin (ks_PartialID (ks_Data k))) splits) thr = Inr (parts ! 1)"
  shows "RecoverWallet F B splits md = Inr (restored_copy w)"
proof -
  have "length parts = 2" using SplitSecret_Inr [OF spec field_ok_secp parts] by auto
  then have "parts = [parts ! 0, parts ! 1]" by (cases parts; cases "tl parts") auto
  then have join: "JoinSecret B fieldSecp256k1Order [parts ! 0, parts ! 1] = Inr (PrivateKey w)"
    using JoinSecret_SplitSecret [OF spec field_ok_secp parts] by simp
  have field: "FieldForID FieldSecp256k1OrderID = Inr fieldSecp256k1Order"
    by (simp add: FieldForID_def fieldsByID_def)
  have pub: "PubKey F (restored_copy w) = Inr (wb_PublicKey wid)"
    unfolding wid(5) [symmetric] by (simp add: PubKey_def restored_copy_def)
  show ?thesis
    using adm prov join field parse_valid_keys [OF keys] pub wid
    by (simp add: RecoverWallet_def md Let_def restored_copy_def)
qed

text \<open>
  One half of the dealt parts, with the owners that take part given by their indices:
  everyone decrypts their split, the splits pass the checks and join to the part.
\<close>

definition half_recovers ::
  "'a backup_env_scheme \<Rightarrow> 'b bigmod_scheme \<Rightarrow> WalletBackupMetaData \<Rightarrow> uint64 \<Rightarrow> ecdsa_pub list \<Rightarrow> uint64 \<Rightarrow> bytes \<Rightarrow> bool \<Rightarrow> EncryptedShares \<Rightarrow> KeySplit list \<Rightarrow> bool" where
  "half_recovers E B md chainID keys k secret adm es ks \<longleftrightarrow>
     (\<forall>i sk. i < length (es_Splits es) \<longrightarrow> sk_Pub sk = keys ! i \<longrightarrow> DecryptSplit E (es_Splits es ! i) sk chainID = Inr (ks ! i))
     \<and> (\<forall>i < length (es_Splits es). pw_IsAdmin (ks_PartialID (ks_Data (ks ! i))) = adm)
     \<and> (\<forall>is. distinct is \<longrightarrow> (\<forall>i \<in> set is. i < length (es_Splits es)) \<longrightarrow> unat k \<le> (\<Sum>i\<leftarrow>is. unat (es_Weights es ! i)) \<longrightarrow>
          CheckKeyShares E (map ((!) ks) is) md = Inr ()
          \<and> JoinKeyShares B fieldSecp256k1Order (map ((!) ks) is) k = Inr secret)"

lemma half_recoversD:
  assumes "half_recovers E B md chainID keys k secret adm es ks" and "distinct is" and "\<forall>i \<in> set is. i < length (es_Splits es)"
    and "unat k \<le> (\<Sum>i\<leftarrow>is. unat (es_Weights es ! i))"
  shows "CheckKeyShares E (map ((!) ks) is) md = Inr ()" "JoinKeyShares B fieldSecp256k1Order (map ((!) ks) is) k = Inr secret"
  using assms by (simp_all add: half_recovers_def)

lemma half_ok:
  assumes spec: "bigmod_spec B" "ecies_spec E" "ecdsa_spec E" "toecdsa_spec E" "keysplit_codec E"
    and algo: "SigningAlgo w = XRPSignAlgo \<or> SigningAlgo w = EVMSignAlgo"
    and wid: "PubKey E w = Inr (wb_PublicKey (md_ID md))" "wb_SigningAlgo (md_ID md) = SigningAlgo w"
      "encodeABI E (md_ID md) = Inr e"
    and deal: "SplitAndEncrypt E B draws enc fieldSecp256k1Order secret keys k ws (md_ID md) w adm chainID = Inr es"
    and secret: "length secret = 32" and total: "sum_list (map unat ws) \<le> 1000"
    and owners: "adm \<longrightarrow> md_AdminsPublicKeys md = map PubKeyToStruct keys"
  shows "\<exists>ks. half_recovers E B md chainID keys k secret adm es ks"
proof -
  let ?f = fieldSecp256k1Order
  from SplitAndEncrypt_Inr [OF deal] obtain shares ks where
    sh: "SplitToShamirShares B draws ?f secret (SumUint64 ws) k = Inr shares" and
    len: "length ks = length keys" "length ws = length keys" "length (es_Splits es) = length keys" and
    sl: "map (\<lambda>s. ks_Shares (ks_Data s)) ks = slices (map unat ws) shares" and
    each: "\<forall>t < length keys. split_for E enc \<lparr>pw_ID = md_ID md, pw_IsAdmin = adm\<rparr> w chainID (t, keys ! t, ws ! t)
      (ks ! t) (es_Splits es ! t)" by blast
  have n: "unat (SumUint64 ws) = sum_list (map unat ws)" using total by (intro unat_SumUint64) simp
  have id: "ks_PartialID (ks_Data (ks ! i)) = \<lparr>pw_ID = md_ID md, pw_IsAdmin = adm\<rparr>"
    "ks_OwnerPublicKey (ks_Data (ks ! i)) = PubKeyToStruct (keys ! i)" if "i < length keys" for i
    using each that by (auto simp: split_for_def)
  have dec: "DecryptSplit E (es_Splits es ! i) sk chainID = Inr (ks ! i)" if "i < length keys" "sk_Pub sk = keys ! i" for i sk
    using DecryptSplit_ok [OF spec(2-5) each [rule_format, OF that(1)] _ _ algo that(2)] wid by simp
  have units: "coprime d (fld_Modulus ?f)" if "0 < d" "d < unat (SumUint64 ws)" for d
    using that total secp256k1_N_units [of d] by (simp add: n fieldSecp256k1Order_def)
  have join: "CheckKeyShares E (map ((!) ks) is) md = Inr () \<and> JoinKeyShares B ?f (map ((!) ks) is) k = Inr secret"
    if idx: "distinct is" "\<forall>i \<in> set is. i < length keys" and enough: "unat k \<le> (\<Sum>i\<leftarrow>is. unat (ws ! i))" for "is"
  proof
    have k0: "0 < unat k" using sh by (auto simp: SplitToShamirShares_def res_simps unat_gt_0)
    then have "is \<noteq> []" using enough by auto
    then show "CheckKeyShares E (map ((!) ks) is) md = Inr ()"
      using id idx(2) owners wid(3) by (intro CheckKeyShares_ok [where adm = adm]) auto
    have "map (\<lambda>s. ks_Shares (ks_Data s)) (map ((!) ks) is) = map ((!) (map (\<lambda>s. ks_Shares (ks_Data s)) ks)) is"
      using idx(2) len by (auto simp: comp_def)
    also have "\<dots> = map ((!) (slices (map unat ws) shares)) is" by (simp only: sl)
    finally have spl: "map (\<lambda>s. ks_Shares (ks_Data s)) (map ((!) ks) is) = map ((!) (slices (map unat ws) shares)) is" .
    have "JoinKeyShares B ?f (map ((!) ks) is) k = Inr (fill_bytes (fld_Size ?f) (nat_of_bytes secret))"
    proof (rule JoinKeyShares_ok [OF spec(1) field_ok_secp sh units _ spl])
      have "(\<Sum>i\<leftarrow>is. unat (ws ! i)) = (\<Sum>i\<leftarrow>is. map unat ws ! i)"
        using idx(2) len by (intro arg_cong [where f = sum_list] map_cong) auto
      then show "unat k \<le> (\<Sum>i\<leftarrow>is. map unat ws ! i)" using enough by simp
    qed (use idx len n in auto)
    then show "JoinKeyShares B ?f (map ((!) ks) is) k = Inr secret"
      using fill_nat_of_bytes [of secret] secret by (simp add: fieldSecp256k1Order_def)
  qed
  have "es_Weights es = ws" using SplitAndEncrypt_Inr [OF deal] by blast
  then show ?thesis using dec id join len unfolding half_recovers_def by (intro exI [of _ ks]) auto
qed

text \<open>
  The participants of a restore, in the order they arrive: admins \<open>(True, i)\<close> and data
  providers \<open>(False, i)\<close>, each with the private key \<open>sk\<close> they decrypt with.
\<close>

definition weight_of :: "uint16 list \<Rightarrow> (bool \<times> nat) list \<Rightarrow> bool \<Rightarrow> nat" where
  "weight_of ws who adm = (\<Sum>(a, i)\<leftarrow>filter (\<lambda>p. fst p = adm) who. unat (ws ! i))"

lemma backup_recover:
  assumes spec: "bigmod_spec B" "ecies_spec E" "ecdsa_spec E" "toecdsa_spec E" "keysplit_codec E"
    and algo: "SigningAlgo w = XRPSignAlgo \<or> SigningAlgo w = EVMSignAlgo"
    and bk: "BackupWallet E B rnd w pkeys weights epoch tee chainID total_shares thr = Inr bk"
      "bk_AdminEncryptedParts bk = Some adm" "bk_ProviderEncryptedParts bk = Some prov"
    and wid: "encodeABI E (md_ID (bk_MetaData bk)) = Inr e"
    and keys: "valid_keys E (AdminPublicKeys w)" and small: "length (AdminPublicKeys w) \<le> 1000" "unat total_shares \<le> 1000"
    and who: "distinct who" "\<forall>(a, i) \<in> set who. i < length (es_Splits (if a then adm else prov))
        \<and> sk_Pub (sk (a, i)) = (if a then AdminPublicKeys w else pkeys) ! i"
    and enough: "unat (AdminsThreshold w) \<le> weight_of (es_Weights adm) who True"
      "unat thr \<le> weight_of (es_Weights prov) who False"
  shows "\<exists>splits. rmap (\<lambda>(a, i). DecryptSplit E (es_Splits (if a then adm else prov) ! i) (sk (a, i)) chainID) who = Inr splits
     \<and> RecoverWallet E B splits (bk_MetaData bk) = Inr (restored_copy w)"
proof -
  let ?f = fieldSecp256k1Order and ?md = "bk_MetaData bk"
  from BackupWallet_Inr [OF bk(1)] bk(2,3) obtain nws nonce pub parts where
    nws: "weightsNormalization weights total_shares = Inr nws" and pub: "PubKey E w = Inr pub" and
    parts: "SplitSecret B (br_Split rnd) ?f (PrivateKey w) 2 = Inr parts" and
    id: "md_ID ?md = \<lparr>wb_TeeID = tee, wb_WalletID = WalletID w, wb_KeyID = KeyID w, wb_PublicKey = pub,
      wb_KeyType = KeyType w, wb_SigningAlgo = SigningAlgo w, wb_RewardEpochID = epoch, wb_RandomNonce = nonce\<rparr>" and
    admd: "SplitAndEncrypt E B (br_Admin rnd) (br_EncAdmin rnd) ?f (parts ! 0) (AdminPublicKeys w)
      (AdminsThreshold w) (ConstantSlice 1 (length (AdminPublicKeys w))) (md_ID ?md) w True chainID = Inr adm" and
    provd: "SplitAndEncrypt E B (br_Provider rnd) (br_EncProvider rnd) ?f (parts ! 1) pkeys thr nws
      (md_ID ?md) w False chainID = Inr prov" and
    md: "?md = \<lparr>md_ID = md_ID ?md, md_FieldID = FieldSecp256k1OrderID,
      md_AdminsPublicKeys = map PubKeyToStruct (AdminPublicKeys w), md_AdminsThreshold = AdminsThreshold w,
      md_ProvidersThreshold = thr, md_Cosigners = Cosigners w, md_CosignersThreshold = CosignersThreshold w\<rparr>"
    by (elim exE conjE) simp
  have len: "length (parts ! 0) = 32" "length (parts ! 1) = 32"
    using SplitSecret_Inr [OF spec(1) field_ok_secp parts] by (auto simp: fieldSecp256k1Order_def)
  have idf: "PubKey E w = Inr (wb_PublicKey (md_ID ?md))" "wb_SigningAlgo (md_ID ?md) = SigningAlgo w"
    "wb_WalletID (md_ID ?md) = WalletID w" "wb_KeyID (md_ID ?md) = KeyID w" "wb_KeyType (md_ID ?md) = KeyType w"
    using pub by (simp_all add: id)
  have adk: "md_AdminsPublicKeys ?md = map PubKeyToStruct (AdminPublicKeys w)" by (subst md) simp
  obtain ka where ka: "half_recovers E B ?md chainID (AdminPublicKeys w) (AdminsThreshold w) (parts ! 0) True adm ka"
    using half_ok [OF spec algo idf(1,2) wid admd len(1)] small(1) adk by (auto simp: sum_list_replicate map_replicate)
  obtain kp where kp: "half_recovers E B ?md chainID pkeys thr (parts ! 1) False prov kp"
    using half_ok [OF spec algo idf(1,2) wid provd len(2)] weightsNormalization_Inr(2) [OF nws] small(2) by auto
  let ?K = "\<lambda>(a, i). (if a then ka else kp) ! i" and ?I = "\<lambda>adm. map snd (filter (\<lambda>p. fst p = adm) who)"
  have dec: "rmap (\<lambda>(a, i). DecryptSplit E (es_Splits (if a then adm else prov) ! i) (sk (a, i)) chainID) who = Inr (map ?K who)"
    using who(2) ka kp by (intro rmap_total) (auto simp: half_recovers_def split: if_splits)
  have idx: "distinct (?I a)" "\<forall>i \<in> set (?I a). i < length (es_Splits (if a then adm else prov))" for a
    using who by (auto simp: distinct_map inj_on_def)
  have part: "filter (\<lambda>k. pw_IsAdmin (ks_PartialID (ks_Data k))) (map ?K who) = map ((!) ka) (?I True)"
    "filter (\<lambda>k. \<not> pw_IsAdmin (ks_PartialID (ks_Data k))) (map ?K who) = map ((!) kp) (?I False)"
    using who(2) ka kp by (induction who) (auto simp: half_recovers_def split: if_splits)
  have sums: "weight_of ws who a = (\<Sum>i\<leftarrow>?I a. unat (ws ! i))" for ws a
    by (simp add: weight_of_def split_def comp_def)
  have "RecoverWallet E B (map ?K who) ?md = Inr (restored_copy w)"
    using half_recoversD [OF ka idx(1) [of True]] half_recoversD [OF kp idx(1) [of False]] idx(2) [of True] idx(2) [of False] enough
    by (intro RecoverWallet_ok [OF spec(1) md idf(3-5,2,1) keys parts]) (simp_all add: part sums)
  then show ?thesis using dec by blast
qed

end
