(* ===== verification/Wallet_Processor.thy ===== *)
theory Wallet_Processor
  imports Instructions Wallet_Storage Backup_Recover
begin

text \<open>
  The wallet instruction handlers \<open>KeyGenerate\<close>, \<open>KeyDelete\<close>, \<open>KeyDataProviderRestore\<close>,
  \<open>KeyDirectBackup\<close> and \<open>KeyDirectRestore\<close> of
  \<^verbatim>\<open>src/internal/processors/instructions/walletutils/processor.go\<close> with their helpers in
  \<^verbatim>\<open>walletutil.go\<close>. Each handler holds the storage lock for the part that reads and writes the
  storage, so it is one step on \<open>Storage\<close>. \<open>ctx\<close> is the value of \<open>ctx.Err()\<close> at the single
  point where a handler asks for it; what a handler draws at random is an argument.
\<close>

section \<open>Shared parts\<close>

definition ctx_check :: "go_error option \<Rightarrow> unit res" where
  "ctx_check ctx = (case ctx of None \<Rightarrow> Inr () | Some e \<Rightarrow> Inl e)"

lemma ctx_check_Inr [res_simps]: "ctx_check ctx = Inr u \<longleftrightarrow> ctx = None"
  by (simp add: ctx_check_def split: option.split)

text \<open>
  The signed existence proof at the end of a successful generation or restore; \<open>sign_err\<close> is
  what the handler does to an error of \<open>Sign\<close>.
\<close>

definition signed_existence ::
  "'a backup_env_scheme \<Rightarrow> Node \<Rightarrow> (bytes res \<Rightarrow> bytes res) \<Rightarrow> Wallet \<Rightarrow> bytes res" where
  "signed_existence E n sign_err storedWallet =
     rbind (KeyExistenceProof E storedWallet (n_teeID n)) (\<lambda>ep.
     rbind (abi_encode_KeyExistence E ep) (\<lambda>existenceProofEncoded.
     rbind (Node_ChainID n) (\<lambda>chainID.
     rbind (KeyExistenceDataHash E ep) (\<lambda>dataHash.
     rbind (payload_Hash E TEEKeyExistence chainID dataHash) (\<lambda>h.
     rbind (sign_err (Node_Sign E n (hash_bytes h))) (\<lambda>signature.
     json_SignedProof E \<lparr>sk_KeyExistence = existenceProofEncoded, sk_Signature = signature\<rparr>))))))"

section \<open>KeyGenerate\<close>

text \<open>The part that runs at the threshold: a fresh key for an identifier never used before.\<close>

definition generate_key ::
  "'a geth_scheme \<Rightarrow> go_error option \<Rightarrow> ecdsa_priv res \<Rightarrow> KeyGenerateMsg \<Rightarrow> KeyIDPair \<Rightarrow> Storage \<Rightarrow> unit res \<times> Storage" where
  "generate_key E ctx drawn req keyIDPair s =
     stry s (ensure (\<not> WalletExistsPermanent s keyIDPair) (Err ''a permanent record of the wallet already exists'')) (\<lambda>_.
     stry s (GenerateNewKey E drawn req) (\<lambda>key.
     stry s (ctx_check ctx) (\<lambda>_. Store s key)))"

definition KeyGenerate ::
  "'a backup_env_scheme \<Rightarrow> Node \<Rightarrow> go_error option \<Rightarrow> ecdsa_priv res \<Rightarrow> Storage handler" where
  "KeyGenerate E n ctx drawn submissionTag dataFixed variableMessages signers signingPolicy s =
     stry s (ParseKeyGenerate E dataFixed) (\<lambda>req.
     stry s (CheckKeyGenerate req (n_teeID n)) (\<lambda>_.
     let keyIDPair = \<lparr>kp_WalletID = kg_WalletId req, kp_KeyID = kg_KeyId req\<rparr> in
     sbind (if submissionTag = Threshold then generate_key E ctx drawn req keyIDPair s else (Inr (), s)) (\<lambda>s1 _.
     stry s1 (Get s1 keyIDPair) (\<lambda>storedWallet.
     stry s1 (signed_existence E n (\<lambda>x. x) storedWallet) (\<lambda>resultEncoded.
     (Inr (resultEncoded, []), s1))))))"

section \<open>KeyDelete\<close>

definition KeyDelete :: "'a backup_env_scheme \<Rightarrow> Node \<Rightarrow> go_error option \<Rightarrow> Storage handler" where
  "KeyDelete E n ctx submissionTag dataFixed variableMessages signers signingPolicy s =
     stry s (ParseKeyDelete E dataFixed) (\<lambda>req.
     stry s (ensure (kd_TeeId req = n_teeID n) (Err ''instruction teeId does not match this TEE'')) (\<lambda>_.
     stry s (ensure (IsUint64 (kd_Nonce req)) (Err ''nonce too large'')) (\<lambda>_.
     let i = \<lparr>kp_WalletID = kd_WalletId req, kp_KeyID = kd_KeyId req\<rparr>;
         nonce = Uint64 (kd_Nonce req) in
     stry s (ensure (WalletExistsPermanent s i) (Err ''wallet never existed'')) (\<lambda>_.
     if submissionTag = Threshold then
       stry s (CheckNonce s i nonce) (\<lambda>_.
       let additionalResultStatus = (if \<not> WalletExists s i then string_bytes ''key not stored'' else []) in
       stry s (ctx_check ctx) (\<lambda>_.
       let s1 = snd (Remove s i); s2 = UpdateNonce s1 i nonce in
       stry s2 (json_KeyIDPair E i) (\<lambda>encodedID. (Inr (encodedID, additionalResultStatus), s2))))
     else if submissionTag = End then
       stry s (ensure (\<not> WalletExists s i) (Err ''wallet not deleted, still exists'')) (\<lambda>_.
       stry s (ensure (CheckNonce s i nonce \<noteq> Inr ()) (Err ''nonce not used'')) (\<lambda>_.
       (Inr ([], []), s)))
     else (Inl (Err ''unexpected submission tag''), s)))))"

section \<open>KeyDataProviderRestore\<close>

definition backupRequestToID :: "KeyDataProviderRestoreMsg \<Rightarrow> WalletBackupID res" where
  "backupRequestToID req =
     (let b = kr_BackupId req in
      rbind (ensure (length (bi_PublicKey b) = 64) (Err ''unsupported public key format'')) (\<lambda>_.
      Inr \<lparr>wb_TeeID = bi_TeeId b, wb_WalletID = bi_WalletId b, wb_KeyID = bi_KeyId b, wb_PublicKey = bi_PublicKey b,
        wb_KeyType = bi_KeyType b, wb_SigningAlgo = bi_SigningAlgo b, wb_RewardEpochID = bi_RewardEpochId b,
        wb_RandomNonce = bi_RandomNonce b\<rparr>))"

definition keyRestoreDataCheck ::
  "'a backup_env_scheme \<Rightarrow> DataFixed \<Rightarrow> address \<Rightarrow> (WalletBackupMetaData \<times> uint64) res" where
  "keyRestoreDataCheck E instructionData teeID =
     rbind (ParseKeyDataProviderRestore E instructionData) (\<lambda>restoreRequest.
     rbind (ParsePubKey E (kr_TeePublicKey restoreRequest)) (\<lambda>teePubKey.
     rbind (ensure (PubkeyToAddress E teePubKey = teeID) (Err ''teeID does not match given public key'')) (\<lambda>_.
     rbind (ensure (bi_SigningAlgo (kr_BackupId restoreRequest) \<in> set Algos) (Err ''signing algorithm not supported'')) (\<lambda>_.
     rbind (unjson_MetaData E (df_AdditionalFixedMessage instructionData)) (\<lambda>backupMetadata.
     rbind (ValidateWalletMemberCounts (length (md_AdminsPublicKeys backupMetadata)) (length (md_Cosigners backupMetadata))) (\<lambda>_.
     rbind (backupRequestToID restoreRequest) (\<lambda>backupID.
     rbind (WalletBackupID_Equal E (md_ID backupMetadata) backupID) (\<lambda>_.
     rbind (ensure (\<not> (ucast (wb_RewardEpochID backupID) :: uint64) > ucast (df_RewardEpochID instructionData) + 1)
       (Errf ''backup reward epoch %d is in the future of instruction reward epoch %d''
         [uint (wb_RewardEpochID backupID), uint (df_RewardEpochID instructionData)])) (\<lambda>_.
     rbind (PubKeysToAddresses E (md_AdminsPublicKeys backupMetadata)) (\<lambda>adminAddresses.
     rbind (ensure (\<not> HasDuplicateAddresses adminAddresses) (Err ''backup metadata contains duplicate admin addresses'')) (\<lambda>_.
     rbind (ensure (\<not> HasDuplicateAddresses (md_Cosigners backupMetadata))
       (Err ''backup metadata contains duplicate cosigner addresses'')) (\<lambda>_.
     rbind (ensure (\<not> md_CosignersThreshold backupMetadata > word_of_nat (length (md_Cosigners backupMetadata)))
       (Err ''backup metadata cosigners threshold is greater than the number of cosigners'')) (\<lambda>_.
     rbind (CheckMatchingCosigners (df_Cosigners instructionData) adminAddresses (df_CosignersThreshold instructionData)
       (md_AdminsThreshold backupMetadata)) (\<lambda>_.
     rbind (ensure (IsUint64 (kr_Nonce restoreRequest)) (Err ''nonce too large'')) (\<lambda>_.
     Inr (backupMetadata, Uint64 (kr_Nonce restoreRequest)))))))))))))))))"

definition maxKeySplitsPerMessage :: nat where "maxKeySplitsPerMessage = 2"

definition json_whitespace :: "byte list" where "json_whitespace = [32, 9, 13, 10]"

definition processKeySplitPlaintext ::
  "'a backup_env_scheme \<Rightarrow> bytes \<Rightarrow> WalletBackupID \<Rightarrow> uint64 \<Rightarrow> KeySplit list res" where
  "processKeySplitPlaintext E plaintext walletBackupID chainID =
     (let trimmed = dropWhile (\<lambda>b. b \<in> set json_whitespace) plaintext in
      rbind (if length trimmed > 0 \<and> trimmed ! 0 = 91
             then rbind (unjson_KeySplits E plaintext) (\<lambda>decoded.
               rbind (ensure (\<not> (length decoded = 0 \<or> length decoded > maxKeySplitsPerMessage))
                 (Errf ''expected between 1 and %d key splits, got %d''
                   [int maxKeySplitsPerMessage, int (length decoded)])) (\<lambda>_. Inr decoded))
             else rbind (unjson_KeySplit E plaintext) (\<lambda>keySplit. Inr [keySplit])) (\<lambda>keySplits.
      rbind (rmap (\<lambda>keySplit.
         rbind (ensure (WalletBackupID_Equal E (pw_ID (ks_PartialID (ks_Data keySplit))) walletBackupID = Inr ())
           (Err ''wallet backup id in the share does not match the id in the key split'')) (\<lambda>_.
         KeySplit_VerifySignature E keySplit chainID)) keySplits) (\<lambda>_.
      Inr keySplits)))"

text \<open>The accumulator of the loops: the duplicate table, the splits kept, the status.\<close>

fun collect_splits ::
  "'a backup_env_scheme \<Rightarrow> nat \<Rightarrow> KeySplit list \<Rightarrow> hash list \<times> KeySplit list \<times> KeyDataProviderRestoreResultStatus
   \<Rightarrow> hash list \<times> KeySplit list \<times> KeyDataProviderRestoreResultStatus" where
  "collect_splits E i [] acc = acc"
| "collect_splits E i (keySplit # rest) (dup, allKeySplits, status) =
     (case KeySplitData_HashForSigning E (ks_Data keySplit) of
        Inl err \<Rightarrow> collect_splits E i rest (dup, allKeySplits, AddError status i err)
      | Inr h \<Rightarrow> if h \<in> set dup
          then collect_splits E i rest (dup, allKeySplits, AddError status i (Err ''duplicate key split''))
          else collect_splits E i rest (h # dup, allKeySplits @ [keySplit], status))"

fun collect_messages ::
  "'a backup_env_scheme \<Rightarrow> Node \<Rightarrow> WalletBackupID \<Rightarrow> uint64 \<Rightarrow> nat \<Rightarrow> bytes list
   \<Rightarrow> hash list \<times> KeySplit list \<times> KeyDataProviderRestoreResultStatus
   \<Rightarrow> hash list \<times> KeySplit list \<times> KeyDataProviderRestoreResultStatus" where
  "collect_messages E n backupId chainID i [] acc = acc"
| "collect_messages E n backupId chainID i (m # ms) (dup, allKeySplits, status) =
     collect_messages E n backupId chainID (Suc i) ms
       (case rbind (Node_Decrypt E n m) (\<lambda>plaintext. processKeySplitPlaintext E plaintext backupId chainID) of
          Inl err \<Rightarrow> (dup, allKeySplits, AddError status i err)
        | Inr keySplits \<Rightarrow> collect_splits E i keySplits (dup, allKeySplits, status))"

definition processKeySplitMessages ::
  "'a backup_env_scheme \<Rightarrow> Node \<Rightarrow> bytes list \<Rightarrow> WalletBackupID \<Rightarrow> (KeySplit list \<times> bytes) res" where
  "processKeySplitMessages E n variableMessages walletBackupId =
     rbind (Node_ChainID n) (\<lambda>chainID.
     let (_, allKeySplits, restoreStatus) =
       collect_messages E n walletBackupId chainID 0 variableMessages ([], [], NewKeyDataProviderRestoreResultStatus) in
     rbind (json_RestoreStatus E restoreStatus) (\<lambda>resultStatus.
     Inr (allKeySplits, resultStatus)))"

text \<open>
  The storage part that the two restores share: a key that is not stored, with a fresh
  nonce when it has a permanent record, is stored and its nonce set.
\<close>

definition restore_wallet ::
  "'a backup_env_scheme \<Rightarrow> Node \<Rightarrow> go_error option \<Rightarrow> KeyIDPair \<Rightarrow> Wallet \<Rightarrow> uint64 \<Rightarrow> Storage \<Rightarrow> bytes res \<times> Storage" where
  "restore_wallet E n ctx i recovered nonce s =
     stry s (ensure (\<not> WalletExists s i) (Err ''wallet with given wallet-key id already exists'')) (\<lambda>_.
     stry s (if WalletExistsPermanent s i then CheckNonce s i nonce else Inr ()) (\<lambda>_.
     stry s (ctx_check ctx) (\<lambda>_.
     sbind (Store s recovered) (\<lambda>s1 _.
     let s2 = UpdateNonce s1 i nonce in
     stry s2 (Get s2 i) (\<lambda>storedWallet.
     stry s2 (signed_existence E n (rerr (Err ''cannot sign existence proof'')) storedWallet) (\<lambda>resultEncoded.
     (Inr resultEncoded, s2)))))))"

text \<open>The check of the \<open>End\<close> phase of the two restores.\<close>

definition restored_check :: "string \<Rightarrow> KeyIDPair \<Rightarrow> uint64 \<Rightarrow> Storage \<Rightarrow> unit res" where
  "restored_check missing i nonce s =
     rbind (ensure (WalletExists s i) (Err missing)) (\<lambda>_.
     rbind (Nonce s i) (\<lambda>checkNonce.
     ensure (checkNonce = nonce) (Err ''wallet nonce already changed'')))"

definition KeyDataProviderRestore ::
  "'a backup_env_scheme \<Rightarrow> bigmod \<Rightarrow> Node \<Rightarrow> go_error option \<Rightarrow> Storage handler" where
  "KeyDataProviderRestore E B n ctx submissionTag dataFixed variableMessages signers signingPolicy s =
     stry s (keyRestoreDataCheck E dataFixed (n_teeID n)) (\<lambda>(metadata, nonce).
     let backupID = md_ID metadata; i = \<lparr>kp_WalletID = wb_WalletID backupID, kp_KeyID = wb_KeyID backupID\<rparr> in
     stry s (processKeySplitMessages E n variableMessages backupID) (\<lambda>(keySplits, status).
     stry s (RecoverWallet E B keySplits metadata) (\<lambda>recoveredWallet.
     if submissionTag = Threshold then
       sbind (restore_wallet E n ctx i recoveredWallet nonce s) (\<lambda>s1 resultEncoded. (Inr (resultEncoded, status), s1))
     else if submissionTag = End then
       stry s (restored_check ''wallet does not exists'' i nonce s) (\<lambda>_. (Inr ([], status), s))
     else (Inl (Err ''unexpected submission tag''), s))))"

section \<open>KeyDirectBackup and KeyDirectRestore\<close>

definition pathAuthorizes :: "MachinePath list \<Rightarrow> address \<Rightarrow> address \<Rightarrow> bool" where
  "pathAuthorizes paths source destination \<longleftrightarrow>
     (\<exists>p \<in> set paths. source \<in> set (mp_SourceTeeIds p) \<and> destination \<in> set (mp_DestinationTeeIds p))"

definition validateKeyDirectRestoreRequest :: "Node \<Rightarrow> KeyDirectRestoreMsg \<Rightarrow> uint64 res" where
  "validateKeyDirectRestoreRequest n req =
     rbind (ensure (bi_TeeId (dr_BackupId req) = dr_SourceTeeId req)
       (Err ''instruction BackupId.teeId does not match sourceTeeId'')) (\<lambda>_.
     rbind (ensure (IsUint64 (dr_MachinePathListNonce req)) (Err ''machinePathListNonce too large'')) (\<lambda>_.
     let machinePathListNonce = Uint64 (dr_MachinePathListNonce req);
         (paths, currentMachinePathListNonce) = MachinePaths n in
     rbind (ensure (\<not> machinePathListNonce > currentMachinePathListNonce)
       (Errf ''stale node state: instruction machine-path-list nonce %d above node's %d''
         [uint machinePathListNonce, uint currentMachinePathListNonce])) (\<lambda>_.
     rbind (ensure (pathAuthorizes paths (dr_SourceTeeId req) (n_teeID n))
       (Err ''no machine path authorizes this source TEE and this destination TEE'')) (\<lambda>_.
     rbind (ensure (IsUint64 (dr_DestinationNonce req)) (Err ''destinationNonce too large'')) (\<lambda>_.
     Inr (Uint64 (dr_DestinationNonce req)))))))"

definition validateKeyDirectBackupRequest :: "'a geth_scheme \<Rightarrow> Node \<Rightarrow> KeyDirectBackupMsg \<Rightarrow> ecdsa_pub res" where
  "validateKeyDirectBackupRequest G n req =
     rbind (ensure (db_SourceTeeId req = n_teeID n) (Err ''requested sourceTeeId does not match this TEE'')) (\<lambda>_.
     rbind (ensure (IsUint64 (db_MachinePathListNonce req)) (Err ''machinePathListNonce too large'')) (\<lambda>_.
     rbind (ParsePubKey G (db_DestinationTeePublicKey req)) (\<lambda>destinationPubKey.
     let machinePathListNonce = Uint64 (db_MachinePathListNonce req);
         (paths, currentMachinePathListNonce) = MachinePaths n in
     rbind (ensure (machinePathListNonce = currentMachinePathListNonce)
       (Errf ''machine-path-list nonce mismatch: instruction %d, node %d''
         [uint machinePathListNonce, uint currentMachinePathListNonce])) (\<lambda>_.
     rbind (ensure (pathAuthorizes paths (n_teeID n) (PubkeyToAddress G destinationPubKey))
       (Err ''no machine path authorizes this source and destination TEE'')) (\<lambda>_.
     Inr destinationPubKey)))))"

definition direct_envelope ::
  "'a backup_env_scheme \<Rightarrow> Node \<Rightarrow> nat \<Rightarrow> ecdsa_pub \<Rightarrow> uint32 \<Rightarrow> hash \<Rightarrow> Wallet \<Rightarrow> bytes res" where
  "direct_envelope E n ecies_rnd destinationPubKey rewardEpochID randomNonce w =
     rbind (ensure (SigningAlgo w \<in> set Algos) (Err ''unsupported signing algorithm'')) (\<lambda>_.
     rbind (Encrypt E ecies_rnd (PrivateKey w) destinationPubKey) (\<lambda>encryptedPrivateKey.
     rbind (NewKeyDirectBackupPayload E w (n_teeID n) encryptedPrivateKey rewardEpochID randomNonce) (\<lambda>payload.
     rbind (json_DirectPayload E payload) (\<lambda>payloadBytes.
     rbind (Node_ChainID n) (\<lambda>chainID.
     rbind (payload_Hash E TEEKeyDirectBackup chainID (Keccak256Hash E payloadBytes)) (\<lambda>signHash.
     rbind (Node_Sign E n (hash_bytes signHash)) (\<lambda>signature.
     json_SignedDirect E \<lparr>sd_Payload = payloadBytes, sd_TEESignature = signature\<rparr>)))))))"

definition KeyDirectBackup ::
  "'a backup_env_scheme \<Rightarrow> Node \<Rightarrow> go_error option \<Rightarrow> hash res \<Rightarrow> nat \<Rightarrow> Storage handler" where
  "KeyDirectBackup E n ctx random_Hash ecies_rnd submissionTag dataFixed variableMessages signers signingPolicy s =
     stry s (ParseKeyDirectBackup E dataFixed) (\<lambda>req.
     stry s (validateKeyDirectBackupRequest E n req) (\<lambda>destinationPubKey.
     let i = \<lparr>kp_WalletID = db_WalletId req, kp_KeyID = db_KeyId req\<rparr> in
     if submissionTag = Threshold then
       stry s random_Hash (\<lambda>randomNonce.
       stry s (Get s i) (\<lambda>w.
       stry s (direct_envelope E n ecies_rnd destinationPubKey (df_RewardEpochID dataFixed) randomNonce w) (\<lambda>envelopeBytes.
       stry s (ctx_check ctx) (\<lambda>_.
       (Inr (envelopeBytes, []), s)))))
     else if submissionTag = End then
       stry s (ensure (WalletExists s i) (Err ''wallet does not exist'')) (\<lambda>_. (Inr ([], []), s))
     else (Inl (Err ''unexpected submission tag''), s)))"

definition matchesInstructionBackupId :: "'a flare_scheme \<Rightarrow> WalletBackupID \<Rightarrow> BackupIdMsg \<Rightarrow> unit res" where
  "matchesInstructionBackupId F payloadID b =
     rwrap ''payload BackupID does not match instruction BackupId''
       (WalletBackupID_Equal F payloadID
         \<lparr>wb_TeeID = bi_TeeId b, wb_WalletID = bi_WalletId b, wb_KeyID = bi_KeyId b, wb_PublicKey = bi_PublicKey b,
          wb_KeyType = bi_KeyType b, wb_SigningAlgo = bi_SigningAlgo b, wb_RewardEpochID = bi_RewardEpochId b,
          wb_RandomNonce = bi_RandomNonce b\<rparr>)"

text \<open>From the envelope of the instruction to the restored wallet.\<close>

definition open_envelope ::
  "'a backup_env_scheme \<Rightarrow> Node \<Rightarrow> DataFixed \<Rightarrow> KeyDirectRestoreMsg \<Rightarrow> Wallet res" where
  "open_envelope E n dataFixed req =
     rbind (ensure (length (df_AdditionalFixedMessage dataFixed) \<noteq> 0) (Err ''backup envelope missing'')) (\<lambda>_.
     rbind (unjson_SignedDirect E (df_AdditionalFixedMessage dataFixed)) (\<lambda>envelope.
     rbind (Node_ChainID n) (\<lambda>chainID.
     rbind (payload_Hash E TEEKeyDirectBackup chainID (Keccak256Hash E (sd_Payload envelope))) (\<lambda>envelopeSignHash.
     rbind (VerifySignature E (hash_bytes envelopeSignHash) (sd_TEESignature envelope) (dr_SourceTeeId req)) (\<lambda>_.
     rbind (unjson_DirectPayload E (sd_Payload envelope)) (\<lambda>payload.
     rbind (ValidateWalletMemberCounts (length (dp_AdminPublicKeys payload)) (length (dp_Cosigners payload))) (\<lambda>_.
     rbind (matchesInstructionBackupId E (dp_BackupID payload) (dr_BackupId req)) (\<lambda>_.
     rbind (ensure (df_RewardEpochID dataFixed = wb_RewardEpochID (dp_BackupID payload)
          \<or> df_RewardEpochID dataFixed = wb_RewardEpochID (dp_BackupID payload) + 1)
       (Errf ''stale backup: restore reward epoch %d not in {%d, %d}''
         [uint (df_RewardEpochID dataFixed), uint (wb_RewardEpochID (dp_BackupID payload)),
          uint (wb_RewardEpochID (dp_BackupID payload) + 1)])) (\<lambda>_.
     rbind (Node_Decrypt E n (dp_EncryptedPrivateKey payload)) (\<lambda>privateKey.
     WalletFromKeyDirectBackupPayload E payload privateKey))))))))))"

definition KeyDirectRestore :: "'a backup_env_scheme \<Rightarrow> Node \<Rightarrow> go_error option \<Rightarrow> Storage handler" where
  "KeyDirectRestore E n ctx submissionTag dataFixed variableMessages signers signingPolicy s =
     stry s (ParseKeyDirectRestore E dataFixed) (\<lambda>req.
     stry s (validateKeyDirectRestoreRequest n req) (\<lambda>destinationNonce.
     let i = \<lparr>kp_WalletID = bi_WalletId (dr_BackupId req), kp_KeyID = bi_KeyId (dr_BackupId req)\<rparr> in
     stry s (open_envelope E n dataFixed req) (\<lambda>restored.
     if submissionTag = Threshold then
       sbind (restore_wallet E n ctx i restored destinationNonce s) (\<lambda>s1 resultEncoded. (Inr (resultEncoded, []), s1))
     else if submissionTag = End then
       stry s (restored_check ''wallet does not exist'' i destinationNonce s) (\<lambda>_. (Inr ([], []), s))
     else (Inl (Err ''unexpected submission tag''), s))))"

section \<open>What a handler may do to the storage\<close>

text \<open>The three effects: nothing, a first storing, a deletion, a restore.\<close>

definition generated :: "'a geth_scheme \<Rightarrow> ecdsa_priv res \<Rightarrow> KeyGenerateMsg \<Rightarrow> Storage \<Rightarrow> Storage \<Rightarrow> bool" where
  "generated G drawn req s s' \<longleftrightarrow> (\<exists>w. GenerateNewKey G drawn req = Inr w
     \<and> \<not> WalletExistsPermanent s (idPair w) \<and> Store s w = (Inr (), s'))"

definition deleted :: "KeyIDPair \<Rightarrow> uint64 \<Rightarrow> Storage \<Rightarrow> Storage \<Rightarrow> bool" where
  "deleted i k s s' \<longleftrightarrow> CheckNonce s i k = Inr () \<and> s' = ws.delete_key s i k"

definition restored :: "KeyIDPair \<Rightarrow> Wallet \<Rightarrow> uint64 \<Rightarrow> Storage \<Rightarrow> Storage \<Rightarrow> bool" where
  "restored i w k s s' \<longleftrightarrow> \<not> WalletExists s i \<and> (WalletExistsPermanent s i \<longrightarrow> CheckNonce s i k = Inr ())
     \<and> (\<exists>s1. Store s w = (Inr (), s1) \<and> s' = UpdateNonce s1 i k)"

lemma Store_effect: "Store s w = (r, s1) \<Longrightarrow> s1 = s \<or> r = Inr () \<and> Store s w = (Inr (), s1)"
  by (cases r) (auto dest: Store_error)

lemma generate_key_effect:
  assumes "generate_key E ctx drawn req \<lparr>kp_WalletID = kg_WalletId req, kp_KeyID = kg_KeyId req\<rparr> s = (r, s')"
  shows "s' = s \<or> ctx = None \<and> generated E drawn req s s'"
proof -
  have id: "idPair w = \<lparr>kp_WalletID = kg_WalletId req, kp_KeyID = kg_KeyId req\<rparr>" if "GenerateNewKey E drawn req = Inr w" for w
    using that by (auto simp: GenerateNewKey_def res_simps idPair_def)
  show ?thesis
    using assms by (auto simp: generate_key_def stry_eq res_simps generated_def id dest: Store_effect)
qed

lemma KeyGenerate_effect:
  assumes "KeyGenerate E n ctx drawn tag d ms sg p s = (r, s')"
  shows "s' = s \<or> tag = Threshold \<and> ctx = None \<and> (\<exists>req. ParseKeyGenerate E d = Inr req
    \<and> CheckKeyGenerate req (n_teeID n) = Inr () \<and> generated E drawn req s s')"
  using assms
  by (auto simp: KeyGenerate_def stry_eq sbind_eq Let_def split: if_splits dest: generate_key_effect)

lemma KeyDelete_effect:
  assumes "KeyDelete E n ctx tag d ms sg p s = (r, s')"
  shows "s' = s \<or> tag = Threshold \<and> ctx = None \<and> (\<exists>req. ParseKeyDelete E d = Inr req \<and> kd_TeeId req = n_teeID n
          \<and> deleted \<lparr>kp_WalletID = kd_WalletId req, kp_KeyID = kd_KeyId req\<rparr> (Uint64 (kd_Nonce req)) s s')"
  using assms
  by (auto simp: KeyDelete_def stry_eq Let_def res_simps deleted_def ws.delete_key_def split: if_splits)

lemma restore_wallet_effect:
  assumes "restore_wallet E n ctx i w k s = (r, s')"
  shows "s' = s \<or> ctx = None \<and> restored i w k s s'"
  using assms
  by (auto simp: restore_wallet_def stry_eq sbind_eq Let_def res_simps restored_def split: if_splits dest: Store_error)

lemma KeyDataProviderRestore_effect:
  assumes "KeyDataProviderRestore E B n ctx tag d ms sg p s = (r, s')"
  shows "s' = s \<or> tag = Threshold \<and> ctx = None \<and> (\<exists>md nonce splits st w. keyRestoreDataCheck E d (n_teeID n) = Inr (md, nonce)
     \<and> processKeySplitMessages E n ms (md_ID md) = Inr (splits, st) \<and> RecoverWallet E B splits md = Inr w
     \<and> restored \<lparr>kp_WalletID = wb_WalletID (md_ID md), kp_KeyID = wb_KeyID (md_ID md)\<rparr> w nonce s s')"
  using assms
  by (auto simp: KeyDataProviderRestore_def stry_eq sbind_eq Let_def split: if_splits dest!: restore_wallet_effect)

lemma KeyDirectBackup_effect: "KeyDirectBackup E n ctx rh er tag d ms sg p s = (r, s') \<Longrightarrow> s' = s"
  by (auto simp: KeyDirectBackup_def stry_eq Let_def split: if_splits)

lemma KeyDirectRestore_effect:
  assumes "KeyDirectRestore E n ctx tag d ms sg p s = (r, s')"
  shows "s' = s \<or> tag = Threshold \<and> ctx = None \<and> (\<exists>req nonce w. ParseKeyDirectRestore E d = Inr req
     \<and> validateKeyDirectRestoreRequest n req = Inr nonce \<and> open_envelope E n d req = Inr w
     \<and> restored \<lparr>kp_WalletID = bi_WalletId (dr_BackupId req), kp_KeyID = bi_KeyId (dr_BackupId req)\<rparr> w nonce s s')"
  using assms
  by (auto simp: KeyDirectRestore_def stry_eq sbind_eq Let_def split: if_splits dest!: restore_wallet_effect)

text \<open>The second phase of an instruction, and an unknown one, change nothing.\<close>

lemma not_threshold_unchanged:
  assumes "tag \<noteq> Threshold"
  shows "snd (KeyGenerate E n ctx drawn tag d ms sg p s) = s" "snd (KeyDelete E n ctx tag d ms sg p s) = s"
    "snd (KeyDataProviderRestore E B n ctx tag d ms sg p s) = s" "snd (KeyDirectBackup E n ctx rh er tag d ms sg p s) = s"
    "snd (KeyDirectRestore E n ctx tag d ms sg p s) = s"
  using assms KeyGenerate_effect [OF surjective_pairing, of E n ctx drawn tag d ms sg p s]
    KeyDelete_effect [OF surjective_pairing, of E n ctx tag d ms sg p s]
    KeyDataProviderRestore_effect [OF surjective_pairing, of E B n ctx tag d ms sg p s]
    KeyDirectBackup_effect [OF surjective_pairing, of E n ctx rh er tag d ms sg p s]
    KeyDirectRestore_effect [OF surjective_pairing, of E n ctx tag d ms sg p s]
  by auto

section \<open>Runs of wallet instructions\<close>

text \<open>
  The steps of the storage: the five handlers, and the locked section of a restore alone, for a run in
  which another goroutine changed the node after the handler had read it.
\<close>

inductive wallet_step :: "'a backup_env_scheme \<Rightarrow> bigmod \<Rightarrow> Storage \<Rightarrow> Storage \<Rightarrow> bool" for E B where
  step_generate: "wallet_step E B s (snd (KeyGenerate E n ctx drawn tag d ms sg p s))"
| step_delete: "wallet_step E B s (snd (KeyDelete E n ctx tag d ms sg p s))"
| step_restore: "wallet_step E B s (snd (KeyDataProviderRestore E B n ctx tag d ms sg p s))"
| step_direct_backup: "wallet_step E B s (snd (KeyDirectBackup E n ctx rh er tag d ms sg p s))"
| step_direct_restore: "wallet_step E B s (snd (KeyDirectRestore E n ctx tag d ms sg p s))"
| step_restore_section: "wallet_step E B s (snd (restore_wallet E n ctx i w k s))"

lemma wallet_step_cases:
  assumes "wallet_step E B s s'"
  obtains (same) "s' = s"
  | (generate) drawn req where "generated E drawn req s s'"
  | (delete) i k where "deleted i k s s'"
  | (restore) i w k where "restored i w k s s'"
  using assms
proof (cases rule: wallet_step.cases)
  case (step_generate n ctx drawn tag d ms sg p)
  with KeyGenerate_effect [OF surjective_pairing, of E n ctx drawn tag d ms sg p s] same generate show ?thesis by blast
next
  case (step_delete n ctx tag d ms sg p)
  with KeyDelete_effect [OF surjective_pairing, of E n ctx tag d ms sg p s] same delete show ?thesis by blast
next
  case (step_restore n ctx tag d ms sg p)
  with KeyDataProviderRestore_effect [OF surjective_pairing, of E B n ctx tag d ms sg p s] same restore show ?thesis by blast
next
  case (step_direct_backup n ctx rh er tag d ms sg p)
  with KeyDirectBackup_effect [OF surjective_pairing, of E n ctx rh er tag d ms sg p s] same show ?thesis by blast
next
  case (step_direct_restore n ctx tag d ms sg p)
  with KeyDirectRestore_effect [OF surjective_pairing, of E n ctx tag d ms sg p s] same restore show ?thesis by blast
next
  case (step_restore_section n ctx i w k)
  with restore_wallet_effect [OF surjective_pairing, of E n ctx i w k s] same restore show ?thesis by blast
qed

definition nonceOf :: "Storage \<Rightarrow> KeyIDPair \<Rightarrow> uint64 option" where
  "nonceOf s k = map_option st_Nonce (statusOf s k)"

lemma CheckNonce_nonceOf: "CheckNonce s i k = Inr () \<longleftrightarrow> (\<exists>m. nonceOf s i = Some m \<and> m < k)"
  by (auto simp: ws.check_nonce_ok nonceOf_def)

lemma WalletExistsPermanent_nonceOf: "WalletExistsPermanent s i \<longleftrightarrow> nonceOf s i \<noteq> None"
  by (simp add: WalletExistsPermanent_def nonceOf_def statusOf_def)

lemma WalletExists_walletsOf: "WalletExists s i \<longleftrightarrow> walletsOf s i \<noteq> None"
  by (simp add: WalletExists_def walletsOf_def)

lemma nonceOf_store:
  assumes "storage_inv s" and "Store s w = (Inr (), s')"
  shows "nonceOf s' = (if nonceOf s (idPair w) = None then (nonceOf s)(idPair w \<mapsto> st_Nonce (Status w)) else nonceOf s)"
  using ws.store_status [OF assms] by (auto simp: nonceOf_def fun_eq_iff)

lemma nonceOf_update:
  assumes "storage_inv s"
  shows "nonceOf (UpdateNonce s i k) = (if nonceOf s i = None then nonceOf s else (nonceOf s)(i \<mapsto> k))"
  using ws.update_status [OF assms, of i k] by (auto simp: nonceOf_def fun_eq_iff)

lemma nonceOf_deleted:
  assumes "storage_inv s" and "deleted i k s s'"
  shows "nonceOf s' = (nonceOf s)(i \<mapsto> k)" and "walletsOf s' = (walletsOf s)(i := None)" and "storage_inv s'"
    and "\<exists>m < k. nonceOf s i = Some m"
proof -
  have c: "CheckNonce s i k = Inr ()" and s': "s' = ws.delete_key s i k" using assms(2) by (auto simp: deleted_def)
  have "nonceOf (snd (Remove s i)) = nonceOf s" by (simp add: nonceOf_def ws.remove_status fun_eq_iff)
  then show "nonceOf s' = (nonceOf s)(i \<mapsto> k)"
    using c nonceOf_update [OF ws.remove_inv [OF assms(1)], of i i k] by (auto simp: s' ws.delete_key_def CheckNonce_nonceOf)
  show "walletsOf s' = (walletsOf s)(i := None)"
    by (simp add: s' ws.delete_key_def ws.update_wallets ws.remove_wallets)
  show "storage_inv s'" using assms(1) by (simp add: s' ws.delete_key_def ws.update_inv ws.remove_inv)
  show "\<exists>m < k. nonceOf s i = Some m" using c by (auto simp: CheckNonce_nonceOf)
qed

lemma nonceOf_restored:
  assumes "storage_inv s" and "restored i w k s s'"
  shows "j \<noteq> i \<Longrightarrow> j \<noteq> idPair w \<Longrightarrow> nonceOf s' j = nonceOf s j"
    and "walletsOf s' = (walletsOf s)(idPair w \<mapsto> data_of w)" and "storage_inv s'"
    and "nonceOf s i = Some m \<Longrightarrow> m < k"
    and "nonceOf s j = Some m \<Longrightarrow> \<exists>m' \<ge> m. nonceOf s' j = Some m'"
    and "idPair w = i \<Longrightarrow> nonceOf s' i = Some k"
proof -
  obtain s1 where s1: "Store s w = (Inr (), s1)" "s' = UpdateNonce s1 i k"
    and c: "WalletExistsPermanent s i \<Longrightarrow> CheckNonce s i k = Inr ()"
    using assms(2) by (auto simp: restored_def)
  have inv: "storage_inv s1" by (rule ws.store_inv [OF assms(1) s1(1)])
  note n1 = nonceOf_store [OF assms(1) s1(1)] and n2 = nonceOf_update [OF inv, of i k]
  show "storage_inv s'" using inv by (simp add: s1(2) ws.update_inv)
  show "walletsOf s' = (walletsOf s)(idPair w \<mapsto> data_of w)"
    using ws.store_wallets [OF assms(1) s1(1)] by (simp add: s1(2) ws.update_wallets)
  show lt: "nonceOf s i = Some m \<Longrightarrow> m < k" for m
    using c by (auto simp: WalletExistsPermanent_nonceOf CheckNonce_nonceOf)
  show "j \<noteq> i \<Longrightarrow> j \<noteq> idPair w \<Longrightarrow> nonceOf s' j = nonceOf s j" using n1 n2 by (auto simp: s1(2))
  show "idPair w = i \<Longrightarrow> nonceOf s' i = Some k" using n1 n2 by (auto simp: s1(2))
  show "nonceOf s j = Some m \<Longrightarrow> \<exists>m' \<ge> m. nonceOf s' j = Some m'"
    using n1 n2 lt by (auto simp: s1(2) less_imp_le)
qed

lemma wallet_step_ratchet:
  assumes "wallet_step E B s s'" and "storage_inv s"
  shows "storage_inv s'" and "nonceOf s k = Some n \<Longrightarrow> \<exists>m \<ge> n. nonceOf s' k = Some m"
proof -
  from assms(1) have "storage_inv s' \<and> (nonceOf s k = Some n \<longrightarrow> (\<exists>m \<ge> n. nonceOf s' k = Some m))"
  proof (cases rule: wallet_step_cases)
    case same
    then show ?thesis using assms(2) by auto
  next
    case (generate drawn req)
    then obtain w where "Store s w = (Inr (), s')" by (auto simp: generated_def)
    then show ?thesis using ws.store_inv [OF assms(2)] nonceOf_store [OF assms(2)] by auto
  next
    case (delete i l)
    then show ?thesis using nonceOf_deleted [OF assms(2) delete] by auto
  next
    case (restore i w l)
    then show ?thesis using nonceOf_restored(3,5) [OF assms(2) restore] by blast
  qed
  then show "storage_inv s'" and "nonceOf s k = Some n \<Longrightarrow> \<exists>m \<ge> n. nonceOf s' k = Some m" by blast+
qed

interpretation wr: ratchet "wallet_step E B" storage_inv nonceOf for E B
  by unfold_locales (auto intro: wallet_step_ratchet)

end
