(* ===== verification/Policy_Processor.thy ===== *)
theory Policy_Processor
  imports Processor_Utils Node
begin

text \<open>
  The policy and governance instructions
  \<^verbatim>\<open>src/internal/processors/direct/policyutils/processor.go\<close>: \<open>InitializePolicy\<close> and
  \<open>UpdatePolicy\<close> work on the policy storage under its lock, \<open>SetMachinePathList\<close> on the node.
  \<open>ctx\<close> is the value of \<open>ctx.Err()\<close> where a handler asks for it.
\<close>

section \<open>Definitions\<close>

definition ctx_err :: "go_error option \<Rightarrow> unit res" where
  "ctx_err ctx = (case ctx of None \<Rightarrow> Inr () | Some e \<Rightarrow> Inl e)"

lemma ctx_err_Inr [res_simps]: "ctx_err ctx = Inr u \<longleftrightarrow> ctx = None"
  by (simp add: ctx_err_def split: option.split)

fun public_keys_loop ::
  "'a geth_scheme \<Rightarrow> PublicKey list \<Rightarrow> address list \<Rightarrow> (address \<times> ecdsa_pub) list \<Rightarrow> (address \<times> ecdsa_pub) list res" where
  "public_keys_loop G (pubKey # ks) (voter # vs) pubKeysMap =
     rbind (ParsePubKey G pubKey) (\<lambda>pubKeyECDSA.
     let addr = PubkeyToAddress G pubKeyECDSA in
     rbind (ensure (addr = voter) (Err ''public key and address do not match'')) (\<lambda>_.
     public_keys_loop G ks vs (AList.update addr pubKeyECDSA pubKeysMap)))"
| "public_keys_loop G _ _ pubKeysMap = Inr pubKeysMap"

definition processPolicyPublicKeys ::
  "'a geth_scheme \<Rightarrow> PublicKey list \<Rightarrow> SigningPolicy \<Rightarrow> (address \<times> ecdsa_pub) list res" where
  "processPolicyPublicKeys G publicKeys sigPolicy =
     rbind (ensure (length publicKeys = length (voters sigPolicy))
       (Err ''the number of public keys and the number of voters do not match'')) (\<lambda>_.
     public_keys_loop G publicKeys (voters sigPolicy) [])"

definition processUpdatePolicyRequest ::
  "'a flare_scheme \<Rightarrow> Node \<Rightarrow> PolicyStorage \<Rightarrow> MultiSignedPolicy \<Rightarrow> SigningPolicy res" where
  "processUpdatePolicyRequest F n s signedPolicy =
     rbind (FromRawBytes F (ms_PolicyBytes signedPolicy)) (\<lambda>newPolicy.
     rbind (ActiveSigningPolicy s) (\<lambda>activePolicy.
     rbind (ensure (sp_RewardEpochID newPolicy = sp_RewardEpochID activePolicy + 1) (Err ''policy is not active'')) (\<lambda>_.
     rbind (Node_ChainID n) (\<lambda>chainID.
     let h = hash_bytes (ChainBoundHash F chainID (ms_PolicyBytes signedPolicy)) in
     rbind (rmap (\<lambda>sig. CheckSignature F h sig (vs_Voters (sp_Voters activePolicy))) (ms_Signatures signedPolicy)) (\<lambda>signers.
     rbind (ensure (\<not> WeightOfSigners signers activePolicy \<le> sp_Threshold activePolicy)
       (Err ''threshold for updating policy not reached'')) (\<lambda>_.
     Inr newPolicy))))))"

definition InitializePolicy ::
  "'a processor_env_scheme \<Rightarrow> Node \<Rightarrow> go_error option \<Rightarrow> DirectInstruction \<Rightarrow> PolicyStorage \<Rightarrow> bytes res \<times> PolicyStorage" where
  "InitializePolicy P n ctx i s =
     stry s (unjson_InitializePolicyRequest P (di_Message i)) (\<lambda>req.
     stry s (case ActiveSigningPolicy s of Inr _ \<Rightarrow> Inl (Err ''policy already initialized'') | Inl _ \<Rightarrow> Inr ()) (\<lambda>_.
     stry s (FromRawBytes P (ip_InitialPolicyBytes req)) (\<lambda>initialPolicy.
     stry s (processPolicyPublicKeys P (ip_PublicKeys req) initialPolicy) (\<lambda>pubKeysMap.
     stry s (ctx_err ctx) (\<lambda>_.
     stry s (Node_ChainID n) (\<lambda>chainID.
     let (r, s1) = SetInitialPolicy P s chainID initialPolicy pubKeysMap in
     case r of
       Inl e \<Rightarrow> (Inl e, DestroyState s1)
     | Inr _ \<Rightarrow> (Inr [], s1)))))))"

definition UpdatePolicy ::
  "'a processor_env_scheme \<Rightarrow> Node \<Rightarrow> go_error option \<Rightarrow> DirectInstruction \<Rightarrow> PolicyStorage \<Rightarrow> bytes res \<times> PolicyStorage" where
  "UpdatePolicy P n ctx i s =
     stry s (unjson_UpdatePolicyRequest P (di_Message i)) (\<lambda>req.
     stry s (processUpdatePolicyRequest P n s (up_NewPolicy req)) (\<lambda>newPolicy.
     stry s (processPolicyPublicKeys P (up_PublicKeys req) newPolicy) (\<lambda>pubKeysMap.
     stry s (ctx_err ctx) (\<lambda>_.
     sbind (SetActiveSigningPolicy s newPolicy) (\<lambda>s1 _.
     sbind (SetActiveSigningPolicyPublicKeys s1 pubKeysMap) (\<lambda>s2 _.
     (Inr [], s2)))))))"

text \<open>A slice copied with \<open>append(nil, xs...)\<close> is nil when it is empty.\<close>

definition nil_slice :: "'a list \<Rightarrow> 'a list option" where
  "nil_slice xs = (if xs = [] then None else Some xs)"

text \<open>
  Each governance check reads the node under several locks, one after the other, and then decides on what it has read. The
  decisions are definitions of their own, so that the theory of threads can put the locks between them.
\<close>

definition signatures_approve ::
  "'a flare_scheme \<Rightarrow> address list \<Rightarrow> uint64 \<Rightarrow> uint64 \<Rightarrow> hash \<Rightarrow> SetMachinePathListRequest \<Rightarrow> unit res" where
  "signatures_approve F govSigners threshold chainID extensionID req =
     rbind (MachinePathListDataHash F extensionID (sm_Nonce req) (sm_Paths req)) (\<lambda>dataHash.
     rbind (payload_Hash F TEEMachinePathList chainID dataHash) (\<lambda>h.
     rbind (rmap (\<lambda>sig. CheckSignature F (hash_bytes h) sig (nil_slice govSigners)) (sm_Signatures req)) (\<lambda>signers.
     let seen = remdups signers in
     ensure (\<not> (word_of_nat (length seen) :: uint64) < threshold)
       (Errf ''governance threshold not reached: %d unique signer(s), need %d'' [int (length seen), uint threshold]))))"

definition verifyGovernanceSignatures :: "'a flare_scheme \<Rightarrow> Node \<Rightarrow> SetMachinePathListRequest \<Rightarrow> unit res" where
  "verifyGovernanceSignatures F n req =
     (let (govSigners, threshold, configured) = Governance n in
      rbind (ensure configured (Err ''governance not configured'')) (\<lambda>_.
      rbind (Node_ChainID n) (\<lambda>chainID.
      let extensionID = in_ExtensionID (Node_Info F n) in
      signatures_approve F govSigners threshold chainID extensionID req)))"

definition OperationCall :: uint8 where "OperationCall = 0"

definition safe_approves ::
  "'a flare_scheme \<Rightarrow> address list \<Rightarrow> uint64 \<Rightarrow> address \<Rightarrow> address \<Rightarrow> uint64 \<Rightarrow> hash \<Rightarrow> SetMachinePathListRequest \<Rightarrow> SafeApproval \<Rightarrow> unit res" where
  "safe_approves F govSigners threshold safeAddress teeManager chainID extensionID req approval =
     rbind (MachinePathListDataHash F extensionID (sm_Nonce req) (sm_Paths req)) (\<lambda>dataHash.
     rbind (payload_Hash F TEEMachinePathList chainID dataHash) (\<lambda>messageHash.
     rbind (ApproveMachinePathListCalldata F extensionID (sm_Nonce req) messageHash) (\<lambda>expectedData.
     rbind (ensure (sa_To approval = teeManager) (Err ''approval target is not the tee manager'')) (\<lambda>_.
     rbind (ensure (sa_Operation approval = OperationCall)
       (Errf ''approval operation %d is not CALL'' [uint (sa_Operation approval)])) (\<lambda>_.
     rbind (ensure (sa_Data approval = expectedData) (Err ''approval calldata does not bind this machine path list'')) (\<lambda>_.
     Safe_Verify F approval chainID safeAddress govSigners threshold))))))"

definition verifySafeApproval :: "'a flare_scheme \<Rightarrow> Node \<Rightarrow> SetMachinePathListRequest \<Rightarrow> SafeApproval \<Rightarrow> unit res" where
  "verifySafeApproval F n req approval =
     (let (govSigners, threshold, configured) = Governance n; (safeAddress, teeManager) = GovernanceSafe n in
      rbind (ensure configured (Err ''governance not configured'')) (\<lambda>_.
      rbind (ensure (safeAddress \<noteq> 0) (Err ''governance is not safe-backed'')) (\<lambda>_.
      rbind (Node_ChainID n) (\<lambda>chainID.
      let extensionID = in_ExtensionID (Node_Info F n) in
      safe_approves F govSigners threshold safeAddress teeManager chainID extensionID req approval))))"

definition verifyGovernanceAuthorization :: "'a flare_scheme \<Rightarrow> Node \<Rightarrow> SetMachinePathListRequest \<Rightarrow> unit res" where
  "verifyGovernanceAuthorization F n req =
     (case verifyGovernanceSignatures F n req of
        Inr _ \<Rightarrow> Inr ()
      | Inl sigErr \<Rightarrow> (case sm_SafeApproval req of
          None \<Rightarrow> Inl sigErr
        | Some approval \<Rightarrow> (case verifySafeApproval F n req approval of
            Inr _ \<Rightarrow> Inr ()
          | Inl safeErr \<Rightarrow> Inl (Wrapped ''governance signatures and safe approval'' safeErr))))"

definition direct_SetMachinePathList ::
  "'a processor_env_scheme \<Rightarrow> go_error option \<Rightarrow> DirectInstruction \<Rightarrow> Node \<Rightarrow> bytes res \<times> Node" where
  "direct_SetMachinePathList P ctx i n =
     stry n (unjson_SetMachinePathListRequest P (di_Message i)) (\<lambda>req.
     stry n (verifyGovernanceAuthorization P n req) (\<lambda>_.
     stry n (ctx_err ctx) (\<lambda>_.
     sbind (SetMachinePathList n (sm_Paths req) (sm_Nonce req)) (\<lambda>n1 _. (Inr [], n1)))))"

section \<open>Public keys of the voters\<close>

definition own_keys :: "'a geth_scheme \<Rightarrow> (address \<times> ecdsa_pub) list \<Rightarrow> bool" where
  "own_keys G m \<longleftrightarrow> (\<forall>a k. map_of m a = Some k \<longrightarrow> PubkeyToAddress G k = a)"

lemma public_keys_loop_Inr:
  assumes "public_keys_loop G ks vs m = Inr m'" and "length ks = length vs"
  shows "dom (map_of m') = dom (map_of m) \<union> set vs \<and> (own_keys G m \<longrightarrow> own_keys G m')"
  using assms
proof (induction G ks vs m rule: public_keys_loop.induct)
  case (1 G pubKey ks voter vs m)
  then obtain k where k: "ParsePubKey G pubKey = Inr k" "PubkeyToAddress G k = voter"
      "public_keys_loop G ks vs (AList.update voter k m) = Inr m'"
    by (auto simp: res_simps Let_def)
  have "own_keys G m \<longrightarrow> own_keys G (AList.update voter k m)"
    using k(2) by (simp add: own_keys_def update_conv')
  moreover have "dom (map_of (AList.update voter k m)) = insert voter (dom (map_of m))"
    by (simp add: update_conv' dom_def) blast
  ultimately show ?case using "1.IH" [OF refl, of k] k "1.prems"(2) by simp
qed auto

lemma processPolicyPublicKeys_cover:
  assumes "processPolicyPublicKeys G ks p = Inr m"
  shows "keys_cover m p" and "map_of m a = Some k \<Longrightarrow> PubkeyToAddress G k = a"
proof -
  have "public_keys_loop G ks (voters p) [] = Inr m" "length ks = length (voters p)"
    using assms by (auto simp: processPolicyPublicKeys_def res_simps)
  from public_keys_loop_Inr [OF this] have "dom (map_of m) = set (voters p)" "own_keys G m" by (auto simp: own_keys_def)
  then show "keys_cover m p" and "map_of m a = Some k \<Longrightarrow> PubkeyToAddress G k = a"
    by (auto simp: keys_cover_def own_keys_def)
qed

section \<open>What the policy instructions do to the storage\<close>

lemma processUpdatePolicyRequest_Inr:
  assumes "processUpdatePolicyRequest F n s sp = Inr q"
  obtains p chainID signers where "ps_active s = Some p" "sp_RewardEpochID q = sp_RewardEpochID p + 1"
    "FromRawBytes F (ms_PolicyBytes sp) = Inr q" "Node_ChainID n = Inr chainID"
    "rmap (\<lambda>sig. CheckSignature F (hash_bytes (ChainBoundHash F chainID (ms_PolicyBytes sp))) sig (vs_Voters (sp_Voters p)))
       (ms_Signatures sp) = Inr signers"
    "sp_Threshold p < WeightOfSigners signers p"
  using assms by (auto simp: processUpdatePolicyRequest_def res_simps Let_def)

lemma UpdatePolicy_effect:
  assumes "UpdatePolicy P n ctx i s = (r, s')" and "policy_inv s"
  shows "s' = s \<or> r = Inr [] \<and> (\<exists>req p q m. unjson_UpdatePolicyRequest P (di_Message i) = Inr req
    \<and> processUpdatePolicyRequest P n s (up_NewPolicy req) = Inr q \<and> processPolicyPublicKeys P (up_PublicKeys req) q = Inr m
    \<and> ps_active s = Some p \<and> sp_RewardEpochID q = sp_RewardEpochID p + 1 \<and> ctx = None \<and> s' = advance_policy s q m)"
proof -
  have z: "ps_initialPolicyHash s \<noteq> 0 \<and> (\<exists>p. ps_active s = Some p \<and> sp_RewardEpochID q = sp_RewardEpochID p + 1)"
    if "processUpdatePolicyRequest P n s sp = Inr q" for sp q
    using that policy_invD(1) [OF assms(2)] by (auto elim: processUpdatePolicyRequest_Inr)
  have "s' = s \<or> r = Inr [] \<and> ctx = None \<and> (\<exists>req q m. unjson_UpdatePolicyRequest P (di_Message i) = Inr req
    \<and> processUpdatePolicyRequest P n s (up_NewPolicy req) = Inr q \<and> processPolicyPublicKeys P (up_PublicKeys req) q = Inr m
    \<and> s' = advance_policy s q m)"
    using assms(1)
    by (auto simp: UpdatePolicy_def stry_eq sbind_eq res_simps SetActiveSigningPolicy_def SetActiveSigningPolicyPublicKeys_def
        advance_policy_eq z split: if_splits)
  with z show ?thesis by metis
qed

lemma InitializePolicy_effect:
  assumes "InitializePolicy P n ctx i s = (r, s')" and "policy_inv s"
  shows "s' = s \<or> s' = policy_InitializeStorage \<or> r = Inr [] \<and> ps_active s = None \<and> ctx = None
    \<and> (\<exists>req p m chainID. unjson_InitializePolicyRequest P (di_Message i) = Inr req
        \<and> FromRawBytes P (ip_InitialPolicyBytes req) = Inr p \<and> processPolicyPublicKeys P (ip_PublicKeys req) p = Inr m
        \<and> Node_ChainID n = Inr chainID \<and> policy_ChainBoundHash P p chainID \<noteq> 0
        \<and> s' = snd (SetInitialPolicy P s chainID p m) \<and> ps_active s' = Some p \<and> policy_inv s')"
proof -
  have *: "r = Inr [] \<and> policy_ChainBoundHash P p chainID \<noteq> 0 \<and> s' = snd (SetInitialPolicy P s chainID p m)
      \<and> ps_active s' = Some p \<and> policy_inv s' \<or> s' = policy_InitializeStorage"
    if "ps_active s = None" "processPolicyPublicKeys P ks p = Inr m"
      "(case SetInitialPolicy P s chainID p m of (r, s1) \<Rightarrow> case r of Inl e \<Rightarrow> (Inl e, DestroyState s1) | Inr _ \<Rightarrow> (Inr [], s1)) = (r, s')"
    for ks p m chainID
  proof (cases "policy_ChainBoundHash P p chainID = 0")
    case True
    then obtain e where "fst (SetInitialPolicy P s chainID p m) = Inl e" using SetInitialPolicy_fails by blast
    then show ?thesis using that(3) by (auto simp: split_def DestroyState_eq)
  next
    case False
    from SetInitialPolicy_ok [OF assms(2) that(1) False processPolicyPublicKeys_cover(1) [OF that(2)]]
    show ?thesis using that(3) False by (auto simp: split_def)
  qed
  show ?thesis
    using assms(1) * by (auto simp: InitializePolicy_def stry_eq res_simps ActiveSigningPolicy_def split: option.splits)
qed

section \<open>Runs of policy instructions\<close>

inductive policy_step :: "'a processor_env_scheme \<Rightarrow> PolicyStorage \<Rightarrow> PolicyStorage \<Rightarrow> bool" for P where
  step_initialize: "policy_step P s (snd (InitializePolicy P n ctx i s))"
| step_update: "policy_step P s (snd (UpdatePolicy P n ctx i s))"

lemma policy_step_inv:
  assumes "policy_step P s s'" and "policy_inv s"
  shows "policy_inv s'"
  using assms(1)
proof (cases rule: policy_step.cases)
  case (step_initialize n ctx i)
  with InitializePolicy_effect [OF surjective_pairing assms(2), of P n ctx i] assms(2) policy_InitializeStorage_inv
  show ?thesis by auto
next
  case (step_update n ctx i)
  with UpdatePolicy_effect [OF surjective_pairing assms(2), of P n ctx i] assms(2)
  show ?thesis using advance_policy_inv [OF assms(2)] processPolicyPublicKeys_cover(1) by metis
qed

lemma policy_steps_inv: "(policy_step P)\<^sup>*\<^sup>* s s' \<Longrightarrow> policy_inv s \<Longrightarrow> policy_inv s'"
  by (induction rule: rtranclp_induct) (auto dest: policy_step_inv)

text \<open>The initial policy is recorded once: no later step changes it.\<close>

interpretation initial: one_shot "\<lambda>s s'. policy_inv s \<and> policy_step P s s'"
    "\<lambda>s. ps_active s \<noteq> None" "\<lambda>s. (ps_initialPolicyID s, ps_initialPolicyHash s)" for P
proof (unfold_locales, goal_cases)
  case (1 s s')
  then have inv: "policy_inv s" and "policy_step P s s'" and act: "ps_active s \<noteq> None" by auto
  from this(2) show ?case
  proof (cases rule: policy_step.cases)
    case (step_initialize n ctx i)
    moreover have "snd (InitializePolicy P n ctx i s) = s"
      using act by (auto simp: InitializePolicy_def ActiveSigningPolicy_def stry_def split: sum.splits)
    ultimately show ?thesis using act by simp
  next
    case (step_update n ctx i)
    with UpdatePolicy_effect [OF surjective_pairing inv, of P n ctx i] act policy_invD(1) [OF inv]
    show ?thesis by (auto simp: advance_policy_eq)
  qed
qed

section \<open>Governance\<close>

lemma list_all2_setD2: "list_all2 R xs ys \<Longrightarrow> y \<in> set ys \<Longrightarrow> \<exists>x \<in> set xs. R x y"
  by (induction rule: list_all2_induct) auto

text \<open>
  Signatures alone authorise a list only when threshold many different governance signers
  signed its hash, which commits to the chain, the extension, the nonce and the paths.
\<close>

lemma verifyGovernanceSignatures_Inr:
  assumes "verifyGovernanceSignatures F n req = Inr ()" and "node_inv F n"
  obtains chainID h A where "Node_ChainID n = Inr chainID"
    "machine_path_hash F (ext_value (n_extensionID n)) chainID (sm_Nonce req) (sm_Paths req) = Inr h"
    "A \<subseteq> set (gov_signers (n_governance n))" "unat (gov_threshold (n_governance n)) \<le> card A"
    "\<forall>a \<in> A. \<exists>sig \<in> set (sm_Signatures req). SignatureToSignersAddress F (hash_bytes h) sig = Inr a"
proof -
  let ?g = "n_governance n"
  obtain chainID dh h signers where gov: "gov_set ?g" and chain: "Node_ChainID n = Inr chainID"
    and dh: "MachinePathListDataHash F (ext_value (n_extensionID n)) (sm_Nonce req) (sm_Paths req) = Inr dh"
    and h: "payload_Hash F TEEMachinePathList chainID dh = Inr h"
    and signers: "rmap (\<lambda>sig. CheckSignature F (hash_bytes h) sig (nil_slice (gov_signers ?g))) (sm_Signatures req) = Inr signers"
    and enough: "\<not> (word_of_nat (length (remdups signers)) :: uint64) < gov_threshold ?g"
    using assms(1) by (auto simp: verifyGovernanceSignatures_def signatures_approve_def Governance_def Node_Info_def Let_def res_simps)
  have "gov_signers ?g \<noteq> []" using gov assms(2) by (auto simp: node_inv_def governance_ok_def)
  then have all: "list_all2 (\<lambda>sig a. SignatureToSignersAddress F (hash_bytes h) sig = Inr a \<and> a \<in> set (gov_signers ?g))
      (sm_Signatures req) signers"
    using signers by (simp add: rmap_eq_Inr nil_slice_def CheckSignature_Some)
  have "\<exists>sig \<in> set (sm_Signatures req). SignatureToSignersAddress F (hash_bytes h) sig = Inr a \<and> a \<in> set (gov_signers ?g)"
    if "a \<in> set signers" for a
    using list_all2_setD2 [OF all that] by blast
  then show ?thesis
    using that [OF chain, of h "set signers"] of_nat_not_less [OF enough]
    by (auto simp: machine_path_hash_def dh h card_set length_remdups_card_conv)
qed

lemma direct_SetMachinePathList_effect:
  assumes "direct_SetMachinePathList P ctx i n = (r, n')"
  shows "n' = n \<or> r = Inr [] \<and> ctx = None \<and> (\<exists>req. unjson_SetMachinePathListRequest P (di_Message i) = Inr req
    \<and> verifyGovernanceAuthorization P n req = Inr () \<and> n_machinePathNonce n < sm_Nonce req
    \<and> n' = n\<lparr>n_machinePaths := sm_Paths req, n_machinePathNonce := sm_Nonce req\<rparr>)"
  using assms
  by (auto simp: direct_SetMachinePathList_def stry_eq sbind_eq res_simps SetMachinePathList_def not_le split: if_splits)

text \<open>What either of the two checks of governance establishes.\<close>

definition governance_approves :: "'a flare_scheme \<Rightarrow> Node \<Rightarrow> SetMachinePathListRequest \<Rightarrow> bool" where
  "governance_approves F n req \<longleftrightarrow> verifyGovernanceSignatures F n req = Inr ()
     \<or> (\<exists>approval. sm_SafeApproval req = Some approval \<and> verifySafeApproval F n req approval = Inr ())"

lemma verifyGovernanceAuthorization_Inr: "verifyGovernanceAuthorization F n req = Inr () \<longleftrightarrow> governance_approves F n req"
  by (auto simp: verifyGovernanceAuthorization_def governance_approves_def split: sum.split option.split)

lemma governance_approves_content:
  assumes "governance_approves F n req" and "node_inv F n"
  shows "gov_set (n_governance n) \<and> n_chainID n \<noteq> 0
    \<and> (\<exists>h. machine_path_hash F (ext_value (n_extensionID n)) (n_chainID n) (sm_Nonce req) (sm_Paths req) = Inr h
      \<and> ((\<exists>A \<subseteq> set (gov_signers (n_governance n)). unat (gov_threshold (n_governance n)) \<le> card A
             \<and> (\<forall>a \<in> A. \<exists>sig \<in> set (sm_Signatures req). SignatureToSignersAddress F (hash_bytes h) sig = Inr a))
         \<or> (\<exists>approval. sm_SafeApproval req = Some approval \<and> gov_safe (n_governance n) \<noteq> 0
              \<and> sa_To approval = gov_teeManager (n_governance n) \<and> sa_Operation approval = OperationCall
              \<and> ApproveMachinePathListCalldata F (ext_value (n_extensionID n)) (sm_Nonce req) h = Inr (sa_Data approval)
              \<and> Safe_Verify F approval (n_chainID n) (gov_safe (n_governance n)) (gov_signers (n_governance n))
                  (gov_threshold (n_governance n)) = Inr ())))"
proof -
  have set: "gov_set (n_governance n) \<and> n_chainID n \<noteq> 0"
    using assms(1) by (auto simp: governance_approves_def verifyGovernanceSignatures_def verifySafeApproval_def Governance_def GovernanceSafe_def
        Let_def res_simps Node_ChainID_def split: if_splits)
  have chain: "Node_ChainID n = Inr c \<Longrightarrow> c = n_chainID n" for c by (auto simp: Node_ChainID_def split: if_splits)
  from assms(1) consider "verifyGovernanceSignatures F n req = Inr ()"
    | approval where "sm_SafeApproval req = Some approval" "verifySafeApproval F n req approval = Inr ()"
    by (auto simp: governance_approves_def)
  then show ?thesis
  proof cases
    case 1
    from verifyGovernanceSignatures_Inr [OF this assms(2)] chain obtain h A where
      "machine_path_hash F (ext_value (n_extensionID n)) (n_chainID n) (sm_Nonce req) (sm_Paths req) = Inr h"
      "A \<subseteq> set (gov_signers (n_governance n))" "unat (gov_threshold (n_governance n)) \<le> card A"
      "\<forall>a \<in> A. \<exists>sig \<in> set (sm_Signatures req). SignatureToSignersAddress F (hash_bytes h) sig = Inr a" by metis
    then show ?thesis using set by blast
  next
    case (2 approval)
    then show ?thesis using set chain
      by (auto simp: verifySafeApproval_def safe_approves_def Governance_def GovernanceSafe_def Node_Info_def Let_def res_simps machine_path_hash_def)
  qed
qed

end
