(* ===== verification/Toy_Env.thy ===== *)
theory Toy_Env
  imports Wallet_Processor Policy_Processor
begin

text \<open>
  A concrete instance of the parameters, small enough to evaluate: the theorems with
  hypotheses on the external code are applied to it, which shows that their hypotheses hold
  together. A key pair is a number and the point \<open>(number, 0)\<close>; a signature carries the
  signer and the message digest; a ciphertext carries the recipient. The codecs fail unless
  an example replaces them by record update.
\<close>

section \<open>Keys, signatures, encryption\<close>

definition toy_err :: go_error where "toy_err = Err ''toy''"

definition toy_hash :: "bytes \<Rightarrow> hash" where
  "toy_hash b = word_of_nat (Suc (sum_list (map unat b)))"

definition toy_pub :: "nat \<Rightarrow> ecdsa_pub" where
  "toy_pub x = \<lparr>pk_Curve = Crypto_S256, pk_X = x, pk_Y = 0\<rparr>"

definition toy_key :: "nat \<Rightarrow> ecdsa_priv" where
  "toy_key x = \<lparr>sk_Pub = toy_pub x, sk_D = x\<rparr>"

definition toy_ToECDSA :: "bytes \<Rightarrow> ecdsa_priv res" where
  "toy_ToECDSA b = (if length b = 32 \<and> 0 < nat_of_bytes b \<and> nat_of_bytes b < secp256k1_N then Inr (toy_key (nat_of_bytes b))
     else Inl toy_err)"

definition toy_Sign :: "bytes \<Rightarrow> ecdsa_priv \<Rightarrow> bytes res" where
  "toy_Sign h sk = Inr (fill_bytes 32 (pk_X (sk_Pub sk)) @ hash_bytes (toy_hash h) @ [0])"

definition toy_SigToPub :: "bytes \<Rightarrow> bytes \<Rightarrow> ecdsa_pub option res" where
  "toy_SigToPub h sig = (if take 32 (drop 32 sig) = hash_bytes (toy_hash h) then Inr (Some (toy_pub (nat_of_bytes (take 32 sig))))
     else Inr None)"

definition toy_Encrypt :: "nat \<Rightarrow> ecdsa_pub \<Rightarrow> bytes \<Rightarrow> bytes res" where
  "toy_Encrypt r pk msg = Inr (fill_bytes 32 (pk_X pk) @ msg)"

definition toy_Decrypt :: "ecdsa_priv \<Rightarrow> bytes \<Rightarrow> bytes res" where
  "toy_Decrypt sk c = (if take 32 c = fill_bytes 32 (pk_X (sk_Pub sk)) then Inr (drop 32 c) else Inl toy_err)"

definition toy_geth :: geth where
  "toy_geth = \<lparr>Keccak256Hash = toy_hash, TextHash = \<lambda>b. b, crypto_Sign = toy_Sign, SigToPub = toy_SigToPub,
     PubkeyToAddress = \<lambda>pk. word_of_nat (pk_X pk), ValidateSignatureValues = \<lambda>v r s h. True,
     IsOnCurve = \<lambda>x y. y = 0, ToECDSA = toy_ToECDSA, ScalarBaseMult = \<lambda>b. (nat_of_bytes b, 0),
     ecies_Encrypt = toy_Encrypt, ecies_Decrypt = toy_Decrypt,
     IsHexAddress = \<lambda>s. length s = 3, HexToAddress = \<lambda>s. of_char (s ! 2)\<rparr>"

section \<open>The environment\<close>

definition toy_secp :: secp where
  "toy_secp = geth.extend toy_geth \<lparr>S256_N = secp256k1_N, S256_P = 0, S256_B = 7, S256_Gx = 1, S256_Gy = 0,
     S256_ScalarMult = \<lambda>x y b. None, S256_Add = \<lambda>a b c d. (0, 0), mns_SetBytes = \<lambda>b. (0, True), mns_Mul2 = \<lambda>a b. 0,
     mns_Negate = \<lambda>a. 0, mns_Add = \<lambda>a b. 0, mns_Bytes = \<lambda>a. [], NonceRFC6979 = \<lambda>a b i. 0,
     abi_pack_uint256s = \<lambda>xs. Inl toy_err, json_Proof = \<lambda>p. Inl toy_err, unjson_Proof = \<lambda>b. Inl toy_err\<rparr>"

text \<open>An operation hash is its own name here: the pairs (1, c) are the wallet operations, (2, 1) is an FDC proof.\<close>

definition toy_flare :: flare where
  "toy_flare = secp.extend toy_secp \<lparr>
     HashToOPType = \<lambda>h. if h = 1 then OP_Wallet else if h = 2 then OP_FDC2 else OP_OtherType ''?'',
     HashToOPCommand = \<lambda>h. if h = 1 then OP_Prove else if h = 2 then OP_KeyDelete else OP_OtherCommand ''?'',
     OPType_Hash = \<lambda>t. if t = OP_Wallet then 1 else if t = OP_FDC2 then 2 else if t = OP_Get then 3 else if t = OP_Policy then 4
       else if t = OP_Governance then 5 else if t = OP_Reg then 6 else if t = OP_XRP then 7 else 8,
     OPCommand_Hash = \<lambda>c. if c = OP_Prove then 1 else if c = OP_KeyDelete then 2 else 3,
     IsValidPair = \<lambda>t c. True,
     payload_Hash = \<lambda>tag chain h. Inr h,
     data_HashForSigning = \<lambda>d m chain. Inr (df_InstructionID d),
     data_HashFixed = \<lambda>d. Inr (df_InstructionID d),
     data_InitialVoteHash = \<lambda>d. Inr 0,
     NextVoteHash = \<lambda>h i sig m t. Inr (h + 1),
     abi_KeyGenerate = \<lambda>b. Inl toy_err, abi_KeyDelete = \<lambda>b. Inl toy_err, abi_KeyDataProviderRestore = \<lambda>b. Inl toy_err,
     abi_KeyDirectBackup = \<lambda>b. Inl toy_err, abi_KeyDirectRestore = \<lambda>b. Inl toy_err,
     abi_encode_BackupId = \<lambda>b. Inr (fill_bytes 8 (unat (bi_KeyId b))), abi_encode_KeyExistence = \<lambda>k. Inr [],
     abi_decode_KeyExistence = \<lambda>b. Inl toy_err, abi_pack_KeyExistence = \<lambda>k. Inr [],
     abi_pack_Governance = \<lambda>ss t. Inr [word_of_nat t], abi_pack_GovernanceSafe = \<lambda>m s ss t. Inr [ucast t],
     abi_pack_MachinePathList = \<lambda>e n ps. Inr [word_of_nat n], abi_pack_ApproveMachinePathList = \<lambda>e n h. Inr [word_of_nat n],
     abi_Fdc2Request = \<lambda>b. Inl toy_err, FromRawBytes = \<lambda>b. Inl toy_err, policy_ChainBoundHash = \<lambda>p c. 1,
     ChainBoundHash = \<lambda>c b. toy_hash b, Safe_Verify = \<lambda>a c s ss t. Inl toy_err\<rparr>"

definition toy_backup :: backup_env where
  "toy_backup = wallets_env.extend (flare.extend toy_flare
     \<lparr>json_SignedProof = \<lambda>p. Inr (sk_Signature p), unjson_SignedProof = \<lambda>b. Inl toy_err, json_KeyIDPair = \<lambda>k. Inr [1],
      json_RestoreStatus = \<lambda>s. Inr [], Sha512Half = \<lambda>b. hash_bytes (toy_hash b)\<rparr>)
     \<lparr>json_KeySplitData = \<lambda>d. Inr (concat (map sh_Y (ks_Shares d))), json_KeySplit = \<lambda>k. Inl toy_err, unjson_KeySplit = \<lambda>b. Inl toy_err,
      unjson_KeySplits = \<lambda>b. Inl toy_err, json_WalletBackupForHashing = \<lambda>m a p. Inr [], unjson_MetaData = \<lambda>b. Inl toy_err,
      json_DirectPayload = \<lambda>p. Inl toy_err, unjson_DirectPayload = \<lambda>b. Inl toy_err,
      json_SignedDirect = \<lambda>p. Inl toy_err, unjson_SignedDirect = \<lambda>b. Inl toy_err\<rparr>"

definition toy :: processor_env where
  "toy = backup_env.extend toy_backup
     \<lparr>unjson_OpID = \<lambda>b. Inl toy_err, unjson_DataFixed = \<lambda>b. Inl toy_err, unjson_DirectInstruction = \<lambda>b. Inl toy_err,
      json_RewardingData = \<lambda>r. Inr [], unjson_InitializePolicyRequest = \<lambda>b. Inl toy_err,
      unjson_UpdatePolicyRequest = \<lambda>b. Inl toy_err, unjson_SetMachinePathListRequest = \<lambda>b. Inl toy_err\<rparr>"

lemmas toy_defs = toy_def toy_backup_def toy_flare_def toy_secp_def toy_geth_def geth.defs secp.defs flare.defs
  wallets_env.defs backup_env.defs processor_env.defs

lemma toy_geth_fields [simp]:
  "Keccak256Hash toy = toy_hash" "TextHash toy = (\<lambda>b. b)" "crypto_Sign toy = toy_Sign" "SigToPub toy = toy_SigToPub"
  "PubkeyToAddress toy = (\<lambda>pk. word_of_nat (pk_X pk))" "ValidateSignatureValues toy = (\<lambda>v r s h. True)"
  "IsOnCurve toy = (\<lambda>x y. y = 0)" "ToECDSA toy = toy_ToECDSA" "ScalarBaseMult toy = (\<lambda>b. (nat_of_bytes b, 0))"
  "ecies_Encrypt toy = toy_Encrypt" "ecies_Decrypt toy = toy_Decrypt"
  "IsHexAddress toy = (\<lambda>s. length s = 3)" "HexToAddress toy = (\<lambda>s. of_char (s ! 2))"
  by (simp_all add: toy_defs)

text \<open>The hypotheses on go-ethereum hold in the example, also with other codecs.\<close>

lemma toy_address_mod: "(word_of_nat (x mod 2 ^ 256) :: address) = word_of_nat x"
proof -
  have "(2 :: nat) ^ 256 = 2 ^ 160 * 2 ^ 96" by simp
  then have "x mod 2 ^ 256 mod 2 ^ 160 = x mod 2 ^ 160" by (metis dvd_triv_left mod_mod_cancel)
  then show ?thesis by (simp add: word_unat_eq_iff unat_of_nat)
qed

lemma toy_ecies: "ecies_Encrypt E = toy_Encrypt \<Longrightarrow> ecies_Decrypt E = toy_Decrypt \<Longrightarrow> ecies_spec E"
  by (simp add: ecies_spec_def toy_Encrypt_def toy_Decrypt_def)

lemma toy_ecdsa:
  assumes "crypto_Sign E = toy_Sign" and "SigToPub E = toy_SigToPub" and "PubkeyToAddress E = (\<lambda>pk. word_of_nat (pk_X pk))"
    and "ValidateSignatureValues E = (\<lambda>v r s h. True)"
  shows "ecdsa_spec E"
proof -
  have "nat_of_bytes (fill_bytes 32 x) = x mod 2 ^ 256" for x by (simp add: nat_of_fill_bytes)
  then show ?thesis
    by (simp add: ecdsa_spec_def assms toy_Sign_def toy_SigToPub_def toy_pub_def toy_address_mod [simplified])
qed

lemma toy_toecdsa:
  assumes "ToECDSA E = toy_ToECDSA" and "ScalarBaseMult E = (\<lambda>b. (nat_of_bytes b, 0))" and "IsOnCurve E = (\<lambda>x y. y = 0)"
  shows "toecdsa_spec E"
proof -
  have "secp256k1_N < 2 ^ 256" by (simp add: secp256k1_N_def)
  then show ?thesis
    by (auto simp: toecdsa_spec_def assms toy_ToECDSA_def toy_key_def toy_pub_def split: if_splits dest: less_trans)
qed

lemma toy_specs: "ecies_spec toy" "ecdsa_spec toy" "toecdsa_spec toy"
  by (simp_all add: toy_ecies toy_ecdsa toy_toecdsa)

text \<open>Signing in the example always succeeds and recovers the signer.\<close>

lemma toy_signer:
  assumes "SigToPub E = toy_SigToPub" "PubkeyToAddress E = (\<lambda>pk. word_of_nat (pk_X pk))" "TextHash E = (\<lambda>b. b)"
    "ValidateSignatureValues E = (\<lambda>v r s h. True)" and "x < 2 ^ 256"
  shows "SignatureToSignersAddress E h (fill_bytes 32 x @ hash_bytes (toy_hash h) @ [0]) = Inr (word_of_nat x)"
  using assms(5)
  by (simp add: SignatureToSignersAddress_def CheckCanonicalSignature_def Let_def assms toy_SigToPub_def toy_pub_def nat_of_fill_32)

text \<open>A policy with one voter.\<close>

definition toy_policy :: SigningPolicy where
  "toy_policy = \<lparr>sp_RewardEpochID = 0, sp_Threshold = 1,
     sp_Voters = \<lparr>vs_Voters = Some [4], vs_VoterWeight = \<lambda>i. 2, vs_VoterIndex = \<lambda>a. if a = 4 then 0 else -1, vs_TotalWeight = 2\<rparr>\<rparr>"

text \<open>The three algorithm names are different hashes.\<close>

lemma hash_bytes_ToHash:
  "hash_bytes (ToHash s) = take 32 (string_bytes s) @ replicate (32 - length (take 32 (string_bytes s))) 0"
  unfolding ToHash_def Let_def by (rule hash_bytes_BytesToHash) simp

lemma algos_distinct: "EVMSignAlgo \<noteq> XRPSignAlgo" "VRFAlgo \<noteq> XRPSignAlgo" "EVMSignAlgo \<noteq> VRFAlgo"
  unfolding hash_bytes_inject [symmetric] EVMSignAlgo_def XRPSignAlgo_def VRFAlgo_def hash_bytes_ToHash
  by (simp_all add: string_bytes_def of_char_def)

end
