(* ===== verification/Wallet_Spec.thy ===== *)
theory Wallet_Spec
  imports Wallet_Storage "HOL-Library.Multiset"
begin

text \<open>
  The specification of the wallet storage: two maps from key identifiers, one to wallet
  data and one to statuses, without pointers, insertion order or shared cells. A client of
  the storage issues a sequence of operations; the locale \<open>data_refinement\<close> lifts a
  step-wise simulation to sequences, and its interpretation shows that no client can tell
  the pointer structure of the code from the two maps.
\<close>

section \<open>Runs of an operation sequence\<close>

fun run_ops :: "('op \<Rightarrow> 's \<Rightarrow> 'out \<times> 's) \<Rightarrow> 'op list \<Rightarrow> 's \<Rightarrow> 'out list \<times> 's" where
  "run_ops step [] s = ([], s)"
| "run_ops step (p # ps) s = (let (out, s') = step p s; (outs, t) = run_ops step ps s' in (out # outs, t))"

locale data_refinement =
  fixes inv :: "'c \<Rightarrow> bool" and abst :: "'c \<Rightarrow> 'a"
    and cstep :: "'op \<Rightarrow> 'c \<Rightarrow> 'out \<times> 'c" and astep :: "'op \<Rightarrow> 'a \<Rightarrow> 'out \<times> 'a"
  assumes step_inv: "inv s \<Longrightarrow> inv (snd (cstep p s))"
    and step_refines: "inv s \<Longrightarrow> astep p (abst s) = (fst (cstep p s), abst (snd (cstep p s)))"
begin

lemma run_refines:
  assumes "inv s"
  shows "inv (snd (run_ops cstep ps s)) \<and>
    run_ops astep ps (abst s) = (fst (run_ops cstep ps s), abst (snd (run_ops cstep ps s)))"
  using assms
proof (induction ps arbitrary: s)
  case (Cons p ps)
  show ?case
    using Cons.IH [OF step_inv [OF Cons.prems, of p]]
    by (simp add: step_refines [OF Cons.prems] Let_def split_beta)
qed simp

end

section \<open>The specification\<close>

record wallet_spec =
  sp_wallets :: "KeyIDPair \<Rightarrow> wallet_data option"
  sp_status :: "KeyIDPair \<Rightarrow> WalletStatus option"

definition spec_init :: wallet_spec where
  "spec_init = \<lparr>sp_wallets = Map.empty, sp_status = Map.empty\<rparr>"

definition spec_of :: "Storage \<Rightarrow> wallet_spec" where
  "spec_of s = \<lparr>sp_wallets = walletsOf s, sp_status = statusOf s\<rparr>"

datatype storage_op = OpStore Wallet | OpRemove KeyIDPair | OpUpdateNonce KeyIDPair uint64 | OpGet KeyIDPair | OpGetWallets
  | OpWalletExists KeyIDPair | OpWalletExistsPermanent KeyIDPair | OpCheckNonce KeyIDPair uint64 | OpNonce KeyIDPair

datatype storage_out = OutResult "unit res" | OutBool bool | OutWallet "Wallet res" | OutWallets "Wallet multiset"
  | OutNonce "uint64 res" | OutNone

text \<open>The storage's operations; the order of \<open>GetWallets\<close> is not observed, as in Go.\<close>

fun storage_step :: "storage_op \<Rightarrow> Storage \<Rightarrow> storage_out \<times> Storage" where
  "storage_step (OpStore w) s = (OutResult (fst (Store s w)), snd (Store s w))"
| "storage_step (OpRemove k) s = (OutBool (fst (Remove s k)), snd (Remove s k))"
| "storage_step (OpUpdateNonce k n) s = (OutNone, UpdateNonce s k n)"
| "storage_step (OpGet k) s = (OutWallet (Get s k), s)"
| "storage_step OpGetWallets s = (OutWallets (mset (GetWallets s)), s)"
| "storage_step (OpWalletExists k) s = (OutBool (WalletExists s k), s)"
| "storage_step (OpWalletExistsPermanent k) s = (OutBool (WalletExistsPermanent s k), s)"
| "storage_step (OpCheckNonce k n) s = (OutResult (CheckNonce s k n), s)"
| "storage_step (OpNonce k) s = (OutNonce (Nonce s k), s)"

definition spec_wallet :: "wallet_spec \<Rightarrow> KeyIDPair \<Rightarrow> Wallet" where
  "spec_wallet t k = with_status (the (sp_wallets t k)) (the (sp_status t k))"

text \<open>Why a wallet is refused, if it is: too many members, present already, no room for it or its record.\<close>

definition spec_refusal :: "wallet_spec \<Rightarrow> Wallet \<Rightarrow> unit res" where
  "spec_refusal t w = (case ValidateWalletMemberCounts (length (AdminPublicKeys w)) (length (Cosigners w)) of
     Inl e \<Rightarrow> Inl e
   | Inr _ \<Rightarrow>
       if idPair w \<in> dom (sp_wallets t) then Inl (Err ''wallet with given walletID and keyID already exists'')
       else if MaxWallets \<le> card (dom (sp_wallets t)) then Inl (Errf ''maximum number of wallets (%d) reached'' [int MaxWallets])
       else if idPair w \<notin> dom (sp_status t) \<and> MaxPermanentWalletsStatus \<le> card (dom (sp_status t))
         then Inl (Errf ''maximum number of permanent wallet records (%d) reached'' [int MaxPermanentWalletsStatus])
       else Inr ())"

fun spec_step :: "storage_op \<Rightarrow> wallet_spec \<Rightarrow> storage_out \<times> wallet_spec" where
  "spec_step (OpStore w) t = (OutResult (spec_refusal t w),
     if spec_refusal t w = Inr ()
     then t\<lparr>sp_wallets := (sp_wallets t)(idPair w \<mapsto> data_of w),
            sp_status := [idPair w \<mapsto> Status w] ++ sp_status t\<rparr>
     else t)"
| "spec_step (OpRemove k) t = (OutBool (k \<in> dom (sp_wallets t)), t\<lparr>sp_wallets := (sp_wallets t)(k := None)\<rparr>)"
| "spec_step (OpUpdateNonce k n) t =
     (OutNone, t\<lparr>sp_status := (sp_status t)(k := map_option (\<lambda>st. st\<lparr>st_Nonce := n\<rparr>) (sp_status t k))\<rparr>)"
| "spec_step (OpGet k) t =
     (OutWallet (if k \<in> dom (sp_wallets t) then Inr (spec_wallet t k) else Inl ErrWalletNonExistent), t)"
| "spec_step OpGetWallets t = (OutWallets (image_mset (spec_wallet t) (mset_set (dom (sp_wallets t)))), t)"
| "spec_step (OpWalletExists k) t = (OutBool (k \<in> dom (sp_wallets t)), t)"
| "spec_step (OpWalletExistsPermanent k) t = (OutBool (k \<in> dom (sp_status t)), t)"
| "spec_step (OpCheckNonce k n) t = (OutResult (case sp_status t k of
     None \<Rightarrow> Inl (Err ''no permanent record of the wallet'')
   | Some st \<Rightarrow> if st_Nonce st < n then Inr () else Inl (Err ''nonce too small'')), t)"
| "spec_step (OpNonce k) t = (OutNonce (case sp_status t k of
     None \<Rightarrow> Inl (Err ''no wallet nonce'') | Some st \<Rightarrow> Inr (st_Nonce st)), t)"

section \<open>The storage refines the specification\<close>

lemma card_dom_map_of: "distinct (map fst xs) \<Longrightarrow> card (dom (map_of xs)) = length xs"
  using distinct_card [of "map fst xs"] by (simp add: dom_map_of_conv_image_fst)

lemma dom_contents:
  "dom (walletsOf s) = dom (map_of (sto_wallets s))" "dom (statusOf s) = dom (map_of (sto_permanent s))"
  by (auto simp: walletsOf_def statusOf_def)

lemma Store_result:
  assumes "storage_inv s"
  shows "fst (Store s w) = spec_refusal (spec_of s) w"
proof -
  have cards: "card (dom (walletsOf s)) = length (sto_wallets s)" "card (dom (statusOf s)) = length (sto_permanent s)"
    by (simp_all add: dom_contents card_dom_map_of storage_invD(1,2) [OF assms])
  show ?thesis
    unfolding Store_def spec_refusal_def
    by (simp add: spec_of_def stry_def ensure_def Let_def cards)
      (auto simp: dom_contents Let_def split: sum.splits option.splits)
qed

lemma GetWallets_content:
  assumes "storage_inv s"
  shows "mset (GetWallets s) = image_mset (spec_wallet (spec_of s)) (mset_set (dom (walletsOf s)))"
proof -
  have read: "Copy_stored (sto_heap s) w = spec_wallet (spec_of s) k" if "(k, w) \<in> set (sto_wallets s)" for k w
  proof -
    have "map_of (sto_wallets s) k = Some w" using storage_invD(1) [OF assms] that by simp
    then show ?thesis
      using storage_invD(3) [OF assms, of k w]
      by (simp add: spec_wallet_def spec_of_def walletsOf_def statusOf_def Copy_stored_with_status)
  qed
  have "GetWallets s = map (spec_wallet (spec_of s)) (map fst (sto_wallets s))"
    using read by (auto simp: GetWallets_def)
  moreover have "mset (map fst (sto_wallets s)) = mset_set (dom (walletsOf s))"
    using mset_set_set [OF storage_invD(1) [OF assms]] by (simp add: dom_contents dom_map_of_conv_image_fst)
  ultimately show ?thesis by (metis mset_map)
qed

lemma storage_step_inv: "storage_inv s \<Longrightarrow> storage_inv (snd (storage_step p s))"
proof (cases p)
  case (OpStore w)
  assume "storage_inv s"
  with OpStore show ?thesis
    using Store_inv [of s w] Store_error [of s w] by (cases "Store s w"; cases "fst (Store s w)") auto
qed (simp_all add: Remove_inv UpdateNonce_inv)

lemma storage_step_refines:
  assumes "storage_inv s"
  shows "spec_step p (spec_of s) = (fst (storage_step p s), spec_of (snd (storage_step p s)))"
proof (cases p)
  case (OpStore w)
  show ?thesis
  proof (cases "fst (Store s w)")
    case (Inl e)
    then have "Store s w = (Inl e, s)" using Store_error [of s w e] by (cases "Store s w") auto
    moreover from Inl have "spec_refusal (spec_of s) w = Inl e" using Store_result [OF assms, of w] by simp
    ultimately show ?thesis using OpStore by simp
  next
    case (Inr u)
    then have st: "Store s w = (Inr (), snd (Store s w))" by (cases "Store s w") simp
    show ?thesis
      using Store_result [OF assms, of w] Inr OpStore Store_content(1,2) [OF assms st]
      by (auto simp: spec_of_def map_add_def fun_eq_iff split: option.splits)
  qed
next
  case (OpRemove k)
  then show ?thesis
    using Remove_content [of s k] by (simp add: spec_of_def) (auto simp: Remove_def dom_contents)
next
  case (OpUpdateNonce k n)
  then show ?thesis by (simp add: spec_of_def UpdateNonce_status [OF assms] ws.update_wallets)
next
  case (OpGet k)
  then show ?thesis by (auto simp: spec_of_def Get_content [OF assms] spec_wallet_def split: option.splits)
next
  case OpGetWallets
  then show ?thesis using GetWallets_content [OF assms] by (simp add: spec_of_def)
next
  case (OpWalletExists k)
  then show ?thesis by (auto simp: spec_of_def WalletExists_def dom_contents)
next
  case (OpWalletExistsPermanent k)
  then show ?thesis by (auto simp: spec_of_def WalletExistsPermanent_def dom_contents)
next
  case (OpCheckNonce k n)
  then show ?thesis by (auto simp: spec_of_def CheckNonce_def statusOf_def ensure_def split: option.splits)
next
  case (OpNonce k)
  then show ?thesis by (auto simp: spec_of_def Nonce_def statusOf_def split: option.splits)
qed

interpretation wspec: data_refinement storage_inv spec_of storage_step spec_step
  by unfold_locales (simp_all add: storage_step_inv storage_step_refines)

lemma spec_of_init: "spec_of InitializeStorage = spec_init"
  by (simp add: spec_of_def spec_init_def InitializeStorage_def walletsOf_def statusOf_def fun_eq_iff)

end
