(* ===== verification/Props_Wallets.thy ===== *)
theory Props_Wallets
  imports Toy_Env Wallet_Spec
begin

text \<open>
  Properties of the wallet storage and of the wallet instructions over all runs, and a
  small run to which the witnesses apply them: a key is generated, then deleted with
  nonce 5.
\<close>

section \<open>The example run\<close>

definition ex_key :: KeyIDPair where "ex_key = \<lparr>kp_WalletID = 1, kp_KeyID = 2\<rparr>"

definition ex_generate :: KeyGenerateMsg where
  "ex_generate = \<lparr>kg_TeeId = 9, kg_WalletId = 1, kg_KeyId = 2, kg_KeyType = 0, kg_SigningAlgo = EVMSignAlgo,
     kg_ConfigConstants = \<lparr>cc_AdminsPublicKeys = [\<lparr>px = 3, py = 0\<rparr>], cc_AdminsThreshold = 1, cc_Cosigners = [], cc_CosignersThreshold = 0\<rparr>\<rparr>"

definition ex_delete :: KeyDeleteMsg where
  "ex_delete = \<lparr>kd_TeeId = 9, kd_WalletId = 1, kd_KeyId = 2, kd_Nonce = Some 5\<rparr>"

definition ex_existence :: KeyExistence where
  "ex_existence = \<lparr>ke_TeeId = 9, ke_WalletId = 1, ke_KeyId = 2, ke_KeyType = 0, ke_SigningAlgo = EVMSignAlgo,
     ke_PublicKey = PubKeyToBytes (toy_pub 11), ke_Nonce = 0, ke_Restored = False,
     ke_ConfigConstants = \<lparr>cc_AdminsPublicKeys = [PubKeyToStruct \<lparr>pk_Curve = Secp256k1_S256, pk_X = 3, pk_Y = 0\<rparr>], cc_AdminsThreshold = 1,
       cc_Cosigners = [], cc_CosignersThreshold = 0\<rparr>, ke_SettingsVersion = 0, ke_Settings = []\<rparr>"

definition toyW :: processor_env where
  "toyW = toy\<lparr>abi_KeyGenerate := \<lambda>b. Inr ex_generate, abi_KeyDelete := \<lambda>b. Inr ex_delete,
     abi_encode_KeyExistence := \<lambda>k. if k = ex_existence then Inr [7] else Inl toy_err,
     abi_decode_KeyExistence := \<lambda>b. if b = [7] then Inr ex_existence else Inl toy_err,
     json_SignedProof := \<lambda>p. if sk_KeyExistence p = [7] then Inr (sk_Signature p) else Inl toy_err,
     unjson_SignedProof := \<lambda>b. Inr \<lparr>sk_KeyExistence = [7], sk_Signature = b\<rparr>\<rparr>"

definition ex_node :: Node where
  "ex_node = (fresh_node toy (toy_key 9) ZeroState)\<lparr>n_chainID := 1\<rparr>"

definition ex_data :: DataFixed where
  "ex_data = \<lparr>df_InstructionID = 0, df_TeeID = 9, df_RewardEpochID = 0, df_OPType = 1, df_OPCommand = 2, df_Cosigners = [],
     df_CosignersThreshold = 0, df_OriginalMessage = [], df_AdditionalFixedMessage = [], df_Timestamp = 0\<rparr>"

definition ex_wallet :: Wallet where
  "ex_wallet = \<lparr>WalletID = 1, KeyID = 2, PrivateKey = hash_bytes 11, KeyType = 0, SigningAlgo = EVMSignAlgo, Restored = False,
     AdminPublicKeys = [\<lparr>pk_Curve = Secp256k1_S256, pk_X = 3, pk_Y = 0\<rparr>], AdminsThreshold = 1, Cosigners = [], CosignersThreshold = 0,
     SettingsVersion = 0, Settings = [], Status = \<lparr>st_Nonce = 0, st_PausingNonce = 0, st_StatusCode = 0\<rparr>\<rparr>"

definition ex_storage1 :: Storage where
  "ex_storage1 = \<lparr>sto_wallets = [(ex_key, Copy_at ex_wallet 0)], sto_permanent = [(ex_key, 0)], sto_heap = [Status ex_wallet]\<rparr>"

definition ex_storage2 :: Storage where
  "ex_storage2 = \<lparr>sto_wallets = [], sto_permanent = [(ex_key, 0)], sto_heap = [(Status ex_wallet)\<lparr>st_Nonce := 5\<rparr>]\<rparr>"

abbreviation ex_run_generate :: "Storage \<Rightarrow> (bytes \<times> bytes) res \<times> Storage" where
  "ex_run_generate s \<equiv> KeyGenerate toyW ex_node None (Inr (toy_key 11)) Threshold ex_data [] [] toy_policy s"

abbreviation ex_run_delete :: "Storage \<Rightarrow> (bytes \<times> bytes) res \<times> Storage" where
  "ex_run_delete s \<equiv> KeyDelete toyW ex_node None Threshold ex_data [] [] toy_policy s"

lemma toyW_fields [simp]:
  "PubkeyToAddress toyW = PubkeyToAddress toy" "ToECDSA toyW = toy_ToECDSA" "IsOnCurve toyW = IsOnCurve toy"
  "crypto_Sign toyW = toy_Sign" "TextHash toyW = (\<lambda>b. b)" "Keccak256Hash toyW = toy_hash"
  "abi_KeyGenerate toyW = (\<lambda>b. Inr ex_generate)" "abi_KeyDelete toyW = (\<lambda>b. Inr ex_delete)"
  "abi_encode_KeyExistence toyW = (\<lambda>k. if k = ex_existence then Inr [7] else Inl toy_err)"
  "abi_decode_KeyExistence toyW = (\<lambda>b. if b = [7] then Inr ex_existence else Inl toy_err)"
  "json_SignedProof toyW = (\<lambda>p. if sk_KeyExistence p = [7] then Inr (sk_Signature p) else Inl toy_err)"
  "unjson_SignedProof toyW = (\<lambda>b. Inr \<lparr>sk_KeyExistence = [7], sk_Signature = b\<rparr>)"
  "SigToPub toyW = toy_SigToPub" "ValidateSignatureValues toyW = (\<lambda>v r s h. True)" "ecies_Encrypt toyW = toy_Encrypt" "ecies_Decrypt toyW = toy_Decrypt"
  "abi_pack_KeyExistence toyW = (\<lambda>k. Inr [])" "payload_Hash toyW = (\<lambda>tag c h. Inr h)"
  "json_KeyIDPair toyW = (\<lambda>k. Inr [1])"
  by (simp_all add: toyW_def) (simp_all add: toy_defs)

lemma ex_node_fields [simp]: "n_teeID ex_node = 9" "n_chainID ex_node = 1" "n_privateKey ex_node = toy_key 9"
  by (simp_all add: ex_node_def fresh_node_def toy_key_def toy_pub_def)

lemma ex_generate_step: "\<exists>out. ex_run_generate InitializeStorage = (Inr out, ex_storage1)"
proof -
  have "nat_of_bytes (hash_bytes (3 :: hash)) = 3" "nat_of_bytes (hash_bytes (0 :: hash)) = 0" "nat_of_bytes (hash_bytes (11 :: hash)) = 11"
    by (simp_all add: hash_bytes_def nat_of_fill_32)
  then show ?thesis
    by (simp add: KeyGenerate_def ParseKeyGenerate_def CheckKeyGenerate_def ex_generate_def ValidateWalletMemberCounts_def
      MaxAdminsPerWalletKey_def MaxCosignersPerWalletKey_def Algos_def generate_key_def WalletExistsPermanent_def InitializeStorage_def
      GenerateNewKey_def GenerateKey_def ParsePubKeys_def ParsePubKey_def ctx_check_def Store_def idPair_def Let_def toy_key_def
      MaxWallets_def MaxPermanentWalletsStatus_def sbind_def Get_def signed_existence_def KeyExistenceProof_def PubKey_def toy_ToECDSA_def
      secp256k1_N_def Copy_stored_def Copy_at_def Node_ChainID_def KeyExistenceDataHash_def Node_Sign_def Sign_def toy_Sign_def
      ex_storage1_def ex_key_def ex_wallet_def ex_existence_def toy_pub_def)
qed

lemma ex_delete_step: "ex_run_delete ex_storage1 = (Inr ([1], []), ex_storage2)"
  by (simp add: KeyDelete_def ParseKeyDelete_def ex_delete_def nonceCheck_def IsUint64_def Uint64_def WalletExistsPermanent_def
    WalletExists_def ex_storage1_def ex_storage2_def ex_key_def CheckNonce_def Remove_def UpdateNonce_def ctx_check_def Let_def
    BitLen.simps ex_wallet_def)

section \<open>Invariants over runs\<close>

lemma ex_steps: "wallet_step toyW bigmod_ref InitializeStorage ex_storage1" "wallet_step toyW bigmod_ref ex_storage1 ex_storage2"
  using wallet_step.step_generate [of toyW bigmod_ref InitializeStorage ex_node None "Inr (toy_key 11)" Threshold ex_data "[]" "[]" toy_policy]
    wallet_step.step_delete [of toyW bigmod_ref ex_storage1 ex_node None Threshold ex_data "[]" "[]" toy_policy]
    ex_generate_step ex_delete_step
  by auto

lemma ex_runs: "(wallet_step toyW bigmod_ref)\<^sup>*\<^sup>* InitializeStorage ex_storage1" "(wallet_step toyW bigmod_ref)\<^sup>*\<^sup>* ex_storage1 ex_storage2"
  using ex_steps by blast+

lemma ex_inv: "storage_inv ex_storage1" "storage_inv ex_storage2"
  using wr.reachable_inv [of toyW bigmod_ref InitializeStorage ex_storage1] wr.reachable_inv [of toyW bigmod_ref ex_storage1 ex_storage2]
    ex_steps InitializeStorage_inv by blast+

lemma ex_nonces [simp]: "nonceOf ex_storage1 ex_key = Some 0" "nonceOf ex_storage2 ex_key = Some 5"
  by (simp_all add: nonceOf_def statusOf_def ex_storage1_def ex_storage2_def ex_wallet_def)

text \<open>
  The storage invariant holds in every state that wallet instructions reach from the
  empty storage, whatever the instructions, their order, their outcome, the random draws
  and the point at which a context is cancelled: maps are proper, every wallet is filed
  under its own identifiers, shares its status cell with the permanent record of its key
  and with no other key, and the limits on wallets, records, admins and cosigners hold.
\<close>

theorem wallet_runs_keep_invariant:
  assumes "(wallet_step E B)\<^sup>*\<^sup>* InitializeStorage s"
  shows "storage_inv s"
  using wr.reachable_inv [OF assms InitializeStorage_inv] .

theorem wallet_runs_keep_invariant_witness: "storage_inv ex_storage2"
  by (rule wallet_runs_keep_invariant [OF rtranclp_trans [OF ex_runs]])

lemma KeyDelete_success:
  assumes "KeyDelete E n ctx Threshold d ms sg p s = (Inr out, s')"
  obtains req where "ParseKeyDelete E d = Inr req"
    "deleted \<lparr>kp_WalletID = kd_WalletId req, kp_KeyID = kd_KeyId req\<rparr> (Uint64 (kd_Nonce req)) s s'"
  using assms
  by (auto simp: KeyDelete_def stry_eq Let_def res_simps deleted_def ws.delete_key_def)

lemma KeyDelete_refused:
  assumes "ParseKeyDelete E d = Inr req"
    and "CheckNonce s \<lparr>kp_WalletID = kd_WalletId req, kp_KeyID = kd_KeyId req\<rparr> (Uint64 (kd_Nonce req)) \<noteq> Inr ()"
  shows "\<exists>e. KeyDelete E n ctx Threshold d ms sg p s = (Inl e, s)"
proof (cases "KeyDelete E n ctx Threshold d ms sg p s")
  case (Pair r s')
  with KeyDelete_effect [OF Pair] assms have "s' = s" by (auto simp: deleted_def)
  moreover have "r \<noteq> Inr out" for out using Pair assms by (auto elim!: KeyDelete_success simp: deleted_def)
  ultimately show ?thesis using Pair by (cases r) auto
qed

text \<open>
  A deletion cannot be replayed. After a key has been deleted under some nonce, and
  after any further wallet instructions (the key may have been restored meanwhile), an
  instruction that carries the same request is refused at its threshold phase and leaves
  the storage as it is, whoever signs it and on whatever node value it runs.
\<close>

theorem delete_not_replayable:
  assumes "storage_inv s" and "KeyDelete E n ctx Threshold d ms sg p s = (Inr out, s1)"
    and "(wallet_step E B)\<^sup>*\<^sup>* s1 s2"
  shows "\<exists>e. KeyDelete E n' ctx' Threshold d ms' sg' p' s2 = (Inl e, s2)"
proof -
  obtain req where req: "ParseKeyDelete E d = Inr req"
    and del: "deleted \<lparr>kp_WalletID = kd_WalletId req, kp_KeyID = kd_KeyId req\<rparr> (Uint64 (kd_Nonce req)) s s1"
    using KeyDelete_success [OF assms(2)] .
  note after = nonceOf_deleted [OF assms(1) del]
  have "nonceOf s1 \<lparr>kp_WalletID = kd_WalletId req, kp_KeyID = kd_KeyId req\<rparr> = Some (Uint64 (kd_Nonce req))" using after(1) by simp
  from wr.reachable_refused [OF assms(3) after(3) this order_refl] show ?thesis
    by (intro KeyDelete_refused [OF req]) (auto simp: CheckNonce_nonceOf)
qed

theorem delete_not_replayable_witness: "\<exists>e. ex_run_delete ex_storage2 = (Inl e, ex_storage2)"
  by (rule delete_not_replayable [OF ex_inv(1) ex_delete_step rtranclp.rtrancl_refl [of "wallet_step toyW bigmod_ref"]])

text \<open>
  C29: nonces never go back. Along every run of wallet instructions the permanent record of a
  key is never dropped and its nonce never decreases.
\<close>

theorem nonces_never_decrease:
  assumes "storage_inv s" and "(wallet_step E B)\<^sup>*\<^sup>* s s'" and "nonceOf s k = Some m"
  shows "\<exists>m' \<ge> m. nonceOf s' k = Some m'"
  using wr.reachable_level [OF assms(2,1,3)] .

theorem nonces_never_decrease_witness: "\<exists>m' \<ge> 0. nonceOf ex_storage2 ex_key = Some m'"
  by (rule nonces_never_decrease [OF ex_inv(1) ex_runs(2) ex_nonces(1)])

lemma KeyGenerate_recorded:
  assumes "ParseKeyGenerate E d = Inr req"
    and "WalletExistsPermanent s \<lparr>kp_WalletID = kg_WalletId req, kp_KeyID = kg_KeyId req\<rparr>"
  shows "\<exists>e. KeyGenerate E n ctx drawn Threshold d ms sg p s = (Inl e, s)"
  using assms
  by (cases "CheckKeyGenerate req (n_teeID n)") (simp_all add: KeyGenerate_def generate_key_def sbind_def Let_def)

text \<open>
  A key identifier is used for one generated key only. Once an identifier has a permanent
  record, no later key generation with it succeeds, even after the key has been deleted, and
  the attempt leaves the storage as it is.
\<close>

theorem key_generated_once:
  assumes "storage_inv s" and "KeyGenerate E n ctx drawn Threshold d ms sg p s = (Inr out, s1)" and "(wallet_step E B)\<^sup>*\<^sup>* s1 s2"
  shows "\<exists>e. KeyGenerate E n' ctx' drawn' Threshold d ms' sg' p' s2 = (Inl e, s2)"
proof -
  from assms(2) obtain req where req: "ParseKeyGenerate E d = Inr req" by (auto simp: KeyGenerate_def res_simps)
  let ?k = "\<lparr>kp_WalletID = kg_WalletId req, kp_KeyID = kg_KeyId req\<rparr>"
  from assms(2) req obtain w where w: "Get s1 ?k = Inr w" by (auto simp: KeyGenerate_def stry_eq sbind_eq Let_def)
  have inv: "storage_inv s1"
    using wallet_step_ratchet(1) [OF wallet_step.step_generate [of E B s n ctx drawn Threshold d ms sg p] assms(1)] assms(2) by simp
  then have "statusOf s1 ?k \<noteq> None"
    using w ws.get_eq [OF inv, of ?k] ws.stored_has_status [OF inv, of ?k] by (cases "walletsOf s1 ?k") (auto simp: ErrWalletNonExistent_def)
  then obtain m where "nonceOf s1 ?k = Some m" by (auto simp: nonceOf_def)
  from wr.reachable_level [OF assms(3) inv this] have "WalletExistsPermanent s2 ?k" by (auto simp: WalletExistsPermanent_nonceOf)
  with KeyGenerate_recorded [OF req] show ?thesis by blast
qed

theorem key_generated_once_witness: "\<exists>e. ex_run_generate ex_storage2 = (Inl e, ex_storage2)"
proof -
  obtain out where "ex_run_generate InitializeStorage = (Inr out, ex_storage1)" using ex_generate_step by blast
  from key_generated_once [OF InitializeStorage_inv this ex_runs(2)] show ?thesis .
qed

section \<open>What an operation returns and stores\<close>

text \<open>
  C13: the storage is two maps. Whatever sequence of operations a client issues on a new
  storage, it gets the results (errors included) that the specification with one map of
  wallet data and one map of statuses gives, and the final storage represents the final
  maps: a stored wallet is read back with the permanent status of its key, deleting it
  leaves its record, a nonce update is seen by every later read, and the shared status
  cells are never visible.
\<close>

theorem storage_refines_maps:
  "fst (run_ops storage_step ops InitializeStorage) = fst (run_ops spec_step ops spec_init)
   \<and> spec_of (snd (run_ops storage_step ops InitializeStorage)) = snd (run_ops spec_step ops spec_init)"
  using wspec.run_refines [OF InitializeStorage_inv, of ops] by (simp add: spec_of_init)

text \<open>The laws of the codecs that carry an existence proof.\<close>

definition existence_codec :: "'a wallets_env_scheme \<Rightarrow> bool" where
  "existence_codec W \<longleftrightarrow> (\<forall>p b. json_SignedProof W p = Inr b \<longrightarrow> unjson_SignedProof W b = Inr p)
     \<and> (\<forall>k b. abi_encode_KeyExistence W k = Inr b \<longrightarrow> abi_decode_KeyExistence W b = Inr k)"

lemma signed_existence_verifies:
  assumes "ecdsa_spec E" and "existence_codec E" and "node_inv E n" and "signed_existence E n (\<lambda>x. x) w = Inr out"
  obtains ep where "KeyExistenceProof E w (n_teeID n) = Inr ep" "ExtractKeyExistence E out (n_teeID n) (n_chainID n) = Inr ep"
proof -
  from assms(4) obtain ep enc dh h sig where ep: "KeyExistenceProof E w (n_teeID n) = Inr ep"
    and enc: "abi_encode_KeyExistence E ep = Inr enc" and dh: "KeyExistenceDataHash E ep = Inr dh"
    and h: "payload_Hash E TEEKeyExistence (n_chainID n) dh = Inr h" and sig: "Sign E (hash_bytes h) (n_privateKey n) = Inr sig"
    and out: "json_SignedProof E \<lparr>sk_KeyExistence = enc, sk_Signature = sig\<rparr> = Inr out"
    by (auto simp: signed_existence_def res_simps Node_Sign_def Node_ChainID_def split: if_splits)
  have "VerifySignature E (hash_bytes h) sig (n_teeID n) = Inr ()"
    using VerifySignature_Sign [OF assms(1) sig] assms(3) by (simp add: node_inv_def)
  moreover have "unjson_SignedProof E out = Inr \<lparr>sk_KeyExistence = enc, sk_Signature = sig\<rparr>" "abi_decode_KeyExistence E enc = Inr ep"
    using assms(2) enc out by (simp_all add: existence_codec_def)
  ultimately show ?thesis using that [OF ep] dh h by (simp add: ExtractKeyExistence_def)
qed

text \<open>
  C14: key generation. A successful generation happens for an identifier without a permanent
  record, stores exactly the freshly drawn wallet with nonce 0 and nothing else, and returns
  a proof that \<open>ExtractKeyExistence\<close> accepts for this node and chain and decodes to the
  description of that wallet.
\<close>

theorem key_generate_correct:
  assumes "ecdsa_spec E" and "existence_codec E" and "node_inv E n" and "storage_inv s"
    and "KeyGenerate E n ctx drawn Threshold d ms sg p s = (Inr (out, st), s')"
  shows "\<exists>req w ep. ParseKeyGenerate E d = Inr req \<and> CheckKeyGenerate req (n_teeID n) = Inr () \<and> GenerateNewKey E drawn req = Inr w
    \<and> nonceOf s (idPair w) = None \<and> walletsOf s' = (walletsOf s)(idPair w \<mapsto> data_of w)
    \<and> nonceOf s' = (nonceOf s)(idPair w \<mapsto> 0)
    \<and> KeyExistenceProof E w (n_teeID n) = Inr ep \<and> ExtractKeyExistence E out (n_teeID n) (n_chainID n) = Inr ep"
proof -
  from assms(5) obtain req where req: "ParseKeyGenerate E d = Inr req" "CheckKeyGenerate req (n_teeID n) = Inr ()"
    by (auto simp: KeyGenerate_def res_simps)
  let ?k = "\<lparr>kp_WalletID = kg_WalletId req, kp_KeyID = kg_KeyId req\<rparr>"
  from assms(5) req obtain v where gen: "generate_key E ctx drawn req ?k s = (Inr (), s')" and v: "Get s' ?k = Inr v"
    and out: "signed_existence E n (\<lambda>x. x) v = Inr out"
    by (auto simp: KeyGenerate_def stry_eq sbind_eq Let_def)
  from gen obtain w where w: "GenerateNewKey E drawn req = Inr w" "Store s w = (Inr (), s')" "nonceOf s ?k = None"
    by (auto simp: generate_key_def stry_eq res_simps WalletExistsPermanent_nonceOf)
  from w(1) have id: "idPair w = ?k" and st: "Status w = \<lparr>st_Nonce = 0, st_PausingNonce = 0, st_StatusCode = 0\<rparr>"
    by (auto simp: GenerateNewKey_def res_simps idPair_def)
  have "statusOf s ?k = None" using w(3) by (simp add: nonceOf_def)
  then have "v = with_status (data_of w) (Status w)" using ws.get_store [OF assms(4) w(2)] v by (simp add: id)
  then have "v = w" by (cases w) (simp add: with_status_def data_of_def wallet_data.defs)
  with signed_existence_verifies [OF assms(1-3) out] obtain ep where
    "KeyExistenceProof E w (n_teeID n) = Inr ep" "ExtractKeyExistence E out (n_teeID n) (n_chainID n) = Inr ep" by blast
  moreover have "walletsOf s' = (walletsOf s)(idPair w \<mapsto> data_of w)" by (rule ws.store_wallets [OF assms(4) w(2)])
  moreover have "nonceOf s' = (nonceOf s)(idPair w \<mapsto> 0)" using nonceOf_store [OF assms(4) w(2)] w(3) st by (simp add: id)
  ultimately show ?thesis using req w id by (intro exI [of _ req] exI [of _ w] exI [of _ ep]) simp
qed

lemma ex_node_inv: "node_inv toyW ex_node"
  by (simp add: node_inv_def ex_node_def fresh_node_def governance_ok_def)

lemma toyW_specs: "ecdsa_spec toyW" "existence_codec toyW"
  by (auto simp: toy_ecdsa existence_codec_def split: if_splits)

theorem key_generate_correct_witness:
  "\<exists>out ep. ExtractKeyExistence toyW out 9 1 = Inr ep \<and> nonceOf ex_storage1 = (nonceOf InitializeStorage)(ex_key \<mapsto> 0)"
proof -
  obtain out st where "ex_run_generate InitializeStorage = (Inr (out, st), ex_storage1)" using ex_generate_step by fastforce
  from key_generate_correct [OF toyW_specs ex_node_inv InitializeStorage_inv this]
  obtain req w ep where r: "ParseKeyGenerate toyW ex_data = Inr req" "GenerateNewKey toyW (Inr (toy_key 11)) req = Inr w"
    "nonceOf ex_storage1 = (nonceOf InitializeStorage)(idPair w \<mapsto> 0)" "ExtractKeyExistence toyW out 9 1 = Inr ep" by auto
  then have "idPair w = ex_key" by (auto simp: GenerateNewKey_def res_simps idPair_def ParseKeyGenerate_def ex_generate_def ex_key_def)
  with r show ?thesis by auto
qed

text \<open>
  The second phase of an instruction, and any unknown phase, changes nothing: only a
  threshold-phase instruction can generate, delete or restore a key.
\<close>

theorem second_phase_changes_nothing:
  assumes "tag \<noteq> Threshold"
  shows "snd (KeyGenerate E n ctx drawn tag d ms sg p s) = s \<and> snd (KeyDelete E n ctx tag d ms sg p s) = s
    \<and> snd (KeyDataProviderRestore E B n ctx tag d ms sg p s) = s \<and> snd (KeyDirectBackup E n ctx rh er tag d ms sg p s) = s
    \<and> snd (KeyDirectRestore E n ctx tag d ms sg p s) = s"
  by (simp add: not_threshold_unchanged [OF assms])

theorem second_phase_changes_nothing_witness: "snd (KeyDelete toyW ex_node None End ex_data [] [] toy_policy ex_storage1) = ex_storage1"
  using second_phase_changes_nothing [of End toyW ex_node None "Inr (toy_key 11)" ex_data "[]" "[]" toy_policy ex_storage1 bigmod_ref "Inr 0" 0] by simp

end
