(* ===== verification/Props_Direct.thy ===== *)
theory Props_Direct
  imports Toy_Env
begin

text \<open>
  The direct transfer of a key from one node to another: the envelope that the source's
  \<open>KeyDirectBackup\<close> returns is opened by the destination's \<open>KeyDirectRestore\<close>.
\<close>

section \<open>Opening an envelope\<close>

text \<open>The laws of the two JSON codecs, and that encryption depends on the point of a key only.\<close>

definition direct_codec :: "'a backup_env_scheme \<Rightarrow> bool" where
  "direct_codec E \<longleftrightarrow> (\<forall>p b. json_DirectPayload E p = Inr b \<longrightarrow> unjson_DirectPayload E b = Inr p)
     \<and> (\<forall>p b. json_SignedDirect E p = Inr b \<longrightarrow> unjson_SignedDirect E b = Inr p \<and> b \<noteq> [])"

definition ecies_point :: "'a geth_scheme \<Rightarrow> bool" where
  "ecies_point G \<longleftrightarrow> (\<forall>r pk c. ecies_Encrypt G r (pk\<lparr>pk_Curve := c\<rparr>) = ecies_Encrypt G r pk)"

lemma Decrypt_Encrypt_point:
  assumes "ecies_spec G" and "ecies_point G" and "pk_Curve (sk_Pub sk) = Crypto_S256"
    and "Encrypt G r msg ((sk_Pub sk)\<lparr>pk_Curve := Secp256k1_S256\<rparr>) = Inr c"
  shows "Decrypt G c sk = Inr msg"
  using assms
  by (auto simp: Encrypt_def Decrypt_def ECDSAPrivKeyToECIES_def ECDSAPubKeyToECIES_def ecies_spec_def ecies_point_def)

text \<open>The backup identifier of the envelope, as a restore instruction names it.\<close>

definition backup_id_of :: "'a geth_scheme \<Rightarrow> Node \<Rightarrow> uint32 \<Rightarrow> hash \<Rightarrow> Wallet \<Rightarrow> BackupIdMsg" where
  "backup_id_of G src epoch nonce w = \<lparr>bi_TeeId = n_teeID src, bi_WalletId = WalletID w, bi_KeyId = KeyID w, bi_KeyType = KeyType w,
     bi_SigningAlgo = SigningAlgo w, bi_PublicKey = PubKeyToBytes (sk_Pub (ToECDSAUnsafe G (PrivateKey w))),
     bi_RewardEpochId = epoch, bi_RandomNonce = nonce\<rparr>"

text \<open>The parts of a successful envelope.\<close>

lemma direct_envelope_Inr:
  assumes "direct_envelope E src er pk epoch nonce w = Inr env"
  obtains cipher payload pb h sig where "Encrypt E er (PrivateKey w) pk = Inr cipher"
    "NewKeyDirectBackupPayload E w (n_teeID src) cipher epoch nonce = Inr payload" "json_DirectPayload E payload = Inr pb"
    "payload_Hash E TEEKeyDirectBackup (n_chainID src) (Keccak256Hash E pb) = Inr h" "n_chainID src \<noteq> 0"
    "Sign E (hash_bytes h) (n_privateKey src) = Inr sig" "json_SignedDirect E \<lparr>sd_Payload = pb, sd_TEESignature = sig\<rparr> = Inr env"
  using assms by (auto simp: direct_envelope_def res_simps Node_ChainID_def Node_Sign_def split: if_splits)

lemma direct_payload_restores:
  assumes "toecdsa_spec E" and "PubKey E w = Inr pub" and "valid_keys E (AdminPublicKeys w)"
    and "NewKeyDirectBackupPayload E w tee cipher epoch nonce = Inr payload"
  shows "WalletFromKeyDirectBackupPayload E payload (PrivateKey w) = Inr (restored_copy w)"
proof -
  from assms(2) obtain k where k: "ToECDSA E (PrivateKey w) = Inr k" by (auto simp: PubKey_def res_simps split: if_splits)
  note f = ToECDSA_Inr [OF assms(1) k]
  show ?thesis
    using assms(4) k f(1,3) parse_valid_keys [OF assms(3)]
    by (auto simp: WalletFromKeyDirectBackupPayload_def NewKeyDirectBackupPayload_def res_simps Let_def restored_copy_def)
qed

lemma open_direct_envelope:
  assumes spec: "ecies_spec E" "ecies_point E" "ecdsa_spec E" "toecdsa_spec E" "direct_codec E"
    and nodes: "node_inv E src" "n_chainID dst = n_chainID src" "pk_Curve (sk_Pub (n_privateKey dst)) = Crypto_S256"
    and w: "PubKey E w = Inr pub" "valid_keys E (AdminPublicKeys w)" "length (AdminPublicKeys w) \<le> MaxAdminsPerWalletKey"
      "length (Cosigners w) \<le> MaxCosignersPerWalletKey"
    and env: "direct_envelope E src er ((sk_Pub (n_privateKey dst))\<lparr>pk_Curve := Secp256k1_S256\<rparr>) epoch nonce w
        = Inr (df_AdditionalFixedMessage d)"
    and req: "dr_SourceTeeId req = n_teeID src" "dr_BackupId req = backup_id_of E src epoch nonce w"
      "abi_encode_BackupId E (dr_BackupId req) = Inr enc"
    and epoch: "df_RewardEpochID d = epoch \<or> df_RewardEpochID d = epoch + 1"
  shows "open_envelope E dst d req = Inr (restored_copy w)"
proof -
  from direct_envelope_Inr [OF env] obtain cipher payload pb h sig where
    e: "Encrypt E er (PrivateKey w) ((sk_Pub (n_privateKey dst))\<lparr>pk_Curve := Secp256k1_S256\<rparr>) = Inr cipher"
      "NewKeyDirectBackupPayload E w (n_teeID src) cipher epoch nonce = Inr payload" "json_DirectPayload E payload = Inr pb"
      "payload_Hash E TEEKeyDirectBackup (n_chainID src) (Keccak256Hash E pb) = Inr h" "n_chainID src \<noteq> 0"
      "Sign E (hash_bytes h) (n_privateKey src) = Inr sig"
      "json_SignedDirect E \<lparr>sd_Payload = pb, sd_TEESignature = sig\<rparr> = Inr (df_AdditionalFixedMessage d)" .
  have codec: "unjson_DirectPayload E pb = Inr payload" "df_AdditionalFixedMessage d \<noteq> []"
    "unjson_SignedDirect E (df_AdditionalFixedMessage d) = Inr \<lparr>sd_Payload = pb, sd_TEESignature = sig\<rparr>"
    using spec(5) e(3,7) by (auto simp: direct_codec_def)
  have ver: "VerifySignature E (hash_bytes h) sig (n_teeID src) = Inr ()"
    using VerifySignature_Sign [OF spec(3) e(6)] nodes(1) by (simp add: node_inv_def)
  have dec: "Node_Decrypt E dst cipher = Inr (PrivateKey w)"
    using Decrypt_Encrypt_point [OF spec(1,2) nodes(3) e(1)] by (simp add: Node_Decrypt_def)
  have id: "dp_EncryptedPrivateKey payload = cipher" "wb_RewardEpochID (dp_BackupID payload) = epoch"
    "length (dp_AdminPublicKeys payload) = length (AdminPublicKeys w)" "dp_Cosigners payload = Cosigners w"
    "matchesInstructionBackupId E (dp_BackupID payload) (dr_BackupId req) = Inr ()"
    using e(2) req(3)
    by (auto simp: NewKeyDirectBackupPayload_def res_simps Let_def matchesInstructionBackupId_def WalletBackupID_Equal_def
        encodeABI_def req(2) backup_id_of_def)
  have counts: "ValidateWalletMemberCounts (length (AdminPublicKeys w)) (length (Cosigners w)) = Inr ()"
    using w(3,4) by (simp add: ValidateWalletMemberCounts_Inr)
  show ?thesis
    using codec ver dec id counts epoch e(4,5) direct_payload_restores [OF spec(4) w(1,2) e(2)]
    by (auto simp: open_envelope_def Node_ChainID_def nodes(2) req(1))
qed

text \<open>What a successful backup had read and produced.\<close>

lemma KeyDirectBackup_success:
  assumes "KeyDirectBackup E src ctx (Inr nonce) er Threshold d ms sg p s = (Inr (env, st), s1)"
    and "ParseKeyDirectBackup E d = Inr req"
  obtains pk v where "validateKeyDirectBackupRequest E src req = Inr pk"
    "Get s \<lparr>kp_WalletID = db_WalletId req, kp_KeyID = db_KeyId req\<rparr> = Inr v"
    "direct_envelope E src er pk (df_RewardEpochID d) nonce v = Inr env"
  using assms by (auto simp: KeyDirectBackup_def stry_eq Let_def)

lemma validated_destination:
  assumes "validateKeyDirectBackupRequest G src req = Inr pk" and "db_DestinationTeePublicKey req = PubKeyToStruct k" and "pub_fits k"
  shows "pk = k\<lparr>pk_Curve := Secp256k1_S256\<rparr>"
proof -
  have parse: "ParsePubKey G (PubKeyToStruct k) = Inr pk" using assms(1,2)
    by (auto simp: validateKeyDirectBackupRequest_def res_simps Let_def case_prod_beta)
  have "int (nat_of_bytes (hash_bytes (px (PubKeyToStruct k)))) = int (pk_X k)" "int (nat_of_bytes (hash_bytes (py (PubKeyToStruct k)))) = int (pk_Y k)"
    using assms(3) by (simp_all add: PubKeyToStruct_def pub_fits_def pad32_big_Bytes hash_bytes_BytesToHash nat_of_fill_32)
  then have "IsOnCurve G (int (pk_X k)) (int (pk_Y k))" using parse by (auto simp: ParsePubKey_def Let_def split: if_splits)
  with ParsePubKey_roundtrip [OF assms(3), of G] parse show ?thesis by simp
qed

lemma Get_counts:
  assumes "storage_inv s" and "Get s k = Inr w"
  shows "length (AdminPublicKeys w) \<le> MaxAdminsPerWalletKey" "length (Cosigners w) \<le> MaxCosignersPerWalletKey" "idPair w = k"
  using assms storage_invD(3) [OF assms(1), of k]
  by (auto simp: Get_def Copy_stored_def idPair_def split: option.splits)

text \<open>The external functions behave as documented.\<close>

definition direct_env :: "'a backup_env_scheme \<Rightarrow> bool" where
  "direct_env E \<longleftrightarrow> ecies_spec E \<and> ecies_point E \<and> ecdsa_spec E \<and> toecdsa_spec E \<and> direct_codec E"

text \<open>
  C12: a direct transfer moves the key. When the source's \<open>KeyDirectBackup\<close> of a stored wallet
  succeeds for the destination's public key, the destination opens the envelope, in the
  epoch of the backup or the next, to the same private key, admins, cosigners and
  thresholds, marked as restored; and every restore of it that succeeds stores exactly this
  wallet, under its identifiers and with the instruction's nonce.
\<close>

theorem direct_transfer_roundtrip:
  assumes env: "direct_env E"
    and nodes: "node_inv E src" "n_chainID dst = n_chainID src" "pk_Curve (sk_Pub (n_privateKey dst)) = Crypto_S256"
      "pub_fits (sk_Pub (n_privateKey dst))"
    and stored: "storage_inv s" "Get s \<lparr>kp_WalletID = db_WalletId breq, kp_KeyID = db_KeyId breq\<rparr> = Inr w"
      "PubKey E w = Inr pub" "valid_keys E (AdminPublicKeys w)"
    and backup: "ParseKeyDirectBackup E d = Inr breq" "db_DestinationTeePublicKey breq = PubKeyToStruct (sk_Pub (n_privateKey dst))"
      "KeyDirectBackup E src ctx (Inr nonce) er Threshold d ms sg p s = (Inr (df_AdditionalFixedMessage d', st), s1)"
    and restore: "ParseKeyDirectRestore E d' = Inr rreq" "dr_SourceTeeId rreq = n_teeID src"
      "dr_BackupId rreq = backup_id_of E src (df_RewardEpochID d) nonce w" "abi_encode_BackupId E (dr_BackupId rreq) = Inr enc"
      "df_RewardEpochID d' = df_RewardEpochID d \<or> df_RewardEpochID d' = df_RewardEpochID d + 1"
  shows "open_envelope E dst d' rreq = Inr (restored_copy w)
    \<and> (\<forall>ctx' ms' sg' p' t out t'. storage_inv t \<longrightarrow> KeyDirectRestore E dst ctx' Threshold d' ms' sg' p' t = (Inr out, t') \<longrightarrow>
         walletsOf t' = (walletsOf t)(idPair w \<mapsto> data_of (restored_copy w))
         \<and> nonceOf t' (idPair w) = Some (Uint64 (dr_DestinationNonce rreq)))"
proof -
  from KeyDirectBackup_success [OF backup(3,1)] stored(2) obtain pk where pk: "validateKeyDirectBackupRequest E src breq = Inr pk"
    and dir: "direct_envelope E src er pk (df_RewardEpochID d) nonce w = Inr (df_AdditionalFixedMessage d')" by auto
  have "open_envelope E dst d' rreq = Inr (restored_copy w)"
    using env dir unfolding direct_env_def validated_destination [OF pk backup(2) nodes(4)]
    by (intro open_direct_envelope [OF _ _ _ _ _ nodes(1-3) stored(3,4) Get_counts(1,2) [OF stored(1,2)] _ restore(2-5)]) auto
  moreover have "walletsOf t' = (walletsOf t)(idPair w \<mapsto> data_of (restored_copy w))
      \<and> nonceOf t' (idPair w) = Some (Uint64 (dr_DestinationNonce rreq))"
    if inv: "storage_inv t" and run: "KeyDirectRestore E dst ctx' Threshold d' ms' sg' p' t = (Inr out, t')" for ctx' ms' sg' p' t out t'
  proof -
    have id: "idPair (restored_copy w) = idPair w" by (simp add: idPair_def restored_copy_def)
    have "\<lparr>kp_WalletID = bi_WalletId (dr_BackupId rreq), kp_KeyID = bi_KeyId (dr_BackupId rreq)\<rparr> = idPair w"
      by (simp add: restore(3) backup_id_of_def idPair_def)
    then obtain out' where r: "restore_wallet E dst ctx' (idPair w) (restored_copy w) (Uint64 (dr_DestinationNonce rreq)) t = (Inr out', t')"
      using run restore(1) \<open>open_envelope E dst d' rreq = Inr (restored_copy w)\<close>
      by (auto simp: KeyDirectRestore_def stry_eq sbind_eq Let_def validateKeyDirectRestoreRequest_def res_simps split: prod.splits)
    then have "restored (idPair w) (restored_copy w) (Uint64 (dr_DestinationNonce rreq)) t t'"
      by (auto simp: restore_wallet_def stry_eq sbind_eq Let_def res_simps restored_def split: if_splits)
    from nonceOf_restored(2,6) [OF inv this] show ?thesis by (simp add: id)
  qed
  ultimately show ?thesis by blast
qed

section \<open>An example transfer\<close>

definition dx_wallet :: Wallet where
  "dx_wallet = \<lparr>WalletID = 1, KeyID = 2, PrivateKey = fill_bytes 32 11, KeyType = 0, SigningAlgo = EVMSignAlgo, Restored = False,
     AdminPublicKeys = [toy_pub 3], AdminsThreshold = 1, Cosigners = [], CosignersThreshold = 0,
     SettingsVersion = 0, Settings = [], Status = \<lparr>st_Nonce = 4, st_PausingNonce = 0, st_StatusCode = 0\<rparr>\<rparr>"

definition dx_storage :: Storage where
  "dx_storage = \<lparr>sto_wallets = [(\<lparr>kp_WalletID = 1, kp_KeyID = 2\<rparr>, Copy_at dx_wallet 0)],
     sto_permanent = [(\<lparr>kp_WalletID = 1, kp_KeyID = 2\<rparr>, 0)], sto_heap = [Status dx_wallet]\<rparr>"

definition dx_source :: Node where
  "dx_source = (fresh_node toy (toy_key 9) ZeroState)\<lparr>n_chainID := 1, n_machinePathNonce := 1,
     n_machinePaths := [\<lparr>mp_SourceTeeIds = [9], mp_DestinationTeeIds = [8]\<rparr>]\<rparr>"

definition dx_destination :: Node where
  "dx_destination = (fresh_node toy (toy_key 8) ZeroState)\<lparr>n_chainID := 1\<rparr>"

definition dx_payload :: KeyDirectBackupPayload where
  "dx_payload = projr (NewKeyDirectBackupPayload toy dx_wallet 9 (fill_bytes 32 8 @ fill_bytes 32 11) 6 77)"

definition dx_backup_req :: KeyDirectBackupMsg where
  "dx_backup_req = \<lparr>db_SourceTeeId = 9, db_WalletId = 1, db_KeyId = 2, db_DestinationTeePublicKey = PubKeyToStruct (toy_pub 8),
     db_MachinePathListNonce = Some 1\<rparr>"

definition dx_restore_req :: KeyDirectRestoreMsg where
  "dx_restore_req = \<lparr>dr_BackupId = backup_id_of toy dx_source 6 77 dx_wallet, dr_SourceTeeId = 9, dr_MachinePathListNonce = Some 1,
     dr_DestinationNonce = Some 5\<rparr>"

definition toyD :: processor_env where
  "toyD = toy\<lparr>abi_KeyDirectBackup := \<lambda>b. Inr dx_backup_req, abi_KeyDirectRestore := \<lambda>b. Inr dx_restore_req,
     json_DirectPayload := \<lambda>p. if p = dx_payload then Inr [5] else Inl toy_err,
     unjson_DirectPayload := \<lambda>b. if b = [5] then Inr dx_payload else Inl toy_err,
     json_SignedDirect := \<lambda>e. if sd_Payload e = [5] then Inr (0 # sd_TEESignature e) else Inl toy_err,
     unjson_SignedDirect := \<lambda>b. Inr \<lparr>sd_Payload = [5], sd_TEESignature = tl b\<rparr>\<rparr>"

definition dx_data :: "uint32 \<Rightarrow> bytes \<Rightarrow> DataFixed" where
  "dx_data epoch m = \<lparr>df_InstructionID = 0, df_TeeID = 9, df_RewardEpochID = epoch, df_OPType = 1, df_OPCommand = 2, df_Cosigners = [],
     df_CosignersThreshold = 0, df_OriginalMessage = [], df_AdditionalFixedMessage = m, df_Timestamp = 0\<rparr>"

definition dx_envelope :: bytes where
  "dx_envelope = 0 # fill_bytes 32 9 @ hash_bytes (toy_hash (hash_bytes (toy_hash [5]))) @ [0]"

lemma toyD_fields [simp]:
  "PubkeyToAddress toyD = PubkeyToAddress toy" "ToECDSA toyD = toy_ToECDSA" "IsOnCurve toyD = IsOnCurve toy"
  "crypto_Sign toyD = toy_Sign" "TextHash toyD = (\<lambda>b. b)" "Keccak256Hash toyD = toy_hash" "SigToPub toyD = toy_SigToPub"
  "ValidateSignatureValues toyD = (\<lambda>v r s h. True)" "ecies_Encrypt toyD = toy_Encrypt" "ecies_Decrypt toyD = toy_Decrypt"
  "ScalarBaseMult toyD = (\<lambda>b. (nat_of_bytes b, 0))" "payload_Hash toyD = (\<lambda>tag c h. Inr h)"
  "abi_KeyDirectBackup toyD = (\<lambda>b. Inr dx_backup_req)" "abi_KeyDirectRestore toyD = (\<lambda>b. Inr dx_restore_req)"
  "json_DirectPayload toyD = (\<lambda>p. if p = dx_payload then Inr [5] else Inl toy_err)"
  "unjson_DirectPayload toyD = (\<lambda>b. if b = [5] then Inr dx_payload else Inl toy_err)"
  "json_SignedDirect toyD = (\<lambda>e. if sd_Payload e = [5] then Inr (0 # sd_TEESignature e) else Inl toy_err)"
  "unjson_SignedDirect toyD = (\<lambda>b. Inr \<lparr>sd_Payload = [5], sd_TEESignature = tl b\<rparr>)"
  "abi_encode_BackupId toyD = (\<lambda>b. Inr (fill_bytes 8 (unat (bi_KeyId b))))"
  by (simp_all add: toyD_def) (simp_all add: toy_defs)

lemma toyD_env: "direct_env toyD"
  by (auto simp: direct_env_def toy_ecies toy_ecdsa toy_toecdsa ecies_point_def toy_Encrypt_def direct_codec_def split: if_splits)

lemma dx_nodes: "node_inv toyD dx_source" "n_chainID dx_destination = n_chainID dx_source" "n_teeID dx_source = 9" "n_chainID dx_source = 1"
  "n_privateKey dx_destination = toy_key 8" "n_privateKey dx_source = toy_key 9"
  by (simp_all add: node_inv_def dx_source_def dx_destination_def fresh_node_def governance_ok_def toy_key_def toy_pub_def)

lemma dx_storage_inv: "storage_inv dx_storage"
  by (auto simp: storage_inv_def dx_storage_def idPair_def Copy_at_def dx_wallet_def MaxAdminsPerWalletKey_def
      MaxCosignersPerWalletKey_def MaxWallets_def MaxPermanentWalletsStatus_def split: if_splits)

lemma dx_get: "Get dx_storage \<lparr>kp_WalletID = 1, kp_KeyID = 2\<rparr> = Inr dx_wallet"
  by (simp add: Get_def dx_storage_def Copy_stored_def Copy_at_def dx_wallet_def)

lemma dx_pub: "\<exists>pub. PubKey toyD dx_wallet = Inr pub"
  by (simp add: PubKey_def dx_wallet_def toy_ToECDSA_def nat_of_fill_32 secp256k1_N_def)

lemma dx_valid: "valid_keys toyD (AdminPublicKeys dx_wallet)"
  by (simp add: valid_keys_def dx_wallet_def toy_pub_def pub_fits_def)

lemma dx_parse: "ParseKeyDirectBackup toyD d = Inr dx_backup_req" "ParseKeyDirectRestore toyD d = Inr dx_restore_req"
  by (simp_all add: ParseKeyDirectBackup_def ParseKeyDirectRestore_def dx_backup_req_def dx_restore_req_def nonceCheck_def BitLen.simps)

lemma dx_backup:
  "KeyDirectBackup toyD dx_source None (Inr 77) 0 Threshold (dx_data 6 []) [] [] p dx_storage = (Inr (dx_envelope, []), dx_storage)"
proof -
  have "ParsePubKey toyD (PubKeyToStruct (toy_pub 8)) = Inr ((toy_pub 8)\<lparr>pk_Curve := Secp256k1_S256\<rparr>)"
    by (rule ParsePubKey_roundtrip) (simp_all add: pub_fits_def toy_pub_def)
  moreover have "NewKeyDirectBackupPayload toyD dx_wallet 9 (fill_bytes 32 8 @ fill_bytes 32 11) 6 77 = Inr dx_payload"
    by (simp add: dx_payload_def NewKeyDirectBackupPayload_def dx_wallet_def Algos_def ToECDSAUnsafe_def)
  ultimately show ?thesis
    using dx_get
    by (simp add: KeyDirectBackup_def dx_parse validateKeyDirectBackupRequest_def dx_backup_req_def dx_nodes MachinePaths_def IsUint64_def
      Uint64_def direct_envelope_def dx_data_def Encrypt_def ECDSAPubKeyToECIES_def toy_Encrypt_def Node_ChainID_def Node_Sign_def Sign_def
      toy_Sign_def dx_envelope_def ctx_check_def Let_def toy_key_def toy_pub_def)
     (simp add: dx_source_def pathAuthorizes_def dx_wallet_def Algos_def)
qed

theorem direct_transfer_roundtrip_witness:
  "open_envelope toyD dx_destination (dx_data 7 dx_envelope) dx_restore_req = Inr (restored_copy dx_wallet)"
proof -
  obtain pub where pub: "PubKey toyD dx_wallet = Inr pub" using dx_pub by blast
  have bk: "KeyDirectBackup toyD dx_source None (Inr 77) 0 Threshold (dx_data 6 []) [] [] toy_policy dx_storage
      = (Inr (df_AdditionalFixedMessage (dx_data 7 dx_envelope), []), dx_storage)"
    using dx_backup by (simp add: dx_data_def)
  show ?thesis
    by (rule direct_transfer_roundtrip [THEN conjunct1, OF toyD_env dx_nodes(1,2) _ _ dx_storage_inv _ pub dx_valid dx_parse(1) _ bk dx_parse(2)])
      (simp_all add: dx_get dx_nodes dx_backup_req_def dx_restore_req_def dx_data_def toy_key_def toy_pub_def pub_fits_def backup_id_of_def
        ToECDSAUnsafe_def)
qed

end
