(* ===== verification/Props_Backup.thy ===== *)
theory Props_Backup
  imports Toy_Env
begin

text \<open>
  Properties of key backups: the normalised weights of the data providers, and the
  recovery of a wallet from the encrypted splits of enough admins and data providers.
\<close>

section \<open>Normalised weights\<close>

text \<open>
  C35: weight normalisation. The weights are refused exactly when their true sum is zero or does
  not fit in 16 bits; otherwise the result has one entry per weight and the entries sum to
  the requested total exactly, so rounding neither loses nor invents a share.
\<close>

theorem normalised_weights_exact:
  shows "(sum_list (map unat ws) \<ge> 65536 \<longrightarrow> weightsNormalization ws tot = Inl (Err ''overflow of weights''))
    \<and> (sum_list (map unat ws) = 0 \<longrightarrow> weightsNormalization ws tot = Inl (Err ''total weight is zero''))
    \<and> (0 < sum_list (map unat ws) \<and> sum_list (map unat ws) < 65536 \<longrightarrow>
         (\<exists>nws. weightsNormalization ws tot = Inr nws \<and> length nws = length ws \<and> sum_list (map unat nws) = unat tot))"
proof (intro conjI impI)
  show "weightsNormalization ws tot = Inl (Err ''overflow of weights'')" if "sum_list (map unat ws) \<ge> 65536"
    using that by (simp add: weightsNormalization_def weights_sum_eq)
  show "weightsNormalization ws tot = Inl (Err ''total weight is zero'')" if "sum_list (map unat ws) = 0"
    using that by (simp add: weightsNormalization_def weights_sum_eq del: sum_list_eq_0_iff)
  assume b: "0 < sum_list (map unat ws) \<and> sum_list (map unat ws) < 65536"
  then have "\<exists>nws. weightsNormalization ws tot = Inr nws"
    by (simp add: weightsNormalization_def weights_sum_eq word_unat_eq_iff unat_of_nat del: sum_list_eq_0_iff)
  then show "\<exists>nws. weightsNormalization ws tot = Inr nws \<and> length nws = length ws \<and> sum_list (map unat nws) = unat tot"
    using weightsNormalization_Inr(1,2) by blast
qed

theorem normalised_weights_exact_witness:
  "weightsNormalization [30000, 40000] 1000 = Inl (Err ''overflow of weights'')
   \<and> (\<exists>nws. weightsNormalization [1, 1, 1] 1000 = Inr nws \<and> length nws = length [(1::uint16), 1, 1] \<and> sum_list (map unat nws) = 1000)"
  using normalised_weights_exact [of "[30000, 40000]" 1000] normalised_weights_exact [of "[1, 1, 1]" 1000] by simp

section \<open>Recovery\<close>

text \<open>The external functions behave as documented.\<close>

definition backup_env_ok :: "'a backup_env_scheme \<Rightarrow> bool" where
  "backup_env_ok E \<longleftrightarrow> ecies_spec E \<and> ecdsa_spec E \<and> toecdsa_spec E \<and> keysplit_codec E"

text \<open>
  C4: a backup can be recovered. When \<open>BackupWallet\<close> succeeds on a wallet with an ECDSA key, then
  for every choice of participants without repetition, in any order, whose admin weights
  reach the wallet's admin threshold and whose provider weights reach the provider
  threshold, every participant decrypts and verifies their own split, and \<open>RecoverWallet\<close>
  on these splits gives back the wallet: the same private key, identifiers, admins,
  cosigners and thresholds, marked as restored.
\<close>

theorem backup_recovers_wallet:
  assumes "bigmod_spec B" and "backup_env_ok E"
    and algo: "SigningAlgo w = XRPSignAlgo \<or> SigningAlgo w = EVMSignAlgo"
    and bk: "BackupWallet E B rnd w pkeys weights epoch tee chainID total_shares thr = Inr bk"
      "bk_AdminEncryptedParts bk = Some adm" "bk_ProviderEncryptedParts bk = Some prov"
      "encodeABI E (md_ID (bk_MetaData bk)) = Inr e"
    and keys: "valid_keys E (AdminPublicKeys w)" "length (AdminPublicKeys w) \<le> 1000" "unat total_shares \<le> 1000"
    and who: "distinct who" "\<forall>(a, i) \<in> set who. i < length (es_Splits (if a then adm else prov))
        \<and> sk_Pub (sk (a, i)) = (if a then AdminPublicKeys w else pkeys) ! i"
    and enough: "unat (AdminsThreshold w) \<le> weight_of (es_Weights adm) who True"
      "unat thr \<le> weight_of (es_Weights prov) who False"
  shows "\<exists>splits. rmap (\<lambda>(a, i). DecryptSplit E (es_Splits (if a then adm else prov) ! i) (sk (a, i)) chainID) who = Inr splits
     \<and> RecoverWallet E B splits (bk_MetaData bk) = Inr (restored_copy w)"
  using assms(2) unfolding backup_env_ok_def
  by (intro backup_recover [OF assms(1) _ _ _ _ algo bk keys who enough]) auto

section \<open>An example backup: one admin, one data provider\<close>

definition bx_wallet :: Wallet where
  "bx_wallet = \<lparr>WalletID = 1, KeyID = 2, PrivateKey = fill_bytes 32 11, KeyType = 0, SigningAlgo = EVMSignAlgo, Restored = False,
     AdminPublicKeys = [toy_pub 3], AdminsThreshold = 1, Cosigners = [], CosignersThreshold = 0,
     SettingsVersion = 0, Settings = [], Status = \<lparr>st_Nonce = 4, st_PausingNonce = 0, st_StatusCode = 0\<rparr>\<rparr>"

definition bx_rnd :: backup_rnd where
  "bx_rnd = \<lparr>br_Nonce = Inr 77, br_Split = \<lambda>i. Inr 7, br_Admin = \<lambda>i. Inr 7, br_Provider = \<lambda>i. Inr 7, br_EncAdmin = id, br_EncProvider = id\<rparr>"

definition bx_id :: WalletBackupID where
  "bx_id = \<lparr>wb_TeeID = 9, wb_WalletID = 1, wb_KeyID = 2, wb_PublicKey = PubKeyToBytes (toy_pub 11), wb_KeyType = 0,
     wb_SigningAlgo = EVMSignAlgo, wb_RewardEpochID = 6, wb_RandomNonce = 77\<rparr>"

definition bx_data :: "nat \<Rightarrow> nat \<Rightarrow> bool \<Rightarrow> KeySplitData" where
  "bx_data v owner adm = \<lparr>ks_Shares = [\<lparr>sh_X = 1, sh_Y = fill_bytes 32 v\<rparr>], ks_PartialID = \<lparr>pw_ID = bx_id, pw_IsAdmin = adm\<rparr>,
     ks_OwnerPublicKey = PubKeyToStruct (toy_pub owner)\<rparr>"

definition bx_split :: "nat \<Rightarrow> nat \<Rightarrow> bool \<Rightarrow> KeySplit" where
  "bx_split v owner adm = \<lparr>ks_Data = bx_data v owner adm, 
     ks_Signature = fill_bytes 32 11 @ hash_bytes (toy_hash (hash_bytes (toy_hash (hash_bytes (toy_hash (fill_bytes 32 v)))))) @ [0]\<rparr>"

definition toyB :: processor_env where
  "toyB = toy\<lparr>json_KeySplit := \<lambda>k. if k = bx_split 7 3 True then Inr [1] else if k = bx_split 4 5 False then Inr [2] else Inl toy_err,
     unjson_KeySplit := \<lambda>b. if b = [1] then Inr (bx_split 7 3 True) else if b = [2] then Inr (bx_split 4 5 False) else Inl toy_err\<rparr>"

lemma toyB_fields [simp]:
  "PubkeyToAddress toyB = PubkeyToAddress toy" "ToECDSA toyB = toy_ToECDSA" "IsOnCurve toyB = IsOnCurve toy"
  "crypto_Sign toyB = toy_Sign" "TextHash toyB = (\<lambda>b. b)" "Keccak256Hash toyB = toy_hash" "SigToPub toyB = toy_SigToPub"
  "ValidateSignatureValues toyB = (\<lambda>v r s h. True)" "ecies_Encrypt toyB = toy_Encrypt" "ecies_Decrypt toyB = toy_Decrypt"
  "ScalarBaseMult toyB = (\<lambda>b. (nat_of_bytes b, 0))" "payload_Hash toyB = (\<lambda>tag c h. Inr h)"
  "json_KeySplitData toyB = (\<lambda>d. Inr (concat (map sh_Y (ks_Shares d))))" "json_WalletBackupForHashing toyB = (\<lambda>m a p. Inr [])"
  "json_KeySplit toyB = (\<lambda>k. if k = bx_split 7 3 True then Inr [1] else if k = bx_split 4 5 False then Inr [2] else Inl toy_err)"
  "unjson_KeySplit toyB = (\<lambda>b. if b = [1] then Inr (bx_split 7 3 True) else if b = [2] then Inr (bx_split 4 5 False) else Inl toy_err)"
  "abi_encode_BackupId toyB = (\<lambda>b. Inr (fill_bytes 8 (unat (bi_KeyId b))))"
  by (simp_all add: toyB_def) (simp_all add: toy_defs)

lemma toyB_env: "backup_env_ok toyB"
  by (auto simp: backup_env_ok_def toy_ecies toy_ecdsa toy_toecdsa keysplit_codec_def split: if_splits)

lemma bx_sign: "KeySplitData_Sign toyB (bx_data v owner adm) bx_wallet 1 = Inr (ks_Signature (bx_split v owner adm))"
  by (simp add: bx_split_def KeySplitData_Sign_def KeySplitData_SignHash_def KeySplitData_HashForSigning_def Wallet_Sign_def
      signKeccak256Secp256k1ECDSA_def toy_Sign_def ToECDSAUnsafe_def bx_wallet_def Keccak256_def algos_distinct nat_of_fill_32 bx_data_def)

lemma bx_shares:
  assumes "v < 1000"
  shows "SplitToShamirShares bigmod_ref draws fieldSecp256k1Order (fill_bytes 32 v) 1 1 = Inr [\<lparr>sh_X = 1, sh_Y = fill_bytes 32 v\<rparr>]"
proof -
  have N: "fld_Modulus fieldSecp256k1Order = secp256k1_N" "fld_Size fieldSecp256k1Order = 32" by (simp_all add: fieldSecp256k1Order_def)
  have v: "v < secp256k1_N" "nat_of_bytes (fill_bytes 32 v) = v" using assms by (simp_all add: secp256k1_N_def nat_of_fill_32)
  have "Element bigmod_ref fieldSecp256k1Order (fill_bytes 32 v) = Inr v"
    using Element_ok [OF bigmod_ref_spec field_ok_secp, of "fill_bytes 32 v"] v by (simp add: N)
  then show ?thesis
    using v by (simp add: SplitToShamirShares_def evalPolynomial_ok [OF bigmod_ref_spec field_ok_secp] N
      fld_Bytes_ok [OF bigmod_ref_spec field_ok_secp] upt_rec)
qed

lemma bx_encrypt:
  assumes "v < 1000" and "json_KeySplit toyB (bx_split v owner adm) = Inr b"
  shows "SplitAndEncrypt toyB bigmod_ref draws enc fieldSecp256k1Order (fill_bytes 32 v) [toy_pub owner] 1 [1] bx_id bx_wallet adm 1
    = Inr \<lparr>es_Splits = [fill_bytes 32 owner @ b], es_OwnersPublicKeys = [PubKeyToStruct (toy_pub owner)], es_Threshold = 1, es_Weights = [1]\<rparr>"
proof -
  have sign: "KeySplitData_Sign toyB \<lparr>ks_Shares = [\<lparr>sh_X = 1, sh_Y = fill_bytes 32 v\<rparr>], ks_PartialID = \<lparr>pw_ID = bx_id, pw_IsAdmin = adm\<rparr>,
      ks_OwnerPublicKey = PubKeyToStruct (toy_pub owner)\<rparr> bx_wallet 1 = Inr (ks_Signature (bx_split v owner adm))"
    using bx_sign by (simp only: bx_data_def)
  have "bx_split v owner adm = \<lparr>ks_Data = \<lparr>ks_Shares = [\<lparr>sh_X = 1, sh_Y = fill_bytes 32 v\<rparr>], ks_PartialID = \<lparr>pw_ID = bx_id, pw_IsAdmin = adm\<rparr>,
      ks_OwnerPublicKey = PubKeyToStruct (toy_pub owner)\<rparr>, ks_Signature = ks_Signature (bx_split v owner adm)\<rparr>"
    by (simp add: bx_split_def bx_data_def)
  then have json: "json_KeySplit toyB \<lparr>ks_Data = \<lparr>ks_Shares = [\<lparr>sh_X = 1, sh_Y = fill_bytes 32 v\<rparr>], ks_PartialID = \<lparr>pw_ID = bx_id, pw_IsAdmin = adm\<rparr>,
      ks_OwnerPublicKey = PubKeyToStruct (toy_pub owner)\<rparr>, ks_Signature = ks_Signature (bx_split v owner adm)\<rparr> = Inr b"
    using assms(2) by (simp only:)
  have "SumUint64 [1 :: uint16] = 1" by (simp add: SumUint64_def)
  then show ?thesis
    using bx_shares [OF assms(1)] sign json
    by (simp add: SplitAndEncrypt_def Encrypt_def ECDSAPubKeyToECIES_def toy_Encrypt_def toy_pub_def Let_def del: toyB_fields(15))
qed

definition bx_admin :: EncryptedShares where
  "bx_admin = \<lparr>es_Splits = [fill_bytes 32 3 @ [1]], es_OwnersPublicKeys = [PubKeyToStruct (toy_pub 3)], es_Threshold = 1, es_Weights = [1]\<rparr>"

definition bx_provider :: EncryptedShares where
  "bx_provider = \<lparr>es_Splits = [fill_bytes 32 5 @ [2]], es_OwnersPublicKeys = [PubKeyToStruct (toy_pub 5)], es_Threshold = 1, es_Weights = [1]\<rparr>"

lemma bx_parts: "SplitSecret bigmod_ref (\<lambda>i. Inr 7) fieldSecp256k1Order (fill_bytes 32 11) 2 = Inr [fill_bytes 32 7, fill_bytes 32 4]"
proof -
  have N: "fld_Modulus fieldSecp256k1Order = secp256k1_N" "fld_Size fieldSecp256k1Order = 32" "fld_SecretSize fieldSecp256k1Order = 32"
    by (simp_all add: fieldSecp256k1Order_def)
  have "Element bigmod_ref fieldSecp256k1Order (fill_bytes 32 11) = Inr 11"
    using Element_ok [OF bigmod_ref_spec field_ok_secp, of "fill_bytes 32 11"] by (simp add: N secp256k1_N_def nat_of_fill_32)
  moreover have "Random bigmod_ref fieldSecp256k1Order (Inr 7) = Inr 7"
    by (simp add: Random_ok [OF bigmod_ref_spec field_ok_secp] N secp256k1_N_def)
  ultimately show ?thesis
    by (simp add: SplitSecret_def N upt_rec secp256k1_N_def bm_Add_eq [OF bigmod_ref_spec] bm_Sub_eq [OF bigmod_ref_spec]
      fld_Bytes_ok [OF bigmod_ref_spec field_ok_secp])
qed

lemma bx_different: "bx_split 4 5 False \<noteq> bx_split 7 3 True"
  by (simp add: bx_split_def bx_data_def)

lemma bx_backup:
  obtains bk where "BackupWallet toyB bigmod_ref bx_rnd bx_wallet [toy_pub 5] [3] 6 9 1 1 1 = Inr bk"
    "bk_AdminEncryptedParts bk = Some bx_admin" "bk_ProviderEncryptedParts bk = Some bx_provider"
proof -
  have pub: "PubKey toyB bx_wallet = Inr (PubKeyToBytes (toy_pub 11))"
    by (simp add: PubKey_def bx_wallet_def toy_ToECDSA_def nat_of_fill_32 secp256k1_N_def toy_key_def)
  have id: "\<lparr>wb_TeeID = 9, wb_WalletID = WalletID bx_wallet, wb_KeyID = KeyID bx_wallet, wb_PublicKey = PubKeyToBytes (toy_pub 11),
      wb_KeyType = KeyType bx_wallet, wb_SigningAlgo = SigningAlgo bx_wallet, wb_RewardEpochID = 6, wb_RandomNonce = 77\<rparr> = bx_id"
    by (simp add: bx_id_def bx_wallet_def)
  have norm: "weightsNormalization [3] 1 = Inr [1]" by (simp add: weightsNormalization_def)
  have fields: "SigningAlgo bx_wallet = EVMSignAlgo" "AdminPublicKeys bx_wallet = [toy_pub 3]" "AdminsThreshold bx_wallet = 1"
    "PrivateKey bx_wallet = fill_bytes 32 11" by (simp_all add: bx_wallet_def)
  have a: "SplitAndEncrypt toyB bigmod_ref (\<lambda>i. Inr 7) id fieldSecp256k1Order (fill_bytes 32 7) [toy_pub 3] 1 [1] bx_id bx_wallet True 1 = Inr bx_admin"
    using bx_encrypt [of 7 3 True "[1]"] by (simp add: bx_admin_def)
  have p: "SplitAndEncrypt toyB bigmod_ref (\<lambda>i. Inr 7) id fieldSecp256k1Order (fill_bytes 32 4) [toy_pub 5] 1 [1] bx_id bx_wallet False 1 = Inr bx_provider"
    using bx_encrypt [of 4 5 False "[2]"] bx_different by (simp add: bx_provider_def)
  have sign: "\<exists>sig. Wallet_Sign toyB bx_wallet m = Inr sig" for m
    by (simp add: Wallet_Sign_def fields algos_distinct signKeccak256Secp256k1ECDSA_def toy_Sign_def)
  obtain sig where "Wallet_Sign toyB bx_wallet (hash_bytes (toy_hash [])) = Inr sig" using sign by blast
  then show ?thesis
    using that id norm pub bx_parts a p
    by (simp add: BackupWallet_def fields FieldFor_def bx_rnd_def Let_def OwnerSignHash_def WalletBackup_HashForSigning_def)
qed

theorem backup_recovers_wallet_witness:
  "\<exists>bk splits. BackupWallet toyB bigmod_ref bx_rnd bx_wallet [toy_pub 5] [3] 6 9 1 1 1 = Inr bk
     \<and> RecoverWallet toyB bigmod_ref splits (bk_MetaData bk) = Inr (restored_copy bx_wallet)"
proof -
  obtain bk where bk: "BackupWallet toyB bigmod_ref bx_rnd bx_wallet [toy_pub 5] [3] 6 9 1 1 1 = Inr bk"
    "bk_AdminEncryptedParts bk = Some bx_admin" "bk_ProviderEncryptedParts bk = Some bx_provider" by (rule bx_backup)
  have w: "SigningAlgo bx_wallet = EVMSignAlgo" "AdminPublicKeys bx_wallet = [toy_pub 3]" "AdminsThreshold bx_wallet = 1"
    by (simp_all add: bx_wallet_def)
  have enc: "encodeABI toyB (md_ID (bk_MetaData bk)) = Inr (fill_bytes 8 (unat (wb_KeyID (md_ID (bk_MetaData bk)))))" by (simp add: encodeABI_def)
  have "\<exists>splits. rmap (\<lambda>(a, i). DecryptSplit toyB (es_Splits (if a then bx_admin else bx_provider) ! i)
        ((\<lambda>(a, i). toy_key (if a then 3 else 5)) (a, i)) 1) [(False, 0), (True, 0)] = Inr splits
     \<and> RecoverWallet toyB bigmod_ref splits (bk_MetaData bk) = Inr (restored_copy bx_wallet)"
    by (rule backup_recovers_wallet [OF bigmod_ref_spec toyB_env _ bk enc])
      (simp_all add: w valid_keys_def toy_pub_def pub_fits_def bx_admin_def bx_provider_def toy_key_def weight_of_def)
  then show ?thesis using bk by blast
qed

end
