(* ===== verification/Props_Policy.thy ===== *)
theory Props_Policy
  imports Toy_Env
begin

text \<open>
  Properties of the signing policies: their storage over runs of policy instructions, what a
  policy update needs, and the weight of a list of signers. The example initialises a
  policy with one voter and replaces it by the policy of the next epoch.
\<close>

section \<open>The example run\<close>

definition px_next :: SigningPolicy where "px_next = toy_policy\<lparr>sp_RewardEpochID := 1\<rparr>"

definition px_signature :: bytes where
  "px_signature = fill_bytes 32 4 @ hash_bytes (toy_hash (hash_bytes (toy_hash [2]))) @ [0]"

definition toyP :: processor_env where
  "toyP = toy\<lparr>FromRawBytes := \<lambda>b. Inr (if b = [1] then toy_policy else px_next),
     unjson_InitializePolicyRequest := \<lambda>b. Inr \<lparr>ip_InitialPolicyBytes = [1], ip_PublicKeys = [\<lparr>px = 4, py = 0\<rparr>]\<rparr>,
     unjson_UpdatePolicyRequest := \<lambda>b. Inr \<lparr>up_NewPolicy = \<lparr>ms_PolicyBytes = [2], ms_Signatures = [px_signature]\<rparr>,
       up_PublicKeys = [\<lparr>px = 4, py = 0\<rparr>]\<rparr>\<rparr>"

definition px_node :: Node where "px_node = (fresh_node toy (toy_key 9) ZeroState)\<lparr>n_chainID := 1\<rparr>"

definition px_instruction :: DirectInstruction where "px_instruction = \<lparr>di_OPType = 4, di_OPCommand = 0, di_Message = []\<rparr>"

definition px_keys :: "(address \<times> ecdsa_pub) list" where
  "px_keys = [(4, \<lparr>pk_Curve = Secp256k1_S256, pk_X = 4, pk_Y = 0\<rparr>)]"

definition px_storage1 :: PolicyStorage where
  "px_storage1 = \<lparr>ps_initialPolicyID = 0, ps_initialPolicyHash = 1, ps_active = Some toy_policy, ps_activePublicKeys = px_keys,
     ps_signingPolicies = [(0, toy_policy)]\<rparr>"

definition px_storage2 :: PolicyStorage where
  "px_storage2 = \<lparr>ps_initialPolicyID = 0, ps_initialPolicyHash = 1, ps_active = Some px_next, ps_activePublicKeys = px_keys,
     ps_signingPolicies = [(0, toy_policy), (1, px_next)]\<rparr>"

lemma toyP_fields [simp]:
  "PubkeyToAddress toyP = PubkeyToAddress toy" "IsOnCurve toyP = IsOnCurve toy" "TextHash toyP = (\<lambda>b. b)" "SigToPub toyP = toy_SigToPub"
  "ValidateSignatureValues toyP = (\<lambda>v r s h. True)" "FromRawBytes toyP = (\<lambda>b. Inr (if b = [1] then toy_policy else px_next))"
  "unjson_InitializePolicyRequest toyP = (\<lambda>b. Inr \<lparr>ip_InitialPolicyBytes = [1], ip_PublicKeys = [\<lparr>px = 4, py = 0\<rparr>]\<rparr>)"
  "unjson_UpdatePolicyRequest toyP = (\<lambda>b. Inr \<lparr>up_NewPolicy = \<lparr>ms_PolicyBytes = [2], ms_Signatures = [px_signature]\<rparr>,
       up_PublicKeys = [\<lparr>px = 4, py = 0\<rparr>]\<rparr>)"
  "policy_ChainBoundHash toyP = (\<lambda>p c. 1)" "ChainBoundHash toyP = (\<lambda>c b. toy_hash b)"
  by (simp_all add: toyP_def) (simp_all add: toy_defs)

lemma px_policies [simp]: "voters toy_policy = [4]" "voters px_next = [4]" "vs_Voters (sp_Voters toy_policy) = Some [4]"
  "sp_RewardEpochID toy_policy = 0" "sp_RewardEpochID px_next = 1" "sp_Threshold toy_policy = 1" "vs_VoterWeight (sp_Voters toy_policy) i = 2"
  by (simp_all add: voters_def toy_policy_def px_next_def)

lemma px_policy_ok: "policy_ok toy_policy"
  by (simp add: policy_ok_def voter_weight_def) (simp add: toy_policy_def)

lemma px_process_keys: "voters p = [4] \<Longrightarrow> processPolicyPublicKeys toyP [\<lparr>px = 4, py = 0\<rparr>] p = Inr px_keys"
  by (simp add: processPolicyPublicKeys_def ParsePubKey_def hash_bytes_def nat_of_fill_32 px_keys_def)

lemma px_initialize: "InitializePolicy toyP px_node None px_instruction policy_InitializeStorage = (Inr [], px_storage1)"
  by (simp add: InitializePolicy_def ActiveSigningPolicy_def policy_InitializeStorage_def px_process_keys ctx_err_def Node_ChainID_def px_node_def
    SetInitialPolicy_def SetActiveSigningPolicy_def SetActiveSigningPolicyPublicKeys_def px_storage1_def)

lemma px_signer: "SignatureToSignersAddress toyP (hash_bytes (toy_hash [2])) px_signature = Inr 4"
  using toy_signer [of toyP 4 "hash_bytes (toy_hash [2])"] by (simp add: px_signature_def)

lemma px_update: "UpdatePolicy toyP px_node None px_instruction px_storage1 = (Inr [], px_storage2)"
  by (simp add: UpdatePolicy_def processUpdatePolicyRequest_def ActiveSigningPolicy_def px_storage1_def Node_ChainID_def px_node_def Let_def
    CheckSignature_def px_signer WeightOfSigners_def px_process_keys ctx_err_def sbind_def SetActiveSigningPolicy_def
    SetActiveSigningPolicyPublicKeys_def px_storage2_def word_le_nat_alt)

lemma px_run: "(policy_step toyP)\<^sup>*\<^sup>* policy_InitializeStorage px_storage1" "(policy_step toyP)\<^sup>*\<^sup>* px_storage1 px_storage2"
  using policy_step.step_initialize [of toyP policy_InitializeStorage px_node None px_instruction]
    policy_step.step_update [of toyP px_storage1 px_node None px_instruction] px_initialize px_update by auto

lemma px_inv: "policy_inv px_storage1"
  using policy_steps_inv [OF px_run(1) policy_InitializeStorage_inv] .

section \<open>Storage over runs\<close>

text \<open>
  The policy storage is well-formed after every run of policy instructions from the
  empty storage: either nothing is set, or the stored policies are those of the
  consecutive reward epochs from the initial policy up to the active one, each filed
  under its own epoch, and the public key of every voter of the active policy is present.
\<close>

theorem policy_runs_keep_invariant:
  assumes "(policy_step P)\<^sup>*\<^sup>* policy_InitializeStorage s"
  shows "policy_inv s"
  using policy_steps_inv [OF assms policy_InitializeStorage_inv] .

theorem policy_runs_keep_invariant_witness: "policy_inv px_storage2"
  by (rule policy_runs_keep_invariant [OF rtranclp_trans [OF px_run]])

lemma policy_steps_guarded:
  "(policy_step P)\<^sup>*\<^sup>* s s' \<Longrightarrow> policy_inv s \<Longrightarrow> (\<lambda>s s'. policy_inv s \<and> policy_step P s s')\<^sup>*\<^sup>* s s'"
  by (induction rule: rtranclp_induct) (auto intro: rtranclp.rtrancl_into_rtrancl dest: policy_steps_inv)

text \<open>
  The initial policy is set once. From the first initialisation on, no run of policy
  instructions removes the active policy or changes the recorded identifier and hash of
  the initial policy.
\<close>

theorem initial_policy_set_once:
  assumes "policy_inv s" and "ps_active s \<noteq> None" and "(policy_step P)\<^sup>*\<^sup>* s s'"
  shows "ps_active s' \<noteq> None \<and> InitialPolicyIDAndHash s' = InitialPolicyIDAndHash s"
  using initial.reachable_keeps [OF policy_steps_guarded [OF assms(3,1)] assms(2)] by (simp add: InitialPolicyIDAndHash_def)

theorem initial_policy_set_once_witness: "InitialPolicyIDAndHash px_storage2 = InitialPolicyIDAndHash px_storage1"
  using initial_policy_set_once [OF px_inv _ px_run(2)] by (simp add: px_storage1_def)

section \<open>Updates\<close>

text \<open>
  C3: a policy is replaced only by quorum. Whenever an update changes the storage, the new active
  policy is the decoded one of the request, for the epoch right after the active one; a
  set of voters of the replaced policy, whose weights sum to more than its threshold
  without counting anyone twice, signed the chain-bound hash of exactly these bytes; the
  replaced policy stays stored, and every key kept for a voter is the key of that address.
\<close>

theorem policy_update_needs_quorum:
  assumes "policy_inv s" and "ps_active s = Some p" and "policy_ok p"
    and "UpdatePolicy P n ctx i s = (r, s')" and "s' \<noteq> s"
  shows "\<exists>req q chainID. unjson_UpdatePolicyRequest P (di_Message i) = Inr req \<and> r = Inr []
    \<and> FromRawBytes P (ms_PolicyBytes (up_NewPolicy req)) = Inr q \<and> Node_ChainID n = Inr chainID
    \<and> sp_RewardEpochID q = sp_RewardEpochID p + 1 \<and> ps_active s' = Some q
    \<and> policiesOf s' = (policiesOf s)(sp_RewardEpochID q \<mapsto> q) \<and> policiesOf s' (sp_RewardEpochID p) = Some p
    \<and> (\<exists>A. unat (sp_Threshold p) < (\<Sum>j<length (voters p). if voters p ! j \<in> A then voter_weight p j else 0)
        \<and> (\<forall>a \<in> A. \<exists>sig \<in> set (ms_Signatures (up_NewPolicy req)).
             SignatureToSignersAddress P (hash_bytes (ChainBoundHash P chainID (ms_PolicyBytes (up_NewPolicy req)))) sig = Inr a))
    \<and> (\<forall>a k. map_of (ps_activePublicKeys s') a = Some k \<longrightarrow> PubkeyToAddress P k = a)"
proof -
  from UpdatePolicy_effect [OF assms(4,1)] assms(2,5) obtain req q m where req: "unjson_UpdatePolicyRequest P (di_Message i) = Inr req"
    and r: "r = Inr []" and q: "processUpdatePolicyRequest P n s (up_NewPolicy req) = Inr q"
    and m: "processPolicyPublicKeys P (up_PublicKeys req) q = Inr m" and s': "s' = advance_policy s q m" by auto
  obtain chainID signers where
    u: "sp_RewardEpochID q = sp_RewardEpochID p + 1" "FromRawBytes P (ms_PolicyBytes (up_NewPolicy req)) = Inr q" "Node_ChainID n = Inr chainID"
      "rmap (\<lambda>sig. CheckSignature P (hash_bytes (ChainBoundHash P chainID (ms_PolicyBytes (up_NewPolicy req)))) sig (vs_Voters (sp_Voters p)))
         (ms_Signatures (up_NewPolicy req)) = Inr signers" "sp_Threshold p < WeightOfSigners signers p"
    by (rule processUpdatePolicyRequest_Inr [OF q]) (use assms(2) in auto)
  have act: "ActiveSigningPolicy s = Inr p" using assms(2) by (simp add: res_simps)
  have signed: "\<exists>sig \<in> set (ms_Signatures (up_NewPolicy req)).
      SignatureToSignersAddress P (hash_bytes (ChainBoundHash P chainID (ms_PolicyBytes (up_NewPolicy req)))) sig = Inr a"
    if "a \<in> set signers" for a
    using list_all2_setD2 [OF u(4) [unfolded rmap_eq_Inr] that] by (auto simp: CheckSignature_def res_simps split: if_splits)
  have weight: "unat (sp_Threshold p) < (\<Sum>j<length (voters p). if voters p ! j \<in> set signers then voter_weight p j else 0)"
    using u(5) by (simp add: word_less_nat_alt unat_WeightOfSigners [OF assms(3)])
  have keys: "map_of (ps_activePublicKeys s') a = Some k \<Longrightarrow> PubkeyToAddress P k = a" for a k
    using processPolicyPublicKeys_cover(2) [OF m] policy_invD(1) [OF assms(1,2)] by (simp add: s' advance_policy_eq)
  show ?thesis
    using req r u(1-3) signed weight keys ps.advance_active [OF assms(1) act, of q m] ps.advance_policies [OF assms(1) act, of q m]
      ps.previous_still_stored [OF assms(1) act u(1), of m]
    by (intro exI [of _ req] exI [of _ q] exI [of _ chainID]) (auto simp: s' res_simps)
qed

theorem policy_update_needs_quorum_witness: "\<exists>q. ps_active px_storage2 = Some q \<and> sp_RewardEpochID q = sp_RewardEpochID toy_policy + 1"
proof -
  have "ps_active px_storage1 = Some toy_policy" "px_storage2 \<noteq> px_storage1" by (simp_all add: px_storage1_def px_storage2_def)
  from policy_update_needs_quorum [OF px_inv this(1) px_policy_ok px_update this(2)] show ?thesis by auto
qed

section \<open>Weights\<close>

text \<open>
  Every voter counts once. The weight of a list of signers is the exact sum, without wrap-around,
  of the weights of the voters that occur in it; order and repetition do not matter,
  non-voters add nothing, more signers never lower it, and it is at most the total weight.
\<close>

theorem signer_weight_exact:
  assumes "policy_ok p"
  shows "unat (WeightOfSigners signers p) = (\<Sum>i<length (voters p). if voters p ! i \<in> set signers then voter_weight p i else 0)
    \<and> WeightOfSigners signers p \<le> vs_TotalWeight (sp_Voters p)
    \<and> (\<forall>more. set signers \<subseteq> set more \<longrightarrow> WeightOfSigners signers p \<le> WeightOfSigners more p)"
proof -
  have "unat (WeightOfSigners signers p) \<le> unat (vs_TotalWeight (sp_Voters p))"
    using signer_sum_le [of "\<lambda>i. voters p ! i \<in> set signers" "voter_weight p" "length (voters p)"] assms
    by (simp add: unat_WeightOfSigners [OF assms] policy_ok_def)
  moreover have "unat (WeightOfSigners signers p) \<le> unat (WeightOfSigners more p)" if "set signers \<subseteq> set more" for more
    unfolding unat_WeightOfSigners [OF assms] using that by (intro sum_mono) auto
  ultimately show ?thesis by (simp add: unat_WeightOfSigners [OF assms] word_le_nat_alt)
qed

theorem signer_weight_exact_witness: "unat (WeightOfSigners [4, 7, 4] toy_policy) = 2"
  using signer_weight_exact [OF px_policy_ok, of "[4, 7, 4]"] by (simp add: voter_weight_def)

end
