(* ===== verification/Props_Instructions.thy ===== *)
theory Props_Instructions
  imports Props_Wallets "HOL-Library.Multiset"
begin

text \<open>
  Properties of the shared checks and of the instruction pipeline: the signature
  thresholds, the alignment of per-signer data, the cosigner comparison and what an
  instruction must satisfy to be executed.
\<close>

section \<open>Thresholds\<close>

text \<open>
  C19: what the thresholds guarantee. Signers accepted by \<open>CheckThresholds\<close> include at least the
  threshold of different cosigners; the true, never double counted and never wrapped weight
  of the voters among them exceeds the data-provider threshold; and every signer is a
  voter or a cosigner.
\<close>

theorem thresholds_sound:
  assumes "policy_ok p" and "CheckThresholds F d signers p = Inr ()"
  shows "distinct (df_Cosigners d) \<and> unat (df_CosignersThreshold d) \<le> card (set (df_Cosigners d) \<inter> set signers)
    \<and> (\<exists>t. dataProvidersThreshold F d p = Inr t
          \<and> unat t < (\<Sum>i<length (voters p). if voters p ! i \<in> set signers then voter_weight p i else 0))
    \<and> set signers \<subseteq> set (df_Cosigners d) \<union> set (voters p)"
proof -
  obtain t where t: "distinct (df_Cosigners d)" "unat (df_CosignersThreshold d) \<le> card (set (df_Cosigners d) \<inter> set signers)"
    "dataProvidersThreshold F d p = Inr t" "t < WeightOfSigners signers p"
    "\<forall>a \<in> set signers. a \<in> set (df_Cosigners d) \<or> vs_VoterIndex (sp_Voters p) a \<noteq> -1"
    by (rule CheckThresholds_Inr [OF assms(2)])
  moreover have "unat t < (\<Sum>i<length (voters p). if voters p ! i \<in> set signers then voter_weight p i else 0)"
    using t(4) by (simp add: word_less_nat_alt unat_WeightOfSigners [OF assms(1)])
  moreover have "set signers \<subseteq> set (df_Cosigners d) \<union> set (voters p)" using t(5) assms(1) by (auto simp: policy_ok_def)
  ultimately show ?thesis by blast
qed

text \<open>The example: cosigner 6 and voter 4 sign.\<close>

definition ix_data :: DataFixed where
  "ix_data = \<lparr>df_InstructionID = 3, df_TeeID = 9, df_RewardEpochID = 0, df_OPType = 1, df_OPCommand = 2, df_Cosigners = [6],
     df_CosignersThreshold = 1, df_OriginalMessage = [], df_AdditionalFixedMessage = [], df_Timestamp = 0\<rparr>"

lemma ix_policy_ok: "policy_ok toy_policy"
  by (simp add: policy_ok_def voter_weight_def voters_def toy_policy_def)

lemma toy_op [simp]:
  "HashToOPType toy = (\<lambda>h. if h = 1 then OP_Wallet else if h = 2 then OP_FDC2 else OP_OtherType ''?'')"
  "HashToOPCommand toy = (\<lambda>h. if h = 1 then OP_Prove else if h = 2 then OP_KeyDelete else OP_OtherCommand ''?'')"
  "IsValidPair toy = (\<lambda>t c. True)" "data_HashForSigning toy = (\<lambda>d m c. Inr (df_InstructionID d))"
  by (simp_all add: toy_defs)

lemma ix_thresholds: "CheckThresholds toy ix_data [6, 4] toy_policy = Inr ()"
  by (simp add: CheckThresholds_def ix_data_def checkCosigners_def dataProvidersThreshold_def policyThreshold_def WeightOfSigners_def voters_def
      toy_policy_def word_le_nat_alt)

theorem thresholds_sound_witness: "unat (df_CosignersThreshold ix_data) \<le> card (set (df_Cosigners ix_data) \<inter> set [6, 4])"
  using thresholds_sound [OF ix_policy_ok ix_thresholds] by blast

text \<open>
  C34: the threshold arithmetic is exact. For a share of at most 10000 basis points, a weight exceeds the
  computed threshold if and only if it exceeds that share of the total weight as real
  fractions: the 64-bit product does not overflow, the 16-bit truncation loses nothing,
  and rounding down is harmless because the comparison is strict.
\<close>

theorem threshold_arithmetic_exact:
  assumes "bips \<le> maxBIPS"
  shows "computeThreshold total_weight bips < weight \<longleftrightarrow> unat bips * unat total_weight < 10000 * unat weight"
  using computeThreshold_strict [of bips total_weight weight] assms by (simp add: maxBIPS_def word_le_nat_alt mult.commute)

theorem threshold_arithmetic_exact_witness: "computeThreshold 65535 5000 < 32768 \<and> \<not> computeThreshold 65535 5000 < 32767"
  using threshold_arithmetic_exact [of 5000 65535 32768] threshold_arithmetic_exact [of 5000 65535 32767]
  by (simp add: maxBIPS_def word_le_nat_alt)

text \<open>
  C20: an attestation needs a majority. When an FDC proof request sets its own data-provider share, accepted
  signers hold more than that share of the weight, the share lies in [40\%, 100\%), and more than half
  of the data-provider weight or more than half of the cosigners signed.
\<close>

theorem fdc_needs_majority:
  assumes "policy_ok p" and "CheckThresholds F d signers p = Inr ()" and "length (df_Cosigners d) < 2 ^ 63"
    and "HashToOPType F (df_OPType d) = OP_FDC2" and "HashToOPCommand F (df_OPCommand d) = OP_Prove"
    and "DecodeRequest F (df_OriginalMessage d) = Inr request" and "fr_ThresholdBIPS request \<noteq> 0"
  shows "4000 \<le> unat (fr_ThresholdBIPS request) \<and> unat (fr_ThresholdBIPS request) < 10000
    \<and> unat (fr_ThresholdBIPS request) * unat (vs_TotalWeight (sp_Voters p)) < 10000 * unat (WeightOfSigners signers p)
    \<and> (unat (vs_TotalWeight (sp_Voters p)) < 2 * unat (WeightOfSigners signers p)
       \<or> length (df_Cosigners d) < 2 * card (set (df_Cosigners d) \<inter> set signers))"
proof -
  let ?b = "fr_ThresholdBIPS request" and ?c = "set (df_Cosigners d) \<inter> set signers"
  obtain t where t: "distinct (df_Cosigners d)" "unat (df_CosignersThreshold d) \<le> card ?c"
    "dataProvidersThreshold F d p = Inr t" "t < WeightOfSigners signers p"
    by (rule CheckThresholds_Inr [OF assms(2)])
  have g: "4000 \<le> unat ?b" "unat ?b < 10000" "t = computeThreshold (vs_TotalWeight (sp_Voters p)) ?b"
    "\<not> (unat ?b < 5000 \<and> df_CosignersThreshold d * 2 \<le> word_of_nat (length (df_Cosigners d)))"
    using t(3) assms(4-7)
    by (auto simp: dataProvidersThreshold_def Let_def fdcMinimumThresholdBIPS_def maxBIPS_def word_less_nat_alt word_le_nat_alt split: if_splits)
  have w: "unat ?b * unat (vs_TotalWeight (sp_Voters p)) < 10000 * unat (WeightOfSigners signers p)"
    using t(4) g(2) computeThreshold_strict [of ?b] by (simp add: g(3) mult.commute)
  have "unat (vs_TotalWeight (sp_Voters p)) < 2 * unat (WeightOfSigners signers p)" if "5000 \<le> unat ?b"
  proof -
    have "5000 * unat (vs_TotalWeight (sp_Voters p)) \<le> unat ?b * unat (vs_TotalWeight (sp_Voters p))" using that by (rule mult_le_mono1)
    then show ?thesis using w by linarith
  qed
  moreover have "length (df_Cosigners d) < 2 * card ?c" if "\<not> 5000 \<le> unat ?b"
  proof -
    have "card ?c \<le> length (df_Cosigners d)" by (metis Int_lower1 card_length card_mono finite_set le_trans)
    then have "unat (df_CosignersThreshold d * 2) = unat (df_CosignersThreshold d) * 2" using t(2) assms(3) by (simp add: unat_word_ariths)
    moreover have "unat (word_of_nat (length (df_Cosigners d)) :: uint64) = length (df_Cosigners d)" using assms(3) by (simp add: unat_of_nat)
    ultimately show ?thesis using g(4) that t(2) by (simp add: word_le_nat_alt)
  qed
  ultimately show ?thesis using g(1,2) w by blast
qed

definition toyF :: processor_env where
  "toyF = toy\<lparr>abi_Fdc2Request := \<lambda>b. Inr \<lparr>fr_AttestationType = 0, fr_SourceId = 0, fr_ThresholdBIPS = 4500, fr_ProofOwner = 0, fr_RequestBody = []\<rparr>\<rparr>"

definition ix_fdc :: DataFixed where "ix_fdc = ix_data\<lparr>df_OPType := 2, df_OPCommand := 1\<rparr>"

theorem fdc_needs_majority_witness:
  "4500 * unat (vs_TotalWeight (sp_Voters toy_policy)) < 10000 * unat (WeightOfSigners [6, 4] toy_policy)"
proof -
  let ?r = "\<lparr>fr_AttestationType = 0, fr_SourceId = 0, fr_ThresholdBIPS = 4500, fr_ProofOwner = 0, fr_RequestBody = []\<rparr>"
  have ops: "HashToOPType toyF = HashToOPType toy" "HashToOPCommand toyF = HashToOPCommand toy" "abi_Fdc2Request toyF = (\<lambda>b. Inr ?r)"
    by (simp_all add: toyF_def)
  have "computeThreshold 2 4500 = 0" by (simp add: computeThreshold_def)
  then have "CheckThresholds toyF ix_fdc [6, 4] toy_policy = Inr ()"
    by (simp add: CheckThresholds_def ix_fdc_def ix_data_def checkCosigners_def dataProvidersThreshold_def DecodeRequest_def ops
        WeightOfSigners_def voters_def toy_policy_def word_le_nat_alt word_less_nat_alt fdcMinimumThresholdBIPS_def maxBIPS_def Let_def)
  from fdc_needs_majority [OF ix_policy_ok this, of ?r] show ?thesis by (simp add: ops ix_fdc_def ix_data_def DecodeRequest_def)
qed

section \<open>Execution\<close>

lemma checkPolicyValidity_nat: "checkPolicyValidity e active = Inr () \<Longrightarrow> unat active \<le> unat e + 1"
  using unat_minus_one [of active]
  by (cases "active = 0") (auto simp: checkPolicyValidity_def res_simps word_less_nat_alt word_gt_0)

text \<open>What holds of an instruction that reaches its handler.\<close>

definition authorised :: "'a processor_env_scheme \<Rightarrow> Node \<Rightarrow> PolicyStorage \<Rightarrow> Action \<Rightarrow> DataFixed \<Rightarrow> address list \<Rightarrow> SigningPolicy \<Rightarrow> bool" where
  "authorised P n ps a d signers p \<longleftrightarrow>
     df_TeeID d = n_teeID n \<and> df_InstructionID d = ad_ID (ac_Data a) \<and> policiesOf ps (df_RewardEpochID d) = Some p
     \<and> (\<exists>q. ps_active ps = Some q \<and> unat (sp_RewardEpochID q) \<le> unat (df_RewardEpochID d) + 1)
     \<and> distinct signers \<and> length signers = length (ac_Signatures a)
     \<and> (\<forall>i < length signers. \<exists>h. data_HashForSigning P d (ac_AdditionalVariableMessages a ! i) (n_chainID n) = Inr h
          \<and> SignatureToSignersAddress P (hash_bytes h) (ac_Signatures a ! i) = Inr (signers ! i))
     \<and> unat (df_CosignersThreshold d) \<le> card (set (df_Cosigners d) \<inter> set signers)
     \<and> (\<exists>t. dataProvidersThreshold P d p = Inr t \<and> t < WeightOfSigners signers p)"

lemma preprocess_authorised:
  assumes "policy_inv ps" and "Node_ChainID n = Inr chainID" and "preprocess P a d ps (n_teeID n) chainID = Inr (signers, p)"
  shows "authorised P n ps a d signers p"
proof -
  note pre = preprocess_Inr [OF assms(3)]
  note sg = signaturesToSigners_Inr [OF pre(6)]
  have c: "chainID = n_chainID n" using assms(2) by (auto simp: Node_ChainID_def split: if_splits)
  have e: "sp_RewardEpochID p = df_RewardEpochID d" using ps.own_epoch [OF assms(1) pre(1)] .
  obtain q where q: "ps_active ps = Some q" "unat (sp_RewardEpochID q) \<le> unat (df_RewardEpochID d) + 1"
    using pre(2) checkPolicyValidity_nat e by fastforce
  obtain t where "unat (df_CosignersThreshold d) \<le> card (set (df_Cosigners d) \<inter> set signers)"
    "dataProvidersThreshold P d p = Inr t" "t < WeightOfSigners signers p"
    by (rule CheckThresholds_Inr [OF pre(7)])
  then show ?thesis using pre(1,3,4) sg(1,2) sg(4) q c by (auto simp: authorised_def)
qed

text \<open>
  C2: only authorised instructions run. Whatever the handler, if processing an action changes the state
  or reports anything but a failure, then the action carries an instruction for this node
  under its own identifier, for a stored policy that is at most one epoch behind the active
  one, with one valid signature per listed message from pairwise different signers, who
  reach the cosigner threshold and the data-provider threshold of that policy.
\<close>

theorem only_authorised_instructions_run:
  assumes "policy_inv ps" and "Process P f n ps imm a s = (r, s')" and "s' \<noteq> s \<or> ar_Status r \<noteq> 0"
  shows "\<exists>d signers p. Parse_DataFixed P (ad_Message (ac_Data a)) = Inr d \<and> authorised P n ps a d signers p"
proof (cases rule: Process_cases [of P f n ps imm a s])
  case (rejected e)
  then show ?thesis using assms(2,3) by auto
next
  case (run d chainID signers p)
  then show ?thesis using preprocess_authorised [OF assms(1) run(2,3)] by blast
qed

definition toyI :: processor_env where "toyI = toyW\<lparr>unjson_DataFixed := \<lambda>b. Inr ix_data\<rparr>"

definition ix_signature :: "nat \<Rightarrow> bytes" where
  "ix_signature x = fill_bytes 32 x @ hash_bytes (toy_hash (hash_bytes 3)) @ [0]"

definition ix_action :: Action where
  "ix_action = \<lparr>ac_Data = \<lparr>ad_ID = 3, ad_Type = Instruction, ad_SubmissionTag = Threshold, ad_Message = []\<rparr>,
     ac_AdditionalVariableMessages = [[], []], ac_Timestamps = [1, 2], ac_AdditionalActionData = [], ac_Signatures = [ix_signature 6, ix_signature 4]\<rparr>"

definition ix_policies :: PolicyStorage where
  "ix_policies = \<lparr>ps_initialPolicyID = 0, ps_initialPolicyHash = 1, ps_active = Some toy_policy,
     ps_activePublicKeys = [(4, \<lparr>pk_Curve = Secp256k1_S256, pk_X = 4, pk_Y = 0\<rparr>)], ps_signingPolicies = [(0, toy_policy)]\<rparr>"

lemma toyI_fields [simp]:
  "PubkeyToAddress toyI = PubkeyToAddress toy" "TextHash toyI = (\<lambda>b. b)" "SigToPub toyI = toy_SigToPub"
  "ValidateSignatureValues toyI = (\<lambda>v r s h. True)" "HashToOPType toyI = HashToOPType toy" "HashToOPCommand toyI = HashToOPCommand toy"
  "IsValidPair toyI = IsValidPair toy" "data_HashForSigning toyI = data_HashForSigning toy" "unjson_DataFixed toyI = (\<lambda>b. Inr ix_data)"
  "abi_KeyDelete toyI = (\<lambda>b. Inr ex_delete)" "json_KeyIDPair toyI = (\<lambda>k. Inr [1])"
  by (simp_all add: toyI_def) (simp_all add: toyW_def)

lemma ix_policies_inv: "policy_inv ix_policies"
  by (auto simp: policy_inv_def ix_policies_def toy_policy_def keys_cover_def voters_def epochs_from_def intro!: exI [of _ 0])

lemma ix_signers: "signaturesToSigners toyI ix_data 1 [[], []] [ix_signature 6, ix_signature 4] = Inr [6, 4]"
  using toy_signer [of toyI 6 "hash_bytes 3"] toy_signer [of toyI 4 "hash_bytes 3"]
  by (simp add: signaturesToSigners_def ix_signature_def ix_data_def)

lemma ix_preprocess: "preprocess toyI ix_action ix_data ix_policies 9 1 = Inr ([6, 4], toy_policy)"
proof -
  have "CheckThresholds toyI ix_data [6, 4] toy_policy = Inr ()"
    by (simp add: CheckThresholds_def ix_data_def checkCosigners_def dataProvidersThreshold_def policyThreshold_def WeightOfSigners_def voters_def
        toy_policy_def word_le_nat_alt)
  then show ?thesis
    using ix_signers
    by (simp add: preprocess_def SigningPolicyOf_def ActiveSigningPolicy_def ix_policies_def ix_action_def checkPolicyValidity_def
        validateInstructionData_def checkInstructionData_def CheckSize_def constraints_def noAdditional_def CheckSizeVariableMessages_def Let_def)
      (simp add: ix_data_def toy_policy_def)
qed

lemma ix_delete: "KeyDelete toyI ex_node None Threshold ix_data [[], []] [6, 4] toy_policy ex_storage1 = (Inr ([1], []), ex_storage2)"
  using ex_delete_step by (simp add: KeyDelete_def ParseKeyDelete_def)

lemma ix_process: "Process toyI (KeyDelete toyI ex_node None) ex_node ix_policies True ix_action ex_storage1
    = (finish_instruction toyI ex_node True ix_action ix_data [6, 4] [1] [], ex_storage2)"
  using ix_preprocess ix_delete
  by (simp add: Process_def Parse_DataFixed_def Parse_sized_def MaxInstructionSize_def Node_ChainID_def) (simp add: ix_action_def)

theorem only_authorised_instructions_run_witness:
  "\<exists>d signers p. Parse_DataFixed toyI (ad_Message (ac_Data ix_action)) = Inr d \<and> authorised toyI ex_node ix_policies ix_action d signers p"
  by (rule only_authorised_instructions_run [OF ix_policies_inv ix_process]) (simp add: ex_storage1_def ex_storage2_def)

section \<open>Results\<close>

text \<open>
  An answer is tied to its action. Whatever the handler and its outcome, the result of processing an instruction
  carries the identifier and the submission tag of the action it answers, and a rejected
  instruction leaves the state as it was.
\<close>

theorem result_answers_action:
  shows "ar_ID (fst (Process P f n ps imm a s)) = ad_ID (ac_Data a)
    \<and> ar_SubmissionTag (fst (Process P f n ps imm a s)) = ad_SubmissionTag (ac_Data a)
    \<and> (snd (Process P f n ps imm a s) = s \<or> (\<exists>d signers p chainID. Parse_DataFixed P (ad_Message (ac_Data a)) = Inr d
          \<and> preprocess P a d ps (n_teeID n) chainID = Inr (signers, p)))"
  using Process_id_tag [of P f n ps imm a s] by (cases rule: Process_cases [of P f n ps imm a s]) auto

text \<open>
  Per-signer data is aligned. An action accepted by \<open>CheckAndAdapt\<close> has as many messages and timestamps as
  signatures, at most 200 of each, and at most one megabyte of messages in all; the
  signatures, the timestamps and the payload are those of the action, and messages are
  filled in, as empty ones, only when there were none.
\<close>

theorem adapted_action_aligned:
  assumes "CheckAndAdapt a = (Inr (), a')"
  shows "length (ac_Signatures a') = length (ac_Timestamps a') \<and> length (ac_AdditionalVariableMessages a') = length (ac_Timestamps a')
    \<and> length (ac_Timestamps a') \<le> MaxVariableMessages \<and> sum_list (map length (ac_AdditionalVariableMessages a')) \<le> MaxVariableMessageSize
    \<and> ac_Data a' = ac_Data a \<and> ac_Signatures a' = ac_Signatures a \<and> ac_Timestamps a' = ac_Timestamps a
    \<and> ac_AdditionalVariableMessages a' = (if ac_AdditionalVariableMessages a = [] then replicate (length (ac_Signatures a)) []
        else ac_AdditionalVariableMessages a)"
proof -
  have "ac_AdditionalVariableMessages a' = (if ac_AdditionalVariableMessages a = [] then replicate (length (ac_Signatures a)) []
        else ac_AdditionalVariableMessages a)"
    using assms by (auto simp: CheckAndAdapt_def Let_def split: if_splits)
  then show ?thesis using CheckAndAdapt_Inr [OF assms] by blast
qed

theorem adapted_action_aligned_witness:
  "length (ac_AdditionalVariableMessages (snd (CheckAndAdapt (ix_action\<lparr>ac_AdditionalVariableMessages := []\<rparr>)))) = 2"
proof -
  have "CheckAndAdapt (ix_action\<lparr>ac_AdditionalVariableMessages := []\<rparr>) = (Inr (), snd (CheckAndAdapt (ix_action\<lparr>ac_AdditionalVariableMessages := []\<rparr>)))"
    by (simp add: CheckAndAdapt_def ix_action_def MaxVariableMessages_def)
  from adapted_action_aligned [OF this] show ?thesis by (simp add: ix_action_def)
qed

text \<open>
  Cosigner lists are compared as sets. For duplicate-free expected cosigners, the comparison accepts exactly the
  permutations of them that come with the same threshold.
\<close>

theorem matching_cosigners_exact:
  assumes "distinct expected"
  shows "CheckMatchingCosigners expected given t u = Inr () \<longleftrightarrow> mset given = mset expected \<and> t = u"
proof
  assume ok: "CheckMatchingCosigners expected given t u = Inr ()"
  note m = CheckMatchingCosigners_Inr [OF ok assms]
  show "mset given = mset expected \<and> t = u" using m assms by (simp add: set_eq_iff_mset_eq_distinct)
next
  assume m: "mset given = mset expected \<and> t = u"
  then show "CheckMatchingCosigners expected given t u = Inr ()"
    using mset_eq_setD [of given expected] mset_eq_length [of given expected] by (simp add: CheckMatchingCosigners_def)
qed

theorem matching_cosigners_exact_witness: "CheckMatchingCosigners [1, 2] [2, 1] 1 1 = Inr ()"
  using matching_cosigners_exact [of "[1, 2]" "[2, 1]" 1 1] by simp

end
