(* ===== verification/Props_Node.thy ===== *)
theory Props_Node
  imports Toy_Env
begin

text \<open>
  Properties of the node's identity and configuration and of the governance that guards
  the machine paths. The example node has one governance signer and accepts a list of
  machine paths with nonce 1.
\<close>

section \<open>The example\<close>

definition nx_node :: Node where
  "nx_node = (fresh_node toy (toy_key 9) ZeroState)\<lparr>n_chainID := 1,
     n_governance := \<lparr>gov_set = True, gov_signers = [6], gov_threshold = 1, gov_hash = toy_hash [1], gov_safe = 0, gov_teeManager = 0\<rparr>\<rparr>"

definition nx_request :: SetMachinePathListRequest where
  "nx_request = \<lparr>sm_Paths = [\<lparr>mp_SourceTeeIds = [9], mp_DestinationTeeIds = [8]\<rparr>], sm_Nonce = 1,
     sm_Signatures = [fill_bytes 32 6 @ hash_bytes (toy_hash (hash_bytes (toy_hash [1]))) @ [0]], sm_SafeApproval = None\<rparr>"

definition toyN :: processor_env where "toyN = toy\<lparr>unjson_SetMachinePathListRequest := \<lambda>b. Inr nx_request\<rparr>"

definition nx_instruction :: DirectInstruction where "nx_instruction = \<lparr>di_OPType = 5, di_OPCommand = 0, di_Message = []\<rparr>"

definition nx_node' :: Node where
  "nx_node' = nx_node\<lparr>n_machinePaths := [\<lparr>mp_SourceTeeIds = [9], mp_DestinationTeeIds = [8]\<rparr>], n_machinePathNonce := 1\<rparr>"

lemma toyN_fields [simp]:
  "PubkeyToAddress toyN = PubkeyToAddress toy" "TextHash toyN = (\<lambda>b. b)" "SigToPub toyN = toy_SigToPub" "Keccak256Hash toyN = toy_hash"
  "ValidateSignatureValues toyN = (\<lambda>v r s h. True)" "unjson_SetMachinePathListRequest toyN = (\<lambda>b. Inr nx_request)"
  "payload_Hash toyN = (\<lambda>tag c h. Inr h)" "abi_pack_MachinePathList toyN = (\<lambda>e n ps. Inr [word_of_nat n])"
  "abi_pack_Governance toyN = (\<lambda>ss t. Inr [word_of_nat t])"
  by (simp_all add: toyN_def) (simp_all add: toy_defs)

lemma nx_inv: "node_inv toyN nx_node"
  by (simp add: node_inv_def nx_node_def fresh_node_def governance_ok_def GovernanceHash_def)

lemma nx_set_paths: "direct_SetMachinePathList toyN None nx_instruction nx_node = (Inr [], nx_node')"
proof -
  have sig: "SignatureToSignersAddress toyN (hash_bytes (toy_hash [1]))
      (fill_bytes 32 6 @ hash_bytes (toy_hash (hash_bytes (toy_hash [1]))) @ [0]) = Inr 6"
    using toy_signer [of toyN 6 "hash_bytes (toy_hash [1])"] by simp
  have "verifyGovernanceSignatures toyN nx_node nx_request = Inr ()"
    by (simp add: verifyGovernanceSignatures_def signatures_approve_def Governance_def Node_ChainID_def MachinePathListDataHash_def nil_slice_def CheckSignature_def
        nx_request_def sig Let_def) (simp add: nx_node_def CheckSignature_def sig)
  then show ?thesis
    by (simp add: direct_SetMachinePathList_def verifyGovernanceAuthorization_def ctx_err_def sbind_def SetMachinePathList_def nx_request_def
        nx_node'_def) (simp add: nx_node_def fresh_node_def)
qed

section \<open>Configuration\<close>

text \<open>
  C33: configuration is written once. Along every run of the node's setters the identity never changes, and
  owner, chain, extension and governance, once set, keep their value.
\<close>

theorem configuration_written_once:
  assumes "(node_step F)\<^sup>*\<^sup>* n n'"
  shows "n_teeID n' = n_teeID n \<and> n_privateKey n' = n_privateKey n
    \<and> (n_initialOwner n \<noteq> 0 \<longrightarrow> n_initialOwner n' = n_initialOwner n)
    \<and> (n_chainID n \<noteq> 0 \<longrightarrow> n_chainID n' = n_chainID n)
    \<and> (ext_set (n_extensionID n) \<longrightarrow> n_extensionID n' = n_extensionID n)
    \<and> (gov_set (n_governance n) \<longrightarrow> n_governance n' = n_governance n)"
  using identity.reachable_keeps [OF assms] owner.reachable_keeps [OF assms] chain.reachable_keeps [OF assms]
    extension.reachable_keeps [OF assms] gov.reachable_keeps [OF assms]
  by simp

lemma nx_step: "(node_step toyN)\<^sup>*\<^sup>* nx_node nx_node'"
proof -
  have "nx_node' = snd (SetMachinePathList nx_node [\<lparr>mp_SourceTeeIds = [9], mp_DestinationTeeIds = [8]\<rparr>] 1)"
    by (simp add: SetMachinePathList_def nx_node'_def) (simp add: nx_node_def fresh_node_def)
  then show ?thesis using node_step.step_paths [of toyN nx_node "[\<lparr>mp_SourceTeeIds = [9], mp_DestinationTeeIds = [8]\<rparr>]" 1] by auto
qed

theorem configuration_written_once_witness: "n_chainID nx_node' = 1 \<and> gov_signers (n_governance nx_node') = [6]"
  using configuration_written_once [OF nx_step] by (simp add: nx_node_def)

text \<open>
  C32: a started node is well-formed and stays so. Whatever the environment variables, a node that \<open>Initialize\<close>
  accepts, and every node that its setters reach from there, has the address of its own key
  as identity; its governance, if configured, has a threshold between one and the number of
  signers, no zero signer, a Safe together with its manager or neither, and the hash of
  exactly this configuration; and no machine path is present before a list was set.
\<close>

theorem started_node_well_formed:
  assumes "Initialize F getenv drawn st = Inr n" and "(node_step F)\<^sup>*\<^sup>* n n'"
  shows "node_inv F n'"
  using paths.reachable_inv [OF assms(2)] Initialize_inv [OF assms(1)] by blast

theorem started_node_well_formed_witness: "node_inv toyN (fresh_node toyN (toy_key 9) ZeroState)"
proof -
  have "Initialize toyN (\<lambda>v. None) (Inr (toy_key 9)) ZeroState = Inr (fresh_node toyN (toy_key 9) ZeroState)"
    by (simp add: Initialize_def initialOwnerFromEnv_def extensionIDFromEnv_def chainIDFromEnv_def governanceFromEnv_def bytesFromEnv_def Let_def)
      (simp add: fresh_node_def)
  from started_node_well_formed [OF this rtranclp.rtrancl_refl] show ?thesis .
qed

section \<open>Machine paths\<close>

text \<open>
  C18: machine paths need the governance. If the instruction changes the node at all, the new list and nonce are
  those of the request, the nonce is higher than before, nothing else changes, and either
  at least threshold many different governance signers signed the hash that binds chain,
  extension, nonce and paths, or the request carries a Safe approval that the Safe check
  accepts for the configured Safe, a call of the configured manager with the calldata of
  this very list.
\<close>

theorem machine_paths_need_governance:
  assumes "node_inv P n" and "direct_SetMachinePathList P ctx i n = (r, n')" and "n' \<noteq> n"
  shows "\<exists>req. unjson_SetMachinePathListRequest P (di_Message i) = Inr req \<and> n_machinePathNonce n < sm_Nonce req
    \<and> n' = n\<lparr>n_machinePaths := sm_Paths req, n_machinePathNonce := sm_Nonce req\<rparr>
    \<and> (\<exists>h. machine_path_hash P (ext_value (n_extensionID n)) (n_chainID n) (sm_Nonce req) (sm_Paths req) = Inr h
      \<and> ((\<exists>A \<subseteq> set (gov_signers (n_governance n)). unat (gov_threshold (n_governance n)) \<le> card A
             \<and> (\<forall>a \<in> A. \<exists>sig \<in> set (sm_Signatures req). SignatureToSignersAddress P (hash_bytes h) sig = Inr a))
         \<or> (\<exists>approval. sm_SafeApproval req = Some approval \<and> gov_safe (n_governance n) \<noteq> 0
              \<and> sa_To approval = gov_teeManager (n_governance n) \<and> sa_Operation approval = OperationCall
              \<and> ApproveMachinePathListCalldata P (ext_value (n_extensionID n)) (sm_Nonce req) h = Inr (sa_Data approval)
              \<and> Safe_Verify P approval (n_chainID n) (gov_safe (n_governance n)) (gov_signers (n_governance n))
                  (gov_threshold (n_governance n)) = Inr ())))"
proof -
  from direct_SetMachinePathList_effect [OF assms(2)] assms(3) obtain req where
    req: "unjson_SetMachinePathListRequest P (di_Message i) = Inr req" "verifyGovernanceAuthorization P n req = Inr ()"
      "n_machinePathNonce n < sm_Nonce req" "n' = n\<lparr>n_machinePaths := sm_Paths req, n_machinePathNonce := sm_Nonce req\<rparr>" by auto
  then show ?thesis using governance_approves_content [OF _ assms(1), of req] by (simp add: verifyGovernanceAuthorization_Inr)
qed

theorem machine_paths_need_governance_witness:
  "\<exists>req. unjson_SetMachinePathListRequest toyN (di_Message nx_instruction) = Inr req
    \<and> nx_node' = nx_node\<lparr>n_machinePaths := sm_Paths req, n_machinePathNonce := sm_Nonce req\<rparr>"
proof -
  have "nx_node' \<noteq> nx_node" by (simp add: nx_node'_def nx_node_def fresh_node_def)
  from machine_paths_need_governance [OF nx_inv nx_set_paths this] show ?thesis by blast
qed

text \<open>
  An old machine path list cannot come back. Once a list with some nonce has been accepted, after any
  further steps of the node every list with that nonce or a lower one is refused and
  leaves the node unchanged.
\<close>

theorem machine_paths_not_replayable:
  assumes "node_inv F n" and "(node_step F)\<^sup>*\<^sup>* n n'" and "nonce \<le> n_machinePathNonce n"
  shows "\<exists>e. SetMachinePathList n' paths nonce = (Inl e, n')"
proof -
  obtain m where "n_machinePathNonce n \<le> m" "n_machinePathNonce n' = m"
    using paths.reachable_level [OF assms(2,1)] by auto
  then show ?thesis using assms(3) by (simp add: SetMachinePathList_def)
qed

theorem machine_paths_not_replayable_witness: "\<exists>e. SetMachinePathList nx_node' [] 1 = (Inl e, nx_node')"
proof -
  have inv: "node_inv toyN nx_node'" using paths.reachable_inv [OF nx_step nx_inv] .
  show ?thesis by (rule machine_paths_not_replayable [OF inv rtranclp.rtrancl_refl]) (simp add: nx_node'_def)
qed

text \<open>
  The list of governance signers may repeat an address, but the signatures are counted by
  distinct address: a list that repeats one address and asks for two signatures is accepted
  when it is configured, and no list of machine paths is ever accepted under it.
\<close>

lemma repeated_signer_accepted:
  assumes "\<not> gov_set (n_governance n)" and "a \<noteq> 0" and "GovernanceHash F [a, a] 2 = Inr h"
  shows "\<exists>n'. SetGovernance F n [a, a] 2 0 0 = (Inr (), n') \<and> gov_signers (n_governance n') = [a, a] \<and> gov_threshold (n_governance n') = 2"
  using assms by (simp add: SetGovernance_def setGovernanceLocked_def)

lemma repeated_signer_blocks:
  assumes "node_inv F n" and "card (set (gov_signers (n_governance n))) < unat (gov_threshold (n_governance n))"
  shows "\<exists>e. verifyGovernanceSignatures F n req = Inl e"
proof (rule ccontr)
  assume "\<not> ?thesis"
  then have "verifyGovernanceSignatures F n req = Inr ()" by (cases "verifyGovernanceSignatures F n req") auto
  from verifyGovernanceSignatures_Inr [OF this assms(1)] obtain A where
    "A \<subseteq> set (gov_signers (n_governance n))" "unat (gov_threshold (n_governance n)) \<le> card A" by metis
  with card_mono [OF _ this(1)] assms(2) show False by simp
qed

section \<open>Keys and signatures\<close>

text \<open>
  Public keys survive encoding. A key on the curve with 32-byte coordinates is recovered, up to the curve value,
  from both its struct form and its 64-byte form; and a struct that parses is the encoding
  of the key it parses to, so two different structs never denote the same key.
\<close>

theorem public_key_roundtrip:
  shows "(pub_fits k \<and> IsOnCurve G (int (pk_X k)) (int (pk_Y k)) \<longrightarrow>
       ParsePubKey G (PubKeyToStruct k) = Inr (k\<lparr>pk_Curve := Secp256k1_S256\<rparr>)
       \<and> ParsePubKeyBytes G (PubKeyToBytes k) = Inr (k\<lparr>pk_Curve := Secp256k1_S256\<rparr>))
    \<and> (\<forall>key k'. ParsePubKey G key = Inr k' \<longrightarrow> PubKeyToStruct k' = key)"
  using ParsePubKey_roundtrip ParsePubKeyBytes_roundtrip ParsePubKey_sound(4) by blast

theorem public_key_roundtrip_witness: "ParsePubKey toy (PubKeyToStruct (toy_pub 8)) = Inr ((toy_pub 8)\<lparr>pk_Curve := Secp256k1_S256\<rparr>)"
  using public_key_roundtrip [of "toy_pub 8" toy] by (simp add: pub_fits_def toy_pub_def)

text \<open>
  A wallet's signature verifies. What an ECDSA wallet of either algorithm signs is accepted by the verifier of that
  algorithm under the public key that the wallet reports.
\<close>

theorem wallet_signature_verifies:
  assumes "ecdsa_spec W" and "toecdsa_spec W" and "PubKey W w = Inr pub"
    and "SigningAlgo w = XRPSignAlgo \<or> SigningAlgo w = EVMSignAlgo" and "Wallet_Sign W w msg = Inr sig"
  shows "wallets_VerifySignature W msg sig pub (SigningAlgo w) = Inr ()"
  using Wallet_Sign_verifies [OF assms] .

definition nx_wallet :: wallet_data where
  "nx_wallet = \<lparr>WalletID = 1, KeyID = 2, PrivateKey = fill_bytes 32 11, KeyType = 0, SigningAlgo = EVMSignAlgo, Restored = False,
     AdminPublicKeys = [], AdminsThreshold = 1, Cosigners = [], CosignersThreshold = 0, SettingsVersion = 0, Settings = []\<rparr>"

theorem wallet_signature_verifies_witness: "\<exists>sig pub. wallets_VerifySignature toy [1] sig pub EVMSignAlgo = Inr ()"
proof -
  have "\<exists>pub. PubKey toy nx_wallet = Inr pub" "\<exists>sig. Wallet_Sign toy nx_wallet [1] = Inr sig"
    by (simp_all add: PubKey_def nx_wallet_def toy_ToECDSA_def nat_of_fill_32 secp256k1_N_def Wallet_Sign_def algos_distinct
        signKeccak256Secp256k1ECDSA_def toy_Sign_def)
  then obtain pub sig where "PubKey toy nx_wallet = Inr pub" "Wallet_Sign toy nx_wallet [1] = Inr sig" by blast
  from wallet_signature_verifies [OF toy_specs(2,3) this(1) _ this(2)] show ?thesis by (auto simp: nx_wallet_def)
qed

end
