(* ===== verification/System_Env.thy ===== *)
theory System_Env
  imports Instructions
begin

text \<open>
  The data types of the read-only instructions, of attestation, of FDC proofs, of payment
  signing and of randomness (\<^verbatim>\<open>src/pkg/types\<close>, \<^verbatim>\<open>src/pkg/fdc/fdc.go\<close>,
  \<^verbatim>\<open>src/pkg/attestation/attestation_token.go\<close>), and the last extension of the parameter record:
  the codecs and library functions that only these components call.
\<close>

section \<open>TEE information\<close>

record TeeInfo =
  ti_Challenge :: hash
  ti_PublicKey :: PublicKey
  ti_InitialSigningPolicyID :: uint32
  ti_InitialSigningPolicyHash :: hash
  ti_LastSigningPolicyID :: uint32
  ti_LastSigningPolicyHash :: hash
  ti_ChainID :: uint64
  ti_State :: TeeState
  ti_TeeTimestamp :: uint64
  ti_MachinePathListNonce :: uint64
  ti_MachinePathListHash :: hash

record MachineData =
  md_ExtensionID :: hash
  md_InitialOwner :: address
  md_CodeHash :: hash
  md_Platform :: hash
  md_PublicKey :: PublicKey
  md_GovernanceHash :: hash

record TeeInfoResponse =
  tr_TeeInfo :: TeeInfo
  tr_MachineData :: MachineData
  tr_DataSignature :: bytes
  tr_Attestation :: bytes

text \<open>The library structures that the two are encoded through; a \<open>*big.Int\<close> of a \<open>uint64\<close> is its value.\<close>

record TeeStructsAttestation =
  ta_ChainId :: nat
  ta_Challenge :: hash
  ta_PublicKey :: PublicKey
  ta_InitialSigningPolicyId :: uint32
  ta_InitialSigningPolicyHash :: hash
  ta_LastSigningPolicyId :: uint32
  ta_LastSigningPolicyHash :: hash
  ta_State :: TeeState
  ta_TeeTimestamp :: uint64
  ta_MachinePathListNonce :: nat
  ta_MachinePathListHash :: hash

record TeeMachineData =
  tm_ExtensionId :: nat
  tm_InitialOwner :: address
  tm_CodeHash :: hash
  tm_Platform :: hash
  tm_PublicKey :: PublicKey
  tm_GovernanceHash :: hash

text \<open>The fields of an attestation request that the node reads; the rest is kept as bytes.\<close>

record TeeAttestationMsg =
  at_TeeId :: address
  at_Challenge :: hash
  at_Rest :: bytes

record NeededClaims =
  nc_HWModel :: string
  nc_ImageID :: string

section \<open>Keys\<close>

record KeyInfo =
  ki_WalletID :: hash
  ki_KeyID :: uint64
  ki_Nonce :: uint64

record TEEBackupResponse =
  tb_BackupID :: WalletBackupID
  tb_WalletBackup :: bytes

section \<open>FDC proofs\<close>

record ResponseHeader =
  rh_AttestationType :: hash
  rh_SourceId :: hash
  rh_ThresholdBIPS :: uint16
  rh_ProofOwner :: address
  rh_Cosigners :: "address list"
  rh_CosignersThreshold :: uint64
  rh_Timestamp :: uint64

record IndexedSignature =
  ix_Index :: int
  ix_Signature :: bytes

record ProveResponse =
  pv_ResponseHeader :: bytes
  pv_RequestBody :: bytes
  pv_ResponseBody :: bytes
  pv_TEESignature :: bytes
  pv_CosignerSignatures :: "bytes list"
  pv_DataProviderSignatures :: bytes

section \<open>Randomness and payments\<close>

record VrfInstructionMsg =
  vi_WalletId :: hash
  vi_KeyId :: uint64
  vi_Nonce :: bytes

record ProveRandomnessResponse =
  pr_WalletID :: hash
  pr_KeyID :: uint64
  pr_Nonce :: bytes
  pr_Proof :: Proof

record TeeIdKeyIdPair =
  tk_TeeId :: address
  tk_KeyId :: uint64

text \<open>The fields of a payment instruction that the node reads itself; the library reads the rest.\<close>

record PaymentMsg =
  pm_WalletId :: hash
  pm_TeeIdKeyIdPairs :: "TeeIdKeyIdPair list"
  pm_FeeSchedule :: bytes
  pm_Rest :: bytes

text \<open>A fee entry's delay is a \<open>time.Duration\<close> in nanoseconds.\<close>

record FeeEntry =
  fe_Delay :: int
  fe_Rest :: bytes

text \<open>A \<open>map[string]any\<close>, of which the node compares one value with a string.\<close>

datatype any_value = AnyString string | AnyOther bytes

type_synonym xrp_tx = "(string \<times> any_value) list"

section \<open>The library functions\<close>

record system_env = processor_env +
  abi_encode_Attestation :: "TeeStructsAttestation \<Rightarrow> bytes res"
  abi_pack_TeeMachineData :: "TeeMachineData \<Rightarrow> bytes res"
  abi_encode_TeeAttestation :: "TeeAttestationMsg \<Rightarrow> bytes res"
  abi_TeeAttestation :: "bytes \<Rightarrow> TeeAttestationMsg res"
  unjson_TeeInfoRequest :: "bytes \<Rightarrow> hash res"
  json_TeeInfoResponse :: "TeeInfoResponse \<Rightarrow> bytes res"
  json_TokenRequest :: "string \<Rightarrow> string \<Rightarrow> string list \<Rightarrow> bytes res"
  ParsePKITokenUnverifiedClaims :: "bytes \<Rightarrow> NeededClaims res"
  StringToCommonHash :: "string \<Rightarrow> hash res"
  Hex32StringToCommonHash :: "string \<Rightarrow> hash res"
  unjson_KeyIDPair :: "bytes \<Rightarrow> KeyIDPair res"
  unjson_KeyIDPairs :: "bytes \<Rightarrow> KeyIDPair list res"
  json_KeyInfos :: "KeyInfo list \<Rightarrow> bytes res"
  json_SignedProofs :: "SignedKeyExistenceProof list \<Rightarrow> bytes res"
  json_WalletBackup :: "WalletBackup \<Rightarrow> bytes res"
  json_TEEBackupResponse :: "TEEBackupResponse \<Rightarrow> bytes res"
  abi_encode_Fdc2Request :: "Fdc2Request \<Rightarrow> bytes res"
  abi_encode_ResponseHeader :: "ResponseHeader \<Rightarrow> bytes res"
  abi_ResponseHeader :: "bytes \<Rightarrow> ResponseHeader res"
  abi_pack_bytes32s :: "hash list \<Rightarrow> bytes res"
  RawBytes :: "SigningPolicy \<Rightarrow> bytes"
  EncodeSignatures :: "IndexedSignature list \<Rightarrow> bytes res"
  relayFunctionSelector :: bytes
  json_ProveResponse :: "ProveResponse \<Rightarrow> bytes res"
  abi_VRFInstruction :: "bytes \<Rightarrow> VrfInstructionMsg res"
  json_ProveRandomnessResponse :: "ProveRandomnessResponse \<Rightarrow> bytes res"
  abi_Payment :: "bytes \<Rightarrow> PaymentMsg res"
  ParseFeeEntries :: "bytes \<Rightarrow> FeeEntry list res"
  PaymentTxFromInstruction :: "PaymentMsg \<Rightarrow> nat \<Rightarrow> xrp_tx res"
  CheckNativePayment :: "xrp_tx \<Rightarrow> unit res"
  SignTxMultisig :: "xrp_tx \<Rightarrow> ecdsa_priv \<Rightarrow> bytes res"
  signer_Sort :: "bytes list \<Rightarrow> bytes list \<times> bytes list"
  JoinMultisigJSON :: "xrp_tx \<Rightarrow> bytes list \<Rightarrow> xrp_tx res"
  json_XRPSignResponse :: "xrp_tx list \<Rightarrow> bytes res"

end
