(* ===== verification/Vrf_Processor.thy ===== *)
theory Vrf_Processor
  imports System_Env Wallet_Storage
begin

text \<open>
  The randomness instruction \<^verbatim>\<open>src/internal/processors/instructions/vrfutils/processor.go\<close> with
  its decoder in \<^verbatim>\<open>src/pkg/types/vrf.go\<close>. The wallet storage is read and never written, so
  it is an argument and the handler runs on any state.
\<close>

definition ParseVRFInstruction :: "'a system_env_scheme \<Rightarrow> DataFixed \<Rightarrow> VrfInstructionMsg res" where
  "ParseVRFInstruction S d = abi_VRFInstruction S (df_OriginalMessage d)"

definition ProveRandomness :: "'a system_env_scheme \<Rightarrow> Storage \<Rightarrow> 's handler" where
  "ProveRandomness S wStorage submissionTag dataFixed variableMessages signers signingPolicy s =
     stry s (ParseVRFInstruction S dataFixed) (\<lambda>req.
     stry s (ensure (length (vi_Nonce req) \<noteq> 0) (Err ''nonce is empty'')) (\<lambda>_.
     let i = \<lparr>kp_WalletID = vi_WalletId req, kp_KeyID = vi_KeyId req\<rparr> in
     stry s (Get wStorage i) (\<lambda>walletKey.
     stry s (ensure (SigningAlgo walletKey = VRFAlgo) (Err ''wallet signing algorithm does not support vrf'')) (\<lambda>_.
     stry s (CheckMatchingCosigners (df_Cosigners dataFixed) (Cosigners walletKey) (df_CosignersThreshold dataFixed)
         (CosignersThreshold walletKey)) (\<lambda>_.
     stry s (ToECDSA S (PrivateKey walletKey)) (\<lambda>sk.
     stry s (VerifiableRandomness S sk (vi_Nonce req)) (\<lambda>proof.
     let response = \<lparr>pr_WalletID = vi_WalletId req, pr_KeyID = vi_KeyId req, pr_Nonce = vi_Nonce req, pr_Proof = proof\<rparr> in
     stry s (json_ProveRandomnessResponse S response) (\<lambda>encoded. (Inr (encoded, []), s)))))))))"

lemma ProveRandomness_Inr:
  assumes "ProveRandomness S ws tag d ms sg p s = (Inr (out, st), s')"
  obtains req w sk pf where "ParseVRFInstruction S d = Inr req" "vi_Nonce req \<noteq> []"
    "Get ws \<lparr>kp_WalletID = vi_WalletId req, kp_KeyID = vi_KeyId req\<rparr> = Inr w" "SigningAlgo w = VRFAlgo"
    "CheckMatchingCosigners (df_Cosigners d) (Cosigners w) (df_CosignersThreshold d) (CosignersThreshold w) = Inr ()"
    "ToECDSA S (PrivateKey w) = Inr sk" "VerifiableRandomness S sk (vi_Nonce req) = Inr pf"
    "json_ProveRandomnessResponse S \<lparr>pr_WalletID = vi_WalletId req, pr_KeyID = vi_KeyId req, pr_Nonce = vi_Nonce req, pr_Proof = pf\<rparr> = Inr out"
    "st = []" "s' = s"
  using assms by (auto simp: ProveRandomness_def stry_eq Let_def res_simps)

lemma ProveRandomness_state [simp]: "snd (ProveRandomness S ws tag d ms sg p s) = s"
  by (simp add: ProveRandomness_def snd_stry Let_def split: sum.split)

end
