(* ===== verification/Props_Vrf.thy ===== *)
theory Props_Vrf
  imports Vrf_Processor Toy_Env
begin

text \<open>
  Properties of the verifiable random function, and the instance that shows their hypotheses can hold: the curve
  \<open>y\<^sup>2 = x\<^sup>3 + 7\<close> of secp256k1 over the field of 43 elements, a cyclic group of order 31. Its points
  are listed as the multiples of the generator \<open>(2, 12)\<close>, so the group operations add and
  multiply positions in the list. The hash of the instance is the length of its input.
\<close>

section \<open>The curve over the field of 43 elements\<close>

definition points43 :: "(int \<times> int) list" where
  "points43 = [(2, 12), (7, 7), (35, 21), (21, 18), (12, 12), (29, 31), (25, 18), (32, 40), (20, 40), (42, 7), (40, 25), (37, 36),
     (13, 21), (34, 40), (38, 21), (38, 22), (34, 3), (13, 22), (37, 7), (40, 18), (42, 36), (20, 3), (32, 3), (25, 25), (29, 12),
     (12, 31), (21, 25), (35, 22), (7, 36), (2, 31)]"

fun position :: "'a list \<Rightarrow> 'a \<Rightarrow> nat" where
  "position [] x = 0"
| "position (y # ys) x = (if x = y then 0 else Suc (position ys x))"

definition log43 :: "int \<times> int \<Rightarrow> nat" where "log43 p = Suc (position points43 p)"

definition exp43 :: "nat \<Rightarrow> int \<times> int" where "exp43 k = points43 ! (k - 1)"

definition curve43 :: secp where
  "curve43 = toy_secp\<lparr>Keccak256Hash := \<lambda>b. word_of_nat (length b), IsOnCurve := \<lambda>x y. (x, y) \<in> set points43,
     S256_N := 31, S256_P := 43, S256_B := 7, S256_Gx := 2, S256_Gy := 12,
     S256_ScalarMult := \<lambda>x y b. let j = (nat_of_bytes b * log43 (x, y)) mod 31 in if j = 0 then None else Some (exp43 j),
     S256_Add := \<lambda>x y x' y'. exp43 ((log43 (x, y) + log43 (x', y')) mod 31),
     mns_SetBytes := \<lambda>b. (nat_of_bytes b mod 31, 31 \<le> nat_of_bytes b), mns_Mul2 := \<lambda>a b. (a * b) mod 31,
     mns_Negate := \<lambda>a. (31 - a) mod 31, mns_Add := \<lambda>a b. (a + b) mod 31, mns_Bytes := \<lambda>a. fill_bytes 32 a,
     NonceRFC6979 := \<lambda>x d i. 6, abi_pack_uint256s := \<lambda>xs. Inr (map word_of_int xs)\<rparr>"

lemma curve43_fields [simp]:
  "Keccak256Hash curve43 = (\<lambda>b. word_of_nat (length b))" "IsOnCurve curve43 = (\<lambda>x y. (x, y) \<in> set points43)"
  "S256_N curve43 = 31" "S256_P curve43 = 43" "S256_B curve43 = 7" "S256_Gx curve43 = 2" "S256_Gy curve43 = 12"
  "S256_ScalarMult curve43 = (\<lambda>x y b. let j = (nat_of_bytes b * log43 (x, y)) mod 31 in if j = 0 then None else Some (exp43 j))"
  "S256_Add curve43 = (\<lambda>x y x' y'. exp43 ((log43 (x, y) + log43 (x', y')) mod 31))"
  "mns_SetBytes curve43 = (\<lambda>b. (nat_of_bytes b mod 31, 31 \<le> nat_of_bytes b))" "mns_Mul2 curve43 = (\<lambda>a b. (a * b) mod 31)"
  "mns_Negate curve43 = (\<lambda>a. (31 - a) mod 31)" "mns_Add curve43 = (\<lambda>a b. (a + b) mod 31)" "mns_Bytes curve43 = (\<lambda>a. fill_bytes 32 a)"
  "NonceRFC6979 curve43 = (\<lambda>x d i. 6)" "abi_pack_uint256s curve43 = (\<lambda>xs. Inr (map word_of_int xs))"
  by (simp_all add: curve43_def)

lemma exp43_log43:
  "k \<in> {0<..<31} \<Longrightarrow> log43 (exp43 k) = k" "k \<in> {0<..<31} \<Longrightarrow> exp43 k \<in> set points43"
  "p \<in> set points43 \<Longrightarrow> log43 p \<in> {0<..<31} \<and> exp43 (log43 p) = p"
proof -
  have "\<forall>k \<in> set [1..<31]. log43 (exp43 k) = k \<and> exp43 k \<in> set points43" by code_simp
  then show "k \<in> {0<..<31} \<Longrightarrow> log43 (exp43 k) = k" "k \<in> {0<..<31} \<Longrightarrow> exp43 k \<in> set points43" by auto
  have "\<forall>p \<in> set points43. 0 < log43 p \<and> log43 p < 31 \<and> exp43 (log43 p) = p" by code_simp
  then show "p \<in> set points43 \<Longrightarrow> log43 p \<in> {0<..<31} \<and> exp43 (log43 p) = p" by auto
qed

lemma smul43: "k < 31 \<Longrightarrow> smul curve43 k p = (let j = (k * log43 p) mod 31 in if j = 0 then None else Some (exp43 j))"
  by (simp add: smul_def nat_of_fill_32)

lemma coprime31_43: "a \<in> {0<..<31} \<Longrightarrow> coprime a (31 :: nat)" "a \<in> {0<..<43} \<Longrightarrow> coprime a (43 :: nat)"
proof -
  have "\<forall>a \<in> set [1..30]. coprime a (31 :: int)" "\<forall>a \<in> set [1..42]. coprime a (43 :: int)" by code_simp+
  then have "a \<in> {0<..<31} \<Longrightarrow> coprime (int a) (int 31)" "a \<in> {0<..<43} \<Longrightarrow> coprime (int a) (int 43)" by simp_all
  then show "a \<in> {0<..<31} \<Longrightarrow> coprime a 31" "a \<in> {0<..<43} \<Longrightarrow> coprime a 43" by (simp_all only: coprime_int_iff)
qed

lemma units31:
  assumes "a \<in> {0<..<31}" and "b \<in> {0<..<31}"
  shows "(a * b) mod 31 \<in> {0<..<31 :: nat}"
proof -
  have "\<not> 31 dvd b" using assms(2) by (auto dest: dvd_imp_le)
  then have "\<not> 31 dvd a * b" using coprime31_43(1) [OF assms(1)] by (simp add: coprime_dvd_mult_right_iff coprime_commute)
  then show ?thesis by (auto simp: dvd_eq_mod_eq_0)
qed

lemma smul43_point:
  assumes "k \<in> {0<..<31}" and "on_curve curve43 p"
  shows "smul curve43 k p = Some (exp43 ((k * log43 p) mod 31)) \<and> on_curve curve43 (exp43 ((k * log43 p) mod 31))
     \<and> log43 (exp43 ((k * log43 p) mod 31)) = (k * log43 p) mod 31"
proof -
  have "p \<in> set points43" using assms(2) by (simp only: on_curve_def curve43_fields prod.collapse)
  then have j: "(k * log43 p) mod 31 \<in> {0<..<31}" using units31 [OF assms(1)] exp43_log43(3) by blast
  have "smul curve43 k p = Some (exp43 ((k * log43 p) mod 31))"
    unfolding smul43 [OF conjunct2 [OF assms(1) [unfolded greaterThanLessThan_iff]]] Let_def using j by auto
  then show ?thesis using exp43_log43(1,2) [OF j] by (simp only: on_curve_def curve43_fields prod.collapse)
qed

lemma curve43_scalars: "scalar_spec curve43"
  unfolding scalar_spec_def using units31 by (auto simp: nat_of_fill_32)

lemma curve43_group: "curve_spec curve43"
proof -
  let ?on = "on_curve curve43" and ?mul = "smul curve43" and ?N = "{0<..<31 :: nat}"
  have eqn: "\<forall>x \<in> set [0..42]. \<forall>y \<in> set [0..42]. (y * y) mod 43 = (x * x * x + 7) mod 43 \<longrightarrow> (x, y) \<in> set points43" by code_simp
  have gen: "(2, 12) \<in> set points43" by (simp add: points43_def)
  have assoc: "?mul a q = ?mul ((a * b) mod 31) p" if p: "?on p" and a: "a \<in> ?N" and b: "b \<in> ?N" and q: "?mul b p = Some q" for p a b q
  proof -
    from smul43_point [OF b p] q have q: "?on q" "log43 q = (b * log43 p) mod 31" by auto
    have "(a * ((b * log43 p) mod 31)) mod 31 = ((a * b) mod 31 * log43 p) mod 31" by (simp add: mod_simps mult.assoc)
    then show ?thesis using smul43_point [OF a q(1)] smul43_point [OF units31 [OF a b] p] q(2) by simp
  qed
  have distrib: "?mul ((a + b) mod 31) p = Some (S256_Add curve43 (fst q) (snd q) (fst r) (snd r))"
    if p: "?on p" and a: "a \<in> ?N" and b: "b \<in> ?N" and ab: "(a + b) mod 31 \<noteq> 0" and q: "?mul a p = Some q" and r: "?mul b p = Some r"
    for p a b q r
  proof -
    have qr: "log43 q = (a * log43 p) mod 31" "log43 r = (b * log43 p) mod 31" using smul43_point [OF a p] smul43_point [OF b p] q r by auto
    have "((a * log43 p) mod 31 + (b * log43 p) mod 31) mod 31 = ((a + b) mod 31 * log43 p) mod 31"
      by (simp add: mod_simps add_mult_distrib)
    then show ?thesis using smul43_point [of "(a + b) mod 31", OF _ p] ab by (simp add: qr)
  qed
  have closed: "\<exists>q. ?mul k p = Some q \<and> ?on q" if "?on p" "k \<in> ?N" for p k using smul43_point [OF that(2,1)] by blast
  show ?thesis
    unfolding curve_spec_def curve43_fields
  proof (intro conjI allI impI ballI)
    fix x y :: nat assume xy: "x < 43" "y < 43" "(y * y) mod 43 = (x ^ 3 + 7) mod 43"
    then have "(int y * int y) mod 43 = (int x * int x * int x + 7) mod 43"
      by (metis (no_types) of_nat_add of_nat_mod of_nat_mult of_nat_numeral power3_eq_cube)
    then show "?on (int x, int y)" using eqn xy by (simp add: on_curve_def)
  next
    fix a :: nat assume "a \<in> {0<..<43}"
    then show "coprime a 43" by (rule coprime31_43)
  next
    show "?on (g_point curve43)" using gen by (simp add: on_curve_def g_point_def)
  next
    fix p k assume "?on p" "k \<in> ?N"
    then show "\<exists>q. ?mul k p = Some q \<and> ?on q" by (rule closed)
  next
    fix p a b q assume "?on p" "a \<in> ?N" "b \<in> ?N" "?mul b p = Some q"
    then show "?mul a q = ?mul ((a * b) mod 31) p" by (rule assoc)
  next
    fix p a b q r assume "?on p" "a \<in> ?N" "b \<in> ?N" "(a + b) mod 31 \<noteq> 0" "?mul a p = Some q" "?mul b p = Some r"
    from distrib [OF this]
    show "?mul ((a + b) mod 31) p = Some (exp43 ((log43 (fst q, snd q) + log43 (fst r, snd r)) mod 31))" by simp
  qed simp_all
qed

section \<open>Completeness\<close>

text \<open>
  C24: proofs of randomness verify. For a key pair of the curve, every proof that the prover returns is accepted by the verifier
  under the public key and the same nonce, unless its response scalar is zero; and the point
  that the randomness is read from is the secret multiple of the hashed nonce, so the
  randomness is a function of the key and the nonce alone.
\<close>

theorem vrf_proof_verifies:
  assumes "scalar_spec G" and "curve_spec G" and "smul G (sk_D key) (g_point G) = Some (pk_point (sk_Pub key))"
    and "VerifiableRandomness G key nonce = Inr pf" and "pf_S pf \<noteq> Some 0"
  shows "VerifyRandomness G pf (sk_Pub key) nonce = Inr ()
    \<and> (\<exists>h gamma. HashToCurve G (sk_Pub key) nonce = Inr (Some h) \<and> scalarMult G h (sk_D key) = Inr gamma \<and> pf_Gamma pf = Some gamma)"
proof -
  from VerifiableRandomness_Inr [OF assms(1,4)] obtain h gamma where h: "HashToCurve G (sk_Pub key) nonce = Inr (Some h)"
    "scalarMult G h (sk_D key) = Inr gamma" "vrf_loop G key (sk_D key) h gamma [0..<nonceIterationLimit] = Inr pf" by blast
  from vrf_loop_Inr [OF assms(1) h(3)] have "pf_Gamma pf = Some gamma" by auto
  then show ?thesis using VerifyRandomness_complete [OF assms] h by blast
qed

definition key43 :: ecdsa_priv where
  "key43 = \<lparr>sk_Pub = \<lparr>pk_Curve = Crypto_S256, pk_X = 35, pk_Y = 21\<rparr>, sk_D = 3\<rparr>"

definition nonce43 :: bytes where "nonce43 = [0, 0, 0, 0]"

definition proof43 :: Proof where
  "proof43 = \<lparr>pf_Gamma = Some (mkPoint (42, 7)), pf_C = Some 12, pf_S = Some 1, pf_U = Some (mkPoint (29, 31)),
     pf_CGamma = Some (mkPoint (21, 25)), pf_V = Some (mkPoint (40, 18)), pf_ZInv = Some 9\<rparr>"

lemma key43_pair: "smul curve43 (sk_D key43) (g_point curve43) = Some (pk_point (sk_Pub key43))"
  by (simp add: smul43 key43_def g_point_def pk_point_def log43_def points43_def exp43_def)

lemma small_hash: "nat_of_bytes (hash_bytes 68) = 68" "nat_of_bytes (hash_bytes 12) = 12"
  by (simp_all add: hash_bytes_def nat_of_fill_32)

lemma hash43: "HashToCurve curve43 (sk_Pub key43) nonce43 = Inr (Some (mkPoint (25, 25)))"
proof -
  have "hash_to_curve_loop curve43 (Suc n) (hash_bytes 68) = Some (mkPoint (25, 25))" for n
    by (simp add: small_hash ModSqrt_def modpow_correct Let_def)
  from this [of 255] show ?thesis
    by (simp add: HashToCurve_def key43_def nonce43_def encodePointCoordinates_def Keccak256_def)
qed

lemma proof43_made: "VerifiableRandomness curve43 key43 nonce43 = Inr proof43"
proof -
  have mult: "scalarMult curve43 (mkPoint p) k = Inr (mkPoint q)" if "p \<in> set points43" "k \<in> {0<..<31}" "exp43 ((k * log43 p) mod 31) = q" for p k q
    using scalarMult_eq [OF curve43_scalars, of p k q] smul43_point [of k p] that by (simp add: on_curve_def)
  have ms: "scalarMult curve43 (mkPoint (25, 25)) 3 = Inr (mkPoint (42, 7))" "scalarMult curve43 (mkPoint (25, 25)) 6 = Inr (mkPoint (40, 18))"
    "scalarMult curve43 (mkPoint (2, 12)) 6 = Inr (mkPoint (29, 31))" "scalarMult curve43 (mkPoint (42, 7)) 12 = Inr (mkPoint (21, 25))"
    by (rule mult; simp add: points43_def log43_def exp43_def)+
  have c: "HashToZn curve43 (map word_of_int (challenge_input curve43 (mkPoint (25, 25)) (sk_Pub key43) (mkPoint (42, 7)) (mkPoint (29, 31)) (mkPoint (40, 18)))) = 12"
    by (simp add: HashToZn_def Keccak256_def challenge_input_def small_hash)
  have s: "scalarSubProduct curve43 6 3 12 = 1" by (simp add: scalarSubProduct_def nat_of_fill_32)
  have scalars: "toScalar curve43 (Some (int 3)) = Inr 3" "toScalar curve43 (Some (int 12)) = Inr 12"
    by (simp_all only: toScalar_eq [OF curve43_scalars]) simp_all
  have inv: "ModInverse 24 43 = Some 9" by (simp add: ModInverse_def inverse_ref_def egcd.simps)
  have loop: "vrf_loop curve43 key43 3 (mkPoint (25, 25)) (mkPoint (42, 7)) (0 # is) = Inr proof43" for "is"
    using ms c s scalars inv
    by (simp add: nonceRFC6979_def encodePointCoordinates_def scalarBaseMult_def basePoint_def ScalarMult_def proof43_def)
  have upt: "[0..<nonceIterationLimit] = 0 # [1..<8]" by (simp add: nonceIterationLimit_def upt_conv_Cons)
  have "validatePublicKey curve43 (sk_Pub key43) = Inr ()" by (simp add: validatePublicKey_def key43_def points43_def)
  then show ?thesis using hash43 scalars(1) ms(1) loop by (simp add: VerifiableRandomness_def key43_def upt)
qed

theorem vrf_proof_verifies_witness: "VerifyRandomness curve43 proof43 (sk_Pub key43) nonce43 = Inr ()"
  using vrf_proof_verifies [OF curve43_scalars curve43_group key43_pair proof43_made] by (simp add: proof43_def)

section \<open>The inverse in a proof is not unique\<close>

text \<open>
  C40: the accepted \<open>ZInv\<close> is not unique. The format check is meant to confine it to the field elements from 1 up to the
  prime, but it compares with the prime from above only: whenever a proof is accepted, the
  same proof with the negative number \<open>ZInv - P\<close> is accepted as well.
\<close>

theorem zinv_not_unique:
  assumes "VerifyRandomness G pf pk nonce = Inr ()" and "pf_ZInv pf = Some z" and "S256_P G > 0"
  shows "z - int (S256_P G) < 0 \<and> VerifyRandomness G (pf\<lparr>pf_ZInv := Some (z - int (S256_P G))\<rparr>) pk nonce = Inr ()"
proof -
  have "z < int (S256_P G)"
    using assms(1,2) by (auto simp: VerifyRandomness_def validateProofFormat_def rbind_eq_Inr split: if_splits)
  then show ?thesis using VerifyRandomness_ZInv_negative [OF assms] by simp
qed

lemma proof43_accepted: "VerifyRandomness curve43 proof43 (sk_Pub key43) nonce43 = Inr ()"
  by (rule VerifyRandomness_complete [OF curve43_scalars curve43_group key43_pair proof43_made]) (simp add: proof43_def)

theorem zinv_not_unique_witness:
  "VerifyRandomness curve43 (proof43\<lparr>pf_ZInv := Some (9 - 43)\<rparr>) (sk_Pub key43) nonce43 = Inr ()"
  using zinv_not_unique [OF proof43_accepted, of 9] by (simp add: proof43_def)

end
