(* ===== verification/Direct_Processor.thy ===== *)
theory Direct_Processor
  imports Instructions
begin

text \<open>
  Direct instructions: the wrapper \<^verbatim>\<open>src/internal/processors/direct/direct.go\<close> around a
  processor function and the default processor \<^verbatim>\<open>default.go\<close> beside it, which forwards to the
  extension.
\<close>

type_synonym 's direct_handler = "DirectInstruction \<Rightarrow> 's \<Rightarrow> bytes res \<times> 's"

definition direct_Process ::
  "'a processor_env_scheme \<Rightarrow> 's direct_handler \<Rightarrow> Action \<Rightarrow> 's \<Rightarrow> ActionResult \<times> 's" where
  "direct_Process P f a s =
     (case CheckDirectTag (ad_SubmissionTag (ac_Data a)) of
        Inl e \<Rightarrow> (Invalid P a e, s)
      | Inr _ \<Rightarrow> (case Parse_DirectInstruction P (ad_Message (ac_Data a)) of
          Inl e \<Rightarrow> (Invalid P a e, s)
        | Inr di \<Rightarrow> (case f di s of
            (Inl e, s') \<Rightarrow> (Invalid P a e, s')
          | (Inr msg, s') \<Rightarrow> (\<lparr>ar_ID = ad_ID (ac_Data a), ar_SubmissionTag = ad_SubmissionTag (ac_Data a), ar_Status = 1, ar_Log = None,
              ar_OPType = di_OPType di, ar_OPCommand = di_OPCommand di, ar_AdditionalResultStatus = [],
              ar_Version = EncodingVersion, ar_Data = msg\<rparr>, s'))))"

definition direct_Default_Process ::
  "'a processor_env_scheme \<Rightarrow> extension_env \<Rightarrow> int \<Rightarrow> Action \<Rightarrow> extension_posts \<Rightarrow> ActionResult \<times> extension_posts" where
  "direct_Default_Process P X port a sent =
     (case rbind (CheckDirectTag (ad_SubmissionTag (ac_Data a))) (\<lambda>_.
           rbind (Parse_DirectInstruction P (ad_Message (ac_Data a))) (\<lambda>di.
           CheckForwardable (di_OPType di))) of
        Inl e \<Rightarrow> (Invalid P a e, sent)
      | Inr _ \<Rightarrow> forward P X port a sent)"

lemma direct_Process_id_tag:
  "ar_ID (fst (direct_Process P f a s)) = ad_ID (ac_Data a)
   \<and> ar_SubmissionTag (fst (direct_Process P f a s)) = ad_SubmissionTag (ac_Data a)"
  by (simp add: direct_Process_def split: sum.split prod.split)

text \<open>A direct handler runs only under a tag that is not the tag of an instruction phase.\<close>

lemma direct_Process_cases:
  obtains (rejected) e where "direct_Process P f a s = (Invalid P a e, s)"
  | (run) di where "CheckDirectTag (ad_SubmissionTag (ac_Data a)) = Inr ()" "Parse_DirectInstruction P (ad_Message (ac_Data a)) = Inr di"
      "snd (direct_Process P f a s) = snd (f di s)"
proof (cases "CheckDirectTag (ad_SubmissionTag (ac_Data a))")
  case (Inl e)
  then show ?thesis using rejected by (simp add: direct_Process_def)
next
  case (Inr u)
  show ?thesis
  proof (cases "Parse_DirectInstruction P (ad_Message (ac_Data a))")
    case (Inl e)
    then show ?thesis using rejected Inr by (simp add: direct_Process_def)
  next
    case (Inr di)
    then show ?thesis using run [of di] \<open>CheckDirectTag _ = Inr u\<close>
      by (simp add: direct_Process_def split: prod.split sum.split)
  qed
qed

lemma direct_Process_snd: "snd (direct_Process P f a s) = s \<or> (\<exists>di. snd (direct_Process P f a s) = snd (f di s))"
  by (cases rule: direct_Process_cases [of P f a s]) auto

text \<open>The default processors send a request only after their checks, and none for a reserved type.\<close>

lemma direct_Default_Process_cases:
  obtains (refused) e where "direct_Default_Process P X port a sent = (Invalid P a e, sent)"
  | (forwarded) di where "CheckDirectTag (ad_SubmissionTag (ac_Data a)) = Inr ()"
      "Parse_DirectInstruction P (ad_Message (ac_Data a)) = Inr di" "CheckForwardable (di_OPType di) = Inr ()"
      "direct_Default_Process P X port a sent = forward P X port a sent"
proof (cases "rbind (CheckDirectTag (ad_SubmissionTag (ac_Data a))) (\<lambda>_.
    rbind (Parse_DirectInstruction P (ad_Message (ac_Data a))) (\<lambda>di. CheckForwardable (di_OPType di)))")
  case (Inl e)
  then show ?thesis using refused by (simp add: direct_Default_Process_def)
next
  case (Inr u)
  then show ?thesis using forwarded by (auto simp: direct_Default_Process_def res_simps)
qed

lemma instruction_Default_Process_cases:
  obtains (kept) result where "instruction_Default_Process P X port n ps a sent = (result, sent)"
  | (forwarded) d chainID signers p where "Parse_DataFixed P (ad_Message (ac_Data a)) = Inr d" "CheckForwardable (df_OPType d) = Inr ()"
      "Node_ChainID n = Inr chainID" "preprocess P a d ps (n_teeID n) chainID = Inr (signers, p)"
      "ad_SubmissionTag (ac_Data a) = Threshold" "instruction_Default_Process P X port n ps a sent = forward P X port a sent"
proof (cases "rbind (Parse_DataFixed P (ad_Message (ac_Data a))) (\<lambda>d.
           rbind (CheckForwardable (df_OPType d)) (\<lambda>_.
           rbind (Node_ChainID n) (\<lambda>chainID.
           rbind (preprocess P a d ps (n_teeID n) chainID) (\<lambda>(signers, _). Inr (d, signers)))))")
  case (Inl e)
  then show ?thesis using kept by (simp add: instruction_Default_Process_def)
next
  case (Inr r)
  show ?thesis
  proof (cases "ad_SubmissionTag (ac_Data a) = Threshold")
    case True
    then show ?thesis using Inr forwarded by (auto simp: instruction_Default_Process_def Let_def res_simps)
  next
    case False
    then have "snd (instruction_Default_Process P X port n ps a sent) = sent"
      using Inr by (auto simp: instruction_Default_Process_def Let_def split: sum.split prod.split)
    then show ?thesis using kept by (metis prod.collapse)
  qed
qed

lemma direct_Default_Process_refuses:
  assumes "\<And>di. Parse_DirectInstruction P (ad_Message (ac_Data a)) = Inr di \<Longrightarrow> \<exists>e. CheckForwardable (di_OPType di) = Inl e"
  shows "\<exists>e. direct_Default_Process P X port a sent = (Invalid P a e, sent)"
  by (cases rule: direct_Default_Process_cases [of P X port a sent]) (use assms in fastforce)+

lemma instruction_Default_Process_refuses:
  assumes "\<And>d. Parse_DataFixed P (ad_Message (ac_Data a)) = Inr d \<Longrightarrow> \<exists>e. CheckForwardable (df_OPType d) = Inl e"
  shows "\<exists>e. instruction_Default_Process P X port n ps a sent = (Invalid P a e, sent)"
  using assms by (cases "Parse_DataFixed P (ad_Message (ac_Data a))") (auto simp: instruction_Default_Process_def)

end
