(* ===== verification/Router.thy ===== *)
theory Router
  imports Direct_Processor
begin

text \<open>
  The router \<^verbatim>\<open>src/internal/router/router.go\<close>, the signing of results in \<^verbatim>\<open>utils.go\<close> beside it and the
  proxy queue \<^verbatim>\<open>src/internal/router/queue/queue.go\<close>, over an arbitrary state \<open>'s\<close> of the
  processors. One iteration of a queue worker is a function from the proxy's answers to the
  responses it posts. The proxy is the record \<open>proxy_env\<close>.
\<close>

section \<open>The queue\<close>

text \<open>A transport error is a \<open>net.Error\<close> with \<open>Timeout()\<close>, or any other error.\<close>

datatype fetch_error = NetTimeout go_error | FetchError go_error

fun fetch_cause :: "fetch_error \<Rightarrow> go_error" where
  "fetch_cause (NetTimeout e) = e"
| "fetch_cause (FetchError e) = e"

text \<open>
  \<open>px_fetch k url\<close> is the outcome of the \<open>k\<close>-th request: a transport error (of the request or of reading the
  body), or the status code and the body.
\<close>

record proxy_env =
  px_fetch :: "nat \<Rightarrow> string \<Rightarrow> fetch_error + (int \<times> bytes)"
  px_unjson_Action :: "bytes \<Rightarrow> Action res"
  px_json_ActionResponse :: "ActionResponse \<Rightarrow> bytes res"
  px_post :: "string \<Rightarrow> bytes \<Rightarrow> int res"

definition FetchAction :: "proxy_env \<Rightarrow> nat \<Rightarrow> string \<Rightarrow> fetch_error + Action" where
  "FetchAction X k url =
     (case px_fetch X k url of
        Inl e \<Rightarrow> Inl e
      | Inr (status, response) \<Rightarrow>
          let body = take MaxFetchResponseSize response in
          if status \<noteq> 200 then Inl (FetchError (Errf ''unexpected status code: %d'' [status]))
          else (case px_unjson_Action X body of Inl e \<Rightarrow> Inl (FetchError e) | Inr a \<Rightarrow> Inr a))"

definition PostActionResponse :: "proxy_env \<Rightarrow> string \<Rightarrow> ActionResponse \<Rightarrow> unit res" where
  "PostActionResponse X url response =
     rbind (px_json_ActionResponse X response) (\<lambda>requestBody.
     rbind (px_post X url requestBody) (\<lambda>status.
     ensure (status = 200) (Errf ''unexpected status code: %d'' [status])))"

section \<open>Signing a result\<close>

text \<open>The response comes with the error, as in the code; the log of a result that could not be signed is replaced.\<close>

definition SignResult :: "'a processor_env_scheme \<Rightarrow> Node \<Rightarrow> ActionResult \<Rightarrow> ActionResponse \<times> unit res" where
  "SignResult P n ar =
     (let response = (\<lambda>ar sig. \<lparr>rp_Result = ar, rp_Signature = sig, rp_ProxySignature = []\<rparr>);
          failed = (\<lambda>log. (response (ar\<lparr>ar_Log := Some (Err log)\<rparr>) [], Inl (Err ''could not sign''))) in
      case Node_ChainID n of
        Inl _ \<Rightarrow> failed ''could not get chain id''
      | Inr chainID \<Rightarrow> (case payload_Hash P TEEActionResult chainID (BytesToHash (ActionResult_Hash P ar)) of
          Inl _ \<Rightarrow> failed ''could not sign response''
        | Inr signHash \<Rightarrow> (case Node_Sign P n (hash_bytes signHash) of
            Inl _ \<Rightarrow> failed ''could not sign response''
          | Inr sig \<Rightarrow> (response ar sig, Inr ()))))"

section \<open>Routing\<close>

type_synonym 's processor = "Action \<Rightarrow> 's \<Rightarrow> ActionResult \<times> 's"

record 's Router =
  rt_routs :: "(OpID \<times> 's processor) list"
  rt_defaultDirect :: "'s processor option"
  rt_defaultInstruction :: "'s processor option"

definition New :: "'s Router" where
  "New = \<lparr>rt_routs = [], rt_defaultDirect = None, rt_defaultInstruction = None\<rparr>"

definition RegisterProcessor :: "'a flare_scheme \<Rightarrow> op_type \<Rightarrow> op_command \<Rightarrow> 's processor \<Rightarrow> 's Router \<Rightarrow> 's Router res" where
  "RegisterProcessor F opType opCommand p r =
     (let routID = \<lparr>id_OPType = OPType_Hash F opType, id_OPCommand = OPCommand_Hash F opCommand\<rparr> in
      if map_of (rt_routs r) routID \<noteq> None then Inl (Panic ''duplicated processor'')
      else Inr (r\<lparr>rt_routs := AList.update routID p (rt_routs r)\<rparr>))"

definition RegisterDefaultDirect :: "'s processor \<Rightarrow> 's Router \<Rightarrow> 's Router res" where
  "RegisterDefaultDirect p r =
     (if rt_defaultDirect r \<noteq> None then Inl (Panic ''default direct processor already registered'')
      else Inr (r\<lparr>rt_defaultDirect := Some p\<rparr>))"

definition RegisterDefaultInstruction :: "'s processor \<Rightarrow> 's Router \<Rightarrow> 's Router res" where
  "RegisterDefaultInstruction p r =
     (if rt_defaultInstruction r \<noteq> None then Inl (Panic ''default instruction processor already registered'')
      else Inr (r\<lparr>rt_defaultInstruction := Some p\<rparr>))"

definition errorResult :: "'a processor_env_scheme \<Rightarrow> Action option \<Rightarrow> go_error \<Rightarrow> ActionResult" where
  "errorResult P action logmsg =
     (case action of
        Some a \<Rightarrow> Invalid P a logmsg
      | None \<Rightarrow> \<lparr>ar_ID = 0, ar_SubmissionTag = [], ar_Status = 0, ar_Log = Some logmsg, ar_OPType = 0, ar_OPCommand = 0,
          ar_AdditionalResultStatus = [], ar_Version = EncodingVersion, ar_Data = []\<rparr>)"

definition not_registered :: go_error where "not_registered = Err ''processor not registered''"

definition process :: "'a processor_env_scheme \<Rightarrow> 's Router \<Rightarrow> 's processor" where
  "process P r a0 s =
     (case CheckAndAdapt a0 of
        (Inl e, a) \<Rightarrow> (Invalid P a e, s)
      | (Inr _, a) \<Rightarrow> (case GetOpID P a of
          Inl e \<Rightarrow> (Invalid P a e, s)
        | Inr i \<Rightarrow> (case map_of (rt_routs r) i of
            Some p \<Rightarrow> p a s
          | None \<Rightarrow> (case (if ad_Type (ac_Data a) = Direct then rt_defaultDirect r
                else if ad_Type (ac_Data a) = Instruction then rt_defaultInstruction r else None) of
              Some p \<Rightarrow> p a s
            | None \<Rightarrow> (Invalid P a not_registered, s)))))"

text \<open>
  How a processor ended: it returned (in time, or within the drain time), it panicked and left the state \<open>s'\<close>, or
  it was abandoned; an abandoned processor still ends later, with its result discarded.
\<close>

datatype 's attempt = Returned | PanickedWith string 's | Abandoned

definition processWithTimeout :: "'a processor_env_scheme \<Rightarrow> 's Router \<Rightarrow> 's attempt \<Rightarrow> 's processor" where
  "processWithTimeout P r attempt a s =
     (case attempt of
        Returned \<Rightarrow> process P r a s
      | PanickedWith msg s' \<Rightarrow> (errorResult P (Some a) (Wrapped ''internal error: panic'' (Panic msg)), s')
      | Abandoned \<Rightarrow> (errorResult P (Some a) (Err ''processing timeout exceeded and processor failed to drain''), snd (process P r a s)))"

text \<open>
  The states that a panic can leave. A handler makes its writes in one locked section, and nothing that can panic stands
  between the first write and the last: they are assignments to fields and to entries of maps that exist, and
  the nonce of a record is written after the check that the record is there. (Between the epoch
  and the hash of an initial policy its hash is computed, which does not panic.) So a panic comes
  before all writes of a processing or after all of them.
\<close>

definition possible_attempt :: "'a processor_env_scheme \<Rightarrow> 's Router \<Rightarrow> Action \<Rightarrow> 's \<Rightarrow> 's attempt \<Rightarrow> bool" where
  "possible_attempt P r a s attempt \<longleftrightarrow> (case attempt of
     PanickedWith msg s' \<Rightarrow> s' = s \<or> s' = snd (process P r a s)
   | _ \<Rightarrow> True)"

lemma processWithTimeout_state:
  "possible_attempt P r a s attempt \<Longrightarrow> snd (processWithTimeout P r attempt a s) \<in> {s, snd (process P r a s)}"
  by (cases attempt) (auto simp: possible_attempt_def processWithTimeout_def)

section \<open>One iteration of a worker\<close>

definition QueueFetchRetries :: nat where "QueueFetchRetries = 2"
definition QueuedActionsSleepTime :: nat where "QueuedActionsSleepTime = 2000"
definition QueuedActionsPauseTime :: nat where "QueuedActionsPauseTime = 100"

text \<open>The retry loop, with the number of retries as an argument; the result tells the number of requests made.\<close>

function fetch_loop :: "proxy_env \<Rightarrow> string \<Rightarrow> nat \<Rightarrow> nat \<Rightarrow> Action res \<times> nat" where
  "fetch_loop X url retries attempt =
     (case FetchAction X attempt url of
        Inr a \<Rightarrow> (Inr a, attempt + 1)
      | Inl (FetchError e) \<Rightarrow> (Inl e, attempt + 1)
      | Inl (NetTimeout e) \<Rightarrow>
          if attempt \<ge> retries then (Inl e, attempt + 1) else fetch_loop X url retries (attempt + 1))"
  by pat_completeness auto

termination by (relation "measure (\<lambda>(X, url, retries, attempt). retries - attempt)") auto

declare fetch_loop.simps [simp del]

definition fetchActionWithRetry :: "proxy_env \<Rightarrow> string \<Rightarrow> Action res" where
  "fetchActionWithRetry X url = fst (fetch_loop X url QueueFetchRetries 0)"

text \<open>The responses a worker posts, in order.\<close>

definition signAndPost :: "'a processor_env_scheme \<Rightarrow> proxy_env \<Rightarrow> Node \<Rightarrow> string \<Rightarrow> ActionResult \<Rightarrow> ActionResponse list" where
  "signAndPost P X n proxyURL result =
     (let response = fst (SignResult P n result) in
      case PostActionResponse X (proxyURL @ ''/result'') response of
        Inr _ \<Rightarrow> [response]
      | Inl e \<Rightarrow> [response, \<lparr>rp_Result = errorResult P None (Wrapped ''error posting result'' e), rp_Signature = [], rp_ProxySignature = []\<rparr>])"

text \<open>
  Where an iteration panics outside the processing, which has a recovery of its own: while it fetches, after \<open>k\<close> of the posts
  of its answer, or after \<open>k\<close> of the posts of the recovery itself. \<open>pn_url\<close> is the address of the proxy that the recovery reads.
\<close>

record panics =
  pn_fetch :: "string option"
  pn_answer :: "(nat \<times> string) option"
  pn_recovery :: "(nat \<times> string) option"
  pn_url :: string

definition no_panics :: panics where
  "no_panics = \<lparr>pn_fetch = None, pn_answer = None, pn_recovery = None, pn_url = []\<rparr>"

text \<open>
  The body of \<open>serveQueueIteration\<close>: how it ends (with the time to sleep in milliseconds, or in a panic), the variable
  \<open>action\<close> as it is then, the responses posted and the state. \<open>n\<close> signs the result and may depend on the state that the
  processing leaves. The address of the proxy is read once to fetch and again to post; the configuration
  server may have changed it in between.
\<close>

datatype iteration_end = Sleeps nat | Panics string

definition answering ::
  "panics \<Rightarrow> nat \<Rightarrow> Action option \<Rightarrow> ActionResponse list \<Rightarrow> 's \<Rightarrow> iteration_end \<times> Action option \<times> ActionResponse list \<times> 's" where
  "answering pn pause action posts s =
     (case pn_answer pn of
        None \<Rightarrow> (Sleeps pause, action, posts, s)
      | Some (k, msg) \<Rightarrow> (Panics msg, action, take k posts, s))"

definition iteration_body ::
  "'a processor_env_scheme \<Rightarrow> proxy_env \<Rightarrow> ('s \<Rightarrow> Node) \<Rightarrow> string \<Rightarrow> string \<Rightarrow> string \<Rightarrow> 's Router \<Rightarrow> 's attempt \<Rightarrow> panics \<Rightarrow> 's
   \<Rightarrow> iteration_end \<times> Action option \<times> ActionResponse list \<times> 's" where
  "iteration_body P X n proxyURL postURL queueID r attempt pn s =
     (if proxyURL = [] then (Sleeps QueuedActionsSleepTime, None, [], s)
      else case pn_fetch pn of
        Some msg \<Rightarrow> (Panics msg, None, [], s)
      | None \<Rightarrow> (case fetchActionWithRetry X (proxyURL @ ''/queue/'' @ queueID) of
          Inl e \<Rightarrow> answering pn QueuedActionsSleepTime None
            (signAndPost P X (n s) postURL (errorResult P None (Wrapped ''error fetching action'' e))) s
        | Inr a \<Rightarrow> if ad_ID (ac_Data a) = 0 then (Sleeps QueuedActionsPauseTime, Some a, [], s)
            else (case processWithTimeout P r attempt a s of
              (result, s') \<Rightarrow> answering pn 0 (Some a) (signAndPost P X (n s') postURL result) s')))"

text \<open>
  The deferred recovery: a panic of the body is answered with a failure, for the action if there is one, and the iteration returns
  the zero duration. A panic in the recovery is recovered by nobody and ends the program: then no time is returned.
\<close>

definition serveQueueIteration ::
  "'a processor_env_scheme \<Rightarrow> proxy_env \<Rightarrow> ('s \<Rightarrow> Node) \<Rightarrow> string \<Rightarrow> string \<Rightarrow> string \<Rightarrow> 's Router \<Rightarrow> 's attempt \<Rightarrow> panics \<Rightarrow> 's
   \<Rightarrow> nat option \<times> ActionResponse list \<times> 's" where
  "serveQueueIteration P X n proxyURL postURL queueID r attempt pn s =
     (case iteration_body P X n proxyURL postURL queueID r attempt pn s of
        (Sleeps pause, action, posts, s') \<Rightarrow> (Some pause, posts, s')
      | (Panics msg, action, posts, s') \<Rightarrow>
          (let result = errorResult P action (Wrapped ''internal error: panic'' (Panic msg));
               recovery = signAndPost P X (n s') (pn_url pn) result in
           case pn_recovery pn of
             None \<Rightarrow> (Some 0, posts @ recovery, s')
           | Some (k, _) \<Rightarrow> (None, posts @ take k recovery, s')))"

section \<open>Facts\<close>

text \<open>At most \<open>retries + 1\<close> requests are made, and only time-outs are retried.\<close>

lemma fetch_loop_requests:
  "attempt \<le> retries \<Longrightarrow> snd (fetch_loop X url retries attempt) \<le> retries + 1 \<and> attempt < snd (fetch_loop X url retries attempt)
     \<and> (\<forall>k. attempt \<le> k \<and> k + 1 < snd (fetch_loop X url retries attempt) \<longrightarrow> (\<exists>e. FetchAction X k url = Inl (NetTimeout e)))"
proof (induction X url retries attempt rule: fetch_loop.induct)
  case (1 X url retries attempt)
  show ?case
  proof (cases "FetchAction X attempt url")
    case (Inr a)
    then show ?thesis using "1.prems" by (auto simp: fetch_loop.simps [of X url retries attempt])
  next
    case (Inl err)
    show ?thesis
    proof (cases err)
      case (FetchError e)
      then show ?thesis using "1.prems" Inl by (auto simp: fetch_loop.simps [of X url retries attempt])
    next
      case (NetTimeout e)
      show ?thesis
      proof (cases "attempt \<ge> retries")
        case True
        then have "fetch_loop X url retries attempt = (Inl e, attempt + 1)" using Inl NetTimeout by (subst fetch_loop.simps) simp
        then show ?thesis using "1.prems" by auto
      next
        case False
        have eq: "fetch_loop X url retries attempt = fetch_loop X url retries (attempt + 1)"
          using Inl NetTimeout False by (subst fetch_loop.simps) simp
        from "1.IH" [OF Inl NetTimeout False] False
        have IH: "snd (fetch_loop X url retries (attempt + 1)) \<le> retries + 1 \<and> attempt + 1 < snd (fetch_loop X url retries (attempt + 1))
            \<and> (\<forall>k. attempt + 1 \<le> k \<and> k + 1 < snd (fetch_loop X url retries (attempt + 1)) \<longrightarrow> (\<exists>e. FetchAction X k url = Inl (NetTimeout e)))"
          by simp
        moreover have "\<exists>e. FetchAction X k url = Inl (NetTimeout e)" if "attempt \<le> k" "k + 1 < snd (fetch_loop X url retries (attempt + 1))" for k
          using IH that Inl NetTimeout by (cases "k = attempt") auto
        ultimately show ?thesis unfolding eq by auto
      qed
    qed
  qed
qed

lemma fetch_loop_result:
  "fst (fetch_loop X url retries attempt) = (case FetchAction X (snd (fetch_loop X url retries attempt) - 1) url of
     Inl e \<Rightarrow> Inl (fetch_cause e) | Inr a \<Rightarrow> Inr a)"
proof (induction X url retries attempt rule: fetch_loop.induct)
  case (1 X url retries attempt)
  show ?case
  proof (cases "\<exists>e. FetchAction X attempt url = Inl (NetTimeout e) \<and> \<not> attempt \<ge> retries")
    case True
    then obtain e where e: "FetchAction X attempt url = Inl (NetTimeout e)" "\<not> attempt \<ge> retries" by blast
    have "fetch_loop X url retries attempt = fetch_loop X url retries (attempt + 1)" using e by (subst fetch_loop.simps) simp
    then show ?thesis using "1.IH" [OF e(1) refl e(2)] by simp
  next
    case False
    then have "fetch_loop X url retries attempt = (case FetchAction X attempt url of Inl e \<Rightarrow> Inl (fetch_cause e) | Inr a \<Rightarrow> Inr a, attempt + 1)"
      by (subst fetch_loop.simps) (auto split: sum.split fetch_error.split)
    then show ?thesis by simp
  qed
qed

text \<open>What a run of \<open>process\<close> is: a rejection that changes nothing, or one run of a registered processor.\<close>

lemma process_cases:
  obtains (rejected) a' e where "process P r a s = (Invalid P a' e, s)" "ac_Data a' = ac_Data a"
  | (routed) a' i p where "CheckAndAdapt a = (Inr (), a')" "GetOpID P a' = Inr i" "map_of (rt_routs r) i = Some p" "process P r a s = p a' s"
  | (default_direct) a' i p where "CheckAndAdapt a = (Inr (), a')" "GetOpID P a' = Inr i" "map_of (rt_routs r) i = None"
      "ad_Type (ac_Data a) = Direct" "rt_defaultDirect r = Some p" "process P r a s = p a' s"
  | (default_instruction) a' i p where "CheckAndAdapt a = (Inr (), a')" "GetOpID P a' = Inr i" "map_of (rt_routs r) i = None"
      "ad_Type (ac_Data a) = Instruction" "rt_defaultInstruction r = Some p" "process P r a s = p a' s"
proof (cases "fst (CheckAndAdapt a)")
  case (Inl e)
  then obtain a' where a': "CheckAndAdapt a = (Inl e, a')" by (metis prod.collapse)
  then have "process P r a s = (Invalid P a' e, s)" by (simp add: process_def)
  then show ?thesis using rejected [of a' e] CheckAndAdapt_Data [of a] a' by simp
next
  case (Inr u)
  then obtain a' where a': "CheckAndAdapt a = (Inr (), a')" by (metis old.unit.exhaust prod.collapse)
  have data: "ac_Data a' = ac_Data a" using CheckAndAdapt_Data [of a] a' by simp
  show ?thesis
  proof (cases "GetOpID P a'")
    case (Inl e)
    then show ?thesis using rejected [of a' e] a' data by (simp add: process_def)
  next
    case (Inr i)
    show ?thesis
    proof (cases "map_of (rt_routs r) i")
      case (Some p)
      then show ?thesis using routed [OF a' Inr] a' Inr by (simp add: process_def)
    next
      case None
      let ?d = "if ad_Type (ac_Data a) = Direct then rt_defaultDirect r
                else if ad_Type (ac_Data a) = Instruction then rt_defaultInstruction r else None"
      have eq: "process P r a s = (case ?d of Some p \<Rightarrow> p a' s | None \<Rightarrow> (Invalid P a' not_registered, s))"
        using a' Inr None data by (simp add: process_def)
      show ?thesis
      proof (cases ?d)
        case None
        then show ?thesis using rejected [of a' not_registered] eq data by simp
      next
        case (Some p)
        then show ?thesis
          using default_direct [OF a' Inr None] default_instruction [OF a' Inr None] eq by (auto split: if_splits)
      qed
    qed
  qed
qed

lemma errorResult_Some [simp]: "errorResult P (Some a) e = Invalid P a e"
  by (simp add: errorResult_def)

text \<open>The state that an iteration leaves: the one it found, or what the processing of a fetched action left.\<close>

lemma serveQueueIteration_state:
  "snd (snd (serveQueueIteration P X n url url' q r attempt pn s)) = s
   \<or> (\<exists>a. fetchActionWithRetry X (url @ ''/queue/'' @ q) = Inr a
        \<and> snd (snd (serveQueueIteration P X n url url' q r attempt pn s)) = snd (processWithTimeout P r attempt a s))"
  by (cases "fetchActionWithRetry X (url @ ''/queue/'' @ q)")
    (auto simp: serveQueueIteration_def iteration_body_def answering_def Let_def split: option.split prod.split iteration_end.split if_splits)

text \<open>A signed response verifies under the node's address, and only a response that could not be signed has no signature.\<close>

lemma SignResult_signed:
  assumes "ecdsa_spec P" and "node_inv P n" and "SignResult P n ar = (resp, Inr ())"
  obtains chainID h where "Node_ChainID n = Inr chainID" "payload_Hash P TEEActionResult chainID (BytesToHash (ActionResult_Hash P ar)) = Inr h"
    "VerifySignature P (hash_bytes h) (rp_Signature resp) (n_teeID n) = Inr ()" "rp_Result resp = ar"
proof -
  from assms(3) obtain chainID h sig where h: "Node_ChainID n = Inr chainID"
    "payload_Hash P TEEActionResult chainID (BytesToHash (ActionResult_Hash P ar)) = Inr h" "Sign P (hash_bytes h) (n_privateKey n) = Inr sig"
    "resp = \<lparr>rp_Result = ar, rp_Signature = sig, rp_ProxySignature = []\<rparr>"
    by (auto simp: SignResult_def Let_def Node_Sign_def split: sum.splits)
  have "VerifySignature P (hash_bytes h) sig (n_teeID n) = Inr ()"
    using VerifySignature_Sign [OF assms(1) h(3)] assms(2) by (simp add: node_inv_def)
  then show ?thesis using that h by simp
qed

lemma SignResult_result:
  "rp_Result (fst (SignResult P n ar)) = ar \<and> snd (SignResult P n ar) = Inr ()
   \<or> (\<exists>log. rp_Result (fst (SignResult P n ar)) = ar\<lparr>ar_Log := Some log\<rparr>) \<and> rp_Signature (fst (SignResult P n ar)) = []
      \<and> snd (SignResult P n ar) \<noteq> Inr ()"
  by (auto simp: SignResult_def Let_def split: sum.splits)

end
