(* ===== verification/Hex_Strings.thy ===== *)
theory Hex_Strings
  imports Go_Strings
begin

text \<open>
  Hexadecimal output of Go's standard library and \<open>strings.ToLower\<close>, with the round trip
  through \<open>hex.DecodeString\<close>.
\<close>

section \<open>Hexadecimal output\<close>

text \<open>\<open>hex.EncodeToString\<close> and \<open>strings.ToLower\<close> (on ASCII; other bytes are never hexadecimal digits).\<close>

definition hex_digit :: "nat \<Rightarrow> char" where
  "hex_digit d = (if d < 10 then char_of (48 + d) else char_of (87 + d))"

definition hex_EncodeToString :: "bytes \<Rightarrow> string" where
  "hex_EncodeToString bs = concat (map (\<lambda>b. [hex_digit (unat b div 16), hex_digit (unat b mod 16)]) bs)"

definition ToLower :: "string \<Rightarrow> string" where
  "ToLower s = map (\<lambda>c. let n = of_char c :: nat in if 65 \<le> n \<and> n \<le> 90 then char_of (n + 32) else c) s"

lemma fromHexChar_hex_digit: "d < 16 \<Longrightarrow> fromHexChar (hex_digit d) = Some d"
  by (simp add: fromHexChar_def hex_digit_def digit_of_def Let_def)

lemma hex_roundtrip: "hex_DecodeString (hex_EncodeToString bs) = Inr bs"
proof (induction bs)
  case (Cons b bs)
  have b: "unat b < 256" by (rule unat_byte_less)
  then have "unat b div 16 < 16" by simp
  then show ?case using Cons by (simp add: hex_EncodeToString_def fromHexChar_hex_digit)
qed (simp add: hex_EncodeToString_def)

lemma ToLower_hex_digit: "d < 16 \<Longrightarrow> ToLower [hex_digit d] = [hex_digit d]"
  by (simp add: ToLower_def hex_digit_def Let_def)

lemma ToLower_append: "ToLower (s @ t) = ToLower s @ ToLower t"
  by (simp add: ToLower_def)

lemma ToLower_hex: "ToLower (hex_EncodeToString bs) = hex_EncodeToString bs"
proof (induction bs)
  case (Cons b bs)
  have "unat b div 16 < 16" using unat_byte_less [of b] by simp
  then have "ToLower [hex_digit (unat b div 16)] @ ToLower [hex_digit (unat b mod 16)] = [hex_digit (unat b div 16), hex_digit (unat b mod 16)]"
    by (simp only: ToLower_hex_digit mod_less_divisor) (simp add: ToLower_hex_digit)
  moreover have "hex_EncodeToString (b # bs) = [hex_digit (unat b div 16)] @ [hex_digit (unat b mod 16)] @ hex_EncodeToString bs"
    by (simp add: hex_EncodeToString_def)
  ultimately show ?case using Cons by (simp only: ToLower_append) simp
qed (simp add: hex_EncodeToString_def ToLower_def)

end
