(* ===== verification/Settings_Config.thy ===== *)
theory Settings_Config
  imports Node Hex_Strings
begin

text \<open>
  The ports of \<^verbatim>\<open>src/internal/settings/settings.go\<close> and the configuration server
  \<^verbatim>\<open>src/internal/settings/config.go\<close>: the validation of the proxy address and one handler per
  endpoint, as functions from the request body to the reply and the new state. The JSON decoders, the
  URL parser and the IP parser of the standard library are the fields of \<open>net_env\<close>; what they return is
  restricted to what the handlers read.
\<close>

section \<open>Ports\<close>

definition ConfigPort :: int where "ConfigPort = 5500"
definition signPortEnvVar :: string where "signPortEnvVar = ''SIGN_PORT''"
definition extensionPortEnvVar :: string where "extensionPortEnvVar = ''EXTENSION_PORT''"

record ports =
  pt_sign :: int
  pt_extension :: int

definition default_ports :: ports where
  "default_ports = \<lparr>pt_sign = 8888, pt_extension = 8889\<rparr>"

text \<open>\<open>os.Getenv\<close> gives the empty string for an unset variable.\<close>

definition Getenv :: "(string \<Rightarrow> string option) \<Rightarrow> string \<Rightarrow> string" where
  "Getenv env v = (case env v of None \<Rightarrow> [] | Some s \<Rightarrow> s)"

definition portFromEnv :: "(string \<Rightarrow> string option) \<Rightarrow> string \<Rightarrow> int \<Rightarrow> int res" where
  "portFromEnv env envVar fallback =
     (let raw = Getenv env envVar in
      if raw = [] then Inr fallback else rerr (Wrapped envVar (Err ''is not a number'')) (Atoi raw))"

definition check_port :: "string \<Rightarrow> int \<Rightarrow> unit res" where
  "check_port name v =
     rbind (ensure (\<not> (v \<le> 0 \<or> v > 65535)) (Wrapped name (Errf ''%d is not a valid port'' [v]))) (\<lambda>_.
     ensure (v \<noteq> ConfigPort) (Wrapped name (Errf ''%d collides with the config port, which is fixed at %d'' [v, ConfigPort])))"

definition setPorts :: "int \<Rightarrow> int \<Rightarrow> ports \<Rightarrow> unit res \<times> ports" where
  "setPorts sign extension p =
     stry p (check_port signPortEnvVar sign) (\<lambda>_.
     stry p (check_port extensionPortEnvVar extension) (\<lambda>_.
     stry p (ensure (sign \<noteq> extension) (Errf ''SIGN_PORT and EXTENSION_PORT are both %d'' [sign])) (\<lambda>_.
     (Inr (), p\<lparr>pt_sign := sign, pt_extension := extension\<rparr>))))"

definition configurePorts :: "(string \<Rightarrow> string option) \<Rightarrow> ports \<Rightarrow> unit res \<times> ports" where
  "configurePorts env p =
     stry p (portFromEnv env signPortEnvVar (pt_sign p)) (\<lambda>sign.
     stry p (portFromEnv env extensionPortEnvVar (pt_extension p)) (\<lambda>extension.
     setPorts sign extension p))"

text \<open>The three keys of the map differ by \<open>setPorts\<close>, so the order of the list does not matter.\<close>

definition ownPorts :: "ports \<Rightarrow> (int \<times> string) list" where
  "ownPorts p = [(ConfigPort, ''config port''), (pt_sign p, signPortEnvVar), (pt_extension p, extensionPortEnvVar)]"

section \<open>The proxy address\<close>

record parsed_url =
  ur_Scheme :: string
  ur_Hostname :: string
  ur_Port :: string

record parsed_ip =
  ip_IsLoopback :: bool
  ip_IsUnspecified :: bool

record ConfigureGovernanceRequest =
  cg_Signers :: "address list option"
  cg_Threshold :: "uint64 option"
  cg_Safe :: "address option"
  cg_TeeManager :: "address option"

record net_env =
  nt_ParseRequestURI :: "string \<Rightarrow> parsed_url res"
  nt_ParseIP :: "string \<Rightarrow> parsed_ip option"
  nt_ConfigureProxyURL :: "bytes \<Rightarrow> string option res"
  nt_ConfigureInitialOwner :: "bytes \<Rightarrow> address option res"
  nt_ConfigureExtensionID :: "bytes \<Rightarrow> hash option res"
  nt_ConfigureChainID :: "bytes \<Rightarrow> uint64 option res"
  nt_ConfigureGovernance :: "bytes \<Rightarrow> ConfigureGovernanceRequest res"

text \<open>
  \<open>strings.EqualFold\<close> against a lower-case ASCII word without k: besides the two cases of a letter, the
  long s (two bytes in UTF-8) folds to s.
\<close>

fun fold_ascii :: "string \<Rightarrow> string" where
  "fold_ascii [] = []"
| "fold_ascii [c] = ToLower [c]"
| "fold_ascii (c # d # s) = (if of_char c = (197 :: nat) \<and> of_char d = (191 :: nat) then CHR ''s'' # fold_ascii s
     else ToLower [c] @ fold_ascii (d # s))"

definition isLocalHost :: "net_env \<Rightarrow> string \<Rightarrow> bool" where
  "isLocalHost N host =
     (if host = [] \<or> fold_ascii host = ''localhost'' then True
      else (case nt_ParseIP N host of None \<Rightarrow> False | Some ip \<Rightarrow> ip_IsLoopback ip \<or> ip_IsUnspecified ip))"

definition urlPort :: "parsed_url \<Rightarrow> int res" where
  "urlPort parsed =
     (if ur_Port parsed \<noteq> [] then rerr (Err ''invalid URL port'') (Atoi (ur_Port parsed))
      else let scheme = ToLower (ur_Scheme parsed) in
        if scheme = ''http'' then Inr 80 else if scheme = ''https'' then Inr 443 else Inr 0)"

definition ValidateProxyURL :: "net_env \<Rightarrow> ports \<Rightarrow> string \<Rightarrow> unit res" where
  "ValidateProxyURL N p raw =
     rbind (rerr (Err ''invalid URL'') (nt_ParseRequestURI N raw)) (\<lambda>parsed.
     if \<not> isLocalHost N (ur_Hostname parsed) then Inr ()
     else rbind (urlPort parsed) (\<lambda>port.
       case map_of (ownPorts p) port of
         Some name \<Rightarrow> Inl (Wrapped name (Errf ''proxy URL addresses the node's own port (%d)'' [port]))
       | None \<Rightarrow> Inr ()))"

definition setProxyURLFromEnv :: "net_env \<Rightarrow> ports \<Rightarrow> (string \<Rightarrow> string option) \<Rightarrow> string \<Rightarrow> string" where
  "setProxyURLFromEnv N p env URL =
     (if URL \<noteq> [] then URL
      else let fromEnv = Getenv env ''PROXY_URL'' in
        if fromEnv = [] then URL
        else (case ValidateProxyURL N p fromEnv of Inl _ \<Rightarrow> URL | Inr _ \<Rightarrow> fromEnv))"

section \<open>The handlers\<close>

datatype http_reply = HttpError int go_error | HttpOK bytes

definition maxConfigBodyBytes :: nat where "maxConfigBodyBytes = 64 * 1024"

text \<open>\<open>limitRequestBody\<close>: a decoder sees the first bytes of the body only, and fails on an unfinished value.\<close>

definition decode_limited :: "(bytes \<Rightarrow> 'r res) \<Rightarrow> bytes \<Rightarrow> 'r res" where
  "decode_limited decode body = decode (take maxConfigBodyBytes body)"

definition bad_json :: http_reply where "bad_json = HttpError 400 (Err ''Invalid JSON'')"

definition proxyHandler :: "net_env \<Rightarrow> ports \<Rightarrow> bytes \<Rightarrow> string \<Rightarrow> http_reply \<times> string" where
  "proxyHandler N p body URL =
     (case decode_limited (nt_ConfigureProxyURL N) body of
        Inl _ \<Rightarrow> (bad_json, URL)
      | Inr None \<Rightarrow> (HttpError 400 (Err ''Missing URL in request''), URL)
      | Inr (Some new) \<Rightarrow> (case ValidateProxyURL N p new of
          Inl e \<Rightarrow> (HttpError 400 e, URL)
        | Inr _ \<Rightarrow> (HttpOK [], new)))"

definition config_reply :: "string \<Rightarrow> unit res \<times> Node \<Rightarrow> http_reply \<times> Node" where
  "config_reply msg rn = (case rn of
     (Inl e, n) \<Rightarrow> (HttpError 403 (Wrapped msg e), n)
   | (Inr _, n) \<Rightarrow> (HttpOK [], n))"

definition extensionIDHandler :: "net_env \<Rightarrow> bytes \<Rightarrow> Node \<Rightarrow> http_reply \<times> Node" where
  "extensionIDHandler N body n =
     (case decode_limited (nt_ConfigureExtensionID N) body of
        Inl _ \<Rightarrow> (bad_json, n)
      | Inr None \<Rightarrow> (HttpError 400 (Err ''Missing extension ID in request''), n)
      | Inr (Some x) \<Rightarrow> config_reply ''Failed to set extension ID'' (SetExtensionID n x))"

definition governanceHandler :: "'a flare_scheme \<Rightarrow> net_env \<Rightarrow> bytes \<Rightarrow> Node \<Rightarrow> http_reply \<times> Node" where
  "governanceHandler F N body n =
     (case decode_limited (nt_ConfigureGovernance N) body of
        Inl _ \<Rightarrow> (bad_json, n)
      | Inr request \<Rightarrow> (case cg_Signers request of
          None \<Rightarrow> (HttpError 400 (Err ''Missing signers in request''), n)
        | Some signers \<Rightarrow> (case cg_Threshold request of
            None \<Rightarrow> (HttpError 400 (Err ''Missing threshold in request''), n)
          | Some threshold \<Rightarrow>
              let safe = (case cg_Safe request of None \<Rightarrow> 0 | Some a \<Rightarrow> a);
                  teeManager = (case cg_TeeManager request of None \<Rightarrow> 0 | Some a \<Rightarrow> a) in
              config_reply ''Failed to set governance'' (SetGovernance F n signers threshold safe teeManager))))"

definition initialOwnerHandler :: "net_env \<Rightarrow> bytes \<Rightarrow> Node \<Rightarrow> http_reply \<times> Node" where
  "initialOwnerHandler N body n =
     (case decode_limited (nt_ConfigureInitialOwner N) body of
        Inl _ \<Rightarrow> (bad_json, n)
      | Inr None \<Rightarrow> (HttpError 400 (Err ''Missing owner in request''), n)
      | Inr (Some owner) \<Rightarrow> config_reply ''Failed to set initial owner'' (SetOwner n owner))"

definition chainIDHandler :: "net_env \<Rightarrow> bytes \<Rightarrow> Node \<Rightarrow> http_reply \<times> Node" where
  "chainIDHandler N body n =
     (case decode_limited (nt_ConfigureChainID N) body of
        Inl _ \<Rightarrow> (bad_json, n)
      | Inr None \<Rightarrow> (HttpError 400 (Err ''Missing chain ID in request''), n)
      | Inr (Some c) \<Rightarrow> config_reply ''Failed to set chain ID'' (SetChainID n c))"

section \<open>Ports are usable\<close>

definition ports_ok :: "ports \<Rightarrow> bool" where
  "ports_ok p \<longleftrightarrow> 0 < pt_sign p \<and> pt_sign p \<le> 65535 \<and> 0 < pt_extension p \<and> pt_extension p \<le> 65535
     \<and> distinct [ConfigPort, pt_sign p, pt_extension p]"

lemma setPorts_eq:
  "setPorts a b p = (r, p') \<Longrightarrow> r = Inr () \<and> p' = \<lparr>pt_sign = a, pt_extension = b\<rparr> \<and> ports_ok p' \<or> (\<exists>e. r = Inl e) \<and> p' = p"
  by (auto simp: setPorts_def stry_eq check_port_def res_simps ports_ok_def)

lemma setPorts_accepts: "ports_ok \<lparr>pt_sign = a, pt_extension = b\<rparr> \<Longrightarrow> setPorts a b p = (Inr (), \<lparr>pt_sign = a, pt_extension = b\<rparr>)"
  by (auto simp: setPorts_def check_port_def ports_ok_def)

lemma configurePorts_ok:
  assumes "configurePorts env p = (r, p')" and "ports_ok p"
  shows "ports_ok p'"
  using assms by (auto simp: configurePorts_def stry_eq dest!: setPorts_eq)

section \<open>The proxy is somebody else\<close>

text \<open>An installed address is on another host, or on a port of this host that the node does not serve.\<close>

definition foreign_url :: "net_env \<Rightarrow> ports \<Rightarrow> string \<Rightarrow> bool" where
  "foreign_url N p url \<longleftrightarrow> (\<exists>parsed. nt_ParseRequestURI N url = Inr parsed
     \<and> (isLocalHost N (ur_Hostname parsed) \<longrightarrow> (\<exists>port. urlPort parsed = Inr port \<and> port \<notin> {ConfigPort, pt_sign p, pt_extension p})))"

lemma ValidateProxyURL_iff: "ValidateProxyURL N p url = Inr () \<longleftrightarrow> foreign_url N p url"
  by (auto simp: ValidateProxyURL_def foreign_url_def res_simps ownPorts_def split: option.splits if_splits)

lemma setProxyURLFromEnv_foreign:
  "(URL \<noteq> [] \<longrightarrow> foreign_url N p URL) \<Longrightarrow> setProxyURLFromEnv N p env URL \<noteq> [] \<Longrightarrow> foreign_url N p (setProxyURLFromEnv N p env URL)"
  by (auto simp: setProxyURLFromEnv_def Let_def simp flip: ValidateProxyURL_iff split: if_splits sum.splits)

lemma proxyHandler_foreign:
  "(URL \<noteq> [] \<longrightarrow> foreign_url N p URL) \<Longrightarrow> snd (proxyHandler N p body URL) \<noteq> [] \<Longrightarrow> foreign_url N p (snd (proxyHandler N p body URL))"
  by (auto simp: proxyHandler_def simp flip: ValidateProxyURL_iff split: sum.splits option.splits)

section \<open>Configuration requests are steps of the node\<close>

lemma config_reply_snd [simp]: "snd (config_reply msg rn) = snd rn"
  by (simp add: config_reply_def split: prod.split sum.split)

lemma config_handlers_step:
  "snd (extensionIDHandler N body n) = n \<or> node_step F n (snd (extensionIDHandler N body n))"
  "snd (governanceHandler F N body n) = n \<or> node_step F n (snd (governanceHandler F N body n))"
  "snd (initialOwnerHandler N body n) = n \<or> node_step F n (snd (initialOwnerHandler N body n))"
  "snd (chainIDHandler N body n) = n \<or> node_step F n (snd (chainIDHandler N body n))"
  by (auto simp: extensionIDHandler_def governanceHandler_def initialOwnerHandler_def chainIDHandler_def Let_def
      intro: node_step.intros split: sum.split option.split)

text \<open>A request is answered with success exactly when it changed the setting, with 403 when the setting is taken.\<close>

lemma chainIDHandler_cases:
  assumes "decode_limited (nt_ConfigureChainID N) body = Inr (Some c)"
  shows "chainIDHandler N body n = (if n_chainID n = 0 \<and> c \<noteq> 0 then (HttpOK [], n\<lparr>n_chainID := c\<rparr>)
    else (HttpError 403 (Wrapped ''Failed to set chain ID''
      (if n_chainID n \<noteq> 0 then Err ''chainID already set'' else Err ''0 is invalid chainID'')), n))"
  using assms by (simp add: chainIDHandler_def config_reply_def SetChainID_def)

end
