(* ===== verification/Sign_Server.thy ===== *)
theory Sign_Server
  imports Router Wallet_Storage Hex_Strings Settings_Config
begin

text \<open>
  The server that extensions call, \<^verbatim>\<open>src/internal/extension/server/server.go\<close>, with its messages
  \<^verbatim>\<open>src/pkg/types/extension.go\<close>. No handler changes the node or a storage, so each is a function from
  the request to the reply. The JSON forms are the fields of \<open>server_env\<close>; writing a reply to the connection
  does not fail in the model.
\<close>

section \<open>Definitions\<close>

record SignResponse =
  sr_Message :: bytes
  sr_Signature :: bytes

record server_env =
  sv_unjson_SignRequest :: "bytes \<Rightarrow> bytes res"
  sv_unjson_DecryptRequest :: "bytes \<Rightarrow> bytes res"
  sv_unjson_ActionResult :: "bytes \<Rightarrow> ActionResult res"
  sv_json_KeyExistence :: "KeyExistence \<Rightarrow> bytes res"
  sv_json_SignResponse :: "SignResponse \<Rightarrow> bytes"
  sv_json_DecryptResponse :: "bytes \<Rightarrow> bytes"

definition invalidParam :: "string \<Rightarrow> go_error" where
  "invalidParam param = Wrapped ''invalid'' (Err param)"

definition uint64Param :: "string \<Rightarrow> string \<Rightarrow> uint64 res" where
  "uint64Param param s = rerr (invalidParam param) (ParseUint10 s)"

definition hashParam :: "string \<Rightarrow> string \<Rightarrow> hash res" where
  "hashParam param s0 =
     (let s = CutPrefix (ToLower s0) ''0x'' in
      rbind (rerr (invalidParam param) (hex_DecodeString s)) (\<lambda>sB.
      rbind (ensure (length sB = 32) (invalidParam param)) (\<lambda>_.
      Inr (BytesToHash sB))))"

text \<open>A step of a handler that answers an error with the status \<open>code\<close>.\<close>

definition or_reply :: "int \<Rightarrow> 'a res \<Rightarrow> ('a \<Rightarrow> http_reply) \<Rightarrow> http_reply" where
  "or_reply code m k = (case m of Inl e \<Rightarrow> HttpError code e | Inr x \<Rightarrow> k x)"

text \<open>The lookup that three handlers share.\<close>

definition with_wallet :: "Storage \<Rightarrow> KeyIDPair \<Rightarrow> (Wallet \<Rightarrow> http_reply) \<Rightarrow> http_reply" where
  "with_wallet ws i k = (case Get ws i of
     Inl e \<Rightarrow> if e = ErrWalletNonExistent then HttpError 404 e else HttpError 500 e
   | Inr w \<Rightarrow> k w)"

definition getKeyInfoHandler ::
  "'a flare_scheme \<Rightarrow> server_env \<Rightarrow> Node \<Rightarrow> Storage \<Rightarrow> string \<Rightarrow> string \<Rightarrow> http_reply" where
  "getKeyInfoHandler F V n ws walletID keyID =
     or_reply 400 (hashParam ''walletID'' walletID) (\<lambda>wID.
     or_reply 400 (uint64Param ''keyID'' keyID) (\<lambda>kID.
     with_wallet ws \<lparr>kp_WalletID = wID, kp_KeyID = kID\<rparr> (\<lambda>w.
     or_reply 500 (KeyExistenceProof F w (n_teeID n)) (\<lambda>walletInfo.
     or_reply 500 (sv_json_KeyExistence V walletInfo) HttpOK))))"

definition signWithKeyHandler ::
  "'a wallets_env_scheme \<Rightarrow> server_env \<Rightarrow> Storage \<Rightarrow> string \<Rightarrow> string \<Rightarrow> bytes \<Rightarrow> http_reply" where
  "signWithKeyHandler W V ws walletID keyID body =
     or_reply 400 (hashParam ''walletID'' walletID) (\<lambda>wID.
     or_reply 400 (uint64Param ''keyID'' keyID) (\<lambda>kID.
     or_reply 400 (sv_unjson_SignRequest V body) (\<lambda>message.
     with_wallet ws \<lparr>kp_WalletID = wID, kp_KeyID = kID\<rparr> (\<lambda>w.
     or_reply 500 (rerr (Err ''can not sign'') (Wallet_Sign W w message)) (\<lambda>signature.
     HttpOK (sv_json_SignResponse V \<lparr>sr_Message = message, sr_Signature = signature\<rparr>))))))"

definition signWithTeeHandler :: "'a geth_scheme \<Rightarrow> server_env \<Rightarrow> Node \<Rightarrow> bytes \<Rightarrow> http_reply" where
  "signWithTeeHandler G V n body =
     or_reply 400 (sv_unjson_SignRequest V body) (\<lambda>message.
     or_reply 400 (ensure (length message \<noteq> 0) (Err ''message is required'')) (\<lambda>_.
     or_reply 500 (rerr (Err ''can not sign'') (Node_Sign G n (Keccak256 G message))) (\<lambda>signature.
     HttpOK (sv_json_SignResponse V \<lparr>sr_Message = message, sr_Signature = signature\<rparr>))))"

text \<open>The reply and the responses posted to the proxy.\<close>

definition postResultHandler ::
  "'a processor_env_scheme \<Rightarrow> server_env \<Rightarrow> proxy_env \<Rightarrow> Node \<Rightarrow> string \<Rightarrow> bytes \<Rightarrow> http_reply \<times> ActionResponse list" where
  "postResultHandler P V X n url body =
     (case sv_unjson_ActionResult V body of
        Inl e \<Rightarrow> (HttpError 400 e, [])
      | Inr result \<Rightarrow>
          if url = [] then (HttpError 500 (Err ''proxy not set''), [])
          else (case SignResult P n result of
            (_, Inl _) \<Rightarrow> (HttpError 500 (Err ''can not sign''), [])
          | (response, Inr _) \<Rightarrow> (case PostActionResponse X (url @ ''/result'') response of
              Inr _ \<Rightarrow> (HttpOK [], [response])
            | Inl postErr \<Rightarrow>
                let fallback = \<lparr>ar_ID = 0, ar_SubmissionTag = [], ar_Status = 0, ar_Log = Some (Wrapped ''error posting result'' postErr),
                      ar_OPType = 0, ar_OPCommand = 0, ar_AdditionalResultStatus = [], ar_Version = EncodingVersion, ar_Data = []\<rparr> in
                (HttpError 502 (Err ''failed to forward result to proxy''),
                 [response, \<lparr>rp_Result = fallback, rp_Signature = [], rp_ProxySignature = []\<rparr>]))))"

definition decryptWithKeyHandler ::
  "'a geth_scheme \<Rightarrow> server_env \<Rightarrow> Storage \<Rightarrow> string \<Rightarrow> string \<Rightarrow> bytes \<Rightarrow> http_reply" where
  "decryptWithKeyHandler G V ws walletID keyID body =
     or_reply 400 (hashParam ''walletID'' walletID) (\<lambda>wID.
     or_reply 400 (uint64Param ''keyID'' keyID) (\<lambda>kID.
     or_reply 400 (sv_unjson_DecryptRequest V body) (\<lambda>encryptedMessage.
     or_reply 400 (ensure (length encryptedMessage \<noteq> 0) (Err ''message is required'')) (\<lambda>_.
     with_wallet ws \<lparr>kp_WalletID = wID, kp_KeyID = kID\<rparr> (\<lambda>w.
     or_reply 400 (rerr (Err ''can not decrypt'') (Wallet_Decrypt G w encryptedMessage)) (\<lambda>decryptedMessage.
     HttpOK (sv_json_DecryptResponse V decryptedMessage)))))))"

definition decryptWithTeeHandler :: "'a geth_scheme \<Rightarrow> server_env \<Rightarrow> Node \<Rightarrow> bytes \<Rightarrow> http_reply" where
  "decryptWithTeeHandler G V n body =
     or_reply 400 (sv_unjson_DecryptRequest V body) (\<lambda>encryptedMessage.
     or_reply 400 (ensure (length encryptedMessage \<noteq> 0) (Err ''message is required'')) (\<lambda>_.
     or_reply 400 (rerr (Err ''can not decrypt'') (Node_Decrypt G n encryptedMessage)) (\<lambda>decryptedMessage.
     HttpOK (sv_json_DecryptResponse V decryptedMessage))))"

section \<open>Parameters\<close>

lemma or_reply_OK [res_simps]: "or_reply code m k = HttpOK b \<longleftrightarrow> (\<exists>x. m = Inr x \<and> k x = HttpOK b)"
  by (cases m) (auto simp: or_reply_def)

lemma with_wallet_OK [res_simps]: "with_wallet ws i k = HttpOK b \<longleftrightarrow> (\<exists>w. Get ws i = Inr w \<and> k w = HttpOK b)"
  by (cases "Get ws i") (auto simp: with_wallet_def)

lemma or_reply_simps [simp]: "or_reply code (Inr x) k = k x" "or_reply code (Inl e) k = HttpError code e"
  by (simp_all add: or_reply_def)

lemma with_wallet_missing [simp]: "Get ws i = Inl ErrWalletNonExistent \<Longrightarrow> with_wallet ws i k = HttpError 404 ErrWalletNonExistent"
  by (simp add: with_wallet_def)

lemma uint64Param_show: "uint64Param param (show_nat (unat k)) = Inr k"
proof -
  have "unat k < 2 ^ 64" using unsigned_less [of k, where 'a = nat] by simp
  then show ?thesis by (simp add: uint64Param_def ParseUint10_show_nat)
qed

lemma strip_0x_hex: "strip_prefix ''0x'' (hex_EncodeToString bs) = None"
proof (cases bs)
  case (Cons b bs')
  have "unat b mod 16 < 16" by simp
  then have "hex_digit (unat b mod 16) \<noteq> CHR ''x''" by (auto simp: hex_digit_def char_of_eq_iff take_bit_eq_mod)
  then show ?thesis by (simp add: Cons hex_EncodeToString_def)
qed (simp add: hex_EncodeToString_def)

lemma hashParam_hex:
  "hashParam param (hex_EncodeToString (hash_bytes h)) = Inr h"
  "hashParam param (''0x'' @ hex_EncodeToString (hash_bytes h)) = Inr h"
proof -
  have "CutPrefix (ToLower (''0x'' @ hex_EncodeToString (hash_bytes h))) ''0x'' = hex_EncodeToString (hash_bytes h)"
    by (simp only: ToLower_append ToLower_hex) (simp add: ToLower_def CutPrefix_def)
  moreover have "CutPrefix (ToLower (hex_EncodeToString (hash_bytes h))) ''0x'' = hex_EncodeToString (hash_bytes h)"
    by (simp add: ToLower_hex CutPrefix_def strip_0x_hex)
  ultimately show "hashParam param (hex_EncodeToString (hash_bytes h)) = Inr h"
    "hashParam param (''0x'' @ hex_EncodeToString (hash_bytes h)) = Inr h"
    by (simp_all add: hashParam_def hex_roundtrip del: append_Cons)
qed

end
