(* ===== verification/Tee_Info.thy ===== *)
theory Tee_Info
  imports System_Env Hex_Strings
begin

text \<open>
  Attestation: the hashes of \<^verbatim>\<open>src/pkg/types/tee.go\<close>, the claims of
  \<^verbatim>\<open>src/pkg/attestation/attestation_token.go\<close>, the token request and the TEE information of
  \<^verbatim>\<open>src/internal/attestation\<close>, and the attestation instruction
  \<^verbatim>\<open>src/internal/processors/instructions/regutils\<close>. The launcher's socket, the clock and the
  extension's HTTP server are arguments, gathered in the record \<open>surroundings\<close>.
\<close>

section \<open>Hashes\<close>

definition TeeInfo_prepareForEncoding :: "TeeInfo \<Rightarrow> TeeStructsAttestation" where
  "TeeInfo_prepareForEncoding ti = \<lparr>ta_ChainId = unat (ti_ChainID ti), ta_Challenge = ti_Challenge ti, ta_PublicKey = ti_PublicKey ti,
     ta_InitialSigningPolicyId = ti_InitialSigningPolicyID ti, ta_InitialSigningPolicyHash = ti_InitialSigningPolicyHash ti,
     ta_LastSigningPolicyId = ti_LastSigningPolicyID ti, ta_LastSigningPolicyHash = ti_LastSigningPolicyHash ti,
     ta_State = ti_State ti, ta_TeeTimestamp = ti_TeeTimestamp ti, ta_MachinePathListNonce = unat (ti_MachinePathListNonce ti),
     ta_MachinePathListHash = ti_MachinePathListHash ti\<rparr>"

definition TeeInfo_Hash :: "'a system_env_scheme \<Rightarrow> TeeInfo \<Rightarrow> bytes res" where
  "TeeInfo_Hash S ti = rbind (abi_encode_Attestation S (TeeInfo_prepareForEncoding ti)) (\<lambda>enc. Inr (Keccak256 S enc))"

definition MachineData_prepareForEncoding :: "MachineData \<Rightarrow> TeeMachineData" where
  "MachineData_prepareForEncoding md = \<lparr>tm_ExtensionId = nat_of_bytes (hash_bytes (md_ExtensionID md)), tm_InitialOwner = md_InitialOwner md,
     tm_CodeHash = md_CodeHash md, tm_Platform = md_Platform md, tm_PublicKey = md_PublicKey md, tm_GovernanceHash = md_GovernanceHash md\<rparr>"

definition DataHash :: "'a system_env_scheme \<Rightarrow> MachineData \<Rightarrow> hash res" where
  "DataHash S md = rbind (abi_pack_TeeMachineData S (MachineData_prepareForEncoding md)) (\<lambda>innerEnc. Inr (Keccak256Hash S innerEnc))"

definition EncodeTeeAttestationRequest :: "'a system_env_scheme \<Rightarrow> TeeAttestationMsg \<Rightarrow> bytes res" where
  "EncodeTeeAttestationRequest S req = abi_encode_TeeAttestation S req"

definition DecodeTeeAttestationRequest :: "'a system_env_scheme \<Rightarrow> bytes \<Rightarrow> TeeAttestationMsg res" where
  "DecodeTeeAttestationRequest S attReq = abi_TeeAttestation S attReq"

section \<open>The attestation token\<close>

record surroundings =
  su_mode :: int
  su_token_post :: "bytes \<Rightarrow> (int \<times> bytes) res"
  su_state_get :: "string \<Rightarrow> (int \<times> bytes) res"
  su_state_unjson :: "bytes \<Rightarrow> TeeState res"
  su_now :: uint64

definition PKITokenType :: string where "PKITokenType = ''PKI''"
definition MagicPass :: string where "MagicPass = ''magic_pass''"

definition GetGoogleAttestationToken :: "'a system_env_scheme \<Rightarrow> 'b surroundings_scheme \<Rightarrow> string list \<Rightarrow> string \<Rightarrow> bytes res" where
  "GetGoogleAttestationToken S U nonces tokenType =
     (if su_mode U \<noteq> 0 then Inr (string_bytes MagicPass)
      else rbind (json_TokenRequest S ''https://sts.google.com'' tokenType nonces) (\<lambda>requestBody.
        rbind (rwrap ''failed to get raw token response'' (su_token_post U requestBody)) (\<lambda>(status, tokenBytes).
        rbind (ensure (status = 200) (Errf ''token endpoint returned %d'' [status])) (\<lambda>_. Inr tokenBytes))))"

definition NeededClaims_Platform :: "'a system_env_scheme \<Rightarrow> NeededClaims \<Rightarrow> hash res" where
  "NeededClaims_Platform S c = rwrap ''unparsable HWModel'' (StringToCommonHash S (nc_HWModel c))"

definition NeededClaims_CodeHash :: "'a system_env_scheme \<Rightarrow> NeededClaims \<Rightarrow> hash res" where
  "NeededClaims_CodeHash S c = rwrap ''unparsable ImageDigest'' (Hex32StringToCommonHash S (CutPrefix (nc_ImageID c) ''sha256:''))"

definition TestCodeHash :: hash where
  "TestCodeHash = 0x194844cf417dde867073e5ab7199fa4d21fd82b5dbe2bdea8b3d7fc18d10fdc2"

text \<open>\<open>TestPlatform, _ = convert.StringToCommonHash("TEST_PLATFORM")\<close>: the zero hash on an error.\<close>

definition TestPlatform :: "'a system_env_scheme \<Rightarrow> hash" where
  "TestPlatform S = (case StringToCommonHash S ''TEST_PLATFORM'' of Inl _ \<Rightarrow> 0 | Inr h \<Rightarrow> h)"

definition ConstructTEEInfoResponse ::
  "'a system_env_scheme \<Rightarrow> 'b surroundings_scheme \<Rightarrow> hash \<Rightarrow> Info \<Rightarrow> uint32 \<Rightarrow> hash \<Rightarrow> uint32 \<Rightarrow> hash \<Rightarrow> TeeInfoResponse res" where
  "ConstructTEEInfoResponse S U challenge nodeInfo initialID initialHash activeID activeHash =
     rbind (State_State (su_state_get U) (su_state_unjson U) (in_State nodeInfo)) (\<lambda>state.
     let teeInfo = \<lparr>ti_Challenge = challenge, ti_PublicKey = in_PublicKey nodeInfo, ti_InitialSigningPolicyID = initialID,
           ti_InitialSigningPolicyHash = initialHash, ti_LastSigningPolicyID = activeID, ti_LastSigningPolicyHash = activeHash,
           ti_ChainID = in_ChainID nodeInfo, ti_State = state, ti_TeeTimestamp = su_now U,
           ti_MachinePathListNonce = in_MachinePathListNonce nodeInfo, ti_MachinePathListHash = in_MachinePathListHash nodeInfo\<rparr> in
     rbind (TeeInfo_Hash S teeInfo) (\<lambda>h.
     rbind (GetGoogleAttestationToken S U [hex_EncodeToString h] PKITokenType) (\<lambda>attestationBytes.
     rbind (if su_mode U = 0
            then rbind (ParsePKITokenUnverifiedClaims S attestationBytes) (\<lambda>claims.
              rbind (NeededClaims_CodeHash S claims) (\<lambda>cHash.
              rbind (NeededClaims_Platform S claims) (\<lambda>platform. Inr (cHash, platform))))
            else Inr (TestCodeHash, TestPlatform S)) (\<lambda>(cHash, platform).
     let mData = \<lparr>md_ExtensionID = in_ExtensionID nodeInfo, md_InitialOwner = in_InitialOwner nodeInfo, md_CodeHash = cHash,
           md_Platform = platform, md_PublicKey = in_PublicKey nodeInfo, md_GovernanceHash = gr_Hash (in_Governance nodeInfo)\<rparr> in
     Inr \<lparr>tr_TeeInfo = teeInfo, tr_MachineData = mData, tr_DataSignature = [], tr_Attestation = attestationBytes\<rparr>))))"

text \<open>The signed response that the attestation instruction and \<open>TEEInfo\<close> both produce.\<close>

definition signed_tee_info ::
  "'a system_env_scheme \<Rightarrow> 'b surroundings_scheme \<Rightarrow> Node \<Rightarrow> PolicyStorage \<Rightarrow> hash \<Rightarrow> TeeInfoResponse res" where
  "signed_tee_info S U n pStorage challenge =
     (let info = Node_Info S n;
          (initialID, initialHash, activeID, activeHash) = policy_Info S pStorage (in_ChainID info) in
      rbind (ConstructTEEInfoResponse S U challenge info initialID initialHash activeID activeHash) (\<lambda>response.
      rbind (DataHash S (tr_MachineData response)) (\<lambda>mdDataHash.
      rbind (payload_Hash S TEEMachineRegister (in_ChainID info) mdDataHash) (\<lambda>mdHash.
      rbind (Node_Sign S n (hash_bytes mdHash)) (\<lambda>mdSignature.
      Inr (response\<lparr>tr_DataSignature := mdSignature\<rparr>))))))"

section \<open>The attestation instruction\<close>

definition checkTeeAttestation :: "TeeAttestationMsg \<Rightarrow> address \<Rightarrow> hash res" where
  "checkTeeAttestation request teeID =
     rbind (ensure (at_TeeId request = teeID) (Err ''TeeIds do not match'')) (\<lambda>_.
     rbind (ensure (at_Challenge request \<noteq> 0) (Err ''challenge not given'')) (\<lambda>_.
     Inr (at_Challenge request)))"

definition ValidateTeeAttestationRequest :: "'a system_env_scheme \<Rightarrow> bytes \<Rightarrow> address \<Rightarrow> hash res" where
  "ValidateTeeAttestationRequest S attReq expectedTeeID =
     rbind (DecodeTeeAttestationRequest S attReq) (\<lambda>teeAttestationRequest.
     checkTeeAttestation teeAttestationRequest expectedTeeID)"

definition TEEAttestation ::
  "'a system_env_scheme \<Rightarrow> 'b surroundings_scheme \<Rightarrow> Node \<Rightarrow> PolicyStorage \<Rightarrow> 's handler" where
  "TEEAttestation S U n pStorage submissionTag dataFixed variableMessages signers signingPolicy s =
     stry s (ValidateTeeAttestationRequest S (df_OriginalMessage dataFixed) (n_teeID n)) (\<lambda>challenge.
     if submissionTag = End then (Inr ([], []), s)
     else if submissionTag = Threshold then
       stry s (signed_tee_info S U n pStorage challenge) (\<lambda>teeInfoResponse.
       stry s (json_TeeInfoResponse S teeInfoResponse) (\<lambda>resultEncoded. (Inr (resultEncoded, []), s)))
     else (Inl (Err ''unexpected submission tag''), s))"

section \<open>What the signed information says\<close>

lemma State_State_total: "\<exists>st. State_State get unjson state = Inr st"
  by (cases state) (auto split: sum.split)

text \<open>
  A signed response repeats the challenge, reports the node's key, chain and configuration
  and the policies of the storage; the attestation token is requested for the hash of exactly that report, and
  the signature on the machine data verifies as the node's.
\<close>

lemma signed_tee_info_Inr:
  assumes "ecdsa_spec S" and "node_inv S n" and "signed_tee_info S U n ps challenge = Inr r"
  obtains ih dh h where "TeeInfo_Hash S (tr_TeeInfo r) = Inr ih"
    "GetGoogleAttestationToken S U [hex_EncodeToString ih] PKITokenType = Inr (tr_Attestation r)" "ti_Challenge (tr_TeeInfo r) = challenge" "ti_PublicKey (tr_TeeInfo r) = PubKeyToStruct (sk_Pub (n_privateKey n))"
    "ti_ChainID (tr_TeeInfo r) = n_chainID n"
    "(ti_InitialSigningPolicyID (tr_TeeInfo r), ti_InitialSigningPolicyHash (tr_TeeInfo r),
      ti_LastSigningPolicyID (tr_TeeInfo r), ti_LastSigningPolicyHash (tr_TeeInfo r)) = policy_Info S ps (n_chainID n)"
    "md_InitialOwner (tr_MachineData r) = n_initialOwner n" "md_ExtensionID (tr_MachineData r) = ext_value (n_extensionID n)"
    "md_GovernanceHash (tr_MachineData r) = gov_hash (n_governance n)" "md_PublicKey (tr_MachineData r) = ti_PublicKey (tr_TeeInfo r)"
    "DataHash S (tr_MachineData r) = Inr dh" "payload_Hash S TEEMachineRegister (n_chainID n) dh = Inr h"
    "VerifySignature S (hash_bytes h) (tr_DataSignature r) (n_teeID n) = Inr ()"
proof -
  obtain i ih a ah where p: "policy_Info S ps (n_chainID n) = (i, ih, a, ah)" by (cases "policy_Info S ps (n_chainID n)") auto
  have in_chain: "in_ChainID (Node_Info S n) = n_chainID n" by (simp add: Node_Info_def Let_def)
  from assms(3) p in_chain obtain r0 dh h sig where r0: "ConstructTEEInfoResponse S U challenge (Node_Info S n) i ih a ah = Inr r0"
    and dh: "DataHash S (tr_MachineData r0) = Inr dh" and h: "payload_Hash S TEEMachineRegister (n_chainID n) dh = Inr h"
    and sig: "Sign S (hash_bytes h) (n_privateKey n) = Inr sig" and r: "r = r0\<lparr>tr_DataSignature := sig\<rparr>"
    by (auto simp: signed_tee_info_def Let_def res_simps Node_Sign_def)
  from r0 obtain eh where token: "TeeInfo_Hash S (tr_TeeInfo r0) = Inr eh"
    "GetGoogleAttestationToken S U [hex_EncodeToString eh] PKITokenType = Inr (tr_Attestation r0)"
    by (auto simp: ConstructTEEInfoResponse_def res_simps Let_def)
  have fields: "ti_Challenge (tr_TeeInfo r0) = challenge" "ti_PublicKey (tr_TeeInfo r0) = PubKeyToStruct (sk_Pub (n_privateKey n))"
    "ti_ChainID (tr_TeeInfo r0) = n_chainID n" "ti_InitialSigningPolicyID (tr_TeeInfo r0) = i" "ti_InitialSigningPolicyHash (tr_TeeInfo r0) = ih"
    "ti_LastSigningPolicyID (tr_TeeInfo r0) = a" "ti_LastSigningPolicyHash (tr_TeeInfo r0) = ah"
    "md_InitialOwner (tr_MachineData r0) = n_initialOwner n" "md_ExtensionID (tr_MachineData r0) = ext_value (n_extensionID n)"
    "md_GovernanceHash (tr_MachineData r0) = gov_hash (n_governance n)" "md_PublicKey (tr_MachineData r0) = ti_PublicKey (tr_TeeInfo r0)"
    using r0 by (auto simp: ConstructTEEInfoResponse_def res_simps Let_def Node_Info_def)
  have "VerifySignature S (hash_bytes h) sig (n_teeID n) = Inr ()"
    using VerifySignature_Sign [OF assms(1) sig] assms(2) by (simp add: node_inv_def)
  then show ?thesis using that [of eh dh h] token fields dh h p by (simp add: r)
qed

text \<open>An unreachable extension is reported as an unknown state and never fails the report.\<close>

lemma unavailable_state:
  "FetchState get unjson url = Inl e \<Longrightarrow>
     State_State get unjson (ExtensionState url) = Inr \<lparr>ts_SystemState = [], ts_SystemStateVersion = 0, ts_State = [],
       ts_StateVersion = StateUnavailableVersion\<rparr>"
  by simp

end
