(* ===== verification/Get_Processor.thy ===== *)
theory Get_Processor
  imports Tee_Info Wallet_Storage
begin

text \<open>
  The read-only direct instructions \<^verbatim>\<open>src/internal/processors/direct/getutils/processor.go\<close>:
  TEE information, the list of keys, existence proofs and the signed backup of a key. None
  of them changes a storage, so they are functions of the state.
\<close>

section \<open>Definitions\<close>

definition get_TEEInfo ::
  "'a system_env_scheme \<Rightarrow> 'b surroundings_scheme \<Rightarrow> Node \<Rightarrow> PolicyStorage \<Rightarrow> DirectInstruction \<Rightarrow> bytes res" where
  "get_TEEInfo S U n pStorage i =
     rbind (unjson_TeeInfoRequest S (di_Message i)) (\<lambda>challenge.
     rbind (signed_tee_info S U n pStorage challenge) (\<lambda>response. json_TeeInfoResponse S response))"

definition KeysInfo :: "'a system_env_scheme \<Rightarrow> Storage \<Rightarrow> bytes res" where
  "KeysInfo S wStorage =
     json_KeyInfos S (map (\<lambda>w. \<lparr>ki_WalletID = WalletID w, ki_KeyID = KeyID w, ki_Nonce = st_Nonce (Status w)\<rparr>) (GetWallets wStorage))"

text \<open>The body of the loop of \<open>KeysProof\<close> that runs under the read lock.\<close>

definition pendingProof ::
  "'a system_env_scheme \<Rightarrow> Storage \<Rightarrow> address \<Rightarrow> uint64 \<Rightarrow> KeyIDPair \<Rightarrow> (bytes \<times> hash) res" where
  "pendingProof S wStorage teeID chainID requestedPair =
     rbind (Get wStorage requestedPair) (\<lambda>storedWallet.
     rbind (KeyExistenceProof S storedWallet teeID) (\<lambda>ep.
     rbind (abi_encode_KeyExistence S ep) (\<lambda>epEncoded.
     rbind (KeyExistenceDataHash S ep) (\<lambda>dataHash.
     rbind (payload_Hash S TEEKeyExistence chainID dataHash) (\<lambda>h. Inr (epEncoded, h))))))"

text \<open>\<open>ctx idx\<close> is \<open>ctx.Err()\<close> as iteration \<open>idx\<close> of the signing loop sees it.\<close>

fun sign_loop :: "'a geth_scheme \<Rightarrow> Node \<Rightarrow> (nat \<Rightarrow> go_error option) \<Rightarrow> nat \<Rightarrow> (bytes \<times> hash) list \<Rightarrow> SignedKeyExistenceProof list res" where
  "sign_loop G n ctx idx [] = Inr []"
| "sign_loop G n ctx idx ((encoded, h) # pending) =
     (case ctx idx of
        Some e \<Rightarrow> Inl e
      | None \<Rightarrow> rbind (Node_Sign G n (hash_bytes h)) (\<lambda>signature.
          rbind (sign_loop G n ctx (Suc idx) pending) (\<lambda>rest. Inr (\<lparr>sk_KeyExistence = encoded, sk_Signature = signature\<rparr> # rest))))"

definition KeysProof ::
  "'a system_env_scheme \<Rightarrow> Node \<Rightarrow> (nat \<Rightarrow> go_error option) \<Rightarrow> Storage \<Rightarrow> DirectInstruction \<Rightarrow> bytes res" where
  "KeysProof S n ctx wStorage i =
     rbind (unjson_KeyIDPairs S (di_Message i)) (\<lambda>requested.
     let info = Node_Info S n; teeID = in_TeeID info; chainID = in_ChainID info in
     rbind (rmap (pendingProof S wStorage teeID chainID) requested) (\<lambda>pending.
     rbind (sign_loop S n ctx 0 pending) (\<lambda>signedProofs. json_SignedProofs S signedProofs)))"

definition voter_weights :: "SigningPolicy \<Rightarrow> uint16 list" where
  "voter_weights p = map (\<lambda>i. vs_VoterWeight (sp_Voters p) i) [0..<length (voters p)]"

text \<open>The signed backup before it is marshalled.\<close>

definition signed_backup ::
  "'a system_env_scheme \<Rightarrow> 'c bigmod_scheme \<Rightarrow> backup_rnd \<Rightarrow> Node \<Rightarrow> PolicyStorage \<Rightarrow> Storage \<Rightarrow> KeyIDPair \<Rightarrow> WalletBackup res" where
  "signed_backup S B rnd n pStorage wStorage requestedPair =
     (let info = Node_Info S n; teeID = in_TeeID info; chainID = in_ChainID info in
      rbind (Get wStorage requestedPair) (\<lambda>w.
      rbind (ActiveSigningPolicy pStorage) (\<lambda>activePolicy.
      rbind (ActiveSigningPolicyPublicKeys pStorage) (\<lambda>activePolicyPublicKeys.
      rbind (BackupWallet S B rnd w activePolicyPublicKeys (voter_weights activePolicy) (sp_RewardEpochID activePolicy) teeID chainID
        NormalizationConstant DataProvidersThreshold) (\<lambda>walletBackup.
      rbind (TEESignHash S walletBackup chainID) (\<lambda>signHash.
      rbind (Node_Sign S n (hash_bytes signHash)) (\<lambda>signature.
      Inr (walletBackup\<lparr>bk_TEESignature := signature\<rparr>))))))))"

definition TEEBackup ::
  "'a system_env_scheme \<Rightarrow> 'c bigmod_scheme \<Rightarrow> backup_rnd \<Rightarrow> Node \<Rightarrow> PolicyStorage \<Rightarrow> Storage \<Rightarrow> DirectInstruction \<Rightarrow> bytes res" where
  "TEEBackup S B rnd n pStorage wStorage i =
     rbind (unjson_KeyIDPair S (di_Message i)) (\<lambda>requestedPair.
     rbind (signed_backup S B rnd n pStorage wStorage requestedPair) (\<lambda>walletBackup.
     rbind (json_WalletBackup S walletBackup) (\<lambda>walletBackupBytes.
     json_TEEBackupResponse S \<lparr>tb_BackupID = md_ID (bk_MetaData walletBackup), tb_WalletBackup = walletBackupBytes\<rparr>)))"

section \<open>Existence proofs\<close>

lemma sign_loop_Inr:
  assumes "sign_loop G n ctx idx pending = Inr proofs"
  shows "list_all2 (\<lambda>(enc, h) pr. sk_KeyExistence pr = enc \<and> Sign G (hash_bytes h) (n_privateKey n) = Inr (sk_Signature pr)) pending proofs"
  using assms
  by (induction G n ctx idx pending arbitrary: proofs rule: sign_loop.induct) (auto simp: res_simps Node_Sign_def split: option.splits)

text \<open>The proofs come in the order of the request, one per requested key, each signed by the node.\<close>

lemma KeysProof_Inr:
  assumes "KeysProof S n ctx ws i = Inr out"
  obtains requested proofs where "unjson_KeyIDPairs S (di_Message i) = Inr requested" "json_SignedProofs S proofs = Inr out"
    "list_all2 (\<lambda>k pr. \<exists>h. pendingProof S ws (n_teeID n) (n_chainID n) k = Inr (sk_KeyExistence pr, h)
       \<and> Sign S (hash_bytes h) (n_privateKey n) = Inr (sk_Signature pr)) requested proofs"
proof -
  from assms obtain requested pending proofs where r: "unjson_KeyIDPairs S (di_Message i) = Inr requested"
    "rmap (pendingProof S ws (n_teeID n) (n_chainID n)) requested = Inr pending" "sign_loop S n ctx 0 pending = Inr proofs"
    "json_SignedProofs S proofs = Inr out"
    by (auto simp: KeysProof_def Let_def res_simps Node_Info_def)
  have a: "list_all2 (\<lambda>k pd. pendingProof S ws (n_teeID n) (n_chainID n) k = Inr pd) requested pending"
    using r(2) by (simp add: rmap_eq_Inr)
  have "list_all2 (\<lambda>k pr. \<exists>h. pendingProof S ws (n_teeID n) (n_chainID n) k = Inr (sk_KeyExistence pr, h)
       \<and> Sign S (hash_bytes h) (n_privateKey n) = Inr (sk_Signature pr)) requested proofs"
    by (rule list_all2_trans [OF _ a sign_loop_Inr [OF r(3)]]) auto
  then show ?thesis using that r by blast
qed

section \<open>Backups of stored keys\<close>

lemma length_voter_weights [simp]: "length (voter_weights p) = length (voters p)"
  by (simp add: voter_weights_def)

lemma signed_backup_Inr:
  assumes "signed_backup S B rnd n ps ws k = Inr wb"
  obtains w p keys wb0 h where "Get ws k = Inr w" "ps_active ps = Some p" "ActiveSigningPolicyPublicKeys ps = Inr keys"
    "BackupWallet S B rnd w keys (voter_weights p) (sp_RewardEpochID p) (n_teeID n) (n_chainID n) NormalizationConstant
       DataProvidersThreshold = Inr wb0"
    "TEESignHash S wb0 (n_chainID n) = Inr h" "Sign S (hash_bytes h) (n_privateKey n) = Inr (bk_TEESignature wb)"
    "wb = wb0\<lparr>bk_TEESignature := bk_TEESignature wb\<rparr>"
  using assms by (auto simp: signed_backup_def Let_def res_simps Node_Info_def Node_Sign_def)

end
