(* ===== verification/Fdc.thy ===== *)
theory Fdc
  imports System_Env "HOL-Library.Multiset"
begin

text \<open>
  FDC proofs: the codecs and hashes of \<^verbatim>\<open>src/pkg/fdc/fdc.go\<close> and the instruction \<open>Prove\<close> with its
  helpers in \<^verbatim>\<open>src/internal/processors/instructions/fdcutils\<close>. \<open>slices.SortFunc\<close> orders by the
  voter index; entries with equal indices, whose order Go leaves open, do not occur because
  the signers of an instruction are pairwise different.
\<close>

section \<open>Hashes\<close>

definition EncodeRequest :: "'a system_env_scheme \<Rightarrow> Fdc2Request \<Rightarrow> bytes res" where
  "EncodeRequest S req = abi_encode_Fdc2Request S req"

definition EncodeResponseHeader :: "'a system_env_scheme \<Rightarrow> ResponseHeader \<Rightarrow> bytes res" where
  "EncodeResponseHeader S header = abi_encode_ResponseHeader S header"

definition DecodeResponse :: "'a system_env_scheme \<Rightarrow> bytes \<Rightarrow> ResponseHeader res" where
  "DecodeResponse S data = abi_ResponseHeader S data"

definition relayDirectSigningPrefix :: bytes where "relayDirectSigningPrefix = [1, 0, 0, 0, 0, 0]"

definition RelayPrefixedHash :: "'a geth_scheme \<Rightarrow> hash \<Rightarrow> hash" where
  "RelayPrefixedHash G messageHash = Keccak256Hash G (relayDirectSigningPrefix @ hash_bytes messageHash)"

definition ChainBoundRelayPrefixedHash :: "'a geth_scheme \<Rightarrow> uint64 \<Rightarrow> hash \<Rightarrow> hash" where
  "ChainBoundRelayPrefixedHash G chainID messageHash =
     (let chainIDWord = replicate 24 0 @ fill_bytes 8 (unat chainID) in
      Keccak256Hash G (chainIDWord @ relayDirectSigningPrefix @ hash_bytes messageHash))"

definition HashMessage ::
  "'a system_env_scheme \<Rightarrow> uint64 \<Rightarrow> Fdc2Request \<Rightarrow> bytes \<Rightarrow> address list \<Rightarrow> uint64 \<Rightarrow> uint64 \<Rightarrow> (hash \<times> bytes) res" where
  "HashMessage S chainID req responseBody cosigners cosignersThreshold timestamp =
     (let header = \<lparr>rh_AttestationType = fr_AttestationType req, rh_SourceId = fr_SourceId req, rh_ThresholdBIPS = fr_ThresholdBIPS req,
           rh_ProofOwner = fr_ProofOwner req, rh_Cosigners = cosigners, rh_CosignersThreshold = cosignersThreshold, rh_Timestamp = timestamp\<rparr> in
      rbind (EncodeResponseHeader S header) (\<lambda>encHeader.
      let headerHash = Keccak256Hash S encHeader; requestBodyHash = Keccak256Hash S (fr_RequestBody req);
          responseBodyHash = Keccak256Hash S responseBody in
      rbind (abi_pack_bytes32s S [headerHash, requestBodyHash, responseBodyHash]) (\<lambda>innerEnc.
      let dataHash = Keccak256Hash S innerEnc in
      rbind (payload_Hash S FDC2Tag chainID dataHash) (\<lambda>messageHash. Inr (messageHash, encHeader)))))"

section \<open>The proof instruction\<close>

definition validateSignatureInputs :: "bytes list \<Rightarrow> address list \<Rightarrow> unit res" where
  "validateSignatureInputs sigs signers = ensure (length sigs = length signers) (Err ''signature count does not match signer count'')"

fun response_loop ::
  "'a geth_scheme \<Rightarrow> hash \<Rightarrow> voter_set \<Rightarrow> address list \<Rightarrow> bytes list \<Rightarrow> address list
   \<Rightarrow> IndexedSignature list \<Rightarrow> bytes list \<Rightarrow> (IndexedSignature list \<times> bytes list) res" where
  "response_loop G msgHash dataProviders cosigners (signature # sigs) (signer # signers) dpSigs cosSigs =
     rbind (VerifySignature G (hash_bytes msgHash) signature signer) (\<lambda>_.
     let dpIndex = vs_VoterIndex dataProviders signer in
     response_loop G msgHash dataProviders cosigners sigs signers
       (if dpIndex \<noteq> -1 then dpSigs @ [\<lparr>ix_Index = dpIndex, ix_Signature = signature\<rparr>] else dpSigs)
       (if signer \<in> set cosigners then cosSigs @ [signature] else cosSigs))"
| "response_loop G msgHash dataProviders cosigners _ _ dpSigs cosSigs = Inr (dpSigs, cosSigs)"

definition checkResponseSignatures ::
  "'a geth_scheme \<Rightarrow> hash \<Rightarrow> bytes list \<Rightarrow> address list \<Rightarrow> voter_set \<Rightarrow> address list \<Rightarrow> (IndexedSignature list \<times> bytes list) res" where
  "checkResponseSignatures G msgHash sigs signers dataProviders cosigners =
     rbind (validateSignatureInputs sigs signers) (\<lambda>_.
     rbind (response_loop G msgHash dataProviders cosigners sigs signers [] []) (\<lambda>(dpSigs, cosSigs).
     Inr (sort_key ix_Index dpSigs, cosSigs)))"

definition directSigningMessagePrefix :: bytes where "directSigningMessagePrefix = [1, 0, 0, 0, 0, 0]"

definition prepareFinalizationTxInput :: "'a system_env_scheme \<Rightarrow> bytes \<Rightarrow> bytes \<Rightarrow> IndexedSignature list \<Rightarrow> bytes res" where
  "prepareFinalizationTxInput S signingPolicyBytes msg sigs =
     (let buffer = relayFunctionSelector S @ signingPolicyBytes @ directSigningMessagePrefix @ msg in
      rbind (EncodeSignatures S sigs) (\<lambda>encodedSignatures. Inr (buffer @ encodedSignatures)))"

definition Prove :: "'a system_env_scheme \<Rightarrow> Node \<Rightarrow> 's handler" where
  "Prove S n submissionTag dataFixed variableMessages signers signingPolicy s =
     stry s (rwrap ''failed to decode FDC prove request'' (DecodeRequest S (df_OriginalMessage dataFixed))) (\<lambda>req.
     let chainID = in_ChainID (Node_Info S n) in
     stry s (HashMessage S chainID req (df_AdditionalFixedMessage dataFixed) (df_Cosigners dataFixed)
         (df_CosignersThreshold dataFixed) (df_Timestamp dataFixed)) (\<lambda>(messageHash, encResHeader).
     let relayPrefixedHash = ChainBoundRelayPrefixedHash S chainID messageHash in
     stry s (checkResponseSignatures S relayPrefixedHash variableMessages signers (sp_Voters signingPolicy) (df_Cosigners dataFixed))
       (\<lambda>(dpSigs, cosignerSigs).
     stry s (prepareFinalizationTxInput S (RawBytes S signingPolicy) (hash_bytes messageHash) dpSigs) (\<lambda>dpSigsEncoded.
     stry s (Node_Sign S n (hash_bytes messageHash)) (\<lambda>teeSignature.
     let result = \<lparr>pv_ResponseHeader = encResHeader, pv_RequestBody = fr_RequestBody req,
           pv_ResponseBody = df_AdditionalFixedMessage dataFixed, pv_TEESignature = teeSignature,
           pv_CosignerSignatures = cosignerSigs, pv_DataProviderSignatures = dpSigsEncoded\<rparr> in
     stry s (json_ProveResponse S result) (\<lambda>resultBytes. (Inr (resultBytes, []), s)))))))"

section \<open>The collected signatures\<close>

lemma response_loop_Inr:
  assumes "response_loop G h V cs sigs signers dp co = Inr (dp', co')" and "length sigs = length signers"
  shows "list_all2 (\<lambda>sig a. SignatureToSignersAddress G (hash_bytes h) sig = Inr a) sigs signers
    \<and> dp' = dp @ map (\<lambda>(sig, a). \<lparr>ix_Index = vs_VoterIndex V a, ix_Signature = sig\<rparr>) (filter (\<lambda>(sig, a). vs_VoterIndex V a \<noteq> -1) (zip sigs signers))
    \<and> co' = co @ map fst (filter (\<lambda>(sig, a). a \<in> set cs) (zip sigs signers))"
  using assms
proof (induction G h V cs sigs signers dp co rule: response_loop.induct)
  case (1 G h V cs sig sigs signer signers dp co)
  from "1.prems"(1) have v: "VerifySignature G (hash_bytes h) sig signer = Inr ()"
    and rest: "response_loop G h V cs sigs signers
       (if vs_VoterIndex V signer \<noteq> -1 then dp @ [\<lparr>ix_Index = vs_VoterIndex V signer, ix_Signature = sig\<rparr>] else dp)
       (if signer \<in> set cs then co @ [sig] else co) = Inr (dp', co')"
    by (auto simp: res_simps Let_def)
  from "1.IH" [OF refl rest] "1.prems"(2) v show ?case by (auto simp: VerifySignature_iff)
qed auto

lemma checkResponseSignatures_Inr:
  assumes "checkResponseSignatures G h sigs signers V cs = Inr (dps, coss)"
  shows "list_all2 (\<lambda>sig a. SignatureToSignersAddress G (hash_bytes h) sig = Inr a) sigs signers"
    and "sorted (map ix_Index dps)"
    and "set dps = {\<lparr>ix_Index = vs_VoterIndex V a, ix_Signature = sig\<rparr> | sig a. (sig, a) \<in> set (zip sigs signers) \<and> vs_VoterIndex V a \<noteq> -1}"
    and "set coss = {sig | sig a. (sig, a) \<in> set (zip sigs signers) \<and> a \<in> set cs}"
    and "length dps = length (filter (\<lambda>a. vs_VoterIndex V a \<noteq> -1) signers)"
    and "map ix_Index dps = sort (map (vs_VoterIndex V) (filter (\<lambda>a. vs_VoterIndex V a \<noteq> -1) signers))"
    and "coss = map fst (filter (\<lambda>(sig, a). a \<in> set cs) (zip sigs signers))"
proof -
  from assms obtain dp where len: "length sigs = length signers" and loop: "response_loop G h V cs sigs signers [] [] = Inr (dp, coss)"
    and dps: "dps = sort_key ix_Index dp"
    by (auto simp: checkResponseSignatures_def validateSignatureInputs_def res_simps)
  note r = response_loop_Inr [OF loop len]
  show "list_all2 (\<lambda>sig a. SignatureToSignersAddress G (hash_bytes h) sig = Inr a) sigs signers" using r by blast
  show "sorted (map ix_Index dps)" by (simp add: dps)
  show "set dps = {\<lparr>ix_Index = vs_VoterIndex V a, ix_Signature = sig\<rparr> | sig a. (sig, a) \<in> set (zip sigs signers) \<and> vs_VoterIndex V a \<noteq> -1}"
    using r by (force simp: dps)
  show "set coss = {sig | sig a. (sig, a) \<in> set (zip sigs signers) \<and> a \<in> set cs}"
    using r by force
  show "coss = map fst (filter (\<lambda>(sig, a). a \<in> set cs) (zip sigs signers))" using r by simp
  have z: "filter (\<lambda>a. P a) signers = map snd (filter (\<lambda>(sig, a). P a) (zip sigs signers))" for P
    using len by (induction sigs signers rule: list_induct2) auto
  have ix: "map ix_Index dp = map (vs_VoterIndex V) (filter (\<lambda>a. vs_VoterIndex V a \<noteq> -1) signers)"
    using r by (simp add: z split_def comp_def)
  show "map ix_Index dps = sort (map (vs_VoterIndex V) (filter (\<lambda>a. vs_VoterIndex V a \<noteq> -1) signers))"
    unfolding dps ix [symmetric] by (rule properties_for_sort [symmetric]) simp_all
  have "length dp = length (map ix_Index dp)" by simp
  also have "\<dots> = length (filter (\<lambda>a. vs_VoterIndex V a \<noteq> -1) signers)" by (simp add: ix)
  finally show "length dps = length (filter (\<lambda>a. vs_VoterIndex V a \<noteq> -1) signers)" by (simp add: dps)
qed

text \<open>A proof never changes the state of the handler it runs on.\<close>

lemma Prove_state [simp]: "snd (Prove S n tag d ms sg p s) = s"
  by (simp add: Prove_def snd_stry Let_def split: sum.split prod.split)

end
