(* ===== verification/Sign_Processor.thy ===== *)
theory Sign_Processor
  imports System_Env Wallet_Storage
begin

text \<open>
  Payment signing: \<^verbatim>\<open>src/internal/processors/instructions/signutils/processor.go\<close> and
  \<^verbatim>\<open>sigutils.go\<close>, and the decoder in \<^verbatim>\<open>src/pkg/types/payment.go\<close>. The instruction signs one
  transaction per entry of the fee schedule at once; the goroutine that posts them later is
  a \<open>schedule\<close>, which the handler records in its state and \<open>run_schedule\<close> plays. Building,
  signing and joining transactions is library code. The counter of running goroutines is
  also given as a step relation, in which concurrent callers interleave between
  their two atomic additions.
\<close>

section \<open>Transactions\<close>

definition XRPType :: hash where "XRPType = ToHash ''XRP''"

definition MaxSignGoroutines :: int where "MaxSignGoroutines = 3000"
definition MaxFeeEntries :: nat where "MaxFeeEntries = 50"

text \<open>Ten minutes, in the nanoseconds of \<open>time.Duration\<close>.\<close>

definition MaxFeeScheduleTime :: int where "MaxFeeScheduleTime = 10 * 60 * 1000000000"

definition ParsePaymentInstruction :: "'a system_env_scheme \<Rightarrow> DataFixed \<Rightarrow> PaymentMsg res" where
  "ParsePaymentInstruction S d = abi_Payment S (df_OriginalMessage d)"

definition loadPrivateKey :: "'a geth_scheme \<Rightarrow> Storage \<Rightarrow> hash \<Rightarrow> DataFixed \<Rightarrow> uint64 \<Rightarrow> ecdsa_priv res" where
  "loadPrivateKey G storage walletID dataFixed keyID =
     rbind (Get storage \<lparr>kp_WalletID = walletID, kp_KeyID = keyID\<rparr>) (\<lambda>key.
     rbind (ensure (KeyType key = XRPType) (Err ''key type does not allow the action'')) (\<lambda>_.
     rbind (ensure (SigningAlgo key = XRPSignAlgo) (Err ''key's signing algorithm does not allow the action'')) (\<lambda>_.
     rbind (CheckMatchingCosigners (df_Cosigners dataFixed) (Cosigners key) (df_CosignersThreshold dataFixed) (CosignersThreshold key)) (\<lambda>_.
     ToECDSA G (PrivateKey key)))))"

definition loadPrivateKeys :: "'a geth_scheme \<Rightarrow> Storage \<Rightarrow> hash \<Rightarrow> uint64 list \<Rightarrow> DataFixed \<Rightarrow> ecdsa_priv list res" where
  "loadPrivateKeys G storage walletID keyIDs dataFixed = rmap (loadPrivateKey G storage walletID dataFixed) keyIDs"

definition buildSignedTx :: "'a system_env_scheme \<Rightarrow> PaymentMsg \<Rightarrow> ecdsa_priv list \<Rightarrow> nat \<Rightarrow> xrp_tx res" where
  "buildSignedTx S inst privateKeys try_index =
     rbind (PaymentTxFromInstruction S inst try_index) (\<lambda>tx.
     rbind (if map_of tx ''TransactionType'' = Some (AnyString ''Payment'') then CheckNativePayment S tx else Inr ()) (\<lambda>_.
     rbind (rmap (SignTxMultisig S tx) privateKeys) (\<lambda>items.
     let (signerItems, check) = signer_Sort S items in
     rbind (ensure (length check = 0) (Err ''invalid signer item'')) (\<lambda>_.
     JoinMultisigJSON S tx signerItems))))"

section \<open>The instruction\<close>

record schedule =
  sc_URL :: string
  sc_ChainID :: uint64
  sc_Tag :: string
  sc_Data :: DataFixed
  sc_Entries :: "FeeEntry list"
  sc_SignedTxs :: "xrp_tx list"

record sign_state =
  sg_activeRoutines :: int
  sg_schedules :: "schedule list"

definition check_fee_entries :: "FeeEntry list \<Rightarrow> unit res" where
  "check_fee_entries entries =
     rbind (ensure (length entries \<noteq> 0) (Err ''fee schedule is empty'')) (\<lambda>_.
     rbind (ensure (\<not> length entries > MaxFeeEntries)
       (Errf ''fee schedule has %d entries, maximum is %d'' [int (length entries), int MaxFeeEntries])) (\<lambda>_.
     case find (\<lambda>(i, entry). fe_Delay entry > MaxFeeScheduleTime) (enumerate 0 entries) of
       Some (i, entry) \<Rightarrow> Inl (Errf ''fee entry %d delay %v exceeds maximum %v'' [int i, fe_Delay entry, MaxFeeScheduleTime])
     | None \<Rightarrow> Inr ()))"

text \<open>The part that runs at the threshold: a slot is reserved and the goroutine is started.\<close>

definition start_schedule ::
  "Node \<Rightarrow> string option \<Rightarrow> string \<Rightarrow> DataFixed \<Rightarrow> FeeEntry list \<Rightarrow> xrp_tx list \<Rightarrow> sign_state \<Rightarrow> unit res \<times> sign_state" where
  "start_schedule n proxyURL tag d entries signedTxs s =
     (case proxyURL of
        None \<Rightarrow> (Inl (Err ''proxy URL not configured''), s)
      | Some url \<Rightarrow>
          stry s (ensure (url \<noteq> []) (Err ''proxy URL not set'')) (\<lambda>_.
          stry s (Node_ChainID n) (\<lambda>chainID.
          let s1 = s\<lparr>sg_activeRoutines := sg_activeRoutines s + 1\<rparr> in
          if sg_activeRoutines s1 > MaxSignGoroutines
          then (Inl (Err ''maximum number of concurrent sign goroutines reached''), s1\<lparr>sg_activeRoutines := sg_activeRoutines s1 - 1\<rparr>)
          else (Inr (), s1\<lparr>sg_schedules := sg_schedules s1 @
            [\<lparr>sc_URL = url, sc_ChainID = chainID, sc_Tag = tag, sc_Data = d, sc_Entries = entries, sc_SignedTxs = signedTxs\<rparr>]\<rparr>))))"

definition SignXRPLPayment :: "'a system_env_scheme \<Rightarrow> Node \<Rightarrow> Storage \<Rightarrow> string option \<Rightarrow> sign_state handler" where
  "SignXRPLPayment S n wStorage proxyURL submissionTag dataFixed variableMessages signers signingPolicy s =
     stry s (ParsePaymentInstruction S dataFixed) (\<lambda>inst.
     stry s (ParseFeeEntries S (pm_FeeSchedule inst)) (\<lambda>entries.
     stry s (check_fee_entries entries) (\<lambda>_.
     let keyIDs = map tk_KeyId (filter (\<lambda>pair. tk_TeeId pair = n_teeID n) (pm_TeeIdKeyIdPairs inst)) in
     stry s (ensure (length keyIDs \<noteq> 0) (Err ''no keys for signing'')) (\<lambda>_.
     stry s (loadPrivateKeys S wStorage (pm_WalletId inst) keyIDs dataFixed) (\<lambda>privateKeys.
     stry s (rmap (buildSignedTx S inst privateKeys) [0..<length entries]) (\<lambda>signedTxs.
     if submissionTag = Threshold then
       sbind (start_schedule n proxyURL submissionTag dataFixed entries signedTxs s) (\<lambda>s1 _. (Inr ([], []), s1))
     else if submissionTag = End then (Inr ([], []), s)
     else (Inl (Err ''unexpected submission tag''), s)))))))"

section \<open>The goroutine\<close>

definition schedule_status :: "nat \<Rightarrow> nat \<Rightarrow> uint8" where
  "schedule_status len i = (if int i < int len - 1 then 3 + word_of_nat i else 1)"

definition schedule_response :: "'a system_env_scheme \<Rightarrow> Node \<Rightarrow> schedule \<Rightarrow> nat \<Rightarrow> ActionResponse res" where
  "schedule_response S n sc i =
     rbind (json_XRPSignResponse S (take (i + 1) (sc_SignedTxs sc))) (\<lambda>responseData.
     let result = \<lparr>ar_ID = df_InstructionID (sc_Data sc), ar_SubmissionTag = sc_Tag sc,
           ar_Status = schedule_status (length (sc_Entries sc)) i, ar_Log = None, ar_OPType = df_OPType (sc_Data sc),
           ar_OPCommand = df_OPCommand (sc_Data sc), ar_AdditionalResultStatus = [], ar_Version = EncodingVersion,
           ar_Data = responseData\<rparr> in
     rbind (payload_Hash S TEEActionResult (sc_ChainID sc) (BytesToHash (ActionResult_Hash S result))) (\<lambda>signHash.
     rbind (Node_Sign S n (hash_bytes signHash)) (\<lambda>sig.
     Inr \<lparr>rp_Result = result, rp_Signature = sig, rp_ProxySignature = []\<rparr>)))"

text \<open>
  The posts of the goroutine: the delay it waits for, the address and the response. An error
  while building a response ends it; the outcome of a post does not matter. (A panic of a library
  would end it too, and be recovered; it is not modelled.)
\<close>

fun run_schedule :: "'a system_env_scheme \<Rightarrow> Node \<Rightarrow> schedule \<Rightarrow> nat \<Rightarrow> FeeEntry list \<Rightarrow> (int \<times> string \<times> ActionResponse) list" where
  "run_schedule S n sc i [] = []"
| "run_schedule S n sc i (entry # entries) =
     (case schedule_response S n sc i of
        Inl _ \<Rightarrow> []
      | Inr response \<Rightarrow> (fe_Delay entry, sc_URL sc @ ''/result'', response) # run_schedule S n sc (Suc i) entries)"

text \<open>The end of the goroutine gives its slot back.\<close>

definition finish_schedule :: "nat \<Rightarrow> sign_state \<Rightarrow> sign_state" where
  "finish_schedule i s = s\<lparr>sg_activeRoutines := sg_activeRoutines s - 1,
     sg_schedules := take i (sg_schedules s) @ drop (Suc i) (sg_schedules s)\<rparr>"

section \<open>The counter under concurrency\<close>

text \<open>Between its two additions a refused caller is in the state \<open>rb_rolling_back\<close>.\<close>

record routine_state =
  rb_counter :: int
  rb_rolling_back :: nat
  rb_running :: nat

inductive routine_step :: "routine_state \<Rightarrow> routine_state \<Rightarrow> bool" where
  reserve: "rb_counter s + 1 \<le> MaxSignGoroutines \<Longrightarrow>
     routine_step s (s\<lparr>rb_counter := rb_counter s + 1, rb_running := Suc (rb_running s)\<rparr>)"
| refuse: "rb_counter s + 1 > MaxSignGoroutines \<Longrightarrow>
     routine_step s (s\<lparr>rb_counter := rb_counter s + 1, rb_rolling_back := Suc (rb_rolling_back s)\<rparr>)"
| roll_back: "rb_rolling_back s = Suc k \<Longrightarrow>
     routine_step s (s\<lparr>rb_counter := rb_counter s - 1, rb_rolling_back := k\<rparr>)"
| finish: "rb_running s = Suc k \<Longrightarrow>
     routine_step s (s\<lparr>rb_counter := rb_counter s - 1, rb_running := k\<rparr>)"

definition routine_init :: routine_state where
  "routine_init = \<lparr>rb_counter = 0, rb_rolling_back = 0, rb_running = 0\<rparr>"

definition routine_inv :: "routine_state \<Rightarrow> bool" where
  "routine_inv s \<longleftrightarrow> rb_counter s = int (rb_running s) + int (rb_rolling_back s) \<and> int (rb_running s) \<le> MaxSignGoroutines"

lemma routine_step_inv: "routine_step s s' \<Longrightarrow> routine_inv s \<Longrightarrow> routine_inv s'"
  by (induction rule: routine_step.induct) (auto simp: routine_inv_def)

lemma routine_reachable_inv: "routine_step\<^sup>*\<^sup>* routine_init s \<Longrightarrow> routine_inv s"
  by (induction rule: rtranclp_induct) (auto simp: routine_step_inv, simp add: routine_init_def routine_inv_def MaxSignGoroutines_def)

section \<open>What a signed payment satisfies\<close>

definition sign_inv :: "sign_state \<Rightarrow> bool" where
  "sign_inv s \<longleftrightarrow> sg_activeRoutines s = int (length (sg_schedules s)) \<and> sg_activeRoutines s \<le> MaxSignGoroutines
     \<and> (\<forall>sc \<in> set (sg_schedules s). sc_URL sc \<noteq> [] \<and> sc_Tag sc = Threshold \<and> sc_Entries sc \<noteq> []
          \<and> length (sc_Entries sc) \<le> MaxFeeEntries \<and> length (sc_SignedTxs sc) = length (sc_Entries sc)
          \<and> (\<forall>e \<in> set (sc_Entries sc). fe_Delay e \<le> MaxFeeScheduleTime))"

lemma check_fee_entries_Inr:
  "check_fee_entries entries = Inr () \<longleftrightarrow> entries \<noteq> [] \<and> length entries \<le> MaxFeeEntries
     \<and> (\<forall>e \<in> set entries. fe_Delay e \<le> MaxFeeScheduleTime)"
proof -
  have "find (\<lambda>(i, entry). fe_Delay entry > MaxFeeScheduleTime) (enumerate 0 entries) = None
      \<longleftrightarrow> (\<forall>e \<in> set entries. fe_Delay e \<le> MaxFeeScheduleTime)" (is "?f = None \<longleftrightarrow> ?small")
    unfolding find_None_iff split_beta in_set_enumerate_eq by (simp add: all_set_conv_all_nth) (meson not_le)
  then show ?thesis by (cases ?f) (auto simp: check_fee_entries_def res_simps)
qed

lemma start_schedule_cases:
  assumes "start_schedule n proxyURL tag d entries txs s = (r, s')"
  shows "(\<exists>e. r = Inl e) \<and> s' = s \<or>
    (\<exists>url chainID. r = Inr () \<and> proxyURL = Some url \<and> url \<noteq> [] \<and> Node_ChainID n = Inr chainID \<and> sg_activeRoutines s < MaxSignGoroutines
       \<and> s' = s\<lparr>sg_activeRoutines := sg_activeRoutines s + 1, sg_schedules := sg_schedules s @
            [\<lparr>sc_URL = url, sc_ChainID = chainID, sc_Tag = tag, sc_Data = d, sc_Entries = entries, sc_SignedTxs = txs\<rparr>]\<rparr>)"
  using assms by (auto simp: start_schedule_def stry_eq Let_def res_simps split: option.splits if_splits)

lemma loadPrivateKey_Inr:
  "loadPrivateKey G ws wid d k = Inr sk \<longleftrightarrow> (\<exists>w. Get ws \<lparr>kp_WalletID = wid, kp_KeyID = k\<rparr> = Inr w \<and> KeyType w = XRPType
     \<and> SigningAlgo w = XRPSignAlgo \<and> CheckMatchingCosigners (df_Cosigners d) (Cosigners w) (df_CosignersThreshold d) (CosignersThreshold w) = Inr ()
     \<and> ToECDSA G (PrivateKey w) = Inr sk)"
  by (auto simp: loadPrivateKey_def res_simps)

text \<open>A handler run either leaves the state alone or starts exactly one schedule.\<close>

lemma SignXRPLPayment_cases:
  assumes "SignXRPLPayment S n ws proxyURL tag d ms sg p s = (r, s')"
  obtains (error) e where "r = Inl e" "s' = s"
  | (signed) inst entries keys txs where "r = Inr ([], [])" "ParsePaymentInstruction S d = Inr inst"
      "ParseFeeEntries S (pm_FeeSchedule inst) = Inr entries" "check_fee_entries entries = Inr ()"
      "filter (\<lambda>pair. tk_TeeId pair = n_teeID n) (pm_TeeIdKeyIdPairs inst) \<noteq> []"
      "loadPrivateKeys S ws (pm_WalletId inst) (map tk_KeyId (filter (\<lambda>pair. tk_TeeId pair = n_teeID n) (pm_TeeIdKeyIdPairs inst))) d = Inr keys"
      "rmap (buildSignedTx S inst keys) [0..<length entries] = Inr txs"
      "tag = End \<and> s' = s \<or> tag = Threshold \<and> start_schedule n proxyURL tag d entries txs s = (Inr (), s')"
proof (cases r)
  case (Inl e)
  then have "s' = s"
    using assms start_schedule_cases [of n proxyURL tag d]
    by (auto simp: SignXRPLPayment_def stry_eq sbind_eq Let_def res_simps split: if_splits) blast
  then show ?thesis using error Inl by blast
next
  case (Inr v)
  then show ?thesis
    using assms signed
    by (auto simp: SignXRPLPayment_def stry_eq sbind_eq Let_def res_simps split: if_splits)
qed

lemma SignXRPLPayment_inv:
  assumes "sign_inv s" and "SignXRPLPayment S n ws proxyURL tag d ms sg p s = (r, s')"
  shows "sign_inv s'"
  using assms(2)
proof (cases rule: SignXRPLPayment_cases)
  case (signed inst entries keys txs)
  have len: "length txs = length entries" using signed(7) by (auto simp: rmap_eq_Inr dest: list_all2_lengthD)
  show ?thesis
    using signed(8) assms(1) signed(4) len start_schedule_cases [of n proxyURL tag d entries txs s "Inr ()" s']
    by (auto simp: sign_inv_def check_fee_entries_Inr)
qed (use assms(1) in simp)

lemma finish_schedule_inv: "sign_inv s \<Longrightarrow> i < length (sg_schedules s) \<Longrightarrow> sign_inv (finish_schedule i s)"
  by (auto simp: sign_inv_def finish_schedule_def dest: in_set_takeD in_set_dropD)

text \<open>Every post of a schedule comes at its entry's delay, with the transactions up to that entry.\<close>

lemma run_schedule_prefix:
  "map fst (run_schedule S n sc i entries) = take (length (run_schedule S n sc i entries)) (map fe_Delay entries)"
  by (induction S n sc i entries rule: run_schedule.induct) (auto split: sum.split)

lemma run_schedule_nth:
  "j < length (run_schedule S n sc i entries) \<Longrightarrow>
     \<exists>r. run_schedule S n sc i entries ! j = (fe_Delay (entries ! j), sc_URL sc @ ''/result'', r) \<and> schedule_response S n sc (i + j) = Inr r"
proof (induction S n sc i entries arbitrary: j rule: run_schedule.induct)
  case (2 S n sc i entry entries)
  then show ?case by (cases j) (auto split: sum.splits)
qed simp

lemma length_run_schedule_le: "length (run_schedule S n sc i entries) \<le> length entries"
  by (induction S n sc i entries rule: run_schedule.induct) (auto split: sum.split)

text \<open>It stops before its last entry only where a response cannot be built.\<close>

lemma run_schedule_stops:
  "length (run_schedule S n sc i entries) < length entries \<Longrightarrow> \<exists>e. schedule_response S n sc (i + length (run_schedule S n sc i entries)) = Inl e"
proof (induction S n sc i entries rule: run_schedule.induct)
  case (2 S n sc i entry entries)
  then show ?case by (cases "schedule_response S n sc i") auto
qed simp

text \<open>A transaction of a payment: the one of the instruction for its try, with one signature of every key.\<close>

lemma buildSignedTx_Inr:
  assumes "buildSignedTx S inst keys i = Inr blob"
  obtains tx items signers where "PaymentTxFromInstruction S inst i = Inr tx"
    "map_of tx ''TransactionType'' = Some (AnyString ''Payment'') \<longrightarrow> CheckNativePayment S tx = Inr ()"
    "list_all2 (\<lambda>k item. SignTxMultisig S tx k = Inr item) keys items" "signer_Sort S items = (signers, [])"
    "JoinMultisigJSON S tx signers = Inr blob"
proof -
  from assms obtain tx items where tx: "PaymentTxFromInstruction S inst i = Inr tx"
    "map_of tx ''TransactionType'' = Some (AnyString ''Payment'') \<longrightarrow> CheckNativePayment S tx = Inr ()"
    "rmap (SignTxMultisig S tx) keys = Inr items"
    "(let (signerItems, check) = signer_Sort S items in
      rbind (ensure (length check = 0) (Err ''invalid signer item'')) (\<lambda>_. JoinMultisigJSON S tx signerItems)) = Inr blob"
    by (auto simp: buildSignedTx_def rbind_eq_Inr split: if_splits)
  moreover obtain signers check where "signer_Sort S items = (signers, check)" by (cases "signer_Sort S items")
  ultimately show ?thesis using that by (simp add: res_simps rmap_eq_Inr)
qed

lemma list_all2_setD: "list_all2 R xs ys \<Longrightarrow> x \<in> set xs \<Longrightarrow> \<exists>y \<in> set ys. R x y"
  by (induction rule: list_all2_induct) auto

lemma length_run_schedule:
  "(\<And>j. j < length entries \<Longrightarrow> \<exists>r. schedule_response S n sc (i + j) = Inr r) \<Longrightarrow> length (run_schedule S n sc i entries) = length entries"
proof (induction S n sc i entries rule: run_schedule.induct)
  case (2 S n sc i entry entries)
  from "2.prems" [of 0] obtain r where r: "schedule_response S n sc i = Inr r" by auto
  with "2.prems" [of "Suc j" for j] "2.IH" [OF r] show ?case by simp
qed simp

end
