(* ===== verification/System.thy ===== *)
theory System
  imports Sign_Server Get_Processor Fdc Vrf_Processor Sign_Processor Wallet_Processor Policy_Processor
begin

text \<open>
  The composition: the state of a running node, the route tables of
  \<^verbatim>\<open>src/internal/router/routers.go\<close> and the start-up of \<^verbatim>\<open>src/pkg/server/server.go\<close>. An iteration of a queue
  worker, the end of a payment schedule and a configuration request are the steps of the system. Here
  the processing of an action is one function of the state; the theory of threads splits it into the sections that hold a lock.
\<close>

section \<open>State and inputs\<close>

text \<open>
  The node's memory, and last the requests that it has sent to the extension, which is no memory of the node but a record
  of what the extension has received.
\<close>

record system =
  sy_node :: Node
  sy_policies :: PolicyStorage
  sy_wallets :: Storage
  sy_sign :: sign_state
  sy_proxyURL :: string
  sy_forwarded :: extension_posts

text \<open>What the processing of one action takes from outside: cancellation, randomness, the surroundings.\<close>

record action_inputs =
  ai_ctx :: "go_error option"
  ai_ctx_at :: "nat \<Rightarrow> go_error option"
  ai_drawn :: "ecdsa_priv res"
  ai_backup_rnd :: backup_rnd
  ai_random_hash :: "hash res"
  ai_ecies_rnd :: nat
  ai_surroundings :: surroundings

section \<open>Processors on the whole state\<close>

definition on_policies :: "PolicyStorage direct_handler \<Rightarrow> system direct_handler" where
  "on_policies f i s = (let (r, ps) = f i (sy_policies s) in (r, s\<lparr>sy_policies := ps\<rparr>))"

definition on_node :: "Node direct_handler \<Rightarrow> system direct_handler" where
  "on_node f i s = (let (r, n) = f i (sy_node s) in (r, s\<lparr>sy_node := n\<rparr>))"

definition wallet_processor :: "'a system_env_scheme \<Rightarrow> (system \<Rightarrow> Storage handler) \<Rightarrow> system processor" where
  "wallet_processor S f a s =
     (let (r, ws) = Process S (f s) (sy_node s) (sy_policies s) True a (sy_wallets s) in (r, s\<lparr>sy_wallets := ws\<rparr>))"

definition reading_processor :: "'a system_env_scheme \<Rightarrow> (system \<Rightarrow> system handler) \<Rightarrow> system processor" where
  "reading_processor S f a s = Process S (f s) (sy_node s) (sy_policies s) True a s"

definition payment_processor :: "'a system_env_scheme \<Rightarrow> system processor" where
  "payment_processor S a s =
     (let (r, ss) = Process S (SignXRPLPayment S (sy_node s) (sy_wallets s) (Some (sy_proxyURL s))) (sy_node s) (sy_policies s) False a (sy_sign s)
      in (r, s\<lparr>sy_sign := ss\<rparr>))"

definition on_forwarded :: "(extension_posts \<Rightarrow> 'r \<times> extension_posts) \<Rightarrow> system \<Rightarrow> 'r \<times> system" where
  "on_forwarded f s = (let (r, sent) = f (sy_forwarded s) in (r, s\<lparr>sy_forwarded := sent\<rparr>))"

lemma on_forwarded_simps [simp]:
  "fst (on_forwarded f s) = fst (f (sy_forwarded s))" "snd (on_forwarded f s) = s\<lparr>sy_forwarded := snd (f (sy_forwarded s))\<rparr>"
  by (simp_all add: on_forwarded_def split_beta)

section \<open>The route tables\<close>

definition direct_routes ::
  "'a system_env_scheme \<Rightarrow> bigmod \<Rightarrow> action_inputs \<Rightarrow> (op_type \<times> op_command \<times> system processor) list" where
  "direct_routes S B I =
    [(OP_Get, OP_KeyInfo, direct_Process S (\<lambda>i s. (KeysInfo S (sy_wallets s), s))),
     (OP_Get, OP_KeyProof, direct_Process S (\<lambda>i s. (KeysProof S (sy_node s) (ai_ctx_at I) (sy_wallets s) i, s))),
     (OP_Get, OP_TEEInfo, direct_Process S (\<lambda>i s. (get_TEEInfo S (ai_surroundings I) (sy_node s) (sy_policies s) i, s))),
     (OP_Get, OP_TEEBackup, direct_Process S (\<lambda>i s. (TEEBackup S B (ai_backup_rnd I) (sy_node s) (sy_policies s) (sy_wallets s) i, s))),
     (OP_Policy, OP_InitializePolicy, direct_Process S (\<lambda>i s. on_policies (InitializePolicy S (sy_node s) (ai_ctx I)) i s)),
     (OP_Policy, OP_UpdatePolicy, direct_Process S (\<lambda>i s. on_policies (UpdatePolicy S (sy_node s) (ai_ctx I)) i s)),
     (OP_Governance, OP_SetMachinePathList, direct_Process S (on_node (direct_SetMachinePathList S (ai_ctx I))))]"

definition wallet_routes ::
  "'a system_env_scheme \<Rightarrow> bigmod \<Rightarrow> action_inputs \<Rightarrow> (op_type \<times> op_command \<times> system processor) list" where
  "wallet_routes S B I =
    [(OP_Wallet, OP_KeyGenerate, wallet_processor S (\<lambda>s. KeyGenerate S (sy_node s) (ai_ctx I) (ai_drawn I))),
     (OP_Wallet, OP_KeyDelete, wallet_processor S (\<lambda>s. KeyDelete S (sy_node s) (ai_ctx I))),
     (OP_Wallet, OP_KeyDataProviderRestore, wallet_processor S (\<lambda>s. KeyDataProviderRestore S B (sy_node s) (ai_ctx I))),
     (OP_Wallet, OP_KeyDirectBackup, wallet_processor S (\<lambda>s. KeyDirectBackup S (sy_node s) (ai_ctx I) (ai_random_hash I) (ai_ecies_rnd I))),
     (OP_Wallet, OP_KeyDirectRestore, wallet_processor S (\<lambda>s. KeyDirectRestore S (sy_node s) (ai_ctx I))),
     (OP_Reg, OP_TEEAttestation, reading_processor S (\<lambda>s. TEEAttestation S (ai_surroundings I) (sy_node s) (sy_policies s)))]"

definition pmw_routes :: "'a system_env_scheme \<Rightarrow> (op_type \<times> op_command \<times> system processor) list" where
  "pmw_routes S =
    [(OP_FDC2, OP_Prove, reading_processor S (\<lambda>s. Prove S (sy_node s))),
     (OP_XRP, OP_Pay, payment_processor S),
     (OP_XRP, OP_Reissue, payment_processor S),
     (OP_Wallet, OP_VRF, reading_processor S (\<lambda>s. ProveRandomness S (sy_wallets s)))]"

fun register_all :: "'a flare_scheme \<Rightarrow> (op_type \<times> op_command \<times> 's processor) list \<Rightarrow> 's Router \<Rightarrow> 's Router res" where
  "register_all F [] r = Inr r"
| "register_all F ((t, c, p) # rs) r = rbind (RegisterProcessor F t c p r) (register_all F rs)"

definition NewPMWRouter :: "'a system_env_scheme \<Rightarrow> bigmod \<Rightarrow> action_inputs \<Rightarrow> system Router res" where
  "NewPMWRouter S B I = register_all S (direct_routes S B I @ wallet_routes S B I @ pmw_routes S) New"

definition NewForwardRouter ::
  "'a system_env_scheme \<Rightarrow> bigmod \<Rightarrow> extension_env \<Rightarrow> int \<Rightarrow> action_inputs \<Rightarrow> system Router res" where
  "NewForwardRouter S B X extensionPort I =
     rbind (register_all S (direct_routes S B I @ wallet_routes S B I) New) (\<lambda>r.
     rbind (RegisterDefaultInstruction (\<lambda>a s. on_forwarded (instruction_Default_Process S X extensionPort (sy_node s) (sy_policies s) a) s) r) (\<lambda>r.
     RegisterDefaultDirect (\<lambda>a s. on_forwarded (direct_Default_Process S X extensionPort a) s) r))"

section \<open>Start-up\<close>

definition initialize_system ::
  "'a system_env_scheme \<Rightarrow> net_env \<Rightarrow> ports \<Rightarrow> (string \<Rightarrow> string option) \<Rightarrow> ecdsa_priv res \<Rightarrow> State \<Rightarrow> system res" where
  "initialize_system S N p env drawn state =
     rbind (rwrap ''failed to initialize'' (Initialize S env drawn state)) (\<lambda>teeNode.
     Inr \<lparr>sy_node = teeNode, sy_policies = policy_InitializeStorage, sy_wallets = InitializeStorage,
       sy_sign = \<lparr>sg_activeRoutines = 0, sg_schedules = []\<rparr>, sy_proxyURL = setProxyURLFromEnv N p env [], sy_forwarded = []\<rparr>)"

section \<open>Registration\<close>

lemma RegisterProcessor_Inr:
  "RegisterProcessor F t c p r = Inr r' \<Longrightarrow>
     map_of (rt_routs r') = (map_of (rt_routs r))(\<lparr>id_OPType = OPType_Hash F t, id_OPCommand = OPCommand_Hash F c\<rparr> \<mapsto> p)
     \<and> map_of (rt_routs r) \<lparr>id_OPType = OPType_Hash F t, id_OPCommand = OPCommand_Hash F c\<rparr> = None
     \<and> rt_defaultDirect r' = rt_defaultDirect r \<and> rt_defaultInstruction r' = rt_defaultInstruction r"
  by (auto simp: RegisterProcessor_def Let_def update_conv' fun_eq_iff split: if_splits)

lemma register_all_Inr:
  assumes "register_all F rs r = Inr r'"
  shows "map_of (rt_routs r) i = Some q \<Longrightarrow> map_of (rt_routs r') i = Some q"
    and "(t, c, p) \<in> set rs \<Longrightarrow> map_of (rt_routs r') \<lparr>id_OPType = OPType_Hash F t, id_OPCommand = OPCommand_Hash F c\<rparr> = Some p"
    and "map_of (rt_routs r') i = Some q \<Longrightarrow> map_of (rt_routs r) i = Some q \<or> (\<exists>t c. (t, c, q) \<in> set rs
           \<and> i = \<lparr>id_OPType = OPType_Hash F t, id_OPCommand = OPCommand_Hash F c\<rparr>)"
    and "rt_defaultDirect r' = rt_defaultDirect r" and "rt_defaultInstruction r' = rt_defaultInstruction r"
proof -
  have "(map_of (rt_routs r) i = Some q \<longrightarrow> map_of (rt_routs r') i = Some q)
    \<and> ((t, c, p) \<in> set rs \<longrightarrow> map_of (rt_routs r') \<lparr>id_OPType = OPType_Hash F t, id_OPCommand = OPCommand_Hash F c\<rparr> = Some p)
    \<and> (map_of (rt_routs r') i = Some q \<longrightarrow> map_of (rt_routs r) i = Some q \<or> (\<exists>t c. (t, c, q) \<in> set rs
           \<and> i = \<lparr>id_OPType = OPType_Hash F t, id_OPCommand = OPCommand_Hash F c\<rparr>))
    \<and> rt_defaultDirect r' = rt_defaultDirect r \<and> rt_defaultInstruction r' = rt_defaultInstruction r" for i q t c p
    using assms
  proof (induction F rs r arbitrary: i q t c p rule: register_all.induct)
    case (2 F t' c' p' rs r)
    then obtain r1 where r1: "RegisterProcessor F t' c' p' r = Inr r1" "register_all F rs r1 = Inr r'" by (auto simp: res_simps)
    note IH = "2.IH" [OF r1(2)] and m = RegisterProcessor_Inr [OF r1(1)]
    have first: "map_of (rt_routs r') \<lparr>id_OPType = OPType_Hash F t', id_OPCommand = OPCommand_Hash F c'\<rparr> = Some p'"
      using IH [of "\<lparr>id_OPType = OPType_Hash F t', id_OPCommand = OPCommand_Hash F c'\<rparr>" p'] m by simp
    show ?case using IH [of i q t c p] m first by (auto split: if_splits)
  qed auto
  then show "map_of (rt_routs r) i = Some q \<Longrightarrow> map_of (rt_routs r') i = Some q"
    and "(t, c, p) \<in> set rs \<Longrightarrow> map_of (rt_routs r') \<lparr>id_OPType = OPType_Hash F t, id_OPCommand = OPCommand_Hash F c\<rparr> = Some p"
    and "map_of (rt_routs r') i = Some q \<Longrightarrow> map_of (rt_routs r) i = Some q \<or> (\<exists>t c. (t, c, q) \<in> set rs
           \<and> i = \<lparr>id_OPType = OPType_Hash F t, id_OPCommand = OPCommand_Hash F c\<rparr>)"
    and "rt_defaultDirect r' = rt_defaultDirect r" and "rt_defaultInstruction r' = rt_defaultInstruction r"
    by blast+
qed

text \<open>Registration panics only on a clash of identifiers.\<close>

definition op_id :: "'a flare_scheme \<Rightarrow> op_type \<times> op_command \<times> 's processor \<Rightarrow> OpID" where
  "op_id F e = (case e of (t, c, p) \<Rightarrow> \<lparr>id_OPType = OPType_Hash F t, id_OPCommand = OPCommand_Hash F c\<rparr>)"

lemma register_all_succeeds:
  "distinct (map (op_id F) rs) \<Longrightarrow> \<forall>e \<in> set rs. map_of (rt_routs r) (op_id F e) = None \<Longrightarrow> \<exists>r'. register_all F rs r = Inr r'"
proof (induction F rs r rule: register_all.induct)
  case (2 F t c p rs r)
  from "2.prems"(2) obtain r1 where r1: "RegisterProcessor F t c p r = Inr r1"
    by (auto simp: RegisterProcessor_def Let_def op_id_def)
  have "map_of (rt_routs r1) (op_id F e) = None" if "e \<in> set rs" for e
    using RegisterProcessor_Inr [OF r1] "2.prems" that by (force simp: op_id_def)
  with "2.IH" [of r1] "2.prems"(1) r1 show ?case by auto
qed simp

text \<open>The operations that the node names, with different identifiers in the library.\<close>

definition ops_distinct :: "'a flare_scheme \<Rightarrow> bool" where
  "ops_distinct F \<longleftrightarrow> distinct (map (OPType_Hash F) [OP_Get, OP_Policy, OP_Governance, OP_Wallet, OP_Reg, OP_FDC2, OP_XRP])
     \<and> distinct (map (OPCommand_Hash F) [OP_KeyInfo, OP_KeyProof, OP_TEEInfo, OP_TEEBackup, OP_InitializePolicy, OP_UpdatePolicy,
         OP_SetMachinePathList, OP_KeyGenerate, OP_KeyDelete, OP_KeyDataProviderRestore, OP_KeyDirectBackup, OP_KeyDirectRestore,
         OP_TEEAttestation, OP_Prove, OP_Pay, OP_Reissue, OP_VRF])"

lemma routes_distinct:
  assumes "ops_distinct S"
  shows "distinct (map (op_id S) (direct_routes S B I @ wallet_routes S B I @ pmw_routes S))"
proof -
  have "map (id_OPCommand \<circ> op_id S) (direct_routes S B I @ wallet_routes S B I @ pmw_routes S)
      = map (OPCommand_Hash S) [OP_KeyInfo, OP_KeyProof, OP_TEEInfo, OP_TEEBackup, OP_InitializePolicy, OP_UpdatePolicy,
         OP_SetMachinePathList, OP_KeyGenerate, OP_KeyDelete, OP_KeyDataProviderRestore, OP_KeyDirectBackup, OP_KeyDirectRestore,
         OP_TEEAttestation, OP_Prove, OP_Pay, OP_Reissue, OP_VRF]"
    by (simp add: direct_routes_def wallet_routes_def pmw_routes_def op_id_def)
  then have "distinct (map id_OPCommand (map (op_id S) (direct_routes S B I @ wallet_routes S B I @ pmw_routes S)))"
    using assms unfolding ops_distinct_def map_map by simp
  then show ?thesis unfolding distinct_map by blast
qed

end
