(* ===== verification/System_Steps.thy ===== *)
theory System_Steps
  imports System
begin

text \<open>
  What an action can do to the state of the system, whichever router processes it, and the invariant of
  all runs. The effects are the rules of \<open>action_effect\<close>: wallets and payments change only for an
  instruction that passed \<open>preprocess\<close>; policies and machine paths only through their direct
  instructions; and a request goes to the extension only for an action that passed the checks of a default processor.
\<close>

section \<open>The effect of an action\<close>

definition preprocessed :: "'a system_env_scheme \<Rightarrow> Action \<Rightarrow> system \<Rightarrow> bool" where
  "preprocessed S a s \<longleftrightarrow> (\<exists>d chainID signers p. Parse_DataFixed S (ad_Message (ac_Data a)) = Inr d
     \<and> Node_ChainID (sy_node s) = Inr chainID
     \<and> preprocess S a d (sy_policies s) (n_teeID (sy_node s)) chainID = Inr (signers, p))"

text \<open>The checks after which a default processor sends an action to the extension.\<close>

definition forwardable :: "'a system_env_scheme \<Rightarrow> Action \<Rightarrow> system \<Rightarrow> bool" where
  "forwardable S a s \<longleftrightarrow>
     (\<exists>di. CheckDirectTag (ad_SubmissionTag (ac_Data a)) = Inr () \<and> Parse_DirectInstruction S (ad_Message (ac_Data a)) = Inr di
        \<and> CheckForwardable (di_OPType di) = Inr ())
     \<or> preprocessed S a s \<and> ad_SubmissionTag (ac_Data a) = Threshold
        \<and> (\<exists>d. Parse_DataFixed S (ad_Message (ac_Data a)) = Inr d \<and> CheckForwardable (df_OPType d) = Inr ())"

text \<open>The request for an action, if it can be encoded.\<close>

definition request_for :: "extension_env \<Rightarrow> int \<Rightarrow> Action \<Rightarrow> extension_posts" where
  "request_for X port a = (case ex_json_Action X a of Inl _ \<Rightarrow> [] | Inr body \<Rightarrow> [(extension_url port, body)])"

inductive action_effect :: "'a system_env_scheme \<Rightarrow> bigmod \<Rightarrow> Action \<Rightarrow> system \<Rightarrow> system \<Rightarrow> bool" for S B a s where
  unchanged: "action_effect S B a s s"
| wallets: "preprocessed S a s \<Longrightarrow> wallet_step S B (sy_wallets s) ws \<Longrightarrow> action_effect S B a s (s\<lparr>sy_wallets := ws\<rparr>)"
| payments: "preprocessed S a s \<Longrightarrow>
     SignXRPLPayment S (sy_node s) (sy_wallets s) (Some (sy_proxyURL s)) tag d ms sg p (sy_sign s) = (r, ss) \<Longrightarrow>
     action_effect S B a s (s\<lparr>sy_sign := ss\<rparr>)"
| policies: "CheckDirectTag (ad_SubmissionTag (ac_Data a)) = Inr () \<Longrightarrow> policy_step S (sy_policies s) ps \<Longrightarrow>
     action_effect S B a s (s\<lparr>sy_policies := ps\<rparr>)"
| paths: "CheckDirectTag (ad_SubmissionTag (ac_Data a)) = Inr () \<Longrightarrow> direct_SetMachinePathList S ctx i (sy_node s) = (r, n) \<Longrightarrow>
     action_effect S B a s (s\<lparr>sy_node := n\<rparr>)"
| forwards: "forwardable S a s \<Longrightarrow> action_effect S B a s (s\<lparr>sy_forwarded := sy_forwarded s @ request_for X port a\<rparr>)"

lemma sy_update_same [simp]:
  "s\<lparr>sy_wallets := sy_wallets s\<rparr> = s" "s\<lparr>sy_sign := sy_sign s\<rparr> = s" "s\<lparr>sy_policies := sy_policies s\<rparr> = s" "s\<lparr>sy_node := sy_node s\<rparr> = s"
  "s\<lparr>sy_forwarded := sy_forwarded s\<rparr> = s"
  by simp_all

text \<open>The state after \<open>Process\<close>: unchanged, or what the handler leaves on a preprocessed action.\<close>

lemma Process_snd:
  "snd (Process P f n ps imm a s) = s \<or> (\<exists>d chainID signers p. Parse_DataFixed P (ad_Message (ac_Data a)) = Inr d \<and> Node_ChainID n = Inr chainID
     \<and> preprocess P a d ps (n_teeID n) chainID = Inr (signers, p)
     \<and> snd (Process P f n ps imm a s) = snd (f (ad_SubmissionTag (ac_Data a)) d (ac_AdditionalVariableMessages a) signers p s))"
proof (cases rule: Process_cases [of P f n ps imm a s])
  case (run d chainID signers p)
  have "snd (Process P f n ps imm a s) = snd (f (ad_SubmissionTag (ac_Data a)) d (ac_AdditionalVariableMessages a) signers p s)"
    unfolding run(4) by (simp split: prod.split sum.split)
  with run(1-3) show ?thesis by blast
qed simp

lemma wallet_processor_effect:
  assumes "\<And>tag d ms sg p. wallet_step S B (sy_wallets s) (snd (f s tag d ms sg p (sy_wallets s)))"
  shows "action_effect S B a s (snd (wallet_processor S f a s))"
proof -
  let ?run = "Process S (f s) (sy_node s) (sy_policies s) True a (sy_wallets s)"
  have eq: "snd (wallet_processor S f a s) = s\<lparr>sy_wallets := snd ?run\<rparr>" by (simp add: wallet_processor_def split: prod.split)
  from Process_snd [of S "f s" "sy_node s" "sy_policies s" True a "sy_wallets s"]
  consider "snd ?run = sy_wallets s" | "preprocessed S a s" "wallet_step S B (sy_wallets s) (snd ?run)"
    using assms unfolding preprocessed_def by metis
  then show ?thesis by cases (auto simp: eq intro: action_effect.intros)
qed

lemma reading_processor_state:
  assumes "\<And>tag d ms sg p. snd (f s tag d ms sg p s) = s"
  shows "snd (reading_processor S f a s) = s"
  using Process_snd [of S "f s" "sy_node s" "sy_policies s" True a s] assms by (auto simp: reading_processor_def)

lemma payment_processor_effect: "action_effect S B a s (snd (payment_processor S a s))"
proof -
  let ?run = "Process S (SignXRPLPayment S (sy_node s) (sy_wallets s) (Some (sy_proxyURL s))) (sy_node s) (sy_policies s) False a (sy_sign s)"
  have eq: "snd (payment_processor S a s) = s\<lparr>sy_sign := snd ?run\<rparr>" by (simp add: payment_processor_def split: prod.split)
  from Process_snd [of S "SignXRPLPayment S (sy_node s) (sy_wallets s) (Some (sy_proxyURL s))" "sy_node s" "sy_policies s" False a "sy_sign s"]
  consider "snd ?run = sy_sign s"
    | tag d ms sg p where "preprocessed S a s"
        "snd ?run = snd (SignXRPLPayment S (sy_node s) (sy_wallets s) (Some (sy_proxyURL s)) tag d ms sg p (sy_sign s))"
    unfolding preprocessed_def by metis
  then show ?thesis by cases (auto simp: eq intro: action_effect.intros surjective_pairing)
qed

lemma TEEAttestation_state [simp]: "snd (TEEAttestation S U n ps tag d ms sg p s) = s"
  by (simp add: TEEAttestation_def snd_stry split: sum.split)

lemma on_policies_effect:
  assumes "CheckDirectTag (ad_SubmissionTag (ac_Data a)) = Inr ()" and "\<And>i. policy_step S (sy_policies s) (snd (f i (sy_policies s)))"
  shows "action_effect S B a s (snd (on_policies f i s))"
  using assms by (auto simp: on_policies_def split_def Let_def intro: action_effect.policies)

lemma on_node_effect:
  assumes "CheckDirectTag (ad_SubmissionTag (ac_Data a)) = Inr ()"
  shows "action_effect S B a s (snd (on_node (direct_SetMachinePathList S ctx) i s))"
  using assms by (auto simp: on_node_def split_def Let_def intro: action_effect.paths [OF _ surjective_pairing])

lemma direct_Process_effect:
  assumes "\<And>i. CheckDirectTag (ad_SubmissionTag (ac_Data a)) = Inr () \<Longrightarrow> action_effect S B a s (snd (f i s))"
  shows "action_effect S B a s (snd (direct_Process S f a s))"
  by (cases rule: direct_Process_cases [of S f a s]) (auto intro: assms unchanged)

lemma routes_effect:
  assumes "(t, c, p) \<in> set (direct_routes S B I @ wallet_routes S B I @ pmw_routes S)"
  shows "action_effect S B a s (snd (p a s))"
proof -
  have pol: "policy_step S (sy_policies s) (snd (InitializePolicy S n ctx i (sy_policies s)))"
    "policy_step S (sy_policies s) (snd (UpdatePolicy S n ctx i (sy_policies s)))" for n ctx i
    by (rule policy_step.intros)+
  consider "(t, c, p) \<in> set (direct_routes S B I)" | "(t, c, p) \<in> set (wallet_routes S B I)" | "(t, c, p) \<in> set (pmw_routes S)"
    using assms by auto
  then show ?thesis
  proof cases
    case 1
    then show ?thesis
      by (auto simp: direct_routes_def intro!: direct_Process_effect on_policies_effect on_node_effect pol unchanged)
  next
    case 2
    then show ?thesis
      by (auto simp: wallet_routes_def reading_processor_state intro!: wallet_processor_effect wallet_step.intros unchanged)
  next
    case 3
    then show ?thesis
      by (auto simp: pmw_routes_def reading_processor_state intro!: payment_processor_effect unchanged)
  qed
qed

section \<open>Both routers\<close>

text \<open>The routers the two start-up modes build.\<close>

inductive router :: "'a system_env_scheme \<Rightarrow> bigmod \<Rightarrow> system Router \<Rightarrow> bool" for S B where
  pmw: "NewPMWRouter S B I = Inr r \<Longrightarrow> router S B r"
| forwarding: "NewForwardRouter S B X port I = Inr r \<Longrightarrow> router S B r"

lemma router_routs:
  assumes "router S B r" and "map_of (rt_routs r) i = Some p"
  shows "\<exists>t c I. (t, c, p) \<in> set (direct_routes S B I @ wallet_routes S B I @ pmw_routes S)"
  using assms(1)
proof cases
  case (pmw I)
  then show ?thesis using register_all_Inr(3) [of S _ New r i p] assms(2) by (fastforce simp: NewPMWRouter_def New_def)
next
  case (forwarding X port I)
  then obtain r0 where "register_all S (direct_routes S B I @ wallet_routes S B I) New = Inr r0" "rt_routs r = rt_routs r0"
    by (auto simp: NewForwardRouter_def res_simps RegisterDefaultInstruction_def RegisterDefaultDirect_def split: if_splits)
  then show ?thesis using register_all_Inr(3) [of S _ New r0 i p] assms(2) by (fastforce simp: New_def)
qed

lemma default_processors_effect:
  "action_effect S B a s (snd (on_forwarded (direct_Default_Process S X port a) s))"
  "action_effect S B a s (snd (on_forwarded (instruction_Default_Process S X port (sy_node s) (sy_policies s) a) s))"
proof -
  have post: "action_effect S B a s (s\<lparr>sy_forwarded := snd (forward S X port a (sy_forwarded s))\<rparr>)" if "forwardable S a s"
    using action_effect.forwards [OF that, of B X port] by (simp add: forward_posts request_for_def)
  show "action_effect S B a s (snd (on_forwarded (direct_Default_Process S X port a) s))"
    by (cases rule: direct_Default_Process_cases [of S X port a "sy_forwarded s"]) (auto simp: forwardable_def intro: unchanged post)
  show "action_effect S B a s (snd (on_forwarded (instruction_Default_Process S X port (sy_node s) (sy_policies s) a) s))"
    by (cases rule: instruction_Default_Process_cases [of S X port "sy_node s" "sy_policies s" a "sy_forwarded s"])
      (auto simp: forwardable_def preprocessed_def intro: unchanged post)
qed

lemma router_default_effect:
  assumes "router S B r" and "rt_defaultDirect r = Some p \<or> rt_defaultInstruction r = Some p"
  shows "action_effect S B a s (snd (p a s))"
  using assms(1)
proof cases
  case (pmw I)
  then show ?thesis using register_all_Inr(4,5) [of S _ New r] assms(2) by (fastforce simp: NewPMWRouter_def New_def)
next
  case (forwarding X port I)
  then have "p = (\<lambda>a. on_forwarded (direct_Default_Process S X port a))
      \<or> p = (\<lambda>a s. on_forwarded (instruction_Default_Process S X port (sy_node s) (sy_policies s) a) s)"
    using assms(2) by (auto simp: NewForwardRouter_def res_simps RegisterDefaultInstruction_def RegisterDefaultDirect_def split: if_splits)
  then show ?thesis using default_processors_effect by metis
qed

lemma process_effect:
  assumes "router S B r"
  shows "snd (process S r a s) = s \<or> (\<exists>a'. CheckAndAdapt a = (Inr (), a') \<and> action_effect S B a' s (snd (process S r a s)))"
proof (cases rule: process_cases [of S r a s])
  case (routed a' i p)
  then show ?thesis using router_routs [OF assms routed(3)] routes_effect by (metis (no_types))
next
  case (default_direct a' i p)
  then show ?thesis using router_default_effect [OF assms] by simp
next
  case (default_instruction a' i p)
  then show ?thesis using router_default_effect [OF assms] by simp
qed simp

section \<open>The invariant\<close>

definition system_inv :: "'a system_env_scheme \<Rightarrow> net_env \<Rightarrow> ports \<Rightarrow> system \<Rightarrow> bool" where
  "system_inv S N pt s \<longleftrightarrow> node_inv S (sy_node s) \<and> policy_inv (sy_policies s) \<and> storage_inv (sy_wallets s) \<and> sign_inv (sy_sign s)
     \<and> (sy_proxyURL s \<noteq> [] \<longrightarrow> foreign_url N pt (sy_proxyURL s))"

lemma action_effect_inv:
  assumes "action_effect S B a s s'" and "system_inv S N pt s"
  shows "system_inv S N pt s'"
  using assms(1)
proof cases
  case (wallets ws)
  then show ?thesis using assms(2) wallet_step_ratchet(1) by (auto simp: system_inv_def)
next
  case (payments tag d ms sg p r ss)
  then show ?thesis using assms(2) SignXRPLPayment_inv [OF _ payments(3)] by (simp add: system_inv_def)
next
  case (policies ps)
  then show ?thesis using assms(2) policy_step_inv by (auto simp: system_inv_def)
next
  case (paths ctx i r n)
  then show ?thesis using assms(2) direct_SetMachinePathList_effect [OF paths(3)] by (auto simp: system_inv_def node_inv_def)
qed (use assms(2) in \<open>simp_all add: system_inv_def\<close>)

inductive system_step :: "'a system_env_scheme \<Rightarrow> bigmod \<Rightarrow> net_env \<Rightarrow> ports \<Rightarrow> system \<Rightarrow> system \<Rightarrow> bool" for S B N pt where
  serve: "router S B r \<Longrightarrow> (\<And>a. fetchActionWithRetry X (sy_proxyURL s @ ''/queue/'' @ q) = Inr a \<Longrightarrow> possible_attempt S r a s attempt) \<Longrightarrow>
     system_step S B N pt s (snd (snd (serveQueueIteration S X sy_node (sy_proxyURL s) url q r attempt pn s)))"
| schedule_ends: "i < length (sg_schedules (sy_sign s)) \<Longrightarrow> system_step S B N pt s (s\<lparr>sy_sign := finish_schedule i (sy_sign s)\<rparr>)"
| set_proxy: "system_step S B N pt s (s\<lparr>sy_proxyURL := snd (proxyHandler N pt body (sy_proxyURL s))\<rparr>)"
| set_extension: "system_step S B N pt s (s\<lparr>sy_node := snd (extensionIDHandler N body (sy_node s))\<rparr>)"
| set_governance: "system_step S B N pt s (s\<lparr>sy_node := snd (governanceHandler S N body (sy_node s))\<rparr>)"
| set_owner: "system_step S B N pt s (s\<lparr>sy_node := snd (initialOwnerHandler N body (sy_node s))\<rparr>)"
| set_chain: "system_step S B N pt s (s\<lparr>sy_node := snd (chainIDHandler N body (sy_node s))\<rparr>)"

lemma serve_effect:
  assumes "router S B r" and "\<And>a. fetchActionWithRetry X (url @ ''/queue/'' @ q) = Inr a \<Longrightarrow> possible_attempt S r a s attempt"
  shows "snd (snd (serveQueueIteration S X n url url' q r attempt pn s)) = s
    \<or> (\<exists>a a'. CheckAndAdapt a = (Inr (), a') \<and> action_effect S B a' s (snd (snd (serveQueueIteration S X n url url' q r attempt pn s))))"
  using serveQueueIteration_state [of S X n url url' q r attempt pn s]
proof
  assume "\<exists>a. fetchActionWithRetry X (url @ ''/queue/'' @ q) = Inr a
    \<and> snd (snd (serveQueueIteration S X n url url' q r attempt pn s)) = snd (processWithTimeout S r attempt a s)"
  then obtain a where a: "snd (snd (serveQueueIteration S X n url url' q r attempt pn s)) \<in> {s, snd (process S r a s)}"
    using processWithTimeout_state [OF assms(2)] by metis
  then show ?thesis
  proof
    assume "snd (snd (serveQueueIteration S X n url url' q r attempt pn s)) \<in> {snd (process S r a s)}"
    then have eq: "snd (snd (serveQueueIteration S X n url url' q r attempt pn s)) = snd (process S r a s)" by simp
    show ?thesis unfolding eq using process_effect [OF assms(1), of a s] by blast
  qed simp
qed simp

lemma config_handlers_inv:
  assumes "node_inv F n"
  shows "node_inv F (snd (extensionIDHandler N body n))" "node_inv F (snd (governanceHandler F N body n))"
    "node_inv F (snd (initialOwnerHandler N body n))" "node_inv F (snd (chainIDHandler N body n))"
  using assms node_step_inv config_handlers_step(1) [where N = N and body = body and n = n and F = F]
    config_handlers_step(2) [where N = N and body = body and n = n and F = F]
    config_handlers_step(3) [where N = N and body = body and n = n and F = F]
    config_handlers_step(4) [where N = N and body = body and n = n and F = F] by metis+

lemma system_step_inv:
  assumes "system_step S B N pt s s'" and "system_inv S N pt s"
  shows "system_inv S N pt s'"
  using assms(1)
proof cases
  case (serve r X q attempt url pn)
  have "s' = s \<or> (\<exists>a a'. CheckAndAdapt a = (Inr (), a') \<and> action_effect S B a' s s')"
    unfolding serve(1) by (rule serve_effect [OF serve(2,3)])
  then show ?thesis using action_effect_inv assms(2) by blast
next
  case (schedule_ends i)
  then show ?thesis using assms(2) finish_schedule_inv by (auto simp: system_inv_def)
next
  case (set_proxy body)
  then show ?thesis using assms(2) proxyHandler_foreign by (auto simp: system_inv_def)
qed (use assms(2) in \<open>simp_all add: system_inv_def config_handlers_inv\<close>)

lemma initialize_system_inv:
  assumes "initialize_system S N pt env drawn state = Inr s"
  shows "system_inv S N pt s"
proof -
  obtain n where n: "Initialize S env drawn state = Inr n" "s = \<lparr>sy_node = n, sy_policies = policy_InitializeStorage, sy_wallets = InitializeStorage,
       sy_sign = \<lparr>sg_activeRoutines = 0, sg_schedules = []\<rparr>, sy_proxyURL = setProxyURLFromEnv N pt env [], sy_forwarded = []\<rparr>"
    using assms by (auto simp: initialize_system_def res_simps)
  have "storage_inv InitializeStorage" by (simp add: storage_inv_def InitializeStorage_def)
  moreover have "sign_inv \<lparr>sg_activeRoutines = 0, sg_schedules = []\<rparr>" by (simp add: sign_inv_def MaxSignGoroutines_def)
  ultimately show ?thesis
    using Initialize_inv [OF n(1)] policy_InitializeStorage_inv setProxyURLFromEnv_foreign [of "[]"] by (simp add: n(2) system_inv_def)
qed

lemma system_steps_inv: "(system_step S B N pt)\<^sup>*\<^sup>* s s' \<Longrightarrow> system_inv S N pt s \<Longrightarrow> system_inv S N pt s'"
  by (induction rule: rtranclp_induct) (auto dest: system_step_inv)

end
