(* ===== verification/Props_System.thy ===== *)
theory Props_System
  imports System_Steps Props_Instructions
begin

text \<open>
  Properties of the composed system: the invariant of all runs, what it takes to change the wallets through a
  router, how operations reach their processors, what is sent to an extension and what never is, and whose results can be told apart. The witnesses run a key
  deletion through the router of the wallet service.
\<close>

section \<open>The example system\<close>

fun toy_command :: "op_command \<Rightarrow> hash" where
  "toy_command OP_InitializePolicy = 3" | "toy_command OP_UpdatePolicy = 4" | "toy_command OP_SetMachinePathList = 5"
| "toy_command OP_KeyInfo = 6" | "toy_command OP_KeyProof = 7" | "toy_command OP_TEEInfo = 8" | "toy_command OP_TEEBackup = 9"
| "toy_command OP_KeyGenerate = 10" | "toy_command OP_KeyDelete = 2" | "toy_command OP_KeyDataProviderRestore = 11"
| "toy_command OP_KeyDataProviderRestoreTest = 12" | "toy_command OP_KeyDirectBackup = 13" | "toy_command OP_KeyDirectRestore = 14"
| "toy_command OP_VRF = 15" | "toy_command OP_TEEAttestation = 16" | "toy_command OP_Prove = 1" | "toy_command OP_Pay = 17"
| "toy_command OP_Reissue = 18" | "toy_command (OP_OtherCommand s) = 19"

definition toyS :: system_env where
  "toyS = processor_env.extend (toyI\<lparr>OPCommand_Hash := toy_command, unjson_OpID := \<lambda>b. Inr \<lparr>id_OPType = 1, id_OPCommand = 2\<rparr>,
       unjson_DirectInstruction := \<lambda>b. Inr \<lparr>di_OPType = 3, di_OPCommand = 6, di_Message = []\<rparr>\<rparr>)
     \<lparr>abi_encode_Attestation = \<lambda>x. Inr [], abi_pack_TeeMachineData = \<lambda>x. Inr [], abi_encode_TeeAttestation = \<lambda>x. Inr [],
      abi_TeeAttestation = \<lambda>b. Inl toy_err, unjson_TeeInfoRequest = \<lambda>b. Inl toy_err, json_TeeInfoResponse = \<lambda>x. Inr [],
      json_TokenRequest = \<lambda>a b c. Inr [], ParsePKITokenUnverifiedClaims = \<lambda>b. Inl toy_err, StringToCommonHash = \<lambda>s. Inr (ToHash s),
      Hex32StringToCommonHash = \<lambda>s. Inl toy_err, unjson_KeyIDPair = \<lambda>b. Inr ex_key, unjson_KeyIDPairs = \<lambda>b. Inr [ex_key],
      json_KeyInfos = \<lambda>x. Inr [], json_SignedProofs = \<lambda>ps. Inr (concat (map sk_Signature ps)), json_WalletBackup = \<lambda>x. Inr [],
      json_TEEBackupResponse = \<lambda>x. Inr [], abi_encode_Fdc2Request = \<lambda>x. Inr [], abi_encode_ResponseHeader = \<lambda>x. Inr [],
      abi_ResponseHeader = \<lambda>b. Inl toy_err, abi_pack_bytes32s = \<lambda>x. Inr [], RawBytes = \<lambda>p. [], EncodeSignatures = \<lambda>x. Inr [],
      relayFunctionSelector = [], json_ProveResponse = \<lambda>x. Inr (pv_TEESignature x), abi_VRFInstruction = \<lambda>b. Inl toy_err,
      json_ProveRandomnessResponse = \<lambda>x. Inr [], abi_Payment = \<lambda>b. Inl toy_err, ParseFeeEntries = \<lambda>b. Inl toy_err,
      PaymentTxFromInstruction = \<lambda>p i. Inr [], CheckNativePayment = \<lambda>t. Inr (), SignTxMultisig = \<lambda>t k. Inr [], signer_Sort = \<lambda>x. (x, []),
      JoinMultisigJSON = \<lambda>t x. Inr t, json_XRPSignResponse = \<lambda>x. Inr []\<rparr>"

lemma toyS_fields [simp]:
  "PubkeyToAddress toyS = (\<lambda>pk. word_of_nat (pk_X pk))" "TextHash toyS = (\<lambda>b. b)" "SigToPub toyS = toy_SigToPub" "crypto_Sign toyS = toy_Sign"
  "ValidateSignatureValues toyS = (\<lambda>v r s h. True)" "HashToOPType toyS = HashToOPType toy" "HashToOPCommand toyS = HashToOPCommand toy"
  "Keccak256Hash toyS = toy_hash" "ToECDSA toyS = toy_ToECDSA" "IsOnCurve toyS = (\<lambda>x y. y = 0)"
  "IsValidPair toyS = IsValidPair toy" "data_HashForSigning toyS = data_HashForSigning toy" "unjson_DataFixed toyS = (\<lambda>b. Inr ix_data)"
  "abi_KeyDelete toyS = (\<lambda>b. Inr ex_delete)" "json_KeyIDPair toyS = (\<lambda>k. Inr [1])" "OPCommand_Hash toyS = toy_command"
  "OPType_Hash toyS = OPType_Hash toy" "unjson_OpID toyS = (\<lambda>b. Inr \<lparr>id_OPType = 1, id_OPCommand = 2\<rparr>)" "payload_Hash toyS = (\<lambda>tag c h. Inr h)"
  "unjson_KeyIDPairs toyS = (\<lambda>b. Inr [ex_key])" "json_SignedProofs toyS = (\<lambda>ps. Inr (concat (map sk_Signature ps)))"
  "abi_encode_KeyExistence toyS = (\<lambda>k. if k = ex_existence then Inr [7] else Inl toy_err)" "abi_pack_KeyExistence toyS = (\<lambda>k. Inr [])"
  "unjson_DirectInstruction toyS = (\<lambda>b. Inr \<lparr>di_OPType = 3, di_OPCommand = 6, di_Message = []\<rparr>)" "json_KeyInfos toyS = (\<lambda>k. Inr [])"
  by (simp_all add: toyS_def processor_env.defs) (simp_all add: toyI_def toyW_def, simp_all add: toy_defs)

lemma toyS_specs: "ecdsa_spec toyS"
  by (rule toy_ecdsa) simp_all

lemma toyS_ops: "ops_distinct toyS"
  by (simp add: ops_distinct_def) (simp add: toy_defs)

definition sx_system :: system where
  "sx_system = \<lparr>sy_node = ex_node, sy_policies = ix_policies, sy_wallets = ex_storage1, sy_sign = \<lparr>sg_activeRoutines = 0, sg_schedules = []\<rparr>, sy_proxyURL = [], sy_forwarded = []\<rparr>"

definition sx_inputs :: action_inputs where
  "sx_inputs = \<lparr>ai_ctx = None, ai_ctx_at = \<lambda>i. None, ai_drawn = Inl toy_err, ai_backup_rnd = undefined, ai_random_hash = Inl toy_err, ai_ecies_rnd = 0,
     ai_surroundings = undefined\<rparr>"

lemma toyS_CheckThresholds: "CheckThresholds toyS ix_data [6, 4] toy_policy = Inr ()"
  by (simp add: CheckThresholds_def ix_data_def checkCosigners_def dataProvidersThreshold_def policyThreshold_def WeightOfSigners_def voters_def
      toy_policy_def word_le_nat_alt)

lemma sx_preprocess: "preprocess toyS ix_action ix_data ix_policies 9 1 = Inr ([6, 4], toy_policy)"
proof -
  have "signaturesToSigners toyS ix_data 1 [[], []] [ix_signature 6, ix_signature 4] = Inr [6, 4]"
    using toy_signer [of toyS 6 "hash_bytes 3"] toy_signer [of toyS 4 "hash_bytes 3"]
    by (simp add: signaturesToSigners_def ix_signature_def ix_data_def)
  then show ?thesis
    using toyS_CheckThresholds
    by (simp add: preprocess_def SigningPolicyOf_def ActiveSigningPolicy_def ix_policies_def ix_action_def checkPolicyValidity_def
        validateInstructionData_def checkInstructionData_def CheckSize_def constraints_def noAdditional_def CheckSizeVariableMessages_def Let_def)
      (simp add: ix_data_def toy_policy_def)
qed

lemma sx_delete: "KeyDelete toyS ex_node None Threshold ix_data [[], []] [6, 4] toy_policy ex_storage1 = (Inr ([1], []), ex_storage2)"
  using ex_delete_step by (simp add: KeyDelete_def ParseKeyDelete_def)

lemma sx_process: "snd (Process toyS (KeyDelete toyS ex_node None) ex_node ix_policies True ix_action ex_storage1) = ex_storage2"
  using sx_preprocess sx_delete
  by (simp add: Process_def Parse_DataFixed_def Parse_sized_def MaxInstructionSize_def Node_ChainID_def) (simp add: ix_action_def)

lemma ix_adapted: "CheckAndAdapt ix_action = (Inr (), ix_action)"
  by (simp add: CheckAndAdapt_def ix_action_def MaxVariableMessages_def MaxVariableMessageSize_def Let_def)

section \<open>Routing\<close>

lemma routers_built:
  assumes "ops_distinct S"
  shows "\<exists>r. NewPMWRouter S B I = Inr r \<and> rt_defaultDirect r = None \<and> rt_defaultInstruction r = None
      \<and> (\<forall>t c p. (t, c, p) \<in> set (direct_routes S B I @ wallet_routes S B I @ pmw_routes S)
           \<longrightarrow> map_of (rt_routs r) \<lparr>id_OPType = OPType_Hash S t, id_OPCommand = OPCommand_Hash S c\<rparr> = Some p)"
    and "\<exists>r. NewForwardRouter S B X port I = Inr r \<and> rt_defaultDirect r \<noteq> None \<and> rt_defaultInstruction r \<noteq> None
      \<and> (\<forall>t c p. (t, c, p) \<in> set (direct_routes S B I @ wallet_routes S B I)
           \<longrightarrow> map_of (rt_routs r) \<lparr>id_OPType = OPType_Hash S t, id_OPCommand = OPCommand_Hash S c\<rparr> = Some p)"
proof -
  have new: "rt_routs (New :: system Router) = []" "rt_defaultDirect (New :: system Router) = None" "rt_defaultInstruction (New :: system Router) = None" by (simp_all add: New_def)
  have d: "distinct (map (op_id S) (direct_routes S B I @ wallet_routes S B I @ pmw_routes S))" by (rule routes_distinct [OF assms])
  obtain r where r: "register_all S (direct_routes S B I @ wallet_routes S B I @ pmw_routes S) New = Inr r"
    using register_all_succeeds [OF d, of New] new by auto
  have d0: "distinct (map (op_id S) (direct_routes S B I @ wallet_routes S B I))" using d by auto
  obtain r0 where r0: "register_all S (direct_routes S B I @ wallet_routes S B I) New = Inr r0"
    using register_all_succeeds [OF d0, of New] new by auto
  show "\<exists>r. NewPMWRouter S B I = Inr r \<and> rt_defaultDirect r = None \<and> rt_defaultInstruction r = None
      \<and> (\<forall>t c p. (t, c, p) \<in> set (direct_routes S B I @ wallet_routes S B I @ pmw_routes S)
           \<longrightarrow> map_of (rt_routs r) \<lparr>id_OPType = OPType_Hash S t, id_OPCommand = OPCommand_Hash S c\<rparr> = Some p)"
    unfolding NewPMWRouter_def using r register_all_Inr(2,4,5) [OF r] new by metis
  define r1 where "r1 = r0\<lparr>rt_defaultInstruction := Some (\<lambda>a s. on_forwarded (instruction_Default_Process S X port (sy_node s) (sy_policies s) a) s),
    rt_defaultDirect := Some (\<lambda>a s. on_forwarded (direct_Default_Process S X port a) s)\<rparr>"
  have "NewForwardRouter S B X port I = Inr r1"
    using r0 register_all_Inr(4,5) [OF r0] new
    by (simp add: NewForwardRouter_def RegisterDefaultInstruction_def RegisterDefaultDirect_def r1_def)
  moreover have "rt_routs r1 = rt_routs r0" "rt_defaultDirect r1 \<noteq> None" "rt_defaultInstruction r1 \<noteq> None" by (simp_all add: r1_def)
  ultimately show "\<exists>r. NewForwardRouter S B X port I = Inr r \<and> rt_defaultDirect r \<noteq> None \<and> rt_defaultInstruction r \<noteq> None
      \<and> (\<forall>t c p. (t, c, p) \<in> set (direct_routes S B I @ wallet_routes S B I)
           \<longrightarrow> map_of (rt_routs r) \<lparr>id_OPType = OPType_Hash S t, id_OPCommand = OPCommand_Hash S c\<rparr> = Some p)"
    using register_all_Inr(2) [OF r0] by metis
qed

lemma forward_routs:
  assumes "NewForwardRouter S B X port I = Inr r" and "map_of (rt_routs r) i = Some q"
  shows "\<exists>t c. i = \<lparr>id_OPType = OPType_Hash S t, id_OPCommand = OPCommand_Hash S c\<rparr>"
proof -
  obtain r0 where r0: "register_all S (direct_routes S B I @ wallet_routes S B I) New = Inr r0" "rt_routs r = rt_routs r0"
    using assms(1) by (auto simp: NewForwardRouter_def res_simps RegisterDefaultInstruction_def RegisterDefaultDirect_def split: if_splits)
  then show ?thesis using register_all_Inr(3) [OF r0(1), of i q] assms(2) by (auto simp: New_def)
qed

text \<open>
  Every operation has its processor. If the library gives the operations that the node names different identifiers, then
  building either router does not panic, and afterwards every entry of its table is found
  under the identifier of its operation; the router of the wallet service has no default
  processors and the router in front of an extension has both.
\<close>

theorem operations_reach_their_processors:
  assumes "ops_distinct S"
  shows "(\<exists>r. NewPMWRouter S B I = Inr r \<and> rt_defaultDirect r = None \<and> rt_defaultInstruction r = None
      \<and> (\<forall>t c p. (t, c, p) \<in> set (direct_routes S B I @ wallet_routes S B I @ pmw_routes S)
           \<longrightarrow> map_of (rt_routs r) \<lparr>id_OPType = OPType_Hash S t, id_OPCommand = OPCommand_Hash S c\<rparr> = Some p))
    \<and> (\<exists>r. NewForwardRouter S B X port I = Inr r \<and> rt_defaultDirect r \<noteq> None \<and> rt_defaultInstruction r \<noteq> None
      \<and> (\<forall>t c p. (t, c, p) \<in> set (direct_routes S B I @ wallet_routes S B I)
           \<longrightarrow> map_of (rt_routs r) \<lparr>id_OPType = OPType_Hash S t, id_OPCommand = OPCommand_Hash S c\<rparr> = Some p))"
  using routers_built [OF assms] by blast

theorem operations_reach_their_processors_witness: "\<exists>r. NewPMWRouter toyS bigmod_ref sx_inputs = Inr r \<and> rt_defaultDirect r = None"
  using operations_reach_their_processors [OF toyS_ops] by blast

text \<open>The processor that the example action reaches.\<close>

lemma sx_router:
  obtains r where "NewPMWRouter toyS bigmod_ref sx_inputs = Inr r" "snd (process toyS r ix_action sx_system) = sx_system\<lparr>sy_wallets := ex_storage2\<rparr>"
proof -
  let ?p = "wallet_processor toyS (\<lambda>s. KeyDelete toyS (sy_node s) (ai_ctx sx_inputs))"
  have d: "distinct (map (op_id toyS) (direct_routes toyS bigmod_ref sx_inputs @ wallet_routes toyS bigmod_ref sx_inputs @ pmw_routes toyS))"
    by (rule routes_distinct [OF toyS_ops])
  obtain r where r: "register_all toyS (direct_routes toyS bigmod_ref sx_inputs @ wallet_routes toyS bigmod_ref sx_inputs @ pmw_routes toyS) New = Inr r"
    using register_all_succeeds [OF d, of New] by (auto simp: New_def)
  have "(OP_Wallet, OP_KeyDelete, ?p) \<in> set (direct_routes toyS bigmod_ref sx_inputs @ wallet_routes toyS bigmod_ref sx_inputs @ pmw_routes toyS)"
    by (simp add: wallet_routes_def)
  from register_all_Inr(2) [OF r this] have "map_of (rt_routs r) \<lparr>id_OPType = 1, id_OPCommand = 2\<rparr> = Some ?p" by (simp add: toy_defs)
  then have "process toyS r ix_action sx_system = ?p ix_action sx_system" by (simp add: process_def ix_adapted GetOpID_def)
  moreover have "snd (?p ix_action sx_system) = sx_system\<lparr>sy_wallets := ex_storage2\<rparr>"
    using sx_process by (simp add: wallet_processor_def sx_inputs_def sx_system_def split_def Let_def)
  ultimately show ?thesis using that r by (simp add: NewPMWRouter_def)
qed

text \<open>
  Keys are touched by authorised instructions only. Whatever action either router processes, if the wallets or the payment
  schedules change, then the action, after the alignment of its per-signer data, carries an
  instruction for this node under its own identifier, for a stored policy at most one epoch
  behind the active one, signed by pairwise different signers who reach the cosigner
  threshold and the data-provider threshold; and nothing else of the state changes with it.
\<close>

theorem keys_need_authorised_instruction:
  assumes "router S B r" and "policy_inv (sy_policies s)" and "process S r a s = (result, s')"
    and "sy_wallets s' \<noteq> sy_wallets s \<or> sy_sign s' \<noteq> sy_sign s"
  shows "\<exists>a' d signers p. CheckAndAdapt a = (Inr (), a') \<and> Parse_DataFixed S (ad_Message (ac_Data a')) = Inr d
    \<and> authorised S (sy_node s) (sy_policies s) a' d signers p
    \<and> sy_node s' = sy_node s \<and> sy_policies s' = sy_policies s \<and> sy_proxyURL s' = sy_proxyURL s"
proof -
  from process_effect [OF assms(1), of a s] assms(3,4) obtain a' where a': "CheckAndAdapt a = (Inr (), a')"
    and eff: "action_effect S B a' s s'" by auto
  from eff have "preprocessed S a' s \<and> sy_node s' = sy_node s \<and> sy_policies s' = sy_policies s \<and> sy_proxyURL s' = sy_proxyURL s"
    by cases (use assms(4) in auto)
  then show ?thesis using a' preprocess_authorised [OF assms(2)] unfolding preprocessed_def by metis
qed

theorem keys_need_authorised_instruction_witness:
  "\<exists>r a' d signers p. NewPMWRouter toyS bigmod_ref sx_inputs = Inr r \<and> sy_wallets (snd (process toyS r ix_action sx_system)) = ex_storage2
     \<and> CheckAndAdapt ix_action = (Inr (), a') \<and> authorised toyS ex_node ix_policies a' d signers p"
proof -
  obtain r where r: "NewPMWRouter toyS bigmod_ref sx_inputs = Inr r" "snd (process toyS r ix_action sx_system) = sx_system\<lparr>sy_wallets := ex_storage2\<rparr>"
    by (rule sx_router)
  have pol: "policy_inv (sy_policies sx_system)" using ix_policies_inv by (simp add: sx_system_def)
  have run: "process toyS r ix_action sx_system = (fst (process toyS r ix_action sx_system), sx_system\<lparr>sy_wallets := ex_storage2\<rparr>)"
    using r(2) by (simp add: prod_eq_iff)
  have "ex_storage2 \<noteq> ex_storage1" by (simp add: ex_storage1_def ex_storage2_def)
  then show ?thesis
    using keys_need_authorised_instruction [OF router.pmw [OF r(1)] pol run] r by (auto simp: sx_system_def)
qed

text \<open>
  C30: reserved operations stay inside. In front of an extension, an action without a processor of its own whose operation type begins with
  the reserved prefix, or whose message cannot be read, is answered with a
  failure, and no request for it is sent to the extension: the list of the requests sent, like the rest of the state, is as before.
\<close>

theorem reserved_operations_not_forwarded:
  assumes "NewForwardRouter S B X port I = Inr r" and "CheckAndAdapt a = (Inr (), a')" and "GetOpID S a' = Inr i"
    and "map_of (rt_routs r) i = None"
    and "\<And>di. Parse_DirectInstruction S (ad_Message (ac_Data a)) = Inr di \<Longrightarrow> take 2 (hash_bytes (di_OPType di)) = string_bytes ''F_''"
    and "\<And>d. Parse_DataFixed S (ad_Message (ac_Data a)) = Inr d \<Longrightarrow> take 2 (hash_bytes (df_OPType d)) = string_bytes ''F_''"
  shows "(\<exists>e. process S r a s = (Invalid S a' e, s)) \<and> sy_forwarded (snd (process S r a s)) = sy_forwarded s"
proof -
  have data: "ac_Data a' = ac_Data a" using CheckAndAdapt_Data [of a] assms(2) by simp
  have defaults: "rt_defaultInstruction r = Some (\<lambda>a s. on_forwarded (instruction_Default_Process S X port (sy_node s) (sy_policies s) a) s)"
    "rt_defaultDirect r = Some (\<lambda>a s. on_forwarded (direct_Default_Process S X port a) s)"
    using assms(1) by (auto simp: NewForwardRouter_def res_simps RegisterDefaultInstruction_def RegisterDefaultDirect_def split: if_splits)
  have refused: "\<exists>e. CheckForwardable t = Inl e" if "take 2 (hash_bytes t) = string_bytes ''F_''" for t
    using that by (simp add: CheckForwardable_def flareOPPrefix_def numeral_2_eq_2)
  have "\<exists>e. on_forwarded (direct_Default_Process S X port a') s = (Invalid S a' e, s)"
    using direct_Default_Process_refuses [of S a' X port "sy_forwarded s"] refused assms(5) data by (fastforce simp: on_forwarded_def)
  moreover have "\<exists>e. on_forwarded (instruction_Default_Process S X port (sy_node s) (sy_policies s) a') s = (Invalid S a' e, s)"
    using instruction_Default_Process_refuses [of S a' X port "sy_node s" "sy_policies s" "sy_forwarded s"] refused assms(6) data
    by (fastforce simp: on_forwarded_def)
  ultimately have "\<exists>e. process S r a s = (Invalid S a' e, s)" using assms(2-4) defaults by (auto simp: process_def)
  then show ?thesis by auto
qed

definition toyR :: system_env where
  "toyR = toyS\<lparr>unjson_OpID := \<lambda>b. Inr \<lparr>id_OPType = 99, id_OPCommand = 1\<rparr>, unjson_DataFixed := \<lambda>b. Inr (ix_data\<lparr>df_OPType := ToHash ''F_X''\<rparr>),
     unjson_DirectInstruction := \<lambda>b. Inr \<lparr>di_OPType = ToHash ''F_X'', di_OPCommand = 1, di_Message = []\<rparr>\<rparr>"

lemma toyR_fields [simp]:
  "OPCommand_Hash toyR = toy_command" "OPType_Hash toyR = OPType_Hash toy" "unjson_OpID toyR = (\<lambda>b. Inr \<lparr>id_OPType = 99, id_OPCommand = 1\<rparr>)"
  "unjson_DataFixed toyR = (\<lambda>b. Inr (ix_data\<lparr>df_OPType := ToHash ''F_X''\<rparr>))"
  "unjson_DirectInstruction toyR = (\<lambda>b. Inr \<lparr>di_OPType = ToHash ''F_X'', di_OPCommand = 1, di_Message = []\<rparr>)"
  by (simp_all add: toyR_def)

lemma reserved_hash: "take 2 (hash_bytes (ToHash ''F_X'')) = string_bytes ''F_''"
  by (simp add: hash_bytes_ToHash string_bytes_def of_char_def numeral_2_eq_2)

definition sx_extension :: extension_env where
  "sx_extension = \<lparr>ex_json_Action = \<lambda>a. Inr [], ex_Post = \<lambda>u b. Inr (200, []), ex_unjson_ActionResult = \<lambda>b. Inl toy_err\<rparr>"

theorem reserved_operations_not_forwarded_witness:
  "\<exists>r e. NewForwardRouter toyR bigmod_ref sx_extension 8889 sx_inputs = Inr r
     \<and> process toyR r ix_action sx_system = (Invalid toyR ix_action e, sx_system)"
proof -
  have "ops_distinct toyR" using toyS_ops by (simp add: ops_distinct_def)
  from routers_built(2) [OF this] obtain r where r: "NewForwardRouter toyR bigmod_ref sx_extension 8889 sx_inputs = Inr r" by blast
  have "OPType_Hash toy t \<noteq> 99" for t by (simp add: toy_defs)
  then have none: "map_of (rt_routs r) \<lparr>id_OPType = 99, id_OPCommand = 1\<rparr> = None"
    using forward_routs [OF r] by (cases "map_of (rt_routs r) \<lparr>id_OPType = 99, id_OPCommand = 1\<rparr>") force+
  have parse: "GetOpID toyR ix_action = Inr \<lparr>id_OPType = 99, id_OPCommand = 1\<rparr>"
    "Parse_DirectInstruction toyR (ad_Message (ac_Data ix_action)) = Inr \<lparr>di_OPType = ToHash ''F_X'', di_OPCommand = 1, di_Message = []\<rparr>"
    "Parse_DataFixed toyR (ad_Message (ac_Data ix_action)) = Inr (ix_data\<lparr>df_OPType := ToHash ''F_X''\<rparr>)"
    by (simp_all add: GetOpID_def Parse_DirectInstruction_def Parse_DataFixed_def Parse_sized_def ix_action_def)
  show ?thesis
    using reserved_operations_not_forwarded [OF r ix_adapted parse(1) none, of sx_system] r reserved_hash parse(2,3) by auto
qed



definition toyF :: system_env where
  "toyF = toyS\<lparr>unjson_OpID := \<lambda>b. Inr \<lparr>id_OPType = 99, id_OPCommand = 1\<rparr>,
     unjson_DirectInstruction := \<lambda>b. Inr \<lparr>di_OPType = ToHash ''EX'', di_OPCommand = 1, di_Message = []\<rparr>\<rparr>"

lemma toyF_fields [simp]:
  "OPCommand_Hash toyF = toy_command" "OPType_Hash toyF = OPType_Hash toy" "unjson_OpID toyF = (\<lambda>b. Inr \<lparr>id_OPType = 99, id_OPCommand = 1\<rparr>)"
  "unjson_DirectInstruction toyF = (\<lambda>b. Inr \<lparr>di_OPType = ToHash ''EX'', di_OPCommand = 1, di_Message = []\<rparr>)"
  by (simp_all add: toyF_def)

definition fx_action :: Action where
  "fx_action = \<lparr>ac_Data = \<lparr>ad_ID = 3, ad_Type = Direct, ad_SubmissionTag = Submit, ad_Message = []\<rparr>,
     ac_AdditionalVariableMessages = [], ac_Timestamps = [], ac_AdditionalActionData = [], ac_Signatures = []\<rparr>"




section \<open>Results of direct actions and of instructions\<close>

text \<open>What a successful result says of the tag of its action.\<close>

lemma direct_Process_tag:
  "ar_Status (fst (direct_Process P f a s)) \<noteq> 0 \<Longrightarrow> ar_SubmissionTag (fst (direct_Process P f a s)) \<notin> {Threshold, End}"
  by (auto simp: direct_Process_def CheckDirectTag_def Invalid_def Let_def res_simps split: sum.splits prod.splits if_splits)

lemma Process_tag:
  "ar_Status (fst (Process P f n ps imm a s)) \<noteq> 0 \<Longrightarrow> ar_SubmissionTag (fst (Process P f n ps imm a s)) \<in> {Threshold, End}"
  by (cases rule: Process_cases [of P f n ps imm a s])
    (auto simp: finish_instruction_def Invalid_def Let_def split: sum.splits prod.splits if_splits)

lemma routes_tags:
  assumes "ar_Status (fst (p a s)) \<noteq> 0"
  shows "(t, c, p) \<in> set (direct_routes S B I) \<Longrightarrow> ar_SubmissionTag (fst (p a s)) \<notin> {Threshold, End}"
    and "(t, c, p) \<in> set (wallet_routes S B I @ pmw_routes S) \<Longrightarrow> ar_SubmissionTag (fst (p a s)) \<in> {Threshold, End}"
proof -
  assume "(t, c, p) \<in> set (direct_routes S B I)"
  then obtain f where "p = direct_Process S f" by (auto simp: direct_routes_def)
  then show "ar_SubmissionTag (fst (p a s)) \<notin> {Threshold, End}" using assms direct_Process_tag by metis
next
  assume "(t, c, p) \<in> set (wallet_routes S B I @ pmw_routes S)"
  then consider f where "p = wallet_processor S f" | f where "p = reading_processor S f" | "p = payment_processor S"
    by (auto simp: wallet_routes_def pmw_routes_def)
  then show "ar_SubmissionTag (fst (p a s)) \<in> {Threshold, End}"
  proof cases
    case (1 f)
    then show ?thesis using assms Process_tag by (simp add: wallet_processor_def split_def Let_def)
  next
    case (2 f)
    then show ?thesis using assms Process_tag by (simp add: reading_processor_def)
  next
    case 3
    then show ?thesis using assms Process_tag by (simp add: payment_processor_def split_def Let_def)
  qed
qed

lemma string_bytes_inject: "string_bytes s = string_bytes t \<longleftrightarrow> s = t"
proof -
  have "inj (of_char :: char \<Rightarrow> uint8)"
  proof (rule injI)
    fix c d :: char assume "(of_char c :: uint8) = of_char d"
    then have "(word_of_nat (of_char c) :: uint8) = word_of_nat (of_char d)" by (simp only: of_nat_of_char)
    then have "(of_char c :: nat) mod 256 = of_char d mod 256" by (metis unat_of_nat_byte)
    then show "c = d" by simp
  qed
  then show ?thesis unfolding string_bytes_def by (simp add: inj_map_eq_map)
qed

text \<open>
  C39: no result of a direct action passes as the result of an instruction. The signature on a result covers the hash of its data, identifier,
  tag and status, but neither its operation nor the kind of its action. Still, a successful result of one of the node's direct
  processors has a tag that no successful result of one of its instruction processors has; and if the hash that is signed were the same for both,
  then Keccak would collide, on the two preimages or on the two tags.
\<close>

theorem direct_results_kept_apart:
  assumes "(t, c, p) \<in> set (direct_routes S B I)" and "(t', c', q) \<in> set (wallet_routes S B J @ pmw_routes S)"
    and "p a s = (direct, s1)" and "q b s' = (instruction, s1')" and "ar_Status direct \<noteq> 0" and "ar_Status instruction \<noteq> 0"
  shows "ar_SubmissionTag direct \<notin> {Threshold, End} \<and> ar_SubmissionTag instruction \<in> {Threshold, End}
    \<and> (ActionResult_Hash S direct = ActionResult_Hash S instruction \<longrightarrow>
         (\<exists>x y. x \<noteq> y \<and> Keccak256 S x = Keccak256 S y
            \<and> (x = result_preimage S direct \<and> y = result_preimage S instruction
               \<or> x = string_bytes (ar_SubmissionTag direct) \<and> y = string_bytes (ar_SubmissionTag instruction))))"
proof -
  have tags: "ar_SubmissionTag direct \<notin> {Threshold, End}" "ar_SubmissionTag instruction \<in> {Threshold, End}"
    using routes_tags(1) [of p a s, OF _ assms(1)] routes_tags(2) [of q b s', OF _ assms(2)] assms(3-6) by simp_all
  then have bytes: "string_bytes (ar_SubmissionTag direct) \<noteq> string_bytes (ar_SubmissionTag instruction)" by (auto simp: string_bytes_inject)
  have "\<exists>x y. x \<noteq> y \<and> Keccak256 S x = Keccak256 S y
      \<and> (x = result_preimage S direct \<and> y = result_preimage S instruction
         \<or> x = string_bytes (ar_SubmissionTag direct) \<and> y = string_bytes (ar_SubmissionTag instruction))"
    if eq: "ActionResult_Hash S direct = ActionResult_Hash S instruction"
  proof (cases "result_preimage S direct = result_preimage S instruction")
    case True
    then show ?thesis using result_preimage_inj(3) [OF True] bytes by (auto simp: Keccak256_def)
  next
    case False
    then show ?thesis using eq by (auto simp: ActionResult_Hash_def)
  qed
  then show ?thesis using tags by blast
qed

theorem direct_results_kept_apart_witness:
  "\<exists>(direct :: ActionResult) (instruction :: ActionResult). ar_SubmissionTag direct = Submit \<and> ar_Status direct = 1 \<and> ar_ID instruction = ad_ID (ac_Data ix_action)
     \<and> ar_Status instruction = 1 \<and> ar_SubmissionTag direct \<notin> {Threshold, End} \<and> ar_SubmissionTag instruction \<in> {Threshold, End}"
proof -
  let ?p = "direct_Process toyS (\<lambda>i s. (KeysInfo toyS (sy_wallets s), s))"
  let ?q = "wallet_processor toyS (\<lambda>s. KeyDelete toyS (sy_node s) (ai_ctx sx_inputs))"
  obtain direct s1 where run1: "?p fx_action sx_system = (direct, s1)" by (rule prod.exhaust)
  obtain instruction s2 where run2: "?q ix_action sx_system = (instruction, s2)" by (rule prod.exhaust)
  have p: "(OP_Get, OP_KeyInfo, ?p) \<in> set (direct_routes toyS bigmod_ref sx_inputs)" by (simp add: direct_routes_def)
  have q: "(OP_Wallet, OP_KeyDelete, ?q) \<in> set (wallet_routes toyS bigmod_ref sx_inputs @ pmw_routes toyS)" by (simp add: wallet_routes_def)
  have data: "ad_SubmissionTag (ac_Data fx_action) = Submit" "ad_Message (ac_Data fx_action) = []" by (simp_all add: fx_action_def)
  have tag: "CheckDirectTag Submit = Inr ()" by (simp add: CheckDirectTag_def)
  have parse: "Parse_DirectInstruction toyS [] = Inr \<lparr>di_OPType = 3, di_OPCommand = 6, di_Message = []\<rparr>"
    by (simp add: Parse_DirectInstruction_def Parse_sized_def)
  have "ar_Status (fst (?p fx_action sx_system)) = 1" "ar_SubmissionTag (fst (?p fx_action sx_system)) = Submit"
    by (simp_all add: direct_Process_def data tag parse KeysInfo_def)
  then have direct: "ar_Status direct = 1" "ar_SubmissionTag direct = Submit" by (simp_all only: run1 fst_conv)
  have "fst (Process toyS (KeyDelete toyS ex_node None) ex_node ix_policies True ix_action ex_storage1)
      = finish_instruction toyS ex_node True ix_action ix_data [6, 4] [1] []"
    using sx_preprocess sx_delete
    by (simp add: Process_def Parse_DataFixed_def Parse_sized_def MaxInstructionSize_def Node_ChainID_def) (simp add: ix_action_def)
  then have instruction: "instruction = finish_instruction toyS ex_node True ix_action ix_data [6, 4] [1] []"
    using arg_cong [OF run2, of fst] by (simp add: wallet_processor_def sx_inputs_def sx_system_def split_def Let_def)
  have "ar_Status instruction = 1" "ar_ID instruction = ad_ID (ac_Data ix_action)"
    unfolding instruction by (simp_all add: finish_instruction_def ix_action_def Let_def)
  moreover have "ar_SubmissionTag direct \<notin> {Threshold, End} \<and> ar_SubmissionTag instruction \<in> {Threshold, End}"
    using direct_results_kept_apart [OF p q run1 run2] direct(1) \<open>ar_Status instruction = 1\<close> by simp
  ultimately show ?thesis using direct by (intro exI [of _ direct] exI [of _ instruction]) simp
qed

section \<open>The invariant of the system\<close>

text \<open>
  The whole system stays well-formed. From start-up on, whatever the proxy serves to the queue workers, whichever requests
  the configuration server receives and however these interleave: the node keeps a consistent
  identity and governance, the policies are consecutive epochs with the keys of the active
  voters, the wallet storage is well-formed and within its limits, at most 3000 payment
  schedules run, each within the fee limits, and a proxy address, once set, never points back
  at a port of the node.
\<close>

theorem system_runs_keep_invariant:
  assumes "initialize_system S N pt env drawn state = Inr s0" and "(system_step S B N pt)\<^sup>*\<^sup>* s0 s"
  shows "node_inv S (sy_node s) \<and> policy_inv (sy_policies s) \<and> storage_inv (sy_wallets s) \<and> sign_inv (sy_sign s)
    \<and> (sy_proxyURL s \<noteq> [] \<longrightarrow> foreign_url N pt (sy_proxyURL s))"
  using system_steps_inv [OF assms(2) initialize_system_inv [OF assms(1)]] by (simp add: system_inv_def)

definition sx_net :: net_env where
  "sx_net = \<lparr>nt_ParseRequestURI = \<lambda>s. if s = ''http://localhost:80'' then Inr \<lparr>ur_Scheme = ''http'', ur_Hostname = ''localhost'', ur_Port = ''80''\<rparr> else Inl toy_err,
     nt_ParseIP = \<lambda>s. None, nt_ConfigureProxyURL = \<lambda>b. Inr (Some ''http://localhost:80''), nt_ConfigureInitialOwner = \<lambda>b. Inl toy_err,
     nt_ConfigureExtensionID = \<lambda>b. Inl toy_err, nt_ConfigureChainID = \<lambda>b. Inr (Some 1), nt_ConfigureGovernance = \<lambda>b. Inl toy_err\<rparr>"

definition sx_start :: system where
  "sx_start = \<lparr>sy_node = fresh_node toyS (toy_key 9) ZeroState, sy_policies = policy_InitializeStorage, sy_wallets = InitializeStorage,
     sy_sign = \<lparr>sg_activeRoutines = 0, sg_schedules = []\<rparr>, sy_proxyURL = [], sy_forwarded = []\<rparr>"

lemma sx_start: "initialize_system toyS sx_net default_ports (\<lambda>v. None) (Inr (toy_key 9)) ZeroState = Inr sx_start"
  by (simp add: initialize_system_def Initialize_def initialOwnerFromEnv_def extensionIDFromEnv_def chainIDFromEnv_def governanceFromEnv_def
      bytesFromEnv_def fresh_node_def setProxyURLFromEnv_def Getenv_def sx_start_def Let_def)

lemma sx_url: "foreign_url sx_net default_ports ''http://localhost:80''"
  by (simp add: foreign_url_def sx_net_def isLocalHost_def urlPort_def Atoi_def digit_of_def default_ports_def ConfigPort_def ToLower_def Let_def)

definition sx_configured :: system where
  "sx_configured = sx_start\<lparr>sy_node := (sy_node sx_start)\<lparr>n_chainID := 1\<rparr>, sy_proxyURL := ''http://localhost:80''\<rparr>"

lemma sx_run: "(system_step toyS bigmod_ref sx_net default_ports)\<^sup>*\<^sup>* sx_start sx_configured"
proof -
  let ?step = "system_step toyS bigmod_ref sx_net default_ports" and ?s1 = "sx_start\<lparr>sy_node := (sy_node sx_start)\<lparr>n_chainID := 1\<rparr>\<rparr>"
  have "snd (chainIDHandler sx_net [] (sy_node sx_start)) = (sy_node sx_start)\<lparr>n_chainID := 1\<rparr>"
    by (simp add: chainIDHandler_def decode_limited_def SetChainID_def sx_start_def fresh_node_def sx_net_def)
  then have "?step sx_start ?s1" using system_step.set_chain [of toyS bigmod_ref sx_net default_ports sx_start "[]"] by simp
  moreover have "ValidateProxyURL sx_net default_ports ''http://localhost:80'' = Inr ()" using sx_url by (simp only: ValidateProxyURL_iff)
  then have "snd (proxyHandler sx_net default_ports [] (sy_proxyURL ?s1)) = ''http://localhost:80''"
    by (simp add: proxyHandler_def decode_limited_def) (simp add: sx_net_def)
  then have "?step ?s1 sx_configured"
    using system_step.set_proxy [of toyS bigmod_ref sx_net default_ports ?s1 "[]"] by (simp add: sx_configured_def)
  ultimately show ?thesis by (rule converse_rtranclp_into_rtranclp [OF _ r_into_rtranclp])
qed

theorem system_runs_keep_invariant_witness: "node_inv toyS (sy_node sx_configured) \<and> foreign_url sx_net default_ports (sy_proxyURL sx_configured)"
  using system_runs_keep_invariant [OF sx_start sx_run] by (simp add: sx_configured_def)

end
