(* ===== verification/Props_Services.thy ===== *)
theory Props_Services
  imports Props_System
begin

text \<open>
  Properties of the read-only instructions, of payments, of the queue workers and of the two servers.
\<close>

section \<open>FDC proofs\<close>

lemma Prove_Inr:
  assumes "Prove S n tag d ms signers p s = (Inr (out, st), s')"
  obtains req mh hdr dps coss enc sig where "DecodeRequest S (df_OriginalMessage d) = Inr req"
    "HashMessage S (n_chainID n) req (df_AdditionalFixedMessage d) (df_Cosigners d) (df_CosignersThreshold d) (df_Timestamp d) = Inr (mh, hdr)"
    "checkResponseSignatures S (ChainBoundRelayPrefixedHash S (n_chainID n) mh) ms signers (sp_Voters p) (df_Cosigners d) = Inr (dps, coss)"
    "prepareFinalizationTxInput S (RawBytes S p) (hash_bytes mh) dps = Inr enc" "Sign S (hash_bytes mh) (n_privateKey n) = Inr sig"
    "json_ProveResponse S \<lparr>pv_ResponseHeader = hdr, pv_RequestBody = fr_RequestBody req, pv_ResponseBody = df_AdditionalFixedMessage d,
         pv_TEESignature = sig, pv_CosignerSignatures = coss, pv_DataProviderSignatures = enc\<rparr> = Inr out" "s' = s"
proof -
  have chain: "in_ChainID (Node_Info S n) = n_chainID n" by (simp add: Node_Info_def Let_def)
  show ?thesis using assms that by (auto simp: Prove_def stry_eq Let_def res_simps chain Node_Sign_def)
qed

text \<open>
  C21: an FDC proof carries checked signatures. A successful proof leaves the state alone; every collected
  signature recovers to the signer it is attributed to, over the relay hash that binds the
  message to the chain; the data-provider signatures are exactly those of the voters among
  the signers, in ascending order of voter index; the cosigner signatures are exactly those of the cosigners of the instruction among the
  signers, in the order of collection; and the node's own signature verifies over the
  message hash.
\<close>

theorem fdc_proof_signatures_checked:
  assumes "ecdsa_spec S" and "node_inv S n" and "Prove S n tag d ms signers p s = (Inr (out, st), s')"
  shows "s' = s \<and> (\<exists>req mh hdr dps coss enc sig. DecodeRequest S (df_OriginalMessage d) = Inr req
    \<and> HashMessage S (n_chainID n) req (df_AdditionalFixedMessage d) (df_Cosigners d) (df_CosignersThreshold d) (df_Timestamp d) = Inr (mh, hdr)
    \<and> list_all2 (\<lambda>m a. SignatureToSignersAddress S (hash_bytes (ChainBoundRelayPrefixedHash S (n_chainID n) mh)) m = Inr a) ms signers
    \<and> map ix_Index dps = sort (map (vs_VoterIndex (sp_Voters p)) (filter (\<lambda>a. vs_VoterIndex (sp_Voters p) a \<noteq> -1) signers))
    \<and> set dps = {\<lparr>ix_Index = vs_VoterIndex (sp_Voters p) a, ix_Signature = m\<rparr> | m a. (m, a) \<in> set (zip ms signers) \<and> vs_VoterIndex (sp_Voters p) a \<noteq> -1}
    \<and> coss = map fst (filter (\<lambda>(m, a). a \<in> set (df_Cosigners d)) (zip ms signers))
    \<and> prepareFinalizationTxInput S (RawBytes S p) (hash_bytes mh) dps = Inr enc
    \<and> VerifySignature S (hash_bytes mh) sig (n_teeID n) = Inr ()
    \<and> json_ProveResponse S \<lparr>pv_ResponseHeader = hdr, pv_RequestBody = fr_RequestBody req, pv_ResponseBody = df_AdditionalFixedMessage d,
         pv_TEESignature = sig, pv_CosignerSignatures = coss, pv_DataProviderSignatures = enc\<rparr> = Inr out)"
proof -
  obtain req mh hdr dps coss enc sig where r: "DecodeRequest S (df_OriginalMessage d) = Inr req"
    "HashMessage S (n_chainID n) req (df_AdditionalFixedMessage d) (df_Cosigners d) (df_CosignersThreshold d) (df_Timestamp d) = Inr (mh, hdr)"
    "checkResponseSignatures S (ChainBoundRelayPrefixedHash S (n_chainID n) mh) ms signers (sp_Voters p) (df_Cosigners d) = Inr (dps, coss)"
    "prepareFinalizationTxInput S (RawBytes S p) (hash_bytes mh) dps = Inr enc" "Sign S (hash_bytes mh) (n_privateKey n) = Inr sig"
    "json_ProveResponse S \<lparr>pv_ResponseHeader = hdr, pv_RequestBody = fr_RequestBody req, pv_ResponseBody = df_AdditionalFixedMessage d,
         pv_TEESignature = sig, pv_CosignerSignatures = coss, pv_DataProviderSignatures = enc\<rparr> = Inr out" and s': "s' = s"
    by (rule Prove_Inr [OF assms(3)])
  have "VerifySignature S (hash_bytes mh) sig (n_teeID n) = Inr ()"
    using VerifySignature_Sign [OF assms(1) r(5)] assms(2) by (simp add: node_inv_def)
  with r(1,2,4,6) s' checkResponseSignatures_Inr(1,3,6,7) [OF r(3)] show ?thesis by blast
qed

definition fx_request :: Fdc2Request where
  "fx_request = \<lparr>fr_AttestationType = 0, fr_SourceId = 0, fr_ThresholdBIPS = 0, fr_ProofOwner = 0, fr_RequestBody = []\<rparr>"

definition toyFdc :: system_env where "toyFdc = toyS\<lparr>abi_Fdc2Request := \<lambda>b. Inr fx_request\<rparr>"

lemma toyFdc_fields [simp]:
  "abi_Fdc2Request toyFdc = (\<lambda>b. Inr fx_request)" "PubkeyToAddress toyFdc = (\<lambda>pk. word_of_nat (pk_X pk))" "TextHash toyFdc = (\<lambda>b. b)"
  "SigToPub toyFdc = toy_SigToPub" "crypto_Sign toyFdc = toy_Sign" "ValidateSignatureValues toyFdc = (\<lambda>v r s h. True)" "Keccak256Hash toyFdc = toy_hash"
  "payload_Hash toyFdc = (\<lambda>tag c h. Inr h)" "abi_encode_ResponseHeader toyFdc = (\<lambda>x. Inr [])" "abi_pack_bytes32s toyFdc = (\<lambda>x. Inr [])"
  "EncodeSignatures toyFdc = (\<lambda>x. Inr [])" "json_ProveResponse toyFdc = (\<lambda>x. Inr (pv_TEESignature x))"
  by (simp_all add: toyFdc_def) (simp_all add: toyS_def processor_env.defs)

definition fx_hash :: hash where "fx_hash = ChainBoundRelayPrefixedHash toyFdc 1 (toy_hash [])"

definition fx_signature :: bytes where "fx_signature = fill_bytes 32 4 @ hash_bytes (toy_hash (hash_bytes fx_hash)) @ [0]"

lemma fx_prove: "\<exists>out st. Prove toyFdc ex_node Threshold ex_data [fx_signature] [4] toy_policy () = (Inr (out, st), ())"
proof -
  have "SignatureToSignersAddress toyFdc (hash_bytes fx_hash) fx_signature = Inr 4"
    using toy_signer [of toyFdc 4 "hash_bytes fx_hash"] by (simp add: fx_signature_def)
  then have v: "VerifySignature toyFdc (hash_bytes fx_hash) fx_signature 4 = Inr ()" by (simp add: VerifySignature_iff)
  have "in_ChainID (Node_Info toyFdc ex_node) = 1" by (simp add: Node_Info_def Let_def)
  then show ?thesis
    using v by (simp add: Prove_def DecodeRequest_def HashMessage_def EncodeResponseHeader_def checkResponseSignatures_def validateSignatureInputs_def
        prepareFinalizationTxInput_def Node_Sign_def Sign_def toy_Sign_def Let_def fx_hash_def [symmetric])
qed

lemma ex_node_well_formed: "node_inv E ex_node" if "PubkeyToAddress E = (\<lambda>pk. word_of_nat (pk_X pk))"
  using that by (simp add: node_inv_def governance_ok_def ex_node_def fresh_node_def toy_key_def toy_pub_def)

theorem fdc_proof_signatures_checked_witness:
  "list_all2 (\<lambda>m a. SignatureToSignersAddress toyFdc (hash_bytes fx_hash) m = Inr a) [fx_signature] [4]"
proof -
  obtain out st where p: "Prove toyFdc ex_node Threshold ex_data [fx_signature] [4] toy_policy () = (Inr (out, st), ())" using fx_prove by blast
  have "ecdsa_spec toyFdc" by (rule toy_ecdsa) simp_all
  moreover have "HashMessage toyFdc (n_chainID ex_node) req m cs t ts = Inr (mh, hdr) \<Longrightarrow> mh = toy_hash []" for req m cs t ts mh hdr
    by (simp add: HashMessage_def EncodeResponseHeader_def Let_def)
  ultimately show ?thesis
    using fdc_proof_signatures_checked [OF _ ex_node_well_formed p] by (auto simp: fx_hash_def)
qed

section \<open>Existence proofs\<close>

text \<open>
  C38: key proofs verify. The proofs that the node returns are one per requested key, in the order of the request; each encodes the existence
  statement of the wallet stored under that key, and its signature verifies as this node's
  over the statement's hash on this chain.
\<close>

theorem key_proofs_verify:
  assumes "ecdsa_spec S" and "node_inv S n" and "KeysProof S n ctx ws i = Inr out"
  shows "\<exists>requested proofs. unjson_KeyIDPairs S (di_Message i) = Inr requested \<and> json_SignedProofs S proofs = Inr out
    \<and> list_all2 (\<lambda>k pr. \<exists>w ep dh h. Get ws k = Inr w \<and> KeyExistenceProof S w (n_teeID n) = Inr ep
         \<and> abi_encode_KeyExistence S ep = Inr (sk_KeyExistence pr) \<and> KeyExistenceDataHash S ep = Inr dh
         \<and> payload_Hash S TEEKeyExistence (n_chainID n) dh = Inr h
         \<and> VerifySignature S (hash_bytes h) (sk_Signature pr) (n_teeID n) = Inr ()) requested proofs"
proof -
  obtain requested proofs where r: "unjson_KeyIDPairs S (di_Message i) = Inr requested" "json_SignedProofs S proofs = Inr out"
    "list_all2 (\<lambda>k pr. \<exists>h. pendingProof S ws (n_teeID n) (n_chainID n) k = Inr (sk_KeyExistence pr, h)
       \<and> Sign S (hash_bytes h) (n_privateKey n) = Inr (sk_Signature pr)) requested proofs"
    by (rule KeysProof_Inr [OF assms(3)])
  have sig: "VerifySignature S (hash_bytes h) sig (n_teeID n) = Inr ()" if "Sign S (hash_bytes h) (n_privateKey n) = Inr sig" for h sig
    using VerifySignature_Sign [OF assms(1) that] assms(2) by (simp add: node_inv_def)
  have "list_all2 (\<lambda>k pr. \<exists>w ep dh h. Get ws k = Inr w \<and> KeyExistenceProof S w (n_teeID n) = Inr ep
         \<and> abi_encode_KeyExistence S ep = Inr (sk_KeyExistence pr) \<and> KeyExistenceDataHash S ep = Inr dh
         \<and> payload_Hash S TEEKeyExistence (n_chainID n) dh = Inr h
         \<and> VerifySignature S (hash_bytes h) (sk_Signature pr) (n_teeID n) = Inr ()) requested proofs"
    using r(3) by (rule list_all2_mono) (use sig in \<open>auto simp: pendingProof_def res_simps\<close>)
  then show ?thesis using r by blast
qed

lemma kx_pending: "pendingProof toyS ex_storage1 9 1 ex_key = Inr ([7], toy_hash [])"
proof -
  have n: "nat_of_bytes (hash_bytes (11 :: hash)) = 11" by (simp add: hash_bytes_def nat_of_fill_32)
  have "KeyExistenceProof toyS (Copy_stored [Status ex_wallet] (Copy_at ex_wallet 0)) 9 = Inr ex_existence"
    by (simp add: KeyExistenceProof_def PubKey_def toy_ToECDSA_def secp256k1_N_def Copy_stored_def Copy_at_def ex_wallet_def ex_existence_def
        toy_key_def toy_pub_def n)
  then show ?thesis by (simp add: pendingProof_def Get_def ex_storage1_def KeyExistenceDataHash_def)
qed

theorem key_proofs_verify_witness:
  "\<exists>out. KeysProof toyS ex_node (\<lambda>i. None) ex_storage1 \<lparr>di_OPType = 3, di_OPCommand = 7, di_Message = []\<rparr> = Inr out
     \<and> (\<exists>proofs. length proofs = 1 \<and> json_SignedProofs toyS proofs = Inr out)"
proof -
  let ?i = "\<lparr>di_OPType = 3, di_OPCommand = 7, di_Message = []\<rparr>"
  have "in_TeeID (Node_Info toyS ex_node) = 9" "in_ChainID (Node_Info toyS ex_node) = 1" by (simp_all add: Node_Info_def Let_def)
  then obtain out where out: "KeysProof toyS ex_node (\<lambda>i. None) ex_storage1 ?i = Inr out"
    using kx_pending by (simp add: KeysProof_def Node_Sign_def Sign_def toy_Sign_def Let_def)
  obtain proofs where p: "list_all2 (\<lambda>k pr. \<exists>w ep dh h. Get ex_storage1 k = Inr w \<and> KeyExistenceProof toyS w (n_teeID ex_node) = Inr ep
         \<and> abi_encode_KeyExistence toyS ep = Inr (sk_KeyExistence pr) \<and> KeyExistenceDataHash toyS ep = Inr dh
         \<and> payload_Hash toyS TEEKeyExistence (n_chainID ex_node) dh = Inr h
         \<and> VerifySignature toyS (hash_bytes h) (sk_Signature pr) (n_teeID ex_node) = Inr ()) [ex_key] proofs" "json_SignedProofs toyS proofs = Inr out"
    using key_proofs_verify [OF toyS_specs ex_node_well_formed out] by auto
  from list_all2_lengthD [OF p(1)] have "length proofs = 1" by simp
  with p(2) out show ?thesis by blast
qed

text \<open>
  C23: an attestation reports this node. The attestation instruction answers only a request that names this node and gives a challenge, and changes
  nothing. The answer repeats the challenge and reports the node's public key, chain, initial and active policies, owner, extension
  and governance; the attestation token is requested for the hash of that report; and the signature on the machine
  data verifies as this node's.
\<close>

theorem attestation_reports_node:
  assumes "ecdsa_spec S" and "node_inv S n" and "TEEAttestation S U n ps Threshold d ms sg p s = (Inr (out, st), s')"
  shows "s' = s \<and> (\<exists>req r ih dh h. DecodeTeeAttestationRequest S (df_OriginalMessage d) = Inr req \<and> at_TeeId req = n_teeID n
    \<and> at_Challenge req \<noteq> 0 \<and> json_TeeInfoResponse S r = Inr out
    \<and> TeeInfo_Hash S (tr_TeeInfo r) = Inr ih \<and> GetGoogleAttestationToken S U [hex_EncodeToString ih] PKITokenType = Inr (tr_Attestation r)
    \<and> ti_Challenge (tr_TeeInfo r) = at_Challenge req \<and> ti_PublicKey (tr_TeeInfo r) = PubKeyToStruct (sk_Pub (n_privateKey n))
    \<and> ti_ChainID (tr_TeeInfo r) = n_chainID n
    \<and> (ti_InitialSigningPolicyID (tr_TeeInfo r), ti_InitialSigningPolicyHash (tr_TeeInfo r),
        ti_LastSigningPolicyID (tr_TeeInfo r), ti_LastSigningPolicyHash (tr_TeeInfo r)) = policy_Info S ps (n_chainID n)
    \<and> md_InitialOwner (tr_MachineData r) = n_initialOwner n \<and> md_ExtensionID (tr_MachineData r) = ext_value (n_extensionID n)
    \<and> md_GovernanceHash (tr_MachineData r) = gov_hash (n_governance n)
    \<and> DataHash S (tr_MachineData r) = Inr dh \<and> payload_Hash S TEEMachineRegister (n_chainID n) dh = Inr h
    \<and> VerifySignature S (hash_bytes h) (tr_DataSignature r) (n_teeID n) = Inr ())"
proof -
  from assms(3) obtain req r where req: "DecodeTeeAttestationRequest S (df_OriginalMessage d) = Inr req" "at_TeeId req = n_teeID n"
    "at_Challenge req \<noteq> 0" and r: "signed_tee_info S U n ps (at_Challenge req) = Inr r" "json_TeeInfoResponse S r = Inr out" and s': "s' = s"
    by (auto simp: TEEAttestation_def stry_eq res_simps ValidateTeeAttestationRequest_def checkTeeAttestation_def split: if_splits)
  show ?thesis by (rule signed_tee_info_Inr [OF assms(1,2) r(1)]) (use req r(2) s' in auto)
qed

definition toyA :: system_env where
  "toyA = toyS\<lparr>abi_TeeAttestation := \<lambda>b. Inr \<lparr>at_TeeId = 9, at_Challenge = 5, at_Rest = []\<rparr>\<rparr>"

lemma toyA_fields [simp]:
  "abi_TeeAttestation toyA = (\<lambda>b. Inr \<lparr>at_TeeId = 9, at_Challenge = 5, at_Rest = []\<rparr>)" "abi_encode_Attestation toyA = (\<lambda>x. Inr [])"
  "abi_pack_TeeMachineData toyA = (\<lambda>x. Inr [])" "json_TeeInfoResponse toyA = (\<lambda>x. Inr [])" "payload_Hash toyA = (\<lambda>tag c h. Inr h)"
  "crypto_Sign toyA = toy_Sign" "TextHash toyA = (\<lambda>b. b)" "PubkeyToAddress toyA = (\<lambda>pk. word_of_nat (pk_X pk))"
  by (simp_all add: toyA_def) (simp_all add: toyS_def processor_env.defs)

definition ax_surroundings :: surroundings where
  "ax_surroundings = \<lparr>su_mode = 1, su_token_post = \<lambda>b. Inl toy_err, su_state_get = \<lambda>u. Inl toy_err, su_state_unjson = \<lambda>b. Inl toy_err, su_now = 7\<rparr>"

theorem attestation_reports_node_witness:
  "\<exists>out (r :: TeeInfoResponse). TEEAttestation toyA ax_surroundings ex_node ix_policies Threshold ix_data [] [] toy_policy () = (Inr (out, []), ())
     \<and> ti_Challenge (tr_TeeInfo r) = 5 \<and> tr_Attestation r = string_bytes MagicPass"
proof -
  obtain out where run: "TEEAttestation toyA ax_surroundings ex_node ix_policies Threshold ix_data [] [] toy_policy () = (Inr (out, []), ())"
    by (simp add: TEEAttestation_def ValidateTeeAttestationRequest_def DecodeTeeAttestationRequest_def checkTeeAttestation_def signed_tee_info_def
        ConstructTEEInfoResponse_def TeeInfo_Hash_def GetGoogleAttestationToken_def DataHash_def Node_Sign_def ax_surroundings_def Let_def
        policy_Info_def InitialPolicyIDAndHash_def ActiveSigningPolicy_def ix_policies_def Node_Info_def ex_node_def fresh_node_def
        Sign_def toy_Sign_def toy_key_def toy_pub_def)
  have "ecdsa_spec toyA" using toyS_specs by (simp add: toyA_def ecdsa_spec_def)
  from attestation_reports_node [OF this ex_node_well_formed [OF toyA_fields(8)] run] obtain req ih and r :: TeeInfoResponse where
    "DecodeTeeAttestationRequest toyA (df_OriginalMessage ix_data) = Inr req" "ti_Challenge (tr_TeeInfo r) = at_Challenge req"
    "GetGoogleAttestationToken toyA ax_surroundings [hex_EncodeToString ih] PKITokenType = Inr (tr_Attestation r)" by blast
  with run show ?thesis
    by (intro exI [of _ out] exI [of _ r]) (auto simp: DecodeTeeAttestationRequest_def GetGoogleAttestationToken_def ax_surroundings_def)
qed

section \<open>Payments\<close>

lemma schedule_status_nat: "i < len \<Longrightarrow> len \<le> MaxFeeEntries \<Longrightarrow> unat (schedule_status len i) = (if i + 1 < len then 3 + i else 1)"
  by (auto simp: schedule_status_def MaxFeeEntries_def unat_word_ariths unat_of_nat)

text \<open>The result that the goroutine of a schedule signs for entry \<open>i\<close>, and what it takes to build a response.\<close>

lemma schedule_response_Inr:
  assumes "schedule_response S n sc i = Inr r"
  shows "ar_ID (rp_Result r) = df_InstructionID (sc_Data sc) \<and> ar_SubmissionTag (rp_Result r) = sc_Tag sc
    \<and> ar_Status (rp_Result r) = schedule_status (length (sc_Entries sc)) i
    \<and> ar_OPType (rp_Result r) = df_OPType (sc_Data sc) \<and> ar_OPCommand (rp_Result r) = df_OPCommand (sc_Data sc)
    \<and> json_XRPSignResponse S (take (i + 1) (sc_SignedTxs sc)) = Inr (ar_Data (rp_Result r))
    \<and> (\<exists>h. payload_Hash S TEEActionResult (sc_ChainID sc) (BytesToHash (ActionResult_Hash S (rp_Result r))) = Inr h
         \<and> Sign S (hash_bytes h) (n_privateKey n) = Inr (rp_Signature r))"
  using assms by (auto simp: schedule_response_def res_simps Let_def Node_Sign_def)

text \<open>The encoding of the transactions, the hash of the payload or the signature for entry \<open>i\<close> fails.\<close>

definition unbuildable :: "'a system_env_scheme \<Rightarrow> Node \<Rightarrow> schedule \<Rightarrow> nat \<Rightarrow> bool" where
  "unbuildable S n sc i \<longleftrightarrow> (\<exists>e. json_XRPSignResponse S (take (i + 1) (sc_SignedTxs sc)) = Inl e)
     \<or> (\<exists>result. json_XRPSignResponse S (take (i + 1) (sc_SignedTxs sc)) = Inr (ar_Data result) \<and> ar_ID result = df_InstructionID (sc_Data sc)
          \<and> ((\<exists>e. payload_Hash S TEEActionResult (sc_ChainID sc) (BytesToHash (ActionResult_Hash S result)) = Inl e)
             \<or> (\<exists>h e. payload_Hash S TEEActionResult (sc_ChainID sc) (BytesToHash (ActionResult_Hash S result)) = Inr h
                  \<and> Sign S (hash_bytes h) (n_privateKey n) = Inl e)))"

lemma schedule_response_Inl:
  assumes "schedule_response S n sc i = Inl e"
  shows "unbuildable S n sc i"
proof (cases "json_XRPSignResponse S (take (i + 1) (sc_SignedTxs sc))")
  case (Inr responseData)
  let ?result = "\<lparr>ar_ID = df_InstructionID (sc_Data sc), ar_SubmissionTag = sc_Tag sc,
           ar_Status = schedule_status (length (sc_Entries sc)) i, ar_Log = None, ar_OPType = df_OPType (sc_Data sc),
           ar_OPCommand = df_OPCommand (sc_Data sc), ar_AdditionalResultStatus = [], ar_Version = EncodingVersion,
           ar_Data = responseData\<rparr>"
  have "(\<exists>e. payload_Hash S TEEActionResult (sc_ChainID sc) (BytesToHash (ActionResult_Hash S ?result)) = Inl e)
      \<or> (\<exists>h e. payload_Hash S TEEActionResult (sc_ChainID sc) (BytesToHash (ActionResult_Hash S ?result)) = Inr h
           \<and> Sign S (hash_bytes h) (n_privateKey n) = Inl e)"
    using assms Inr by (auto simp: schedule_response_def Node_Sign_def Let_def rbind_def split: sum.splits)
  then show ?thesis using Inr unfolding unbuildable_def by (intro disjI2 exI [of _ ?result]) simp
qed (simp add: unbuildable_def)

text \<open>A key that may sign a payment, and a transaction signed by exactly the keys given.\<close>

definition payment_key :: "'a system_env_scheme \<Rightarrow> Storage \<Rightarrow> DataFixed \<Rightarrow> PaymentMsg \<Rightarrow> TeeIdKeyIdPair \<Rightarrow> ecdsa_priv \<Rightarrow> bool" where
  "payment_key S ws d inst pair sk \<longleftrightarrow> (\<exists>w. Get ws \<lparr>kp_WalletID = pm_WalletId inst, kp_KeyID = tk_KeyId pair\<rparr> = Inr w
     \<and> KeyType w = XRPType \<and> SigningAlgo w = XRPSignAlgo
     \<and> CheckMatchingCosigners (df_Cosigners d) (Cosigners w) (df_CosignersThreshold d) (CosignersThreshold w) = Inr ()
     \<and> ToECDSA S (PrivateKey w) = Inr sk)"

definition signed_payment :: "'a system_env_scheme \<Rightarrow> PaymentMsg \<Rightarrow> ecdsa_priv list \<Rightarrow> nat \<Rightarrow> xrp_tx \<Rightarrow> bool" where
  "signed_payment S inst keys i blob \<longleftrightarrow> (\<exists>tx items signers. PaymentTxFromInstruction S inst i = Inr tx
     \<and> (map_of tx ''TransactionType'' = Some (AnyString ''Payment'') \<longrightarrow> CheckNativePayment S tx = Inr ())
     \<and> list_all2 (\<lambda>k item. SignTxMultisig S tx k = Inr item) keys items
     \<and> signer_Sort S items = (signers, []) \<and> JoinMultisigJSON S tx signers = Inr blob)"

lemma signed_payments:
  assumes "rmap (buildSignedTx S inst keys) is = Inr txs"
  shows "list_all2 (signed_payment S inst keys) is txs"
proof -
  have "list_all2 (\<lambda>i blob. buildSignedTx S inst keys i = Inr blob) is txs" using assms by (simp add: rmap_eq_Inr)
  then show ?thesis
  proof (rule list_all2_mono)
    fix i blob assume "buildSignedTx S inst keys i = Inr blob"
    then show "signed_payment S inst keys i blob" by (rule buildSignedTx_Inr) (auto simp: signed_payment_def)
  qed
qed

text \<open>
  C22: a payment is signed and published as scheduled. When a payment instruction succeeds at its threshold, exactly one schedule is started,
  of the instruction's 1 to 50 entries with delays of at most ten minutes, and the number of running schedules stays within 3000.
  Its transactions, one for each entry, are the instruction's payment for that entry, signed by exactly the keys of this node that the
  instruction names, each of them a stored payment key with matching cosigners. Its posts go out
  in the order of the entries, the one for entry \<open>j\<close> at that entry's delay, with the transactions
  signed for the entries up to \<open>j\<close> and the status \<open>3 + j\<close>, or 1 for the last (the 8-bit
  status never wraps), under the instruction's identifier, signed by the node for its chain. Every entry is posted, unless
  encoding, hashing or signing fails for the first that is not.
\<close>

theorem payment_published_as_scheduled:
  assumes "sign_inv s" and "SignXRPLPayment S n ws proxyURL Threshold d ms sg p s = (Inr (out, st), s')"
  shows "\<exists>inst sc keys. ParsePaymentInstruction S d = Inr inst \<and> sg_schedules s' = sg_schedules s @ [sc] \<and> sg_activeRoutines s' = sg_activeRoutines s + 1
    \<and> sg_activeRoutines s' \<le> 3000 \<and> ParseFeeEntries S (pm_FeeSchedule inst) = Inr (sc_Entries sc)
    \<and> 1 \<le> length (sc_Entries sc) \<and> length (sc_Entries sc) \<le> 50 \<and> (\<forall>e \<in> set (sc_Entries sc). fe_Delay e \<le> 600 * 1000000000)
    \<and> keys \<noteq> [] \<and> list_all2 (payment_key S ws d inst) (filter (\<lambda>pair. tk_TeeId pair = n_teeID n) (pm_TeeIdKeyIdPairs inst)) keys
    \<and> list_all2 (signed_payment S inst keys) [0..<length (sc_Entries sc)] (sc_SignedTxs sc)
    \<and> (\<forall>j < length (run_schedule S n sc 0 (sc_Entries sc)). \<exists>r h. run_schedule S n sc 0 (sc_Entries sc) ! j
            = (fe_Delay (sc_Entries sc ! j), the proxyURL @ ''/result'', r)
         \<and> ar_ID (rp_Result r) = df_InstructionID d \<and> ar_SubmissionTag (rp_Result r) = Threshold
         \<and> ar_OPType (rp_Result r) = df_OPType d \<and> ar_OPCommand (rp_Result r) = df_OPCommand d
         \<and> json_XRPSignResponse S (take (j + 1) (sc_SignedTxs sc)) = Inr (ar_Data (rp_Result r))
         \<and> unat (ar_Status (rp_Result r)) = (if j + 1 < length (sc_Entries sc) then 3 + j else 1)
         \<and> payload_Hash S TEEActionResult (n_chainID n) (BytesToHash (ActionResult_Hash S (rp_Result r))) = Inr h
         \<and> Sign S (hash_bytes h) (n_privateKey n) = Inr (rp_Signature r))
    \<and> (length (run_schedule S n sc 0 (sc_Entries sc)) = length (sc_Entries sc)
       \<or> unbuildable S n sc (length (run_schedule S n sc 0 (sc_Entries sc))))"
  using assms(2)
proof (cases rule: SignXRPLPayment_cases)
  case (signed inst entries keys txs)
  then have start: "start_schedule n proxyURL Threshold d entries txs s = (Inr (), s')" by simp
  obtain url chainID where u: "proxyURL = Some url" "Node_ChainID n = Inr chainID" "sg_activeRoutines s < MaxSignGoroutines"
    "s' = s\<lparr>sg_activeRoutines := sg_activeRoutines s + 1, sg_schedules := sg_schedules s @
        [\<lparr>sc_URL = url, sc_ChainID = chainID, sc_Tag = Threshold, sc_Data = d, sc_Entries = entries, sc_SignedTxs = txs\<rparr>]\<rparr>"
    using start_schedule_cases [OF start] by auto
  have chain: "chainID = n_chainID n" using u(2) by (auto simp: Node_ChainID_def split: if_splits)
  define sc where "sc = \<lparr>sc_URL = url, sc_ChainID = chainID, sc_Tag = Threshold, sc_Data = d, sc_Entries = entries, sc_SignedTxs = txs\<rparr>"
  have fees: "entries \<noteq> []" "length entries \<le> MaxFeeEntries" "\<forall>e \<in> set entries. fe_Delay e \<le> MaxFeeScheduleTime"
    using signed(4) by (simp_all add: check_fee_entries_Inr)
  have keys: "list_all2 (payment_key S ws d inst) (filter (\<lambda>pair. tk_TeeId pair = n_teeID n) (pm_TeeIdKeyIdPairs inst)) keys"
    using signed(6) by (simp add: loadPrivateKeys_def rmap_eq_Inr list_all2_map1 loadPrivateKey_Inr payment_key_def [abs_def])
  moreover have "keys \<noteq> []" using keys signed(5) by auto
  moreover have "list_all2 (signed_payment S inst keys) [0..<length entries] txs" by (rule signed_payments [OF signed(7)])
  moreover have "\<exists>r h. run_schedule S n sc 0 entries ! j = (fe_Delay (entries ! j), url @ ''/result'', r)
      \<and> ar_ID (rp_Result r) = df_InstructionID d \<and> ar_SubmissionTag (rp_Result r) = Threshold
      \<and> ar_OPType (rp_Result r) = df_OPType d \<and> ar_OPCommand (rp_Result r) = df_OPCommand d
      \<and> json_XRPSignResponse S (take (j + 1) txs) = Inr (ar_Data (rp_Result r))
      \<and> unat (ar_Status (rp_Result r)) = (if j + 1 < length entries then 3 + j else 1)
      \<and> payload_Hash S TEEActionResult (n_chainID n) (BytesToHash (ActionResult_Hash S (rp_Result r))) = Inr h
      \<and> Sign S (hash_bytes h) (n_privateKey n) = Inr (rp_Signature r)"
    if j: "j < length (run_schedule S n sc 0 entries)" for j
  proof -
    obtain r where r: "run_schedule S n sc 0 entries ! j = (fe_Delay (entries ! j), sc_URL sc @ ''/result'', r)"
      "schedule_response S n sc (0 + j) = Inr r" using run_schedule_nth [OF j] by blast
    have "j < length entries" using j length_run_schedule_le [of S n sc 0 entries] by simp
    then show ?thesis using r schedule_response_Inr [OF r(2)] schedule_status_nat [of j "length entries"] fees(2) by (auto simp: sc_def chain)
  qed
  moreover have "length (run_schedule S n sc 0 entries) = length entries \<or> unbuildable S n sc (length (run_schedule S n sc 0 entries))"
    using run_schedule_stops [of S n sc 0 entries] length_run_schedule_le [of S n sc 0 entries] schedule_response_Inl [of S n sc] by fastforce
  ultimately show ?thesis
    using signed(2,3) u fees
    by (intro exI [of _ inst] exI [of _ sc] exI [of _ keys]) (simp add: sc_def MaxSignGoroutines_def MaxFeeEntries_def MaxFeeScheduleTime_def Suc_le_eq)
qed simp

definition mx_payment :: PaymentMsg where
  "mx_payment = \<lparr>pm_WalletId = 1, pm_TeeIdKeyIdPairs = [\<lparr>tk_TeeId = 9, tk_KeyId = 2\<rparr>, \<lparr>tk_TeeId = 8, tk_KeyId = 5\<rparr>], pm_FeeSchedule = [], pm_Rest = []\<rparr>"

definition mx_entries :: "FeeEntry list" where
  "mx_entries = [\<lparr>fe_Delay = 0, fe_Rest = []\<rparr>, \<lparr>fe_Delay = 60000000000, fe_Rest = []\<rparr>]"

definition toyPay :: system_env where "toyPay = toyS\<lparr>abi_Payment := \<lambda>b. Inr mx_payment, ParseFeeEntries := \<lambda>b. Inr mx_entries\<rparr>"

definition mx_wallet :: Wallet where "mx_wallet = ex_wallet\<lparr>KeyType := XRPType, SigningAlgo := XRPSignAlgo\<rparr>"

definition mx_storage :: Storage where
  "mx_storage = \<lparr>sto_wallets = [(ex_key, Copy_at mx_wallet 0)], sto_permanent = [(ex_key, 0)], sto_heap = [Status mx_wallet]\<rparr>"

definition mx_state :: sign_state where "mx_state = \<lparr>sg_activeRoutines = 0, sg_schedules = []\<rparr>"

lemma toyPay_fields [simp]:
  "abi_Payment toyPay = (\<lambda>b. Inr mx_payment)" "ParseFeeEntries toyPay = (\<lambda>b. Inr mx_entries)" "ToECDSA toyPay = toy_ToECDSA"
  "PaymentTxFromInstruction toyPay = (\<lambda>p i. Inr [])" "SignTxMultisig toyPay = (\<lambda>t k. Inr [])" "signer_Sort toyPay = (\<lambda>x. (x, []))"
  "JoinMultisigJSON toyPay = (\<lambda>t x. Inr t)" "json_XRPSignResponse toyPay = (\<lambda>x. Inr [])"
  by (simp_all add: toyPay_def) (simp_all add: toyS_def processor_env.defs)

lemma mx_key: "loadPrivateKey toyPay mx_storage 1 ex_data 2 = Inr (toy_key 11)"
proof -
  have n: "nat_of_bytes (hash_bytes (11 :: hash)) = 11" by (simp add: hash_bytes_def nat_of_fill_32)
  have "Get mx_storage \<lparr>kp_WalletID = 1, kp_KeyID = 2\<rparr> = Inr mx_wallet"
    by (simp add: Get_def mx_storage_def ex_key_def Copy_stored_def Copy_at_def mx_wallet_def ex_wallet_def)
  then show ?thesis
    by (simp add: loadPrivateKey_def mx_wallet_def ex_wallet_def CheckMatchingCosigners_def ex_data_def toy_ToECDSA_def secp256k1_N_def n)
qed

lemma mx_run: "\<exists>s'. SignXRPLPayment toyPay ex_node mx_storage (Some ''http://p'') Threshold ex_data [] [] toy_policy mx_state = (Inr ([], []), s')"
proof -
  have fees: "check_fee_entries mx_entries = Inr ()"
    by (simp add: check_fee_entries_Inr mx_entries_def MaxFeeEntries_def MaxFeeScheduleTime_def)
  have txs: "rmap (buildSignedTx toyPay mx_payment [toy_key 11]) [0..<length mx_entries] = Inr [[], []]"
    by (simp add: mx_entries_def buildSignedTx_def)
  show ?thesis
    using mx_key fees txs
    by (simp add: SignXRPLPayment_def ParsePaymentInstruction_def loadPrivateKeys_def start_schedule_def sbind_def Node_ChainID_def Let_def
        mx_state_def MaxSignGoroutines_def) (simp add: mx_payment_def)
qed

theorem payment_published_as_scheduled_witness:
  "\<exists>s' sc. SignXRPLPayment toyPay ex_node mx_storage (Some ''http://p'') Threshold ex_data [] [] toy_policy mx_state = (Inr ([], []), s')
     \<and> sg_activeRoutines s' = 1 \<and> sg_schedules s' = [sc] \<and> sc_Entries sc = mx_entries
     \<and> list_all2 (signed_payment toyPay mx_payment [toy_key 11]) [0, 1] (sc_SignedTxs sc)"
proof -
  have inv: "sign_inv mx_state" by (simp add: sign_inv_def mx_state_def MaxSignGoroutines_def)
  obtain s' where s': "SignXRPLPayment toyPay ex_node mx_storage (Some ''http://p'') Threshold ex_data [] [] toy_policy mx_state = (Inr ([], []), s')"
    using mx_run by blast
  from payment_published_as_scheduled [OF inv s'] obtain inst sc keys where
    sc: "ParsePaymentInstruction toyPay ex_data = Inr inst" "sg_schedules s' = sg_schedules mx_state @ [sc]" "sg_activeRoutines s' = sg_activeRoutines mx_state + 1"
    "ParseFeeEntries toyPay (pm_FeeSchedule inst) = Inr (sc_Entries sc)"
    "list_all2 (payment_key toyPay mx_storage ex_data inst) (filter (\<lambda>pair. tk_TeeId pair = n_teeID ex_node) (pm_TeeIdKeyIdPairs inst)) keys"
    "list_all2 (signed_payment toyPay inst keys) [0..<length (sc_Entries sc)] (sc_SignedTxs sc)" by blast
  have inst: "inst = mx_payment" using sc(1) by (simp add: ParsePaymentInstruction_def)
  have "payment_key toyPay mx_storage ex_data mx_payment \<lparr>tk_TeeId = 9, tk_KeyId = 2\<rparr> sk \<Longrightarrow> sk = toy_key 11" for sk
    using mx_key by (auto simp: payment_key_def loadPrivateKey_def mx_payment_def res_simps)
  moreover have "filter (\<lambda>pair. tk_TeeId pair = n_teeID ex_node) (pm_TeeIdKeyIdPairs mx_payment) = [\<lparr>tk_TeeId = 9, tk_KeyId = 2\<rparr>]"
    by (simp add: mx_payment_def)
  ultimately have "keys = [toy_key 11]" using sc(5) by (auto simp: inst list_all2_Cons1)
  moreover have "sc_Entries sc = mx_entries" using sc(4) by simp
  moreover have "[0..<length mx_entries] = [0, 1]" by (simp add: mx_entries_def)
  ultimately have "list_all2 (signed_payment toyPay mx_payment [toy_key 11]) [0, 1] (sc_SignedTxs sc)" "sc_Entries sc = mx_entries"
    using sc(6) by (simp_all add: inst)
  moreover have "sg_activeRoutines s' = 1" "sg_schedules s' = [sc]" using sc(2,3) by (simp_all add: mx_state_def)
  ultimately show ?thesis using s' by blast
qed

text \<open>
  C36: the cap on schedules holds under concurrency. However the callers of the payment instruction interleave between their two
  atomic additions, no more than 3000 schedules ever run, and the counter is the number
  of running schedules plus the number of refused callers that have not yet undone their addition.
\<close>

theorem running_schedules_capped:
  assumes "routine_step\<^sup>*\<^sup>* routine_init s"
  shows "rb_running s \<le> 3000 \<and> rb_counter s = int (rb_running s) + int (rb_rolling_back s)"
  using routine_reachable_inv [OF assms] by (simp add: routine_inv_def MaxSignGoroutines_def)

theorem running_schedules_capped_witness:
  "\<exists>s. routine_step\<^sup>*\<^sup>* routine_init s \<and> rb_running s = 1 \<and> rb_counter s = int (rb_running s) + int (rb_rolling_back s)"
proof -
  let ?s = "routine_init\<lparr>rb_counter := rb_counter routine_init + 1, rb_running := Suc (rb_running routine_init)\<rparr>"
  have "routine_step routine_init ?s" by (rule routine_step.reserve) (simp add: routine_init_def MaxSignGoroutines_def)
  then have "routine_step\<^sup>*\<^sup>* routine_init ?s" by (rule r_into_rtranclp)
  with running_schedules_capped [OF this] show ?thesis by (intro exI [of _ ?s]) (simp add: routine_init_def)
qed

section \<open>The queue worker\<close>

text \<open>
  C37: fetching an action ends. For every proxy, fetching makes at least one and at most three requests, it goes on to another request only after a
  time-out of the one before, and it returns what the last request gave.
\<close>

theorem fetching_ends:
  shows "1 \<le> snd (fetch_loop X url QueueFetchRetries 0) \<and> snd (fetch_loop X url QueueFetchRetries 0) \<le> 3
    \<and> (\<forall>k. k + 1 < snd (fetch_loop X url QueueFetchRetries 0) \<longrightarrow> (\<exists>e. FetchAction X k url = Inl (NetTimeout e)))
    \<and> fetchActionWithRetry X url = (case FetchAction X (snd (fetch_loop X url QueueFetchRetries 0) - 1) url of
         Inl e \<Rightarrow> Inl (fetch_cause e) | Inr a \<Rightarrow> Inr a)"
  using fetch_loop_requests [of 0 QueueFetchRetries X url] fetch_loop_result [of X url QueueFetchRetries 0]
  by (auto simp: QueueFetchRetries_def fetchActionWithRetry_def Suc_le_eq)

definition qx_proxy :: proxy_env where
  "qx_proxy = \<lparr>px_fetch = \<lambda>k u. if k = 0 then Inl (NetTimeout toy_err) else Inr (200, []), px_unjson_Action = \<lambda>b. Inr ix_action,
     px_json_ActionResponse = \<lambda>r. Inr [], px_post = \<lambda>u b. Inr 200\<rparr>"

theorem fetching_ends_witness: "fetchActionWithRetry qx_proxy [] = Inr ix_action"
proof -
  have "FetchAction qx_proxy 0 [] = Inl (NetTimeout toy_err)" "FetchAction qx_proxy (Suc 0) [] = Inr ix_action"
    by (simp_all add: FetchAction_def qx_proxy_def)
  then have "snd (fetch_loop qx_proxy [] QueueFetchRetries 0) = 2"
    by (simp add: fetch_loop.simps [of qx_proxy "[]" 2 0] fetch_loop.simps [of qx_proxy "[]" 2 "Suc 0"] QueueFetchRetries_def)
  with fetching_ends [of qx_proxy "[]"] \<open>FetchAction qx_proxy (Suc 0) [] = Inr ix_action\<close> show ?thesis by simp
qed

section \<open>The servers\<close>

text \<open>
  A signing request is answered. An extension that asks for a signature of a key, naming the wallet in hexadecimal (with or without the
  prefix 0x) and the key in decimal, is answered for exactly that key: with 404 when the key is not stored, with 500
  when the key cannot sign, and otherwise with the message and a signature that, for the two ECDSA algorithms,
  verifies under the wallet's public key.
\<close>

theorem sign_request_answered:
  assumes "ecdsa_spec W" and "toecdsa_spec W" and "sv_unjson_SignRequest V body = Inr msg" and "prefix = [] \<or> prefix = ''0x''"
  shows "signWithKeyHandler W V ws (prefix @ hex_EncodeToString (hash_bytes (kp_WalletID k))) (show_nat (unat (kp_KeyID k))) body
      = (case Get ws k of Inl e \<Rightarrow> HttpError 404 e | Inr w \<Rightarrow> (case Wallet_Sign W w msg of Inl _ \<Rightarrow> HttpError 500 (Err ''can not sign'')
          | Inr sig \<Rightarrow> HttpOK (sv_json_SignResponse V \<lparr>sr_Message = msg, sr_Signature = sig\<rparr>)))
    \<and> (\<forall>w pub sig. Get ws k = Inr w \<longrightarrow> PubKey W w = Inr pub \<longrightarrow> SigningAlgo w = XRPSignAlgo \<or> SigningAlgo w = EVMSignAlgo \<longrightarrow>
         Wallet_Sign W w msg = Inr sig \<longrightarrow> wallets_VerifySignature W msg sig pub (SigningAlgo w) = Inr ())"
proof -
  have params: "hashParam ''walletID'' (prefix @ hex_EncodeToString (hash_bytes (kp_WalletID k))) = Inr (kp_WalletID k)"
    "uint64Param ''keyID'' (show_nat (unat (kp_KeyID k))) = Inr (kp_KeyID k)"
    using assms(4) hashParam_hex [of "''walletID''" "kp_WalletID k"] uint64Param_show [of "''keyID''" "kp_KeyID k"] by auto
  have key: "\<lparr>kp_WalletID = kp_WalletID k, kp_KeyID = kp_KeyID k\<rparr> = k" by simp
  have missing: "Get ws k = Inl e \<Longrightarrow> e = ErrWalletNonExistent" for e by (auto simp: Get_def split: option.splits)
  have "signWithKeyHandler W V ws (prefix @ hex_EncodeToString (hash_bytes (kp_WalletID k))) (show_nat (unat (kp_KeyID k))) body
      = (case Get ws k of Inl e \<Rightarrow> HttpError 404 e | Inr w \<Rightarrow> (case Wallet_Sign W w msg of Inl _ \<Rightarrow> HttpError 500 (Err ''can not sign'')
          | Inr sig \<Rightarrow> HttpOK (sv_json_SignResponse V \<lparr>sr_Message = msg, sr_Signature = sig\<rparr>)))"
    using missing by (auto simp: signWithKeyHandler_def params key assms(3) with_wallet_def rerr_def split: sum.split)
  then show ?thesis using Wallet_Sign_verifies [OF assms(1,2)] by blast
qed

definition vx_server :: server_env where
  "vx_server = \<lparr>sv_unjson_SignRequest = \<lambda>b. Inr b, sv_unjson_DecryptRequest = \<lambda>b. Inr b, sv_unjson_ActionResult = \<lambda>b. Inl toy_err,
     sv_json_KeyExistence = \<lambda>k. Inr [], sv_json_SignResponse = sr_Signature, sv_json_DecryptResponse = \<lambda>b. b\<rparr>"

theorem sign_request_answered_witness:
  "\<exists>sig pub. signWithKeyHandler toy vx_server ex_storage1 (''0x'' @ hex_EncodeToString (hash_bytes 1)) ''2'' [1] = HttpOK sig
     \<and> wallets_VerifySignature toy [1] sig pub EVMSignAlgo = Inr ()"
proof -
  have num: "show_nat (unat (kp_KeyID ex_key)) = ''2''" by (simp add: ex_key_def show_nat.simps) (simp add: char_of_eq_iff take_bit_eq_mod)
  have get: "Get ex_storage1 ex_key = Inr ex_wallet"
    by (simp add: Get_def ex_storage1_def Copy_stored_def Copy_at_def ex_wallet_def)
  have n: "nat_of_bytes (hash_bytes (11 :: hash)) = 11" by (simp add: hash_bytes_def nat_of_fill_32)
  obtain pub sig where s: "PubKey toy ex_wallet = Inr pub" "Wallet_Sign toy ex_wallet [1] = Inr sig"
    by (simp add: PubKey_def ex_wallet_def toy_ToECDSA_def secp256k1_N_def Wallet_Sign_def algos_distinct signKeccak256Secp256k1ECDSA_def toy_Sign_def n)
  have algo: "SigningAlgo ex_wallet = EVMSignAlgo" and w: "kp_WalletID ex_key = 1" by (simp_all add: ex_wallet_def ex_key_def)
  have "sv_unjson_SignRequest vx_server [1] = Inr [1]" by (simp add: vx_server_def)
  from sign_request_answered [OF toy_specs(2,3) this, of "''0x''" ex_storage1 ex_key] show ?thesis
    using get s algo unfolding num w by (auto simp: vx_server_def)
qed

text \<open>
  The ports are usable and the proxy is somebody else. Whatever the environment says, the ports after start-up are valid, different from each other and from the configuration
  port, and the defaults stay when the environment is refused; and an address passes the proxy
  check exactly when it parses and is on another host or on a port that the node does not serve.
\<close>

theorem ports_and_proxy_disjoint:
  assumes "configurePorts env default_ports = (r, p)"
  shows "0 < pt_sign p \<and> pt_sign p \<le> 65535 \<and> 0 < pt_extension p \<and> pt_extension p \<le> 65535 \<and> distinct [5500, pt_sign p, pt_extension p]
    \<and> (r = Inr () \<or> p = default_ports)
    \<and> (ValidateProxyURL N p url = Inr () \<longleftrightarrow> (\<exists>parsed. nt_ParseRequestURI N url = Inr parsed
         \<and> (\<not> isLocalHost N (ur_Hostname parsed) \<or> (\<exists>port. urlPort parsed = Inr port \<and> port \<notin> {5500, pt_sign p, pt_extension p}))))"
proof -
  have "ports_ok default_ports" by (simp add: ports_ok_def default_ports_def ConfigPort_def)
  then have ok: "ports_ok p" by (rule configurePorts_ok [OF assms])
  have "r = Inr () \<or> p = default_ports" using assms setPorts_eq by (auto simp: configurePorts_def stry_eq dest!: setPorts_eq)
  moreover have "ValidateProxyURL N p url = Inr () \<longleftrightarrow> (\<exists>parsed. nt_ParseRequestURI N url = Inr parsed
         \<and> (\<not> isLocalHost N (ur_Hostname parsed) \<or> (\<exists>port. urlPort parsed = Inr port \<and> port \<notin> {5500, pt_sign p, pt_extension p})))"
    by (auto simp: ValidateProxyURL_iff foreign_url_def ConfigPort_def)
  ultimately show ?thesis using ok by (simp add: ports_ok_def ConfigPort_def)
qed

theorem ports_and_proxy_disjoint_witness:
  "\<exists>r p. configurePorts (\<lambda>v. if v = ''SIGN_PORT'' then Some ''5500'' else None) default_ports = (r, p) \<and> p = default_ports
     \<and> distinct [5500, pt_sign p, pt_extension p]"
proof -
  obtain r where run: "configurePorts (\<lambda>v. if v = ''SIGN_PORT'' then Some ''5500'' else None) default_ports = (r, default_ports)"
    by (simp add: configurePorts_def portFromEnv_def Getenv_def signPortEnvVar_def extensionPortEnvVar_def Atoi_def digit_of_def default_ports_def
        setPorts_def check_port_def ConfigPort_def Let_def)
  from ports_and_proxy_disjoint [OF run, of sx_net "[]"] run show ?thesis by blast
qed

end
