(* ===== verification/Props_Replay.thy ===== *)
theory Props_Replay
  imports Props_Wallets
begin

text \<open>
  No instruction on a key is carried out twice: what each of the four handlers that change the storage leaves behind, and
  why that refuses the same instruction for ever.
\<close>

section \<open>What a restore records\<close>

text \<open>A successful restore ends with the key of the instruction in the storage, so it is that key that was stored.\<close>

lemma restore_wallet_records:
  assumes "storage_inv s" and "restore_wallet E n ctx i w k s = (Inr out, s1)"
  shows "nonceOf s1 i = Some k" "storage_inv s1"
proof -
  have r: "restored i w k s s1" and fresh: "walletsOf s i = None" and "\<exists>v. Get s1 i = Inr v"
    using assms(2) by (auto simp: restore_wallet_def stry_eq sbind_eq Let_def res_simps restored_def WalletExists_walletsOf split: if_splits)
  note after = nonceOf_restored [OF assms(1) r]
  then obtain v where "walletsOf s1 i = Some v"
    using \<open>\<exists>v. Get s1 i = Inr v\<close> ws.get_eq [OF after(3), of i] by (cases "walletsOf s1 i") auto
  then have "idPair w = i" using fresh after(2) by (auto split: if_splits)
  then show "nonceOf s1 i = Some k" by (rule after(6))
  show "storage_inv s1" by (rule after(3))
qed

text \<open>The locked section of a restore whose nonce is used up.\<close>

lemma restore_wallet_refused:
  assumes "nonceOf s i = Some m" and "\<not> m < k"
  shows "\<exists>e. restore_wallet E n ctx i w k s = (Inl e, s)"
proof -
  have "WalletExistsPermanent s i" using assms(1) by (simp add: WalletExistsPermanent_nonceOf)
  moreover obtain e where "CheckNonce s i k = Inl e" using assms by (cases "CheckNonce s i k") (auto simp: CheckNonce_nonceOf)
  ultimately show ?thesis by (cases "WalletExists s i") (simp_all add: restore_wallet_def)
qed

lemma restore_wallet_not_replayable:
  assumes "storage_inv s" and "restore_wallet E n ctx i w k s = (Inr out, s1)" and "(wallet_step E B)\<^sup>*\<^sup>* s1 s2"
  shows "\<exists>e. restore_wallet E' n' ctx' i w' k s2 = (Inl e, s2)"
proof -
  note after = restore_wallet_records [OF assms(1,2)]
  from wr.reachable_level [OF assms(3) after(2,1)] obtain m where "nonceOf s2 i = Some m" "k \<le> m" by blast
  then show ?thesis by (intro restore_wallet_refused) auto
qed

section \<open>The handlers\<close>

text \<open>The key and the nonce of a restore are those of its request, whichever node reads it.\<close>

lemma validateKeyDirectRestoreRequest_nonce:
  "validateKeyDirectRestoreRequest n req = Inr k \<Longrightarrow> k = Uint64 (dr_DestinationNonce req)"
  by (auto simp: validateKeyDirectRestoreRequest_def Let_def res_simps split: prod.splits)

lemma keyRestoreDataCheck_same:
  "keyRestoreDataCheck E d t = Inr x \<Longrightarrow> keyRestoreDataCheck E d t' = Inr y \<Longrightarrow> x = y"
  by (auto simp: keyRestoreDataCheck_def res_simps)

lemma KeyDirectRestore_refused:
  assumes "ParseKeyDirectRestore E d = Inr req"
    and "\<And>w. \<exists>e. restore_wallet E n ctx \<lparr>kp_WalletID = bi_WalletId (dr_BackupId req), kp_KeyID = bi_KeyId (dr_BackupId req)\<rparr> w
      (Uint64 (dr_DestinationNonce req)) s = (Inl e, s)"
  shows "\<exists>e. KeyDirectRestore E n ctx Threshold d ms sg p s = (Inl e, s)"
proof (cases "validateKeyDirectRestoreRequest n req")
  case (Inr k)
  note k = validateKeyDirectRestoreRequest_nonce [OF Inr]
  show ?thesis
  proof (cases "open_envelope E n d req")
    case (Inr w)
    from assms(2) [of w] obtain e where
      "restore_wallet E n ctx \<lparr>kp_WalletID = bi_WalletId (dr_BackupId req), kp_KeyID = bi_KeyId (dr_BackupId req)\<rparr> w k s = (Inl e, s)"
      unfolding k by blast
    then show ?thesis
      using Inr assms(1) \<open>validateKeyDirectRestoreRequest n req = Inr k\<close> by (simp add: KeyDirectRestore_def Let_def sbind_def)
  qed (use Inr assms(1) in \<open>simp add: KeyDirectRestore_def Let_def\<close>)
qed (use assms(1) in \<open>simp add: KeyDirectRestore_def\<close>)

lemma KeyDataProviderRestore_refused:
  assumes "keyRestoreDataCheck E d t = Inr (md, nonce)"
    and "\<And>w. \<exists>e. restore_wallet E n ctx \<lparr>kp_WalletID = wb_WalletID (md_ID md), kp_KeyID = wb_KeyID (md_ID md)\<rparr> w nonce s = (Inl e, s)"
  shows "\<exists>e. KeyDataProviderRestore E B n ctx Threshold d ms sg p s = (Inl e, s)"
proof (cases "keyRestoreDataCheck E d (n_teeID n)")
  case (Inr x)
  note x = keyRestoreDataCheck_same [OF Inr assms(1)]
  show ?thesis
  proof (cases "rbind (processKeySplitMessages E n ms (md_ID md)) (\<lambda>(splits, st). RecoverWallet E B splits md)")
    case (Inl e)
    then show ?thesis
      using \<open>keyRestoreDataCheck E d (n_teeID n) = Inr x\<close> x
      by (cases "processKeySplitMessages E n ms (md_ID md)") (auto simp: KeyDataProviderRestore_def Let_def)
  next
    case (Inr w)
    from assms(2) [of w] obtain e where
      "restore_wallet E n ctx \<lparr>kp_WalletID = wb_WalletID (md_ID md), kp_KeyID = wb_KeyID (md_ID md)\<rparr> w nonce s = (Inl e, s)" by blast
    then show ?thesis
      using Inr \<open>keyRestoreDataCheck E d (n_teeID n) = Inr x\<close> x by (auto simp: KeyDataProviderRestore_def Let_def sbind_def res_simps)
  qed
qed (simp add: KeyDataProviderRestore_def)

lemma KeyDirectRestore_success:
  assumes "KeyDirectRestore E n ctx Threshold d ms sg p s = (Inr out, s1)"
  obtains req w enc where "ParseKeyDirectRestore E d = Inr req"
    "restore_wallet E n ctx \<lparr>kp_WalletID = bi_WalletId (dr_BackupId req), kp_KeyID = bi_KeyId (dr_BackupId req)\<rparr> w
      (Uint64 (dr_DestinationNonce req)) s = (Inr enc, s1)"
  using assms
  by (auto simp: KeyDirectRestore_def stry_eq sbind_eq Let_def dest!: validateKeyDirectRestoreRequest_nonce)

lemma KeyDataProviderRestore_success:
  assumes "KeyDataProviderRestore E B n ctx Threshold d ms sg p s = (Inr out, s1)"
  obtains md nonce w enc where "keyRestoreDataCheck E d (n_teeID n) = Inr (md, nonce)"
    "restore_wallet E n ctx \<lparr>kp_WalletID = wb_WalletID (md_ID md), kp_KeyID = wb_KeyID (md_ID md)\<rparr> w nonce s = (Inr enc, s1)"
  using assms by (auto simp: KeyDataProviderRestore_def stry_eq sbind_eq Let_def)

text \<open>What a handler of a key takes from its node: the node, the context and the key drawn.\<close>

type_synonym key_handler = "Node \<Rightarrow> go_error option \<Rightarrow> ecdsa_priv res \<Rightarrow> Storage handler"

definition key_handlers :: "'a backup_env_scheme \<Rightarrow> bigmod \<Rightarrow> key_handler set" where
  "key_handlers E B = {KeyGenerate E, \<lambda>n ctx drawn. KeyDelete E n ctx, \<lambda>n ctx drawn. KeyDataProviderRestore E B n ctx,
     \<lambda>n ctx drawn. KeyDirectRestore E n ctx}"

text \<open>
  C1: no instruction on a key is carried out twice. When a generation, a deletion or a restore of either kind has succeeded at its threshold phase, and
  after any further wallet instructions (the key may have been deleted or restored meanwhile), the same instruction
  is refused and leaves the storage as it is, whoever signs it, whatever messages come with it and
  on whatever node value it runs. So a deleted key comes back only by a restore that was never used.
\<close>

theorem key_instructions_not_replayable:
  assumes "storage_inv s" and "h \<in> key_handlers E B" and "h n ctx drawn Threshold d ms sg p s = (Inr out, s1)"
    and "(wallet_step E B)\<^sup>*\<^sup>* s1 s2"
  shows "\<exists>e. h n' ctx' drawn' Threshold d ms' sg' p' s2 = (Inl e, s2)"
proof -
  consider (generate) "h = KeyGenerate E" | (delete) "h = (\<lambda>n ctx drawn. KeyDelete E n ctx)"
    | (restore) "h = (\<lambda>n ctx drawn. KeyDataProviderRestore E B n ctx)" | (direct) "h = (\<lambda>n ctx drawn. KeyDirectRestore E n ctx)"
    using assms(2) by (auto simp: key_handlers_def)
  then show ?thesis
  proof cases
    case generate
    show ?thesis using key_generated_once [OF assms(1) _ assms(4)] assms(3) unfolding generate .
  next
    case delete
    show ?thesis using delete_not_replayable [OF assms(1) _ assms(4)] assms(3) unfolding delete .
  next
    case restore
    from KeyDataProviderRestore_success [OF assms(3) [unfolded restore]] obtain md nonce w enc where
      c: "keyRestoreDataCheck E d (n_teeID n) = Inr (md, nonce)" and
      r: "restore_wallet E n ctx \<lparr>kp_WalletID = wb_WalletID (md_ID md), kp_KeyID = wb_KeyID (md_ID md)\<rparr> w nonce s = (Inr enc, s1)" by blast
    show ?thesis
      unfolding restore by (rule KeyDataProviderRestore_refused [OF c restore_wallet_not_replayable [OF assms(1) r assms(4)]])
  next
    case direct
    from KeyDirectRestore_success [OF assms(3) [unfolded direct]] obtain req w enc where
      q: "ParseKeyDirectRestore E d = Inr req" and
      r: "restore_wallet E n ctx \<lparr>kp_WalletID = bi_WalletId (dr_BackupId req), kp_KeyID = bi_KeyId (dr_BackupId req)\<rparr> w
        (Uint64 (dr_DestinationNonce req)) s = (Inr enc, s1)" by blast
    show ?thesis
      unfolding direct by (rule KeyDirectRestore_refused [OF q restore_wallet_not_replayable [OF assms(1) r assms(4)]])
  qed
qed

theorem key_instructions_not_replayable_witness:
  "(\<exists>e. ex_run_delete ex_storage2 = (Inl e, ex_storage2)) \<and> (\<exists>e. ex_run_generate ex_storage2 = (Inl e, ex_storage2))"
proof
  have h: "(\<lambda>n ctx drawn. KeyDelete toyW n ctx) \<in> key_handlers toyW bigmod_ref" "KeyGenerate toyW \<in> key_handlers toyW bigmod_ref"
    by (simp_all add: key_handlers_def)
  show "\<exists>e. ex_run_delete ex_storage2 = (Inl e, ex_storage2)"
    by (rule key_instructions_not_replayable [OF ex_inv(1) h(1) ex_delete_step rtranclp.rtrancl_refl])
  obtain out where "ex_run_generate InitializeStorage = (Inr out, ex_storage1)" using ex_generate_step by blast
  then show "\<exists>e. ex_run_generate ex_storage2 = (Inl e, ex_storage2)"
    by (rule key_instructions_not_replayable [OF InitializeStorage_inv h(2) _ ex_runs(2)])
qed

end
