(* ===== verification/Worker.thy ===== *)
theory Worker
  imports System_Steps "HOL-Library.Stream"
begin

text \<open>
  The endless loop of a queue worker, \<open>ServeQueue\<close> of \<^verbatim>\<open>src/internal/router/router.go\<close>: a function from the stream of
  what each iteration meets to the stream of what it does. Between two iterations the other
  workers, the servers and the payment schedules move the state. A panic that no recovery catches ends the program: from then
  on the stream holds no iteration. (The goroutine of the processing has a recovery of its own, in the theory of the
  router; that this recovery does not itself panic is taken for granted.)
\<close>

section \<open>The loop\<close>

text \<open>
  What an iteration meets: the proxy's answers, the address it reads to post, the router with
  the randomness and the cancellations of this iteration, how the processing ends, where else the iteration panics,
  and what happens before the next one.
\<close>

record worker_input =
  wi_net :: proxy_env
  wi_postURL :: string
  wi_router :: "system Router"
  wi_attempt :: "system attempt"
  wi_panics :: panics
  wi_meanwhile :: "system \<Rightarrow> system"

text \<open>What it does; no time to sleep is returned when it ends in a panic that nothing recovers.\<close>

record worker_output =
  wo_pause :: "nat option"
  wo_posts :: "ActionResponse list"
  wo_state :: system

definition iteration :: "'a system_env_scheme \<Rightarrow> string \<Rightarrow> worker_input \<Rightarrow> system \<Rightarrow> worker_output" where
  "iteration S q w s =
     (case serveQueueIteration S (wi_net w) sy_node (sy_proxyURL s) (wi_postURL w) q (wi_router w) (wi_attempt w) (wi_panics w) s of
        (pause, posts, s') \<Rightarrow> \<lparr>wo_pause = pause, wo_posts = posts, wo_state = s'\<rparr>)"

text \<open>The state in which the next iteration starts, if there is one.\<close>

definition after_iteration :: "'a system_env_scheme \<Rightarrow> string \<Rightarrow> worker_input \<Rightarrow> system option \<Rightarrow> system option" where
  "after_iteration S q w running =
     (case running of None \<Rightarrow> None
      | Some s \<Rightarrow> (case wo_pause (iteration S q w s) of None \<Rightarrow> None | Some _ \<Rightarrow> Some (wi_meanwhile w (wo_state (iteration S q w s)))))"

primcorec ServeQueue :: "'a system_env_scheme \<Rightarrow> string \<Rightarrow> system option \<Rightarrow> worker_input stream \<Rightarrow> worker_output option stream" where
  "shd (ServeQueue S q running ws) = map_option (iteration S q (shd ws)) running"
| "stl (ServeQueue S q running ws) = ServeQueue S q (after_iteration S q (shd ws) running) (stl ws)"

section \<open>The state along the loop\<close>

text \<open>The state in which iteration \<open>n\<close> starts, if the program still runs.\<close>

fun state_at :: "'a system_env_scheme \<Rightarrow> string \<Rightarrow> system option \<Rightarrow> worker_input stream \<Rightarrow> nat \<Rightarrow> system option" where
  "state_at S q running ws 0 = running"
| "state_at S q running ws (Suc n) = after_iteration S q (ws !! n) (state_at S q running ws n)"

lemma state_at_shift: "state_at S q (after_iteration S q (shd ws) running) (stl ws) n = state_at S q running ws (Suc n)"
  by (induction n) simp_all

lemma ServeQueue_nth: "ServeQueue S q running ws !! n = map_option (iteration S q (ws !! n)) (state_at S q running ws n)"
proof (induction n arbitrary: running ws)
  case (Suc n)
  have "ServeQueue S q running ws !! Suc n = ServeQueue S q (after_iteration S q (shd ws) running) (stl ws) !! n" by simp
  also have "\<dots> = map_option (iteration S q (ws !! Suc n)) (state_at S q running ws (Suc n))" unfolding Suc.IH state_at_shift by simp
  finally show ?case .
qed simp

text \<open>The action that an iteration takes from the queue, if any.\<close>

definition taken :: "proxy_env \<Rightarrow> panics \<Rightarrow> string \<Rightarrow> string \<Rightarrow> Action option" where
  "taken X pn url q = (if url = [] \<or> pn_fetch pn \<noteq> None then None
     else case fetchActionWithRetry X (url @ ''/queue/'' @ q) of
       Inl e \<Rightarrow> None
     | Inr a \<Rightarrow> if ad_ID (ac_Data a) = 0 then None else Some a)"

text \<open>The inputs of a worker of this node.\<close>

definition worker_run :: "'a system_env_scheme \<Rightarrow> bigmod \<Rightarrow> net_env \<Rightarrow> ports \<Rightarrow> string \<Rightarrow> system \<Rightarrow> worker_input stream \<Rightarrow> bool" where
  "worker_run S B N pt q s ws \<longleftrightarrow> (\<forall>n t. state_at S q (Some s) ws n = Some t \<longrightarrow> (let w = ws !! n; t' = wo_state (iteration S q w t) in
     router S B (wi_router w)
     \<and> (\<forall>a. fetchActionWithRetry (wi_net w) (sy_proxyURL t @ ''/queue/'' @ q) = Inr a \<longrightarrow> possible_attempt S (wi_router w) a t (wi_attempt w))
     \<and> (system_step S B N pt)\<^sup>*\<^sup>* t' (wi_meanwhile w t')))"

lemma iteration_step:
  assumes "worker_run S B N pt q s ws" and "state_at S q (Some s) ws n = Some t"
  shows "system_step S B N pt t (wo_state (iteration S q (ws !! n) t))"
proof -
  let ?w = "ws !! n"
  have "system_step S B N pt t (snd (snd (serveQueueIteration S (wi_net ?w) sy_node (sy_proxyURL t) (wi_postURL ?w) q
      (wi_router ?w) (wi_attempt ?w) (wi_panics ?w) t)))"
    by (rule system_step.serve) (use assms in \<open>simp_all add: worker_run_def Let_def\<close>)
  then show ?thesis by (simp add: iteration_def split_def)
qed

lemma worker_inv:
  assumes "worker_run S B N pt q s ws" and "system_inv S N pt s" and "state_at S q (Some s) ws n = Some t"
  shows "system_inv S N pt t \<and> system_inv S N pt (wo_state (iteration S q (ws !! n) t))"
  using assms(3)
proof (induction n arbitrary: t)
  case 0
  then show ?case using system_step_inv [OF iteration_step [OF assms(1) "0.prems"]] assms(2) by simp
next
  case (Suc n)
  obtain t0 where t0: "state_at S q (Some s) ws n = Some t0" "t = wi_meanwhile (ws !! n) (wo_state (iteration S q (ws !! n) t0))"
    using Suc.prems by (auto simp: after_iteration_def split: option.splits)
  have "(system_step S B N pt)\<^sup>*\<^sup>* (wo_state (iteration S q (ws !! n) t0)) t"
    using assms(1) t0 by (simp add: worker_run_def Let_def)
  then have "system_inv S N pt t" using system_steps_inv Suc.IH [OF t0(1)] by blast
  then show ?case using system_step_inv [OF iteration_step [OF assms(1) Suc.prems]] by blast
qed

text \<open>While no recovery panics, the program runs on.\<close>

lemma iteration_returns:
  assumes "pn_recovery (wi_panics w) = None"
  shows "wo_pause (iteration S q w s) \<noteq> None"
  using assms by (auto simp: iteration_def serveQueueIteration_def Let_def split: prod.split iteration_end.split)

lemma runs_on:
  assumes "\<forall>n. pn_recovery (wi_panics (ws !! n)) = None"
  shows "\<exists>t. state_at S q (Some s) ws n = Some t"
proof (induction n)
  case (Suc n)
  then obtain t where t: "state_at S q (Some s) ws n = Some t" by blast
  have "wo_pause (iteration S q (ws !! n) t) \<noteq> None" by (rule iteration_returns) (use assms in blast)
  then show ?case using t by (auto simp: after_iteration_def)
qed simp

end
