(* ===== verification/Props_Router.thy ===== *)
theory Props_Router
  imports Props_System Props_Services Worker
begin

text \<open>
  What the proxy receives for an action, however its processing ends.
\<close>

section \<open>Results carry the identity of their action\<close>

lemma route_id_tag:
  assumes "(t, c, p) \<in> set (direct_routes S B I @ wallet_routes S B I @ pmw_routes S)"
  shows "ar_ID (fst (p a s)) = ad_ID (ac_Data a)" "ar_SubmissionTag (fst (p a s)) = ad_SubmissionTag (ac_Data a)"
  using assms
  by (auto simp: direct_Process_id_tag Process_id_tag direct_routes_def wallet_routes_def pmw_routes_def wallet_processor_def reading_processor_def payment_processor_def split_beta)

lemma table_id_tag:
  assumes "NewPMWRouter S B I = Inr r \<or> NewForwardRouter S B Y port I = Inr r" and "map_of (rt_routs r) i = Some p"
  shows "ar_ID (fst (p a s)) = ad_ID (ac_Data a) \<and> ar_SubmissionTag (fst (p a s)) = ad_SubmissionTag (ac_Data a)"
proof -
  have "\<exists>t c. (t, c, p) \<in> set (direct_routes S B I @ wallet_routes S B I @ pmw_routes S)"
    using assms(1)
  proof
    assume "NewPMWRouter S B I = Inr r"
    then show ?thesis using register_all_Inr(3) [of S _ New r i p] assms(2) by (fastforce simp: NewPMWRouter_def New_def)
  next
    assume "NewForwardRouter S B Y port I = Inr r"
    then obtain r0 where r0: "register_all S (direct_routes S B I @ wallet_routes S B I) New = Inr r0" "rt_routs r = rt_routs r0"
      by (auto simp: NewForwardRouter_def res_simps RegisterDefaultInstruction_def RegisterDefaultDirect_def split: if_splits)
    then show ?thesis using register_all_Inr(3) [OF r0(1), of i p] assms(2) by (auto simp: New_def)
  qed
  then show ?thesis using route_id_tag by metis
qed

lemma Invalid_id_tag [simp]:
  "ar_ID (Invalid P a e) = ad_ID (ac_Data a)" "ar_SubmissionTag (Invalid P a e) = ad_SubmissionTag (ac_Data a)" "ar_Status (Invalid P a e) = 0"
  by (simp_all add: Invalid_def Let_def)

lemma process_id_tag:
  assumes "NewPMWRouter S B I = Inr r
    \<or> NewForwardRouter S B Y port I = Inr r \<and> (\<exists>i. GetOpID S (snd (CheckAndAdapt a)) = Inr i \<and> map_of (rt_routs r) i \<noteq> None)"
  shows "ar_ID (fst (process S r a s)) = ad_ID (ac_Data a) \<and> ar_SubmissionTag (fst (process S r a s)) = ad_SubmissionTag (ac_Data a)"
proof -
  have table: "NewPMWRouter S B I = Inr r \<or> NewForwardRouter S B Y port I = Inr r" using assms by blast
  have own: "map_of (rt_routs r) i \<noteq> None \<or> rt_defaultDirect r = None \<and> rt_defaultInstruction r = None"
    if "CheckAndAdapt a = (Inr (), a')" "GetOpID S a' = Inr i" for a' i
    using assms
  proof
    assume "NewPMWRouter S B I = Inr r"
    then show ?thesis using register_all_Inr(4,5) [of S _ New r] by (fastforce simp: NewPMWRouter_def New_def)
  qed (use that in auto)
  show ?thesis
  proof (cases rule: process_cases [of S r a s])
    case (routed a' i p)
    then show ?thesis using table_id_tag [OF table routed(3), of a' s] CheckAndAdapt_Data [of a] by simp
  next
    case (default_direct a' i p)
    then show ?thesis using own [of a' i] by simp
  next
    case (default_instruction a' i p)
    then show ?thesis using own [of a' i] by simp
  qed simp
qed

section \<open>Every action is answered\<close>

text \<open>
  \<open>posts\<close> answer with \<open>result\<close>: one response with this result, signed by \<open>n\<close>, or with its log replaced and unsigned where it could not
  be signed; and a second, unsigned failure exactly when the first was not accepted.
\<close>

definition answered :: "'a processor_env_scheme \<Rightarrow> proxy_env \<Rightarrow> string \<Rightarrow> Node \<Rightarrow> ActionResult \<Rightarrow> ActionResponse list \<Rightarrow> bool" where
  "answered P X postURL n result posts \<longleftrightarrow>
     (\<exists>resp. (rp_Result resp = result \<and> (\<exists>chainID h. Node_ChainID n = Inr chainID
            \<and> payload_Hash P TEEActionResult chainID (BytesToHash (ActionResult_Hash P result)) = Inr h
            \<and> VerifySignature P (hash_bytes h) (rp_Signature resp) (n_teeID n) = Inr ())
         \<or> (\<exists>log. rp_Result resp = result\<lparr>ar_Log := Some log\<rparr>) \<and> rp_Signature resp = [])
       \<and> (if PostActionResponse X (postURL @ ''/result'') resp = Inr () then posts = [resp]
          else \<exists>fallback. posts = [resp, fallback] \<and> rp_Signature fallback = [] \<and> ar_Status (rp_Result fallback) = 0))"

lemma signAndPost_answered:
  assumes "ecdsa_spec P" and "node_inv P n"
  shows "answered P X postURL n result (signAndPost P X n postURL result)"
proof -
  let ?resp = "fst (SignResult P n result)"
  have posts: "if PostActionResponse X (postURL @ ''/result'') ?resp = Inr () then signAndPost P X n postURL result = [?resp]
      else \<exists>fallback. signAndPost P X n postURL result = [?resp, fallback] \<and> rp_Signature fallback = [] \<and> ar_Status (rp_Result fallback) = 0"
    by (auto simp: signAndPost_def Let_def errorResult_def split: sum.splits)
  show ?thesis
    using SignResult_result [of P n result]
  proof
    assume ok: "rp_Result ?resp = result \<and> snd (SignResult P n result) = Inr ()"
    then have "SignResult P n result = (?resp, Inr ())" by (metis prod.collapse)
    from SignResult_signed [OF assms this] show ?thesis unfolding answered_def using ok posts by metis
  next
    assume "(\<exists>log. rp_Result ?resp = result\<lparr>ar_Log := Some log\<rparr>) \<and> rp_Signature ?resp = [] \<and> snd (SignResult P n result) \<noteq> Inr ()"
    then show ?thesis unfolding answered_def using posts by (intro exI [of _ ?resp]) auto
  qed
qed

text \<open>The routers that have a processor of the node's own for the action.\<close>

definition own_processor :: "'a system_env_scheme \<Rightarrow> bigmod \<Rightarrow> system Router \<Rightarrow> Action \<Rightarrow> bool" where
  "own_processor S B r a \<longleftrightarrow> (\<exists>I. NewPMWRouter S B I = Inr r)
     \<or> (\<exists>Y port I. NewForwardRouter S B Y port I = Inr r) \<and> (\<exists>i. GetOpID S (snd (CheckAndAdapt a)) = Inr i \<and> map_of (rt_routs r) i \<noteq> None)"

lemma own_id_tag:
  assumes "own_processor S B r a"
  shows "ar_ID (fst (process S r a s)) = ad_ID (ac_Data a) \<and> ar_SubmissionTag (fst (process S r a s)) = ad_SubmissionTag (ac_Data a)"
  using assms unfolding own_processor_def
proof
  assume "\<exists>I. NewPMWRouter S B I = Inr r"
  then obtain I where "NewPMWRouter S B I = Inr r" by blast
  then show ?thesis by (rule process_id_tag [OF disjI1])
next
  assume *: "(\<exists>Y port I. NewForwardRouter S B Y port I = Inr r) \<and> (\<exists>i. GetOpID S (snd (CheckAndAdapt a)) = Inr i \<and> map_of (rt_routs r) i \<noteq> None)"
  then obtain Y port I where "NewForwardRouter S B Y port I = Inr r" by blast
  then show ?thesis by (rule process_id_tag [OF disjI2 [OF conjI [OF _ conjunct2 [OF *]]]])
qed

text \<open>The result that a worker obtains for an action carries the identity of the action, unless it is the one that an extension returned.\<close>

lemma attempt_id_tag:
  assumes "own_processor S B r a \<or> attempt \<noteq> Returned"
  shows "ar_ID (fst (processWithTimeout S r attempt a s)) = ad_ID (ac_Data a)
    \<and> ar_SubmissionTag (fst (processWithTimeout S r attempt a s)) = ad_SubmissionTag (ac_Data a)"
  using assms own_id_tag [of S B r a s] by (cases attempt) (auto simp: processWithTimeout_def)

lemma attempt_failed: "attempt \<noteq> Returned \<Longrightarrow> ar_Status (fst (processWithTimeout S r attempt a s)) = 0"
  by (cases attempt) (auto simp: processWithTimeout_def)

text \<open>
  What an iteration owes. The failure of a recovered panic; \<open>pn\<close> says where the iteration panicked, and \<open>first\<close> is what it
  had posted until then.
\<close>

definition recovered :: "'a processor_env_scheme \<Rightarrow> proxy_env \<Rightarrow> Node \<Rightarrow> panics \<Rightarrow> Action option \<Rightarrow> string \<Rightarrow> ActionResponse list \<Rightarrow> bool" where
  "recovered P X n pn action msg posts \<longleftrightarrow>
     answered P X (pn_url pn) n (errorResult P action (Wrapped ''internal error: panic'' (Panic msg))) posts"

definition answered_or_recovered ::
  "'a processor_env_scheme \<Rightarrow> proxy_env \<Rightarrow> string \<Rightarrow> Node \<Rightarrow> panics \<Rightarrow> Action option \<Rightarrow> ActionResult \<Rightarrow> ActionResponse list \<Rightarrow> bool" where
  "answered_or_recovered P X postURL n pn action result posts \<longleftrightarrow> (case pn_answer pn of
     None \<Rightarrow> answered P X postURL n result posts
   | Some (k, msg) \<Rightarrow> (\<exists>first rest. posts = first @ rest \<and> length first \<le> k \<and> recovered P X n pn action msg rest))"

lemma answering_recovered:
  assumes "ecdsa_spec S" and "node_inv S (sy_node s')" and "pn_recovery pn = None"
    and "iteration_body S X sy_node url postURL q r attempt pn s = answering pn pause action (signAndPost S X (sy_node s') postURL result) s'"
  shows "\<exists>posts. serveQueueIteration S X sy_node url postURL q r attempt pn s = (Some (if pn_answer pn = None then pause else 0), posts, s')
    \<and> answered_or_recovered S X postURL (sy_node s') pn action result posts"
proof (cases "pn_answer pn")
  case None
  then show ?thesis
    using signAndPost_answered [OF assms(1,2)] by (simp add: serveQueueIteration_def assms(4) answering_def answered_or_recovered_def)
next
  case (Some panic)
  obtain k msg where panic: "panic = (k, msg)" by (rule prod.exhaust)
  let ?posts = "signAndPost S X (sy_node s') postURL result"
    and ?rest = "signAndPost S X (sy_node s') (pn_url pn) (errorResult S action (Wrapped ''internal error: panic'' (Panic msg)))"
  have run: "serveQueueIteration S X sy_node url postURL q r attempt pn s = (Some 0, take k ?posts @ ?rest, s')"
    using Some assms(3) by (simp add: serveQueueIteration_def assms(4) answering_def panic Let_def)
  have "recovered S X (sy_node s') pn action msg ?rest"
    unfolding recovered_def by (rule signAndPost_answered [OF assms(1,2)])
  moreover have "length (take k ?posts) \<le> k" by simp
  ultimately have "answered_or_recovered S X postURL (sy_node s') pn action result (take k ?posts @ ?rest)"
    unfolding answered_or_recovered_def Some panic option.case prod.case by blast
  then show ?thesis using run Some by simp
qed

text \<open>
  With an action taken, the worker goes on at once, in the state that the processing left, and has answered with the result of the
  processing. Without one, the state is as before, and the worker goes on at once only after a panic that it has answered.
\<close>

definition action_served :: "'a system_env_scheme \<Rightarrow> bigmod \<Rightarrow> worker_input \<Rightarrow> system \<Rightarrow> Action \<Rightarrow> worker_output \<Rightarrow> bool" where
  "action_served S B w t a out \<longleftrightarrow>
     (let result = fst (processWithTimeout S (wi_router w) (wi_attempt w) a t) in
      wo_pause out = Some 0 \<and> wo_state out = snd (processWithTimeout S (wi_router w) (wi_attempt w) a t)
      \<and> answered_or_recovered S (wi_net w) (wi_postURL w) (sy_node (wo_state out)) (wi_panics w) (Some a) result (wo_posts out)
      \<and> (own_processor S B (wi_router w) a \<or> wi_attempt w \<noteq> Returned \<longrightarrow>
           ar_ID result = ad_ID (ac_Data a) \<and> ar_SubmissionTag result = ad_SubmissionTag (ac_Data a))
      \<and> (wi_attempt w \<noteq> Returned \<longrightarrow> ar_Status result = 0))"

definition idled :: "'a system_env_scheme \<Rightarrow> worker_input \<Rightarrow> system \<Rightarrow> worker_output \<Rightarrow> bool" where
  "idled S w t out \<longleftrightarrow> wo_state out = t
     \<and> ((\<exists>pause > 0. wo_pause out = Some pause)
        \<or> wo_pause out = Some 0 \<and> (\<exists>msg first rest. wo_posts out = first @ rest \<and> recovered S (wi_net w) (sy_node t) (wi_panics w) None msg rest
             \<and> (pn_fetch (wi_panics w) = Some msg \<or> (\<exists>k. pn_answer (wi_panics w) = Some (k, msg)))))"

lemma iteration_serves:
  assumes "ecdsa_spec S" and "node_inv S (sy_node t)" and "node_inv S (sy_node (wo_state (iteration S q w t)))"
    and "pn_recovery (wi_panics w) = None"
  shows "case taken (wi_net w) (wi_panics w) (sy_proxyURL t) q of
      None \<Rightarrow> idled S w t (iteration S q w t)
    | Some a \<Rightarrow> action_served S B w t a (iteration S q w t)"
proof -
  let ?pn = "wi_panics w" and ?X = "wi_net w" and ?url = "sy_proxyURL t @ ''/queue/'' @ q"
  let ?body = "iteration_body S ?X sy_node (sy_proxyURL t) (wi_postURL w) q (wi_router w) (wi_attempt w) ?pn t"
  let ?it = "serveQueueIteration S ?X sy_node (sy_proxyURL t) (wi_postURL w) q (wi_router w) (wi_attempt w) ?pn t"
  have out: "wo_pause (iteration S q w t) = fst ?it" "wo_posts (iteration S q w t) = fst (snd ?it)" "wo_state (iteration S q w t) = snd (snd ?it)"
    by (simp_all add: iteration_def split_def)
  consider (off) "sy_proxyURL t = []" | (fetch_panics) msg where "sy_proxyURL t \<noteq> []" "pn_fetch ?pn = Some msg"
    | (no_fetch) e where "sy_proxyURL t \<noteq> []" "pn_fetch ?pn = None" "fetchActionWithRetry ?X ?url = Inl e"
    | (empty) a where "sy_proxyURL t \<noteq> []" "pn_fetch ?pn = None" "fetchActionWithRetry ?X ?url = Inr a" "ad_ID (ac_Data a) = 0"
    | (action) a where "sy_proxyURL t \<noteq> []" "pn_fetch ?pn = None" "fetchActionWithRetry ?X ?url = Inr a" "ad_ID (ac_Data a) \<noteq> 0"
    by (cases "fetchActionWithRetry ?X ?url") blast+
  then show ?thesis
  proof cases
    case off
    then have "?it = (Some QueuedActionsSleepTime, [], t)" by (simp add: serveQueueIteration_def iteration_body_def)
    then show ?thesis using off by (simp add: taken_def idled_def out QueuedActionsSleepTime_def)
  next
    case (fetch_panics msg)
    let ?rest = "signAndPost S ?X (sy_node t) (pn_url ?pn) (errorResult S None (Wrapped ''internal error: panic'' (Panic msg)))"
    have it: "?it = (Some 0, [] @ ?rest, t)"
      using fetch_panics assms(4) by (simp add: serveQueueIteration_def iteration_body_def Let_def)
    have "recovered S ?X (sy_node t) ?pn None msg ?rest"
      unfolding recovered_def by (rule signAndPost_answered [OF assms(1,2)])
    then have "idled S w t (iteration S q w t)" unfolding idled_def out it fst_conv snd_conv using fetch_panics(2) by blast
    then show ?thesis using fetch_panics by (simp add: taken_def)
  next
    case (no_fetch e)
    have "?body = answering ?pn QueuedActionsSleepTime None
        (signAndPost S ?X (sy_node t) (wi_postURL w) (errorResult S None (Wrapped ''error fetching action'' e))) t"
      using no_fetch by (simp add: iteration_body_def)
    from answering_recovered [OF assms(1,2,4) this] obtain posts where
      it: "?it = (Some (if pn_answer ?pn = None then QueuedActionsSleepTime else 0), posts, t)"
      and posts: "answered_or_recovered S ?X (wi_postURL w) (sy_node t) ?pn None (errorResult S None (Wrapped ''error fetching action'' e)) posts" by blast
    have "idled S w t (iteration S q w t)"
    proof (cases "pn_answer ?pn")
      case None
      then show ?thesis by (simp add: idled_def out it QueuedActionsSleepTime_def)
    next
      case (Some panic)
      obtain k msg where panic: "panic = (k, msg)" by (rule prod.exhaust)
      then show ?thesis
        using posts unfolding idled_def out it fst_conv snd_conv answered_or_recovered_def Some panic option.case prod.case by auto
    qed
    then show ?thesis using no_fetch by (simp add: taken_def)
  next
    case (empty a)
    then have "?it = (Some QueuedActionsPauseTime, [], t)" by (simp add: serveQueueIteration_def iteration_body_def)
    then show ?thesis using empty by (simp add: taken_def idled_def out QueuedActionsPauseTime_def)
  next
    case (action a)
    let ?run = "processWithTimeout S (wi_router w) (wi_attempt w) a t"
    have body: "?body = answering ?pn 0 (Some a) (signAndPost S ?X (sy_node (snd ?run)) (wi_postURL w) (fst ?run)) (snd ?run)"
      using action by (simp add: iteration_body_def split_def)
    have state: "snd (snd ?it) = snd ?run"
      by (auto simp: serveQueueIteration_def body answering_def Let_def split: option.split)
    then have "node_inv S (sy_node (snd ?run))" using assms(3) by (simp add: out)
    from answering_recovered [OF assms(1) this assms(4) body] obtain posts where
      "?it = (Some 0, posts, snd ?run)" "answered_or_recovered S ?X (wi_postURL w) (sy_node (snd ?run)) ?pn (Some a) (fst ?run) posts"
      by (auto split: if_splits)
    moreover note attempt_id_tag [of S B "wi_router w" a "wi_attempt w" t] attempt_failed [of "wi_attempt w" S "wi_router w" a t]
    ultimately have "action_served S B w t a (iteration S q w t)" unfolding action_served_def out Let_def by simp
    then show ?thesis using action by (simp add: taken_def)
  qed
qed

lemma qx_fetched: "fetchActionWithRetry qx_proxy url = Inr ix_action"
proof -
  have "FetchAction qx_proxy 0 url = Inl (NetTimeout toy_err)" "FetchAction qx_proxy (Suc 0) url = Inr ix_action"
    by (simp_all add: FetchAction_def qx_proxy_def)
  then show ?thesis
    unfolding fetchActionWithRetry_def QueueFetchRetries_def by (subst fetch_loop.simps, simp, subst fetch_loop.simps, simp)
qed

section \<open>The endless loop\<close>

text \<open>
  C8: a worker serves for ever. Whatever the proxy answers, however processings end (in time, with a panic or abandoned), wherever else an
  iteration panics (only the recovery itself does not) and whatever the rest of the node does in between: every iteration of a worker's loop is
  reached and returns, and the state is well-formed before and after. If it takes an action from the queue, then
  it goes on without a pause, in the state that the processing left, and it has answered with the result of the processing,
  by one response, signed or saying in its log why it is not, and by a second, unsigned failure only when the
  first could not be posted; if it panicked while answering, it has answered with a failure for the action. The result
  carries the action's identifier and tag when the node has a processor of its own for it or the processing did not return, and is then a
  failure in the second case. If it takes none, it leaves the state alone and pauses, unless it panicked, which it has reported.
\<close>

theorem worker_serves_forever:
  assumes "ecdsa_spec S" and "system_inv S N pt s" and "worker_run S B N pt q s ws" and "\<forall>n. pn_recovery (wi_panics (ws !! n)) = None"
  shows "\<forall>n. \<exists>t out. state_at S q (Some s) ws n = Some t \<and> ServeQueue S q (Some s) ws !! n = Some out
    \<and> system_inv S N pt t \<and> system_inv S N pt (wo_state out)
    \<and> (case taken (wi_net (ws !! n)) (wi_panics (ws !! n)) (sy_proxyURL t) q of
         None \<Rightarrow> idled S (ws !! n) t out
       | Some a \<Rightarrow> action_served S B (ws !! n) t a out)"
proof
  fix n
  obtain t where t: "state_at S q (Some s) ws n = Some t" using runs_on [OF assms(4)] by blast
  have inv: "system_inv S N pt t \<and> system_inv S N pt (wo_state (iteration S q (ws !! n) t))" by (rule worker_inv [OF assms(3,2) t])
  then have nodes: "node_inv S (sy_node t)" "node_inv S (sy_node (wo_state (iteration S q (ws !! n) t)))" by (simp_all add: system_inv_def)
  have "ServeQueue S q (Some s) ws !! n = Some (iteration S q (ws !! n) t)" by (simp add: ServeQueue_nth t)
  then show "\<exists>t out. state_at S q (Some s) ws n = Some t \<and> ServeQueue S q (Some s) ws !! n = Some out
    \<and> system_inv S N pt t \<and> system_inv S N pt (wo_state out)
    \<and> (case taken (wi_net (ws !! n)) (wi_panics (ws !! n)) (sy_proxyURL t) q of
         None \<Rightarrow> idled S (ws !! n) t out
       | Some a \<Rightarrow> action_served S B (ws !! n) t a out)"
    using t inv iteration_serves [OF assms(1) nodes spec [OF assms(4)]] by blast
qed

definition wx_system :: system where "wx_system = sx_system\<lparr>sy_proxyURL := ''http://localhost:80''\<rparr>"

lemma wx_inv: "system_inv toyS sx_net default_ports wx_system"
proof -
  have "storage_inv ex_storage1" using wallet_step_ratchet(1) [OF ex_steps(1) InitializeStorage_inv] .
  moreover have "sign_inv \<lparr>sg_activeRoutines = 0, sg_schedules = []\<rparr>" by (simp add: sign_inv_def MaxSignGoroutines_def)
  ultimately show ?thesis
    using sx_url ix_policies_inv ex_node_well_formed [of toyS] by (simp add: system_inv_def wx_system_def sx_system_def)
qed

text \<open>A worker whose posting of the answer panics each time, before the first request.\<close>

theorem worker_serves_forever_witness:
  "\<exists>w out. ServeQueue toyS Direct (Some wx_system) (sconst w) !! 0 = Some out \<and> pn_answer (wi_panics w) = Some (0, ''p'')
    \<and> wo_pause out = Some 0 \<and> (\<exists>n. recovered toyS qx_proxy n (wi_panics w) (Some ix_action) ''p'' (wo_posts out))"
proof -
  obtain r where r: "NewPMWRouter toyS bigmod_ref sx_inputs = Inr r" using routers_built(1) [OF toyS_ops] by blast
  define w :: worker_input where "w = \<lparr>wi_net = qx_proxy, wi_postURL = ''u'', wi_router = r, wi_attempt = Returned,
    wi_panics = \<lparr>pn_fetch = None, pn_answer = Some (0, ''p''), pn_recovery = None, pn_url = ''u''\<rparr>, wi_meanwhile = (\<lambda>s. s)\<rparr>"
  then have w: "wi_net w = qx_proxy" "wi_postURL w = ''u''" "wi_router w = r" "wi_attempt w = Returned" "wi_meanwhile w = (\<lambda>s. s)"
    "pn_fetch (wi_panics w) = None" "pn_answer (wi_panics w) = Some (0, ''p'')" "pn_recovery (wi_panics w) = None" by simp_all
  have "worker_run toyS bigmod_ref sx_net default_ports Direct wx_system (sconst w)"
    using router.pmw [OF r] by (simp add: worker_run_def w possible_attempt_def Let_def)
  note all = worker_serves_forever [OF toyS_specs wx_inv this]
  have "taken qx_proxy (wi_panics w) (sy_proxyURL wx_system) Direct = Some ix_action"
    unfolding taken_def qx_fetched by (simp add: ix_action_def wx_system_def w)
  then obtain out where out: "ServeQueue toyS Direct (Some wx_system) (sconst w) !! 0 = Some out"
    "action_served toyS bigmod_ref w wx_system ix_action out"
    using spec [OF all, of 0] by (auto simp: w)
  have "wo_pause out = Some 0 \<and> recovered toyS qx_proxy (sy_node (wo_state out)) (wi_panics w) (Some ix_action) ''p'' (wo_posts out)"
    using out(2) by (auto simp: action_served_def answered_or_recovered_def w Let_def)
  then show ?thesis using out(1) w(7) by blast
qed

end
