(* ===== verification/Sections.thy ===== *)
theory Sections
  imports Prelude
begin

text \<open>
  Code that shares a state with other goroutines, as a resumption: it returns, or it runs one section under the
  lock of what it touches and goes on with the rest. Between two sections of a thread any other
  thread may run. The datatype is well-founded, so a thread has no endless behaviour of its own.
\<close>

section \<open>Threads\<close>

datatype ('r, 's) thread = Return 'r | Section "'s \<Rightarrow> ('r, 's) thread \<times> 's"

text \<open>Reading a part of the state; a section that may change it; a local step that may fail.\<close>

definition reading :: "('s \<Rightarrow> 'a) \<Rightarrow> ('a \<Rightarrow> ('r, 's) thread) \<Rightarrow> ('r, 's) thread" where
  "reading f k = Section (\<lambda>s. (k (f s), s))"

definition locked :: "('s \<Rightarrow> 'a \<times> 's) \<Rightarrow> ('a \<Rightarrow> ('r, 's) thread) \<Rightarrow> ('r, 's) thread" where
  "locked f k = Section (\<lambda>s. let (x, s') = f s in (k x, s'))"

definition ttry :: "'a res \<Rightarrow> ('a \<Rightarrow> ('b res, 's) thread) \<Rightarrow> ('b res, 's) thread" where
  "ttry m k = (case m of Inl e \<Rightarrow> Return (Inl e) | Inr x \<Rightarrow> k x)"

primrec bind_thread :: "('a, 's) thread \<Rightarrow> ('a \<Rightarrow> ('b, 's) thread) \<Rightarrow> ('b, 's) thread" where
  "bind_thread (Return x) k = k x"
| "bind_thread (Section f) k = Section (\<lambda>s. map_prod (\<lambda>t. bind_thread t k) id (f s))"

lemma bind_reading: "bind_thread (reading f k) g = reading f (\<lambda>x. bind_thread (k x) g)"
  by (simp add: reading_def)

lemma bind_locked: "bind_thread (locked f k) g = locked f (\<lambda>x. bind_thread (k x) g)"
  by (simp add: locked_def split_beta)

lemma bind_assoc: "bind_thread (bind_thread t f) g = bind_thread t (\<lambda>x. bind_thread (f x) g)"
  by (induction t) (auto simp: prod.map_comp comp_def fun_eq_iff map_prod_def split_beta fsts.simps)

lemma ttry_Inr [simp]: "ttry (Inr x) k = k x"
  by (simp add: ttry_def)

section \<open>A thread that is not interrupted\<close>

primrec run_alone :: "('r, 's) thread \<Rightarrow> 's \<Rightarrow> 'r \<times> 's" where
  "run_alone (Return r) = (\<lambda>s. (r, s))"
| "run_alone (Section f) = (\<lambda>s. case map_prod run_alone id (f s) of (g, s') \<Rightarrow> g s')"

lemma run_alone_reading [simp]: "run_alone (reading f k) s = run_alone (k (f s)) s"
  by (simp add: reading_def)

lemma run_alone_locked [simp]: "run_alone (locked f k) s = run_alone (k (fst (f s))) (snd (f s))"
  by (simp add: locked_def split_beta)

lemma run_alone_bind [simp]: "run_alone (bind_thread t k) s = run_alone (k (fst (run_alone t s))) (snd (run_alone t s))"
  by (induction t arbitrary: s) (auto simp: split_beta map_prod_def fsts.simps)

lemma run_alone_ttry [simp]: "run_alone (ttry m k) s = (case m of Inl e \<Rightarrow> (Inl e, s) | Inr x \<Rightarrow> run_alone (k x) s)"
  by (cases m) (simp_all add: ttry_def)

section \<open>Threads that keep to an effect\<close>

text \<open>
  \<open>G H s s'\<close> says that a thread may take the shared state from \<open>s\<close> to \<open>s'\<close> when the states in \<open>H\<close> are those
  that it has seen at the starts of its sections; \<open>P\<close> is what it may rely on.
\<close>

inductive keeps :: "('s \<Rightarrow> bool) \<Rightarrow> ('s set \<Rightarrow> 's \<Rightarrow> 's \<Rightarrow> bool) \<Rightarrow> 's set \<Rightarrow> ('r, 's) thread \<Rightarrow> bool" for P G where
  keeps_Return: "keeps P G H (Return r)"
| keeps_Section: "(\<And>s. P s \<Longrightarrow> G (insert s H) s (snd (f s)) \<and> keeps P G (insert s H) (fst (f s))) \<Longrightarrow> keeps P G H (Section f)"

inductive_simps keeps_simps [simp]: "keeps P G H (Return r)" "keeps P G H (Section f)"

lemma keeps_reading: "(\<And>s. P s \<Longrightarrow> G (insert s H) s s \<and> keeps P G (insert s H) (k (f s))) \<Longrightarrow> keeps P G H (reading f k)"
  by (simp add: reading_def)

lemma keeps_locked:
  "(\<And>s. P s \<Longrightarrow> G (insert s H) s (snd (f s)) \<and> keeps P G (insert s H) (k (fst (f s)))) \<Longrightarrow> keeps P G H (locked f k)"
  by (simp add: locked_def split_beta)

lemma keeps_ttry: "(\<And>x. m = Inr x \<Longrightarrow> keeps P G H (k x)) \<Longrightarrow> keeps P G H (ttry m k)"
  by (cases m) (simp_all add: ttry_def)

lemma keeps_bind:
  assumes "keeps P G H t" and "\<And>x H'. H \<subseteq> H' \<Longrightarrow> keeps P G H' (k x)"
  shows "keeps P G H (bind_thread t k)"
  using assms
proof (induction rule: keeps.induct)
  case (keeps_Section H f)
  have rest: "keeps P G H' (k x)" if "insert s H \<subseteq> H'" for s H' x using keeps_Section.prems that by auto
  have "keeps P G (insert s H) (bind_thread (fst (f s)) k)" if "P s" for s
    using keeps_Section.IH [OF that] rest [of s] by blast
  then show ?case using keeps_Section.IH by simp
qed simp

lemma keeps_mono:
  assumes "keeps P G H t" and "H \<subseteq> H'" and "\<And>A B s s'. A \<subseteq> B \<Longrightarrow> G A s s' \<Longrightarrow> G B s s'"
  shows "keeps P G H' t"
  using assms(1,2)
proof (induction arbitrary: H' rule: keeps.induct)
  case (keeps_Section H f)
  have "G (insert s H') s (snd (f s)) \<and> keeps P G (insert s H') (fst (f s))" if "P s" for s
    using keeps_Section.IH [OF that] keeps_Section.prems assms(3) by (meson insert_mono)
  then show ?case by simp
qed simp

lemma keeps_weaken:
  assumes "keeps P G H t" and "\<And>H s s'. G H s s' \<Longrightarrow> G' H s s'"
  shows "keeps P G' H t"
  using assms(1) by (induction rule: keeps.induct) (auto intro: assms(2))

section \<open>Interleaving\<close>

text \<open>
  The states that have been visited, the current one first, and the pool of threads. A thread in the pool runs its next section, a
  new thread of the family \<open>start\<close> joins, or the environment moves.
\<close>

inductive interleave ::
  "('s \<Rightarrow> 's \<Rightarrow> bool) \<Rightarrow> (('r, 's) thread \<Rightarrow> bool) \<Rightarrow> 's list \<times> ('r, 's) thread list \<Rightarrow> 's list \<times> ('r, 's) thread list \<Rightarrow> bool"
  for env start where
  run_section: "i < length ts \<Longrightarrow> ts ! i = Section f \<Longrightarrow> f s = (t, s') \<Longrightarrow>
     interleave env start (s # h, ts) (s' # s # h, ts[i := t])"
| start_thread: "start t \<Longrightarrow> interleave env start (s # h, ts) (s # h, ts @ [t])"
| env_moves: "env s s' \<Longrightarrow> interleave env start (s # h, ts) (s' # s # h, ts)"

text \<open>The steps of a pool whose only thread reads or locks.\<close>

lemma run_reading: "interleave env start (s # h, [reading f k]) (s # s # h, [k (f s)])"
  using interleave.run_section [of 0 "[reading f k]"] by (simp add: reading_def)

lemma run_locked: "interleave env start (s # h, [locked f k]) (snd (f s) # s # h, [k (fst (f s))])"
  using interleave.run_section [of 0 "[locked f k]"] by (simp add: locked_def split_beta)

text \<open>
  Threads and an environment that keep to a guarantee: \<open>inv\<close> is what every step keeps, \<open>G\<close> what the threads do, \<open>env\<close>
  what happens besides.
\<close>

locale guarantees =
  fixes inv :: "'s \<Rightarrow> bool" and env :: "'s \<Rightarrow> 's \<Rightarrow> bool" and start :: "('r, 's) thread \<Rightarrow> bool"
    and G :: "'s set \<Rightarrow> 's \<Rightarrow> 's \<Rightarrow> bool"
  assumes env_inv: "env s s' \<Longrightarrow> inv s \<Longrightarrow> inv s'"
    and G_inv: "G H s s' \<Longrightarrow> inv s \<Longrightarrow> inv s'"
    and G_mono: "A \<subseteq> B \<Longrightarrow> G A s s' \<Longrightarrow> G B s s'"
    and start_keeps: "start t \<Longrightarrow> keeps inv G {} t"
begin

definition pool_ok :: "'s list \<times> ('r, 's) thread list \<Rightarrow> bool" where
  "pool_ok c \<longleftrightarrow> fst c \<noteq> [] \<and> (\<forall>s \<in> set (fst c). inv s) \<and> (\<forall>t \<in> set (snd c). keeps inv G (set (fst c)) t)"

lemma pool_step:
  assumes "interleave env start c c'" and "pool_ok c"
  shows "pool_ok c' \<and> (fst c' = fst c \<or> (\<exists>s'. fst c' = s' # fst c \<and> (env (hd (fst c)) s' \<or> G (set (fst c)) (hd (fst c)) s')))"
  using assms(1)
proof cases
  case (run_section i ts f s t s' h)
  let ?H = "set (s # h)"
  have s: "inv s" and "keeps inv G ?H (Section f)"
    using assms(2) run_section(1,3) nth_mem [OF run_section(3)] unfolding run_section(4) by (auto simp: pool_ok_def)
  then have "G (insert s ?H) s s' \<and> keeps inv G (insert s ?H) t"
    using run_section(5) by (metis fst_conv keeps_simps(2) snd_conv)
  then have step: "G ?H s s'" "keeps inv G ?H t" by (simp_all add: insert_absorb)
  have "keeps inv G (set (s' # s # h)) u" if "u \<in> set (ts[i := t])" for u
  proof -
    have "keeps inv G ?H u" using that step(2) assms(2) run_section(1) set_update_subset_insert by (fastforce simp: pool_ok_def)
    then show ?thesis by (rule keeps_mono) (auto intro: G_mono)
  qed
  then show ?thesis using run_section step(1) s assms(2) G_inv by (auto simp: pool_ok_def)
next
  case (start_thread t s h ts)
  have "keeps inv G (set (s # h)) t" by (rule keeps_mono [OF start_keeps]) (use start_thread G_mono in auto)
  then show ?thesis using assms(2) start_thread by (auto simp: pool_ok_def)
next
  case (env_moves s s' h ts)
  have "keeps inv G (set (s' # s # h)) t" if "t \<in> set ts" for t
    by (rule keeps_mono [of _ _ "set (s # h)"]) (use that assms(2) env_moves G_mono in \<open>auto simp: pool_ok_def\<close>)
  then show ?thesis using assms(2) env_moves env_inv by (auto simp: pool_ok_def)
qed

lemma reachable_pool_ok:
  assumes "(interleave env start)\<^sup>*\<^sup>* c c'" and "pool_ok c"
  shows "pool_ok c'"
  using assms by (induction rule: rtranclp_induct) (auto dest: pool_step)

text \<open>What every step leaves related: the state at the start of a run and the last one, and every state visited and the last one.\<close>

lemma history_projects:
  assumes "(interleave env start)\<^sup>*\<^sup>* c c'" and "pool_ok c" and "\<And>x. x \<in> set (fst c) \<Longrightarrow> R\<^sup>*\<^sup>* (p x) (p (hd (fst c)))"
    and "\<And>s s'. inv s \<Longrightarrow> env s s' \<Longrightarrow> R\<^sup>*\<^sup>* (p s) (p s')" and "\<And>H s s'. inv s \<Longrightarrow> G H s s' \<Longrightarrow> R\<^sup>*\<^sup>* (p s) (p s')"
    and "x \<in> set (fst c')"
  shows "R\<^sup>*\<^sup>* (p x) (p (hd (fst c')))"
  using assms(1,6)
proof (induction arbitrary: x rule: rtranclp_induct)
  case (step c1 c2)
  have ok: "pool_ok c1" using reachable_pool_ok [OF step(1) assms(2)] .
  then have "inv (hd (fst c1))" by (cases "fst c1") (auto simp: pool_ok_def)
  then have "R\<^sup>*\<^sup>* (p (hd (fst c1))) (p (hd (fst c2)))" "x = hd (fst c2) \<or> x \<in> set (fst c1)"
    using pool_step [OF step(2) ok] assms(4,5) step(4) by auto
  then show ?case using step.IH [of x] by (auto intro: rtranclp_trans)
qed (use assms(3) in simp)

text \<open>Runs from a state alone.\<close>

lemma run_keeps_inv:
  assumes "(interleave env start)\<^sup>*\<^sup>* ([s0], []) c" and "inv s0" and "x \<in> set (fst c)"
  shows "inv x"
  using reachable_pool_ok [OF assms(1)] assms(2,3) by (simp add: pool_ok_def)

lemma run_history:
  assumes "(interleave env start)\<^sup>*\<^sup>* ([s0], []) c" and "inv s0" and "x \<in> set (fst c)"
    and "\<And>s s'. inv s \<Longrightarrow> env s s' \<Longrightarrow> R\<^sup>*\<^sup>* (p s) (p s')" and "\<And>H s s'. inv s \<Longrightarrow> G H s s' \<Longrightarrow> R\<^sup>*\<^sup>* (p s) (p s')"
  shows "R\<^sup>*\<^sup>* (p x) (p (hd (fst c)))"
  by (rule history_projects [OF assms(1) _ _ assms(4,5,3)]) (use assms(2) in \<open>simp_all add: pool_ok_def\<close>)

lemma run_start: "(interleave env start)\<^sup>*\<^sup>* ([s0], []) c \<Longrightarrow> s0 \<in> set (fst c)"
  by (induction rule: rtranclp_induct) (auto elim: interleave.cases)

lemma run_step:
  assumes "(interleave env start)\<^sup>*\<^sup>* ([s0], []) (s # h, ts)" and "inv s0" and "interleave env start (s # h, ts) (s' # s # h, ts')"
  shows "env s s' \<or> G (set (s # h)) s s'"
proof -
  have "pool_ok (s # h, ts)" by (rule reachable_pool_ok [OF assms(1)]) (simp add: assms(2) pool_ok_def)
  from pool_step [OF assms(3) this] show ?thesis by auto
qed

end

end
