(* ===== verification/Threads.thy ===== *)
theory Threads
  imports System Sections
begin

text \<open>
  The processors of \<^verbatim>\<open>src/internal/processors\<close> as threads: a section for every lock that the code takes, each with
  the state as it is then. What a section reads of the node outside the node's own lock (its key, its identity, a
  configured chain) is written once, so that one look at the node per helper is enough; a governance check looks once for each
  accessor of the node that it calls. The request to an extension, for which no lock is held, is a section. In \<open>System\<close> the same
  processors are one function of the state; the lemmas say that a thread that is not interrupted computes it.
\<close>

section \<open>Handlers of instructions\<close>

type_synonym 'r system_thread = "('r, system) thread"

type_synonym handler_thread =
  "string \<Rightarrow> DataFixed \<Rightarrow> bytes list \<Rightarrow> address list \<Rightarrow> SigningPolicy \<Rightarrow> (bytes \<times> bytes) res system_thread"

definition on_wallets :: "(Storage \<Rightarrow> 'a \<times> Storage) \<Rightarrow> system \<Rightarrow> 'a \<times> system" where
  "on_wallets f s = (let (r, ws) = f (sy_wallets s) in (r, s\<lparr>sy_wallets := ws\<rparr>))"

definition on_payments :: "(sign_state \<Rightarrow> 'a \<times> sign_state) \<Rightarrow> system \<Rightarrow> 'a \<times> system" where
  "on_payments f s = (let (r, ss) = f (sy_sign s) in (r, s\<lparr>sy_sign := ss\<rparr>))"

text \<open>\<open>KeyGenerate\<close> and \<open>KeyDelete\<close> hold the storage lock from the end of their checks of the message to their return.\<close>

definition KeyGenerate_thread :: "'a system_env_scheme \<Rightarrow> go_error option \<Rightarrow> ecdsa_priv res \<Rightarrow> handler_thread" where
  "KeyGenerate_thread S ctx drawn tag d ms sg p =
     locked (\<lambda>s. on_wallets (KeyGenerate S (sy_node s) ctx drawn tag d ms sg p) s) Return"

definition KeyDelete_thread :: "'a system_env_scheme \<Rightarrow> go_error option \<Rightarrow> handler_thread" where
  "KeyDelete_thread S ctx tag d ms sg p = locked (\<lambda>s. on_wallets (KeyDelete S (sy_node s) ctx tag d ms sg p) s) Return"

definition restore_section ::
  "'a system_env_scheme \<Rightarrow> go_error option \<Rightarrow> KeyIDPair \<Rightarrow> Wallet \<Rightarrow> uint64 \<Rightarrow> (bytes res \<Rightarrow> (bytes \<times> bytes) res system_thread)
   \<Rightarrow> (bytes \<times> bytes) res system_thread" where
  "restore_section S ctx i w nonce k = locked (\<lambda>s. on_wallets (restore_wallet S (sy_node s) ctx i w nonce) s) k"

definition KeyDataProviderRestore_thread :: "'a system_env_scheme \<Rightarrow> bigmod \<Rightarrow> go_error option \<Rightarrow> handler_thread" where
  "KeyDataProviderRestore_thread S B ctx tag d ms sg p =
     reading sy_node (\<lambda>n. ttry (keyRestoreDataCheck S d (n_teeID n)) (\<lambda>(metadata, nonce).
     let backupID = md_ID metadata; i = \<lparr>kp_WalletID = wb_WalletID backupID, kp_KeyID = wb_KeyID backupID\<rparr> in
     reading sy_node (\<lambda>n. ttry (processKeySplitMessages S n ms backupID) (\<lambda>(keySplits, status).
     ttry (RecoverWallet S B keySplits metadata) (\<lambda>recoveredWallet.
     if tag = Threshold then restore_section S ctx i recoveredWallet nonce (\<lambda>r. ttry r (\<lambda>enc. Return (Inr (enc, status))))
     else if tag = End then
       reading sy_wallets (\<lambda>ws. ttry (restored_check ''wallet does not exists'' i nonce ws) (\<lambda>_. Return (Inr ([], status))))
     else Return (Inl (Err ''unexpected submission tag'')))))))"

definition KeyDirectBackup_thread :: "'a system_env_scheme \<Rightarrow> go_error option \<Rightarrow> hash res \<Rightarrow> nat \<Rightarrow> handler_thread" where
  "KeyDirectBackup_thread S ctx random_Hash ecies_rnd tag d ms sg p =
     ttry (ParseKeyDirectBackup S d) (\<lambda>req.
     reading sy_node (\<lambda>n. ttry (validateKeyDirectBackupRequest S n req) (\<lambda>destinationPubKey.
     let i = \<lparr>kp_WalletID = db_WalletId req, kp_KeyID = db_KeyId req\<rparr> in
     if tag = Threshold then
       ttry random_Hash (\<lambda>randomNonce.
       reading sy_wallets (\<lambda>ws. ttry (Get ws i) (\<lambda>w.
       reading sy_node (\<lambda>n. ttry (direct_envelope S n ecies_rnd destinationPubKey (df_RewardEpochID d) randomNonce w) (\<lambda>envelopeBytes.
       ttry (ctx_check ctx) (\<lambda>_. Return (Inr (envelopeBytes, []))))))))
     else if tag = End then
       reading sy_wallets (\<lambda>ws. ttry (ensure (WalletExists ws i) (Err ''wallet does not exist'')) (\<lambda>_. Return (Inr ([], []))))
     else Return (Inl (Err ''unexpected submission tag'')))))"

definition KeyDirectRestore_thread :: "'a system_env_scheme \<Rightarrow> go_error option \<Rightarrow> handler_thread" where
  "KeyDirectRestore_thread S ctx tag d ms sg p =
     ttry (ParseKeyDirectRestore S d) (\<lambda>req.
     reading sy_node (\<lambda>n. ttry (validateKeyDirectRestoreRequest n req) (\<lambda>destinationNonce.
     let i = \<lparr>kp_WalletID = bi_WalletId (dr_BackupId req), kp_KeyID = bi_KeyId (dr_BackupId req)\<rparr> in
     reading sy_node (\<lambda>n. ttry (open_envelope S n d req) (\<lambda>w.
     if tag = Threshold then restore_section S ctx i w destinationNonce (\<lambda>r. ttry r (\<lambda>enc. Return (Inr (enc, []))))
     else if tag = End then
       reading sy_wallets (\<lambda>ws. ttry (restored_check ''wallet does not exist'' i destinationNonce ws) (\<lambda>_. Return (Inr ([], []))))
     else Return (Inl (Err ''unexpected submission tag'')))))))"

definition TEEAttestation_thread :: "'a system_env_scheme \<Rightarrow> 'b surroundings_scheme \<Rightarrow> handler_thread" where
  "TEEAttestation_thread S U tag d ms sg p =
     reading sy_node (\<lambda>n. ttry (ValidateTeeAttestationRequest S (df_OriginalMessage d) (n_teeID n)) (\<lambda>challenge.
     if tag = End then Return (Inr ([], []))
     else if tag = Threshold then
       reading sy_node (\<lambda>n. reading sy_policies (\<lambda>ps.
       ttry (signed_tee_info S U n ps challenge) (\<lambda>teeInfoResponse.
       ttry (json_TeeInfoResponse S teeInfoResponse) (\<lambda>resultEncoded. Return (Inr (resultEncoded, []))))))
     else Return (Inl (Err ''unexpected submission tag''))))"

definition Prove_thread :: "'a system_env_scheme \<Rightarrow> handler_thread" where
  "Prove_thread S tag d ms sg p = reading sy_node (\<lambda>n. Return (fst (Prove S n tag d ms sg p ())))"

definition ProveRandomness_thread :: "'a system_env_scheme \<Rightarrow> handler_thread" where
  "ProveRandomness_thread S tag d ms sg p = reading sy_wallets (\<lambda>ws. Return (fst (ProveRandomness S ws tag d ms sg p ())))"

text \<open>The keys are read under the storage's lock, the address of the proxy under its own; the slot is taken atomically.\<close>

definition SignXRPLPayment_thread :: "'a system_env_scheme \<Rightarrow> handler_thread" where
  "SignXRPLPayment_thread S tag d ms sg p =
     ttry (ParsePaymentInstruction S d) (\<lambda>inst.
     ttry (ParseFeeEntries S (pm_FeeSchedule inst)) (\<lambda>entries.
     ttry (check_fee_entries entries) (\<lambda>_.
     reading sy_node (\<lambda>n.
     let keyIDs = map tk_KeyId (filter (\<lambda>pair. tk_TeeId pair = n_teeID n) (pm_TeeIdKeyIdPairs inst)) in
     ttry (ensure (length keyIDs \<noteq> 0) (Err ''no keys for signing'')) (\<lambda>_.
     reading sy_wallets (\<lambda>ws. ttry (loadPrivateKeys S ws (pm_WalletId inst) keyIDs d) (\<lambda>privateKeys.
     ttry (rmap (buildSignedTx S inst privateKeys) [0..<length entries]) (\<lambda>signedTxs.
     if tag = Threshold then
       reading sy_proxyURL (\<lambda>url. locked (\<lambda>s. on_payments (start_schedule (sy_node s) (Some url) tag d entries signedTxs) s)
         (\<lambda>r. ttry r (\<lambda>_. Return (Inr ([], [])))))
     else if tag = End then Return (Inr ([], []))
     else Return (Inl (Err ''unexpected submission tag''))))))))))"

section \<open>The instruction pipeline\<close>

definition result_of :: "'a system_env_scheme \<Rightarrow> Action \<Rightarrow> ActionResult res \<Rightarrow> ActionResult" where
  "result_of S a r = (case r of Inl e \<Rightarrow> Invalid S a e | Inr x \<Rightarrow> x)"

definition Process_thread :: "'a system_env_scheme \<Rightarrow> handler_thread \<Rightarrow> bool \<Rightarrow> Action \<Rightarrow> ActionResult system_thread" where
  "Process_thread S f immediateResult a = bind_thread
     (ttry (Parse_DataFixed S (ad_Message (ac_Data a))) (\<lambda>d.
      reading sy_node (\<lambda>n. ttry (Node_ChainID n) (\<lambda>chainID.
      reading sy_policies (\<lambda>ps. ttry (preprocess S a d ps (n_teeID n) chainID) (\<lambda>(signers, signingPolicy).
      bind_thread (f (ad_SubmissionTag (ac_Data a)) d (ac_AdditionalVariableMessages a) signers signingPolicy) (\<lambda>r.
      ttry r (\<lambda>(pMessage, additionalStatus).
      reading sy_node (\<lambda>n. Return (Inr (finish_instruction S n immediateResult a d signers pMessage additionalStatus)))))))))))
     (\<lambda>r. Return (result_of S a r))"

definition instruction_Default_thread ::
  "'a system_env_scheme \<Rightarrow> extension_env \<Rightarrow> int \<Rightarrow> Action \<Rightarrow> ActionResult system_thread" where
  "instruction_Default_thread S X port a = bind_thread
     (ttry (Parse_DataFixed S (ad_Message (ac_Data a))) (\<lambda>d.
      ttry (CheckForwardable (df_OPType d)) (\<lambda>_.
      reading sy_node (\<lambda>n. ttry (Node_ChainID n) (\<lambda>chainID.
      reading sy_policies (\<lambda>ps. ttry (preprocess S a d ps (n_teeID n) chainID) (\<lambda>(signers, _).
      let tag = ad_SubmissionTag (ac_Data a) in
      if tag = Threshold then locked (on_forwarded (forward S X port a)) (\<lambda>r. Return (Inr r))
      else if tag = End then
        reading sy_node (\<lambda>n.
        ttry (rewardingData S d (ac_Signatures a) (ac_AdditionalVariableMessages a) signers (ac_Timestamps a) [] n) (\<lambda>msg.
        Return (Inr \<lparr>ar_ID = ad_ID (ac_Data a), ar_SubmissionTag = tag, ar_Status = 1, ar_Log = None,
          ar_OPType = df_OPType d, ar_OPCommand = df_OPCommand d, ar_AdditionalResultStatus = [],
          ar_Version = EncodingVersion, ar_Data = msg\<rparr>)))
      else Return (Inl (Err ''invalid submissionTag'')))))))))
     (\<lambda>r. Return (result_of S a r))"

text \<open>The exchange with the extension holds no lock; it is a section so that other threads may run before and after it.\<close>

definition direct_Default_thread ::
  "'a system_env_scheme \<Rightarrow> extension_env \<Rightarrow> int \<Rightarrow> Action \<Rightarrow> ActionResult system_thread" where
  "direct_Default_thread S X port a = bind_thread
     (ttry (CheckDirectTag (ad_SubmissionTag (ac_Data a))) (\<lambda>_.
      ttry (Parse_DirectInstruction S (ad_Message (ac_Data a))) (\<lambda>di.
      ttry (CheckForwardable (di_OPType di)) (\<lambda>_.
      locked (on_forwarded (forward S X port a)) (\<lambda>r. Return (Inr r))))))
     (\<lambda>r. Return (result_of S a r))"

section \<open>Direct instructions\<close>

type_synonym direct_thread_handler = "DirectInstruction \<Rightarrow> bytes res system_thread"

definition direct_thread :: "'a system_env_scheme \<Rightarrow> direct_thread_handler \<Rightarrow> Action \<Rightarrow> ActionResult system_thread" where
  "direct_thread S f a = bind_thread
     (ttry (CheckDirectTag (ad_SubmissionTag (ac_Data a))) (\<lambda>_.
      ttry (Parse_DirectInstruction S (ad_Message (ac_Data a))) (\<lambda>di.
      bind_thread (f di) (\<lambda>r. ttry r (\<lambda>msg.
      Return (Inr \<lparr>ar_ID = ad_ID (ac_Data a), ar_SubmissionTag = ad_SubmissionTag (ac_Data a), ar_Status = 1, ar_Log = None,
        ar_OPType = di_OPType di, ar_OPCommand = di_OPCommand di, ar_AdditionalResultStatus = [],
        ar_Version = EncodingVersion, ar_Data = msg\<rparr>))))))
     (\<lambda>r. Return (result_of S a r))"

definition KeysInfo_thread :: "'a system_env_scheme \<Rightarrow> direct_thread_handler" where
  "KeysInfo_thread S i = reading sy_wallets (\<lambda>ws. Return (KeysInfo S ws))"

definition KeysProof_thread :: "'a system_env_scheme \<Rightarrow> (nat \<Rightarrow> go_error option) \<Rightarrow> direct_thread_handler" where
  "KeysProof_thread S ctx i = reading sy_node (\<lambda>n. reading sy_wallets (\<lambda>ws. Return (KeysProof S n ctx ws i)))"

definition get_TEEInfo_thread :: "'a system_env_scheme \<Rightarrow> 'b surroundings_scheme \<Rightarrow> direct_thread_handler" where
  "get_TEEInfo_thread S U i = reading sy_node (\<lambda>n. reading sy_policies (\<lambda>ps. Return (get_TEEInfo S U n ps i)))"

text \<open>\<open>TEEBackup\<close> holds the storage's read lock while it reads the policies.\<close>

definition TEEBackup_thread :: "'a system_env_scheme \<Rightarrow> bigmod \<Rightarrow> backup_rnd \<Rightarrow> direct_thread_handler" where
  "TEEBackup_thread S B rnd i =
     reading sy_node (\<lambda>n. reading (\<lambda>s. (sy_policies s, sy_wallets s)) (\<lambda>(ps, ws). Return (TEEBackup S B rnd n ps ws i)))"

definition InitializePolicy_thread :: "'a system_env_scheme \<Rightarrow> go_error option \<Rightarrow> direct_thread_handler" where
  "InitializePolicy_thread S ctx i = locked (\<lambda>s. on_policies (InitializePolicy S (sy_node s) ctx) i s) Return"

definition UpdatePolicy_thread :: "'a system_env_scheme \<Rightarrow> go_error option \<Rightarrow> direct_thread_handler" where
  "UpdatePolicy_thread S ctx i = locked (\<lambda>s. on_policies (UpdatePolicy S (sy_node s) ctx) i s) Return"

text \<open>
  The two governance checks and the setter lock the node one after the other, and each check takes the lock anew for every
  accessor: \<open>Governance\<close>, \<open>GovernanceSafe\<close>, \<open>ChainID\<close> and \<open>Info\<close>.
\<close>

definition on_machine_paths :: "SetMachinePathListRequest \<Rightarrow> system \<Rightarrow> unit res \<times> system" where
  "on_machine_paths req s = (let (r, n) = SetMachinePathList (sy_node s) (sm_Paths req) (sm_Nonce req) in (r, s\<lparr>sy_node := n\<rparr>))"

definition governance_signatures_thread ::
  "'a system_env_scheme \<Rightarrow> SetMachinePathListRequest \<Rightarrow> unit res system_thread" where
  "governance_signatures_thread S req =
     reading sy_node (\<lambda>n1. let (govSigners, threshold, configured) = Governance n1 in
     ttry (ensure configured (Err ''governance not configured'')) (\<lambda>_.
     reading sy_node (\<lambda>n2. ttry (Node_ChainID n2) (\<lambda>chainID.
     reading sy_node (\<lambda>n3. let extensionID = in_ExtensionID (Node_Info S n3) in
     Return (signatures_approve S govSigners threshold chainID extensionID req))))))"

definition safe_approval_thread ::
  "'a system_env_scheme \<Rightarrow> SetMachinePathListRequest \<Rightarrow> SafeApproval \<Rightarrow> unit res system_thread" where
  "safe_approval_thread S req approval =
     reading sy_node (\<lambda>n1. let (govSigners, threshold, configured) = Governance n1 in
     ttry (ensure configured (Err ''governance not configured'')) (\<lambda>_.
     reading sy_node (\<lambda>n4. let (safeAddress, teeManager) = GovernanceSafe n4 in
     ttry (ensure (safeAddress \<noteq> 0) (Err ''governance is not safe-backed'')) (\<lambda>_.
     reading sy_node (\<lambda>n2. ttry (Node_ChainID n2) (\<lambda>chainID.
     reading sy_node (\<lambda>n3. let extensionID = in_ExtensionID (Node_Info S n3) in
     Return (safe_approves S govSigners threshold safeAddress teeManager chainID extensionID req approval))))))))"

definition governance_thread :: "'a system_env_scheme \<Rightarrow> SetMachinePathListRequest \<Rightarrow> unit res system_thread" where
  "governance_thread S req = bind_thread (governance_signatures_thread S req) (\<lambda>r. case r of
       Inr _ \<Rightarrow> Return (Inr ())
     | Inl sigErr \<Rightarrow> (case sm_SafeApproval req of
         None \<Rightarrow> Return (Inl sigErr)
       | Some approval \<Rightarrow> bind_thread (safe_approval_thread S req approval) (\<lambda>r. case r of
           Inr _ \<Rightarrow> Return (Inr ())
         | Inl safeErr \<Rightarrow> Return (Inl (Wrapped ''governance signatures and safe approval'' safeErr)))))"

definition SetMachinePathList_thread :: "'a system_env_scheme \<Rightarrow> go_error option \<Rightarrow> direct_thread_handler" where
  "SetMachinePathList_thread S ctx i =
     ttry (unjson_SetMachinePathListRequest S (di_Message i)) (\<lambda>req.
     bind_thread (governance_thread S req) (\<lambda>r. ttry r (\<lambda>_.
     ttry (ctx_err ctx) (\<lambda>_.
     locked (on_machine_paths req) (\<lambda>r. ttry r (\<lambda>_. Return (Inr [])))))))"

section \<open>Routing\<close>

type_synonym thread_processor = "Action \<Rightarrow> ActionResult system_thread"

definition direct_threads ::
  "'a system_env_scheme \<Rightarrow> bigmod \<Rightarrow> action_inputs \<Rightarrow> (op_type \<times> op_command \<times> thread_processor) list" where
  "direct_threads S B I =
    [(OP_Get, OP_KeyInfo, direct_thread S (KeysInfo_thread S)),
     (OP_Get, OP_KeyProof, direct_thread S (KeysProof_thread S (ai_ctx_at I))),
     (OP_Get, OP_TEEInfo, direct_thread S (get_TEEInfo_thread S (ai_surroundings I))),
     (OP_Get, OP_TEEBackup, direct_thread S (TEEBackup_thread S B (ai_backup_rnd I))),
     (OP_Policy, OP_InitializePolicy, direct_thread S (InitializePolicy_thread S (ai_ctx I))),
     (OP_Policy, OP_UpdatePolicy, direct_thread S (UpdatePolicy_thread S (ai_ctx I))),
     (OP_Governance, OP_SetMachinePathList, direct_thread S (SetMachinePathList_thread S (ai_ctx I)))]"

definition wallet_threads ::
  "'a system_env_scheme \<Rightarrow> bigmod \<Rightarrow> action_inputs \<Rightarrow> (op_type \<times> op_command \<times> thread_processor) list" where
  "wallet_threads S B I =
    [(OP_Wallet, OP_KeyGenerate, Process_thread S (KeyGenerate_thread S (ai_ctx I) (ai_drawn I)) True),
     (OP_Wallet, OP_KeyDelete, Process_thread S (KeyDelete_thread S (ai_ctx I)) True),
     (OP_Wallet, OP_KeyDataProviderRestore, Process_thread S (KeyDataProviderRestore_thread S B (ai_ctx I)) True),
     (OP_Wallet, OP_KeyDirectBackup, Process_thread S (KeyDirectBackup_thread S (ai_ctx I) (ai_random_hash I) (ai_ecies_rnd I)) True),
     (OP_Wallet, OP_KeyDirectRestore, Process_thread S (KeyDirectRestore_thread S (ai_ctx I)) True),
     (OP_Reg, OP_TEEAttestation, Process_thread S (TEEAttestation_thread S (ai_surroundings I)) True)]"

definition pmw_threads :: "'a system_env_scheme \<Rightarrow> (op_type \<times> op_command \<times> thread_processor) list" where
  "pmw_threads S =
    [(OP_FDC2, OP_Prove, Process_thread S (Prove_thread S) True),
     (OP_XRP, OP_Pay, Process_thread S (SignXRPLPayment_thread S) False),
     (OP_XRP, OP_Reissue, Process_thread S (SignXRPLPayment_thread S) False),
     (OP_Wallet, OP_VRF, Process_thread S (ProveRandomness_thread S) True)]"

text \<open>The table that registration builds, and \<open>process\<close> over it.\<close>

definition route_table :: "'a flare_scheme \<Rightarrow> (op_type \<times> op_command \<times> 'p) list \<Rightarrow> (OpID \<times> 'p) list" where
  "route_table F = map (\<lambda>(t, c, p). (\<lparr>id_OPType = OPType_Hash F t, id_OPCommand = OPCommand_Hash F c\<rparr>, p))"

definition process_thread ::
  "'a system_env_scheme \<Rightarrow> (OpID \<times> thread_processor) list \<Rightarrow> thread_processor option \<Rightarrow> thread_processor option \<Rightarrow> thread_processor" where
  "process_thread S routs defaultDirect defaultInstruction a0 =
     (case CheckAndAdapt a0 of
        (Inl e, a) \<Rightarrow> Return (Invalid S a e)
      | (Inr _, a) \<Rightarrow> (case GetOpID S a of
          Inl e \<Rightarrow> Return (Invalid S a e)
        | Inr i \<Rightarrow> (case map_of routs i of
            Some t \<Rightarrow> t a
          | None \<Rightarrow> (case (if ad_Type (ac_Data a) = Direct then defaultDirect
                else if ad_Type (ac_Data a) = Instruction then defaultInstruction else None) of
              Some t \<Rightarrow> t a
            | None \<Rightarrow> Return (Invalid S a not_registered)))))"

definition PMW_thread :: "'a system_env_scheme \<Rightarrow> bigmod \<Rightarrow> action_inputs \<Rightarrow> thread_processor" where
  "PMW_thread S B I = process_thread S (route_table S (direct_threads S B I @ wallet_threads S B I @ pmw_threads S)) None None"

definition Forward_thread :: "'a system_env_scheme \<Rightarrow> bigmod \<Rightarrow> extension_env \<Rightarrow> int \<Rightarrow> action_inputs \<Rightarrow> thread_processor" where
  "Forward_thread S B X port I = process_thread S (route_table S (direct_threads S B I @ wallet_threads S B I))
     (Some (direct_Default_thread S X port)) (Some (instruction_Default_thread S X port))"

end
