(* ===== verification/Thread_Runs.thy ===== *)
theory Thread_Runs
  imports Threads System_Steps
begin

text \<open>
  What a thread that is not interrupted computes: for every handler, and so for either route table, the function of the
  whole state in \<open>System\<close>.
\<close>

section \<open>Handlers alone\<close>

lemma on_wallets_simps [simp]: "sy_node (snd (on_wallets f s)) = sy_node s" "fst (on_wallets f s) = fst (f (sy_wallets s))"
    "snd (on_wallets f s) = s\<lparr>sy_wallets := snd (f (sy_wallets s))\<rparr>"
  by (simp_all add: on_wallets_def split_beta)

lemma on_payments_simps [simp]: "fst (on_payments f s) = fst (f (sy_sign s))" "snd (on_payments f s) = s\<lparr>sy_sign := snd (f (sy_sign s))\<rparr>"
  by (simp_all add: on_payments_def split_beta)

lemma on_policies_simps [simp]:
  "fst (on_policies f i s) = fst (f i (sy_policies s))" "snd (on_policies f i s) = s\<lparr>sy_policies := snd (f i (sy_policies s))\<rparr>"
  by (simp_all add: on_policies_def split_beta)

lemma on_machine_paths_simps [simp]:
  "fst (on_machine_paths req s) = fst (SetMachinePathList (sy_node s) (sm_Paths req) (sm_Nonce req))"
  "snd (on_machine_paths req s) = s\<lparr>sy_node := snd (SetMachinePathList (sy_node s) (sm_Paths req) (sm_Nonce req))\<rparr>"
  by (simp_all add: on_machine_paths_def split_beta)

lemmas alone_simps = prod_eq_iff stry_def sbind_def split_beta Let_def

lemma run_KeyGenerate: "run_alone (KeyGenerate_thread S ctx drawn tag d ms sg p) s = on_wallets (KeyGenerate S (sy_node s) ctx drawn tag d ms sg p) s"
  by (simp add: KeyGenerate_thread_def prod_eq_iff)

lemma run_KeyDelete: "run_alone (KeyDelete_thread S ctx tag d ms sg p) s = on_wallets (KeyDelete S (sy_node s) ctx tag d ms sg p) s"
  by (simp add: KeyDelete_thread_def prod_eq_iff)

lemma run_KeyDataProviderRestore:
  "run_alone (KeyDataProviderRestore_thread S B ctx tag d ms sg p) s = on_wallets (KeyDataProviderRestore S B (sy_node s) ctx tag d ms sg p) s"
  by (auto simp: KeyDataProviderRestore_thread_def KeyDataProviderRestore_def restore_section_def alone_simps split: sum.split)

lemma run_KeyDirectBackup:
  "run_alone (KeyDirectBackup_thread S ctx rh er tag d ms sg p) s = on_wallets (KeyDirectBackup S (sy_node s) ctx rh er tag d ms sg p) s"
  by (auto simp: KeyDirectBackup_thread_def KeyDirectBackup_def alone_simps split: sum.split)

lemma run_KeyDirectRestore:
  "run_alone (KeyDirectRestore_thread S ctx tag d ms sg p) s = on_wallets (KeyDirectRestore S (sy_node s) ctx tag d ms sg p) s"
  by (auto simp: KeyDirectRestore_thread_def KeyDirectRestore_def restore_section_def alone_simps split: sum.split)

lemma run_TEEAttestation:
  "run_alone (TEEAttestation_thread S U tag d ms sg p) s = TEEAttestation S U (sy_node s) (sy_policies s) tag d ms sg p s"
  by (auto simp: TEEAttestation_thread_def TEEAttestation_def alone_simps split: sum.split)

text \<open>Two handlers only read, so that the state they carry is any.\<close>

lemma Prove_any: "Prove S n tag d ms sg p s = (fst (Prove S n tag d ms sg p ()), s)"
  by (auto simp: Prove_def alone_simps split: sum.split)

lemma ProveRandomness_any: "ProveRandomness S ws tag d ms sg p s = (fst (ProveRandomness S ws tag d ms sg p ()), s)"
  by (auto simp: ProveRandomness_def alone_simps split: sum.split)

lemma run_Prove: "run_alone (Prove_thread S tag d ms sg p) s = Prove S (sy_node s) tag d ms sg p s"
  using Prove_any [of S "sy_node s" tag d ms sg p s] by (simp add: Prove_thread_def)

lemma run_ProveRandomness: "run_alone (ProveRandomness_thread S tag d ms sg p) s = ProveRandomness S (sy_wallets s) tag d ms sg p s"
  using ProveRandomness_any [of S "sy_wallets s" tag d ms sg p s] by (simp add: ProveRandomness_thread_def)

lemma run_SignXRPLPayment:
  "run_alone (SignXRPLPayment_thread S tag d ms sg p) s
     = on_payments (SignXRPLPayment S (sy_node s) (sy_wallets s) (Some (sy_proxyURL s)) tag d ms sg p) s"
  by (auto simp: SignXRPLPayment_thread_def SignXRPLPayment_def alone_simps split: sum.split)

section \<open>The pipelines alone\<close>

lemma run_Process_thread:
  assumes "\<And>tag d ms sg p. run_alone (f tag d ms sg p) s = g tag d ms sg p s" and "\<And>tag d ms sg p. sy_node (snd (g tag d ms sg p s)) = sy_node s"
  shows "run_alone (Process_thread S f imm a) s = Process S g (sy_node s) (sy_policies s) imm a s"
  using assms(2) by (auto simp: Process_thread_def Process_def result_of_def assms(1) split_beta split: sum.split prod.split)

lemma Process_on_wallets:
  "Process S (\<lambda>tag d ms sg p. on_wallets (f tag d ms sg p)) n ps imm a s
     = (let (r, ws) = Process S f n ps imm a (sy_wallets s) in (r, s\<lparr>sy_wallets := ws\<rparr>))"
  by (auto simp: Process_def on_wallets_def Let_def split: sum.split prod.split)

lemma Process_on_payments:
  "Process S (\<lambda>tag d ms sg p. on_payments (f tag d ms sg p)) n ps imm a s
     = (let (r, ss) = Process S f n ps imm a (sy_sign s) in (r, s\<lparr>sy_sign := ss\<rparr>))"
  by (auto simp: Process_def on_payments_def Let_def split: sum.split prod.split)

lemma run_wallet_thread:
  assumes "\<And>tag d ms sg p. run_alone (t tag d ms sg p) s = on_wallets (f s tag d ms sg p) s"
  shows "run_alone (Process_thread S t True a) s = wallet_processor S f a s"
  using run_Process_thread [of t s "\<lambda>tag d ms sg p. on_wallets (f s tag d ms sg p)"] assms
  by (simp add: wallet_processor_def Process_on_wallets)

lemma run_payment_thread: "run_alone (Process_thread S (SignXRPLPayment_thread S) False a) s = payment_processor S a s"
  using run_Process_thread [of "SignXRPLPayment_thread S" s
      "\<lambda>tag d ms sg p. on_payments (SignXRPLPayment S (sy_node s) (sy_wallets s) (Some (sy_proxyURL s)) tag d ms sg p)"]
  by (simp add: payment_processor_def Process_on_payments run_SignXRPLPayment)

lemma run_reading_thread:
  assumes "\<And>tag d ms sg p. run_alone (t tag d ms sg p) s = f s tag d ms sg p s" and "\<And>tag d ms sg p. snd (f s tag d ms sg p s) = s"
  shows "run_alone (Process_thread S t True a) s = reading_processor S f a s"
  using run_Process_thread [of t s "f s"] assms by (simp add: reading_processor_def)

lemma run_instruction_Default:
  "run_alone (instruction_Default_thread S X port a) s = on_forwarded (instruction_Default_Process S X port (sy_node s) (sy_policies s) a) s"
  by (auto simp: instruction_Default_thread_def instruction_Default_Process_def result_of_def Let_def prod_eq_iff split: sum.split prod.split)

lemma run_direct_Default: "run_alone (direct_Default_thread S X port a) s = on_forwarded (direct_Default_Process S X port a) s"
  by (auto simp: direct_Default_thread_def direct_Default_Process_def result_of_def prod_eq_iff split: sum.split)

lemma run_direct_thread:
  assumes "\<And>i. run_alone (t i) s = f i s"
  shows "run_alone (direct_thread S t a) s = direct_Process S f a s"
  by (auto simp: direct_thread_def direct_Process_def result_of_def assms split_beta split: sum.split prod.split)

lemma run_governance_checks:
  "run_alone (governance_signatures_thread S req) s = (verifyGovernanceSignatures S (sy_node s) req, s)"
  "run_alone (safe_approval_thread S req approval) s = (verifySafeApproval S (sy_node s) req approval, s)"
  by (auto simp: governance_signatures_thread_def verifyGovernanceSignatures_def safe_approval_thread_def verifySafeApproval_def
      Let_def Governance_def GovernanceSafe_def ensure_def split: sum.split)

lemma run_governance_thread: "run_alone (governance_thread S req) s = (verifyGovernanceAuthorization S (sy_node s) req, s)"
  by (simp add: governance_thread_def verifyGovernanceAuthorization_def run_governance_checks split: sum.split option.split)

lemma run_SetMachinePathList:
  "run_alone (SetMachinePathList_thread S ctx i) s = on_node (direct_SetMachinePathList S ctx) i s"
  by (auto simp: SetMachinePathList_thread_def run_governance_thread direct_SetMachinePathList_def on_node_def
      alone_simps split: sum.split)

lemma run_direct_handlers:
  "run_alone (KeysInfo_thread S i) s = (KeysInfo S (sy_wallets s), s)"
  "run_alone (KeysProof_thread S ctx i) s = (KeysProof S (sy_node s) ctx (sy_wallets s) i, s)"
  "run_alone (get_TEEInfo_thread S U i) s = (get_TEEInfo S U (sy_node s) (sy_policies s) i, s)"
  "run_alone (TEEBackup_thread S B rnd i) s = (TEEBackup S B rnd (sy_node s) (sy_policies s) (sy_wallets s) i, s)"
  "run_alone (InitializePolicy_thread S ct i) s = on_policies (InitializePolicy S (sy_node s) ct) i s"
  "run_alone (UpdatePolicy_thread S ct i) s = on_policies (UpdatePolicy S (sy_node s) ct) i s"
  by (simp_all add: KeysInfo_thread_def KeysProof_thread_def get_TEEInfo_thread_def TEEBackup_thread_def InitializePolicy_thread_def
      UpdatePolicy_thread_def prod_eq_iff)

section \<open>The routers alone\<close>

text \<open>Entry by entry, the table of threads runs as the table of processors.\<close>

definition runs_as :: "thread_processor \<Rightarrow> system processor \<Rightarrow> bool" where
  "runs_as t p \<longleftrightarrow> (\<forall>a s. run_alone (t a) s = p a s)"

lemma routes_run_as:
  "list_all2 (\<lambda>(t, c, x) (t', c', p). t = t' \<and> c = c' \<and> runs_as x p) (direct_threads S B I) (direct_routes S B I)"
  "list_all2 (\<lambda>(t, c, x) (t', c', p). t = t' \<and> c = c' \<and> runs_as x p) (wallet_threads S B I) (wallet_routes S B I)"
  "list_all2 (\<lambda>(t, c, x) (t', c', p). t = t' \<and> c = c' \<and> runs_as x p) (pmw_threads S) (pmw_routes S)"
proof -
  show "list_all2 (\<lambda>(t, c, x) (t', c', p). t = t' \<and> c = c' \<and> runs_as x p) (direct_threads S B I) (direct_routes S B I)"
    by (auto simp: direct_threads_def direct_routes_def runs_as_def run_direct_handlers run_SetMachinePathList intro!: run_direct_thread)
  show "list_all2 (\<lambda>(t, c, x) (t', c', p). t = t' \<and> c = c' \<and> runs_as x p) (wallet_threads S B I) (wallet_routes S B I)"
    by (auto simp: wallet_threads_def wallet_routes_def runs_as_def run_KeyGenerate run_KeyDelete run_KeyDataProviderRestore run_KeyDirectBackup
        run_KeyDirectRestore run_TEEAttestation intro!: run_wallet_thread run_reading_thread)
  show "list_all2 (\<lambda>(t, c, x) (t', c', p). t = t' \<and> c = c' \<and> runs_as x p) (pmw_threads S) (pmw_routes S)"
    by (auto simp: pmw_threads_def pmw_routes_def runs_as_def run_payment_thread run_Prove run_ProveRandomness Prove_any [where s = s for s :: system]
        ProveRandomness_any [where s = s for s :: system] intro!: run_reading_thread)
qed

text \<open>A successful registration leaves the table of its list.\<close>

lemma map_add_late: "(m(k \<mapsto> v) ++ f) k = Some v \<Longrightarrow> m(k \<mapsto> v) ++ f = m ++ f(k \<mapsto> v)"
  by (rule ext) (auto simp: map_add_def split: option.splits)

lemma register_all_map: "register_all F rs r = Inr r' \<Longrightarrow> map_of (rt_routs r') = map_of (rt_routs r) ++ map_of (route_table F rs)"
proof (induction F rs r rule: register_all.induct)
  case (2 F t c p rs r)
  let ?k = "\<lparr>id_OPType = OPType_Hash F t, id_OPCommand = OPCommand_Hash F c\<rparr>"
  obtain r1 where r1: "RegisterProcessor F t c p r = Inr r1" "register_all F rs r1 = Inr r'" using "2.prems" by (auto simp: res_simps)
  have m: "map_of (rt_routs r1) = (map_of (rt_routs r))(?k \<mapsto> p)" using RegisterProcessor_Inr [OF r1(1)] by simp
  have k: "map_of (rt_routs r') ?k = Some p" by (rule register_all_Inr(1) [OF r1(2)]) (simp add: m)
  have "map_of (rt_routs r') = (map_of (rt_routs r))(?k \<mapsto> p) ++ map_of (route_table F rs)" using "2.IH" [OF r1(2)] by (simp only: m)
  then have "map_of (rt_routs r') = map_of (rt_routs r) ++ (map_of (route_table F rs))(?k \<mapsto> p)" using k map_add_late by metis
  moreover have "map_of (route_table F ((t, c, p) # rs)) = (map_of (route_table F rs))(?k \<mapsto> p)" by (auto simp: route_table_def fun_eq_iff)
  ultimately show ?case by (simp only:)
qed (simp add: route_table_def)

lemma route_table_rel:
  "list_all2 (\<lambda>(t, c, x) (t', c', p). t = t' \<and> c = c' \<and> R x p) xs ps \<Longrightarrow> rel_option R (map_of (route_table F xs) i) (map_of (route_table F ps) i)"
  by (induction rule: list_all2_induct) (auto simp: route_table_def)

lemma route_table_set: "(i, t) \<in> set (route_table F rs) \<Longrightarrow> \<exists>c c'. (c, c', t) \<in> set rs"
  by (auto simp: route_table_def)

text \<open>Past the checks, either form of \<open>process\<close> looks up a processor and falls back on a default.\<close>

lemma process_lookup:
  assumes "CheckAndAdapt a = (Inr (), a')" and "GetOpID S a' = Inr i"
  shows "process_thread S ts dd di a = (case map_of ts i of Some t \<Rightarrow> t a' | None \<Rightarrow>
      (case (if ad_Type (ac_Data a') = Direct then dd else if ad_Type (ac_Data a') = Instruction then di else None) of
         Some t \<Rightarrow> t a' | None \<Rightarrow> Return (Invalid S a' not_registered)))"
    and "process S r a s = (case map_of (rt_routs r) i of Some p \<Rightarrow> p a' s | None \<Rightarrow>
      (case (if ad_Type (ac_Data a') = Direct then rt_defaultDirect r
             else if ad_Type (ac_Data a') = Instruction then rt_defaultInstruction r else None) of
         Some p \<Rightarrow> p a' s | None \<Rightarrow> (Invalid S a' not_registered, s)))"
  by (simp_all add: process_thread_def process_def assms)

lemma process_rejects:
  assumes "CheckAndAdapt a = (c, a')" and "\<And>u i. c = Inr u \<Longrightarrow> GetOpID S a' \<noteq> Inr i"
  obtains e where "process_thread S ts dd di a = Return (Invalid S a' e)" "process S r a s = (Invalid S a' e, s)"
  using assms by (cases c; cases "GetOpID S a'") (auto simp: process_thread_def process_def)

lemma run_process_thread:
  assumes "\<And>i. rel_option runs_as (map_of ts i) (map_of (rt_routs r) i)" and "rel_option runs_as dd (rt_defaultDirect r)"
    and "rel_option runs_as di (rt_defaultInstruction r)"
  shows "run_alone (process_thread S ts dd di a) s = process S r a s"
proof -
  obtain c a' where a': "CheckAndAdapt a = (c, a')" by (cases "CheckAndAdapt a")
  show ?thesis
  proof (cases "\<exists>i. c = Inr () \<and> GetOpID S a' = Inr i")
    case True
    then obtain i where i: "CheckAndAdapt a = (Inr (), a')" "GetOpID S a' = Inr i" using a' by auto
    define dt dp where "dt = (if ad_Type (ac_Data a') = Direct then dd else if ad_Type (ac_Data a') = Instruction then di else None)"
      and "dp = (if ad_Type (ac_Data a') = Direct then rt_defaultDirect r
             else if ad_Type (ac_Data a') = Instruction then rt_defaultInstruction r else None)"
    have "rel_option runs_as dt dp" using assms(2,3) by (simp add: dt_def dp_def)
    then have d: "run_alone (case dt of Some t \<Rightarrow> t a' | None \<Rightarrow> Return x) s = (case dp of Some p \<Rightarrow> p a' s | None \<Rightarrow> (x, s))" for x
      by (cases rule: option.rel_cases) (auto simp: runs_as_def)
    show ?thesis
      unfolding process_lookup [OF i] dt_def [symmetric] dp_def [symmetric] d [symmetric]
      using assms(1) [of i] by (cases rule: option.rel_cases) (auto simp: runs_as_def)
  next
    case False
    then obtain e where "process_thread S ts dd di a = Return (Invalid S a' e)" "process S r a s = (Invalid S a' e, s)"
      using process_rejects [OF a', of S ts dd di r s] by (metis old.unit.exhaust)
    then show ?thesis by simp
  qed
qed

lemma run_PMW_thread:
  assumes "NewPMWRouter S B I = Inr r"
  shows "run_alone (PMW_thread S B I a) s = process S r a s"
proof -
  have reg: "register_all S (direct_routes S B I @ wallet_routes S B I @ pmw_routes S) New = Inr r" using assms by (simp add: NewPMWRouter_def)
  have "list_all2 (\<lambda>(t, c, x) (t', c', p). t = t' \<and> c = c' \<and> runs_as x p) (direct_threads S B I @ wallet_threads S B I @ pmw_threads S)
      (direct_routes S B I @ wallet_routes S B I @ pmw_routes S)"
    by (intro list_all2_appendI routes_run_as)
  from route_table_rel [OF this] show ?thesis
    using register_all_map [OF reg] register_all_Inr(4,5) [OF reg]
    unfolding PMW_thread_def by (intro run_process_thread) (simp_all add: New_def)
qed

lemma run_Forward_thread:
  assumes "NewForwardRouter S B X port I = Inr r"
  shows "run_alone (Forward_thread S B X port I a) s = process S r a s"
proof -
  obtain r0 where r0: "register_all S (direct_routes S B I @ wallet_routes S B I) New = Inr r0" "rt_routs r = rt_routs r0"
    and d: "rt_defaultInstruction r = Some (\<lambda>a s. on_forwarded (instruction_Default_Process S X port (sy_node s) (sy_policies s) a) s)"
      "rt_defaultDirect r = Some (\<lambda>a s. on_forwarded (direct_Default_Process S X port a) s)"
    using assms by (auto simp: NewForwardRouter_def res_simps RegisterDefaultInstruction_def RegisterDefaultDirect_def split: if_splits)
  have "list_all2 (\<lambda>(t, c, x) (t', c', p). t = t' \<and> c = c' \<and> runs_as x p) (direct_threads S B I @ wallet_threads S B I)
      (direct_routes S B I @ wallet_routes S B I)"
    by (intro list_all2_appendI routes_run_as)
  moreover have "runs_as (direct_Default_thread S X port) (\<lambda>a s. on_forwarded (direct_Default_Process S X port a) s)"
    "runs_as (instruction_Default_thread S X port) (\<lambda>a s. on_forwarded (instruction_Default_Process S X port (sy_node s) (sy_policies s) a) s)"
    by (simp_all add: runs_as_def run_instruction_Default run_direct_Default)
  ultimately show ?thesis
    using register_all_map [OF r0(1)] r0(2) unfolding Forward_thread_def
    by (intro run_process_thread) (simp_all add: d New_def route_table_rel)
qed

section \<open>Where a processing goes\<close>

lemma process_thread_cases:
  obtains (returns) x where "process_thread S ts dd di a = Return x"
  | (enters) a' t where "CheckAndAdapt a = (Inr (), a')" "(\<exists>i. (i, t) \<in> set ts) \<or> dd = Some t \<or> di = Some t" "process_thread S ts dd di a = t a'"
proof -
  obtain c a' where a': "CheckAndAdapt a = (c, a')" by (cases "CheckAndAdapt a")
  show ?thesis
  proof (cases "\<exists>i. c = Inr () \<and> GetOpID S a' = Inr i")
    case True
    then obtain i where i: "CheckAndAdapt a = (Inr (), a')" "GetOpID S a' = Inr i" using a' by auto
    let ?d = "if ad_Type (ac_Data a') = Direct then dd else if ad_Type (ac_Data a') = Instruction then di else None"
    show ?thesis
    proof (cases "map_of ts i")
      case (Some t)
      then show ?thesis using enters [OF i(1), of t] map_of_SomeD [OF Some] by (auto simp: process_lookup [OF i])
    next
      case None
      then show ?thesis using returns enters [OF i(1)] by (cases ?d) (auto simp: process_lookup [OF i] split: if_splits)
    qed
  next
    case False
    then obtain e where "process_thread S ts dd di a = Return (Invalid S a' e)"
      using process_rejects [OF a', of S ts dd di undefined undefined] by (metis old.unit.exhaust)
    then show ?thesis by (rule returns)
  qed
qed

text \<open>The processors that a start-up mode may enter.\<close>

definition node_thread :: "'a system_env_scheme \<Rightarrow> bigmod \<Rightarrow> thread_processor \<Rightarrow> bool" where
  "node_thread S B t \<longleftrightarrow> (\<exists>I. t = PMW_thread S B I) \<or> (\<exists>X port I. t = Forward_thread S B X port I)"

lemma node_thread_cases:
  assumes "node_thread S B t"
  obtains (returns) x where "t a = Return x"
  | (enters) a' I c c' q where "CheckAndAdapt a = (Inr (), a')" "t a = q a'" "(c, c', q) \<in> set (direct_threads S B I @ wallet_threads S B I @ pmw_threads S)"
  | (forwards) a' X port where "CheckAndAdapt a = (Inr (), a')" "t a = direct_Default_thread S X port a' \<or> t a = instruction_Default_thread S X port a'"
  using assms unfolding node_thread_def
proof (elim disjE exE)
  fix I assume t: "t = PMW_thread S B I"
  show ?thesis
  proof (cases rule: process_thread_cases [of S "route_table S (direct_threads S B I @ wallet_threads S B I @ pmw_threads S)" None None a])
    case (enters a' q)
    then obtain c c' where "(c, c', q) \<in> set (direct_threads S B I @ wallet_threads S B I @ pmw_threads S)"
      using route_table_set [of _ q S] by blast
    then show ?thesis using \<open>CheckAndAdapt a = _\<close> enters(3) that(2) [of a' q c c' I] t by (simp add: PMW_thread_def)
  qed (use t returns in \<open>simp add: PMW_thread_def\<close>)
next
  fix X port I assume t: "t = Forward_thread S B X port I"
  show ?thesis
  proof (cases rule: process_thread_cases [of S "route_table S (direct_threads S B I @ wallet_threads S B I)"
        "Some (direct_Default_thread S X port)" "Some (instruction_Default_thread S X port)" a])
    case (enters a' q)
    then consider "\<exists>i. (i, q) \<in> set (route_table S (direct_threads S B I @ wallet_threads S B I))"
      | "q = direct_Default_thread S X port \<or> q = instruction_Default_thread S X port" by auto
    then show ?thesis
    proof cases
      case 1
      then obtain c c' where "(c, c', q) \<in> set (direct_threads S B I @ wallet_threads S B I)"
        using route_table_set [of _ q S] by blast
      then show ?thesis using enters(1,3) that(2) [of a' q c c' I] t by (auto simp: Forward_thread_def)
    next
      case 2
      then show ?thesis using forwards [OF enters(1)] enters(3) t by (auto simp: Forward_thread_def)
    qed
  qed (use t returns in \<open>simp add: Forward_thread_def\<close>)
qed

end
