(* ===== verification/Concurrent_System.thy ===== *)
theory Concurrent_System
  imports Thread_Runs
begin

text \<open>
  What the sections of a processing may do to the shared state, and the interleaving of any number of processings with each other,
  with the ends of payment schedules and with the configuration server. A section that changes something rests on what
  the thread saw in earlier sections: the states of its sections are the set \<open>H\<close>.
\<close>

section \<open>The effect of a section\<close>

definition vetted :: "'a system_env_scheme \<Rightarrow> system set \<Rightarrow> Action \<Rightarrow> DataFixed \<Rightarrow> address list \<Rightarrow> SigningPolicy \<Rightarrow> bool" where
  "vetted S H a d signers p \<longleftrightarrow> Parse_DataFixed S (ad_Message (ac_Data a)) = Inr d
     \<and> (\<exists>s1 \<in> H. \<exists>s2 \<in> H. \<exists>chainID. Node_ChainID (sy_node s1) = Inr chainID
          \<and> preprocess S a d (sy_policies s2) (n_teeID (sy_node s1)) chainID = Inr (signers, p))"

text \<open>The wallet storage after a section of the processing of the instruction \<open>d\<close>.\<close>

inductive wallet_section :: "'a system_env_scheme \<Rightarrow> bigmod \<Rightarrow> system set \<Rightarrow> Action \<Rightarrow> DataFixed \<Rightarrow> system \<Rightarrow> Storage \<Rightarrow> bool" for S B H a d s where
  generates: "wallet_section S B H a d s (snd (KeyGenerate S (sy_node s) ctx drawn (ad_SubmissionTag (ac_Data a)) d ms sg p (sy_wallets s)))"
| deletes: "wallet_section S B H a d s (snd (KeyDelete S (sy_node s) ctx (ad_SubmissionTag (ac_Data a)) d ms sg p (sy_wallets s)))"
| recovers: "s1 \<in> H \<Longrightarrow> s2 \<in> H \<Longrightarrow> ad_SubmissionTag (ac_Data a) = Threshold \<Longrightarrow> keyRestoreDataCheck S d (n_teeID (sy_node s1)) = Inr (md, nonce) \<Longrightarrow>
     processKeySplitMessages S (sy_node s2) (ac_AdditionalVariableMessages a) (md_ID md) = Inr (splits, status) \<Longrightarrow> RecoverWallet S B splits md = Inr w \<Longrightarrow>
     wallet_section S B H a d s (snd (restore_wallet S (sy_node s) ctx \<lparr>kp_WalletID = wb_WalletID (md_ID md), kp_KeyID = wb_KeyID (md_ID md)\<rparr> w nonce (sy_wallets s)))"
| receives: "s1 \<in> H \<Longrightarrow> s2 \<in> H \<Longrightarrow> ad_SubmissionTag (ac_Data a) = Threshold \<Longrightarrow> ParseKeyDirectRestore S d = Inr req \<Longrightarrow>
     validateKeyDirectRestoreRequest (sy_node s1) req = Inr nonce \<Longrightarrow> open_envelope S (sy_node s2) d req = Inr w \<Longrightarrow>
     wallet_section S B H a d s (snd (restore_wallet S (sy_node s) ctx \<lparr>kp_WalletID = bi_WalletId (dr_BackupId req), kp_KeyID = bi_KeyId (dr_BackupId req)\<rparr> w nonce (sy_wallets s)))"

text \<open>The payment schedules after it: the transactions were signed with keys that were stored.\<close>

inductive payment_section :: "'a system_env_scheme \<Rightarrow> system set \<Rightarrow> Action \<Rightarrow> DataFixed \<Rightarrow> system \<Rightarrow> sign_state \<Rightarrow> bool" for S H a d s where
  schedules: "ad_SubmissionTag (ac_Data a) = Threshold \<Longrightarrow> ParsePaymentInstruction S d = Inr inst \<Longrightarrow>
     ParseFeeEntries S (pm_FeeSchedule inst) = Inr entries \<Longrightarrow> check_fee_entries entries = Inr () \<Longrightarrow>
     loadPrivateKeys S (sy_wallets s2) (pm_WalletId inst) (map tk_KeyId (filter (\<lambda>pair. tk_TeeId pair = n_teeID (sy_node s1)) (pm_TeeIdKeyIdPairs inst))) d = Inr keys \<Longrightarrow>
     rmap (buildSignedTx S inst keys) [0..<length entries] = Inr txs \<Longrightarrow> s1 \<in> H \<Longrightarrow> s2 \<in> H \<Longrightarrow> s3 \<in> H \<Longrightarrow>
     payment_section S H a d s (snd (start_schedule (sy_node s) (Some (sy_proxyURL s3)) Threshold d entries txs (sy_sign s)))"

text \<open>
  A governance check decides on what it has read of the node under different locks: the signers and the threshold, the Safe, the
  chain and the extension. \<open>read_node\<close> is the node with these parts.
\<close>

definition read_node :: "Node \<Rightarrow> Node \<Rightarrow> Node \<Rightarrow> Node \<Rightarrow> Node" where
  "read_node n1 n4 n2 n3 = n1\<lparr>n_governance := (n_governance n1)\<lparr>gov_safe := gov_safe (n_governance n4), gov_teeManager := gov_teeManager (n_governance n4)\<rparr>,
     n_chainID := n_chainID n2, n_extensionID := n_extensionID n3\<rparr>"

definition governance_read :: "'a system_env_scheme \<Rightarrow> system set \<Rightarrow> SetMachinePathListRequest \<Rightarrow> bool" where
  "governance_read S H req \<longleftrightarrow> (\<exists>x1 \<in> H. \<exists>x2 \<in> H. \<exists>x3 \<in> H.
     verifyGovernanceSignatures S (read_node (sy_node x1) (sy_node x1) (sy_node x2) (sy_node x3)) req = Inr ()
     \<or> (\<exists>x4 \<in> H. \<exists>approval. sm_SafeApproval req = Some approval
          \<and> verifySafeApproval S (read_node (sy_node x1) (sy_node x4) (sy_node x2) (sy_node x3)) req approval = Inr ()))"

inductive section_effect :: "'a system_env_scheme \<Rightarrow> bigmod \<Rightarrow> system set \<Rightarrow> Action \<Rightarrow> system \<Rightarrow> system \<Rightarrow> bool" for S B H a s where
  unchanged: "section_effect S B H a s s"
| wallets: "vetted S H a d signers p \<Longrightarrow> wallet_section S B H a d s ws \<Longrightarrow> section_effect S B H a s (s\<lparr>sy_wallets := ws\<rparr>)"
| payments: "vetted S H a d signers p \<Longrightarrow> payment_section S H a d s ss \<Longrightarrow> section_effect S B H a s (s\<lparr>sy_sign := ss\<rparr>)"
| initializes: "CheckDirectTag (ad_SubmissionTag (ac_Data a)) = Inr () \<Longrightarrow> Parse_DirectInstruction S (ad_Message (ac_Data a)) = Inr di \<Longrightarrow>
     section_effect S B H a s (s\<lparr>sy_policies := snd (InitializePolicy S (sy_node s) ctx di (sy_policies s))\<rparr>)"
| updates: "CheckDirectTag (ad_SubmissionTag (ac_Data a)) = Inr () \<Longrightarrow> Parse_DirectInstruction S (ad_Message (ac_Data a)) = Inr di \<Longrightarrow>
     section_effect S B H a s (s\<lparr>sy_policies := snd (UpdatePolicy S (sy_node s) ctx di (sy_policies s))\<rparr>)"
| paths: "CheckDirectTag (ad_SubmissionTag (ac_Data a)) = Inr () \<Longrightarrow> Parse_DirectInstruction S (ad_Message (ac_Data a)) = Inr di \<Longrightarrow>
     unjson_SetMachinePathListRequest S (di_Message di) = Inr req \<Longrightarrow> governance_read S H req \<Longrightarrow>
     section_effect S B H a s (s\<lparr>sy_node := snd (SetMachinePathList (sy_node s) (sm_Paths req) (sm_Nonce req))\<rparr>)"
| sends_direct: "CheckDirectTag (ad_SubmissionTag (ac_Data a)) = Inr () \<Longrightarrow> Parse_DirectInstruction S (ad_Message (ac_Data a)) = Inr di \<Longrightarrow>
     CheckForwardable (di_OPType di) = Inr () \<Longrightarrow> section_effect S B H a s (s\<lparr>sy_forwarded := sy_forwarded s @ request_for X port a\<rparr>)"
| sends_instruction: "vetted S H a d signers p \<Longrightarrow> CheckForwardable (df_OPType d) = Inr () \<Longrightarrow> ad_SubmissionTag (ac_Data a) = Threshold \<Longrightarrow>
     section_effect S B H a s (s\<lparr>sy_forwarded := sy_forwarded s @ request_for X port a\<rparr>)"

lemma vetted_mono: "vetted S H a d signers p \<Longrightarrow> H \<subseteq> H' \<Longrightarrow> vetted S H' a d signers p"
  unfolding vetted_def by blast

lemma governance_read_mono: "governance_read S H req \<Longrightarrow> H \<subseteq> H' \<Longrightarrow> governance_read S H' req"
  unfolding governance_read_def by (meson subsetD)

lemma wallet_section_mono:
  assumes "wallet_section S B H a d s ws" and "H \<subseteq> H'"
  shows "wallet_section S B H' a d s ws"
  using assms(1) by cases (use assms(2) in \<open>blast intro: wallet_section.intros\<close>)+

lemma payment_section_mono:
  assumes "payment_section S H a d s ss" and "H \<subseteq> H'"
  shows "payment_section S H' a d s ss"
  using assms(1) by cases (use assms(2) in \<open>blast intro: payment_section.intros\<close>)

lemma section_effect_mono:
  assumes "section_effect S B H a s s'" and "H \<subseteq> H'"
  shows "section_effect S B H' a s s'"
  using assms(1)
proof cases
  case (wallets d signers p ws)
  then show ?thesis using vetted_mono [OF _ assms(2)] wallet_section_mono [OF _ assms(2)] by (metis section_effect.wallets)
next
  case (payments d signers p ss)
  then show ?thesis using vetted_mono [OF _ assms(2)] payment_section_mono [OF _ assms(2)] by (metis section_effect.payments)
next
  case (paths di req)
  then show ?thesis using section_effect.paths [OF paths(2-4) governance_read_mono [OF paths(5) assms(2)]] by simp
next
  case (sends_instruction d signers p X port)
  then show ?thesis using vetted_mono [OF _ assms(2)] section_effect.sends_instruction by metis
qed (auto intro: section_effect.intros)

section \<open>What it leaves of the invariant\<close>

lemma wallet_section_step: "wallet_section S B H a d s ws \<Longrightarrow> wallet_step S B (sy_wallets s) ws"
  by (erule wallet_section.cases) (auto intro: wallet_step.intros)

lemma start_schedule_inv:
  assumes "start_schedule n u Threshold d entries txs s = (r, s')" and "sign_inv s" and "check_fee_entries entries = Inr ()" and "length txs = length entries"
  shows "sign_inv s'"
  using start_schedule_cases [OF assms(1)] assms(2-) by (auto simp: sign_inv_def check_fee_entries_Inr)

lemma payment_section_inv:
  assumes "payment_section S H a d s ss" and "sign_inv (sy_sign s)"
  shows "sign_inv ss"
  using assms(1)
proof cases
  case (schedules inst entries s2 s1 keys txs s3)
  have "length txs = length entries" using schedules(7) by (auto simp: rmap_eq_Inr dest: list_all2_lengthD)
  then show ?thesis using start_schedule_inv [OF surjective_pairing assms(2) schedules(5)] by (simp add: schedules(1))
qed

lemma section_node_step: "section_effect S B H a s s' \<Longrightarrow> (node_step F)\<^sup>*\<^sup>* (sy_node s) (sy_node s')"
  by (erule section_effect.cases) (auto intro: node_step.intros r_into_rtranclp)

lemma section_policy_step: "section_effect S B H a s s' \<Longrightarrow> (policy_step S)\<^sup>*\<^sup>* (sy_policies s) (sy_policies s')"
  by (erule section_effect.cases) (auto intro: policy_step.intros r_into_rtranclp)

lemma section_wallet_step: "section_effect S B H a s s' \<Longrightarrow> (wallet_step S B)\<^sup>*\<^sup>* (sy_wallets s) (sy_wallets s')"
  by (erule section_effect.cases) (auto intro: wallet_section_step r_into_rtranclp)

lemma section_effect_inv:
  assumes "section_effect S B H a s s'" and "system_inv S N pt s"
  shows "system_inv S N pt s'"
  using assms(1)
proof cases
  case (wallets d signers p ws)
  then show ?thesis using assms(2) wallet_step_ratchet(1) [OF wallet_section_step [OF wallets(3)]] by (auto simp: system_inv_def)
next
  case (payments d signers p ss)
  then show ?thesis using assms(2) payment_section_inv [OF payments(3)] by (auto simp: system_inv_def)
next
  case (initializes di ctx)
  then show ?thesis using assms(2) policy_step_inv [OF policy_step.step_initialize [of S _ "sy_node s" ctx di]] by (auto simp: system_inv_def)
next
  case (updates di ctx)
  then show ?thesis using assms(2) policy_step_inv [OF policy_step.step_update [of S _ "sy_node s" ctx di]] by (auto simp: system_inv_def)
next
  case (paths di req)
  then show ?thesis using assms(2) node_step_inv [OF node_step.step_paths, of S] by (auto simp: system_inv_def)
qed (use assms(2) in \<open>simp_all add: system_inv_def\<close>)

section \<open>Every thread keeps to it\<close>

lemma vetted_insert [intro]: "vetted S H a d signers p \<Longrightarrow> vetted S (insert s H) a d signers p"
  by (erule vetted_mono) blast

lemma keeps_look: "(\<And>s. keeps P (\<lambda>H. section_effect S B H a) (insert s H) (k (f s))) \<Longrightarrow> keeps P (\<lambda>H. section_effect S B H a) H (reading f k)"
  by (rule keeps_reading) (simp add: section_effect.unchanged)

lemma keeps_result: "keeps P (\<lambda>H. section_effect S B H a) H (ttry r (\<lambda>x. Return (Inr (g x))))"
  by (rule keeps_ttry) simp

lemma keeps_locked_only:
  assumes "\<And>s. section_effect S B (insert s H) a s (snd (f s))"
  shows "keeps P (\<lambda>H. section_effect S B H a) H (locked f (\<lambda>r. ttry r (\<lambda>x. Return (Inr (g x)))))" "keeps P (\<lambda>H. section_effect S B H a) H (locked f Return)"
  by (rule keeps_locked, simp add: assms keeps_result)+

lemmas keeps_steps = keeps_look keeps_ttry keeps_result keeps_locked_only

text \<open>The handlers of the instructions, on an instruction that the thread has vetted.\<close>

definition handler_keeps :: "'a system_env_scheme \<Rightarrow> bigmod \<Rightarrow> handler_thread \<Rightarrow> bool" where
  "handler_keeps S B f \<longleftrightarrow> (\<forall>P H a d signers p. vetted S H a d signers p \<longrightarrow>
     keeps P (\<lambda>H. section_effect S B H a) H (f (ad_SubmissionTag (ac_Data a)) d (ac_AdditionalVariableMessages a) signers p))"

lemma KeyGenerate_keeps: "handler_keeps S B (KeyGenerate_thread S ctx drawn)"
  by (auto simp: handler_keeps_def KeyGenerate_thread_def intro!: keeps_steps section_effect.wallets wallet_section.generates)

lemma KeyDelete_keeps: "handler_keeps S B (KeyDelete_thread S ctx)"
  by (auto simp: handler_keeps_def KeyDelete_thread_def intro!: keeps_steps section_effect.wallets wallet_section.deletes)

lemma restore_keeps:
  assumes "vetted S H a d signers p" and "\<And>s. wallet_section S B (insert s H) a d s (snd (restore_wallet S (sy_node s) ctx i w nonce (sy_wallets s)))"
  shows "keeps P (\<lambda>H. section_effect S B H a) H (restore_section S ctx i w nonce (\<lambda>r. ttry r (\<lambda>x. Return (Inr (g x)))))"
  unfolding restore_section_def
  by (intro keeps_locked_only) (simp, rule section_effect.wallets [OF vetted_insert [OF assms(1)] assms(2)])

lemma KeyDataProviderRestore_keeps: "handler_keeps S B (KeyDataProviderRestore_thread S B ctx)"
  unfolding handler_keeps_def
proof (intro allI impI)
  fix P H a d signers p assume v: "vetted S H a d signers p"
  have "vetted S (insert s2 (insert s1 H)) a d signers p" for s1 s2 using v by (rule vetted_mono) blast
  note restore = restore_keeps [OF this] wallet_section.recovers [where S = S and B = B and d = d]
  show "keeps P (\<lambda>H. section_effect S B H a) H
      (KeyDataProviderRestore_thread S B ctx (ad_SubmissionTag (ac_Data a)) d (ac_AdditionalVariableMessages a) signers p)"
    unfolding KeyDataProviderRestore_thread_def Let_def
    by (auto intro!: keeps_steps restore(1) intro: restore(2))
qed

lemma KeyDirectBackup_keeps: "handler_keeps S B (KeyDirectBackup_thread S ctx rh er)"
  unfolding handler_keeps_def KeyDirectBackup_thread_def Let_def by (auto intro!: keeps_steps)

lemma KeyDirectRestore_keeps: "handler_keeps S B (KeyDirectRestore_thread S ctx)"
  unfolding handler_keeps_def
proof (intro allI impI)
  fix P H a d signers p assume v: "vetted S H a d signers p"
  have "vetted S (insert s2 (insert s1 H)) a d signers p" for s1 s2 using v by (rule vetted_mono) blast
  note restore = restore_keeps [OF this] wallet_section.receives [where S = S and B = B and d = d]
  show "keeps P (\<lambda>H. section_effect S B H a) H
      (KeyDirectRestore_thread S ctx (ad_SubmissionTag (ac_Data a)) d (ac_AdditionalVariableMessages a) signers p)"
    unfolding KeyDirectRestore_thread_def Let_def
    by (auto intro!: keeps_steps restore(1) intro: restore(2))
qed

lemma reading_handlers_keep:
  "handler_keeps S B (TEEAttestation_thread S U)" "handler_keeps S B (Prove_thread S)" "handler_keeps S B (ProveRandomness_thread S)"
  unfolding handler_keeps_def TEEAttestation_thread_def Prove_thread_def ProveRandomness_thread_def by (auto intro!: keeps_steps)

lemma SignXRPLPayment_keeps: "handler_keeps S B (SignXRPLPayment_thread S)"
  unfolding handler_keeps_def
proof (intro allI impI)
  fix P H a d signers p assume v: "vetted S H a d signers p"
  have "vetted S (insert s4 (insert s3 (insert s2 (insert s1 H)))) a d signers p" for s1 s2 s3 s4 using v by (rule vetted_mono) blast
  note pay = section_effect.payments [OF this] payment_section.schedules [where S = S and d = d]
  show "keeps P (\<lambda>H. section_effect S B H a) H
      (SignXRPLPayment_thread S (ad_SubmissionTag (ac_Data a)) d (ac_AdditionalVariableMessages a) signers p)"
    unfolding SignXRPLPayment_thread_def Let_def
    by (auto intro!: keeps_steps pay(1)) (rule pay(2), assumption+, simp_all)
qed

text \<open>The pipelines around them.\<close>

lemma keeps_returning:
  "keeps P (\<lambda>H. section_effect S B H a) H t \<Longrightarrow> keeps P (\<lambda>H. section_effect S B H a) H (bind_thread t (\<lambda>r. Return (g r)))"
  by (erule keeps_bind) simp

lemma Process_keeps:
  assumes "handler_keeps S B f"
  shows "keeps P (\<lambda>H. section_effect S B H a) {} (Process_thread S f imm a)"
  unfolding Process_thread_def
proof (intro keeps_returning keeps_look keeps_ttry, clarify)
  fix d chainID signers p and s1 s2 :: system
  assume "Parse_DataFixed S (ad_Message (ac_Data a)) = Inr d" "Node_ChainID (sy_node s1) = Inr chainID"
    "preprocess S a d (sy_policies s2) (n_teeID (sy_node s1)) chainID = Inr (signers, p)"
  then have "vetted S {s2, s1} a d signers p" unfolding vetted_def by blast
  then have "keeps P (\<lambda>H. section_effect S B H a) {s2, s1} (f (ad_SubmissionTag (ac_Data a)) d (ac_AdditionalVariableMessages a) signers p)"
    using assms by (simp add: handler_keeps_def)
  then show "keeps P (\<lambda>H. section_effect S B H a) {s2, s1}
      (bind_thread (f (ad_SubmissionTag (ac_Data a)) d (ac_AdditionalVariableMessages a) signers p)
        (\<lambda>r. ttry r (\<lambda>(pMessage, additionalStatus). reading sy_node (\<lambda>n. Return (Inr (finish_instruction S n imm a d signers pMessage additionalStatus))))))"
    by (rule keeps_bind) (auto intro!: keeps_steps)
qed

lemma send_keeps:
  assumes "section_effect S B (insert s H) a s (s\<lparr>sy_forwarded := sy_forwarded s @ request_for X port a\<rparr>)"
  shows "section_effect S B (insert s H) a s (snd (on_forwarded (forward S X port a) s))"
  using assms by (simp add: forward_posts request_for_def)

lemma instruction_Default_keeps: "keeps P (\<lambda>H. section_effect S B H a) {} (instruction_Default_thread S X port a)"
  unfolding instruction_Default_thread_def Let_def
proof (intro keeps_returning keeps_look keeps_ttry, clarify)
  fix d chainID signers p and s1 s2 :: system
  assume d: "Parse_DataFixed S (ad_Message (ac_Data a)) = Inr d" "CheckForwardable (df_OPType d) = Inr ()" "Node_ChainID (sy_node s1) = Inr chainID"
    "preprocess S a d (sy_policies s2) (n_teeID (sy_node s1)) chainID = Inr (signers, p)"
  then have "vetted S {s3, s2, s1} a d signers p" for s3 unfolding vetted_def by blast
  from section_effect.sends_instruction [OF this d(2)]
  have send: "section_effect S B {s3, s2, s1} a s3 (snd (on_forwarded (forward S X port a) s3))" if "ad_SubmissionTag (ac_Data a) = Threshold" for s3
    using that by (intro send_keeps) blast
  show "keeps P (\<lambda>H. section_effect S B H a) {s2, s1}
      (if ad_SubmissionTag (ac_Data a) = Threshold then locked (on_forwarded (forward S X port a)) (\<lambda>r. Return (Inr r))
       else if ad_SubmissionTag (ac_Data a) = End then reading sy_node (\<lambda>n.
         ttry (rewardingData S d (ac_Signatures a) (ac_AdditionalVariableMessages a) signers (ac_Timestamps a) [] n) (\<lambda>msg.
         Return (Inr \<lparr>ar_ID = ad_ID (ac_Data a), ar_SubmissionTag = ad_SubmissionTag (ac_Data a), ar_Status = 1, ar_Log = None,
           ar_OPType = df_OPType d, ar_OPCommand = df_OPCommand d, ar_AdditionalResultStatus = [],
           ar_Version = EncodingVersion, ar_Data = msg\<rparr>)))
       else Return (Inl (Err ''invalid submissionTag'')))"
    using send by (auto intro!: keeps_locked keeps_look keeps_ttry simp del: on_forwarded_simps)
qed

lemma direct_Default_keeps: "keeps P (\<lambda>H. section_effect S B H a) {} (direct_Default_thread S X port a)"
  unfolding direct_Default_thread_def
  by (intro keeps_returning keeps_ttry keeps_locked) (auto intro!: send_keeps section_effect.sends_direct simp del: on_forwarded_simps)

lemma direct_keeps:
  assumes "\<And>di. CheckDirectTag (ad_SubmissionTag (ac_Data a)) = Inr () \<Longrightarrow> Parse_DirectInstruction S (ad_Message (ac_Data a)) = Inr di
    \<Longrightarrow> keeps P (\<lambda>H. section_effect S B H a) H (f di)"
  shows "keeps P (\<lambda>H. section_effect S B H a) H (direct_thread S f a)"
  unfolding direct_thread_def by (intro keeps_returning keeps_ttry keeps_bind assms) (simp_all add: keeps_result)

lemma direct_handlers_keep:
  "keeps P (\<lambda>H. section_effect S B H a) H (KeysInfo_thread S i)" "keeps P (\<lambda>H. section_effect S B H a) H (KeysProof_thread S ca i)"
  "keeps P (\<lambda>H. section_effect S B H a) H (get_TEEInfo_thread S U i)" "keeps P (\<lambda>H. section_effect S B H a) H (TEEBackup_thread S B' rnd i)"
  unfolding KeysInfo_thread_def KeysProof_thread_def get_TEEInfo_thread_def TEEBackup_thread_def by (auto intro!: keeps_steps)

lemma policy_handlers_keep:
  assumes "CheckDirectTag (ad_SubmissionTag (ac_Data a)) = Inr ()" and "Parse_DirectInstruction S (ad_Message (ac_Data a)) = Inr i"
  shows "keeps P (\<lambda>H. section_effect S B H a) H (InitializePolicy_thread S ct i)" "keeps P (\<lambda>H. section_effect S B H a) H (UpdatePolicy_thread S ct i)"
  unfolding InitializePolicy_thread_def UpdatePolicy_thread_def
  by (rule keeps_locked_only(2), simp, rule section_effect.intros, fact+)+

lemma bind_ttry: "bind_thread (ttry m f) k = (case m of Inl e \<Rightarrow> k (Inl e) | Inr x \<Rightarrow> bind_thread (f x) k)"
  by (simp add: ttry_def split: sum.split)

lemma read_node_simps [simp]:
  "Governance (read_node n1 n4 n2 n3) = Governance n1" "GovernanceSafe (read_node n1 n4 n2 n3) = GovernanceSafe n4"
  "Node_ChainID (read_node n1 n4 n2 n3) = Node_ChainID n2" "in_ExtensionID (Node_Info F (read_node n1 n4 n2 n3)) = in_ExtensionID (Node_Info F n3)"
  by (simp_all add: read_node_def Governance_def GovernanceSafe_def Node_ChainID_def Node_Info_def Let_def)

text \<open>The rest of a thread after either check, with what the check has read behind it.\<close>

lemma signatures_keep:
  assumes "\<And>H'. H \<subseteq> H' \<Longrightarrow> governance_read S H' req \<Longrightarrow> keeps P (\<lambda>H. section_effect S B H a) H' (k (Inr ()))"
    and "\<And>e H'. H \<subseteq> H' \<Longrightarrow> keeps P (\<lambda>H. section_effect S B H a) H' (k (Inl e))"
  shows "keeps P (\<lambda>H. section_effect S B H a) H (bind_thread (governance_signatures_thread S req) k)"
proof -
  have approved: "keeps P (\<lambda>H. section_effect S B H a) (insert x3 (insert x2 (insert x1 H))) (k (signatures_approve S g t c e req))"
    if "Governance (sy_node x1) = (g, t, True)" "Node_ChainID (sy_node x2) = Inr c" "in_ExtensionID (Node_Info S (sy_node x3)) = e" for x1 x2 x3 g t c e
  proof (cases "signatures_approve S g t c e req")
    case (Inr u)
    then have "verifyGovernanceSignatures S (read_node (sy_node x1) (sy_node x1) (sy_node x2) (sy_node x3)) req = Inr ()"
      using that by (simp add: verifyGovernanceSignatures_def)
    then have "governance_read S (insert x3 (insert x2 (insert x1 H))) req" unfolding governance_read_def by blast
    then show ?thesis using Inr assms(1) [of "insert x3 (insert x2 (insert x1 H))"] by auto
  next
    case (Inl e')
    then show ?thesis using assms(2) [of "insert x3 (insert x2 (insert x1 H))" e'] by auto
  qed
  show ?thesis
    unfolding governance_signatures_thread_def Let_def
    by (auto simp: bind_reading bind_ttry ensure_def split: prod.split sum.split intro!: keeps_look approved assms(2))
qed

lemma safe_keep:
  assumes "\<And>H'. H \<subseteq> H' \<Longrightarrow> governance_read S H' req \<Longrightarrow> keeps P (\<lambda>H. section_effect S B H a) H' (k (Inr ()))"
    and "\<And>e H'. H \<subseteq> H' \<Longrightarrow> keeps P (\<lambda>H. section_effect S B H a) H' (k (Inl e))" and "sm_SafeApproval req = Some approval"
  shows "keeps P (\<lambda>H. section_effect S B H a) H (bind_thread (safe_approval_thread S req approval) k)"
proof -
  have approved: "keeps P (\<lambda>H. section_effect S B H a) (insert x3 (insert x2 (insert x4 (insert x1 H)))) (k (safe_approves S g t sa m c e req approval))"
    if "Governance (sy_node x1) = (g, t, True)" "GovernanceSafe (sy_node x4) = (sa, m)" "sa \<noteq> 0" "Node_ChainID (sy_node x2) = Inr c"
      "in_ExtensionID (Node_Info S (sy_node x3)) = e" for x1 x2 x3 x4 g t sa m c e
  proof (cases "safe_approves S g t sa m c e req approval")
    case (Inr u)
    let ?H = "insert x3 (insert x2 (insert x4 (insert x1 H)))"
    have "verifySafeApproval S (read_node (sy_node x1) (sy_node x4) (sy_node x2) (sy_node x3)) req approval = Inr ()"
      using that Inr by (simp add: verifySafeApproval_def)
    moreover have "x1 \<in> ?H" "x2 \<in> ?H" "x3 \<in> ?H" "x4 \<in> ?H" by simp_all
    ultimately have "governance_read S ?H req" unfolding governance_read_def using assms(3) by blast
    then show ?thesis using Inr assms(1) [of ?H] by auto
  next
    case (Inl e')
    then show ?thesis using assms(2) [of "insert x3 (insert x2 (insert x4 (insert x1 H)))" e'] by auto
  qed
  show ?thesis
    unfolding safe_approval_thread_def Let_def
    by (auto simp: bind_reading bind_ttry ensure_def split: prod.split sum.split intro!: keeps_look approved assms(2))
qed

lemma governance_keeps:
  assumes "\<And>H'. H \<subseteq> H' \<Longrightarrow> governance_read S H' req \<Longrightarrow> keeps P (\<lambda>H. section_effect S B H a) H' (k (Inr ()))"
    and "\<And>e H'. H \<subseteq> H' \<Longrightarrow> keeps P (\<lambda>H. section_effect S B H a) H' (k (Inl e))"
  shows "keeps P (\<lambda>H. section_effect S B H a) H (bind_thread (governance_thread S req) k)"
  unfolding governance_thread_def bind_assoc
proof (rule signatures_keep)
  fix e H' assume H: "H \<subseteq> H'"
  show "keeps P (\<lambda>H. section_effect S B H a) H' (bind_thread (case Inl e of Inr _ \<Rightarrow> Return (Inr ()) | Inl sigErr \<Rightarrow> (case sm_SafeApproval req of
         None \<Rightarrow> Return (Inl sigErr)
       | Some approval \<Rightarrow> bind_thread (safe_approval_thread S req approval) (\<lambda>r. case r of
           Inr _ \<Rightarrow> Return (Inr ())
         | Inl safeErr \<Rightarrow> Return (Inl (Wrapped ''governance signatures and safe approval'' safeErr))))) k)"
    by (auto simp: bind_assoc split: option.split intro!: safe_keep assms(1) [OF subset_trans [OF H]] assms(2) [OF subset_trans [OF H]] assms(2) [OF H])
qed (use assms in auto)

lemma SetMachinePathList_keeps:
  assumes "CheckDirectTag (ad_SubmissionTag (ac_Data a)) = Inr ()" and "Parse_DirectInstruction S (ad_Message (ac_Data a)) = Inr i"
  shows "keeps P (\<lambda>H. section_effect S B H a) H (SetMachinePathList_thread S ct i)"
  unfolding SetMachinePathList_thread_def
proof (intro keeps_ttry governance_keeps)
  fix req H' u v
  assume r: "unjson_SetMachinePathListRequest S (di_Message i) = Inr req" and read: "governance_read S H' req"
  have "section_effect S B (insert s2 H') a s2 (snd (on_machine_paths req s2))" for s2
    using section_effect.paths [OF assms r governance_read_mono [OF read subset_insertI]] by simp
  then show "keeps P (\<lambda>H. section_effect S B H a) H' (locked (on_machine_paths req) (\<lambda>r. ttry r (\<lambda>_. Return (Inr []))))"
    by (rule keeps_locked_only(1))
qed simp

lemma node_thread_keeps:
  assumes "node_thread S B t"
  shows "(\<exists>x. t a = Return x) \<or> (\<exists>a'. CheckAndAdapt a = (Inr (), a') \<and> keeps P (\<lambda>H. section_effect S B H a') {} (t a))"
  using assms
proof (cases rule: node_thread_cases [where a = a])
  case (enters a' I c c' q)
  have "keeps P (\<lambda>H. section_effect S B H a') {} (q a')"
    using enters(3)
    by (auto simp: direct_threads_def wallet_threads_def pmw_threads_def
        intro!: Process_keeps KeyGenerate_keeps KeyDelete_keeps KeyDataProviderRestore_keeps KeyDirectBackup_keeps KeyDirectRestore_keeps
          reading_handlers_keep SignXRPLPayment_keeps direct_keeps direct_handlers_keep policy_handlers_keep SetMachinePathList_keeps)
  then show ?thesis using enters by metis
next
  case (forwards a' X port)
  then show ?thesis using instruction_Default_keeps direct_Default_keeps by metis
qed blast

section \<open>The interleaving of the node\<close>

text \<open>What happens beside the queue workers: schedules end, and the configuration server is called.\<close>

inductive beside :: "'a flare_scheme \<Rightarrow> net_env \<Rightarrow> ports \<Rightarrow> system \<Rightarrow> system \<Rightarrow> bool" for S N pt where
  beside_schedule: "i < length (sg_schedules (sy_sign s)) \<Longrightarrow> beside S N pt s (s\<lparr>sy_sign := finish_schedule i (sy_sign s)\<rparr>)"
| beside_proxy: "beside S N pt s (s\<lparr>sy_proxyURL := snd (proxyHandler N pt body (sy_proxyURL s))\<rparr>)"
| beside_extension: "beside S N pt s (s\<lparr>sy_node := snd (extensionIDHandler N body (sy_node s))\<rparr>)"
| beside_governance: "beside S N pt s (s\<lparr>sy_node := snd (governanceHandler S N body (sy_node s))\<rparr>)"
| beside_owner: "beside S N pt s (s\<lparr>sy_node := snd (initialOwnerHandler N body (sy_node s))\<rparr>)"
| beside_chain: "beside S N pt s (s\<lparr>sy_node := snd (chainIDHandler N body (sy_node s))\<rparr>)"

lemma beside_step: "beside S N pt s s' \<Longrightarrow> system_step S B N pt s s'"
  by (erule beside.cases) (auto intro: system_step.intros)

lemma config_handlers_steps:
  "(node_step F)\<^sup>*\<^sup>* n (snd (extensionIDHandler N body n))" "(node_step F)\<^sup>*\<^sup>* n (snd (governanceHandler F N body n))"
  "(node_step F)\<^sup>*\<^sup>* n (snd (initialOwnerHandler N body n))" "(node_step F)\<^sup>*\<^sup>* n (snd (chainIDHandler N body n))"
  using config_handlers_step [where F = F and N = N and body = body and n = n] by (metis r_into_rtranclp rtranclp.rtrancl_refl)+

lemma beside_projects:
  assumes "beside S N pt s s'"
  shows "(node_step S)\<^sup>*\<^sup>* (sy_node s) (sy_node s')" "sy_policies s' = sy_policies s" "sy_wallets s' = sy_wallets s"
  using assms by (auto elim!: beside.cases intro: config_handlers_steps)

text \<open>The processings that a queue worker may start, of any action, with any outside inputs.\<close>

inductive processing :: "'a system_env_scheme \<Rightarrow> bigmod \<Rightarrow> ActionResult system_thread \<Rightarrow> bool" for S B where
  processing: "node_thread S B t \<Longrightarrow> processing S B (t a)"

definition some_effect :: "'a system_env_scheme \<Rightarrow> bigmod \<Rightarrow> system set \<Rightarrow> system \<Rightarrow> system \<Rightarrow> bool" where
  "some_effect S B H s s' \<longleftrightarrow> s' = s \<or> (\<exists>a a'. CheckAndAdapt a = (Inr (), a') \<and> section_effect S B H a' s s')"

interpretation conc: guarantees "system_inv S N pt" "beside S N pt" "processing S B" "some_effect S B" for S B N pt
proof
  show "beside S N pt s s' \<Longrightarrow> system_inv S N pt s \<Longrightarrow> system_inv S N pt s'" for s s' by (rule system_step_inv [OF beside_step])
  show "some_effect S B H s s' \<Longrightarrow> system_inv S N pt s \<Longrightarrow> system_inv S N pt s'" for H s s'
    using section_effect_inv by (auto simp: some_effect_def)
  show "A \<subseteq> A' \<Longrightarrow> some_effect S B A s s' \<Longrightarrow> some_effect S B A' s s'" for A A' s s'
    unfolding some_effect_def using section_effect_mono by metis
  show "processing S B t \<Longrightarrow> keeps (system_inv S N pt) (some_effect S B) {} t" for t
  proof (induction rule: processing.induct)
    case (processing t a)
    from node_thread_keeps [OF processing, of a "system_inv S N pt"] show ?case
      by (auto simp: some_effect_def intro: keeps_weaken)
  qed
qed

end
