(* ===== verification/Props_Concurrency.thy ===== *)
theory Props_Concurrency
  imports Concurrent_System Props_System Props_Node
begin

text \<open>
  Properties of the running node, in which the three queue workers, late processings that a worker has given up, the
  configuration server and the payment schedules interleave at every lock.
\<close>

section \<open>All of them\<close>

text \<open>What a run leaves of the parts of the state.\<close>

lemma run_projections:
  assumes "(interleave (beside S N pt) (processing S B))\<^sup>*\<^sup>* ([s0], []) (s # h, ts)" and "system_inv S N pt s0" and "x \<in> set (s # h)"
  shows "(node_step S)\<^sup>*\<^sup>* (sy_node x) (sy_node s)" "(policy_step S)\<^sup>*\<^sup>* (sy_policies x) (sy_policies s)"
    "(wallet_step S B)\<^sup>*\<^sup>* (sy_wallets x) (sy_wallets s)"
proof -
  have x: "x \<in> set (fst (s # h, ts))" using assms(3) by simp
  note run = conc.run_history [OF assms(1,2) x, simplified]
  show "(node_step S)\<^sup>*\<^sup>* (sy_node x) (sy_node s)"
    by (rule run) (auto simp: some_effect_def intro: beside_projects section_node_step)
  show "(policy_step S)\<^sup>*\<^sup>* (sy_policies x) (sy_policies s)"
    by (rule run) (auto simp: some_effect_def beside_projects(2) intro: section_policy_step)
  show "(wallet_step S B)\<^sup>*\<^sup>* (sy_wallets x) (sy_wallets s)"
    by (rule run) (auto simp: some_effect_def beside_projects(3) intro: section_wallet_step)
qed

lemma start_visited: "(interleave (beside S N pt) (processing S B))\<^sup>*\<^sup>* ([s0], []) (s # h, ts) \<Longrightarrow> s0 \<in> set (s # h)"
  using conc.run_start by fastforce

text \<open>
  C6: the whole system stays well-formed under concurrency. From start-up on, however the sections of any number of processings,
  the requests to the configuration server and the ends of payment schedules interleave, in every state
  that is ever visible: the node keeps a consistent identity and governance, the policies are consecutive epochs
  with the keys of the active voters, the wallet storage is well-formed and within its limits, at most 3000 payment
  schedules run, each within the fee limits, and a proxy address, once set, never points back at a port of the node.
  And each storage has gone through a sequence of its own atomic steps, so that what is proved of those sequences holds of the run.
\<close>

theorem interleaved_runs_keep_invariant:
  assumes "initialize_system S N pt env drawn state = Inr s0"
    and "(interleave (beside S N pt) (processing S B))\<^sup>*\<^sup>* ([s0], []) (s # h, ts)"
  shows "node_inv S (sy_node s) \<and> policy_inv (sy_policies s) \<and> storage_inv (sy_wallets s) \<and> sign_inv (sy_sign s)
    \<and> (sy_proxyURL s \<noteq> [] \<longrightarrow> foreign_url N pt (sy_proxyURL s))
    \<and> (node_step S)\<^sup>*\<^sup>* (sy_node s0) (sy_node s) \<and> (policy_step S)\<^sup>*\<^sup>* (sy_policies s0) (sy_policies s)
    \<and> (wallet_step S B)\<^sup>*\<^sup>* (sy_wallets s0) (sy_wallets s)"
proof -
  have s0: "system_inv S N pt s0" by (rule initialize_system_inv [OF assms(1)])
  have "system_inv S N pt s" by (rule conc.run_keeps_inv [OF assms(2) s0]) simp
  then show ?thesis using run_projections [OF assms(2) s0 start_visited [OF assms(2)]] by (simp add: system_inv_def)
qed

text \<open>The same run from start-up, by the configuration server alone.\<close>

lemma env_run: "beside S N pt s s' \<Longrightarrow> interleave (beside S N pt) (processing S B) (s # h, ts) (s' # s # h, ts)"
  by (rule interleave.env_moves)

lemma sx_proxy: "sy_proxyURL s = [] \<Longrightarrow> beside toyS sx_net default_ports s (s\<lparr>sy_proxyURL := ''http://localhost:80''\<rparr>)"
proof -
  assume "sy_proxyURL s = []"
  moreover have "ValidateProxyURL sx_net default_ports ''http://localhost:80'' = Inr ()" using sx_url by (simp only: ValidateProxyURL_iff)
  ultimately have "snd (proxyHandler sx_net default_ports [] (sy_proxyURL s)) = ''http://localhost:80''"
    by (simp add: proxyHandler_def decode_limited_def) (simp add: sx_net_def)
  then show ?thesis using beside_proxy [of toyS sx_net default_ports s "[]"] by simp
qed

lemma sx_concurrent_start:
  "(interleave (beside toyS sx_net default_ports) (processing toyS bigmod_ref))\<^sup>*\<^sup>* ([sx_start], [])
     ([sx_configured, sx_start\<lparr>sy_node := (sy_node sx_start)\<lparr>n_chainID := 1\<rparr>\<rparr>, sx_start], [])"
proof -
  let ?s1 = "sx_start\<lparr>sy_node := (sy_node sx_start)\<lparr>n_chainID := 1\<rparr>\<rparr>"
  have "snd (chainIDHandler sx_net [] (sy_node sx_start)) = (sy_node sx_start)\<lparr>n_chainID := 1\<rparr>"
    by (simp add: chainIDHandler_def decode_limited_def SetChainID_def sx_start_def fresh_node_def sx_net_def)
  then have "beside toyS sx_net default_ports sx_start ?s1" using beside_chain [of toyS sx_net default_ports sx_start "[]"] by simp
  moreover have "beside toyS sx_net default_ports ?s1 sx_configured"
    using sx_proxy [of ?s1] by (simp add: sx_configured_def sx_start_def)
  ultimately have "interleave (beside toyS sx_net default_ports) (processing toyS bigmod_ref) ([sx_start], []) ([?s1, sx_start], [])"
    "interleave (beside toyS sx_net default_ports) (processing toyS bigmod_ref) ([?s1, sx_start], []) ([sx_configured, ?s1, sx_start], [])"
    by (auto intro: env_run)
  then show ?thesis by (rule converse_rtranclp_into_rtranclp [OF _ r_into_rtranclp])
qed

theorem interleaved_runs_keep_invariant_witness:
  "node_inv toyS (sy_node sx_configured) \<and> (wallet_step toyS bigmod_ref)\<^sup>*\<^sup>* InitializeStorage InitializeStorage"
  using interleaved_runs_keep_invariant [OF sx_start sx_concurrent_start] by (simp add: sx_configured_def sx_start_def)

section \<open>The example runs\<close>

lemma toy_op_hashes:
  "OPType_Hash toy OP_Get = 3" "OPType_Hash toy OP_Policy = 4" "OPType_Hash toy OP_Governance = 5" "OPType_Hash toy OP_Wallet = 1"
  "OPType_Hash toy OP_Reg = 6" "OPType_Hash toy OP_FDC2 = 2" "OPType_Hash toy OP_XRP = 7"
  by (simp_all add: toy_defs)

lemma sx_inv: "system_inv toyS sx_net default_ports sx_system"
proof -
  have "node_inv toyS ex_node" by (simp add: node_inv_def governance_ok_def ex_node_def fresh_node_def toy_key_def toy_pub_def)
  moreover have "storage_inv ex_storage1" using wallet_step_ratchet(1) [OF ex_steps(1)] by (simp add: storage_inv_def InitializeStorage_def)
  ultimately show ?thesis
    using ix_policies_inv by (simp add: system_inv_def sx_system_def sign_inv_def MaxSignGoroutines_def)
qed

text \<open>The key deletion of the example, up to the section that changes the storage.\<close>

definition sx_delete_section :: "system \<Rightarrow> (bytes \<times> bytes) res \<times> system" where
  "sx_delete_section s = on_wallets (KeyDelete toyS (sy_node s) None Threshold ix_data [[], []] [6, 4] toy_policy) s"

lemma sx_thread:
  obtains k2 k1 k0 where "PMW_thread toyS bigmod_ref sx_inputs ix_action = reading sy_node k2" "k2 ex_node = reading sy_policies k1"
    "k1 ix_policies = locked sx_delete_section k0"
proof -
  have parse: "Parse_DataFixed toyS (ad_Message (ac_Data ix_action)) = Inr ix_data"
    by (simp add: Parse_DataFixed_def Parse_sized_def MaxInstructionSize_def ix_action_def)
  have chain: "Node_ChainID ex_node = Inr 1" by (simp add: Node_ChainID_def)
  have "PMW_thread toyS bigmod_ref sx_inputs ix_action = Process_thread toyS (KeyDelete_thread toyS None) True ix_action"
    by (simp add: PMW_thread_def process_lookup [OF ix_adapted] GetOpID_def route_table_def direct_threads_def wallet_threads_def pmw_threads_def
        toy_op_hashes sx_inputs_def)
  then show ?thesis
    using that sx_preprocess parse chain
    by (simp add: Process_thread_def bind_reading bind_locked KeyDelete_thread_def sx_delete_section_def [abs_def] ix_action_def)
qed

definition sx_proxied :: system where "sx_proxied = sx_system\<lparr>sy_proxyURL := ''http://localhost:80''\<rparr>"

abbreviation sx_interleave :: "system list \<times> ActionResult system_thread list \<Rightarrow> system list \<times> ActionResult system_thread list \<Rightarrow> bool" where
  "sx_interleave \<equiv> interleave (beside toyS sx_net default_ports) (processing toyS bigmod_ref)"

text \<open>The processing reads the node and the policies; then the proxy is configured; then the key is deleted.\<close>

lemma sx_interleaved:
  obtains ts ts' where "sx_interleave\<^sup>*\<^sup>* ([sx_system], []) ([sx_proxied, sx_system, sx_system, sx_system], ts)"
    "sx_interleave ([sx_proxied, sx_system, sx_system, sx_system], ts) ([sx_proxied\<lparr>sy_wallets := ex_storage2\<rparr>, sx_proxied, sx_system, sx_system, sx_system], ts')"
proof -
  obtain k2 k1 k0 where k: "PMW_thread toyS bigmod_ref sx_inputs ix_action = reading sy_node k2" "k2 ex_node = reading sy_policies k1"
    "k1 ix_policies = locked sx_delete_section k0" by (rule sx_thread)
  have fields: "sy_node sx_system = ex_node" "sy_policies sx_system = ix_policies" "sy_proxyURL sx_system = []" by (simp_all add: sx_system_def)
  have "processing toyS bigmod_ref (reading sy_node k2)"
    unfolding k(1) [symmetric] by (rule processing.intros) (auto simp: node_thread_def)
  then have "sx_interleave ([sx_system], []) ([sx_system], [reading sy_node k2])" using interleave.start_thread [of _ _ _ sx_system "[]" "[]"] by simp
  moreover have "sx_interleave ([sx_system], [reading sy_node k2]) ([sx_system, sx_system], [reading sy_policies k1])"
    using run_reading [of _ _ sx_system "[]" sy_node k2] by (simp add: fields k)
  moreover have "sx_interleave ([sx_system, sx_system], [reading sy_policies k1]) ([sx_system, sx_system, sx_system], [locked sx_delete_section k0])"
    using run_reading [of _ _ sx_system "[sx_system]" sy_policies k1] by (simp add: fields k)
  moreover have "sx_interleave ([sx_system, sx_system, sx_system], [locked sx_delete_section k0])
      ([sx_proxied, sx_system, sx_system, sx_system], [locked sx_delete_section k0])"
    unfolding sx_proxied_def by (rule env_run [OF sx_proxy [OF fields(3)]])
  ultimately have run: "sx_interleave\<^sup>*\<^sup>* ([sx_system], []) ([sx_proxied, sx_system, sx_system, sx_system], [locked sx_delete_section k0])"
    by (meson converse_rtranclp_into_rtranclp rtranclp.rtrancl_refl)
  have "snd (sx_delete_section sx_proxied) = sx_proxied\<lparr>sy_wallets := ex_storage2\<rparr>"
    using sx_delete by (simp add: sx_delete_section_def sx_proxied_def sx_system_def)
  then have "sx_interleave ([sx_proxied, sx_system, sx_system, sx_system], [locked sx_delete_section k0])
      ([sx_proxied\<lparr>sy_wallets := ex_storage2\<rparr>, sx_proxied, sx_system, sx_system, sx_system], [k0 (fst (sx_delete_section sx_proxied))])"
    using run_locked [of _ _ sx_proxied "[sx_system, sx_system, sx_system]" sx_delete_section k0] by simp
  then show ?thesis using that run by blast
qed

section \<open>Who changes what\<close>

lemma setters_keep_paths:
  "MachinePaths (snd (SetOwner n owner)) = MachinePaths n" "MachinePaths (snd (SetChainID n c)) = MachinePaths n"
  "MachinePaths (snd (SetExtensionID n i)) = MachinePaths n" "MachinePaths (snd (SetGovernance F n signers t safe mgr)) = MachinePaths n"
  by (simp_all add: SetOwner_def SetChainID_def SetExtensionID_def SetGovernance_def MachinePaths_def)
    (cases rule: setGovernanceLocked_cases [of F n signers t safe mgr]; simp)

lemma handlers_keep_paths:
  "MachinePaths (snd (initialOwnerHandler N body n)) = MachinePaths n" "MachinePaths (snd (chainIDHandler N body n)) = MachinePaths n"
  "MachinePaths (snd (extensionIDHandler N body n)) = MachinePaths n" "MachinePaths (snd (governanceHandler F N body n)) = MachinePaths n"
  unfolding initialOwnerHandler_def chainIDHandler_def extensionIDHandler_def governanceHandler_def Let_def
  by (simp_all add: setters_keep_paths split: sum.split option.split)

lemma beside_wallets_paths:
  assumes "beside S N pt s s'"
  shows "sy_wallets s' = sy_wallets s" and "length (sg_schedules (sy_sign s')) \<le> length (sg_schedules (sy_sign s))"
    and "MachinePaths (sy_node s') = MachinePaths (sy_node s)"
  using assms by (auto elim!: beside.cases simp: finish_schedule_def handlers_keep_paths)

text \<open>What was vetted against an earlier state of the node is authorised against its present one.\<close>

lemma vetted_authorised:
  assumes "vetted S H a d signers p" and "\<And>x. x \<in> H \<Longrightarrow> (node_step S)\<^sup>*\<^sup>* (sy_node x) (sy_node s) \<and> policy_inv (sy_policies x)"
  shows "Parse_DataFixed S (ad_Message (ac_Data a)) = Inr d \<and> (\<exists>x \<in> H. authorised S (sy_node s) (sy_policies x) a d signers p)"
proof -
  from assms(1) obtain s1 s2 chainID where p: "Parse_DataFixed S (ad_Message (ac_Data a)) = Inr d" "s1 \<in> H" "s2 \<in> H"
    "Node_ChainID (sy_node s1) = Inr chainID" "preprocess S a d (sy_policies s2) (n_teeID (sy_node s1)) chainID = Inr (signers, p)"
    unfolding vetted_def by blast
  have run: "(node_step S)\<^sup>*\<^sup>* (sy_node s1) (sy_node s)" using assms(2) p(2) by blast
  have "n_teeID (sy_node s) = n_teeID (sy_node s1)" using identity.reachable_keeps [OF run] by simp
  moreover have "Node_ChainID (sy_node s) = Inr chainID"
    using chain.reachable_keeps [OF run] p(4) by (auto simp: Node_ChainID_def split: if_splits)
  ultimately show ?thesis using preprocess_authorised [of "sy_policies s2" "sy_node s"] p assms(2) by metis
qed

text \<open>
  C5: keys are touched by authorised instructions only, under concurrency. If a step of an interleaved run changes the wallets
  or adds a payment schedule, then it is a section of the processing of an action that carries an instruction for this
  node, for a policy that was stored and at most one epoch behind the active one at a moment the run has
  visited, signed by pairwise different signers who reached the cosigner and the data-provider threshold of
  that policy; and the change is the one that its handler makes for this very instruction, from checks of
  states that the run has visited.
\<close>

theorem interleaved_changes_authorised:
  assumes "system_inv S N pt s0" and "(interleave (beside S N pt) (processing S B))\<^sup>*\<^sup>* ([s0], []) (s # h, ts)"
    and "interleave (beside S N pt) (processing S B) (s # h, ts) (s' # s # h, ts')"
    and "sy_wallets s' \<noteq> sy_wallets s \<or> length (sg_schedules (sy_sign s)) < length (sg_schedules (sy_sign s'))"
  shows "\<exists>a a' d signers p x. CheckAndAdapt a = (Inr (), a') \<and> Parse_DataFixed S (ad_Message (ac_Data a')) = Inr d
    \<and> x \<in> set (s # h) \<and> authorised S (sy_node s) (sy_policies x) a' d signers p
    \<and> (wallet_section S B (set (s # h)) a' d s (sy_wallets s') \<or> payment_section S (set (s # h)) a' d s (sy_sign s'))"
proof -
  have "some_effect S B (set (s # h)) s s'"
    using conc.run_step [OF assms(2,1,3)] beside_wallets_paths [of S N pt s s'] assms(4) by auto
  then obtain a a' where a: "CheckAndAdapt a = (Inr (), a')" "section_effect S B (set (s # h)) a' s s'"
    using assms(4) by (auto simp: some_effect_def)
  have inv: "(node_step S)\<^sup>*\<^sup>* (sy_node x) (sy_node s) \<and> policy_inv (sy_policies x)" if "x \<in> set (s # h)" for x
    using run_projections(1) [OF assms(2,1) that] conc.run_keeps_inv [OF assms(2,1), of x] that by (simp add: system_inv_def)
  from a(2) obtain d signers p where d: "vetted S (set (s # h)) a' d signers p"
    "wallet_section S B (set (s # h)) a' d s (sy_wallets s') \<or> payment_section S (set (s # h)) a' d s (sy_sign s')"
    by cases (use assms(4) in auto)
  show ?thesis using vetted_authorised [OF d(1) inv] a(1) d(2) by blast
qed

theorem interleaved_changes_authorised_witness:
  "\<exists>a' d signers p. CheckAndAdapt ix_action = (Inr (), ix_action) \<and> authorised toyS ex_node ix_policies a' d signers p"
proof -
  obtain ts ts' where r: "sx_interleave\<^sup>*\<^sup>* ([sx_system], []) ([sx_proxied, sx_system, sx_system, sx_system], ts)"
    "sx_interleave ([sx_proxied, sx_system, sx_system, sx_system], ts) ([sx_proxied\<lparr>sy_wallets := ex_storage2\<rparr>, sx_proxied, sx_system, sx_system, sx_system], ts')"
    by (rule sx_interleaved)
  have "ex_storage2 \<noteq> ex_storage1" by (simp add: ex_storage1_def ex_storage2_def)
  then have "sy_wallets (sx_proxied\<lparr>sy_wallets := ex_storage2\<rparr>) \<noteq> sy_wallets sx_proxied" by (simp add: sx_proxied_def sx_system_def)
  from interleaved_changes_authorised [OF sx_inv r disjI1 [OF this]] obtain a' d signers p x where
    x: "x \<in> set [sx_proxied, sx_system, sx_system, sx_system]" "authorised toyS (sy_node sx_proxied) (sy_policies x) a' d signers p" by blast
  have "sy_policies x = ix_policies" "sy_node sx_proxied = ex_node" using x(1) by (auto simp: sx_proxied_def sx_system_def)
  then show ?thesis using x(2) ix_adapted by metis
qed

text \<open>
  What a governance check has read in several sections comes from one governance and one chain: both are written once, so that they are
  those of the present node.
\<close>

lemma governance_read_node:
  assumes "governance_read S H req" and "\<And>x. x \<in> H \<Longrightarrow> node_inv S (sy_node x) \<and> (node_step S)\<^sup>*\<^sup>* (sy_node x) (sy_node s)"
  obtains x n where "x \<in> H" "governance_approves S n req" "node_inv S n" "n_governance n = n_governance (sy_node s)"
    "n_chainID n = n_chainID (sy_node s)" "n_extensionID n = n_extensionID (sy_node x)"
proof -
  have safe_backed: "gov_safe (n_governance n) \<noteq> 0" if "verifySafeApproval S n req approval = Inr ()" for n approval
    using that by (auto simp: verifySafeApproval_def GovernanceSafe_def Let_def res_simps split: prod.splits)
  obtain x1 x2 x3 x4 where x: "x1 \<in> H" "x2 \<in> H" "x3 \<in> H" "x4 \<in> H"
    and approves: "governance_approves S (read_node (sy_node x1) (sy_node x4) (sy_node x2) (sy_node x3)) req"
    and safe: "x4 = x1 \<or> gov_safe (n_governance (sy_node x4)) \<noteq> 0"
  proof -
    from assms(1) obtain x1 x2 x3 where x: "x1 \<in> H" "x2 \<in> H" "x3 \<in> H"
      and "verifyGovernanceSignatures S (read_node (sy_node x1) (sy_node x1) (sy_node x2) (sy_node x3)) req = Inr ()
        \<or> (\<exists>x4 \<in> H. \<exists>approval. sm_SafeApproval req = Some approval
             \<and> verifySafeApproval S (read_node (sy_node x1) (sy_node x4) (sy_node x2) (sy_node x3)) req approval = Inr ())"
      unfolding governance_read_def by blast
    then consider "governance_approves S (read_node (sy_node x1) (sy_node x1) (sy_node x2) (sy_node x3)) req"
      | x4 approval where "x4 \<in> H" "governance_approves S (read_node (sy_node x1) (sy_node x4) (sy_node x2) (sy_node x3)) req"
          "verifySafeApproval S (read_node (sy_node x1) (sy_node x4) (sy_node x2) (sy_node x3)) req approval = Inr ()"
      unfolding governance_approves_def by blast
    then show thesis
    proof cases
      case 1
      then show thesis using that x by blast
    next
      case (2 x4 approval)
      then have "gov_safe (n_governance (sy_node x4)) \<noteq> 0" using safe_backed [OF 2(3)] by (simp add: read_node_def)
      then show thesis using that x 2(1,2) by blast
    qed
  qed
  let ?n = "read_node (sy_node x1) (sy_node x4) (sy_node x2) (sy_node x3)"
  have "gov_set (n_governance n) \<and> n_chainID n \<noteq> 0" if "governance_approves S n req" for n
    using that by (auto simp: governance_approves_def verifyGovernanceSignatures_def verifySafeApproval_def Governance_def GovernanceSafe_def
        Let_def res_simps Node_ChainID_def split: if_splits)
  from this [OF approves] have set: "gov_set (n_governance (sy_node x1))" "n_chainID (sy_node x2) \<noteq> 0" by (simp_all add: read_node_def)
  have g1: "n_governance (sy_node x1) = n_governance (sy_node s)" using gov.reachable_keeps [of S "sy_node x1" "sy_node s"] set(1) assms(2) x(1) by simp
  have "gov_set (n_governance (sy_node x4))"
    using safe set(1) assms(2) [OF x(4)] unfolding node_inv_def governance_ok_def by presburger
  then have g4: "n_governance (sy_node x4) = n_governance (sy_node s)"
    using gov.reachable_keeps [of S "sy_node x4" "sy_node s"] assms(2) x(4) by simp
  have "n_chainID (sy_node x2) = n_chainID (sy_node s)" using chain.reachable_keeps [of S "sy_node x2" "sy_node s"] set(2) assms(2) x(2) by simp
  then have "n_governance ?n = n_governance (sy_node s)" "n_chainID ?n = n_chainID (sy_node s)" "n_extensionID ?n = n_extensionID (sy_node x3)"
    using g1 g4 by (simp_all add: read_node_def)
  moreover have "node_inv S ?n"
    using assms(2) [OF x(1)] assms(2) [OF x(3)] g1 g4 by (simp add: node_inv_def read_node_def)
  ultimately show ?thesis using that x(3) approves by blast
qed

text \<open>
  C26: machine paths change with governance only, under concurrency. If a step of an interleaved run changes the machine paths or their nonce,
  then it is a section of the processing of a direct instruction whose request governance approved, read under several locks in states that the run has visited, by
  enough signatures or by the Safe; governance and chain are still those that approved it; the new paths and nonce are the
  request's; and the nonce has grown.
\<close>

theorem interleaved_paths_need_governance:
  assumes "system_inv S N pt s0" and "(interleave (beside S N pt) (processing S B))\<^sup>*\<^sup>* ([s0], []) (s # h, ts)"
    and "interleave (beside S N pt) (processing S B) (s # h, ts) (s' # s # h, ts')"
    and "MachinePaths (sy_node s') \<noteq> MachinePaths (sy_node s)"
  shows "\<exists>(a :: Action) di req extensionID hash. CheckDirectTag (ad_SubmissionTag (ac_Data a)) = Inr ()
    \<and> Parse_DirectInstruction S (ad_Message (ac_Data a)) = Inr di \<and> unjson_SetMachinePathListRequest S (di_Message di) = Inr req
    \<and> MachinePaths (sy_node s') = (sm_Paths req, sm_Nonce req) \<and> snd (MachinePaths (sy_node s)) < sm_Nonce req
    \<and> extensionID \<in> (\<lambda>x. ext_value (n_extensionID (sy_node x))) ` set (s # h)
    \<and> machine_path_hash S extensionID (n_chainID (sy_node s)) (sm_Nonce req) (sm_Paths req) = Inr hash
    \<and> ((\<exists>A \<subseteq> set (gov_signers (n_governance (sy_node s))). unat (gov_threshold (n_governance (sy_node s))) \<le> card A
             \<and> (\<forall>g \<in> A. \<exists>sig \<in> set (sm_Signatures req). SignatureToSignersAddress S (hash_bytes hash) sig = Inr g))
       \<or> (\<exists>approval. sm_SafeApproval req = Some approval \<and> gov_safe (n_governance (sy_node s)) \<noteq> 0
            \<and> sa_To approval = gov_teeManager (n_governance (sy_node s)) \<and> sa_Operation approval = OperationCall
            \<and> ApproveMachinePathListCalldata S extensionID (sm_Nonce req) hash = Inr (sa_Data approval)
            \<and> Safe_Verify S approval (n_chainID (sy_node s)) (gov_safe (n_governance (sy_node s))) (gov_signers (n_governance (sy_node s)))
                (gov_threshold (n_governance (sy_node s))) = Inr ()))"
proof -
  have "some_effect S B (set (s # h)) s s'"
    using conc.run_step [OF assms(2,1,3)] beside_wallets_paths(3) [of S N pt s s'] assms(4) by auto
  then obtain a where "section_effect S B (set (s # h)) a s s'" using assms(4) by (auto simp: some_effect_def)
  then obtain di req where r: "CheckDirectTag (ad_SubmissionTag (ac_Data a)) = Inr ()" "Parse_DirectInstruction S (ad_Message (ac_Data a)) = Inr di"
    "unjson_SetMachinePathListRequest S (di_Message di) = Inr req" "governance_read S (set (s # h)) req"
    "sy_node s' = snd (SetMachinePathList (sy_node s) (sm_Paths req) (sm_Nonce req))"
    by cases (use assms(4) in auto)
  have "node_inv S (sy_node x) \<and> (node_step S)\<^sup>*\<^sup>* (sy_node x) (sy_node s)" if "x \<in> set (s # h)" for x
    using conc.run_keeps_inv [OF assms(2,1), of x] run_projections(1) [OF assms(2,1) that] that by (simp add: system_inv_def)
  from governance_read_node [OF r(4) this] obtain x n where n: "x \<in> set (s # h)" "governance_approves S n req" "node_inv S n"
    "n_governance n = n_governance (sy_node s)" "n_chainID n = n_chainID (sy_node s)" "n_extensionID n = n_extensionID (sy_node x)" by blast
  have new: "MachinePaths (sy_node s') = (sm_Paths req, sm_Nonce req)" "snd (MachinePaths (sy_node s)) < sm_Nonce req"
    using r(5) assms(4) by (auto simp: SetMachinePathList_def MachinePaths_def split: if_splits)
  have "ext_value (n_extensionID (sy_node x)) \<in> (\<lambda>x. ext_value (n_extensionID (sy_node x))) ` set (s # h)" using n(1) by (rule imageI)
  with r(1-3) new governance_approves_content [OF n(2,3), unfolded n(4-6)] show ?thesis by blast
qed

text \<open>A direct instruction of the governance in the example.\<close>

definition toyG :: system_env where
  "toyG = toyS\<lparr>unjson_OpID := \<lambda>b. Inr \<lparr>id_OPType = 5, id_OPCommand = 5\<rparr>, unjson_DirectInstruction := \<lambda>b. Inr nx_instruction,
     unjson_SetMachinePathListRequest := \<lambda>b. Inr nx_request\<rparr>"

lemma toyG_fields [simp]:
  "OPCommand_Hash toyG = toy_command" "OPType_Hash toyG = OPType_Hash toy" "unjson_OpID toyG = (\<lambda>b. Inr \<lparr>id_OPType = 5, id_OPCommand = 5\<rparr>)"
  "unjson_DirectInstruction toyG = (\<lambda>b. Inr nx_instruction)" "unjson_SetMachinePathListRequest toyG = (\<lambda>b. Inr nx_request)"
  "PubkeyToAddress toyG = (\<lambda>pk. word_of_nat (pk_X pk))" "TextHash toyG = (\<lambda>b. b)" "SigToPub toyG = toy_SigToPub" "Keccak256Hash toyG = toy_hash"
  "ValidateSignatureValues toyG = (\<lambda>v r s h. True)" "payload_Hash toyG = (\<lambda>tag c h. Inr h)" "abi_pack_MachinePathList toyG = (\<lambda>e n ps. Inr [word_of_nat n])"
  "abi_pack_Governance toyG = (\<lambda>ss t. Inr [word_of_nat t])"
  by (simp_all add: toyG_def) (simp_all add: toyS_def processor_env.defs toyI_def toyW_def, simp_all add: toy_defs)

definition gx_system :: system where "gx_system = sx_system\<lparr>sy_node := nx_node\<rparr>"

definition gx_action :: Action where
  "gx_action = \<lparr>ac_Data = \<lparr>ad_ID = 3, ad_Type = Direct, ad_SubmissionTag = Submit, ad_Message = []\<rparr>,
     ac_AdditionalVariableMessages = [], ac_Timestamps = [], ac_AdditionalActionData = [], ac_Signatures = []\<rparr>"

lemma gx_inv: "system_inv toyG sx_net default_ports gx_system"
proof -
  have "node_inv toyG nx_node"
    by (simp add: node_inv_def nx_node_def fresh_node_def governance_ok_def GovernanceHash_def toy_key_def toy_pub_def)
  then show ?thesis using sx_inv by (simp add: gx_system_def system_inv_def)
qed

lemma gx_approved: "verifyGovernanceSignatures toyG nx_node nx_request = Inr ()"
proof -
  have "SignatureToSignersAddress toyG (hash_bytes (toy_hash [1]))
      (fill_bytes 32 6 @ hash_bytes (toy_hash (hash_bytes (toy_hash [1]))) @ [0]) = Inr 6"
    using toy_signer [of toyG 6 "hash_bytes (toy_hash [1])"] by simp
  then show ?thesis
    by (simp add: verifyGovernanceSignatures_def signatures_approve_def Governance_def Node_ChainID_def MachinePathListDataHash_def nil_slice_def CheckSignature_def
        nx_request_def Let_def) (simp add: nx_node_def CheckSignature_def)
qed

lemma gx_thread:
  obtains k1 k2 k3 k0 where "PMW_thread toyG bigmod_ref sx_inputs gx_action = reading sy_node k1" "k1 nx_node = reading sy_node k2"
    "k2 nx_node = reading sy_node k3" "k3 nx_node = locked (on_machine_paths nx_request) k0"
proof -
  have a: "CheckAndAdapt gx_action = (Inr (), gx_action)"
    by (simp add: CheckAndAdapt_def gx_action_def MaxVariableMessages_def MaxVariableMessageSize_def Let_def)
  obtain g t c where read: "Governance nx_node = (g, t, True)" "Node_ChainID nx_node = Inr c"
    "signatures_approve toyG g t c (in_ExtensionID (Node_Info toyG nx_node)) nx_request = Inr ()"
    using gx_approved by (auto simp: verifyGovernanceSignatures_def Let_def res_simps split: prod.splits)
  have "Parse_DirectInstruction toyG (ad_Message (ac_Data gx_action)) = Inr nx_instruction" "CheckDirectTag (ad_SubmissionTag (ac_Data gx_action)) = Inr ()"
    by (simp_all add: Parse_DirectInstruction_def Parse_sized_def MaxActionSize_def CheckDirectTag_def gx_action_def)
  moreover have "PMW_thread toyG bigmod_ref sx_inputs gx_action = direct_thread toyG (SetMachinePathList_thread toyG None) gx_action"
    by (simp add: PMW_thread_def process_lookup [OF a] GetOpID_def route_table_def direct_threads_def wallet_threads_def pmw_threads_def
        toy_op_hashes sx_inputs_def)
  ultimately show ?thesis
    using that read
    by (simp add: direct_thread_def SetMachinePathList_thread_def governance_thread_def governance_signatures_thread_def bind_reading bind_locked ctx_err_def)
qed

theorem interleaved_paths_need_governance_witness:
  "\<exists>h. machine_path_hash toyG DefaultExtensionID 1 1 [\<lparr>mp_SourceTeeIds = [9], mp_DestinationTeeIds = [8]\<rparr>] = Inr h"
proof -
  let ?step = "interleave (beside toyG sx_net default_ports) (processing toyG bigmod_ref)" and ?s' = "gx_system\<lparr>sy_node := nx_node'\<rparr>"
  obtain k1 k2 k3 k0 where k: "PMW_thread toyG bigmod_ref sx_inputs gx_action = reading sy_node k1" "k1 nx_node = reading sy_node k2"
    "k2 nx_node = reading sy_node k3" "k3 nx_node = locked (on_machine_paths nx_request) k0" by (rule gx_thread)
  have "processing toyG bigmod_ref (reading sy_node k1)"
    unfolding k(1) [symmetric] by (rule processing.intros) (auto simp: node_thread_def)
  then have "?step ([gx_system], []) ([gx_system], [reading sy_node k1])" using interleave.start_thread [of _ _ _ gx_system "[]" "[]"] by simp
  moreover have "?step (gx_system # h, [reading sy_node k]) (gx_system # gx_system # h, [k nx_node])" for h k
    using run_reading [of _ _ gx_system h sy_node k] by (simp add: gx_system_def)
  note this [of "[]" k1, unfolded k] this [of "[gx_system]" k2, unfolded k] this [of "[gx_system, gx_system]" k3, unfolded k]
  ultimately have run: "?step\<^sup>*\<^sup>* ([gx_system], []) ([gx_system, gx_system, gx_system, gx_system], [locked (on_machine_paths nx_request) k0])"
    by (meson converse_rtranclp_into_rtranclp rtranclp.rtrancl_refl)
  have "snd (SetMachinePathList nx_node (sm_Paths nx_request) (sm_Nonce nx_request)) = nx_node'"
    by (simp add: SetMachinePathList_def nx_node'_def nx_request_def) (simp add: nx_node_def fresh_node_def)
  then have set: "?step ([gx_system, gx_system, gx_system, gx_system], [locked (on_machine_paths nx_request) k0])
      ([?s', gx_system, gx_system, gx_system, gx_system], [k0 (fst (on_machine_paths nx_request gx_system))])"
    using run_locked [of _ _ gx_system "[gx_system, gx_system, gx_system]" "on_machine_paths nx_request" k0] by (simp add: gx_system_def)
  have "MachinePaths (sy_node ?s') \<noteq> MachinePaths (sy_node gx_system)" by (simp add: MachinePaths_def gx_system_def nx_node'_def nx_node_def fresh_node_def)
  from interleaved_paths_need_governance [OF gx_inv run set this] show ?thesis
    by (auto simp: gx_system_def nx_request_def) (simp_all add: nx_node_def fresh_node_def)
qed

end
