(* ===== verification/Http_Servers.thy ===== *)
theory Http_Servers
  imports System
begin

text \<open>
  The two HTTP servers as their callers see them: the routes of \<^verbatim>\<open>src/internal/settings/config.go\<close> and
  \<^verbatim>\<open>src/internal/extension/server/server.go\<close>, the dispatch of \<open>http.ServeMux\<close> over them, and the
  wrappers around it. A request is its method, its path as the mux matches it (decoded and
  in canonical form: any other path is redirected before a route is looked at) and its body.
\<close>

section \<open>Dispatch\<close>

record request =
  rq_Method :: string
  rq_Path :: string
  rq_Body :: bytes

datatype segment = Lit string | Wild string

definition segment_of :: "string \<Rightarrow> segment" where
  "segment_of s = (if length s \<ge> 2 \<and> hd s = CHR ''{'' \<and> s ! (length s - 1) = CHR ''}'' then Wild (butlast (tl s)) else Lit s)"

definition parsePattern :: "string \<Rightarrow> segment list" where
  "parsePattern s = map segment_of (Split (CHR ''/'') s)"

text \<open>A wildcard takes one segment, which is not empty; the outcome is the values of the wildcards.\<close>

fun match_path :: "segment list \<Rightarrow> string list \<Rightarrow> (string \<times> string) list option" where
  "match_path [] [] = Some []"
| "match_path (Lit l # ps) (s # ss) = (if s = l then match_path ps ss else None)"
| "match_path (Wild w # ps) (s # ss) = (if s = [] then None else map_option (\<lambda>vs. (w, s) # vs) (match_path ps ss))"
| "match_path _ _ = None"

text \<open>A route for GET also serves HEAD.\<close>

definition match_method :: "string \<Rightarrow> string \<Rightarrow> bool" where
  "match_method m method \<longleftrightarrow> method = m \<or> m = ''GET'' \<and> method = ''HEAD''"

type_synonym 'h route = "string \<times> string \<times> 'h"

text \<open>
  No two of the routes of a server match the same path, so that the precedence of the mux, the most specific first,
  plays no part.
\<close>

datatype 'h dispatch = Handle 'h "(string \<times> string) list" | MethodNotAllowed | NotFound

fun ServeMux :: "'h route list \<Rightarrow> request \<Rightarrow> 'h dispatch" where
  "ServeMux [] r = NotFound"
| "ServeMux ((m, pattern, h) # routes) r =
     (case match_path (parsePattern pattern) (Split (CHR ''/'') (rq_Path r)) of
        None \<Rightarrow> ServeMux routes r
      | Some vs \<Rightarrow> if match_method m (rq_Method r) then Handle h vs
          else (case ServeMux routes r of NotFound \<Rightarrow> MethodNotAllowed | d \<Rightarrow> d))"

definition not_found :: http_reply where "not_found = HttpError 404 (Err ''404 page not found'')"
definition not_allowed :: http_reply where "not_allowed = HttpError 405 (Err ''Method Not Allowed'')"

text \<open>\<open>r.PathValue\<close> gives the empty string for a name that the pattern does not have.\<close>

definition PathValue :: "(string \<times> string) list \<Rightarrow> string \<Rightarrow> string" where
  "PathValue vs name = (case map_of vs name of None \<Rightarrow> [] | Some v \<Rightarrow> v)"

section \<open>The configuration server\<close>

definition SetProxyURLEndpoint :: string where "SetProxyURLEndpoint = ''/proxy''"
definition SetInitialOwnerEndpoint :: string where "SetInitialOwnerEndpoint = ''/initial-owner''"
definition SetExtensionIDEndpoint :: string where "SetExtensionIDEndpoint = ''/extension-id''"
definition SetChainIDEndpoint :: string where "SetChainIDEndpoint = ''/chain-id''"
definition SetGovernanceEndpoint :: string where "SetGovernanceEndpoint = ''/governance''"

type_synonym config_handler = "bytes \<Rightarrow> system \<Rightarrow> http_reply \<times> system"

definition configures_node :: "(bytes \<Rightarrow> Node \<Rightarrow> http_reply \<times> Node) \<Rightarrow> config_handler" where
  "configures_node h body s = (let (reply, n) = h body (sy_node s) in (reply, s\<lparr>sy_node := n\<rparr>))"

definition configures_proxy :: "(bytes \<Rightarrow> string \<Rightarrow> http_reply \<times> string) \<Rightarrow> config_handler" where
  "configures_proxy h body s = (let (reply, url) = h body (sy_proxyURL s) in (reply, s\<lparr>sy_proxyURL := url\<rparr>))"

definition config_routes :: "'a flare_scheme \<Rightarrow> net_env \<Rightarrow> ports \<Rightarrow> config_handler route list" where
  "config_routes F N p =
    [(''POST'', SetProxyURLEndpoint, configures_proxy (proxyHandler N p)),
     (''POST'', SetInitialOwnerEndpoint, configures_node (initialOwnerHandler N)),
     (''POST'', SetExtensionIDEndpoint, configures_node (extensionIDHandler N)),
     (''POST'', SetChainIDEndpoint, configures_node (chainIDHandler N)),
     (''POST'', SetGovernanceEndpoint, configures_node (governanceHandler F N))]"

definition config_server :: "'a flare_scheme \<Rightarrow> net_env \<Rightarrow> ports \<Rightarrow> request \<Rightarrow> system \<Rightarrow> http_reply \<times> system" where
  "config_server F N p r s = (case ServeMux (config_routes F N p) r of
     Handle h _ \<Rightarrow> h (rq_Body r) s
   | MethodNotAllowed \<Rightarrow> (not_allowed, s)
   | NotFound \<Rightarrow> (not_found, s))"

section \<open>The server for extensions\<close>

definition walletID :: string where "walletID = ''walletID''"
definition keyID :: string where "keyID = ''keyID''"

text \<open>A handler reads the state; besides its reply it may post to the proxy.\<close>

type_synonym sign_handler = "(string \<times> string) list \<Rightarrow> bytes \<Rightarrow> system \<Rightarrow> http_reply \<times> ActionResponse list"

definition registerRoutes :: "'a system_env_scheme \<Rightarrow> server_env \<Rightarrow> proxy_env \<Rightarrow> sign_handler route list" where
  "registerRoutes S V X =
    [(''GET'', ''/key-info/{'' @ walletID @ ''}/{'' @ keyID @ ''}'',
        \<lambda>vs body s. (getKeyInfoHandler S V (sy_node s) (sy_wallets s) (PathValue vs walletID) (PathValue vs keyID), [])),
     (''POST'', ''/sign/{'' @ walletID @ ''}/{'' @ keyID @ ''}'',
        \<lambda>vs body s. (signWithKeyHandler S V (sy_wallets s) (PathValue vs walletID) (PathValue vs keyID) body, [])),
     (''POST'', ''/sign'', \<lambda>vs body s. (signWithTeeHandler S V (sy_node s) body, [])),
     (''POST'', ''/result'', \<lambda>vs body s. postResultHandler S V X (sy_node s) (sy_proxyURL s) body),
     (''POST'', ''/decrypt/{'' @ walletID @ ''}/{'' @ keyID @ ''}'',
        \<lambda>vs body s. (decryptWithKeyHandler S V (sy_wallets s) (PathValue vs walletID) (PathValue vs keyID) body, [])),
     (''POST'', ''/decrypt'', \<lambda>vs body s. (decryptWithTeeHandler S V (sy_node s) body, []))]"

text \<open>What the caller receives. \<open>http.Error\<close> replaces the content type that \<open>addContentType\<close> has set.\<close>

record response =
  re_Status :: int
  re_ContentType :: string
  re_Content :: "go_error + bytes"

definition addContentType :: "string \<Rightarrow> http_reply \<Rightarrow> response" where
  "addContentType contentType reply = (case reply of
     HttpOK body \<Rightarrow> \<lparr>re_Status = 200, re_ContentType = contentType, re_Content = Inr body\<rparr>
   | HttpError code e \<Rightarrow> \<lparr>re_Status = code, re_ContentType = ''text/plain; charset=utf-8'', re_Content = Inl e\<rparr>)"

text \<open>A handler that panics has written nothing to its caller; the posts are those that it had made by then.\<close>

definition recoverPanic :: "ActionResponse list option \<Rightarrow> response \<times> ActionResponse list \<Rightarrow> response \<times> ActionResponse list" where
  "recoverPanic panic r = (case panic of
     None \<Rightarrow> r
   | Some posts \<Rightarrow> (addContentType ''application/json'' (HttpError 500 (Err ''internal server error'')), posts))"

definition sign_server ::
  "'a system_env_scheme \<Rightarrow> server_env \<Rightarrow> proxy_env \<Rightarrow> request \<Rightarrow> ActionResponse list option \<Rightarrow> system \<Rightarrow> response \<times> ActionResponse list" where
  "sign_server S V X r panic s =
     (let (reply, posts) = (case ServeMux (registerRoutes S V X) r of
        Handle h vs \<Rightarrow> h vs (rq_Body r) s
      | MethodNotAllowed \<Rightarrow> (not_allowed, [])
      | NotFound \<Rightarrow> (not_found, [])) in
      recoverPanic panic (addContentType ''application/json'' reply, posts))"

section \<open>Start-up\<close>

text \<open>A server: the address that it listens on and its handler.\<close>

record 'h http_server =
  hs_Addr :: string
  hs_Handler :: 'h

definition NewConfigServer ::
  "'a flare_scheme \<Rightarrow> net_env \<Rightarrow> ports \<Rightarrow> int \<Rightarrow> (request \<Rightarrow> system \<Rightarrow> http_reply \<times> system) http_server" where
  "NewConfigServer F N p port = \<lparr>hs_Addr = '':'' @ show_int port, hs_Handler = config_server F N p\<rparr>"

definition SignHost :: string where "SignHost = ''127.0.0.1''"

definition NewSignServer ::
  "'a system_env_scheme \<Rightarrow> server_env \<Rightarrow> proxy_env \<Rightarrow> int
   \<Rightarrow> (request \<Rightarrow> ActionResponse list option \<Rightarrow> system \<Rightarrow> response \<times> ActionResponse list) http_server" where
  "NewSignServer S V X port = \<lparr>hs_Addr = SignHost @ '':'' @ show_int port, hs_Handler = sign_server S V X\<rparr>"

definition Main :: string where "Main = ''main''"
definition Backup :: string where "Backup = ''backup''"

text \<open>A started node: its state, its router, the queues that \<open>Run\<close> serves and its servers.\<close>

record started =
  sd_system :: system
  sd_router :: "system Router"
  sd_queues :: "string list"
  sd_config :: "(request \<Rightarrow> system \<Rightarrow> http_reply \<times> system) http_server"
  sd_sign :: "(request \<Rightarrow> ActionResponse list option \<Rightarrow> system \<Rightarrow> response \<times> ActionResponse list) http_server option"

definition Run :: "system Router \<Rightarrow> string list" where
  "Run r = [Main, Direct, Backup]"

definition StartServerPMW ::
  "'a system_env_scheme \<Rightarrow> bigmod \<Rightarrow> net_env \<Rightarrow> ports \<Rightarrow> action_inputs \<Rightarrow> (string \<Rightarrow> string option) \<Rightarrow> ecdsa_priv res \<Rightarrow> int \<Rightarrow> started res" where
  "StartServerPMW S B N p I env drawn configPort =
     rbind (initialize_system S N p env drawn ZeroState) (\<lambda>s.
     rbind (NewPMWRouter S B I) (\<lambda>r.
     Inr \<lparr>sd_system = s, sd_router = r, sd_queues = Run r, sd_config = NewConfigServer S N p configPort, sd_sign = None\<rparr>))"

definition StartServerExtension ::
  "'a system_env_scheme \<Rightarrow> bigmod \<Rightarrow> net_env \<Rightarrow> server_env \<Rightarrow> proxy_env \<Rightarrow> ports \<Rightarrow> extension_env \<Rightarrow> action_inputs \<Rightarrow> (string \<Rightarrow> string option) \<Rightarrow> ecdsa_priv res
   \<Rightarrow> int \<Rightarrow> int \<Rightarrow> int \<Rightarrow> started res" where
  "StartServerExtension S B N V Q p X I env drawn configPort signPort extensionPort =
     rbind (initialize_system S N p env drawn (NewExtensionState extensionPort)) (\<lambda>s.
     rbind (NewForwardRouter S B X extensionPort I) (\<lambda>r.
     Inr \<lparr>sd_system = s, sd_router = r, sd_queues = Run r, sd_config = NewConfigServer S N p configPort,
       sd_sign = Some (NewSignServer S V Q signPort)\<rparr>))"

text \<open>The initialisation of the package \<open>settings\<close>: the mode and the ports; a bad port is a panic.\<close>

definition settings_init :: "(string \<Rightarrow> string option) \<Rightarrow> (int \<times> string \<times> ports) res" where
  "settings_init env =
     (let mode = (case Atoi (Getenv env ''MODE'') of Inr m \<Rightarrow> m | Inl _ \<Rightarrow> 1);
          level = (if Getenv env ''LOG_LEVEL'' \<noteq> [] then Getenv env ''LOG_LEVEL'' else ''FATAL'') in
      case configurePorts env default_ports of
        (Inl e, _) \<Rightarrow> Inl (Wrapped ''panic: settings'' e)
      | (Inr _, p) \<Rightarrow> Inr (mode, level, p))"

text \<open>The two programs. The configuration server listens on the fixed port.\<close>

definition cmd_main ::
  "'a system_env_scheme \<Rightarrow> bigmod \<Rightarrow> net_env \<Rightarrow> action_inputs \<Rightarrow> (string \<Rightarrow> string option) \<Rightarrow> ecdsa_priv res \<Rightarrow> started res" where
  "cmd_main S B N I env drawn =
     rbind (settings_init env) (\<lambda>(mode, level, p).
     StartServerPMW S B N p I env drawn ConfigPort)"

definition cmd_extension_main ::
  "'a system_env_scheme \<Rightarrow> bigmod \<Rightarrow> net_env \<Rightarrow> server_env \<Rightarrow> proxy_env \<Rightarrow> extension_env \<Rightarrow> action_inputs \<Rightarrow> (string \<Rightarrow> string option) \<Rightarrow> ecdsa_priv res \<Rightarrow> started res" where
  "cmd_extension_main S B N V Q X I env drawn =
     rbind (settings_init env) (\<lambda>(mode, level, p).
     StartServerExtension S B N V Q p X I env drawn ConfigPort (pt_sign p) (pt_extension p))"

section \<open>What a request can change\<close>

lemma ServeMux_Handle:
  "ServeMux routes r = Handle h vs \<Longrightarrow> \<exists>m pattern. (m, pattern, h) \<in> set routes \<and> match_path (parsePattern pattern) (Split (CHR ''/'') (rq_Path r)) = Some vs \<and> match_method m (rq_Method r)"
  by (induction routes r rule: ServeMux.induct) (auto split: option.splits if_splits dispatch.splits)

lemma Split_not_Nil [simp]: "Split sep s \<noteq> []"
  by (induction s) (auto split: list.split)

lemma Split_inject [simp]: "Split sep s = Split sep t \<longleftrightarrow> s = t"
proof
  show "Split sep s = Split sep t \<Longrightarrow> s = t"
  proof (induction s arbitrary: t)
    case Nil
    then show ?case by (cases t) (auto split: list.splits if_splits)
  next
    case (Cons c s)
    then show ?case by (cases t) (auto split: list.splits if_splits)
  qed
qed simp

text \<open>A pattern without wildcards matches its own path only.\<close>

lemma match_literal: "match_path (map Lit ls) ss = Some vs \<longleftrightarrow> ss = ls \<and> vs = []"
proof (induction ls arbitrary: ss)
  case Nil
  then show ?case by (cases ss) auto
next
  case (Cons l ls)
  then show ?case by (cases ss) auto
qed

lemma match_literal_pattern:
  assumes "parsePattern p = map Lit (Split (CHR ''/'') p)"
  shows "match_path (parsePattern p) (Split (CHR ''/'') path) = Some vs \<longleftrightarrow> path = p \<and> vs = []"
  unfolding assms by (simp add: match_literal)

lemma config_endpoints:
  "match_path (parsePattern SetProxyURLEndpoint) (Split (CHR ''/'') path) = Some vs \<longleftrightarrow> path = SetProxyURLEndpoint \<and> vs = []"
  "match_path (parsePattern SetInitialOwnerEndpoint) (Split (CHR ''/'') path) = Some vs \<longleftrightarrow> path = SetInitialOwnerEndpoint \<and> vs = []"
  "match_path (parsePattern SetExtensionIDEndpoint) (Split (CHR ''/'') path) = Some vs \<longleftrightarrow> path = SetExtensionIDEndpoint \<and> vs = []"
  "match_path (parsePattern SetChainIDEndpoint) (Split (CHR ''/'') path) = Some vs \<longleftrightarrow> path = SetChainIDEndpoint \<and> vs = []"
  "match_path (parsePattern SetGovernanceEndpoint) (Split (CHR ''/'') path) = Some vs \<longleftrightarrow> path = SetGovernanceEndpoint \<and> vs = []"
  by (rule match_literal_pattern; simp add: parsePattern_def segment_of_def SetProxyURLEndpoint_def SetInitialOwnerEndpoint_def
      SetExtensionIDEndpoint_def SetChainIDEndpoint_def SetGovernanceEndpoint_def)+

lemma match_method_post [simp]: "match_method ''POST'' m \<longleftrightarrow> m = ''POST''"
  by (auto simp: match_method_def)

text \<open>A request that the configuration server hands to a handler names an endpoint.\<close>

lemma config_server_cases:
  obtains (refused) code e where "config_server F N p r s = (HttpError code e, s)"
  | (proxy) "rq_Method r = ''POST''" "rq_Path r = SetProxyURLEndpoint" "config_server F N p r s = configures_proxy (proxyHandler N p) (rq_Body r) s"
  | (owner) "rq_Method r = ''POST''" "rq_Path r = SetInitialOwnerEndpoint" "config_server F N p r s = configures_node (initialOwnerHandler N) (rq_Body r) s"
  | (extension) "rq_Method r = ''POST''" "rq_Path r = SetExtensionIDEndpoint" "config_server F N p r s = configures_node (extensionIDHandler N) (rq_Body r) s"
  | (chain) "rq_Method r = ''POST''" "rq_Path r = SetChainIDEndpoint" "config_server F N p r s = configures_node (chainIDHandler N) (rq_Body r) s"
  | (governance) "rq_Method r = ''POST''" "rq_Path r = SetGovernanceEndpoint" "config_server F N p r s = configures_node (governanceHandler F N) (rq_Body r) s"
proof (cases "ServeMux (config_routes F N p) r")
  case (Handle h vs)
  then have eq: "config_server F N p r s = h (rq_Body r) s" by (simp add: config_server_def)
  from ServeMux_Handle [OF Handle] obtain m pattern where
    "(m, pattern, h) \<in> set (config_routes F N p)" "match_path (parsePattern pattern) (Split (CHR ''/'') (rq_Path r)) = Some vs" "match_method m (rq_Method r)" by blast
  then show ?thesis using eq that(2-6) by (auto simp: config_routes_def config_endpoints)
qed (use refused in \<open>simp_all add: config_server_def not_allowed_def not_found_def\<close>)

text \<open>A path with two further segments reaches the handler of its route with both of them.\<close>

lemma Split_append: "Split sep (s @ sep # t) = Split sep s @ Split sep t"
  by (induction s) (auto split: list.split)

lemma Split_single: "sep \<notin> set s \<Longrightarrow> Split sep s = [s]"
  by (induction s) auto

lemma no_slash_value: "digit_of (CHR ''/'') = None"
  by (simp add: digit_of_def)

lemma no_slash_digit: "d < (10 :: nat) \<Longrightarrow> char_of (48 + d) \<noteq> CHR ''/''"
  using digit_of_digit [of d] by (metis no_slash_value option.distinct(1))

lemma no_slash_show_nat: "CHR ''/'' \<notin> set (show_nat n)"
proof (induction n rule: show_nat.induct)
  case (1 n)
  have "show_nat n = (if n < 10 then [] else show_nat (n div 10)) @ [char_of (48 + n mod 10)]" by (subst show_nat.simps) auto
  moreover have "char_of (48 + n mod 10) \<noteq> CHR ''/''" by (rule no_slash_digit) simp
  ultimately show ?case using 1 by auto
qed

lemma no_slash_hex: "CHR ''/'' \<notin> set (hex_EncodeToString bs)"
proof
  assume "CHR ''/'' \<in> set (hex_EncodeToString bs)"
  then obtain b where "b \<in> set bs" "hex_digit (unat b div 16) = CHR ''/'' \<or> hex_digit (unat b mod 16) = CHR ''/''"
    by (auto simp: hex_EncodeToString_def)
  then obtain d where "d = unat b div 16 \<or> d = unat b mod 16" "hex_digit d = CHR ''/''" by blast
  moreover have "unat b div 16 < 16" using unat_byte_less [of b] by simp
  ultimately have "fromHexChar (CHR ''/'') = Some d" using fromHexChar_hex_digit [of d] by auto
  then show False by (simp add: fromHexChar_def digit_of_def)
qed

lemma ServeMux_sign:
  assumes "w \<noteq> []" and "CHR ''/'' \<notin> set w" and "k \<noteq> []" and "CHR ''/'' \<notin> set k"
  shows "ServeMux (registerRoutes S V X) \<lparr>rq_Method = ''POST'', rq_Path = ''/sign/'' @ w @ ''/'' @ k, rq_Body = body\<rparr>
    = Handle (\<lambda>vs body s. (signWithKeyHandler S V (sy_wallets s) (PathValue vs walletID) (PathValue vs keyID) body, [])) [(walletID, w), (keyID, k)]"
proof -
  have "Split (CHR ''/'') (''/sign/'' @ w @ ''/'' @ k) = [[], ''sign'', w, k]"
    using assms Split_append [of "CHR ''/''" w k] by (simp add: Split_single)
  then show ?thesis
    using assms(1,3) by (simp add: registerRoutes_def parsePattern_def segment_of_def walletID_def keyID_def)
qed

text \<open>The ports that the settings package accepts.\<close>

lemma default_ports_ok: "ports_ok default_ports"
  by (simp add: ports_ok_def default_ports_def ConfigPort_def)

lemma settings_init_ports:
  assumes "settings_init env = Inr (mode, level, p)"
  shows "ports_ok p"
proof -
  have "configurePorts env default_ports = (Inr (), p)"
    using assms by (auto simp: settings_init_def Let_def split: prod.splits sum.splits)
  then show ?thesis using default_ports_ok by (rule configurePorts_ok)
qed

end
