(* ===== verification/Props_Http.thy ===== *)
theory Props_Http
  imports Http_Servers Props_Concurrency Props_Services
begin

text \<open>
  Properties of the servers and of start-up: what a request to the configuration server can change, how a request of an
  extension is answered, and what a program has when it runs.
\<close>

section \<open>The configuration server\<close>

lemma configures_node_snd: "configures_node h body s = (fst (h body (sy_node s)), s\<lparr>sy_node := snd (h body (sy_node s))\<rparr>)"
  by (simp add: configures_node_def split_beta)

text \<open>What each handler does to its setting when it does something.\<close>

lemma owner_request: "initialOwnerHandler N body n = (reply, n') \<Longrightarrow>
    (\<exists>code e. reply = HttpError code e) \<and> n' = n \<or> reply = HttpOK [] \<and> n_initialOwner n = 0 \<and> (\<exists>a. a \<noteq> 0 \<and> n' = n\<lparr>n_initialOwner := a\<rparr>)"
  by (auto simp: initialOwnerHandler_def bad_json_def config_reply_def SetOwner_def split: sum.splits option.splits if_splits)

lemma extension_request: "extensionIDHandler N body n = (reply, n') \<Longrightarrow>
    (\<exists>code e. reply = HttpError code e) \<and> n' = n
    \<or> reply = HttpOK [] \<and> \<not> ext_set (n_extensionID n) \<and> (\<exists>x. n' = n\<lparr>n_extensionID := \<lparr>ext_set = True, ext_value = x\<rparr>\<rparr>)"
  by (auto simp: extensionIDHandler_def bad_json_def config_reply_def SetExtensionID_def split: sum.splits option.splits if_splits)

lemma chain_request: "chainIDHandler N body n = (reply, n') \<Longrightarrow>
    (\<exists>code e. reply = HttpError code e) \<and> n' = n \<or> reply = HttpOK [] \<and> n_chainID n = 0 \<and> (\<exists>c. c \<noteq> 0 \<and> n' = n\<lparr>n_chainID := c\<rparr>)"
  by (auto simp: chainIDHandler_def bad_json_def config_reply_def SetChainID_def split: sum.splits option.splits if_splits)

lemma governance_request:
  assumes "governanceHandler F N body n = (reply, n')"
  shows "(\<exists>code e. reply = HttpError code e) \<and> n' = n
    \<or> reply = HttpOK [] \<and> \<not> gov_set (n_governance n) \<and> (\<exists>g. gov_set g \<and> governance_ok F g \<and> n' = n\<lparr>n_governance := g\<rparr>)"
proof -
  have set: "(\<exists>code e. r = HttpError code e) \<and> m = n
      \<or> r = HttpOK [] \<and> \<not> gov_set (n_governance n) \<and> (\<exists>g. gov_set g \<and> governance_ok F g \<and> m = n\<lparr>n_governance := g\<rparr>)"
    if "config_reply msg (SetGovernance F n signers t safe mgr) = (r, m)" for msg signers t safe mgr r m
    using that by (cases rule: setGovernanceLocked_cases [of F n signers t safe mgr]) (auto simp: SetGovernance_def config_reply_def)
  show ?thesis
    using assms by (auto simp: governanceHandler_def bad_json_def Let_def dest!: set split: sum.splits option.splits)
qed

lemma proxy_request: "proxyHandler N p body url = (reply, url') \<Longrightarrow>
    (\<exists>code e. reply = HttpError code e) \<and> url' = url \<or> reply = HttpOK [] \<and> foreign_url N p url'"
  by (auto simp: proxyHandler_def bad_json_def simp flip: ValidateProxyURL_iff split: sum.splits option.splits)

text \<open>
  C25: a configuration request sets one setting, once. Whatever reaches the configuration server, either the answer is an error and nothing
  changes, or it is a POST to the endpoint of a setting, the answer is a success and exactly that setting changes: the
  proxy to an address that is not the node's own, the owner, the extension, the chain or the governance from
  unset to a value that its checks accept. No request reaches a key, a policy or a machine path.
\<close>

theorem config_request_sets_one_setting:
  assumes "config_server S N p r s = (reply, s')"
  shows "(\<exists>code e. reply = HttpError code e) \<and> s' = s
    \<or> reply = HttpOK [] \<and> rq_Method r = ''POST'' \<and>
      ((\<exists>url. rq_Path r = ''/proxy'' \<and> foreign_url N p url \<and> s' = s\<lparr>sy_proxyURL := url\<rparr>)
       \<or> (\<exists>a. rq_Path r = ''/initial-owner'' \<and> n_initialOwner (sy_node s) = 0 \<and> a \<noteq> 0 \<and> s' = s\<lparr>sy_node := (sy_node s)\<lparr>n_initialOwner := a\<rparr>\<rparr>)
       \<or> (\<exists>x. rq_Path r = ''/extension-id'' \<and> \<not> ext_set (n_extensionID (sy_node s))
            \<and> s' = s\<lparr>sy_node := (sy_node s)\<lparr>n_extensionID := \<lparr>ext_set = True, ext_value = x\<rparr>\<rparr>\<rparr>)
       \<or> (\<exists>c. rq_Path r = ''/chain-id'' \<and> n_chainID (sy_node s) = 0 \<and> c \<noteq> 0 \<and> s' = s\<lparr>sy_node := (sy_node s)\<lparr>n_chainID := c\<rparr>\<rparr>)
       \<or> (\<exists>g. rq_Path r = ''/governance'' \<and> \<not> gov_set (n_governance (sy_node s)) \<and> gov_set g \<and> governance_ok S g
            \<and> s' = s\<lparr>sy_node := (sy_node s)\<lparr>n_governance := g\<rparr>\<rparr>))"
proof (cases rule: config_server_cases [of S N p r s])
  case proxy
  then show ?thesis
    using assms proxy_request [OF surjective_pairing, of N p "rq_Body r" "sy_proxyURL s"]
    by (auto simp: configures_proxy_def split_beta SetProxyURLEndpoint_def)
next
  case owner
  then show ?thesis
    using assms owner_request [OF surjective_pairing, of N "rq_Body r" "sy_node s"]
    by (auto simp: configures_node_snd SetInitialOwnerEndpoint_def)
next
  case extension
  then show ?thesis
    using assms extension_request [OF surjective_pairing, of N "rq_Body r" "sy_node s"]
    by (auto simp: configures_node_snd SetExtensionIDEndpoint_def)
next
  case chain
  then show ?thesis
    using assms chain_request [OF surjective_pairing, of N "rq_Body r" "sy_node s"]
    by (auto simp: configures_node_snd SetChainIDEndpoint_def)
next
  case governance
  then show ?thesis
    using assms governance_request [OF surjective_pairing, of S N "rq_Body r" "sy_node s"]
    by (auto simp: configures_node_snd SetGovernanceEndpoint_def)
qed (use assms in auto)

theorem config_request_sets_one_setting_witness:
  "config_server toyS sx_net default_ports \<lparr>rq_Method = ''POST'', rq_Path = ''/chain-id'', rq_Body = []\<rparr> sx_start
     = (HttpOK [], sx_start\<lparr>sy_node := (sy_node sx_start)\<lparr>n_chainID := 1\<rparr>\<rparr>)"
proof -
  let ?r = "\<lparr>rq_Method = ''POST'', rq_Path = ''/chain-id'', rq_Body = []\<rparr>"
  have "chainIDHandler sx_net [] (sy_node sx_start) = (HttpOK [], (sy_node sx_start)\<lparr>n_chainID := 1\<rparr>)"
    by (simp add: chainIDHandler_def decode_limited_def config_reply_def SetChainID_def sx_start_def fresh_node_def sx_net_def)
  then have run: "config_server toyS sx_net default_ports ?r sx_start = (HttpOK [], sx_start\<lparr>sy_node := (sy_node sx_start)\<lparr>n_chainID := 1\<rparr>\<rparr>)"
    by (simp add: config_server_def config_routes_def configures_node_def parsePattern_def segment_of_def SetProxyURLEndpoint_def SetInitialOwnerEndpoint_def
        SetExtensionIDEndpoint_def SetChainIDEndpoint_def SetGovernanceEndpoint_def)
  from config_request_sets_one_setting [OF run] have "n_chainID (sy_node sx_start) = 0" by (auto simp: sx_start_def fresh_node_def)
  then show ?thesis using run by simp
qed

text \<open>So a request is one of the moves beside the queue workers.\<close>

lemma config_server_beside:
  assumes "config_server S N p r s = (reply, s')"
  shows "s' = s \<or> beside S N p s s'"
proof (cases rule: config_server_cases [of S N p r s])
  case proxy
  then have "s' = s\<lparr>sy_proxyURL := snd (proxyHandler N p (rq_Body r) (sy_proxyURL s))\<rparr>"
    using assms by (auto simp: configures_proxy_def split_beta)
  then show ?thesis using beside_proxy by metis
qed (use assms in \<open>auto simp: configures_node_snd intro: beside.intros\<close>)

section \<open>The server for extensions\<close>

text \<open>
  C31: a signing request is answered. An extension that posts to the sign server for a signature of a key, naming the wallet in hexadecimal (with or without the
  prefix 0x) and the key in decimal, is answered in JSON for exactly that key, with a message and a signature that, for
  the two ECDSA algorithms, verifies under the wallet's public key; with 404 when the key is not stored, and with
  500 when the key cannot sign. Nothing is posted to the proxy.
\<close>

theorem extension_sign_request_answered:
  assumes "ecdsa_spec S" and "toecdsa_spec S" and "sv_unjson_SignRequest V body = Inr msg" and "prefix = [] \<or> prefix = ''0x''"
  shows "sign_server S V X \<lparr>rq_Method = ''POST'',
        rq_Path = ''/sign/'' @ prefix @ hex_EncodeToString (hash_bytes (kp_WalletID k)) @ ''/'' @ show_nat (unat (kp_KeyID k)), rq_Body = body\<rparr> None s
      = (addContentType ''application/json'' (case Get (sy_wallets s) k of Inl e \<Rightarrow> HttpError 404 e
          | Inr w \<Rightarrow> (case Wallet_Sign S w msg of Inl _ \<Rightarrow> HttpError 500 (Err ''can not sign'')
          | Inr sig \<Rightarrow> HttpOK (sv_json_SignResponse V \<lparr>sr_Message = msg, sr_Signature = sig\<rparr>))), [])
    \<and> (\<forall>w pub sig. Get (sy_wallets s) k = Inr w \<longrightarrow> PubKey S w = Inr pub \<longrightarrow> SigningAlgo w = XRPSignAlgo \<or> SigningAlgo w = EVMSignAlgo \<longrightarrow>
         Wallet_Sign S w msg = Inr sig \<longrightarrow> wallets_VerifySignature S msg sig pub (SigningAlgo w) = Inr ())"
proof -
  let ?w = "prefix @ hex_EncodeToString (hash_bytes (kp_WalletID k))" and ?k = "show_nat (unat (kp_KeyID k))"
  have w: "CHR ''/'' \<notin> set ?w"
    using assms(4) no_slash_hex [of "hash_bytes (kp_WalletID k)"]  by (auto simp: hex_EncodeToString_def)
  have "hash_bytes (kp_WalletID k) \<noteq> []" using length_hash_bytes [of "kp_WalletID k"] by (metis list.size(3) zero_neq_numeral)
  then have "?w \<noteq> []" by (simp add: hex_EncodeToString_def)
  have "sign_server S V X \<lparr>rq_Method = ''POST'', rq_Path = ''/sign/'' @ ?w @ ''/'' @ ?k, rq_Body = body\<rparr> None s
      = (addContentType ''application/json'' (signWithKeyHandler S V (sy_wallets s) ?w ?k body), [])"
    unfolding sign_server_def ServeMux_sign [OF \<open>?w \<noteq> []\<close> w show_nat_not_Nil no_slash_show_nat]
    by (simp add: recoverPanic_def PathValue_def walletID_def keyID_def)
  then show ?thesis using sign_request_answered [OF assms, of "sy_wallets s" k] by simp
qed

theorem extension_sign_request_answered_witness:
  "\<exists>sig pub. sign_server toyS vx_server qx_proxy \<lparr>rq_Method = ''POST'',
        rq_Path = ''/sign/0x'' @ hex_EncodeToString (hash_bytes 1) @ ''/2'', rq_Body = [1]\<rparr> None (sx_start\<lparr>sy_wallets := ex_storage1\<rparr>)
      = (\<lparr>re_Status = 200, re_ContentType = ''application/json'', re_Content = Inr sig\<rparr>, [])
     \<and> wallets_VerifySignature toyS [1] sig pub EVMSignAlgo = Inr ()"
proof -
  have num: "show_nat (unat (kp_KeyID ex_key)) = ''2''" by (simp add: ex_key_def show_nat.simps) (simp add: char_of_eq_iff take_bit_eq_mod)
  have get: "Get ex_storage1 ex_key = Inr ex_wallet"
    by (simp add: Get_def ex_storage1_def Copy_stored_def Copy_at_def ex_wallet_def)
  have n: "nat_of_bytes (hash_bytes (11 :: hash)) = 11" by (simp add: hash_bytes_def nat_of_fill_32)
  have "ScalarBaseMult toyS = ScalarBaseMult toy" by (simp add: toyS_def processor_env.defs) (simp add: toyI_def toyW_def)
  then have "toecdsa_spec toyS" using toy_specs(3) by (simp add: toecdsa_spec_def) (fastforce simp: toy_defs)
  obtain pub sig where s: "PubKey toyS ex_wallet = Inr pub" "Wallet_Sign toyS ex_wallet [1] = Inr sig"
    by (simp add: PubKey_def ex_wallet_def toy_ToECDSA_def secp256k1_N_def Wallet_Sign_def algos_distinct
        signKeccak256Secp256k1ECDSA_def toy_Sign_def n)
  have algo: "SigningAlgo ex_wallet = EVMSignAlgo" and w: "kp_WalletID ex_key = 1" by (simp_all add: ex_wallet_def ex_key_def)
  have "sv_unjson_SignRequest vx_server [1] = Inr [1]" by (simp add: vx_server_def)
  from extension_sign_request_answered [OF toyS_specs \<open>toecdsa_spec toyS\<close> this, of "''0x''" qx_proxy ex_key "sx_start\<lparr>sy_wallets := ex_storage1\<rparr>"]
  show ?thesis using get s algo unfolding num w by (auto simp: vx_server_def addContentType_def)
qed

section \<open>Start-up\<close>

text \<open>
  C27: both programs start and serve. If the library gives the operations different identifiers, the environment names usable ports
  and the node can be initialised, then both programs come up: without a panic in a
  registration, with a well-formed state, with the router of their mode, on the three queues, with the
  configuration server on port 5500 and, in front of an extension, the sign server on the loopback interface only;
  their ports are valid and pairwise different.
\<close>

theorem programs_start:
  assumes "ops_distinct S" and "settings_init env = Inr (mode, level, p)" and "Initialize S env drawn ZeroState = Inr n"
    and "Initialize S env drawn (NewExtensionState (pt_extension p)) = Inr m"
  shows "ports_ok p
    \<and> (\<exists>d. cmd_main S B N I env drawn = Inr d \<and> system_inv S N p (sd_system d) \<and> sy_node (sd_system d) = n \<and> NewPMWRouter S B I = Inr (sd_router d)
        \<and> sd_queues d = [''main'', ''direct'', ''backup''] \<and> hs_Addr (sd_config d) = '':5500'' \<and> hs_Handler (sd_config d) = config_server S N p \<and> sd_sign d = None)
    \<and> (\<exists>d. cmd_extension_main S B N V Q X I env drawn = Inr d \<and> system_inv S N p (sd_system d) \<and> sy_node (sd_system d) = m
        \<and> NewForwardRouter S B X (pt_extension p) I = Inr (sd_router d) \<and> sd_queues d = [''main'', ''direct'', ''backup'']
        \<and> hs_Addr (sd_config d) = '':5500'' \<and> hs_Handler (sd_config d) = config_server S N p
        \<and> sd_sign d = Some \<lparr>hs_Addr = ''127.0.0.1:'' @ show_int (pt_sign p), hs_Handler = sign_server S V Q\<rparr>)"
proof (intro conjI)
  show "ports_ok p" by (rule settings_init_ports [OF assms(2)])
  have queues: "Run r = [''main'', ''direct'', ''backup'']" for r by (simp add: Run_def Main_def Direct_def Backup_def)
  have port: "'':'' @ show_int ConfigPort = '':5500''" by (simp add: ConfigPort_def show_int_def show_nat.simps char_of_def bit_0)
  obtain r where r: "NewPMWRouter S B I = Inr r" using routers_built(1) [OF assms(1)] by blast
  obtain s where s: "initialize_system S N p env drawn ZeroState = Inr s" "sy_node s = n" using assms(3) by (simp add: initialize_system_def)
  show "\<exists>d. cmd_main S B N I env drawn = Inr d \<and> system_inv S N p (sd_system d) \<and> sy_node (sd_system d) = n \<and> NewPMWRouter S B I = Inr (sd_router d)
      \<and> sd_queues d = [''main'', ''direct'', ''backup''] \<and> hs_Addr (sd_config d) = '':5500'' \<and> hs_Handler (sd_config d) = config_server S N p \<and> sd_sign d = None"
    using assms(2) r s initialize_system_inv [OF s(1)] queues port by (simp add: cmd_main_def StartServerPMW_def NewConfigServer_def)
  obtain q where q: "NewForwardRouter S B X (pt_extension p) I = Inr q" using routers_built(2) [OF assms(1)] by blast
  obtain t where t: "initialize_system S N p env drawn (NewExtensionState (pt_extension p)) = Inr t" "sy_node t = m"
    using assms(4) by (simp add: initialize_system_def)
  show "\<exists>d. cmd_extension_main S B N V Q X I env drawn = Inr d \<and> system_inv S N p (sd_system d) \<and> sy_node (sd_system d) = m
      \<and> NewForwardRouter S B X (pt_extension p) I = Inr (sd_router d) \<and> sd_queues d = [''main'', ''direct'', ''backup'']
      \<and> hs_Addr (sd_config d) = '':5500'' \<and> hs_Handler (sd_config d) = config_server S N p
        \<and> sd_sign d = Some \<lparr>hs_Addr = ''127.0.0.1:'' @ show_int (pt_sign p), hs_Handler = sign_server S V Q\<rparr>"
    using assms(2) q t initialize_system_inv [OF t(1)] queues port by (simp add: cmd_extension_main_def StartServerExtension_def NewConfigServer_def NewSignServer_def SignHost_def)
qed

theorem programs_start_witness:
  "\<exists>d. cmd_main toyS bigmod_ref sx_net sx_inputs (\<lambda>v. None) (Inr (toy_key 9)) = Inr d \<and> hs_Addr (sd_config d) = '':5500''"
proof -
  have init: "Initialize toyS (\<lambda>v. None) (Inr (toy_key 9)) st = Inr (fresh_node toyS (toy_key 9) st)" for st
    by (simp add: Initialize_def initialOwnerFromEnv_def extensionIDFromEnv_def chainIDFromEnv_def governanceFromEnv_def bytesFromEnv_def Let_def)
      (simp add: fresh_node_def)
  have "settings_init (\<lambda>v. None) = Inr (1, ''FATAL'', default_ports)"
    using setPorts_accepts [of 8888 8889 default_ports] default_ports_ok
    by (simp add: settings_init_def configurePorts_def portFromEnv_def Getenv_def Atoi_def) (simp add: default_ports_def stry_def)
  from programs_start [OF toyS_ops this init init] show ?thesis by blast
qed

end
