(* ===== verification/Example_Extension.thy ===== *)
theory Example_Extension
  imports Http_Servers
begin

text \<open>
  The example extension that ships with the node, \<^verbatim>\<open>src/internal/testutils/extension.go\<close>
  (\<^verbatim>\<open>src/cmd/extension_example\<close> starts it), as the other end of the two links of a forwarding node: the node posts
  actions to it and reads its state, and it posts results to the node's sign server. The goroutine
  that posts a result is the list of the requests that it makes; its pauses carry no meaning.
\<close>

section \<open>Definitions\<close>

record DummyExtensionServer =
  de_port :: int
  de_signURL :: string
  de_version :: string
  de_state :: bytes
  de_stateVersion :: hash

text \<open>The JSON forms that the extension reads and writes, beside those of \<open>OpID\<close>.\<close>

record example_env =
  xc_unjson_Action :: "bytes \<Rightarrow> Action res"
  xc_json_ActionResult :: "ActionResult \<Rightarrow> bytes res"
  xc_json_TeeState :: "TeeState \<Rightarrow> bytes res"

definition NewDummyExtensionServer :: "int \<Rightarrow> int \<Rightarrow> DummyExtensionServer" where
  "NewDummyExtensionServer port signPort =
    \<lparr>de_port = port, de_signURL = ''http://localhost:'' @ show_int signPort, de_version = ''0.0.0-test'', de_state = [], de_stateVersion = 0\<rparr>"

definition SetState :: "bytes \<Rightarrow> hash \<Rightarrow> DummyExtensionServer \<Rightarrow> DummyExtensionServer" where
  "SetState state version d = d\<lparr>de_state := state, de_stateVersion := version\<rparr>"

definition opInfo :: "'a processor_env_scheme \<Rightarrow> Action \<Rightarrow> OpID res" where
  "opInfo P a = unjson_OpID P (ad_Message (ac_Data a))"

definition validateAction :: "Action \<Rightarrow> unit res" where
  "validateAction a =
     rbind (ensure (ad_ID (ac_Data a) \<noteq> 0) (Err ''action ID is required'')) (\<lambda>_.
     rbind (ensure (ad_Type (ac_Data a) \<noteq> []) (Err ''action type is required'')) (\<lambda>_.
     rbind (ensure (ad_SubmissionTag (ac_Data a) \<noteq> []) (Err ''submission tag is required'')) (\<lambda>_.
     ensure (ad_Message (ac_Data a) \<noteq> []) (Err ''action message is required''))))"

definition mockActionResult :: "'a processor_env_scheme \<Rightarrow> DummyExtensionServer \<Rightarrow> Action \<Rightarrow> ActionResult" where
  "mockActionResult P d a = (case opInfo P a of
     Inl e \<Rightarrow> Invalid P a e
   | Inr oi \<Rightarrow> \<lparr>ar_ID = ad_ID (ac_Data a), ar_SubmissionTag = ad_SubmissionTag (ac_Data a), ar_Status = 1,
       ar_Log = Some (Wrapped ''Action processed successfully'' (Err (ad_Type (ac_Data a)))),
       ar_OPType = id_OPType oi, ar_OPCommand = id_OPCommand oi, ar_AdditionalResultStatus = [],
       ar_Version = de_version d, ar_Data = ad_Message (ac_Data a)\<rparr>)"

text \<open>A result that cannot be encoded is only logged, and its request has an empty body.\<close>

definition mockPostActionResult ::
  "'a processor_env_scheme \<Rightarrow> example_env \<Rightarrow> DummyExtensionServer \<Rightarrow> Action \<Rightarrow> (string \<times> bytes) list" where
  "mockPostActionResult P C d a =
     [(de_signURL d @ ''/result'', case xc_json_ActionResult C (mockActionResult P d a) of Inl _ \<Rightarrow> [] | Inr encRes \<Rightarrow> encRes)]"

definition processAction ::
  "'a processor_env_scheme \<Rightarrow> example_env \<Rightarrow> DummyExtensionServer \<Rightarrow> Action \<Rightarrow> (string \<times> bytes) list res" where
  "processAction P C d a =
     (if ad_Type (ac_Data a) = Instruction \<or> ad_Type (ac_Data a) = Direct then Inr (mockPostActionResult P C d a)
      else Inl (Wrapped ''unknown action type'' (Err (ad_Type (ac_Data a)))))"

text \<open>The result is on its way before the operation is looked at, so that a refused action may still have one.\<close>

definition pending_result :: "DummyExtensionServer \<Rightarrow> Action \<Rightarrow> OpID \<Rightarrow> ActionResult" where
  "pending_result d a oi =
    \<lparr>ar_ID = ad_ID (ac_Data a), ar_SubmissionTag = ad_SubmissionTag (ac_Data a), ar_Status = 2,
       ar_Log = Some (Err ''action in processing''), ar_OPType = id_OPType oi, ar_OPCommand = id_OPCommand oi,
       ar_AdditionalResultStatus = [], ar_Version = de_version d, ar_Data = []\<rparr>"

definition actionHandler ::
  "'a processor_env_scheme \<Rightarrow> example_env \<Rightarrow> DummyExtensionServer \<Rightarrow> bytes \<Rightarrow> http_reply \<times> (string \<times> bytes) list" where
  "actionHandler P C d body = (case xc_unjson_Action C body of
     Inl _ \<Rightarrow> (HttpError 400 (Err ''Invalid request body''), [])
   | Inr a \<Rightarrow> (case validateAction a of
       Inl e \<Rightarrow> (HttpError 400 e, [])
     | Inr _ \<Rightarrow> (case processAction P C d a of
         Inl e \<Rightarrow> (HttpError 500 (Wrapped ''Failed to process action'' e), [])
       | Inr posts \<Rightarrow>
           (or_reply 400 (opInfo P a) (\<lambda>oi.
            or_reply 400 (xc_json_ActionResult C (pending_result d a oi)) HttpOK), posts))))"

definition stateHandler :: "example_env \<Rightarrow> DummyExtensionServer \<Rightarrow> http_reply" where
  "stateHandler C d =
     or_reply 500 (xc_json_TeeState C \<lparr>ts_SystemState = [], ts_SystemStateVersion = 0, ts_State = de_state d, ts_StateVersion = de_stateVersion d\<rparr>) HttpOK"

definition example_routes ::
  "'a processor_env_scheme \<Rightarrow> example_env \<Rightarrow> DummyExtensionServer \<Rightarrow> (bytes \<Rightarrow> http_reply \<times> (string \<times> bytes) list) route list" where
  "example_routes P C d = [(''POST'', ''/action'', actionHandler P C d), (''GET'', ''/state'', \<lambda>body. (stateHandler C d, []))]"

definition example_server ::
  "'a processor_env_scheme \<Rightarrow> example_env \<Rightarrow> DummyExtensionServer \<Rightarrow> request \<Rightarrow> http_reply \<times> (string \<times> bytes) list" where
  "example_server P C d r = (case ServeMux (example_routes P C d) r of
     Handle h vs \<Rightarrow> h (rq_Body r)
   | MethodNotAllowed \<Rightarrow> (not_allowed, [])
   | NotFound \<Rightarrow> (not_found, []))"

section \<open>The links\<close>

text \<open>
  What a client receives for a URL: the reply of the server when it is the one that listens there, a refused connection
  otherwise. The client looks at the body of a success only.
\<close>

definition wire :: "http_reply \<Rightarrow> int \<times> bytes" where
  "wire reply = (case reply of HttpOK b \<Rightarrow> (200, b) | HttpError code _ \<Rightarrow> (code, []))"

definition to_example ::
  "'a processor_env_scheme \<Rightarrow> example_env \<Rightarrow> DummyExtensionServer \<Rightarrow> string \<Rightarrow> string \<Rightarrow> bytes \<Rightarrow> (int \<times> bytes) res" where
  "to_example P C d method url body = (case strip_prefix (''http://localhost:'' @ show_int (de_port d)) url of
     None \<Rightarrow> Inl (Err ''connection refused'')
   | Some path \<Rightarrow> Inr (wire (fst (example_server P C d \<lparr>rq_Method = method, rq_Path = path, rq_Body = body\<rparr>))))"

text \<open>The extension of a node, given the node's own JSON forms.\<close>

definition example_extension ::
  "'a processor_env_scheme \<Rightarrow> example_env \<Rightarrow> DummyExtensionServer \<Rightarrow> (Action \<Rightarrow> bytes res) \<Rightarrow> (bytes \<Rightarrow> ActionResult res) \<Rightarrow> extension_env" where
  "example_extension P C d json unjson =
    \<lparr>ex_json_Action = json,
     ex_Post = \<lambda>url body. (case to_example P C d ''POST'' url body of Inl e \<Rightarrow> Inl (PostError e) | Inr r \<Rightarrow> Inr r),
     ex_unjson_ActionResult = unjson\<rparr>"

section \<open>Facts\<close>

lemma strip_prefix_append [simp]: "strip_prefix p (p @ s) = Some s"
  by (induction p) auto

lemma example_server_action:
  "example_server P C d \<lparr>rq_Method = ''POST'', rq_Path = ''/action'', rq_Body = body\<rparr> = actionHandler P C d body"
  by (simp add: example_server_def example_routes_def parsePattern_def segment_of_def)

lemma example_server_state:
  "example_server P C d \<lparr>rq_Method = ''GET'', rq_Path = ''/state'', rq_Body = body\<rparr> = (stateHandler C d, [])"
  by (simp add: example_server_def example_routes_def parsePattern_def segment_of_def match_method_def)

text \<open>An encoder and a decoder that fit.\<close>

definition decodes :: "('a \<Rightarrow> bytes res) \<Rightarrow> (bytes \<Rightarrow> 'a res) \<Rightarrow> bool" where
  "decodes enc dec \<longleftrightarrow> (\<forall>x b. enc x = Inr b \<longrightarrow> dec b = Inr x)"

lemma decodesD: "decodes enc dec \<Longrightarrow> enc x = Inr b \<Longrightarrow> dec b = Inr x"
  by (simp add: decodes_def)

lemma validateAction_iff: "validateAction a = Inr () \<longleftrightarrow>
    ad_ID (ac_Data a) \<noteq> 0 \<and> ad_Type (ac_Data a) \<noteq> [] \<and> ad_SubmissionTag (ac_Data a) \<noteq> [] \<and> ad_Message (ac_Data a) \<noteq> []"
  by (auto simp: validateAction_def ensure_def)

text \<open>An action that the extension accepts is answered as pending, and its result is on the way.\<close>

lemma actionHandler_accepts:
  assumes "xc_unjson_Action C body = Inr a" and "validateAction a = Inr ()" and "ad_Type (ac_Data a) = Instruction \<or> ad_Type (ac_Data a) = Direct"
    and "opInfo P a = Inr oi" and "xc_json_ActionResult C (pending_result d a oi) = Inr b"
  shows "actionHandler P C d body = (HttpOK b, mockPostActionResult P C d a)"
  using assms by (simp add: actionHandler_def processAction_def)

lemma forward_to_example:
  assumes "decodes json (xc_unjson_Action C)" and "decodes (xc_json_ActionResult C) unjson" and "json a = Inr body"
    and "validateAction a = Inr ()" and "ad_Type (ac_Data a) = Instruction \<or> ad_Type (ac_Data a) = Direct"
    and "opInfo P a = Inr oi" and "xc_json_ActionResult C (pending_result d a oi) = Inr b"
  shows "forward P (example_extension P C d json unjson) (de_port d) a sent = (pending_result d a oi, sent @ [(extension_url (de_port d), body)])"
proof -
  have "actionHandler P C d body = (HttpOK b, mockPostActionResult P C d a)"
    by (rule actionHandler_accepts [OF decodesD [OF assms(1,3)] assms(4-7)])
  moreover have "extension_url (de_port d) = (''http://localhost:'' @ show_int (de_port d)) @ ''/action''" by (simp add: extension_url_def)
  ultimately have "to_example P C d ''POST'' (extension_url (de_port d)) body = Inr (200, b)"
    unfolding to_example_def by (simp only: strip_prefix_append option.case) (simp add: example_server_action wire_def)
  then show ?thesis
    using assms(3) decodesD [OF assms(2,7)] by (simp add: forward_def PostActionToExtension_def example_extension_def)
qed

text \<open>The node reports the state that the extension was given.\<close>

lemma example_state_reported:
  assumes "decodes (xc_json_TeeState C) unjson" and "length b \<le> MaxFetchResponseSize"
    and "xc_json_TeeState C \<lparr>ts_SystemState = [], ts_SystemStateVersion = 0, ts_State = state, ts_StateVersion = version\<rparr> = Inr b"
  shows "State_State (\<lambda>url. to_example P C (SetState state version d) ''GET'' url []) unjson (NewExtensionState (de_port d))
    = Inr \<lparr>ts_SystemState = [], ts_SystemStateVersion = 0, ts_State = state, ts_StateVersion = version\<rparr>"
proof -
  let ?d = "SetState state version d"
  have "stateHandler C ?d = HttpOK b" using assms(3) by (simp add: stateHandler_def SetState_def)
  then have "to_example P C ?d ''GET'' ((''http://localhost:'' @ show_int (de_port ?d)) @ ''/state'') [] = Inr (200, b)"
    unfolding to_example_def by (simp only: strip_prefix_append option.case) (simp add: example_server_state wire_def)
  then show ?thesis
    using assms(2) decodesD [OF assms(1,3)] by (simp add: NewExtensionState_def FetchState_def SetState_def)
qed

text \<open>A result posted to the sign server is signed and passed on.\<close>

lemma ServeMux_result:
  "ServeMux (registerRoutes S V X) \<lparr>rq_Method = ''POST'', rq_Path = ''/result'', rq_Body = body\<rparr>
    = Handle (\<lambda>vs body s. postResultHandler S V X (sy_node s) (sy_proxyURL s) body) []"
  by (simp add: registerRoutes_def parsePattern_def segment_of_def walletID_def keyID_def)

lemma sign_server_result:
  assumes "sv_unjson_ActionResult V body = Inr result" and "sy_proxyURL s \<noteq> []" and "SignResult S (sy_node s) result = (resp, Inr ())"
    and "PostActionResponse X (sy_proxyURL s @ ''/result'') resp = Inr ()"
  shows "sign_server S V X \<lparr>rq_Method = ''POST'', rq_Path = ''/result'', rq_Body = body\<rparr> None s
    = (\<lparr>re_Status = 200, re_ContentType = ''application/json'', re_Content = Inr []\<rparr>, [resp])"
  unfolding sign_server_def ServeMux_result using assms by (simp add: postResultHandler_def recoverPanic_def addContentType_def)

end
