(* ===== verification/Props_Extension.thy ===== *)
theory Props_Extension
  imports Example_Extension Props_System Props_Services
begin

text \<open>
  The forwarding node and its extension together: the model of the node, instantiated with the extension of the
  repository instead of a parameter.
\<close>

section \<open>From an action to a signed result\<close>

text \<open>
  C28: an action of the extension comes back signed. A direct action outside the reserved operations, which the extension
  accepts, is sent to it in one request and answered by the default processor as pending (status 2) with the action's own identity; the extension
  then makes one request, to the sign server; the node signs the result in it as its own and posts it to
  the proxy, and that result is the processed action (status 1) with the same identifiers, whose signature verifies
  under the node's address.
\<close>

theorem extension_result_signed:
  assumes "ecdsa_spec S" and "node_inv S (sy_node s)"
    and "decodes json (xc_unjson_Action C)" and "decodes (xc_json_ActionResult C) unjson" and "decodes (xc_json_ActionResult C) (sv_unjson_ActionResult V)"
    and "CheckDirectTag (ad_SubmissionTag (ac_Data a)) = Inr ()" and "Parse_DirectInstruction S (ad_Message (ac_Data a)) = Inr di"
    and "CheckForwardable (di_OPType di) = Inr ()"
    and "ad_Type (ac_Data a) = Direct" and "validateAction a = Inr ()" and "opInfo S a = Inr oi" and "json a = Inr body"
    and "xc_json_ActionResult C (pending_result d a oi) = Inr b" and "xc_json_ActionResult C (mockActionResult S d a) = Inr result"
    and "sy_proxyURL s \<noteq> []" and "SignResult S (sy_node s) (mockActionResult S d a) = (resp, Inr ())"
    and "PostActionResponse X (sy_proxyURL s @ ''/result'') resp = Inr ()"
  shows "direct_Default_Process S (example_extension S C d json unjson) (de_port d) a sent
      = (pending_result d a oi, sent @ [(extension_url (de_port d), body)])
    \<and> snd (example_server S C d \<lparr>rq_Method = ''POST'', rq_Path = ''/action'', rq_Body = body\<rparr>) = [(de_signURL d @ ''/result'', result)]
    \<and> sign_server S V X \<lparr>rq_Method = ''POST'', rq_Path = ''/result'', rq_Body = result\<rparr> None s
        = (\<lparr>re_Status = 200, re_ContentType = ''application/json'', re_Content = Inr []\<rparr>, [resp])
    \<and> ar_Status (rp_Result resp) = 1 \<and> ar_ID (rp_Result resp) = ad_ID (ac_Data a) \<and> ar_SubmissionTag (rp_Result resp) = ad_SubmissionTag (ac_Data a)
    \<and> \<lparr>id_OPType = ar_OPType (rp_Result resp), id_OPCommand = ar_OPCommand (rp_Result resp)\<rparr> = oi
    \<and> ar_Data (rp_Result resp) = ad_Message (ac_Data a)
    \<and> (\<exists>chainID h. Node_ChainID (sy_node s) = Inr chainID
        \<and> payload_Hash S TEEActionResult chainID (BytesToHash (ActionResult_Hash S (rp_Result resp))) = Inr h
        \<and> VerifySignature S (hash_bytes h) (rp_Signature resp) (n_teeID (sy_node s)) = Inr ())"
proof (intro conjI)
  have direct: "ad_Type (ac_Data a) = Instruction \<or> ad_Type (ac_Data a) = Direct" using assms(9) by simp
  show "direct_Default_Process S (example_extension S C d json unjson) (de_port d) a sent
      = (pending_result d a oi, sent @ [(extension_url (de_port d), body)])"
    using forward_to_example [OF assms(3,4,12,10) direct assms(11,13)] assms(6-8) by (simp add: direct_Default_Process_def)
  show "snd (example_server S C d \<lparr>rq_Method = ''POST'', rq_Path = ''/action'', rq_Body = body\<rparr>) = [(de_signURL d @ ''/result'', result)]"
    using actionHandler_accepts [OF decodesD [OF assms(3,12)] assms(10) direct assms(11,13)] assms(14)
    by (simp add: example_server_action mockPostActionResult_def)
  show "sign_server S V X \<lparr>rq_Method = ''POST'', rq_Path = ''/result'', rq_Body = result\<rparr> None s
      = (\<lparr>re_Status = 200, re_ContentType = ''application/json'', re_Content = Inr []\<rparr>, [resp])"
    by (rule sign_server_result [OF decodesD [OF assms(5,14)] assms(15-17)])
  obtain chainID h where signed: "Node_ChainID (sy_node s) = Inr chainID"
    "payload_Hash S TEEActionResult chainID (BytesToHash (ActionResult_Hash S (mockActionResult S d a))) = Inr h"
    "VerifySignature S (hash_bytes h) (rp_Signature resp) (n_teeID (sy_node s)) = Inr ()" "rp_Result resp = mockActionResult S d a"
    using SignResult_signed [OF assms(1,2,16)] by metis
  then show "\<exists>chainID h. Node_ChainID (sy_node s) = Inr chainID
      \<and> payload_Hash S TEEActionResult chainID (BytesToHash (ActionResult_Hash S (rp_Result resp))) = Inr h
      \<and> VerifySignature S (hash_bytes h) (rp_Signature resp) (n_teeID (sy_node s)) = Inr ()" by metis
qed (use assms(11,16) SignResult_result [of S "sy_node s" "mockActionResult S d a"] in \<open>auto simp: mockActionResult_def\<close>)

text \<open>A node whose extension has an operation of its own.\<close>

definition toyX :: system_env where
  "toyX = toyS\<lparr>unjson_DirectInstruction := \<lambda>b. Inr \<lparr>di_OPType = 1, di_OPCommand = 2, di_Message = []\<rparr>\<rparr>"

lemma toyX_fields [simp]:
  "unjson_DirectInstruction toyX = (\<lambda>b. Inr \<lparr>di_OPType = 1, di_OPCommand = 2, di_Message = []\<rparr>)"
  "unjson_OpID toyX = (\<lambda>b. Inr \<lparr>id_OPType = 1, id_OPCommand = 2\<rparr>)" "payload_Hash toyX = (\<lambda>tag c h. Inr h)"
  "PubkeyToAddress toyX = (\<lambda>pk. word_of_nat (pk_X pk))" "SigToPub toyX = toy_SigToPub" "crypto_Sign toyX = toy_Sign" "TextHash toyX = (\<lambda>b. b)"
  "Keccak256Hash toyX = toy_hash" "ValidateSignatureValues toyX = (\<lambda>v r s h. True)"
  by (simp_all add: toyX_def)

definition zx_action :: Action where
  "zx_action = \<lparr>ac_Data = \<lparr>ad_ID = 3, ad_Type = Direct, ad_SubmissionTag = Submit, ad_Message = [1]\<rparr>,
     ac_AdditionalVariableMessages = [], ac_Timestamps = [], ac_AdditionalActionData = [], ac_Signatures = []\<rparr>"

definition zx_extension :: DummyExtensionServer where "zx_extension = NewDummyExtensionServer 8889 8888"

definition zx_pending :: ActionResult where "zx_pending = pending_result zx_extension zx_action \<lparr>id_OPType = 1, id_OPCommand = 2\<rparr>"
definition zx_done :: ActionResult where "zx_done = mockActionResult toyX zx_extension zx_action"

text \<open>Codecs that know one action and its two results.\<close>

definition zx_unjson :: "bytes \<Rightarrow> ActionResult res" where
  "zx_unjson b = (if b = [1] then Inr zx_pending else if b = [2] then Inr zx_done else Inl toy_err)"

definition zx_json :: "ActionResult \<Rightarrow> bytes res" where
  "zx_json r = (if r = zx_pending then Inr [1] else if r = zx_done then Inr [2] else Inl toy_err)"

definition zx_codec :: example_env where
  "zx_codec = \<lparr>xc_unjson_Action = \<lambda>b. Inr zx_action, xc_json_ActionResult = zx_json, xc_json_TeeState = \<lambda>s. Inl toy_err\<rparr>"

definition zx_system :: system where "zx_system = sx_system\<lparr>sy_proxyURL := ''http://p''\<rparr>"

theorem extension_result_signed_witness:
  "direct_Default_Process toyX (example_extension toyX zx_codec zx_extension (\<lambda>a. if a = zx_action then Inr [] else Inl toy_err) zx_unjson) 8889 zx_action []
     = (zx_pending, [(extension_url 8889, [])])
   \<and> (\<exists>resp. sign_server toyX (vx_server\<lparr>sv_unjson_ActionResult := zx_unjson\<rparr>) qx_proxy
        \<lparr>rq_Method = ''POST'', rq_Path = ''/result'', rq_Body = [2]\<rparr> None zx_system
        = (\<lparr>re_Status = 200, re_ContentType = ''application/json'', re_Content = Inr []\<rparr>, [resp]) \<and> ar_Data (rp_Result resp) = [1])"
proof -
  let ?json = "\<lambda>a. if a = zx_action then Inr [] else Inl toy_err"
  have final: "zx_done = \<lparr>ar_ID = 3, ar_SubmissionTag = Submit, ar_Status = 1, ar_Log = Some (Wrapped ''Action processed successfully'' (Err Direct)),
      ar_OPType = 1, ar_OPCommand = 2, ar_AdditionalResultStatus = [], ar_Version = ''0.0.0-test'', ar_Data = [1]\<rparr>"
    by (simp add: zx_done_def mockActionResult_def opInfo_def zx_action_def zx_extension_def NewDummyExtensionServer_def)
  have differ: "zx_done \<noteq> zx_pending" by (simp add: final zx_pending_def pending_result_def)
  have node: "sy_node zx_system = ex_node" by (simp add: zx_system_def sx_system_def)
  have inv: "node_inv toyX (sy_node zx_system)" unfolding node by (rule ex_node_well_formed) simp
  have spec: "ecdsa_spec toyX" by (rule toy_ecdsa) simp_all
  obtain resp where sign: "SignResult toyX (sy_node zx_system) (mockActionResult toyX zx_extension zx_action) = (resp, Inr ())"
    unfolding node by (simp add: SignResult_def Node_ChainID_def Node_Sign_def Sign_def toy_Sign_def)
  have post: "PostActionResponse qx_proxy (sy_proxyURL zx_system @ ''/result'') resp = Inr ()"
    by (simp add: PostActionResponse_def qx_proxy_def)
  have codecs: "decodes ?json (xc_unjson_Action zx_codec)" "decodes (xc_json_ActionResult zx_codec) zx_unjson"
    "decodes (xc_json_ActionResult zx_codec) (sv_unjson_ActionResult (vx_server\<lparr>sv_unjson_ActionResult := zx_unjson\<rparr>))"
    by (simp_all add: decodes_def zx_codec_def zx_json_def zx_unjson_def)
  have "fill_bytes 32 1 = replicate 31 0 @ [1]" by code_simp
  then have "take (Suc (Suc 0)) (hash_bytes (1 :: hash)) = [0, 0]" by (simp add: hash_bytes_def)
  moreover have "string_bytes ''F_'' = [70, 95]" by (simp add: string_bytes_def of_char_def)
  ultimately have own: "CheckForwardable (1 :: hash) = Inr ()" by (simp add: CheckForwardable_def flareOPPrefix_def)
  have action: "CheckDirectTag (ad_SubmissionTag (ac_Data zx_action)) = Inr ()" "ad_Type (ac_Data zx_action) = Direct"
    "Parse_DirectInstruction toyX (ad_Message (ac_Data zx_action)) = Inr \<lparr>di_OPType = 1, di_OPCommand = 2, di_Message = []\<rparr>"
    "validateAction zx_action = Inr ()" "opInfo toyX zx_action = Inr \<lparr>id_OPType = 1, id_OPCommand = 2\<rparr>" "?json zx_action = Inr []"
    by (simp_all add: zx_action_def CheckDirectTag_def Submit_def Threshold_def End_def Direct_def Parse_DirectInstruction_def Parse_sized_def MaxActionSize_def
        validateAction_iff opInfo_def)
  have enc: "xc_json_ActionResult zx_codec (pending_result zx_extension zx_action \<lparr>id_OPType = 1, id_OPCommand = 2\<rparr>) = Inr [1]"
    "xc_json_ActionResult zx_codec (mockActionResult toyX zx_extension zx_action) = Inr [2]"
    using differ by (simp_all add: zx_codec_def zx_json_def flip: zx_pending_def zx_done_def)
  have port: "de_port zx_extension = 8889" by (simp add: zx_extension_def NewDummyExtensionServer_def)
  have url: "sy_proxyURL zx_system \<noteq> []" by (simp add: zx_system_def)
  from extension_result_signed [OF spec inv codecs action(1,3) _ action(2,4-6) enc url sign post] show ?thesis
    using own port by (auto simp: zx_pending_def zx_action_def)
qed

end
