(* ===== verification/Test_Client.thy ===== *)
theory Test_Client
  imports Wallet_Processor Policy_Processor Sign_Processor Tee_Info Fdc
begin

text \<open>
  The client side of the protocols, as the fixtures in \<^verbatim>\<open>src/internal/testutils\<close> write it down
  (\<^verbatim>\<open>mocks.go\<close>, \<^verbatim>\<open>utils.go\<close>, \<^verbatim>\<open>setup.go\<close>): how an instruction is put together and signed by data
  providers and cosigners, how a policy update is signed by voters, how a signing policy is laid
  out in bytes, and how the data-provider signatures of an FDC proof are parsed and verified. A
  failed \<open>require\<close> ends a test; it is an error value here. Random identifiers, timestamps
  and keys are arguments. \<open>Props_Client\<close> shows that the node accepts what these functions build.
\<close>

section \<open>Messages and codecs of the client\<close>

text \<open>
  The value of type \<open>any\<close> from which a message is made, by the cases that the builders tell apart.
\<close>

datatype 'v message_raw =
    Raw_nil
  | Raw_bytes bytes
  | Raw_hexutil bytes
  | Raw_hash hash
  | Raw_attestation TeeAttestationMsg
  | Raw_value 'v

text \<open>\<open>payments.ITeePaymentsPaymentInstructionMessage\<close> with the fields that the fixture sets.\<close>

record PaymentInstructionMessage =
  pi_WalletId :: hash
  pi_TeeIdKeyIdPairs :: "TeeIdKeyIdPair list"
  pi_SenderAddress :: string
  pi_RecipientAddress :: string
  pi_Amount :: int
  pi_MaxFee :: int
  pi_FeeSchedule :: bytes
  pi_PaymentReference :: hash
  pi_Nonce :: uint64

text \<open>
  \<open>relay.RelaySigningPolicyInitialized\<close>. The two \<open>*big.Int\<close> fields are not nil in any event that the
  fixtures make.
\<close>

record RelaySigningPolicyInitialized =
  re_RewardEpochId :: int
  re_StartVotingRoundId :: uint32
  re_Threshold :: uint16
  re_Seed :: int
  re_Voters :: "address list"
  re_Weights :: "uint16 list"
  re_SigningPolicyBytes :: bytes
  re_Timestamp :: uint64

text \<open>The encoders that only the client calls, and the constructor of a policy from its event.\<close>

record 'v client_env =
  cl_json_DataFixed :: "DataFixed \<Rightarrow> bytes res"
  cl_json_DirectInstruction :: "DirectInstruction \<Rightarrow> bytes res"
  cl_json_any :: "'v message_raw \<Rightarrow> bytes res"
  cl_pack_KeyGenerate :: "KeyGenerateMsg \<Rightarrow> bytes res"
  cl_pack_Payment :: "PaymentInstructionMessage \<Rightarrow> bytes res"
  cl_NewSigningPolicy :: "RelaySigningPolicyInitialized \<Rightarrow> SigningPolicy res"

section \<open>Set-up\<close>

definition DefaultTestChainID :: uint64 where "DefaultTestChainID = 31337"

record setupConfig =
  skipChainID :: bool

type_synonym SetupOption = "setupConfig \<Rightarrow> setupConfig"

definition WithoutChainID :: SetupOption where
  "WithoutChainID c = c\<lparr>skipChainID := True\<rparr>"

definition Setup ::
  "'a flare_scheme \<Rightarrow> (string \<Rightarrow> string option) \<Rightarrow> ecdsa_priv res \<Rightarrow> SetupOption list \<Rightarrow> (Node \<times> PolicyStorage \<times> Storage) res" where
  "Setup F getenv drawn opts =
     (let cfg = foldl (\<lambda>c opt. opt c) \<lparr>skipChainID = False\<rparr> opts in
      rbind (Initialize F getenv drawn ZeroState) (\<lambda>n.
      let (r, n1) = (if \<not> skipChainID cfg then SetChainID n DefaultTestChainID else (Inr (), n)) in
      rbind r (\<lambda>_. Inr (n1, policy_InitializeStorage, InitializeStorage))))"

section \<open>Instructions\<close>

definition client_sign :: "'a flare_scheme \<Rightarrow> DataFixed \<Rightarrow> bytes \<Rightarrow> ecdsa_priv \<Rightarrow> uint64 \<Rightarrow> bytes res" where
  "client_sign F d additionalVariableMessage privKey chainID =
     rbind (data_HashForSigning F d additionalVariableMessage chainID) (\<lambda>h. Sign F (hash_bytes h) privKey)"

definition additional_fixed_message :: "'v client_env \<Rightarrow> 'v message_raw \<Rightarrow> bytes res" where
  "additional_fixed_message C raw = (case raw of
     Raw_nil \<Rightarrow> Inr []
   | Raw_bytes b \<Rightarrow> Inr b
   | Raw_hexutil b \<Rightarrow> Inr b
   | Raw_hash h \<Rightarrow> Inr (hash_bytes h)
   | _ \<Rightarrow> cl_json_any C raw)"

text \<open>
  The loop over the keys: the message of signer \<open>i\<close> is \<open>variableMessages[i]\<close>, or empty if there are
  none at all. The result pairs each message with its signature.
\<close>

fun signatures_loop ::
  "'a flare_scheme \<Rightarrow> DataFixed \<Rightarrow> uint64 \<Rightarrow> bytes list \<Rightarrow> nat \<Rightarrow> ecdsa_priv list \<Rightarrow> (bytes \<times> bytes) list res" where
  "signatures_loop F d chainID variableMessages i [] = Inr []"
| "signatures_loop F d chainID variableMessages i (privKey # keys) =
     rbind (if length variableMessages \<noteq> 0
            then (if i < length variableMessages then Inr (variableMessages ! i) else Inl (Panic ''index out of range''))
            else Inr []) (\<lambda>m.
     rbind (client_sign F d m privKey chainID) (\<lambda>signature.
     rbind (signatures_loop F d chainID variableMessages (Suc i) keys) (\<lambda>rest.
     Inr ((m, signature) # rest))))"

text \<open>The fixed part that the builder signs and encodes.\<close>

definition mock_DataFixed ::
  "'a flare_scheme \<Rightarrow> op_type \<Rightarrow> op_command \<Rightarrow> bytes \<Rightarrow> address \<Rightarrow> uint32 \<Rightarrow> bytes \<Rightarrow> address list \<Rightarrow> uint64 \<Rightarrow> uint64 \<Rightarrow> hash \<Rightarrow> DataFixed" where
  "mock_DataFixed F opType opCommand originalMessage teeID rewardEpochID additionalFixedMessage cosigners cosignersThreshold timestamp instructionID =
     \<lparr>df_InstructionID = instructionID, df_TeeID = teeID, df_RewardEpochID = rewardEpochID, df_OPType = OPType_Hash F opType,
      df_OPCommand = OPCommand_Hash F opCommand, df_Cosigners = cosigners, df_CosignersThreshold = cosignersThreshold,
      df_OriginalMessage = originalMessage, df_AdditionalFixedMessage = additionalFixedMessage, df_Timestamp = timestamp\<rparr>"

definition BuildMockInstructionAction ::
  "'a flare_scheme \<Rightarrow> 'v client_env \<Rightarrow> op_type \<Rightarrow> op_command \<Rightarrow> bytes \<Rightarrow> ecdsa_priv list \<Rightarrow> uint64 \<Rightarrow> address \<Rightarrow> uint32
   \<Rightarrow> 'v message_raw \<Rightarrow> bytes list \<Rightarrow> address list \<Rightarrow> uint64 \<Rightarrow> string \<Rightarrow> uint64 \<Rightarrow> hash res \<Rightarrow> (nat \<Rightarrow> uint64) \<Rightarrow> Action res" where
  "BuildMockInstructionAction F C opType opCommand originalMessage privKeys chainID teeID rewardEpochID
     additionalFixedMessageRaw variableMessages cosigners cosignersThreshold submissionTag timestamp randomHash randomTime =
     rbind randomHash (\<lambda>instructionID.
     rbind (additional_fixed_message C additionalFixedMessageRaw) (\<lambda>additionalFixedMessage.
     let d = mock_DataFixed F opType opCommand originalMessage teeID rewardEpochID additionalFixedMessage cosigners
               cosignersThreshold timestamp instructionID in
     rbind (cl_json_DataFixed C d) (\<lambda>encoded.
     rbind (signatures_loop F d chainID variableMessages 0 privKeys) (\<lambda>signed.
     Inr \<lparr>ac_Data = \<lparr>ad_ID = instructionID, ad_Type = Instruction, ad_SubmissionTag = submissionTag, ad_Message = encoded\<rparr>,
          ac_AdditionalVariableMessages = (if length variableMessages \<noteq> 0 then map fst signed else []),
          ac_Timestamps = sort (map randomTime [0..<length signed]),
          ac_AdditionalActionData = [],
          ac_Signatures = map snd signed\<rparr>))))"

definition direct_message :: "'a system_env_scheme \<Rightarrow> 'v client_env \<Rightarrow> 'v message_raw \<Rightarrow> bytes res" where
  "direct_message S C raw = (case raw of
     Raw_attestation req \<Rightarrow> EncodeTeeAttestationRequest S req
   | Raw_nil \<Rightarrow> Inr []
   | _ \<Rightarrow> cl_json_any C raw)"

definition BuildMockDirectAction ::
  "'a system_env_scheme \<Rightarrow> 'v client_env \<Rightarrow> op_type \<Rightarrow> op_command \<Rightarrow> 'v message_raw \<Rightarrow> hash res \<Rightarrow> Action res" where
  "BuildMockDirectAction S C opType opCommand messageRaw randomHash =
     rbind (direct_message S C messageRaw) (\<lambda>message.
     rbind (cl_json_DirectInstruction C
       \<lparr>di_OPType = OPType_Hash S opType, di_OPCommand = OPCommand_Hash S opCommand, di_Message = message\<rparr>) (\<lambda>enc.
     rbind randomHash (\<lambda>actionID.
     Inr \<lparr>ac_Data = \<lparr>ad_ID = actionID, ad_Type = Direct, ad_SubmissionTag = Submit, ad_Message = enc\<rparr>,
          ac_AdditionalVariableMessages = [], ac_Timestamps = [], ac_AdditionalActionData = [], ac_Signatures = []\<rparr>)))"

definition BuildMockPaymentOriginalMessage ::
  "'v client_env \<Rightarrow> hash \<Rightarrow> address \<Rightarrow> uint64 \<Rightarrow> int \<Rightarrow> int \<Rightarrow> bytes \<Rightarrow> string \<Rightarrow> string \<Rightarrow> bytes res" where
  "BuildMockPaymentOriginalMessage C mockWallet teeID keyID amount maxFee feeSchedule sender receiver =
     cl_pack_Payment C \<lparr>pi_WalletId = mockWallet, pi_TeeIdKeyIdPairs = [\<lparr>tk_TeeId = teeID, tk_KeyId = keyID\<rparr>],
       pi_SenderAddress = sender, pi_RecipientAddress = receiver, pi_Amount = amount, pi_MaxFee = maxFee,
       pi_FeeSchedule = feeSchedule, pi_PaymentReference = 0, pi_Nonce = 0\<rparr>"

text \<open>
  The handler of the sink that a test starts in place of the proxy: it decodes a posted body and appends the result to the
  channel, or fails the test.
\<close>

definition StartMockSignServer_handler :: "(bytes \<Rightarrow> ActionResult res) \<Rightarrow> bytes res \<Rightarrow> ActionResult list \<Rightarrow> unit res \<times> ActionResult list" where
  "StartMockSignServer_handler unjson body actionResponseChan =
     stry actionResponseChan body (\<lambda>b.
     stry actionResponseChan (unjson b) (\<lambda>actionResponse. (Inr (), actionResponseChan @ [actionResponse])))"

text \<open>
  A wallet made by running the key-generation handler; \<open>drawn\<close> is the key that the handler draws, and
  the signing policy and the lists of messages and signers are nil.
\<close>

definition mock_key_request :: "'a geth_scheme \<Rightarrow> address \<Rightarrow> hash \<Rightarrow> uint64 \<Rightarrow> ecdsa_priv list \<Rightarrow> ecdsa_priv list \<Rightarrow> KeyGenerateMsg" where
  "mock_key_request G teeID walletID keyID adminPrivKeys cosignerPrivKeys =
     (let adminPubKeys = map (\<lambda>k. PubKeyToStruct (sk_Pub k)) adminPrivKeys;
          cosignerPubKeys = map (\<lambda>k. PubkeyToAddress G (sk_Pub k)) cosignerPrivKeys in
      \<lparr>kg_TeeId = teeID, kg_WalletId = walletID, kg_KeyId = keyID, kg_KeyType = XRPType, kg_SigningAlgo = XRPSignAlgo,
       kg_ConfigConstants = \<lparr>cc_AdminsPublicKeys = adminPubKeys, cc_AdminsThreshold = word_of_nat (length adminPubKeys),
         cc_Cosigners = cosignerPubKeys, cc_CosignersThreshold = word_of_nat (length cosignerPubKeys)\<rparr>\<rparr>)"

definition CreateMockWallet ::
  "'a backup_env_scheme \<Rightarrow> 'v client_env \<Rightarrow> Node \<Rightarrow> SigningPolicy \<Rightarrow> hash \<Rightarrow> uint64 \<Rightarrow> uint32 \<Rightarrow> ecdsa_priv list \<Rightarrow> ecdsa_priv list
   \<Rightarrow> hash res \<Rightarrow> ecdsa_priv res \<Rightarrow> Storage \<Rightarrow> KeyExistence res \<times> Storage" where
  "CreateMockWallet E C n nilPolicy walletID keyID rewardEpochID adminPrivKeys cosignerPrivKeys randomHash drawn s =
     stry s randomHash (\<lambda>instructionID.
     stry s (ensure (0 < length adminPrivKeys) (Err ''require.Less'')) (\<lambda>_.
     stry s (cl_pack_KeyGenerate C (mock_key_request E (n_teeID n) walletID keyID adminPrivKeys cosignerPrivKeys)) (\<lambda>encoded.
     let d = \<lparr>df_InstructionID = instructionID, df_TeeID = n_teeID n, df_RewardEpochID = rewardEpochID,
           df_OPType = OPType_Hash E OP_Wallet, df_OPCommand = OPCommand_Hash E OP_KeyGenerate, df_Cosigners = [],
           df_CosignersThreshold = 0, df_OriginalMessage = encoded, df_AdditionalFixedMessage = [], df_Timestamp = 0\<rparr> in
     sbind (KeyGenerate E n None drawn Threshold d [] [] nilPolicy s) (\<lambda>s1 (walletProofBytes, _).
     stry s1 (ExtractKeyExistence E walletProofBytes (n_teeID n) 31337) (\<lambda>proof. (Inr proof, s1))))))"

section \<open>Signing policies\<close>

definition BuildMultiSignedPolicy :: "'a flare_scheme \<Rightarrow> uint64 \<Rightarrow> bytes \<Rightarrow> ecdsa_priv list \<Rightarrow> MultiSignedPolicy res" where
  "BuildMultiSignedPolicy F chainID policyBytes voterPrivKeys =
     (let h = hash_bytes (ChainBoundHash F chainID policyBytes) in
      rbind (rmap (\<lambda>voterPrivKey. Sign F h voterPrivKey) voterPrivKeys) (\<lambda>sigs.
      Inr \<lparr>ms_PolicyBytes = policyBytes, ms_Signatures = sigs\<rparr>))"

text \<open>The keys that \<open>crypto.GenerateKey\<close> draws are the argument \<open>drawn\<close>, one outcome per voter.\<close>

definition GenerateRandomKeys ::
  "'a geth_scheme \<Rightarrow> ecdsa_priv res list \<Rightarrow> (address list \<times> ecdsa_priv list \<times> (address \<times> ecdsa_pub) list) res" where
  "GenerateRandomKeys G drawn =
     rbind (rmap (\<lambda>k. k) drawn) (\<lambda>privKeys.
     Inr (map (\<lambda>k. PubkeyToAddress G (sk_Pub k)) privKeys, privKeys,
       foldl (\<lambda>m k. AList.update (PubkeyToAddress G (sk_Pub k)) (sk_Pub k) m) [] privKeys))"

text \<open>\<open>big.Int.Int64\<close>: the low 64 bits, read as a signed integer.\<close>

definition big_Int64 :: "int \<Rightarrow> int" where
  "big_Int64 v = sint (word_of_int v :: uint64)"

definition encodeSigningPolicy :: "RelaySigningPolicyInitialized option \<Rightarrow> bytes res" where
  "encodeSigningPolicy policy = (case policy of
     None \<Rightarrow> Inl (Err ''signing policy is undefined'')
   | Some p \<Rightarrow>
     (let vs = re_Voters p; epoch = big_Int64 (re_RewardEpochId p); seedBytes = big_Bytes (nat \<bar>re_Seed p\<bar>) in
      rbind (ensure (\<not> length vs > 65535) (Err ''too many signers'')) (\<lambda>_.
      rbind (ensure (length (re_Weights p) = length vs) (Err ''number of voters and weights do not match'')) (\<lambda>_.
      rbind (ensure (\<not> epoch > 16777215) (Errf ''reward epoch id out of range: %d'' [epoch])) (\<lambda>_.
      rbind (ensure (\<not> length seedBytes > 32) (Err ''seed value too large'')) (\<lambda>_.
      Inr (fill_bytes 2 (length vs)
        @ [word_of_int (drop_bit 16 epoch), word_of_int (drop_bit 8 epoch), word_of_int epoch]
        @ fill_bytes 4 (unat (re_StartVotingRoundId p))
        @ fill_bytes 2 (unat (re_Threshold p))
        @ replicate (32 - length seedBytes) 0 @ seedBytes
        @ concat (map (\<lambda>(v, w). address_bytes v @ fill_bytes 2 (unat w)) (zip vs (re_Weights p))))))))))"

definition TotalWeight :: nat where "TotalWeight = 2 ^ 16 - 1"

text \<open>
  A policy from pseudo-random data: the first two values of the generator and the scaled weights, which the
  source computes with floating-point numbers, are arguments.
\<close>

definition GenerateRandomPolicyData ::
  "'v client_env \<Rightarrow> uint32 \<Rightarrow> address list \<Rightarrow> uint32 \<Rightarrow> int \<Rightarrow> uint16 list \<Rightarrow> SigningPolicy res" where
  "GenerateRandomPolicyData C rewardEpochID vs startVotingRoundID randSeed weights =
     (let event = \<lparr>re_RewardEpochId = uint rewardEpochID, re_StartVotingRoundId = startVotingRoundID,
            re_Threshold = word_of_nat (TotalWeight div 2), re_Seed = randSeed, re_Voters = vs, re_Weights = weights,
            re_SigningPolicyBytes = [], re_Timestamp = 0\<rparr> in
      rbind (encodeSigningPolicy (Some event)) (\<lambda>policyBytes.
      cl_NewSigningPolicy C (event\<lparr>re_SigningPolicyBytes := policyBytes\<rparr>)))"

definition GenerateRandomValidPolicyAndSigners ::
  "'a geth_scheme \<Rightarrow> 'v client_env \<Rightarrow> uint32 \<Rightarrow> uint32 \<Rightarrow> int \<Rightarrow> uint16 list \<Rightarrow> ecdsa_priv res list
   \<Rightarrow> (SigningPolicy \<times> address list \<times> ecdsa_priv list \<times> PublicKey list) res" where
  "GenerateRandomValidPolicyAndSigners G C epochId startVotingRoundID randSeed weights drawn =
     rbind (GenerateRandomKeys G drawn) (\<lambda>(vs, privKeys, pubKeysMap).
     rbind (GenerateRandomPolicyData C epochId vs startVotingRoundID randSeed weights) (\<lambda>initialPolicy.
     rbind (rmap (\<lambda>voter. case map_of pubKeysMap voter of
         None \<Rightarrow> Inl (Panic ''nil pointer dereference'') | Some k \<Rightarrow> Inr (PubKeyToStruct k)) vs) (\<lambda>pubKeys.
     Inr (initialPolicy, vs, privKeys, pubKeys))))"

definition GenerateAndSetInitialPolicy ::
  "'a flare_scheme \<Rightarrow> 'v client_env \<Rightarrow> uint64 \<Rightarrow> uint32 \<Rightarrow> uint32 \<Rightarrow> int \<Rightarrow> uint16 list \<Rightarrow> ecdsa_priv res list \<Rightarrow> PolicyStorage
   \<Rightarrow> (SigningPolicy \<times> address list \<times> ecdsa_priv list) res \<times> PolicyStorage" where
  "GenerateAndSetInitialPolicy F C chainID epochID startVotingRoundID randSeed weights drawn ps =
     stry ps (GenerateRandomKeys F drawn) (\<lambda>(vs, privKeys, pubKeys).
     stry ps (GenerateRandomPolicyData C epochID vs startVotingRoundID randSeed weights) (\<lambda>initialPolicy.
     sbind (SetInitialPolicy F ps chainID initialPolicy pubKeys) (\<lambda>ps1 _.
     (Inr (initialPolicy, vs, privKeys), ps1))))"

section \<open>The data-provider signatures of a proof\<close>

text \<open>Two bytes of the blob, \<open>int(blob[i])<<8 | int(blob[i+1])\<close>.\<close>

definition be16 :: "bytes \<Rightarrow> nat \<Rightarrow> nat" where
  "be16 blob i = or (push_bit 8 (unat (blob ! i))) (unat (blob ! (i + 1)))"

text \<open>\<open>EncodeSignatures\<close> stores \<open>V||R||S\<close>; \<open>VerifySignature\<close> expects \<open>R||S||V-27\<close>.\<close>

definition rsv_of_vrs :: "bytes \<Rightarrow> bytes" where
  "rsv_of_vrs vrs = take 32 (drop 1 vrs) @ take 32 (drop 33 vrs) @ [vrs ! 0 - 27]"

text \<open>The loop body at signature \<open>i\<close>, with \<open>k\<close> signatures left.\<close>

fun dp_signatures_loop ::
  "'a geth_scheme \<Rightarrow> uint64 \<Rightarrow> bytes \<Rightarrow> hash \<Rightarrow> address list \<Rightarrow> nat \<Rightarrow> nat \<Rightarrow> nat \<Rightarrow> int \<Rightarrow> unit res" where
  "dp_signatures_loop G chainID blob msgHash voterAddresses off 0 i prevIndex = Inr ()"
| "dp_signatures_loop G chainID blob msgHash voterAddresses off (Suc k) i prevIndex =
     (let base = off + i * (65 + 2);
          vrs = take 65 (drop base blob);
          idx = be16 blob (base + 65) in
      rbind (ensure (prevIndex < int idx) (Err ''DP signatures must be strictly ordered by voter index'')) (\<lambda>_.
      rbind (ensure (idx < length voterAddresses) (Err ''require.Less'')) (\<lambda>_.
      let rsv = rsv_of_vrs vrs in
      rbind (VerifySignature G (hash_bytes (ChainBoundRelayPrefixedHash G chainID msgHash)) rsv (voterAddresses ! idx)) (\<lambda>_.
      dp_signatures_loop G chainID blob msgHash voterAddresses off k (Suc i) (int idx)))))"

definition VerifyEncodedDataProviderSignatures ::
  "'a geth_scheme \<Rightarrow> uint64 \<Rightarrow> bytes \<Rightarrow> hash \<Rightarrow> address list \<Rightarrow> nat \<Rightarrow> unit res" where
  "VerifyEncodedDataProviderSignatures G chainID blob msgHash voterAddresses expectedCount =
     rbind (ensure (length blob \<ge> 4 + 2) (Err ''blob too short for signing policy header'')) (\<lambda>_.
     let numVoters = be16 blob 4;
         off = 4 + (43 + numVoters * 22) + 6 + 32 in
     rbind (ensure (length blob \<ge> off + 2) (Err ''blob too short for signature count'')) (\<lambda>_.
     let dpCount = be16 blob off; off1 = off + 2 in
     rbind (ensure (off1 + dpCount * (65 + 2) = length blob) (Err ''DP signatures blob size mismatch'')) (\<lambda>_.
     rbind (ensure (expectedCount = dpCount) (Err ''unexpected data-provider signature count'')) (\<lambda>_.
     dp_signatures_loop G chainID blob msgHash voterAddresses off1 dpCount 0 (-1)))))"

end
