(* ===== verification/Client_Facts.thy ===== *)
theory Client_Facts
  imports Test_Client
begin

text \<open>
  What the builders of \<open>Test_Client\<close> build: the layout of an encoded signing policy, and that the parser of
  data-provider signatures reads back what the encoder of the relay library lays out.
\<close>

section \<open>Two-byte fields\<close>

lemma or_push_bit_8: "b < 256 \<Longrightarrow> or (push_bit 8 a) (b :: nat) = a * 256 + b"
proof -
  assume "b < 256"
  then have "take_bit 8 b = b" by (simp add: take_bit_nat_eq_self)
  then have "and (push_bit 8 a) b = 0" by (metis bit_and_iff bit_eqI bit_push_bit_iff bit_0_eq bit_take_bit_iff bot_apply bot_bool_def not_le)
  then have "or (push_bit 8 a) b = push_bit 8 a + b" by (simp add: disjunctive_add_eq_or)
  then show ?thesis by (simp add: push_bit_eq_mult)
qed

lemma be16_at: "length xs = i \<Longrightarrow> n < 65536 \<Longrightarrow> be16 (xs @ fill_bytes 2 n @ ys) i = n"
proof -
  assume "length xs = i" and n: "n < 65536"
  then have "be16 (xs @ fill_bytes 2 n @ ys) i = or (push_bit 8 (n div 256 mod 256)) (n mod 256)"
    by (simp add: be16_def nth_append numeral_2_eq_2 unat_of_nat_byte)
  also have "\<dots> = (n div 256 mod 256) * 256 + n mod 256" by (rule or_push_bit_8) simp
  also have "\<dots> = n" using n by simp
  finally show ?thesis .
qed

section \<open>The layout of a signing policy\<close>

lemma length_voter_entries:
  "length vs = length ws \<Longrightarrow> length (concat (map (\<lambda>(v, w). address_bytes v @ fill_bytes 2 (unat (w :: uint16))) (zip vs ws))) = 22 * length vs"
  by (induction vs ws rule: list_induct2) (simp_all add: address_bytes_def)

lemma encodeSigningPolicy_layout:
  assumes "encodeSigningPolicy (Some ev) = Inr b"
  obtains rest where "b = fill_bytes 2 (length (re_Voters ev)) @ rest" "length b = 43 + length (re_Voters ev) * 22"
    "length (re_Voters ev) \<le> 65535"
  using assms that
  by (auto simp: encodeSigningPolicy_def Let_def res_simps length_voter_entries)

text \<open>
  The layout is not ambiguous: two policies with the same bytes have the same voters, weights, threshold and start, so
  a signature over the bytes is a signature over the policy.
\<close>

lemma fill_bytes_eq: "fill_bytes n v = fill_bytes n w \<Longrightarrow> v < 256 ^ n \<Longrightarrow> w < 256 ^ n \<Longrightarrow> v = w"
  by (rule fill_bytes_inj)

lemma fill_unat_inject:
  "fill_bytes 20 (unat (a :: address)) = fill_bytes 20 (unat b) \<longleftrightarrow> a = b"
  "fill_bytes 2 (unat (u :: uint16)) = fill_bytes 2 (unat v) \<longleftrightarrow> u = v"
  "fill_bytes 4 (unat (x :: uint32)) = fill_bytes 4 (unat y) \<longleftrightarrow> x = y"
  using fill_bytes_eq [of 20 "unat a" "unat b"] fill_bytes_eq [of 2 "unat u" "unat v"] fill_bytes_eq [of 4 "unat x" "unat y"]
    unsigned_less [of a, where 'a = nat] unsigned_less [of b, where 'a = nat] unsigned_less [of u, where 'a = nat]
    unsigned_less [of v, where 'a = nat] unsigned_less [of x, where 'a = nat] unsigned_less [of y, where 'a = nat]
  by (auto simp: word_unat_eq_iff)

lemma voter_entries_inj:
  assumes "length vs = length ws" and "length vs' = length ws'" and "length vs = length vs'"
    and "concat (map (\<lambda>(v, w). address_bytes v @ fill_bytes 2 (unat (w :: uint16))) (zip vs ws))
       = concat (map (\<lambda>(v, w). address_bytes v @ fill_bytes 2 (unat w)) (zip vs' ws'))"
  shows "vs = vs' \<and> ws = ws'"
  using assms
proof (induction vs ws arbitrary: vs' ws' rule: list_induct2)
  case (Cons v vs w ws)
  then obtain v' vt w' wt where eq: "vs' = v' # vt" "ws' = w' # wt" by (metis length_Suc_conv)
  have "v = v' \<and> w = w' \<and> concat (map (\<lambda>(v, w). address_bytes v @ fill_bytes 2 (unat (w :: uint16))) (zip vs ws))
       = concat (map (\<lambda>(v, w). address_bytes v @ fill_bytes 2 (unat w)) (zip vt wt))"
    using Cons.prems(3) by (simp add: eq address_bytes_def fill_unat_inject)
  then show ?case using Cons.IH [of vt wt] Cons.prems(1,2) by (simp add: eq)
qed simp

lemma append_parts:
  assumes "a @ b @ c @ d @ e @ f = a' @ b' @ c' @ d' @ e' @ f'"
    and "length a = length a'" "length b = length b'" "length c = length c'" "length d = length d'" "length e = length e'"
  shows "a = a' \<and> b = b' \<and> c = c' \<and> d = d' \<and> e = e' \<and> f = f'"
  using assms by simp

lemma encodeSigningPolicy_unambiguous:
  assumes "encodeSigningPolicy (Some p) = Inr b" and "encodeSigningPolicy (Some p') = Inr b"
  shows "re_Voters p = re_Voters p' \<and> re_Weights p = re_Weights p' \<and> re_Threshold p = re_Threshold p'
    \<and> re_StartVotingRoundId p = re_StartVotingRoundId p' \<and> nat \<bar>re_Seed p\<bar> = nat \<bar>re_Seed p'\<bar>"
proof -
  let ?entries = "\<lambda>p. concat (map (\<lambda>(v, w). address_bytes v @ fill_bytes 2 (unat w)) (zip (re_Voters p) (re_Weights p)))"
  have seed: "nat_of_bytes (big_Bytes v) = v" for v
  proof -
    have "v < 256 ^ v" by (rule less_exp [THEN less_le_trans]) (simp add: power_mono)
    from pad_big_Bytes [OF this] show ?thesis using nat_of_fill_bytes_small [OF \<open>v < 256 ^ v\<close>] nat_of_bytes_zeros by metis
  qed
  have enc: "\<exists>e sd. length e = 3 \<and> length sd = 32 \<and> nat_of_bytes sd = nat \<bar>re_Seed q\<bar>
      \<and> length (re_Voters q) \<le> 65535 \<and> length (re_Weights q) = length (re_Voters q)
      \<and> b = fill_bytes 2 (length (re_Voters q)) @ e @ fill_bytes 4 (unat (re_StartVotingRoundId q)) @ fill_bytes 2 (unat (re_Threshold q)) @ sd @ ?entries q"
    if "encodeSigningPolicy (Some q) = Inr b" for q
  proof -
    let ?e = "[word_of_int (drop_bit 16 (big_Int64 (re_RewardEpochId q))), word_of_int (drop_bit 8 (big_Int64 (re_RewardEpochId q))),
      word_of_int (big_Int64 (re_RewardEpochId q))] :: bytes"
    let ?sd = "replicate (32 - length (big_Bytes (nat \<bar>re_Seed q\<bar>))) 0 @ big_Bytes (nat \<bar>re_Seed q\<bar>)"
    show ?thesis
      using that by (intro exI [of _ ?e] exI [of _ ?sd]) (auto simp: encodeSigningPolicy_def Let_def res_simps seed simp del: fill_bytes.simps)
  qed
  obtain e sd where p: "length e = 3" "length sd = 32" "nat_of_bytes sd = nat \<bar>re_Seed p\<bar>" "length (re_Voters p) \<le> 65535"
      "length (re_Weights p) = length (re_Voters p)"
      "b = fill_bytes 2 (length (re_Voters p)) @ e @ fill_bytes 4 (unat (re_StartVotingRoundId p)) @ fill_bytes 2 (unat (re_Threshold p)) @ sd @ ?entries p"
    using enc [OF assms(1)] by blast
  obtain e' sd' where p': "length e' = 3" "length sd' = 32" "nat_of_bytes sd' = nat \<bar>re_Seed p'\<bar>" "length (re_Voters p') \<le> 65535"
      "length (re_Weights p') = length (re_Voters p')"
      "b = fill_bytes 2 (length (re_Voters p')) @ e' @ fill_bytes 4 (unat (re_StartVotingRoundId p')) @ fill_bytes 2 (unat (re_Threshold p')) @ sd' @ ?entries p'"
    using enc [OF assms(2)] by blast
  note parts = append_parts [OF p(6) [unfolded p'(6), symmetric]]
  have "fill_bytes 2 (length (re_Voters p)) = fill_bytes 2 (length (re_Voters p'))
      \<and> fill_bytes 4 (unat (re_StartVotingRoundId p)) = fill_bytes 4 (unat (re_StartVotingRoundId p'))
      \<and> fill_bytes 2 (unat (re_Threshold p)) = fill_bytes 2 (unat (re_Threshold p')) \<and> sd = sd' \<and> ?entries p = ?entries p'"
    using parts p(1,2) p'(1,2) by (simp only: length_fill_bytes)
  then have eqs: "fill_bytes 2 (length (re_Voters p)) = fill_bytes 2 (length (re_Voters p'))"
      "re_StartVotingRoundId p = re_StartVotingRoundId p'" "re_Threshold p = re_Threshold p'" "sd = sd'" "?entries p = ?entries p'"
    unfolding fill_unat_inject by blast+
  have len: "length (re_Voters p) = length (re_Voters p')"
    by (rule fill_bytes_eq [OF eqs(1)]) (use p(4) p'(4) in simp_all)
  have "re_Voters p = re_Voters p' \<and> re_Weights p = re_Weights p'"
    by (rule voter_entries_inj [OF p(5) [symmetric] p'(5) [symmetric] len eqs(5)])
  then show ?thesis using p(3) p'(3) eqs(2-4) by simp
qed

section \<open>The fixtures' nodes and storages\<close>

lemma fixture_node:
  assumes "Setup F getenv drawn opts = Inr (n, ps, ws)"
  shows "node_inv F n" and "policy_inv ps" and "storage_inv ws"
proof -
  obtain n0 where n0: "Initialize F getenv drawn ZeroState = Inr n0" "n = n0 \<or> n = snd (SetChainID n0 DefaultTestChainID)"
    and st: "ps = policy_InitializeStorage" "ws = InitializeStorage"
    using assms by (auto simp: Setup_def Let_def res_simps split_def split: if_splits)
  have "node_inv F n0" using Initialize_inv [OF n0(1)] by blast
  then show "node_inv F n" using n0(2) by (auto simp: SetChainID_def node_inv_def split: if_splits)
  show "policy_inv ps" "storage_inv ws" using policy_InitializeStorage_inv InitializeStorage_inv by (simp_all add: st)
qed

lemma fixture_policy:
  assumes "policy_inv ps" and "ps_active ps = None" and "\<forall>ev q. cl_NewSigningPolicy C ev = Inr q \<longrightarrow> voters q = re_Voters ev"
    and "GenerateAndSetInitialPolicy F C chainID epochID start seed weights drawn ps = (Inr (p, vs, keys), ps')"
  shows "policy_inv ps'" and "ps_active ps' = Some p" and "voters p = map (\<lambda>k. PubkeyToAddress F (sk_Pub k)) keys"
proof -
  obtain m where k: "GenerateRandomKeys F drawn = Inr (vs, keys, m)" and p: "GenerateRandomPolicyData C epochID vs start seed weights = Inr p"
    and set: "SetInitialPolicy F ps chainID p m = (Inr (), ps')"
    using assms(4) by (auto simp: GenerateAndSetInitialPolicy_def res_simps sbind_eq stry_eq split: prod.splits)
  have vs: "vs = map (\<lambda>k. PubkeyToAddress F (sk_Pub k)) keys"
    and m: "m = foldl (\<lambda>m k. AList.update (PubkeyToAddress F (sk_Pub k)) (sk_Pub k) m) [] keys"
    using k by (auto simp: GenerateRandomKeys_def res_simps)
  show v: "voters p = map (\<lambda>k. PubkeyToAddress F (sk_Pub k)) keys"
    using p assms(3) by (auto simp: GenerateRandomPolicyData_def res_simps Let_def vs)
  have "dom (map_of (foldl (\<lambda>m k. AList.update (PubkeyToAddress F (sk_Pub k)) (sk_Pub k) m) m0 ks))
      = dom (map_of m0) \<union> (\<lambda>k. PubkeyToAddress F (sk_Pub k)) ` set ks" for m0 ks
    by (induction ks arbitrary: m0) (auto simp: update_conv' dom_def)
  from this [of "[]" keys] have "dom (map_of m) = set (voters p)" by (simp add: m v)
  then have cover: "keys_cover m p" by (auto simp: keys_cover_def)
  have "policy_ChainBoundHash F p chainID \<noteq> 0"
    using SetInitialPolicy_fails [of F p chainID ps m] set by auto
  from SetInitialPolicy_ok [OF assms(1,2) this cover] set show "policy_inv ps'" "ps_active ps' = Some p" by simp_all
qed

section \<open>The encoded signatures\<close>

text \<open>
  The relay library's encoder: the number of signatures in two bytes, then each as \<open>V || R || S\<close> with
  \<open>V\<close> raised by 27, and the voter's index in two bytes.
\<close>

definition encode_signature :: "IndexedSignature \<Rightarrow> bytes" where
  "encode_signature s = [ix_Signature s ! 64 + 27] @ take 64 (ix_Signature s) @ fill_bytes 2 (nat (ix_Index s))"

definition encode_signatures_spec :: "'a system_env_scheme \<Rightarrow> bool" where
  "encode_signatures_spec S \<longleftrightarrow> (\<forall>sigs b. EncodeSignatures S sigs = Inr b \<longrightarrow>
     b = fill_bytes 2 (length sigs) @ concat (map encode_signature sigs))"

text \<open>A signature as the parser expects it: by the voter with the given index.\<close>

definition signed_by_voter :: "'a geth_scheme \<Rightarrow> hash \<Rightarrow> address list \<Rightarrow> IndexedSignature \<Rightarrow> bool" where
  "signed_by_voter G h va s \<longleftrightarrow> length (ix_Signature s) = 65 \<and> 0 \<le> ix_Index s \<and> nat (ix_Index s) < length va
     \<and> SignatureToSignersAddress G (hash_bytes h) (ix_Signature s) = Inr (va ! nat (ix_Index s))"

lemma encode_signature_parts:
  assumes "length (ix_Signature s) = 65"
  shows "take 65 (encode_signature s @ rest) = [ix_Signature s ! 64 + 27] @ take 64 (ix_Signature s)"
    and "encode_signature s @ rest = ([ix_Signature s ! 64 + 27] @ take 64 (ix_Signature s)) @ fill_bytes 2 (nat (ix_Index s)) @ rest"
    and "length (encode_signature s) = 67"
  using assms by (simp_all add: encode_signature_def)

lemma rsv_of_vrs_encoded:
  fixes sig :: bytes
  assumes "length sig = 65"
  shows "rsv_of_vrs ([sig ! 64 + 27] @ take 64 sig) = sig"
proof -
  have "take 32 (take 64 sig) @ take 32 (drop 32 (take 64 sig)) = take 64 sig"
    using assms by (simp add: min_def drop_take flip: take_add)
  moreover have "take 64 sig @ [sig ! 64] = sig"
    using assms take_Suc_conv_app_nth [of 64 sig] by simp
  ultimately show ?thesis by (simp add: rsv_of_vrs_def) (metis append_assoc)
qed

lemma dp_signatures_loop_encoded:
  assumes "\<forall>s \<in> set sigs. signed_by_voter G (ChainBoundRelayPrefixedHash G chainID msgHash) va s" and "length va \<le> 65535"
    and "sorted_wrt (<) (map ix_Index sigs)" and "\<forall>s \<in> set sigs. prev < ix_Index s" and "length pre = off + i * 67"
  shows "dp_signatures_loop G chainID (pre @ concat (map encode_signature sigs)) msgHash va off (length sigs) i prev = Inr ()"
  using assms
proof (induction sigs arbitrary: pre i prev)
  case (Cons s sigs)
  let ?rest = "concat (map encode_signature sigs)" and ?h = "ChainBoundRelayPrefixedHash G chainID msgHash"
  from Cons.prems(1) have s: "length (ix_Signature s) = 65" "0 \<le> ix_Index s" "nat (ix_Index s) < length va"
    "SignatureToSignersAddress G (hash_bytes ?h) (ix_Signature s) = Inr (va ! nat (ix_Index s))"
    by (simp_all add: signed_by_voter_def)
  note parts = encode_signature_parts [OF s(1)]
  have "be16 ((pre @ [ix_Signature s ! 64 + 27] @ take 64 (ix_Signature s)) @ fill_bytes 2 (nat (ix_Index s)) @ ?rest) (off + i * 67 + 65)
      = nat (ix_Index s)"
    by (rule be16_at) (use s Cons.prems(2,5) in auto)
  then have idx: "be16 (pre @ encode_signature s @ ?rest) (off + i * 67 + 65) = nat (ix_Index s)"
    by (simp only: append_assoc parts(2))
  have vrs: "take 65 (drop (off + i * 67) (pre @ encode_signature s @ ?rest)) = [ix_Signature s ! 64 + 27] @ take 64 (ix_Signature s)"
    using parts(1) by (simp flip: Cons.prems(5))
  have loop: "dp_signatures_loop G chainID ((pre @ encode_signature s) @ ?rest) msgHash va off (length sigs) (Suc i) (ix_Index s) = Inr ()"
    by (rule Cons.IH) (use Cons.prems parts(3) in auto)
  have ok: "VerifySignature G (hash_bytes ?h) (ix_Signature s) (va ! nat (ix_Index s)) = Inr ()"
    using s(4) by (simp add: VerifySignature_iff)
  obtain blob where blob: "blob = pre @ encode_signature s @ ?rest" by blast
  have "be16 blob (off + i * 67 + 65) = nat (ix_Index s)" by (simp only: blob idx)
  moreover have "rsv_of_vrs (take 65 (drop (off + i * 67) blob)) = ix_Signature s"
    by (simp only: blob vrs rsv_of_vrs_encoded [OF s(1)])
  moreover have "dp_signatures_loop G chainID blob msgHash va off (length sigs) (Suc i) (ix_Index s) = Inr ()"
    using loop by (simp only: blob append_assoc)
  ultimately have "dp_signatures_loop G chainID blob msgHash va off (Suc (length sigs)) i prev = Inr ()"
    using ok s(2,3) Cons.prems(4) by (simp add: Let_def)
  then show ?case by (simp add: blob)
qed simp

text \<open>The parser accepts the blob that \<open>prepareFinalizationTxInput\<close> lays out.\<close>

lemma finalization_input_verifies:
  assumes "encode_signatures_spec S" and "length (relayFunctionSelector S) = 4"
    and "encodeSigningPolicy (Some ev) = Inr raw" and "length (re_Voters ev) = length va"
    and "\<forall>s \<in> set sigs. signed_by_voter S (ChainBoundRelayPrefixedHash S chainID msgHash) va s" and "sorted_wrt (<) (map ix_Index sigs)"
    and "prepareFinalizationTxInput S raw (hash_bytes msgHash) sigs = Inr blob"
  shows "VerifyEncodedDataProviderSignatures S chainID blob msgHash va (length sigs) = Inr ()"
proof -
  obtain rest where raw: "raw = fill_bytes 2 (length va) @ rest" "length raw = 43 + length va * 22" "length va \<le> 65535"
    using encodeSigningPolicy_layout [OF assms(3)] assms(4) by metis
  let ?enc = "concat (map encode_signature sigs)"
  let ?head = "relayFunctionSelector S @ raw @ directSigningMessagePrefix @ hash_bytes msgHash"
  have pos: "0 \<le> ix_Index s \<and> nat (ix_Index s) < length va" if "s \<in> set sigs" for s using that assms(5) by (auto simp: signed_by_voter_def)
  have "distinct (map (nat \<circ> ix_Index) sigs)"
    using assms(6) pos by (auto simp: distinct_map strict_sorted_iff inj_on_def eq_nat_nat_iff)
  moreover have "set (map (nat \<circ> ix_Index) sigs) \<subseteq> {..<length va}" using pos by auto
  ultimately have "length sigs \<le> length va" by (metis card_lessThan card_mono distinct_card finite_lessThan length_map)
  then have few: "length sigs < 65536" using raw(3) by simp
  have blob: "blob = ?head @ fill_bytes 2 (length sigs) @ ?enc"
    using assms(1,7) by (auto simp: prepareFinalizationTxInput_def res_simps encode_signatures_spec_def Let_def)
  have len: "length ?head = 4 + (43 + length va * 22) + 6 + 32" "length directSigningMessagePrefix = 6"
    using assms(2) raw(2) by (simp_all add: directSigningMessagePrefix_def)
  have enc: "length ?enc = length sigs * 67"
    using assms(5) by (induction sigs) (auto simp: encode_signature_def signed_by_voter_def)
  have n: "be16 blob 4 = length va"
    using be16_at [of "relayFunctionSelector S" 4 "length va"] assms(2) raw by (simp add: blob)
  have c: "be16 blob (4 + (43 + length va * 22) + 6 + 32) = length sigs"
    unfolding blob by (rule be16_at [OF len(1) few])
  have "dp_signatures_loop S chainID ((?head @ fill_bytes 2 (length sigs)) @ ?enc) msgHash va (length ?head + 2) (length sigs) 0 (-1) = Inr ()"
    by (rule dp_signatures_loop_encoded) (use assms(5,6) raw(3) pos in force)+
  then have loop: "dp_signatures_loop S chainID blob msgHash va (4 + (43 + length va * 22) + 6 + 32 + 2) (length sigs) 0 (-1) = Inr ()"
    unfolding len(1) blob append_assoc .
  have "length blob = 4 + (43 + length va * 22) + 6 + 32 + 2 + length sigs * 67"
    using len enc by (simp add: blob)
  then show ?thesis using n c loop by (simp add: VerifyEncodedDataProviderSignatures_def Let_def add.assoc)
qed

end
