(* ===== verification/Props_Client.thy ===== *)
theory Props_Client
  imports Props_Services Props_Policy Client_Facts
begin

text \<open>
  Completeness: the node accepts what an honest client, as \<open>Test_Client\<close> models it, builds and signs: the converse
  of the properties that only authorised requests have an effect.
\<close>

section \<open>Instructions\<close>

text \<open>What the node demands of an instruction beside its signatures.\<close>

definition instruction_due :: "'a flare_scheme \<Rightarrow> PolicyStorage \<Rightarrow> DataFixed \<Rightarrow> bytes list \<Rightarrow> address list \<Rightarrow> SigningPolicy \<Rightarrow> bool" where
  "instruction_due F ps d messages signers p \<longleftrightarrow>
     policiesOf ps (df_RewardEpochID d) = Some p
     \<and> (\<exists>q. ps_active ps = Some q \<and> unat (sp_RewardEpochID q) \<le> unat (sp_RewardEpochID p) + 1)
     \<and> IsValidPair F (df_OPType d) (df_OPCommand d)
     \<and> CheckSize F d = Inr () \<and> CheckSizeVariableMessages F (df_OPCommand d) messages = Inr ()
     \<and> distinct (df_Cosigners d) \<and> unat (df_CosignersThreshold d) \<le> card (set (df_Cosigners d) \<inter> set signers)
     \<and> (\<exists>t. dataProvidersThreshold F d p = Inr t \<and> t < WeightOfSigners signers p)
     \<and> set signers \<subseteq> set (df_Cosigners d) \<union> set (voters p)"

lemma checkPolicyValidity_complete: "unat active \<le> unat e + 1 \<Longrightarrow> checkPolicyValidity e active = Inr ()"
  using unat_minus_one [of active] unat_gt_0 [of active]
  by (cases "active = 0") (auto simp: checkPolicyValidity_def word_less_nat_alt word_gt_0 ensure_def)

lemma checkCosigners_complete:
  assumes "distinct cs" and "length cs < 2 ^ 64" and "unat t \<le> card (set cs \<inter> set signers)"
  shows "checkCosigners signers cs t = Inr ()"
proof -
  let ?k = "length (filter (\<lambda>c. c \<in> set signers) cs)"
  have "?k = card (set cs \<inter> set signers)"
    using distinct_length_filter [OF assms(1), of "\<lambda>c. c \<in> set signers"] by (simp add: Int_def conj_commute)
  moreover have "?k < 2 ^ 64" using assms(2) length_filter_le [of "\<lambda>c. c \<in> set signers" cs] by linarith
  ultimately have "unat t \<le> unat (of_nat ?k :: uint64)" using assms(3) by (simp add: unat_of_nat)
  then show ?thesis by (simp add: checkCosigners_def count_cosigners_eq word_less_nat_alt not_less)
qed

lemma preprocess_complete:
  assumes "policy_ok p" and "length (df_Cosigners d) < 2 ^ 64" and "instruction_due F ps d (ac_AdditionalVariableMessages a) signers p"
    and "df_TeeID d = teeID" and "df_InstructionID d = ad_ID (ac_Data a)"
    and "signaturesToSigners F d chainID (ac_AdditionalVariableMessages a) (ac_Signatures a) = Inr signers"
  shows "preprocess F a d ps teeID chainID = Inr (signers, p)"
proof -
  obtain q where q: "ps_active ps = Some q" "checkPolicyValidity (sp_RewardEpochID p) (sp_RewardEpochID q) = Inr ()"
    using assms(3) checkPolicyValidity_complete by (auto simp: instruction_due_def)
  have "CheckThresholds F d signers p = Inr ()"
    using assms(1-3) checkCosigners_complete [of "df_Cosigners d" "df_CosignersThreshold d" signers]
    by (auto simp: instruction_due_def CheckThresholds_def policy_ok_def not_le ensure_def)
  with q show ?thesis
    using assms(3-6)
    by (simp add: preprocess_def SigningPolicyOf_def ActiveSigningPolicy_def instruction_due_def policiesOf_def validateInstructionData_def
        checkInstructionData_def)
qed

lemma CheckAndAdapt_complete:
  assumes "length (ac_Signatures a) = length msgs" and "length (ac_Timestamps a) = length msgs" and "length msgs \<le> MaxVariableMessages"
    and "ac_AdditionalVariableMessages a = msgs \<or> ac_AdditionalVariableMessages a = [] \<and> msgs = replicate (length msgs) []"
    and "sum_list (map length msgs) \<le> MaxVariableMessageSize"
  shows "CheckAndAdapt a = (Inr (), a\<lparr>ac_AdditionalVariableMessages := msgs\<rparr>)"
proof -
  have len: "foldl (\<lambda>n m. n + length m) k xs = k + sum_list (map length xs)" for k and xs :: "bytes list"
    by (induction xs arbitrary: k) auto
  have "(if length (ac_AdditionalVariableMessages a) = 0 then a\<lparr>ac_AdditionalVariableMessages := replicate (length (ac_Signatures a)) []\<rparr> else a)
      = a\<lparr>ac_AdditionalVariableMessages := msgs\<rparr>"
    using assms(1,4) by (cases a) auto
  moreover have "length (ac_AdditionalVariableMessages a) \<le> MaxVariableMessages" using assms(3,4) by auto
  ultimately show ?thesis using assms(1-3,5) by (simp add: CheckAndAdapt_def Let_def len)
qed

text \<open>The signatures of the builder recover to the addresses of its keys.\<close>

lemma signatures_loop_signers:
  assumes "ecdsa_spec F" and "signatures_loop F d chainID vms i keys = Inr pairs"
    and "distinct (map (\<lambda>k. PubkeyToAddress F (sk_Pub k)) keys)" and "\<forall>k \<in> set keys. PubkeyToAddress F (sk_Pub k) \<notin> set seen"
  shows "length pairs = length keys
    \<and> signers_loop F d chainID seen (map fst pairs) (map snd pairs) = Inr (map (\<lambda>k. PubkeyToAddress F (sk_Pub k)) keys)
    \<and> (vms = [] \<longrightarrow> map fst pairs = replicate (length keys) [])
    \<and> (vms \<noteq> [] \<longrightarrow> map fst pairs = take (length keys) (drop i vms))"
  using assms(2-4)
proof (induction keys arbitrary: i pairs seen)
  case (Cons k keys)
  from Cons.prems(1) obtain m h sg rest where
    m: "m = (if vms = [] then [] else vms ! i)" "vms \<noteq> [] \<longrightarrow> i < length vms"
    and s: "data_HashForSigning F d m chainID = Inr h" "Sign F (hash_bytes h) k = Inr sg"
    and rest: "signatures_loop F d chainID vms (Suc i) keys = Inr rest" "pairs = (m, sg) # rest"
    by (auto simp: res_simps client_sign_def split: if_splits)
  have "SignatureToSignersAddress F (hash_bytes h) sg = Inr (PubkeyToAddress F (sk_Pub k))"
    by (rule SignatureToSignersAddress_Sign [OF assms(1) s(2)])
  moreover have "take (Suc n) (drop i vms) = vms ! i # take n (drop (Suc i) vms)" if "vms \<noteq> []" for n
    using m(2) that by (metis Cons_nth_drop_Suc take_Suc_Cons)
  moreover have "distinct (map (\<lambda>k. PubkeyToAddress F (sk_Pub k)) keys)"
    "\<forall>ka \<in> set keys. PubkeyToAddress F (sk_Pub ka) \<notin> set (PubkeyToAddress F (sk_Pub k) # seen)"
    using Cons.prems(2,3) by (auto simp: image_iff)
  note IH = Cons.IH [OF rest(1) this]
  ultimately show ?case
    using IH Cons.prems(3) s rest(2) m(1) by (cases "vms = []") simp_all
qed simp

text \<open>
  What a client must bring for its action \<open>a\<close> to be due: it was built by \<open>BuildMockInstructionAction\<close> for this node and chain, its message is
  decoded to what was encoded, and the node's demands, sizes included, are met.
\<close>

definition honest_action ::
  "'a processor_env_scheme \<Rightarrow> 'v client_env \<Rightarrow> Node \<Rightarrow> PolicyStorage \<Rightarrow> op_type \<Rightarrow> op_command \<Rightarrow> ecdsa_priv list \<Rightarrow> string \<Rightarrow> hash
   \<Rightarrow> DataFixed \<Rightarrow> bytes list \<Rightarrow> address list \<Rightarrow> SigningPolicy \<Rightarrow> Action \<Rightarrow> bool" where
  "honest_action P C n ps ot oc keys tag i d msgs signers p a \<longleftrightarrow>
     (\<exists>om epoch raw afm vms cosigners ct ts rt. length cosigners < 2 ^ 64 \<and> n_chainID n \<noteq> 0
        \<and> additional_fixed_message C raw = Inr afm \<and> d = mock_DataFixed P ot oc om (n_teeID n) epoch afm cosigners ct ts i
        \<and> unjson_DataFixed P (ad_Message (ac_Data a)) = Inr d \<and> length (ad_Message (ac_Data a)) \<le> MaxInstructionSize
        \<and> BuildMockInstructionAction P C ot oc om keys (n_chainID n) (n_teeID n) epoch raw vms cosigners ct tag ts (Inr i) rt = Inr a
        \<and> msgs = (if vms = [] then replicate (length keys) [] else take (length keys) vms)
        \<and> signers = map (\<lambda>k. PubkeyToAddress P (sk_Pub k)) keys \<and> distinct signers \<and> instruction_due P ps d msgs signers p
        \<and> length keys \<le> MaxVariableMessages \<and> sum_list (map length msgs) \<le> MaxVariableMessageSize)"

lemma honest_action_runs:
  assumes "ecdsa_spec P" and "policy_ok p" and "honest_action P C n ps ot oc keys tag i d msgs signers p a"
  obtains a' where "CheckAndAdapt a = (Inr (), a')" "ac_Data a' = ac_Data a" "ad_ID (ac_Data a) = i" "ad_SubmissionTag (ac_Data a) = tag"
    "\<And>f imm s. Process P f n ps imm a' s = (case f tag d msgs signers p s of
        (Inl e, s') \<Rightarrow> (Invalid P a' e, s')
      | (Inr (m, st), s') \<Rightarrow> (finish_instruction P n imm a' d signers m st, s'))"
proof -
  from assms(3) obtain om epoch raw afm vms cosigners ct ts rt where h: "length cosigners < 2 ^ 64" "n_chainID n \<noteq> 0"
    "additional_fixed_message C raw = Inr afm" and d: "d = mock_DataFixed P ot oc om (n_teeID n) epoch afm cosigners ct ts i"
    and h': "unjson_DataFixed P (ad_Message (ac_Data a)) = Inr d" "length (ad_Message (ac_Data a)) \<le> MaxInstructionSize"
    "BuildMockInstructionAction P C ot oc om keys (n_chainID n) (n_teeID n) epoch raw vms cosigners ct tag ts (Inr i) rt = Inr a"
    and msgs: "msgs = (if vms = [] then replicate (length keys) [] else take (length keys) vms)"
    and signers: "signers = map (\<lambda>k. PubkeyToAddress P (sk_Pub k)) keys" and h'': "distinct signers" "instruction_due P ps d msgs signers p"
    "length keys \<le> MaxVariableMessages" "sum_list (map length msgs) \<le> MaxVariableMessageSize"
    unfolding honest_action_def by blast
  obtain pairs enc where pairs: "signatures_loop P d (n_chainID n) vms 0 keys = Inr pairs"
    and a: "a = \<lparr>ac_Data = \<lparr>ad_ID = i, ad_Type = Instruction, ad_SubmissionTag = tag, ad_Message = enc\<rparr>,
      ac_AdditionalVariableMessages = (if vms \<noteq> [] then map fst pairs else []), ac_Timestamps = sort (map rt [0..<length pairs]),
      ac_AdditionalActionData = [], ac_Signatures = map snd pairs\<rparr>"
    using h(3) h'(3) by (auto simp: BuildMockInstructionAction_def res_simps Let_def d)
  have l: "length pairs = length keys" "signers_loop P d (n_chainID n) [] (map fst pairs) (map snd pairs) = Inr signers" "map fst pairs = msgs"
    using signatures_loop_signers [OF assms(1) pairs, of "[]"] h''(1) by (auto simp: signers msgs)
  let ?a = "a\<lparr>ac_AdditionalVariableMessages := msgs\<rparr>"
  have "length msgs = length pairs" using l(3) by (metis length_map)
  then have adapt: "CheckAndAdapt a = (Inr (), ?a)"
    by (intro CheckAndAdapt_complete) (use h''(3,4) l(1,3) in \<open>auto simp: a msgs\<close>)
  have "preprocess P ?a d ps (n_teeID n) (n_chainID n) = Inr (signers, p)"
    by (rule preprocess_complete [OF assms(2)])
      (use h(1) h''(2) l \<open>length msgs = length pairs\<close> in \<open>simp_all add: a d mock_DataFixed_def signaturesToSigners_def\<close>)
  moreover have "Parse_DataFixed P (ad_Message (ac_Data a)) = Inr d"
    using h'(1,2) by (simp add: Parse_DataFixed_def Parse_sized_def)
  ultimately have "Process P f n ps imm ?a s = (case f tag d msgs signers p s of
        (Inl e, s') \<Rightarrow> (Invalid P ?a e, s') | (Inr (m, st), s') \<Rightarrow> (finish_instruction P n imm ?a d signers m st, s'))" for f imm and s :: 's
    using h(2) by (simp add: Process_def Node_ChainID_def) (simp add: a)
  then show ?thesis using adapt by (intro that [of ?a]) (simp_all add: a)
qed

text \<open>
  C9: an honest instruction runs. An action that \<open>BuildMockInstructionAction\<close> makes for this node and its chain, signed by at most 200 different keys
  whose owners are entitled and reach both thresholds of a recent policy, within the size
  limits, is adapted by \<open>CheckAndAdapt\<close> to one that passes every check: its handler runs, on
  exactly these signers and messages, and its outcome is the result.
\<close>

theorem honest_instruction_runs:
  assumes "ecdsa_spec P" and "policy_ok p" and "length cosigners < 2 ^ 64" and "n_chainID n \<noteq> 0"
    and "additional_fixed_message C raw = Inr afm"
    and d: "d = mock_DataFixed P ot oc om (n_teeID n) epoch afm cosigners ct ts i"
    and "unjson_DataFixed P (ad_Message (ac_Data a)) = Inr d" and "length (ad_Message (ac_Data a)) \<le> MaxInstructionSize"
    and "BuildMockInstructionAction P C ot oc om keys (n_chainID n) (n_teeID n) epoch raw vms cosigners ct tag ts (Inr i) rt = Inr a"
    and msgs: "msgs = (if vms = [] then replicate (length keys) [] else take (length keys) vms)"
    and signers: "signers = map (\<lambda>k. PubkeyToAddress P (sk_Pub k)) keys" and "distinct signers"
    and "instruction_due P ps d msgs signers p"
    and "length keys \<le> MaxVariableMessages" and "sum_list (map length msgs) \<le> MaxVariableMessageSize"
  shows "\<exists>a'. CheckAndAdapt a = (Inr (), a') \<and> ac_Data a' = ac_Data a \<and> ad_ID (ac_Data a) = i \<and> ad_SubmissionTag (ac_Data a) = tag
    \<and> Process P f n ps imm a' s = (case f tag d msgs signers p s of
        (Inl e, s') \<Rightarrow> (Invalid P a' e, s')
      | (Inr (m, st), s') \<Rightarrow> (finish_instruction P n imm a' d signers m st, s'))"
proof -
  have "honest_action P C n ps ot oc keys tag i d msgs signers p a"
    unfolding honest_action_def by (intro exI conjI) (rule assms)+
  then show ?thesis
  proof (rule honest_action_runs [OF assms(1,2)])
    fix a'
    assume "CheckAndAdapt a = (Inr (), a')" "ac_Data a' = ac_Data a" "ad_ID (ac_Data a) = i" "ad_SubmissionTag (ac_Data a) = tag"
      and run: "\<And>f imm (s :: 'c). Process P f n ps imm a' s = (case f tag d msgs signers p s of
        (Inl e, s') \<Rightarrow> (Invalid P a' e, s')
      | (Inr (m, st), s') \<Rightarrow> (finish_instruction P n imm a' d signers m st, s'))"
    then show ?thesis by (intro exI [of _ a'] conjI run)
  qed
qed

text \<open>The example: cosigner 6 and voter 4 sign the deletion of a key.\<close>

definition hx_client :: "unit client_env" where
  "hx_client = \<lparr>cl_json_DataFixed = \<lambda>d. Inr [], cl_json_DirectInstruction = \<lambda>d. Inr [], cl_json_any = \<lambda>v. Inr [],
     cl_pack_KeyGenerate = \<lambda>r. Inr [], cl_pack_Payment = \<lambda>m. Inr [], cl_NewSigningPolicy = \<lambda>e. Inr toy_policy\<rparr>"

lemma hx_sign: "crypto_Sign toyI = toy_Sign" "OPType_Hash toyI OP_Wallet = 1" "OPCommand_Hash toyI OP_KeyDelete = 2"
  by (simp_all add: toyI_def toyW_def) (simp_all add: toy_defs)

lemma hx_build: "\<exists>a. BuildMockInstructionAction toyI hx_client OP_Wallet OP_KeyDelete [] [toy_key 6, toy_key 4] (n_chainID ex_node) (n_teeID ex_node)
    0 Raw_nil [] [6] 1 Threshold 0 (Inr 3) (\<lambda>i. 0) = Inr a"
  by (simp add: BuildMockInstructionAction_def additional_fixed_message_def client_sign_def Sign_def toy_Sign_def hx_sign hx_client_def Let_def)

theorem honest_instruction_runs_witness:
  "\<exists>a a'. BuildMockInstructionAction toyI hx_client OP_Wallet OP_KeyDelete [] [toy_key 6, toy_key 4] 1 9 0 Raw_nil [] [6] 1 Threshold 0 (Inr 3) (\<lambda>i. 0) = Inr a
    \<and> CheckAndAdapt a = (Inr (), a') \<and> snd (Process toyI (KeyDelete toyI ex_node None) ex_node ix_policies True a' ex_storage1) = ex_storage2"
proof -
  obtain a where a: "BuildMockInstructionAction toyI hx_client OP_Wallet OP_KeyDelete [] [toy_key 6, toy_key 4] (n_chainID ex_node) (n_teeID ex_node)
    0 Raw_nil [] [6] 1 Threshold 0 (Inr 3) (\<lambda>i. 0) = Inr a" using hx_build by blast
  then have msg: "ad_Message (ac_Data a) = []"
    by (auto simp: BuildMockInstructionAction_def res_simps Let_def hx_client_def)
  have d: "ix_data = mock_DataFixed toyI OP_Wallet OP_KeyDelete [] (n_teeID ex_node) 0 [] [6] 1 0 3"
    by (simp add: mock_DataFixed_def ix_data_def hx_sign)
  have due: "instruction_due toyI ix_policies ix_data [[], []] [6, 4] toy_policy"
    by (simp add: instruction_due_def ix_policies_def policiesOf_def dataProvidersThreshold_def policyThreshold_def WeightOfSigners_def voters_def
        CheckSize_def constraints_def noAdditional_def CheckSizeVariableMessages_def Let_def toy_policy_def) (simp add: ix_data_def)
  have "ecdsa_spec toyI" by (rule toy_ecdsa) (simp_all add: hx_sign)
  then have "\<exists>a'. CheckAndAdapt a = (Inr (), a') \<and> ac_Data a' = ac_Data a \<and> ad_ID (ac_Data a) = 3 \<and> ad_SubmissionTag (ac_Data a) = Threshold
    \<and> Process toyI (KeyDelete toyI ex_node None) ex_node ix_policies True a' ex_storage1
      = (case KeyDelete toyI ex_node None Threshold ix_data [[], []] [6, 4] toy_policy ex_storage1 of
        (Inl e, s') \<Rightarrow> (Invalid toyI a' e, s')
      | (Inr (m, st), s') \<Rightarrow> (finish_instruction toyI ex_node True a' ix_data [6, 4] m st, s'))"
    by (intro honest_instruction_runs [OF _ ix_policy_ok _ _ _ d _ _ a])
      (use due in \<open>simp_all add: msg MaxInstructionSize_def MaxVariableMessages_def additional_fixed_message_def toy_key_def toy_pub_def\<close>)
  then show ?thesis using a by (auto simp: ix_delete)
qed

section \<open>Key generation\<close>

lemma Store_complete:
  assumes "storage_inv s" and "nonceOf s (idPair w) = None" and "length (sto_wallets s) < MaxWallets"
    and "length (sto_permanent s) < MaxPermanentWalletsStatus"
    and "length (AdminPublicKeys w) \<le> MaxAdminsPerWalletKey" and "length (Cosigners w) \<le> MaxCosignersPerWalletKey"
  shows "\<exists>s'. Store s w = (Inr (), s')"
proof -
  have p: "map_of (sto_permanent s) (idPair w) = None" using assms(2) by (simp add: nonceOf_def statusOf_def)
  then have "map_of (sto_wallets s) (idPair w) = None"
    using storage_inv_wallet [OF assms(1), of "idPair w"] by (cases "map_of (sto_wallets s) (idPair w)") auto
  then show ?thesis using p assms(3-6) by (simp add: Store_def ValidateWalletMemberCounts_def Let_def not_le)
qed

text \<open>A generation that the checks allow succeeds when the drawn key can be described and signed for.\<close>

lemma KeyGenerate_complete:
  assumes "storage_inv s" and "ParseKeyGenerate E d = Inr req" and "CheckKeyGenerate req (n_teeID n) = Inr ()"
    and "GenerateNewKey E drawn req = Inr w" and "signed_existence E n (\<lambda>x. x) w = Inr out"
    and "nonceOf s (idPair w) = None" and "length (sto_wallets s) < MaxWallets" and "length (sto_permanent s) < MaxPermanentWalletsStatus"
  shows "\<exists>s'. Store s w = (Inr (), s') \<and> KeyGenerate E n None drawn Threshold d ms sg p s = (Inr (out, []), s')"
proof -
  let ?k = "\<lparr>kp_WalletID = kg_WalletId req, kp_KeyID = kg_KeyId req\<rparr>"
  from assms(4) have id: "idPair w = ?k" and c: "length (AdminPublicKeys w) = length (cc_AdminsPublicKeys (kg_ConfigConstants req))"
    "Cosigners w = cc_Cosigners (kg_ConfigConstants req)"
    by (auto simp: GenerateNewKey_def res_simps idPair_def ParsePubKeys_def dest: rmap_length)
  obtain s' where s': "Store s w = (Inr (), s')"
    using Store_complete [OF assms(1,6-8)] assms(3) c by (auto simp: CheckKeyGenerate_def res_simps Let_def ValidateWalletMemberCounts_def)
  have "\<not> WalletExistsPermanent s ?k" using assms(6) by (simp add: WalletExistsPermanent_nonceOf id)
  then have "generate_key E None drawn req ?k s = (Inr (), s')" using assms(4) s' by (simp add: generate_key_def ctx_check_def)
  moreover have "statusOf s (idPair w) = None" using assms(6) by (simp add: nonceOf_def)
  then have "Get s' (idPair w) = Inr w"
    using ws.get_store [OF assms(1) s'] by (cases w) (simp add: with_status_def data_of_def wallet_data.defs)
  ultimately show ?thesis using assms(2,3,5) s' by (simp add: KeyGenerate_def sbind_def id)
qed

lemma has_duplicate_Nil: "has_duplicate [] xs \<longleftrightarrow> \<not> distinct xs"
  by (simp add: has_duplicate_iff)

lemma of_nat_not_greater: "n \<le> 50 \<Longrightarrow> (of_nat n :: uint64) = 0 \<longleftrightarrow> n = 0"
  by (simp add: word_unat_eq_iff unat_of_nat)

lemma mock_request_checked:
  assumes "0 < length admins" and "length admins \<le> MaxAdminsPerWalletKey" and "length cosigners \<le> MaxCosignersPerWalletKey"
    and "distinct (map (\<lambda>k. PubKeyToStruct (sk_Pub k)) admins)" and "distinct (map (\<lambda>k. PubkeyToAddress G (sk_Pub k)) cosigners)"
  shows "CheckKeyGenerate (mock_key_request G teeID wid kid admins cosigners) teeID = Inr ()"
  using assms of_nat_not_greater [of "length admins"]
  by (simp add: CheckKeyGenerate_def mock_key_request_def Let_def ValidateWalletMemberCounts_def has_duplicate_Nil Algos_def
      MaxAdminsPerWalletKey_def)

text \<open>
  C15: an honest key generation succeeds. For different administrator keys and different cosigners within the limits, a fresh identifier, a storage
  with room and a key drawn that the node can describe and sign for, \<open>CreateMockWallet\<close> returns the
  existence proof of exactly the drawn wallet, verified for this node and the test chain, and the storage has gained that wallet, with
  nonce 0, and nothing else.
\<close>

theorem honest_key_generation_succeeds:
  assumes "ecdsa_spec E" and "existence_codec E" and "node_inv E n" and "n_chainID n = DefaultTestChainID" and "storage_inv s"
    and "0 < length admins" and "length admins \<le> MaxAdminsPerWalletKey" and "length cosigners \<le> MaxCosignersPerWalletKey"
    and "distinct (map (\<lambda>k. PubKeyToStruct (sk_Pub k)) admins)" and "distinct (map (\<lambda>k. PubkeyToAddress E (sk_Pub k)) cosigners)"
    and "req = mock_key_request E (n_teeID n) wid kid admins cosigners" and "cl_pack_KeyGenerate C req = Inr enc" and "abi_KeyGenerate E enc = Inr req"
    and "GenerateNewKey E drawn req = Inr w" and "signed_existence E n (\<lambda>x. x) w = Inr out"
    and "nonceOf s (idPair w) = None" and "length (sto_wallets s) < MaxWallets" and "length (sto_permanent s) < MaxPermanentWalletsStatus"
  shows "\<exists>ep s'. CreateMockWallet E C n nilPolicy wid kid epoch admins cosigners (Inr i) drawn s = (Inr ep, s')
    \<and> KeyExistenceProof E w (n_teeID n) = Inr ep \<and> walletsOf s' = (walletsOf s)(idPair w \<mapsto> data_of w)
    \<and> nonceOf s' = (nonceOf s)(idPair w \<mapsto> 0) \<and> storage_inv s'"
proof -
  let ?d = "\<lparr>df_InstructionID = i, df_TeeID = n_teeID n, df_RewardEpochID = epoch,
           df_OPType = OPType_Hash E OP_Wallet, df_OPCommand = OPCommand_Hash E OP_KeyGenerate, df_Cosigners = [],
           df_CosignersThreshold = 0, df_OriginalMessage = enc, df_AdditionalFixedMessage = [], df_Timestamp = 0\<rparr>"
  have "CheckKeyGenerate req (n_teeID n) = Inr ()" unfolding assms(11) by (rule mock_request_checked [OF assms(6-10)])
  then obtain s' where s': "Store s w = (Inr (), s')" "KeyGenerate E n None drawn Threshold ?d [] [] nilPolicy s = (Inr (out, []), s')"
    using KeyGenerate_complete [OF assms(5) _ _ assms(14-18), where d = ?d and ms = "[]" and sg = "[]" and p = nilPolicy] assms(13) by (auto simp: ParseKeyGenerate_def)
  obtain ep where ep: "KeyExistenceProof E w (n_teeID n) = Inr ep" "ExtractKeyExistence E out (n_teeID n) 31337 = Inr ep"
    using signed_existence_verifies [OF assms(1-3,15)] assms(4) by (auto simp: DefaultTestChainID_def)
  have "CreateMockWallet E C n nilPolicy wid kid epoch admins cosigners (Inr i) drawn s = (Inr ep, s')"
    using assms(6,11,12) s'(2) ep(2) by (simp add: CreateMockWallet_def sbind_def)
  moreover have "st_Nonce (Status w) = 0" using assms(14) by (auto simp: GenerateNewKey_def res_simps)
  moreover have "nonceOf s' = (nonceOf s)(idPair w \<mapsto> st_Nonce (Status w))"
    using nonceOf_store [OF assms(5) s'(1)] assms(16) by simp
  ultimately show ?thesis using ep(1) ws.store_wallets [OF assms(5) s'(1)] Store_inv [OF assms(5) s'(1)] by auto
qed

definition kw_node :: Node where "kw_node = ex_node\<lparr>n_chainID := DefaultTestChainID\<rparr>"

definition kw_request :: KeyGenerateMsg where "kw_request = mock_key_request toyW 9 1 2 [toy_key 3] [toy_key 5]"

definition kw_wallet :: Wallet where
  "kw_wallet = \<lparr>WalletID = 1, KeyID = 2, PrivateKey = hash_bytes 11, KeyType = XRPType, SigningAlgo = XRPSignAlgo, Restored = False,
     AdminPublicKeys = [\<lparr>pk_Curve = Secp256k1_S256, pk_X = 3, pk_Y = 0\<rparr>], AdminsThreshold = 1, Cosigners = [5], CosignersThreshold = 1,
     SettingsVersion = 0, Settings = [], Status = \<lparr>st_Nonce = 0, st_PausingNonce = 0, st_StatusCode = 0\<rparr>\<rparr>"

definition kw_existence :: KeyExistence where
  "kw_existence = \<lparr>ke_TeeId = 9, ke_WalletId = 1, ke_KeyId = 2, ke_KeyType = XRPType, ke_SigningAlgo = XRPSignAlgo,
     ke_PublicKey = PubKeyToBytes (toy_pub 11), ke_Nonce = 0, ke_Restored = False,
     ke_ConfigConstants = \<lparr>cc_AdminsPublicKeys = [PubKeyToStruct \<lparr>pk_Curve = Secp256k1_S256, pk_X = 3, pk_Y = 0\<rparr>], cc_AdminsThreshold = 1,
       cc_Cosigners = [5], cc_CosignersThreshold = 1\<rparr>, ke_SettingsVersion = 0, ke_Settings = []\<rparr>"

definition toyK :: processor_env where
  "toyK = toyW\<lparr>abi_KeyGenerate := \<lambda>b. Inr kw_request,
     abi_encode_KeyExistence := \<lambda>k. if k = kw_existence then Inr [7] else Inl toy_err,
     abi_decode_KeyExistence := \<lambda>b. if b = [7] then Inr kw_existence else Inl toy_err\<rparr>"

lemma toyK_fields [simp]:
  "PubkeyToAddress toyK = (\<lambda>pk. word_of_nat (pk_X pk))" "ToECDSA toyK = toy_ToECDSA" "IsOnCurve toyK = (\<lambda>x y. y = 0)"
  "crypto_Sign toyK = toy_Sign" "TextHash toyK = (\<lambda>b. b)" "Keccak256Hash toyK = toy_hash" "abi_KeyGenerate toyK = (\<lambda>b. Inr kw_request)"
  "abi_encode_KeyExistence toyK = (\<lambda>k. if k = kw_existence then Inr [7] else Inl toy_err)"
  "abi_decode_KeyExistence toyK = (\<lambda>b. if b = [7] then Inr kw_existence else Inl toy_err)"
  "json_SignedProof toyK = (\<lambda>p. if sk_KeyExistence p = [7] then Inr (sk_Signature p) else Inl toy_err)"
  "unjson_SignedProof toyK = (\<lambda>b. Inr \<lparr>sk_KeyExistence = [7], sk_Signature = b\<rparr>)"
  "SigToPub toyK = toy_SigToPub" "ValidateSignatureValues toyK = (\<lambda>v r s h. True)"
  "abi_pack_KeyExistence toyK = (\<lambda>k. Inr [])" "payload_Hash toyK = (\<lambda>tag c h. Inr h)"
  by (simp_all add: toyK_def)

lemma kw_specs: "ecdsa_spec toyK" "existence_codec toyK" "node_inv toyK kw_node"
proof -
  show "ecdsa_spec toyK" by (rule toy_ecdsa) simp_all
  show "existence_codec toyK" by (auto simp: existence_codec_def split: if_splits)
  show "node_inv toyK kw_node" using ex_node_well_formed [of toyK] by (simp add: kw_node_def node_inv_def)
qed

lemma kw_nats: "nat_of_bytes (hash_bytes (3 :: hash)) = 3" "nat_of_bytes (hash_bytes (0 :: hash)) = 0" "nat_of_bytes (hash_bytes (11 :: hash)) = 11"
  by (simp_all add: hash_bytes_def nat_of_fill_32)

lemma kw_struct: "PubKeyToStruct (toy_pub 3) = \<lparr>px = 3, py = 0\<rparr>"
  by (simp add: PubKeyToStruct_def toy_pub_def pad32_big_Bytes BytesToHash_def nat_of_fill_32)

lemma kw_generate: "GenerateNewKey toyK (Inr (toy_key 11)) kw_request = Inr kw_wallet"
  by (simp add: GenerateNewKey_def GenerateKey_def kw_request_def mock_key_request_def ParsePubKeys_def ParsePubKey_def kw_wallet_def
      toy_key_def kw_struct kw_nats) (simp add: toy_pub_def)

lemma kw_signed: "\<exists>out. signed_existence toyK kw_node (\<lambda>x. x) kw_wallet = Inr out"
proof -
  have "KeyExistenceProof toyK kw_wallet 9 = Inr kw_existence"
    by (simp add: KeyExistenceProof_def PubKey_def kw_wallet_def toy_ToECDSA_def secp256k1_N_def kw_existence_def toy_key_def kw_nats)
  then show ?thesis
    by (simp add: signed_existence_def kw_node_def Node_ChainID_def KeyExistenceDataHash_def Node_Sign_def Sign_def toy_Sign_def DefaultTestChainID_def)
qed

theorem honest_key_generation_succeeds_witness:
  "\<exists>ep s'. CreateMockWallet toyK hx_client kw_node toy_policy 1 2 0 [toy_key 3] [toy_key 5] (Inr 8) (Inr (toy_key 11)) InitializeStorage = (Inr ep, s')
    \<and> nonceOf s' \<lparr>kp_WalletID = 1, kp_KeyID = 2\<rparr> = Some 0"
proof -
  obtain out where out: "signed_existence toyK kw_node (\<lambda>x. x) kw_wallet = Inr out" using kw_signed by blast
  have req: "kw_request = mock_key_request toyK (n_teeID kw_node) 1 2 [toy_key 3] [toy_key 5]"
    by (simp add: kw_request_def mock_key_request_def kw_node_def)
  have "\<exists>ep s'. CreateMockWallet toyK hx_client kw_node toy_policy 1 2 0 [toy_key 3] [toy_key 5] (Inr 8) (Inr (toy_key 11)) InitializeStorage = (Inr ep, s')
    \<and> KeyExistenceProof toyK kw_wallet (n_teeID kw_node) = Inr ep
    \<and> walletsOf s' = (walletsOf InitializeStorage)(idPair kw_wallet \<mapsto> data_of kw_wallet)
    \<and> nonceOf s' = (nonceOf InitializeStorage)(idPair kw_wallet \<mapsto> 0) \<and> storage_inv s'"
    by (rule honest_key_generation_succeeds [OF kw_specs _ InitializeStorage_inv _ _ _ _ _ req _ _ kw_generate out])
      (simp_all add: kw_node_def hx_client_def InitializeStorage_def nonceOf_def statusOf_def MaxWallets_def MaxPermanentWalletsStatus_def
        MaxAdminsPerWalletKey_def MaxCosignersPerWalletKey_def)
  then show ?thesis by (auto simp: idPair_def kw_wallet_def)
qed

section \<open>Policy updates\<close>

lemma public_keys_loop_complete:
  assumes "list_all2 (\<lambda>k v. pub_fits k \<and> IsOnCurve G (int (pk_X k)) (int (pk_Y k)) \<and> PubkeyToAddress G (k\<lparr>pk_Curve := Secp256k1_S256\<rparr>) = v) keys vs"
  shows "\<exists>m'. public_keys_loop G (map PubKeyToStruct keys) vs m = Inr m'"
  using assms by (induction keys vs arbitrary: m rule: list_all2_induct) (simp_all add: ParsePubKey_roundtrip)

text \<open>
  C16: an honest policy update is accepted. The policy of the next epoch, signed with \<open>BuildMultiSignedPolicy\<close> for this node's chain by voters of the active
  policy with more than the threshold weight, together with the public keys of its own voters, is
  installed: it becomes the active policy, and the storage stays well-formed.
\<close>

theorem honest_policy_update_accepted:
  assumes "ecdsa_spec P" and "policy_inv s" and "ps_active s = Some p" and "n_chainID n \<noteq> 0"
    and "BuildMultiSignedPolicy P (n_chainID n) policyBytes keys = Inr sp"
    and "FromRawBytes P policyBytes = Inr q" and "sp_RewardEpochID q = sp_RewardEpochID p + 1"
    and signers: "signers = map (\<lambda>k. PubkeyToAddress P (sk_Pub k)) keys" and "set signers \<subseteq> set (voters p)"
    and "sp_Threshold p < WeightOfSigners signers p"
    and "list_all2 (\<lambda>k v. pub_fits k \<and> IsOnCurve P (int (pk_X k)) (int (pk_Y k)) \<and> PubkeyToAddress P k = v) pubs (voters q)"
    and "unjson_UpdatePolicyRequest P (di_Message i) = Inr \<lparr>up_NewPolicy = sp, up_PublicKeys = map PubKeyToStruct pubs\<rparr>"
  shows "\<exists>m. processPolicyPublicKeys P (map PubKeyToStruct pubs) q = Inr m \<and> UpdatePolicy P n None i s = (Inr [], advance_policy s q m)
    \<and> ps_active (advance_policy s q m) = Some q \<and> policy_inv (advance_policy s q m)"
proof -
  let ?h = "hash_bytes (ChainBoundHash P (n_chainID n) policyBytes)"
  obtain sigs where sp: "sp = \<lparr>ms_PolicyBytes = policyBytes, ms_Signatures = sigs\<rparr>" and sigs: "list_all2 (\<lambda>k g. Sign P ?h k = Inr g) keys sigs"
    using assms(5) by (auto simp: BuildMultiSignedPolicy_def res_simps Let_def rmap_eq_Inr)
  have "list_all2 (\<lambda>g a. CheckSignature P ?h g (vs_Voters (sp_Voters p)) = Inr a) sigs signers"
    using sigs assms(9) unfolding signers
  proof (induction keys sigs rule: list_all2_induct)
    case (Cons k keys g sigs)
    then show ?case
      using SignatureToSignersAddress_Sign [OF assms(1) Cons(1)]
      by (auto simp: CheckSignature_def voters_def split: option.splits)
  qed simp
  then have "processUpdatePolicyRequest P n s sp = Inr q"
    using assms(3,4,6,7,10) by (simp add: processUpdatePolicyRequest_def ActiveSigningPolicy_def Node_ChainID_def sp Let_def not_le flip: rmap_eq_Inr)
  moreover have "PubkeyToAddress P (k\<lparr>pk_Curve := c\<rparr>) = PubkeyToAddress P k" for k c using assms(1) by (simp add: ecdsa_spec_def)
  then obtain m where m: "processPolicyPublicKeys P (map PubKeyToStruct pubs) q = Inr m"
    using public_keys_loop_complete [of P pubs "voters q" "[]"] assms(11) by (auto simp: processPolicyPublicKeys_def dest: list_all2_lengthD)
  moreover have z: "ps_initialPolicyHash s \<noteq> 0" using policy_invD(1) [OF assms(2,3)] .
  ultimately have "UpdatePolicy P n None i s = (Inr [], advance_policy s q m)"
    using assms(12) by (simp add: UpdatePolicy_def ctx_err_def sbind_def SetActiveSigningPolicy_def SetActiveSigningPolicyPublicKeys_def advance_policy_eq)
  moreover have "ps_active (advance_policy s q m) = Some q" using z by (simp add: advance_policy_eq)
  moreover have "policy_inv (advance_policy s q m)"
    by (rule advance_policy_inv [OF assms(2,3,7) processPolicyPublicKeys_cover(1) [OF m]])
  ultimately show ?thesis using m by blast
qed

lemma hx_multisigned: "BuildMultiSignedPolicy toyP 1 [2] [toy_key 4] = Inr \<lparr>ms_PolicyBytes = [2], ms_Signatures = [px_signature]\<rparr>"
  and hx_signP: "crypto_Sign toyP = toy_Sign"
proof -
  show "crypto_Sign toyP = toy_Sign" by (simp add: toyP_def)
  then show "BuildMultiSignedPolicy toyP 1 [2] [toy_key 4] = Inr \<lparr>ms_PolicyBytes = [2], ms_Signatures = [px_signature]\<rparr>"
    by (simp add: BuildMultiSignedPolicy_def Sign_def toy_Sign_def px_signature_def toy_key_def toy_pub_def)
qed

theorem honest_policy_update_accepted_witness:
  "\<exists>s'. UpdatePolicy toyP px_node None px_instruction px_storage1 = (Inr [], s') \<and> ps_active s' = Some px_next"
proof -
  have "policy_inv px_storage1"
    by (auto simp: policy_inv_def px_storage1_def keys_cover_def px_keys_def epochs_from_def intro!: exI [of _ 0])
  moreover have "ecdsa_spec toyP" by (rule toy_ecdsa) (simp_all add: hx_signP)
  moreover have "PubKeyToStruct (toy_pub 4) = \<lparr>px = 4, py = 0\<rparr>"
    by (simp add: PubKeyToStruct_def toy_pub_def pad32_big_Bytes BytesToHash_def nat_of_fill_32)
  moreover have "1 < WeightOfSigners [4] toy_policy" by (simp add: WeightOfSigners_def)
  ultimately show ?thesis
    using honest_policy_update_accepted [of toyP px_storage1 toy_policy px_node "[2]" "[toy_key 4]" _ px_next "[4]" "[toy_pub 4]" px_instruction]
      hx_multisigned
    by (auto simp: px_storage1_def [THEN arg_cong, of ps_active] px_node_def toy_key_def toy_pub_def pub_fits_def)
qed

section \<open>Proofs of the data connector\<close>

text \<open>Voter indices are positions in the voter list.\<close>

definition voters_indexed :: "SigningPolicy \<Rightarrow> bool" where
  "voters_indexed p \<longleftrightarrow> policy_ok p \<and> (\<forall>i < length (voters p). vs_VoterIndex (sp_Voters p) (voters p ! i) = int i)"

lemma voters_indexedD:
  assumes "voters_indexed p" and "vs_VoterIndex (sp_Voters p) a \<noteq> -1"
  shows "0 \<le> vs_VoterIndex (sp_Voters p) a \<and> nat (vs_VoterIndex (sp_Voters p) a) < length (voters p)
    \<and> voters p ! nat (vs_VoterIndex (sp_Voters p) a) = a"
proof -
  have "a \<in> set (voters p)" using assms by (auto simp: voters_indexed_def policy_ok_def)
  then obtain i where "i < length (voters p)" "voters p ! i = a" by (auto simp: in_set_conv_nth)
  then show ?thesis using assms(1) by (auto simp: voters_indexed_def)
qed

text \<open>
  C17: the blob of an FDC proof parses and verifies. For a policy in the encoding of the relay contract and pairwise different signers, the
  data-provider signatures of a successful proof, as the node lays them out for the relay contract, are accepted by the
  fixture's parser and verifier: the sizes add up, the count is the number of voters among the signers, the
  indices ascend strictly, and every signature recovers to the voter at its index.
\<close>

theorem proof_blob_verifies:
  assumes "encode_signatures_spec S" and "length (relayFunctionSelector S) = 4" and "voters_indexed p"
    and "encodeSigningPolicy (Some ev) = Inr (RawBytes S p)" and "re_Voters ev = voters p" and "distinct signers"
    and "Prove S n tag d ms signers p s = (Inr (out, st), s')"
  shows "\<exists>req mh hdr resp. DecodeRequest S (df_OriginalMessage d) = Inr req
    \<and> HashMessage S (n_chainID n) req (df_AdditionalFixedMessage d) (df_Cosigners d) (df_CosignersThreshold d) (df_Timestamp d) = Inr (mh, hdr)
    \<and> json_ProveResponse S resp = Inr out
    \<and> VerifyEncodedDataProviderSignatures S (n_chainID n) (pv_DataProviderSignatures resp) mh (voters p)
        (length (filter (\<lambda>a. a \<in> set (voters p)) signers)) = Inr ()"
proof -
  let ?V = "sp_Voters p"
  obtain req mh hdr dps coss enc sig where r: "DecodeRequest S (df_OriginalMessage d) = Inr req"
    "HashMessage S (n_chainID n) req (df_AdditionalFixedMessage d) (df_Cosigners d) (df_CosignersThreshold d) (df_Timestamp d) = Inr (mh, hdr)"
    "checkResponseSignatures S (ChainBoundRelayPrefixedHash S (n_chainID n) mh) ms signers ?V (df_Cosigners d) = Inr (dps, coss)"
    "prepareFinalizationTxInput S (RawBytes S p) (hash_bytes mh) dps = Inr enc" "Sign S (hash_bytes mh) (n_privateKey n) = Inr sig"
    "json_ProveResponse S \<lparr>pv_ResponseHeader = hdr, pv_RequestBody = fr_RequestBody req, pv_ResponseBody = df_AdditionalFixedMessage d,
         pv_TEESignature = sig, pv_CosignerSignatures = coss, pv_DataProviderSignatures = enc\<rparr> = Inr out" and "s' = s"
    by (rule Prove_Inr [OF assms(7)])
  note c = checkResponseSignatures_Inr [OF r(3)]
  have voter: "vs_VoterIndex ?V a \<noteq> -1 \<longleftrightarrow> a \<in> set (voters p)" for a using assms(3) by (simp add: voters_indexed_def policy_ok_def)
  have "\<forall>x \<in> set dps. signed_by_voter S (ChainBoundRelayPrefixedHash S (n_chainID n) mh) (voters p) x"
  proof
    fix x assume "x \<in> set dps"
    with c(3) obtain m a where x: "x = \<lparr>ix_Index = vs_VoterIndex ?V a, ix_Signature = m\<rparr>" "(m, a) \<in> set (zip ms signers)"
      "vs_VoterIndex ?V a \<noteq> -1" by auto
    have m: "SignatureToSignersAddress S (hash_bytes (ChainBoundRelayPrefixedHash S (n_chainID n) mh)) m = Inr a"
      using c(1) x(2) by (auto simp: list_all2_iff)
    then have "length m = 65" by (auto simp: SignatureToSignersAddress_def CheckCanonicalSignature_def res_simps split: if_splits)
    then show "signed_by_voter S (ChainBoundRelayPrefixedHash S (n_chainID n) mh) (voters p) x"
      using m voters_indexedD [OF assms(3) x(3)] by (simp add: signed_by_voter_def x(1))
  qed
  moreover have "inj_on (vs_VoterIndex ?V) {a. vs_VoterIndex ?V a \<noteq> -1}"
    by (rule inj_onI) (metis mem_Collect_eq voters_indexedD [OF assms(3)])
  then have "distinct (map ix_Index dps)"
    unfolding c(6) using assms(6) by (auto simp: distinct_map intro: inj_on_subset)
  then have "sorted_wrt (<) (map ix_Index dps)" using c(2) by (simp add: strict_sorted_iff)
  ultimately have "VerifyEncodedDataProviderSignatures S (n_chainID n) enc mh (voters p) (length dps) = Inr ()"
    using finalization_input_verifies [OF assms(1,2,4), of "voters p" dps "n_chainID n" mh enc] assms(5) r(4) by simp
  then show ?thesis using r(1,2,6) c(5) by (auto simp: voter intro!: exI)
qed

definition lx_event :: RelaySigningPolicyInitialized where
  "lx_event = \<lparr>re_RewardEpochId = 0, re_StartVotingRoundId = 5, re_Threshold = 1, re_Seed = 0, re_Voters = [4], re_Weights = [2],
     re_SigningPolicyBytes = [], re_Timestamp = 0\<rparr>"

definition toyL :: system_env where
  "toyL = toyFdc\<lparr>EncodeSignatures := \<lambda>s. Inr (fill_bytes 2 (length s) @ concat (map encode_signature s)),
     RawBytes := \<lambda>p. case encodeSigningPolicy (Some lx_event) of Inr b \<Rightarrow> b | Inl e \<Rightarrow> [], relayFunctionSelector := [1, 2, 3, 4]\<rparr>"

lemma toyL_fields [simp]:
  "PubkeyToAddress toyL = (\<lambda>pk. word_of_nat (pk_X pk))" "TextHash toyL = (\<lambda>b. b)" "SigToPub toyL = toy_SigToPub" "crypto_Sign toyL = toy_Sign"
  "ValidateSignatureValues toyL = (\<lambda>v r s h. True)" "Keccak256Hash toyL = toy_hash" "payload_Hash toyL = (\<lambda>tag c h. Inr h)"
  "abi_Fdc2Request toyL = (\<lambda>b. Inr fx_request)" "abi_encode_ResponseHeader toyL = (\<lambda>x. Inr [])" "abi_pack_bytes32s toyL = (\<lambda>x. Inr [])"
  "json_ProveResponse toyL = (\<lambda>x. Inr (pv_TEESignature x))" "relayFunctionSelector toyL = [1, 2, 3, 4]"
  "EncodeSignatures toyL = (\<lambda>s. Inr (fill_bytes 2 (length s) @ concat (map encode_signature s)))"
  "RawBytes toyL p = (case encodeSigningPolicy (Some lx_event) of Inr b \<Rightarrow> b | Inl e \<Rightarrow> [])"
  by (simp_all add: toyL_def)

lemma lx_policy: "encodeSigningPolicy (Some lx_event) = Inr (RawBytes toyL p)"
  by (simp add: encodeSigningPolicy_def lx_event_def big_Int64_def big_Bytes.simps Let_def)

lemma lx_prove: "\<exists>out st. Prove toyL ex_node Threshold ex_data [fx_signature] [4] toy_policy () = (Inr (out, st), ())"
proof -
  have h: "fx_hash = ChainBoundRelayPrefixedHash toyL 1 (toy_hash [])" by (simp add: fx_hash_def ChainBoundRelayPrefixedHash_def)
  have "SignatureToSignersAddress toyL (hash_bytes fx_hash) fx_signature = Inr 4"
    using toy_signer [of toyL 4 "hash_bytes fx_hash"] by (simp add: fx_signature_def)
  then have v: "VerifySignature toyL (hash_bytes fx_hash) fx_signature 4 = Inr ()" by (simp add: VerifySignature_iff)
  have "in_ChainID (Node_Info toyL ex_node) = 1" by (simp add: Node_Info_def Let_def)
  then show ?thesis
    using v by (simp add: Prove_def DecodeRequest_def HashMessage_def EncodeResponseHeader_def checkResponseSignatures_def validateSignatureInputs_def
        prepareFinalizationTxInput_def Node_Sign_def Sign_def toy_Sign_def Let_def h [symmetric])
qed

theorem proof_blob_verifies_witness:
  "\<exists>mh blob. VerifyEncodedDataProviderSignatures toyL 1 blob mh [4] 1 = Inr ()"
proof -
  obtain out st where p: "Prove toyL ex_node Threshold ex_data [fx_signature] [4] toy_policy () = (Inr (out, st), ())" using lx_prove by blast
  have "voters_indexed toy_policy" using ix_policy_ok by (simp add: voters_indexed_def) (simp add: toy_policy_def)
  moreover have "encode_signatures_spec toyL" by (simp add: encode_signatures_spec_def)
  moreover have "re_Voters lx_event = voters toy_policy" by (simp add: lx_event_def)
  ultimately show ?thesis
    using proof_blob_verifies [OF _ _ _ lx_policy _ _ p] by auto
qed

end
