(* ===== verification/Props_Honest.thy ===== *)
theory Props_Honest
  imports Props_Client Props_Router
begin

text \<open>
  An honest instruction, end to end: from the builder of the client through the queue, the router, the checks and the handler to
  the signed response that the proxy receives.
\<close>

text \<open>What a wallet handler's outcome becomes: the result and the state.\<close>

definition wallet_outcome ::
  "'a processor_env_scheme \<Rightarrow> Action \<Rightarrow> DataFixed \<Rightarrow> address list \<Rightarrow> (bytes \<times> bytes) res \<times> Storage \<Rightarrow> system \<Rightarrow> ActionResult \<times> system" where
  "wallet_outcome P a d signers out s = (case out of
     (Inl e, ws) \<Rightarrow> (Invalid P a e, s\<lparr>sy_wallets := ws\<rparr>)
   | (Inr (m, st), ws) \<Rightarrow> (finish_instruction P (sy_node s) True a d signers m st, s\<lparr>sy_wallets := ws\<rparr>))"

lemma wallet_route_found:
  assumes "ops_distinct S" and "NewPMWRouter S B I = Inr r" and "(ot, oc, p) \<in> set (wallet_routes S B I)"
  shows "map_of (rt_routs r) \<lparr>id_OPType = OPType_Hash S ot, id_OPCommand = OPCommand_Hash S oc\<rparr> = Some p"
proof -
  obtain r' where "NewPMWRouter S B I = Inr r'" "\<forall>t c p. (t, c, p) \<in> set (direct_routes S B I @ wallet_routes S B I @ pmw_routes S)
      \<longrightarrow> map_of (rt_routs r') \<lparr>id_OPType = OPType_Hash S t, id_OPCommand = OPCommand_Hash S c\<rparr> = Some p"
    using routers_built(1) [OF assms(1), of B I] by blast
  then show ?thesis using assms(2,3) by auto
qed

lemma honest_process:
  assumes "ecdsa_spec S" and "policy_ok p" and "ops_distinct S" and "NewPMWRouter S B I = Inr r"
    and "(ot, oc, wallet_processor S f) \<in> set (wallet_routes S B I)"
    and "honest_action S C (sy_node s) (sy_policies s) ot oc keys tag i d msgs signers p a"
    and "unjson_OpID S (ad_Message (ac_Data a)) = Inr \<lparr>id_OPType = OPType_Hash S ot, id_OPCommand = OPCommand_Hash S oc\<rparr>"
  shows "\<exists>a'. CheckAndAdapt a = (Inr (), a') \<and> ac_Data a' = ac_Data a \<and> ad_ID (ac_Data a) = i
    \<and> process S r a s = wallet_outcome S a' d signers (f s tag d msgs signers p (sy_wallets s)) s"
proof (rule honest_action_runs [OF assms(1,2,6)])
  fix a'
  assume a': "CheckAndAdapt a = (Inr (), a')" "ac_Data a' = ac_Data a" "ad_ID (ac_Data a) = i"
    and run: "\<And>f imm (s' :: Storage). Process S f (sy_node s) (sy_policies s) imm a' s' = (case f tag d msgs signers p s' of
        (Inl e, s') \<Rightarrow> (Invalid S a' e, s')
      | (Inr (m, st), s') \<Rightarrow> (finish_instruction S (sy_node s) imm a' d signers m st, s'))"
  have "process S r a s = wallet_processor S f a' s"
    using a'(1,2) assms(7) wallet_route_found [OF assms(3-5)] by (simp add: process_def GetOpID_def)
  also have "\<dots> = wallet_outcome S a' d signers (f s tag d msgs signers p (sy_wallets s)) s"
    unfolding wallet_processor_def run wallet_outcome_def by (simp split: prod.split sum.split)
  finally show ?thesis using a' by blast
qed

text \<open>
  C10: an honest wallet instruction is served. When a worker of the wallet service fetches an honest client's action for one of the five wallet operations and the
  processing returns in time and nothing panics, the handler of that operation runs once on the wallets, with the client's message, messages and signers; its
  wallets are the new wallets, nothing else of the state changes, and the worker goes on
  after posting the handler's outcome, signed.
\<close>

theorem honest_wallet_instruction_served:
  assumes "ecdsa_spec S" and "policy_ok p" and "ops_distinct S" and "NewPMWRouter S B I = Inr r"
    and "(ot, oc, wallet_processor S f) \<in> set (wallet_routes S B I)"
    and "honest_action S C (sy_node s) (sy_policies s) ot oc keys tag i d msgs signers p a" and "i \<noteq> 0"
    and "unjson_OpID S (ad_Message (ac_Data a)) = Inr \<lparr>id_OPType = OPType_Hash S ot, id_OPCommand = OPCommand_Hash S oc\<rparr>"
    and "url \<noteq> []" and "fetchActionWithRetry X (url @ ''/queue/'' @ q) = Inr a"
  shows "\<exists>a'. ac_Data a' = ac_Data a \<and> serveQueueIteration S X sy_node url postURL q r Returned no_panics s
    = (case wallet_outcome S a' d signers (f s tag d msgs signers p (sy_wallets s)) s of
         (result, s') \<Rightarrow> (Some 0, signAndPost S X (sy_node s) postURL result, s'))"
proof -
  obtain a' where a': "ac_Data a' = ac_Data a" "ad_ID (ac_Data a) = i"
    "process S r a s = wallet_outcome S a' d signers (f s tag d msgs signers p (sy_wallets s)) s"
    using honest_process [OF assms(1-6,8)] by blast
  moreover have "sy_node (snd (wallet_outcome S a' d signers out s)) = sy_node s" for out
    by (simp add: wallet_outcome_def split: prod.split sum.split)
  ultimately show ?thesis
    using assms(7,9,10) by (intro exI [of _ a']) (simp add: serveQueueIteration_def iteration_body_def answering_def no_panics_def processWithTimeout_def split_def)
qed

text \<open>The example: the deletion of a key, signed by cosigner 6 and voter 4, fetched after one time-out.\<close>

lemma ex_wallet_op: "OPType_Hash toy OP_Wallet = 1"
  by (simp add: toy_defs)

lemma ex_honest:
  obtains a where "honest_action toyS hx_client ex_node ix_policies OP_Wallet OP_KeyDelete [toy_key 6, toy_key 4] Threshold 3 ix_data [[], []] [6, 4] toy_policy a"
    "ad_ID (ac_Data a) = 3"
proof -
  let ?build = "BuildMockInstructionAction toyS hx_client OP_Wallet OP_KeyDelete [] [toy_key 6, toy_key 4] (n_chainID ex_node) (n_teeID ex_node)
    0 Raw_nil [] [6] 1 Threshold 0 (Inr 3) (\<lambda>i. 0)"
  obtain a where a: "?build = Inr a"
    by (simp add: BuildMockInstructionAction_def additional_fixed_message_def client_sign_def Sign_def toy_Sign_def hx_client_def Let_def)
  then have msg: "ad_Message (ac_Data a) = []" "ad_ID (ac_Data a) = 3"
    by (auto simp: BuildMockInstructionAction_def res_simps Let_def hx_client_def)
  have d: "ix_data = mock_DataFixed toyS OP_Wallet OP_KeyDelete [] (n_teeID ex_node) 0 [] [6] 1 0 3"
    by (simp add: mock_DataFixed_def ix_data_def ex_wallet_op)
  have due: "instruction_due toyS ix_policies ix_data [[], []] [6, 4] toy_policy"
    by (simp add: instruction_due_def ix_policies_def policiesOf_def dataProvidersThreshold_def policyThreshold_def WeightOfSigners_def voters_def
        CheckSize_def constraints_def noAdditional_def CheckSizeVariableMessages_def Let_def toy_policy_def) (simp add: ix_data_def)
  have "honest_action toyS hx_client ex_node ix_policies OP_Wallet OP_KeyDelete [toy_key 6, toy_key 4] Threshold 3 ix_data [[], []] [6, 4] toy_policy a"
    unfolding honest_action_def
    by (rule exI [of _ "[]"], rule exI [of _ 0], rule exI [of _ Raw_nil], rule exI [of _ "[]"], rule exI [of _ "[]"], rule exI [of _ "[6]"],
        rule exI [of _ 1], rule exI [of _ 0], rule exI [of _ "\<lambda>i. 0"])
      (use a d due in \<open>simp_all add: msg MaxInstructionSize_def MaxVariableMessages_def additional_fixed_message_def toy_key_def toy_pub_def\<close>)
  then show ?thesis using that msg(2) by blast
qed

theorem honest_wallet_instruction_served_witness:
  "\<exists>(a :: Action) r X posts. ad_ID (ac_Data a) = 3 \<and> NewPMWRouter toyS bigmod_ref sx_inputs = Inr r
    \<and> serveQueueIteration toyS X sy_node ''u'' ''u'' Direct r Returned no_panics sx_system = (Some 0, posts, sx_system\<lparr>sy_wallets := ex_storage2\<rparr>)"
proof -
  obtain a where a: "honest_action toyS hx_client ex_node ix_policies OP_Wallet OP_KeyDelete [toy_key 6, toy_key 4] Threshold 3 ix_data [[], []] [6, 4] toy_policy a"
    "ad_ID (ac_Data a) = 3" by (rule ex_honest)
  obtain r where r: "NewPMWRouter toyS bigmod_ref sx_inputs = Inr r" using routers_built(1) [OF toyS_ops] by blast
  let ?X = "qx_proxy\<lparr>px_unjson_Action := \<lambda>b. Inr a\<rparr>"
  have "FetchAction ?X 0 url = Inl (NetTimeout toy_err)" "FetchAction ?X (Suc 0) url = Inr a" for url
    by (simp_all add: FetchAction_def qx_proxy_def)
  then have fetched: "fetchActionWithRetry ?X url = Inr a" for url
    unfolding fetchActionWithRetry_def QueueFetchRetries_def by (subst fetch_loop.simps, simp, subst fetch_loop.simps, simp)
  have route: "(OP_Wallet, OP_KeyDelete, wallet_processor toyS (\<lambda>s. KeyDelete toyS (sy_node s) (ai_ctx sx_inputs))) \<in> set (wallet_routes toyS bigmod_ref sx_inputs)"
    by (simp add: wallet_routes_def)
  have three: "(3 :: hash) \<noteq> 0" by simp
  have "\<exists>a'. ac_Data a' = ac_Data a \<and> serveQueueIteration toyS ?X sy_node ''u'' ''u'' Direct r Returned no_panics sx_system
    = (case wallet_outcome toyS a' ix_data [6, 4] (KeyDelete toyS (sy_node sx_system) (ai_ctx sx_inputs) Threshold ix_data [[], []] [6, 4] toy_policy
        (sy_wallets sx_system)) sx_system of (result, s') \<Rightarrow> (Some 0, signAndPost toyS ?X (sy_node sx_system) ''u'' result, s'))"
    by (rule honest_wallet_instruction_served [OF toyS_specs ix_policy_ok toyS_ops r route _ three])
      (use a fetched ex_wallet_op in \<open>simp_all add: sx_system_def\<close>)
  moreover have "KeyDelete toyS (sy_node sx_system) (ai_ctx sx_inputs) Threshold ix_data [[], []] [6, 4] toy_policy (sy_wallets sx_system)
      = (Inr ([1], []), ex_storage2)"
    using sx_delete by (simp add: sx_system_def sx_inputs_def)
  ultimately obtain posts where
    "serveQueueIteration toyS ?X sy_node ''u'' ''u'' Direct r Returned no_panics sx_system = (Some 0, posts, sx_system\<lparr>sy_wallets := ex_storage2\<rparr>)"
    by (auto simp: wallet_outcome_def)
  then show ?thesis using a(2) r by blast
qed

end
