(* ===== verification/Spec2Isabelle.thy ===== *)
theory Spec2Isabelle
  imports Props_Sharing Props_Wallets Props_Direct Props_Backup Props_Policy Props_Instructions Props_Node Props_Vrf Props_System Props_Services
    Props_Replay Props_Router Props_Concurrency Props_Http Props_Extension Props_Honest
begin

text \<open>
  A verification development of the Flare TEE node (\<^verbatim>\<open>src/\<close>): a program that runs in a trusted
  execution environment, keeps wallet keys, and acts on instructions that data providers
  and cosigners have signed.

  \<^bold>\<open>The program and its parts.\<close> Queue workers (\<^verbatim>\<open>src/internal/router\<close>) fetch actions from an untrusted proxy, route each
  by its operation to a processor, sign the result with the node's key and post it back. Direct
  actions (\<^verbatim>\<open>src/internal/processors/direct\<close>) read the node's state, install signing policies or install
  the machine paths; instructions (\<^verbatim>\<open>src/internal/processors/instructions\<close>) need the signatures of a signing
  policy's voters and of the cosigners; they generate, delete, back up and restore keys, sign payments, make FDC
  proofs, prove randomness and attest the node. The state is the node (\<^verbatim>\<open>src/internal/node\<close>), the policy
  storage (\<^verbatim>\<open>src/internal/policy\<close>), the wallet storage (\<^verbatim>\<open>src/internal/wallets\<close>), the running payment
  schedules and the proxy address, which a configuration server (\<^verbatim>\<open>src/internal/settings\<close>) sets
  together with the one-shot configuration of the node. A second server (\<^verbatim>\<open>src/internal/extension/server\<close>)
  signs and decrypts for an extension that runs beside the node.

  \<^bold>\<open>Shared theories.\<close>
  \<^item> \<open>Prelude\<close>: machine types (\<open>hash\<close> is a 256-bit and \<open>address\<close> a 160-bit word, \<open>uint8\<close> to \<open>uint64\<close> are words that
    wrap), error values, \<open>rbind\<close> and \<open>stry\<close> for the early returns of Go (without and with a state), big-endian encodings.
  \<^item> \<open>Lagrange\<close>, \<open>Secp_Units\<close>: interpolation at zero in a field, and that differences of share indices are
    invertible modulo the group order (by computation, without assuming that the order is prime).
  \<^item> \<open>External\<close>, \<open>Flare_Common\<close>, \<open>System_Env\<close>: the code outside the repository, as the fields of parameter records
    (go-ethereum's hash, curve, ECDSA and ECIES functions, \<open>bigmod\<close>, the ABI and JSON codecs and the XRPL and Safe
    libraries of go-flare-common), and the predicates that state their documented behaviour (\<open>bigmod_spec\<close>,
    \<open>ecdsa_spec\<close>, \<open>ecies_spec\<close>, \<open>toecdsa_spec\<close>, the codec laws).
  \<^item> \<open>Go_Strings\<close>, \<open>Hex_Strings\<close>: the functions of Go's standard library on strings that the code calls.
  \<^item> \<open>Toy_Env\<close>: a concrete instance of the parameters on which the witnesses evaluate the model.

  \<^bold>\<open>Components.\<close> Each theory names its source files in its first block; the definitions keep the names of the
  functions, with a prefix where Go distinguishes them by package or receiver.
  \<^item> \<open>Utils\<close> (\<^verbatim>\<open>pkg/utils\<close>, \<^verbatim>\<open>pkg/types/common.go\<close>), \<open>Wallets\<close> (\<^verbatim>\<open>pkg/wallets\<close>), \<open>Vrf\<close> (\<^verbatim>\<open>pkg/wallets/vrf\<close>).
  \<^item> \<open>Field\<close>, \<open>Shamir\<close>, \<open>Backup\<close>, \<open>Backup_Recover\<close> (\<^verbatim>\<open>pkg/wallets/backup\<close>, \<^verbatim>\<open>internal/wallets/backup\<close>): the two prime
    fields, secret sharing, backups and their recovery.
  \<^item> \<open>Wallet_Storage\<close> (\<^verbatim>\<open>internal/wallets/storage.go\<close>): maps of wallets and permanent records whose status pointers are
    references into an explicit heap, since a nonce update through one map is seen through the other. The locale
    \<open>wallet_store\<close> is what the instruction handlers rely on. \<open>Wallet_Spec\<close>: the specification with two plain maps.
  \<^item> \<open>Policy_Storage\<close> (\<^verbatim>\<open>internal/policy\<close>) with the locale \<open>policy_store\<close>; \<open>Node\<close> (\<^verbatim>\<open>internal/node\<close>, \<^verbatim>\<open>internal/extension\<close>)
    with the locales \<open>one_shot\<close> (a value written once) and \<open>ratchet\<close> (a level that never falls), each interpreted
    for several parts of the state.
  \<^item> \<open>Processor_Utils\<close> (\<^verbatim>\<open>pkg/types/actions.go\<close>, \<^verbatim>\<open>pkg/processorutils\<close>, \<^verbatim>\<open>pkg/constraints\<close>), \<open>Instructions\<close>: the shared checks and
    the pipeline from an action to a handler.
  \<^item> \<open>Wallet_Processor\<close>, \<open>Policy_Processor\<close>, \<open>Get_Processor\<close>, \<open>Tee_Info\<close>, \<open>Fdc\<close>, \<open>Vrf_Processor\<close>, \<open>Sign_Processor\<close>,
    \<open>Direct_Processor\<close>: the handlers, whole, as functions from a state to a result and a state.
  \<^item> \<open>Router\<close>, \<open>Settings_Config\<close>, \<open>Sign_Server\<close>: the worker, the configuration and the extension server.
  \<^item> \<open>System\<close>, \<open>System_Steps\<close>: the routing tables, start-up, and the steps of the whole, in which the processing of an action is one
    function of the state: an iteration of a worker, a request to the configuration server, the end of a payment schedule.
  \<^item> \<open>Sections\<close>, \<open>Threads\<close>, \<open>Thread_Runs\<close>, \<open>Concurrent_System\<close>: the same processing as the sequence of the sections in which
    the code holds a lock, each with the state as it is then. \<open>Sections\<close> has the threads, their interleaving with each other and with
    moves from outside, and the locale \<open>guarantees\<close>: an invariant and an effect that every section keeps hold of every interleaved run. \<open>Threads\<close>
    models the processors, \<open>Thread_Runs\<close> shows that a thread that is not interrupted computes the function of \<open>System\<close>,
    and \<open>Concurrent_System\<close> interprets the locale for the node.
  \<^item> \<open>Http_Servers\<close>: the routes of the two servers, the dispatch of \<open>http.ServeMux\<close> over them, the wrappers, and the two programs
    (\<^verbatim>\<open>src/cmd\<close>, \<^verbatim>\<open>src/pkg/server\<close>). \<open>Example_Extension\<close>: the extension that ships with the node
    (\<^verbatim>\<open>src/internal/testutils/extension.go\<close>), in place of the parameter that stands for any extension.
  \<^item> \<open>Worker\<close>: the endless loop of a queue worker, a function from the stream of what its iterations meet to the stream of what
    they do. \<open>Test_Client\<close>: the client side of the protocols (\<^verbatim>\<open>src/internal/testutils/mocks.go\<close>, \<^verbatim>\<open>utils.go\<close>,
    \<^verbatim>\<open>setup.go\<close>): how an action is built and signed, how a policy is laid out in bytes, how the signatures of a proof
    are parsed and verified. \<open>Client_Facts\<close>: what those layouts and fixtures give.

  \<^bold>\<open>What is shown.\<close>
  \<^item> \<open>Props_Sharing\<close>, \<open>Props_Backup\<close>, \<open>Props_Direct\<close>: shares combine to the secret and duplicates are refused, normalised weights
    are exact, enough splits recover the wallet, and a direct transfer gives the same wallet.
  \<^item> \<open>Props_Wallets\<close>, \<open>Props_Replay\<close>: the storage refines two maps; over all runs of wallet instructions its invariant holds, nonces never
    decrease, and no generation, deletion or restore is carried out twice.
  \<^item> \<open>Props_Policy\<close>, \<open>Props_Node\<close>: policies advance by one epoch with a quorum, configuration is written once, machine
    paths need the governance.
  \<^item> \<open>Props_Instructions\<close>: an instruction has an effect only for this node, a recent policy, distinct signers and both
    thresholds; the threshold arithmetic is exact; cosigner lists are compared as sets.
  \<^item> \<open>Props_System\<close>: the invariant of all runs of the composed system, the authorisation behind every change of a key through
    a router, that every operation reaches its processor, what is sent to an extension and what never is, and that the signed hash of a direct
    action's result is no hash of an instruction's result.
  \<^item> \<open>Props_Concurrency\<close>: for any number of actions in any interleaving, with configuration requests and ending schedules between the sections, the invariant holds, every change of a key or a schedule
    belongs to an instruction that passed every check on a state of the run, and machine paths change only for what the governance
    approved on a state of the run.
  \<^item> \<open>Props_Client\<close>, \<open>Props_Honest\<close>: the node does what an honest client asks for. An instruction built and signed as the client does it passes
    every check and its handler runs on its signers and messages; a key is generated, a policy update installed, the signatures
    that a proof lays out for the relay contract are accepted by the client's verifier; and from the queue to the posted response a wallet
    instruction has the effect and the answer of its handler.
  \<^item> \<open>Props_Router\<close>, \<open>Props_Http\<close>, \<open>Props_Extension\<close>: a worker serves for ever: it answers every action that it takes with the result of its processing, also after a panic
    or a time-out, and every panic of an iteration is recovered and reported; a configuration request sets one
    setting, an extension's request reaches the handler of its route, both programs start, and an action forwarded to
    the example extension comes back as a signed result.
  \<^item> \<open>Props_Services\<close>, \<open>Props_Vrf\<close>: FDC proofs, key proofs, attestation, signing for an extension, payment schedules, the cap on schedules under concurrency, the bounded
    retries of a worker, ports and proxy addresses, and the completeness of the
    verifiable random function.

  \<^bold>\<open>Bounds and loops.\<close> Every definition is total. The loops of the source are structural recursions over the list that they
  visit; the search loops of the random function run over the source's own limit of iterations, and the retries of
  a worker have a measure. The loop of a worker, which has no end, is a corecursion on streams. Only \<open>TrimSpace\<close> takes fuel, the length of the string, of which it cuts at least one byte
  per round. Sizes and limits are those of \<^verbatim>\<open>src/internal/settings/settings.go\<close>; the integers that
  can wrap are words.

  \<^bold>\<open>Choices.\<close> Randomness, the outcome of HTTP requests, the environment variables, the clock of a context (cancelled
  or not, at each check), how a processor ended (in time, abandoned, with a panic) and where else an iteration of a worker panics are arguments.
  The requests that the node sends to its extension are recorded, in order, in a field of the state (\<open>sy_forwarded\<close>), as are the responses
  that an iteration posts to the proxy in its result. An error is a value that keeps the text and
  its numbers, not the text printed by a library. A Go map visited in unspecified order is visited in the order of its
  association list; no property depends on that order.

  \<^bold>\<open>Concurrency.\<close> A section reads and writes the whole state at once; the request to an extension, for which the code holds no lock, is a section too.
    A governance check reads the signers, the Safe, the chain and the extension in a section for each accessor of the node that it calls. Where a section also reads something of the node outside the
    lock that it models (its key, its identity, a configured chain), that value is written once. The payment counter is raised and, on a
    refusal, lowered again in one section; the finer steps of the counter, in which refused reservations overlap, are \<open>routine_step\<close> of
    \<open>Sign_Processor\<close>, for which the cap is shown separately. A thread that is abandoned after its time-out is a thread that goes on.

  \<^bold>\<open>Not modelled.\<close> Listening on sockets, reading a request off a connection, the redirects of \<open>http.ServeMux\<close> for paths that are not in
  canonical form, time-outs and shutdown of the servers: they are \<open>net/http\<close>. Logging. The time that locks and
  requests take. A panic inside a handler is recovered by the router; the point of the panic is not modelled, but the state that it leaves is (that
  the recovery of the processing's goroutine does not panic itself is taken for granted; a panic in the recovery of an iteration ends the program): in the
  runs of \<open>System_Steps\<close> and \<open>Worker\<close> it is the state before all writes of the processing or the one after them (\<open>possible_attempt\<close> of
  \<open>Router\<close> says why), and in the interleaved runs it is a thread whose remaining sections do not run. Of the Go tests' fixtures, the pseudo-random
  weights of a test policy, which are computed with floating-point numbers and are an argument of \<open>Test_Client\<close>, and the sockets that
  \<open>httptest\<close> opens. The third-party parsers and the cryptography, which are parameters.
\<close>

end
